(* ===== verification/Py_Base.thy ===== *)
theory Py_Base
  imports Complex_Main "HOL-Library.List_Lexorder" "HOL-Library.Char_ord"
begin

text \<open>
  The prelude: what every component of the model shares.

  \<^item> Python values as they come out of \<open>json.loads\<close> (datatype \<open>json\<close>), with Python's
    equality against an integer or a string literal, where \<open>True == 1 == 1.0\<close>;
  \<^item> Python strings as their UTF-8 bytes, with the code-point length, \<open>strip\<close>, ASCII \<open>lower\<close>
    and the recognisers for the regular expressions the sources use;
  \<^item> exceptions as values of a sum type, and SQLite transactions: a body that ends in an
    exception is rolled back;
  \<^item> SQLite tables as lists of rows in rowid order, with SELECT, UPDATE and unique INSERT;
  \<^item> the generic lemmas on tables, and the interfaces (locales) the components share.
\<close>

named_theorems tbl \<open>rewrite rules for SELECT, UPDATE and INSERT on tables\<close>

section \<open>Exceptions\<close>

text \<open>
  Each exception class of the sources that carries a \<open>code\<close> is a constructor with that code;
  the human-readable message is not modelled.  \<open>IntegrityError\<close> is SQLite's,
  \<open>TypeError\<close>, \<open>ValueError\<close>, \<open>OverflowError\<close>, \<open>AssertionError\<close> and \<open>RuntimeError\<close> are Python's;
  a \<open>RelayPublishError\<close> also says whether the message was definitely not delivered.
\<close>

datatype exn =
    AuthorizationError string
  | ContractError string
  | SupervisorError string
  | ManagerExecutorError string
  | ShadowError string
  | ProposalError string
  | IntegrityError
  | TypeError
  | ValueError
  | OverflowError
  | StoreError string
  | AssertionError
  | RuntimeError
  | RelayPublishError string bool
  | ToolProxyError string
  | HubManifestError string

type_synonym 'a result = "exn + 'a"

text \<open>\<open>except ContractError as exc: raise AuthorizationError(exc.code, ...)\<close>\<close>

fun as_authorization_error :: "'a result \<Rightarrow> 'a result" where
  "as_authorization_error (Inl (ContractError c)) = Inl (AuthorizationError c)"
| "as_authorization_error r = r"

text \<open>\<open>except SupervisorError as exc: raise AuthorizationError(exc.code, ...)\<close>\<close>

fun supervisor_as_authorization_error :: "'a result \<Rightarrow> 'a result" where
  "supervisor_as_authorization_error (Inl (SupervisorError c)) = Inl (AuthorizationError c)"
| "supervisor_as_authorization_error r = r"

definition bind_result :: "'a result \<Rightarrow> ('a \<Rightarrow> 'b result) \<Rightarrow> 'b result" where
  "bind_result m k = (case m of Inl e \<Rightarrow> Inl e | Inr a \<Rightarrow> k a)"

lemma bind_result_simps [simp]:
  "bind_result (Inl e) k = Inl e"
  "bind_result (Inr a) k = k a"
  by (simp_all add: bind_result_def)

lemma bind_result_Inr_iff:
  "bind_result m k = Inr b \<longleftrightarrow> (\<exists>a. m = Inr a \<and> k a = Inr b)"
  by (cases m) auto

lemma as_authorization_error_Inr [simp]:
  "as_authorization_error r = Inr a \<longleftrightarrow> r = Inr a"
  by (cases r rule: as_authorization_error.cases) auto

lemma supervisor_as_authorization_error_Inr [simp]:
  "supervisor_as_authorization_error r = Inr a \<longleftrightarrow> r = Inr a"
  by (cases r rule: supervisor_as_authorization_error.cases) auto

text \<open>A list comprehension whose element expression may raise stops at the first exception.\<close>

fun map_result :: "('a \<Rightarrow> 'b result) \<Rightarrow> 'a list \<Rightarrow> 'b list result" where
  "map_result f [] = Inr []"
| "map_result f (x # xs) =
     bind_result (f x) (\<lambda>y. bind_result (map_result f xs) (\<lambda>ys. Inr (y # ys)))"

lemma map_result_length: "map_result f xs = Inr ys \<Longrightarrow> length ys = length xs"
  by (induction xs arbitrary: ys) (auto simp: bind_result_Inr_iff)

lemma map_result_all:
  "map_result f xs = Inr ys \<Longrightarrow> (\<And>x y. f x = Inr y \<Longrightarrow> P y) \<Longrightarrow> list_all P ys"
  by (induction xs arbitrary: ys) (auto simp: bind_result_Inr_iff)

section \<open>Transactions\<close>

text \<open>
  \<open>with self._connect() as connection:\<close> runs its body in a transaction.  The body returns its
  result together with the database as the statements so far have left it, also when it raises;
  the context manager commits on a normal exit and rolls back on an exception.
\<close>

definition transaction :: "('s \<Rightarrow> 'a result \<times> 's) \<Rightarrow> 's \<Rightarrow> 'a result \<times> 's" where
  "transaction body s =
     (case body s of (Inl e, _) \<Rightarrow> (Inl e, s) | (Inr a, s') \<Rightarrow> (Inr a, s'))"

lemma transaction_Inr_iff:
  "transaction body s = (Inr a, s') \<longleftrightarrow> body s = (Inr a, s')"
  by (auto simp: transaction_def split: prod.splits sum.splits)

lemma transaction_Inl_iff:
  "transaction body s = (Inl e, s') \<longleftrightarrow> fst (body s) = Inl e \<and> s' = s"
  by (auto simp: transaction_def split: prod.splits sum.splits)

lemma transaction_state:
  "snd (transaction body s) = (case fst (body s) of Inl _ \<Rightarrow> s | Inr _ \<Rightarrow> snd (body s))"
  by (auto simp: transaction_def split: prod.splits sum.splits)

lemma transaction_result: "fst (transaction body s) = fst (body s)"
  by (auto simp: transaction_def split: prod.splits sum.splits)

section \<open>Tables\<close>

definition select_one :: "('r \<Rightarrow> bool) \<Rightarrow> 'r list \<Rightarrow> 'r option" where
  "select_one p t = find p t"

definition update_where :: "('r \<Rightarrow> bool) \<Rightarrow> ('r \<Rightarrow> 'r) \<Rightarrow> 'r list \<Rightarrow> 'r list" where
  "update_where p f t = map (\<lambda>r. if p r then f r else r) t"

definition rowcount :: "('r \<Rightarrow> bool) \<Rightarrow> 'r list \<Rightarrow> nat" where
  "rowcount p t = length (filter p t)"

definition insert_row :: "'r \<Rightarrow> 'r list \<Rightarrow> 'r list" where
  "insert_row r t = t @ [r]"

text \<open>The row with the least key, the first of them in rowid order: \<open>ORDER BY k LIMIT 1\<close>.\<close>

fun first_min :: "('r \<Rightarrow> 'k::linorder) \<Rightarrow> 'r list \<Rightarrow> 'r option" where
  "first_min k [] = None"
| "first_min k (r # rs) =
     (case first_min k rs of
        None \<Rightarrow> Some r
      | Some m \<Rightarrow> if k r \<le> k m then Some r else Some m)"

lemma select_one_Some_iff [tbl]:
  "select_one p t = Some r \<Longrightarrow> r \<in> set t \<and> p r"
  by (metis find_Some_iff nth_mem select_one_def)

lemma select_one_None_iff: "select_one p t = None \<longleftrightarrow> (\<forall>r \<in> set t. \<not> p r)"
  by (auto simp: select_one_def find_None_iff)

lemma select_one_simps [simp]:
  "select_one p [] = None"
  "select_one p (r # t) = (if p r then Some r else select_one p t)"
  by (simp_all add: select_one_def)

lemma select_one_append [simp]:
  "select_one p (t @ u) = (case select_one p t of None \<Rightarrow> select_one p u | Some r \<Rightarrow> Some r)"
  by (induction t) auto

lemma select_one_key:
  assumes "distinct (map k t)" and "r \<in> set t"
  shows "select_one (\<lambda>x. k x = k r) t = Some r"
  using assms by (induction t) auto

lemma select_one_key_eq:
  "distinct (map k t) \<Longrightarrow> r \<in> set t \<Longrightarrow> k r = v \<Longrightarrow> select_one (\<lambda>x. k x = v) t = Some r"
  using select_one_key [of k t r] by simp

lemma filter_key_length:
  assumes "distinct (map k t)" and "r \<in> set t"
  shows "length (filter (\<lambda>x. k x = k r) t) = 1"
  using assms
proof (induction t)
  case (Cons a t)
  then show ?case
    by (cases "a = r") (auto simp: filter_empty_conv image_iff)
qed simp

lemma distinct_all_equal:
  assumes "distinct xs" and "\<And>x y. x \<in> set xs \<Longrightarrow> y \<in> set xs \<Longrightarrow> x = y"
  shows "length xs \<le> 1"
proof -
  have "card (set xs) \<le> Suc 0" using assms(2) by (subst card_le_Suc0_iff_eq) auto
  with assms(1) show ?thesis by (simp add: distinct_card)
qed

lemma update_where_simps [simp]:
  "update_where p f [] = []"
  "update_where p f (r # t) = (if p r then f r else r) # update_where p f t"
  by (simp_all add: update_where_def)

lemma update_where_append [simp]:
  "update_where p f (t @ u) = update_where p f t @ update_where p f u"
  by (simp add: update_where_def)

lemma length_update_where [simp]: "length (update_where p f t) = length t"
  by (simp add: update_where_def)

lemma set_update_where:
  "set (update_where p f t) = (\<lambda>r. if p r then f r else r) ` set t"
  by (simp add: update_where_def)

lemma update_where_mem:
  "x \<in> set (update_where p f t) \<longleftrightarrow> (\<exists>r \<in> set t. x = (if p r then f r else r))"
  by (auto simp: set_update_where)

lemma update_where_hit: "r \<in> set t \<Longrightarrow> p r \<Longrightarrow> f r \<in> set (update_where p f t)"
  by (force simp: update_where_mem)

lemma update_where_survives:
  assumes "r \<in> set t" and "p r \<Longrightarrow> Q r (f r)" and "\<not> p r \<Longrightarrow> Q r r"
  shows "\<exists>r' \<in> set (update_where p f t). Q r r'"
  using assms by (cases "p r") (force simp: update_where_mem)+

lemma filter_length_mono: "(\<And>x. p x \<Longrightarrow> q x) \<Longrightarrow> length (filter p xs) \<le> length (filter q xs)"
  by (induction xs) (auto intro: le_SucI)

lemma update_where_id: "(\<forall>r \<in> set t. \<not> p r) \<Longrightarrow> update_where p f t = t"
  by (induction t) auto

lemma map_update_where:
  "(\<And>r. k (f r) = k r) \<Longrightarrow> map k (update_where p f t) = map k t"
  by (induction t) auto

lemma filter_update_where:
  "(\<And>r. q (f r) = q r) \<Longrightarrow> filter q (update_where p f t) = update_where p f (filter q t)"
  by (induction t) auto

lemma select_one_update_where:
  "(\<And>r. q (f r) = q r) \<Longrightarrow>
   select_one q (update_where p f t) = map_option (\<lambda>r. if p r then f r else r) (select_one q t)"
  by (induction t) auto

lemma insert_row_simps [simp]:
  "set (insert_row r t) = insert r (set t)"
  "map k (insert_row r t) = map k t @ [k r]"
  "filter q (insert_row r t) = filter q t @ (if q r then [r] else [])"
  "length (insert_row r t) = Suc (length t)"
  by (auto simp: insert_row_def)

lemma rowcount_0_iff: "rowcount p t = 0 \<longleftrightarrow> (\<forall>r \<in> set t. \<not> p r)"
  by (simp add: rowcount_def filter_empty_conv)

lemma first_min_mem: "first_min k t = Some r \<Longrightarrow> r \<in> set t"
  by (induction t arbitrary: r) (auto split: option.splits if_splits)

lemma first_min_None [simp]: "first_min k t = None \<longleftrightarrow> t = []"
  by (cases t) (auto split: option.splits)

lemma first_min_le: "first_min k t = Some r \<Longrightarrow> x \<in> set t \<Longrightarrow> k r \<le> k x"
proof (induction t arbitrary: r x)
  case Nil
  then show ?case by simp
next
  case (Cons a t)
  then show ?case
    by (cases "first_min k t") (fastforce split: if_splits)+
qed

text \<open>
  The contract of an UPDATE statement that leaves the columns of a key alone: the key column, as
  a list, is unchanged, so primary keys stay distinct, a lookup by key finds the same row up to
  the update, and no row appears or disappears.
\<close>

locale key_preserving =
  fixes key :: "'r \<Rightarrow> 'k" and f :: "'r \<Rightarrow> 'r"
  assumes key_f: "key (f r) = key r"
begin

lemma keys: "map key (update_where p f t) = map key t"
  by (rule map_update_where) (rule key_f)

lemma distinct_keys: "distinct (map key (update_where p f t)) \<longleftrightarrow> distinct (map key t)"
  by (simp add: keys)

lemma lookup:
  "select_one (\<lambda>r. key r = v) (update_where p f t) =
     map_option (\<lambda>r. if p r then f r else r) (select_one (\<lambda>r. key r = v) t)"
  by (rule select_one_update_where) (simp add: key_f)

lemma lookup_None:
  "select_one (\<lambda>r. key r = v) (update_where p f t) = None \<longleftrightarrow>
     select_one (\<lambda>r. key r = v) t = None"
  by (simp add: lookup)

end

section \<open>Transition systems with an invariant\<close>

text \<open>
  The contract between a store and the properties stated over its reachable states: the initial
  state satisfies the invariant and every step keeps it.
\<close>

inductive reach :: "'s \<Rightarrow> ('s \<Rightarrow> 's \<Rightarrow> bool) \<Rightarrow> 's \<Rightarrow> bool" for s0 step where
  start: "reach s0 step s0"
| next_state: "reach s0 step s \<Longrightarrow> step s t \<Longrightarrow> reach s0 step t"

locale inv_system =
  fixes s0 :: 's and step :: "'s \<Rightarrow> 's \<Rightarrow> bool" and inv :: "'s \<Rightarrow> bool"
  assumes inv_start: "inv s0"
    and inv_step: "inv s \<Longrightarrow> step s t \<Longrightarrow> inv t"
begin

lemma invariant: "reach s0 step s \<Longrightarrow> inv s"
  by (induction rule: reach.induct) (auto intro: inv_start inv_step)

lemma invariant_from: "step\<^sup>*\<^sup>* s t \<Longrightarrow> inv s \<Longrightarrow> inv t"
  by (induction rule: rtranclp_induct) (auto intro: inv_step)

end

lemma reach_rtranclp: "reach s0 step s \<longleftrightarrow> step\<^sup>*\<^sup>* s0 s"
proof
  show "reach s0 step s \<Longrightarrow> step\<^sup>*\<^sup>* s0 s"
    by (induction rule: reach.induct) auto
  show "step\<^sup>*\<^sup>* s0 s \<Longrightarrow> reach s0 step s"
    by (induction rule: rtranclp_induct) (auto intro: reach.intros)
qed

section \<open>JSON values\<close>

text \<open>
  The values \<open>json.loads\<close> produces.  A float is NaN, an infinity (Python's parser accepts both)
  or a finite number; an object is a dict, an association list with distinct keys in insertion
  order.
\<close>

datatype pyfloat = FNaN | FPosInf | FNegInf | FFin rat

datatype json =
    JNull
  | JBool bool
  | JInt int
  | JFloat pyfloat
  | JStr string
  | JList "json list"
  | JObj "(string \<times> json) list"

text \<open>\<open>v == n\<close> for an int literal \<open>n\<close>: Python's booleans are the ints 0 and 1.\<close>

fun py_eq_int :: "json \<Rightarrow> int \<Rightarrow> bool" where
  "py_eq_int (JInt i) n = (i = n)"
| "py_eq_int (JBool b) n = ((if b then 1 else 0) = n)"
| "py_eq_int (JFloat (FFin q)) n = (q = of_int n)"
| "py_eq_int _ n = False"

text \<open>\<open>value.get(field)\<close> and \<open>value[field]\<close>; the key set of a dict.\<close>

definition get_field :: "(string \<times> json) list \<Rightarrow> string \<Rightarrow> json" where
  "get_field kvs k = (case map_of kvs k of None \<Rightarrow> JNull | Some v \<Rightarrow> v)"

definition keys_of :: "(string \<times> json) list \<Rightarrow> string set" where
  "keys_of kvs = set (map fst kvs)"

fun is_hashable :: "json \<Rightarrow> bool" where
  "is_hashable (JList _) = False"
| "is_hashable (JObj _) = False"
| "is_hashable _ = True"

text \<open>
  \<open>v in frozenset_of_str\<close>: a list or a dict is unhashable, so the test itself raises TypeError.
\<close>

definition in_string_set :: "json \<Rightarrow> string set \<Rightarrow> bool result" where
  "in_string_set v S =
     (if \<not> is_hashable v then Inl TypeError
      else Inr (case v of JStr s \<Rightarrow> s \<in> S | _ \<Rightarrow> False))"

section \<open>Strings\<close>

text \<open>
  A Python string is modelled by its UTF-8 encoding (a \<open>string\<close> of bytes); lone surrogates have
  none and are not modelled.  \<open>uchars\<close> splits the bytes into code points.
\<close>

definition byte :: "char \<Rightarrow> nat" where
  "byte c = of_char c"

definition is_cont :: "char \<Rightarrow> bool" where
  "is_cont c \<longleftrightarrow> 128 \<le> byte c \<and> byte c < 192"

function uchars :: "string \<Rightarrow> string list" where
  "uchars [] = []"
| "uchars (c # cs) = (c # takeWhile is_cont cs) # uchars (dropWhile is_cont cs)"
  by pat_completeness auto
termination
  by (relation "measure length") (simp_all add: le_imp_less_Suc length_dropWhile_le)

lemma concat_uchars: "concat (uchars s) = s"
  by (induction s rule: uchars.induct) simp_all

text \<open>\<open>len(s)\<close>\<close>

definition py_len :: "string \<Rightarrow> nat" where
  "py_len s = length (uchars s)"

text \<open>\<open>str.isspace\<close> on one code point, the set \<open>strip()\<close> and the regex class \<open>\s\<close> use.\<close>

definition is_space :: "string \<Rightarrow> bool" where
  "is_space u \<longleftrightarrow> map byte u \<in> set
     ([[9], [10], [11], [12], [13], [28], [29], [30], [31], [32], [194, 133], [194, 160],
       [225, 154, 128]] @ map (\<lambda>n. [226, 128, n]) [128, 129, 130, 131, 132, 133, 134, 135, 136,
         137, 138, 168, 169, 175] @ [[226, 129, 159], [227, 128, 128]])"

definition py_strip :: "string \<Rightarrow> string" where
  "py_strip s =
     concat (rev (dropWhile is_space (rev (dropWhile is_space (uchars s)))))"

definition ascii_lower :: "char \<Rightarrow> char" where
  "ascii_lower c = (if 65 \<le> byte c \<and> byte c \<le> 90 then char_of (byte c + 32) else c)"

definition ascii_upper :: "char \<Rightarrow> char" where
  "ascii_upper c = (if 97 \<le> byte c \<and> byte c \<le> 122 then char_of (byte c - 32) else c)"

text \<open>\<open>text.startswith(p)\<close>\<close>

definition is_prefix :: "'c list \<Rightarrow> 'c list \<Rightarrow> bool" where
  "is_prefix p text \<longleftrightarrow> take (length p) text = p"

lemma is_prefix_simps [simp]:
  "is_prefix [] text"
  "\<not> is_prefix (c # p) []"
  "is_prefix (c # p) (d # text) \<longleftrightarrow> c = d \<and> is_prefix p text"
  by (auto simp: is_prefix_def)

text \<open>\<open>needle in haystack\<close>\<close>

fun is_infix :: "'a list \<Rightarrow> 'a list \<Rightarrow> bool" where
  "is_infix xs [] = (xs = [])"
| "is_infix xs (y # ys) = (is_prefix xs (y # ys) \<or> is_infix xs ys)"

section \<open>Character classes and full matches\<close>

definition is_digit :: "char \<Rightarrow> bool" where
  "is_digit c \<longleftrightarrow> 48 \<le> byte c \<and> byte c \<le> 57"

definition is_lower :: "char \<Rightarrow> bool" where
  "is_lower c \<longleftrightarrow> 97 \<le> byte c \<and> byte c \<le> 122"

definition is_upper :: "char \<Rightarrow> bool" where
  "is_upper c \<longleftrightarrow> 65 \<le> byte c \<and> byte c \<le> 90"

definition is_alnum :: "char \<Rightarrow> bool" where
  "is_alnum c \<longleftrightarrow> is_digit c \<or> is_lower c \<or> is_upper c"

definition is_hex_lower :: "char \<Rightarrow> bool" where
  "is_hex_lower c \<longleftrightarrow> is_digit c \<or> (97 \<le> byte c \<and> byte c \<le> 102)"

definition is_hex_upper :: "char \<Rightarrow> bool" where
  "is_hex_upper c \<longleftrightarrow> is_digit c \<or> (65 \<le> byte c \<and> byte c \<le> 70)"

text \<open>A pattern with one class per character, and the pattern \<open>first rest{lo,hi}\<close>.\<close>

definition matches :: "(char \<Rightarrow> bool) list \<Rightarrow> string \<Rightarrow> bool" where
  "matches ps s \<longleftrightarrow> list_all2 (\<lambda>p c. p c) ps s"

definition matches_ident ::
  "(char \<Rightarrow> bool) \<Rightarrow> (char \<Rightarrow> bool) \<Rightarrow> nat \<Rightarrow> nat \<Rightarrow> string \<Rightarrow> bool" where
  "matches_ident p q lo hi s =
     (case s of [] \<Rightarrow> False
      | c # cs \<Rightarrow> p c \<and> list_all q cs \<and> lo \<le> length cs \<and> length cs \<le> hi)"

definition lit :: "string \<Rightarrow> (char \<Rightarrow> bool) list" where
  "lit s = map (=) s"

lemma matches_length: "matches ps s \<Longrightarrow> length s = length ps"
  by (auto simp: matches_def dest: list_all2_lengthD)

lemma matches_append:
  "matches (ps @ qs) s \<longleftrightarrow>
     matches ps (take (length ps) s) \<and> matches qs (drop (length ps) s)"
  unfolding matches_def
proof (induction ps arbitrary: s)
  case Nil
  then show ?case by simp
next
  case (Cons p ps)
  then show ?case by (cases s) auto
qed

lemma matches_lit: "matches (lit p) s \<longleftrightarrow> s = p"
  unfolding matches_def lit_def
  by (induction p arbitrary: s) (auto simp: list_all2_Cons1)

lemma matches_replicate: "matches (replicate n p) s \<longleftrightarrow> length s = n \<and> list_all p s"
  unfolding matches_def
proof (induction n arbitrary: s)
  case 0
  then show ?case by auto
next
  case (Suc n)
  then show ?case by (cases s) auto
qed

section \<open>Decimal numerals and canonical JSON\<close>

fun show_nat :: "nat \<Rightarrow> string" where
  "show_nat n = (if n < 10 then [char_of (48 + n)] else show_nat (n div 10) @ [char_of (48 + n mod 10)])"

declare show_nat.simps [simp del]

definition show_int :: "int \<Rightarrow> string" where
  "show_int i = (if i < 0 then ''-'' @ show_nat (nat (- i)) else show_nat (nat i))"

text \<open>\<open>json.dumps(..., ensure_ascii=False)\<close> escapes the quote, the backslash and the controls.\<close>

definition hex_digit :: "nat \<Rightarrow> char" where
  "hex_digit n = (if n < 10 then char_of (48 + n) else char_of (87 + n))"

definition json_escape :: "char \<Rightarrow> string" where
  "json_escape c =
     (if byte c = 34 then [CHR 0x5C, CHR 0x22]
      else if byte c = 92 then [CHR 0x5C, CHR 0x5C]
      else if byte c = 8 then [CHR 0x5C, CHR ''b'']
      else if byte c = 9 then [CHR 0x5C, CHR ''t'']
      else if byte c = 10 then [CHR 0x5C, CHR ''n'']
      else if byte c = 12 then [CHR 0x5C, CHR ''f'']
      else if byte c = 13 then [CHR 0x5C, CHR ''r'']
      else if byte c < 32 then
        [CHR 0x5C, CHR ''u'', CHR ''0'', CHR ''0'', hex_digit (byte c div 16), hex_digit (byte c mod 16)]
      else [c])"

definition json_quote :: "string \<Rightarrow> string" where
  "json_quote s = [CHR 0x22] @ concat (map json_escape s) @ [CHR 0x22]"

fun join :: "string \<Rightarrow> string list \<Rightarrow> string" where
  "join sep [] = []"
| "join sep [x] = x"
| "join sep (x # y # xs) = x @ sep @ join sep (y # xs)"

text \<open>
  \<open>json.dumps(value, ensure_ascii=False, sort_keys=True, separators=(",", ":"))\<close>; the shortest
  decimal rendering of a float is the runtime's (\<open>float.__repr__\<close>), a parameter.
\<close>

fun canonical_json_of :: "(pyfloat \<Rightarrow> string) \<Rightarrow> json \<Rightarrow> string" where
  "canonical_json_of fl JNull = ''null''"
| "canonical_json_of fl (JBool b) = (if b then ''true'' else ''false'')"
| "canonical_json_of fl (JInt i) = show_int i"
| "canonical_json_of fl (JFloat x) = fl x"
| "canonical_json_of fl (JStr s) = json_quote s"
| "canonical_json_of fl (JList vs) = ''['' @ join '','' (map (canonical_json_of fl) vs) @ '']''"
| "canonical_json_of fl (JObj kvs) =
     ''{'' @ join '','' (map (\<lambda>(k, t). json_quote k @ '':'' @ t)
        (sort_key fst (map (\<lambda>(k, v). (k, canonical_json_of fl v)) kvs))) @ ''}''"

end
