(* ===== verification/Contract.thy ===== *)
theory Contract
  imports Py_Base
begin

text \<open>
  \<open>ha_operations_broker/operations_broker/contract.py\<close>: the deterministic validation of
  everything that reaches the Broker from outside.  Each validator is a function from an arbitrary
  JSON value to a result, with the source's checks in the source's order; what they accept is a
  record.

  Parameters (record \<open>pyenv\<close>): the SHA-256 digest, the runtime's \<open>datetime.fromisoformat\<close>,
  \<open>urllib.parse.urlsplit\<close>, the Unicode alphanumeric table behind the regex class \<open>\w\<close> and
  \<open>float.__repr__\<close>.  Every theorem holds for all of them unless it says otherwise.
  An instant is an \<open>int\<close>, microseconds since the epoch, in UTC.
\<close>

section \<open>The runtime\<close>

datatype iso_parse = IsoInvalid | IsoNaive | IsoAware int | IsoOverflow

record url =
  url_scheme :: string
  url_hostname :: string
  url_username :: string
  url_password :: string
  url_path :: string
  url_query :: string
  url_fragment :: string

record pyenv =
  sha256_hex :: "string \<Rightarrow> string"
  fromisoformat :: "string \<Rightarrow> iso_parse"
  urlsplit :: "string \<Rightarrow> url option"
  uni_alnum :: "string \<Rightarrow> bool"
  float_repr :: "pyfloat \<Rightarrow> string"

definition canonical_json :: "pyenv \<Rightarrow> json \<Rightarrow> string" where
  "canonical_json env v = canonical_json_of (float_repr env) v"

definition sha256_text :: "pyenv \<Rightarrow> string \<Rightarrow> string" where
  "sha256_text env s = sha256_hex env s"

text \<open>\<open>value.replace(microsecond=0)\<close> in UTC: the instant the second-precision text denotes.\<close>

definition whole_second :: "int \<Rightarrow> int" where
  "whole_second t = t - t mod 1000000"

lemma whole_second_le: "whole_second t \<le> t"
  by (simp add: whole_second_def)

lemma whole_second_gt: "t - 1000000 < whole_second t"
  by (simp add: whole_second_def)

lemma whole_second_idem [simp]: "whole_second (whole_second t) = whole_second t"
  by (simp add: whole_second_def mod_diff_eq [symmetric])

lemma whole_second_mono: "s \<le> t \<Longrightarrow> whole_second s \<le> whole_second t"
  unfolding whole_second_def minus_mod_eq_mult_div
  by (simp add: zdiv_mono1)

definition seconds :: "int \<Rightarrow> int" where
  "seconds n = n * 1000000"

lemma whole_second_add_seconds [simp]: "whole_second (t + seconds n) = whole_second t + seconds n"
  by (simp add: whole_second_def seconds_def)

section \<open>Policy tables and field sets\<close>

definition ACTION_RISKS :: "(string \<times> string) list" where
  "ACTION_RISKS =
    [(''check_ha_config'', ''L1''),
     (''install_addon'', ''L3''),
     (''configure_addon'', ''L3''),
     (''start_addon'', ''L3''),
     (''stop_addon'', ''L3''),
     (''restart_addon'', ''L3''),
     (''update_addon'', ''L3''),
     (''repair_addon'', ''L3''),
     (''uninstall_addon'', ''L3''),
     (''install_hacs'', ''L3''),
     (''update_hacs'', ''L3''),
     (''repair_hacs'', ''L3''),
     (''remove_hacs'', ''L3''),
     (''start_config_flow'', ''L3''),
     (''enable_integration'', ''L3''),
     (''disable_integration'', ''L3''),
     (''reload_integration'', ''L3''),
     (''remove_integration'', ''L3''),
     (''restart_core'', ''L3''),
     (''create_backup'', ''L3''),
     (''purge_recorder'', ''L3''),
     (''delete_expired_backup'', ''L3''),
     (''cleanup_allowlisted_cache'', ''L3'')]"

definition NATIVE_INTENT_FIELDS :: "string list" where
  "NATIVE_INTENT_FIELDS = [''version'', ''action_type'', ''target'', ''idempotency_key'']"

definition NATIVE_AUTHORIZATION_REQUEST_FIELDS :: "string list" where
  "NATIVE_AUTHORIZATION_REQUEST_FIELDS = [''version'', ''action_id'']"

definition EXECUTION_REQUEST_FIELDS :: "string list" where
  "EXECUTION_REQUEST_FIELDS =
     [''version'', ''receipt_id'', ''action_id'', ''proposal_hash'', ''idempotency_key'']"

definition RECOVERY_RESOLUTION_FIELDS :: "string list" where
  "RECOVERY_RESOLUTION_FIELDS = [''version'', ''resolution'', ''evidence_hash'']"

definition RECOVERY_RESOLUTIONS :: "string list" where
  "RECOVERY_RESOLUTIONS = [''confirmed_healthy'', ''compensated'']"

definition BACKUP_EVIDENCE_FIELDS :: "string list" where
  "BACKUP_EVIDENCE_FIELDS =
     [''version'', ''scope'', ''logical_id'', ''completed'', ''created_at'', ''size'', ''sha256'',
      ''off_device_sha256'', ''readable'', ''baseline'', ''expires_at'']"

definition BACKUP_EVIDENCE_SCOPES :: "string list" where
  "BACKUP_EVIDENCE_SCOPES = [''full'', ''addon'', ''dashboard'', ''recorder'']"

definition SENSITIVE_KEY_PARTS :: "string list" where
  "SENSITIVE_KEY_PARTS =
     [''accesskey'', ''apikey'', ''authorization'', ''cookie'', ''credential'', ''password'',
      ''privatekey'', ''refreshtoken'', ''secret'', ''token'']"

definition PROPOSAL_HASH_FIELDS :: "string list" where
  "PROPOSAL_HASH_FIELDS =
     [''version'', ''action_id'', ''action_type'', ''target'', ''parameter_summary'',
      ''risk_level'', ''requires_backup'', ''expected_change'', ''validation_plan'',
      ''rollback_plan'', ''created_at'', ''expires_at'', ''state'']"

definition PROPOSAL_ALLOWED_FIELDS :: "string list" where
  "PROPOSAL_ALLOWED_FIELDS = PROPOSAL_HASH_FIELDS @ [''parameter_summary_hash'', ''proposal_hash'']"

definition NATIVE_PROPOSAL_HASH_FIELDS :: "string list" where
  "NATIVE_PROPOSAL_HASH_FIELDS =
     [''version'', ''action_id'', ''action_type'', ''target'', ''parameter_summary'',
      ''risk_level'', ''requires_backup'', ''expected_change'', ''validation_plan'',
      ''rollback_plan'', ''policy_epoch'', ''policy_hash'', ''allowlist_hash'',
      ''adapter_version'', ''adapter_schema_version'', ''baseline_etag'',
      ''backup_evidence_id'', ''created_at'', ''expires_at'', ''state'']"

definition APPROVAL_REQUIRED_FIELDS :: "string list" where
  "APPROVAL_REQUIRED_FIELDS =
     [''version'', ''action_id'', ''proposal_hash'', ''state'', ''approved_by_hash'',
      ''approved_at'', ''expires_at'']"

section \<open>Regular expressions\<close>

definition ACTION_ID_RE :: "string \<Rightarrow> bool" where
  "ACTION_ID_RE =
     matches (lit ''OPS-'' @ replicate 8 is_digit @ lit ''-'' @ replicate 12 is_hex_upper)"

definition TARGET_RE :: "string \<Rightarrow> bool" where
  "TARGET_RE = matches_ident is_alnum (\<lambda>c. is_alnum c \<or> c \<in> set ''_.:/-'') 0 127"

definition PARAMETER_KEY_RE :: "string \<Rightarrow> bool" where
  "PARAMETER_KEY_RE =
     matches_ident (\<lambda>c. is_lower c \<or> is_upper c) (\<lambda>c. is_alnum c \<or> c \<in> set ''_.:-'') 0 63"

definition IDENTITY_HASH_RE :: "string \<Rightarrow> bool" where
  "IDENTITY_HASH_RE = matches (replicate 64 is_hex_lower)"

definition SHA256_RE :: "string \<Rightarrow> bool" where
  "SHA256_RE = matches (lit ''sha256:'' @ replicate 64 is_hex_lower)"

definition BACKUP_EVIDENCE_ID_RE :: "string \<Rightarrow> bool" where
  "BACKUP_EVIDENCE_ID_RE = matches_ident is_alnum (\<lambda>c. is_alnum c \<or> c \<in> set ''_.:-'') 7 127"

definition RECEIPT_ID_RE :: "string \<Rightarrow> bool" where
  "RECEIPT_ID_RE = matches (lit ''RCPT-'' @ replicate 32 is_hex_upper)"

text \<open>\<open>^[a-z0-9][a-z0-9_]{0,63}$\<close>, an exact Add-on slug.\<close>

definition ADDON_SLUG_RE :: "string \<Rightarrow> bool" where
  "ADDON_SLUG_RE =
     matches_ident (\<lambda>c. is_lower c \<or> is_digit c) (\<lambda>c. is_lower c \<or> is_digit c \<or> c = CHR ''_'') 0 63"

text \<open>
  \<open>SENSITIVE_VALUE_RE.search\<close>, case-insensitively over code points.  Besides ASCII letters,
  Python's \<open>IGNORECASE\<close> matches U+0130 and U+0131 with \<open>i\<close>, U+017F with \<open>s\<close> and U+212A with
  \<open>k\<close>; \<open>fold_case\<close> maps a code point to the letter it matches.
\<close>

definition fold_case :: "string \<Rightarrow> string" where
  "fold_case u =
     (if map byte u = [196, 176] \<or> map byte u = [196, 177] then ''i''
      else if map byte u = [197, 191] then ''s''
      else if map byte u = [226, 132, 170] then ''k''
      else map ascii_lower u)"

definition is_word :: "pyenv \<Rightarrow> string \<Rightarrow> bool" where
  "is_word env u \<longleftrightarrow>
     (case u of [c] \<Rightarrow> is_alnum c \<or> c = CHR ''_'' | _ \<Rightarrow> uni_alnum env u)"

definition fold_class :: "(char \<Rightarrow> bool) \<Rightarrow> string \<Rightarrow> bool" where
  "fold_class p u = (case fold_case u of [c] \<Rightarrow> p c | _ \<Rightarrow> False)"

definition starts_folded :: "string \<Rightarrow> string list \<Rightarrow> bool" where
  "starts_folded p us \<longleftrightarrow> is_prefix (map (\<lambda>c. [c]) p) (map fold_case us)"

text \<open>The four alternatives at one position; \<open>boundary\<close> tells whether a word can start there.\<close>

definition private_key_at :: "string list \<Rightarrow> bool" where
  "private_key_at us \<longleftrightarrow>
     starts_folded ''-----begin '' us \<and>
     (let rest = drop 11 us;
          n = length (takeWhile (fold_class (\<lambda>c. is_lower c \<or> c = CHR '' '')) rest)
      in list_ex (\<lambda>k. starts_folded ''private key-----'' (drop k rest)) [0..<Suc n])"

definition bearer_at :: "string list \<Rightarrow> bool" where
  "bearer_at us \<longleftrightarrow>
     starts_folded ''bearer'' us \<and>
     (case drop 6 us of [] \<Rightarrow> False
      | u # rest \<Rightarrow> is_space u \<and> dropWhile is_space rest \<noteq> [])"

definition sk_at :: "string list \<Rightarrow> bool" where
  "sk_at us \<longleftrightarrow>
     starts_folded ''sk-'' us \<and>
     16 \<le> length (takeWhile
             (fold_class (\<lambda>c. is_lower c \<or> is_digit c \<or> c = CHR ''_'' \<or> c = CHR ''-''))
             (drop 3 us))"

definition akia_at :: "pyenv \<Rightarrow> string list \<Rightarrow> bool" where
  "akia_at env us \<longleftrightarrow>
     starts_folded ''akia'' us \<and>
     (let rest = drop 4 us
      in 16 \<le> length (takeWhile (fold_class (\<lambda>c. is_lower c \<or> is_digit c)) rest) \<and>
         (case drop 16 rest of [] \<Rightarrow> True | u # _ \<Rightarrow> \<not> is_word env u))"

fun sensitive_from :: "pyenv \<Rightarrow> bool \<Rightarrow> string list \<Rightarrow> bool" where
  "sensitive_from env boundary [] = False"
| "sensitive_from env boundary (u # us) =
     (private_key_at (u # us) \<or>
      (boundary \<and> (bearer_at (u # us) \<or> sk_at (u # us) \<or> akia_at env (u # us))) \<or>
      sensitive_from env (\<not> is_word env u) us)"

definition SENSITIVE_VALUE_RE :: "pyenv \<Rightarrow> string \<Rightarrow> bool" where
  "SENSITIVE_VALUE_RE env s = sensitive_from env True (uchars s)"

section \<open>Digests\<close>

definition allowlist_fingerprint :: "pyenv \<Rightarrow> string set \<Rightarrow> string" where
  "allowlist_fingerprint env values =
     ''sha256:'' @ sha256_text env
       (canonical_json env (JList (map JStr (sorted_list_of_set values))))"

definition addon_baseline_etag :: "pyenv \<Rightarrow> json \<Rightarrow> string result" where
  "addon_baseline_etag env observation =
     (case observation of
        JObj kvs \<Rightarrow>
          (case (get_field kvs ''slug'', get_field kvs ''state'', get_field kvs ''version'',
                 get_field kvs ''installed'') of
             (JStr slug, JStr state, JStr version, JBool installed) \<Rightarrow>
               if slug = [] \<or> state = [] \<or> version = [] then Inl (ContractError ''baseline_invalid'')
               else Inr (''sha256:'' @ sha256_text env (canonical_json env
                      (JObj [(''slug'', JStr slug), (''state'', JStr state),
                             (''version'', JStr version), (''installed'', JBool installed)])))
           | _ \<Rightarrow> Inl (ContractError ''baseline_invalid''))
      | _ \<Rightarrow> Inl (ContractError ''baseline_invalid''))"

definition parse_timestamp :: "pyenv \<Rightarrow> json \<Rightarrow> int result" where
  "parse_timestamp env value =
     (case value of
        JStr s \<Rightarrow>
          if py_len s > 64 then Inl (ContractError ''invalid_timestamp'')
          else (case fromisoformat env s of
                  IsoInvalid \<Rightarrow> Inl (ContractError ''invalid_timestamp'')
                | IsoNaive \<Rightarrow> Inl (ContractError ''invalid_timestamp'')
                | IsoAware t \<Rightarrow> Inr t
                | IsoOverflow \<Rightarrow> Inl OverflowError)
      | _ \<Rightarrow> Inl (ContractError ''invalid_timestamp''))"

fun split_on :: "char \<Rightarrow> string \<Rightarrow> string list" where
  "split_on d [] = [[]]"
| "split_on d (c # cs) =
     (if c = d then [] # split_on d cs
      else (case split_on d cs of [] \<Rightarrow> [[c]] | p # ps \<Rightarrow> (c # p) # ps))"

definition parse_owner_hashes :: "string \<Rightarrow> string set result" where
  "parse_owner_hashes raw =
     (let owners = map (map ascii_lower)
                     (filter (\<lambda>item. item \<noteq> []) (map py_strip (split_on (CHR '','') raw)))
      in if list_ex (\<lambda>item. \<not> IDENTITY_HASH_RE item) owners
         then Inl (ContractError ''invalid_owner_config'') else Inr (set owners))"

section \<open>Backup evidence\<close>

record evidence =
  be_scope :: string
  be_logical_id :: string
  be_completed :: bool
  be_created_at :: int
  be_size :: int
  be_sha256 :: string
  be_off_device_sha256 :: string
  be_readable :: bool
  be_baseline :: string
  be_expires_at :: int

definition is_sha256 :: "json \<Rightarrow> bool" where
  "is_sha256 v = (case v of JStr s \<Rightarrow> SHA256_RE s | _ \<Rightarrow> False)"

definition str_of :: "json \<Rightarrow> string" where
  "str_of v = (case v of JStr s \<Rightarrow> s | _ \<Rightarrow> [])"

definition evidence_id_ok :: "pyenv \<Rightarrow> json \<Rightarrow> bool" where
  "evidence_id_ok env v =
     (case v of JStr s \<Rightarrow> BACKUP_EVIDENCE_ID_RE s \<and> \<not> SENSITIVE_VALUE_RE env s | _ \<Rightarrow> False)"

definition evidence_size_ok :: "json \<Rightarrow> bool" where
  "evidence_size_ok v =
     (case v of JInt n \<Rightarrow> 1 \<le> n \<and> n \<le> 9223372036854775807 | _ \<Rightarrow> False)"

definition int_of_json :: "json \<Rightarrow> int" where
  "int_of_json v = (case v of JInt n \<Rightarrow> n | _ \<Rightarrow> 0)"

definition validate_backup_evidence :: "pyenv \<Rightarrow> json \<Rightarrow> int \<Rightarrow> evidence result" where
  "validate_backup_evidence env value now =
     (case value of
        JObj kvs \<Rightarrow>
          if keys_of kvs \<noteq> set BACKUP_EVIDENCE_FIELDS
          then Inl (ContractError ''backup_evidence_fields_invalid'')
          else if \<not> py_eq_int (get_field kvs ''version'') 1
          then Inl (ContractError ''backup_evidence_version_invalid'')
          else bind_result (in_string_set (get_field kvs ''scope'') (set BACKUP_EVIDENCE_SCOPES))
            (\<lambda>scope_ok.
             if \<not> scope_ok then Inl (ContractError ''backup_evidence_scope_invalid'')
             else if \<not> evidence_id_ok env (get_field kvs ''logical_id'')
             then Inl (ContractError ''backup_evidence_id_invalid'')
             else if get_field kvs ''completed'' \<noteq> JBool True
             then Inl (ContractError ''backup_evidence_incomplete'')
             else if get_field kvs ''readable'' \<noteq> JBool True
             then Inl (ContractError ''backup_evidence_unreadable'')
             else if \<not> evidence_size_ok (get_field kvs ''size'')
             then Inl (ContractError ''backup_evidence_size_invalid'')
             else if list_ex (\<lambda>f. \<not> is_sha256 (get_field kvs f))
                       [''sha256'', ''off_device_sha256'', ''baseline'']
             then Inl (ContractError ''backup_evidence_hash_invalid'')
             else bind_result (parse_timestamp env (get_field kvs ''created_at'')) (\<lambda>created_at.
               bind_result (parse_timestamp env (get_field kvs ''expires_at'')) (\<lambda>expires_at.
               if created_at > now then Inl (ContractError ''backup_evidence_created_in_future'')
               else if expires_at \<le> now \<or> expires_at \<le> created_at
               then Inl (ContractError ''backup_evidence_expired'')
               else Inr \<lparr>be_scope = str_of (get_field kvs ''scope''),
                     be_logical_id = str_of (get_field kvs ''logical_id''),
                     be_completed = True,
                     be_created_at = whole_second created_at,
                     be_size = int_of_json (get_field kvs ''size''),
                     be_sha256 = str_of (get_field kvs ''sha256''),
                     be_off_device_sha256 = str_of (get_field kvs ''off_device_sha256''),
                     be_readable = True,
                     be_baseline = str_of (get_field kvs ''baseline''),
                     be_expires_at = whole_second expires_at\<rparr>)))
      | _ \<Rightarrow> Inl (ContractError ''backup_evidence_fields_invalid''))"

section \<open>Safe text\<close>

definition url_rejection :: "pyenv \<Rightarrow> string \<Rightarrow> exn option" where
  "url_rejection env text =
     (if \<not> is_infix ''://'' text then None
      else (case urlsplit env text of
              None \<Rightarrow> Some ValueError
            | Some u \<Rightarrow>
                if url_scheme u \<notin> {''http'', ''https''} \<or> url_hostname u = []
                then Some (ContractError ''invalid_url'')
                else if url_username u \<noteq> [] \<or> url_password u \<noteq> [] \<or> url_query u \<noteq> []
                        \<or> url_fragment u \<noteq> []
                then Some (ContractError ''sensitive_url'')
                else None))"

definition safe_text :: "pyenv \<Rightarrow> json \<Rightarrow> nat \<Rightarrow> string result" where
  "safe_text env value maximum =
     (case value of
        JStr s \<Rightarrow>
          (let text = py_strip s in
           if text = [] \<or> py_len text > maximum then Inl (ContractError ''invalid_field'')
           else if list_ex (\<lambda>c. byte c < 32 \<and> byte c \<noteq> 9) text
           then Inl (ContractError ''invalid_field'')
           else if SENSITIVE_VALUE_RE env text then Inl (ContractError ''sensitive_value'')
           else (case url_rejection env text of Some e \<Rightarrow> Inl e | None \<Rightarrow> Inr text))
      | _ \<Rightarrow> Inl (ContractError ''invalid_field''))"

definition safe_text_list :: "pyenv \<Rightarrow> json \<Rightarrow> string list result" where
  "safe_text_list env value =
     (case value of
        JList vs \<Rightarrow>
          if \<not> (1 \<le> length vs \<and> length vs \<le> 10) then Inl (ContractError ''invalid_field'')
          else map_result (\<lambda>item. safe_text env item 300) vs
      | _ \<Rightarrow> Inl (ContractError ''invalid_field''))"

section \<open>Parameter summaries\<close>

text \<open>
  \<open>_sanitize_parameter_value\<close> threads a mutable counter through the whole tree: here it is passed
  and returned.  \<open>field\<close> occurs in messages only.
\<close>

definition normalized_key :: "string \<Rightarrow> string" where
  "normalized_key key = filter (\<lambda>c. is_lower c \<or> is_digit c) (map ascii_lower key)"

definition key_rejection :: "string \<Rightarrow> exn option" where
  "key_rejection key =
     (if \<not> PARAMETER_KEY_RE key then Some (ContractError ''invalid_parameter_key'')
      else if list_ex (\<lambda>part. is_infix part (normalized_key key)) SENSITIVE_KEY_PARTS
      then Some (ContractError ''sensitive_parameter'')
      else None)"

lemma size_list_insort_key:
  "size_list f (insort_key k x xs) = Suc (f x + size_list f xs)"
  by (induction xs) auto

lemma size_list_sort_key [simp]: "size_list f (sort_key k xs) = size_list f xs"
  by (induction xs) (simp_all add: sort_key_def size_list_insort_key)

function (sequential)
  sanitize_value :: "pyenv \<Rightarrow> json \<Rightarrow> nat \<Rightarrow> nat \<Rightarrow> (json \<times> nat) result" and
  sanitize_items :: "pyenv \<Rightarrow> json list \<Rightarrow> nat \<Rightarrow> nat \<Rightarrow> (json list \<times> nat) result" and
  sanitize_fields :: "pyenv \<Rightarrow> (string \<times> json) list \<Rightarrow> nat \<Rightarrow> nat \<Rightarrow>
                        ((string \<times> json) list \<times> nat) result" where
  "sanitize_value env value depth count =
     (if Suc count > 64 \<or> depth > 4 then Inl (ContractError ''parameters_too_large'')
      else (case value of
          JNull \<Rightarrow> Inr (JNull, Suc count)
        | JBool b \<Rightarrow> Inr (JBool b, Suc count)
        | JInt i \<Rightarrow> Inr (JInt i, Suc count)
        | JFloat (FFin q) \<Rightarrow> Inr (JFloat (FFin q), Suc count)
        | JFloat _ \<Rightarrow> Inl (ContractError ''invalid_number'')
        | JStr s \<Rightarrow> bind_result (safe_text env (JStr s) 256) (\<lambda>t. Inr (JStr t, Suc count))
        | JList vs \<Rightarrow>
            if length vs > 16 then Inl (ContractError ''parameters_too_large'')
            else bind_result (sanitize_items env vs (Suc depth) (Suc count))
                   (\<lambda>(us, n). Inr (JList us, n))
        | JObj kvs \<Rightarrow>
            if length kvs > 32 then Inl (ContractError ''parameters_too_large'')
            else bind_result (sanitize_fields env (sort_key fst kvs) (Suc depth) (Suc count))
                   (\<lambda>(us, n). Inr (JObj us, n))))"
| "sanitize_items env [] depth count = Inr ([], count)"
| "sanitize_items env (v # vs) depth count =
     bind_result (sanitize_value env v depth count) (\<lambda>(u, n).
       bind_result (sanitize_items env vs depth n) (\<lambda>(us, n'). Inr (u # us, n')))"
| "sanitize_fields env [] depth count = Inr ([], count)"
| "sanitize_fields env ((k, v) # kvs) depth count =
     (case key_rejection k of
        Some e \<Rightarrow> Inl e
      | None \<Rightarrow>
          bind_result (sanitize_value env v depth count) (\<lambda>(u, n).
            bind_result (sanitize_fields env kvs depth n) (\<lambda>(us, n'). Inr ((k, u) # us, n'))))"
  by pat_completeness auto
termination
  by (relation "measure (\<lambda>x. case x of
        Inl (env, v, d, n) \<Rightarrow> Suc (2 * size v)
      | Inr (Inl (env, vs, d, n)) \<Rightarrow> 2 * size_list size vs
      | Inr (Inr (env, kvs, d, n)) \<Rightarrow> 2 * size_list (size_prod (\<lambda>_. 0) size) kvs)")
    (auto)

declare sanitize_value.simps [simp del]

definition sanitize_parameter_summary :: "pyenv \<Rightarrow> json \<Rightarrow> json result" where
  "sanitize_parameter_summary env value =
     (case value of
        JObj _ \<Rightarrow> bind_result (sanitize_value env value 0 0) (\<lambda>(u, _). Inr u)
      | _ \<Rightarrow> Inl (ContractError ''invalid_parameters''))"

section \<open>Native requests\<close>

definition str_matches :: "(string \<Rightarrow> bool) \<Rightarrow> json \<Rightarrow> bool" where
  "str_matches re v = (case v of JStr s \<Rightarrow> re s | _ \<Rightarrow> False)"

record native_intent =
  ni_action_type :: string
  ni_target :: string
  ni_idempotency_key :: string

definition validate_native_intent :: "json \<Rightarrow> string set \<Rightarrow> native_intent result" where
  "validate_native_intent intent restart_addon_allowlist =
     (case intent of
        JObj kvs \<Rightarrow>
          if keys_of kvs \<noteq> set NATIVE_INTENT_FIELDS then Inl (ContractError ''invalid_intent'')
          else if \<not> py_eq_int (get_field kvs ''version'') 1
          then Inl (ContractError ''unsupported_version'')
          else if get_field kvs ''action_type'' \<noteq> JStr ''restart_addon''
          then Inl (ContractError ''unsupported_action'')
          else if \<not> str_matches ADDON_SLUG_RE (get_field kvs ''target'')
          then Inl (ContractError ''invalid_addon_slug'')
          else if str_of (get_field kvs ''target'') \<notin> restart_addon_allowlist
          then Inl (ContractError ''target_not_allowlisted'')
          else if \<not> str_matches SHA256_RE (get_field kvs ''idempotency_key'')
          then Inl (ContractError ''invalid_idempotency_key'')
          else Inr \<lparr>ni_action_type = ''restart_addon'',
                    ni_target = str_of (get_field kvs ''target''),
                    ni_idempotency_key = str_of (get_field kvs ''idempotency_key'')\<rparr>
      | _ \<Rightarrow> Inl (ContractError ''invalid_intent''))"

definition validate_native_authorization_request :: "json \<Rightarrow> string result" where
  "validate_native_authorization_request value =
     (case value of
        JObj kvs \<Rightarrow>
          if keys_of kvs \<noteq> set NATIVE_AUTHORIZATION_REQUEST_FIELDS
          then Inl (ContractError ''invalid_authorization_request'')
          else if \<not> py_eq_int (get_field kvs ''version'') 1
          then Inl (ContractError ''unsupported_version'')
          else if \<not> str_matches ACTION_ID_RE (get_field kvs ''action_id'')
          then Inl (ContractError ''invalid_action_id'')
          else Inr (str_of (get_field kvs ''action_id''))
      | _ \<Rightarrow> Inl (ContractError ''invalid_authorization_request''))"

record execution_request =
  er_action_id :: string
  er_receipt_id :: string
  er_proposal_hash :: string
  er_idempotency_key :: string

definition validate_execution_request :: "json \<Rightarrow> execution_request result" where
  "validate_execution_request value =
     (case value of
        JObj kvs \<Rightarrow>
          if keys_of kvs \<noteq> set EXECUTION_REQUEST_FIELDS
          then Inl (ContractError ''invalid_execution_request'')
          else if \<not> py_eq_int (get_field kvs ''version'') 1
          then Inl (ContractError ''unsupported_version'')
          else if \<not> str_matches ACTION_ID_RE (get_field kvs ''action_id'')
          then Inl (ContractError ''invalid_action_id'')
          else if \<not> str_matches RECEIPT_ID_RE (get_field kvs ''receipt_id'')
          then Inl (ContractError ''invalid_receipt_id'')
          else if \<not> str_matches SHA256_RE (get_field kvs ''proposal_hash'')
          then Inl (ContractError ''invalid_hash'')
          else if \<not> str_matches SHA256_RE (get_field kvs ''idempotency_key'')
          then Inl (ContractError ''invalid_idempotency_key'')
          else Inr \<lparr>er_action_id = str_of (get_field kvs ''action_id''),
                    er_receipt_id = str_of (get_field kvs ''receipt_id''),
                    er_proposal_hash = str_of (get_field kvs ''proposal_hash''),
                    er_idempotency_key = str_of (get_field kvs ''idempotency_key'')\<rparr>
      | _ \<Rightarrow> Inl (ContractError ''invalid_execution_request''))"

datatype resolution = Confirmed_healthy | Compensated

definition resolution_of :: "string \<Rightarrow> resolution option" where
  "resolution_of s =
     (if s = ''confirmed_healthy'' then Some Confirmed_healthy
      else if s = ''compensated'' then Some Compensated else None)"

definition validate_recovery_resolution :: "json \<Rightarrow> (resolution \<times> string) result" where
  "validate_recovery_resolution value =
     (case value of
        JObj kvs \<Rightarrow>
          if keys_of kvs \<noteq> set RECOVERY_RESOLUTION_FIELDS
          then Inl (ContractError ''invalid_recovery_resolution'')
          else if \<not> py_eq_int (get_field kvs ''version'') 1
          then Inl (ContractError ''unsupported_version'')
          else (case resolution_of (str_of (get_field kvs ''resolution'')) of
              None \<Rightarrow> Inl (ContractError ''invalid_recovery_resolution'')
            | Some r \<Rightarrow>
                if \<not> str_matches SHA256_RE (get_field kvs ''evidence_hash'')
                then Inl (ContractError ''invalid_evidence_hash'')
                else Inr (r, str_of (get_field kvs ''evidence_hash'')))
      | _ \<Rightarrow> Inl (ContractError ''invalid_recovery_resolution''))"

section \<open>The legacy P4 envelope\<close>

text \<open>
  \<open>validate_envelope\<close>, in the phases of the source: shape and identity, policy, sanitising (which
  overwrites four fields of the proposal), the times, the digests and the approval.
\<close>

type_synonym doc = "(string \<times> json) list"

fun set_field :: "string \<Rightarrow> json \<Rightarrow> doc \<Rightarrow> doc" where
  "set_field k v [] = [(k, v)]"
| "set_field k v ((k', v') # kvs) = (if k' = k then (k, v) # kvs else (k', v') # set_field k v kvs)"

definition proposal_hashes :: "pyenv \<Rightarrow> doc \<Rightarrow> string \<times> string" where
  "proposal_hashes env proposal =
     (sha256_text env (canonical_json env (get_field proposal ''parameter_summary'')),
      sha256_text env (canonical_json env
        (JObj (map (\<lambda>f. (f, get_field proposal f)) PROPOSAL_HASH_FIELDS))))"

definition envelope_shape :: "json \<Rightarrow> (doc \<times> doc) result" where
  "envelope_shape envelope =
     (case envelope of
        JObj kvs \<Rightarrow>
          if keys_of kvs \<noteq> {''version'', ''proposal'', ''approval''}
          then Inl (ContractError ''invalid_envelope'')
          else if \<not> py_eq_int (get_field kvs ''version'') 1
          then Inl (ContractError ''unsupported_version'')
          else (case get_field kvs ''proposal'' of
              JObj proposal \<Rightarrow>
                if keys_of proposal \<noteq> set PROPOSAL_ALLOWED_FIELDS
                then Inl (ContractError ''invalid_proposal'')
                else (case get_field kvs ''approval'' of
                    JObj approval \<Rightarrow>
                      if keys_of approval \<noteq> set APPROVAL_REQUIRED_FIELDS
                      then Inl (ContractError ''invalid_approval'')
                      else if \<not> py_eq_int (get_field proposal ''version'') 1
                              \<or> \<not> py_eq_int (get_field approval ''version'') 1
                      then Inl (ContractError ''unsupported_version'')
                      else if \<not> str_matches ACTION_ID_RE (get_field proposal ''action_id'')
                      then Inl (ContractError ''invalid_action_id'')
                      else if get_field approval ''action_id'' \<noteq> get_field proposal ''action_id''
                      then Inl (ContractError ''approval_mismatch'')
                      else Inr (proposal, approval)
                  | _ \<Rightarrow> Inl (ContractError ''invalid_approval''))
            | _ \<Rightarrow> Inl (ContractError ''invalid_proposal''))
      | _ \<Rightarrow> Inl (ContractError ''invalid_envelope''))"

definition envelope_policy :: "doc \<Rightarrow> unit result" where
  "envelope_policy proposal =
     bind_result (in_string_set (get_field proposal ''action_type'') (set (map fst ACTION_RISKS)))
       (\<lambda>known.
        if \<not> known then Inl (ContractError ''unsupported_action'')
        else (case map_of ACTION_RISKS (str_of (get_field proposal ''action_type'')) of
            None \<Rightarrow> Inl (ContractError ''unsupported_action'')
          | Some risk \<Rightarrow>
              if get_field proposal ''risk_level'' \<noteq> JStr risk
              then Inl (ContractError ''risk_mismatch'')
              else (case get_field proposal ''requires_backup'' of
                  JBool requires_backup \<Rightarrow>
                    if risk = ''L3'' \<and> \<not> requires_backup
                    then Inl (ContractError ''backup_required'')
                    else if \<not> str_matches TARGET_RE (get_field proposal ''target'')
                    then Inl (ContractError ''invalid_target'')
                    else (let target = str_of (get_field proposal ''target'')
                          in if is_infix ''..'' target \<or> is_prefix ''/'' target
                                \<or> is_prefix [CHR 0x5C] target
                             then Inl (ContractError ''invalid_target'')
                             else Inr ())
                | _ \<Rightarrow> Inl (ContractError ''invalid_field''))))"

record sanitized =
  sz_proposal :: doc
  sz_parameter_summary :: json
  sz_expected_change :: string
  sz_validation_plan :: "string list"
  sz_rollback_plan :: "string list"

definition envelope_sanitize :: "pyenv \<Rightarrow> doc \<Rightarrow> sanitized result" where
  "envelope_sanitize env proposal =
     bind_result (sanitize_parameter_summary env (get_field proposal ''parameter_summary''))
       (\<lambda>params.
     bind_result (safe_text env (get_field proposal ''expected_change'') 300) (\<lambda>change.
     bind_result (safe_text_list env (get_field proposal ''validation_plan'')) (\<lambda>validation.
     bind_result (safe_text_list env (get_field proposal ''rollback_plan'')) (\<lambda>rollback.
     if get_field proposal ''state'' \<noteq> JStr ''awaiting_approval''
     then Inl (ContractError ''invalid_proposal_state'')
     else Inr \<lparr>sz_proposal =
                 set_field ''rollback_plan'' (JList (map JStr rollback))
                  (set_field ''validation_plan'' (JList (map JStr validation))
                   (set_field ''expected_change'' (JStr change)
                    (set_field ''parameter_summary'' params proposal))),
               sz_parameter_summary = params, sz_expected_change = change,
               sz_validation_plan = validation, sz_rollback_plan = rollback\<rparr>))))"

definition envelope_times :: "pyenv \<Rightarrow> doc \<Rightarrow> doc \<Rightarrow> int \<Rightarrow> int result" where
  "envelope_times env proposal approval now =
     bind_result (parse_timestamp env (get_field proposal ''created_at'')) (\<lambda>created_at.
     bind_result (parse_timestamp env (get_field proposal ''expires_at'')) (\<lambda>expires_at.
     bind_result (parse_timestamp env (get_field approval ''approved_at'')) (\<lambda>approved_at.
     bind_result (parse_timestamp env (get_field approval ''expires_at'')) (\<lambda>approval_expires_at.
     if \<not> created_at < expires_at \<or> approval_expires_at \<noteq> expires_at
     then Inl (ContractError ''expiry_mismatch'')
     else if \<not> (created_at \<le> approved_at \<and> approved_at < expires_at)
     then Inl (ContractError ''approval_time_invalid'')
     else if now \<ge> expires_at then Inl (ContractError ''approval_expired'')
     else Inr expires_at))))"

definition envelope_digests :: "pyenv \<Rightarrow> doc \<Rightarrow> doc \<Rightarrow> string set \<Rightarrow> string result" where
  "envelope_digests env proposal approval trusted_owner_hashes =
     (let (parameter_hash, proposal_hash) = proposal_hashes env proposal;
          expected_proposal_hash = ''sha256:'' @ proposal_hash
      in if get_field proposal ''parameter_summary_hash'' \<noteq> JStr (''sha256:'' @ parameter_hash)
         then Inl (ContractError ''parameter_hash_mismatch'')
         else if get_field proposal ''proposal_hash'' \<noteq> JStr expected_proposal_hash
         then Inl (ContractError ''proposal_hash_mismatch'')
         else if get_field approval ''proposal_hash'' \<noteq> JStr expected_proposal_hash
         then Inl (ContractError ''approval_mismatch'')
         else if get_field approval ''state'' \<noteq> JStr ''approved''
         then Inl (ContractError ''not_approved'')
         else if \<not> str_matches IDENTITY_HASH_RE (get_field approval ''approved_by_hash'')
         then Inl (ContractError ''invalid_owner'')
         else if str_of (get_field approval ''approved_by_hash'') \<notin> trusted_owner_hashes
         then Inl (ContractError ''owner_not_trusted'')
         else if \<not> str_matches SHA256_RE (get_field approval ''proposal_hash'')
         then Inl (ContractError ''invalid_hash'')
         else Inr expected_proposal_hash)"

record validated_envelope =
  ve_action_id :: string
  ve_action_type :: string
  ve_target :: string
  ve_proposal_hash :: string
  ve_risk_level :: string
  ve_requires_backup :: bool
  ve_parameter_summary :: json
  ve_expected_change :: string
  ve_validation_plan :: "string list"
  ve_rollback_plan :: "string list"
  ve_approved_by_hash :: string
  ve_approved_at :: string
  ve_expires_at :: int

definition validate_envelope ::
  "pyenv \<Rightarrow> json \<Rightarrow> string set \<Rightarrow> int \<Rightarrow> validated_envelope result" where
  "validate_envelope env envelope trusted_owner_hashes now =
     bind_result (envelope_shape envelope) (\<lambda>(proposal, approval).
     bind_result (envelope_policy proposal) (\<lambda>_.
     bind_result (envelope_sanitize env proposal) (\<lambda>sz.
     bind_result (envelope_times env (sz_proposal sz) approval now) (\<lambda>expires_at.
     bind_result (envelope_digests env (sz_proposal sz) approval trusted_owner_hashes)
       (\<lambda>proposal_hash.
     Inr \<lparr>ve_action_id = str_of (get_field proposal ''action_id''),
          ve_action_type = str_of (get_field proposal ''action_type''),
          ve_target = str_of (get_field proposal ''target''),
          ve_proposal_hash = proposal_hash,
          ve_risk_level = str_of (get_field proposal ''risk_level''),
          ve_requires_backup = (get_field proposal ''requires_backup'' = JBool True),
          ve_parameter_summary = sz_parameter_summary sz,
          ve_expected_change = sz_expected_change sz,
          ve_validation_plan = sz_validation_plan sz,
          ve_rollback_plan = sz_rollback_plan sz,
          ve_approved_by_hash = str_of (get_field approval ''approved_by_hash''),
          ve_approved_at = str_of (get_field approval ''approved_at''),
          ve_expires_at = expires_at\<rparr>)))))"

end
