(* ===== verification/Supervisor.thy ===== *)
theory Supervisor
  imports Contract
begin

text \<open>
  \<open>operations_broker/supervisor.py\<close>: the Broker's client of the Home Assistant Supervisor, three
  fixed reads and one restart.  What the network answers to a call is an argument, an
  \<open>http_response\<close>; \<open>json.loads\<close> is the parameter \<open>loads\<close>, with \<open>None\<close> for its decode errors.  The
  HTTP calls a method makes are the values of its \<open>_calls\<close> function, so that a theorem can say that
  no call, or exactly one restart, was made.
\<close>

section \<open>Transport\<close>

text \<open>
  The outcome of \<open>opener(request)\<close> and \<open>response.read(...)\<close>: an \<open>HTTPError\<close>, one of \<open>URLError\<close>,
  \<open>TimeoutError\<close> and \<open>OSError\<close>, any other exception, or the bytes of a body.
\<close>

datatype http_response = Http_error | Unreachable | Transport_raises exn | Body string

datatype http_call = Http_get string | Http_post string

definition MAX_RESPONSE_BYTES :: nat where
  "MAX_RESPONSE_BYTES = 1048576"

text \<open>What \<open>response.read(MAX_RESPONSE_BYTES + 1)\<close> returns of a body.\<close>

definition read_bounded :: "string \<Rightarrow> string" where
  "read_bounded body = take (Suc MAX_RESPONSE_BYTES) body"

type_synonym loads = "string \<Rightarrow> json option"

definition is_object :: "json \<Rightarrow> bool" where
  "is_object v = (case v of JObj _ \<Rightarrow> True | _ \<Rightarrow> False)"

definition supervisor_client_init :: "string \<Rightarrow> unit result" where
  "supervisor_client_init token =
     (if token = [] then Inl (SupervisorError ''missing_supervisor_token'') else Inr ())"

section \<open>Reads\<close>

definition supervisor_get :: "loads \<Rightarrow> http_response \<Rightarrow> doc result" where
  "supervisor_get loads resp =
     (case resp of
        Http_error \<Rightarrow> Inl (SupervisorError ''supervisor_http_error'')
      | Unreachable \<Rightarrow> Inl (SupervisorError ''supervisor_unavailable'')
      | Transport_raises e \<Rightarrow> Inl e
      | Body body \<Rightarrow>
          if length (read_bounded body) > MAX_RESPONSE_BYTES
          then Inl (SupervisorError ''supervisor_response_too_large'')
          else (case loads (read_bounded body) of
              None \<Rightarrow> Inl (SupervisorError ''supervisor_invalid_json'')
            | Some (JObj payload) \<Rightarrow>
                if get_field payload ''result'' \<noteq> JStr ''ok''
                then Inl (SupervisorError ''supervisor_rejected'')
                else (case get_field payload ''data'' of
                    JObj data \<Rightarrow> Inr data
                  | _ \<Rightarrow> Inl (SupervisorError ''supervisor_rejected''))
            | Some _ \<Rightarrow> Inl (SupervisorError ''supervisor_rejected'')))"

definition select_fields :: "doc \<Rightarrow> string list \<Rightarrow> doc" where
  "select_fields data ks = map (\<lambda>k. (k, get_field data k)) (filter (\<lambda>k. k \<in> keys_of data) ks)"

definition supervisor_info :: "loads \<Rightarrow> http_response \<Rightarrow> doc result" where
  "supervisor_info loads resp =
     bind_result (supervisor_get loads resp) (\<lambda>data. Inr (select_fields data
       [''version'', ''version_latest'', ''update_available'', ''healthy'', ''supported'', ''arch'']))"

definition core_info :: "loads \<Rightarrow> http_response \<Rightarrow> doc result" where
  "core_info loads resp =
     bind_result (supervisor_get loads resp) (\<lambda>data. Inr (select_fields data
       [''version'', ''version_latest'', ''update_available'', ''machine'', ''arch'', ''state'',
        ''healthy'', ''supported'']))"

definition ADDON_INFO_FIELDS :: "string list" where
  "ADDON_INFO_FIELDS =
     [''slug'', ''name'', ''state'', ''version'', ''version_latest'', ''update_available'',
      ''available'', ''installed'', ''protected'', ''rating'', ''hassio_role'', ''hassio_api'',
      ''homeassistant_api'', ''host_network'', ''full_access'']"

text \<open>A missing \<open>installed\<close> entry is filled in: the answer itself proves the add-on is installed.\<close>

definition fill_installed :: "doc \<Rightarrow> doc" where
  "fill_installed d =
     (if get_field d ''installed'' = JNull then set_field ''installed'' (JBool True) d else d)"

definition addon_info :: "loads \<Rightarrow> string \<Rightarrow> http_response \<Rightarrow> doc result" where
  "addon_info loads slug resp =
     (if \<not> ADDON_SLUG_RE slug then Inl (SupervisorError ''invalid_addon_slug'')
      else bind_result (supervisor_get loads resp)
        (\<lambda>data. Inr (fill_installed (select_fields data ADDON_INFO_FIELDS))))"

definition addon_info_calls :: "string \<Rightarrow> http_call list" where
  "addon_info_calls slug =
     (if ADDON_SLUG_RE slug then [Http_get (''/addons/'' @ slug @ ''/info'')] else [])"

section \<open>The restart\<close>

definition restart_addon :: "loads \<Rightarrow> string \<Rightarrow> http_response \<Rightarrow> unit result" where
  "restart_addon loads slug resp =
     (if \<not> ADDON_SLUG_RE slug then Inl (SupervisorError ''invalid_addon_slug'')
      else (case resp of
          Http_error \<Rightarrow> Inl (SupervisorError ''supervisor_restart_rejected'')
        | Unreachable \<Rightarrow> Inl (SupervisorError ''supervisor_restart_uncertain'')
        | Transport_raises e \<Rightarrow> Inl e
        | Body body \<Rightarrow>
            if length (read_bounded body) > MAX_RESPONSE_BYTES
            then Inl (SupervisorError ''supervisor_response_too_large'')
            else (case loads (read_bounded body) of
                None \<Rightarrow> Inl (SupervisorError ''supervisor_restart_uncertain'')
              | Some (JObj payload) \<Rightarrow>
                  if get_field payload ''result'' \<noteq> JStr ''ok''
                  then Inl (SupervisorError ''supervisor_restart_rejected'') else Inr ()
              | Some _ \<Rightarrow> Inl (SupervisorError ''supervisor_restart_rejected''))))"

definition restart_path :: "string \<Rightarrow> string" where
  "restart_path slug = ''/addons/'' @ slug @ ''/restart''"

definition restart_addon_calls :: "string \<Rightarrow> http_call list" where
  "restart_addon_calls slug = (if ADDON_SLUG_RE slug then [Http_post (restart_path slug)] else [])"

section \<open>What an add-on observation contains\<close>

lemma get_field_select:
  "get_field (select_fields data ks) k =
     (if k \<in> set ks \<and> k \<in> keys_of data then get_field data k else JNull)"
proof -
  have "map_of (map (\<lambda>k. (k, f k)) xs) k = (if k \<in> set xs then Some (f k) else None)"
    for f :: "string \<Rightarrow> json" and xs
    by (induction xs) auto
  then show ?thesis by (simp add: select_fields_def get_field_def [of "map _ _"])
qed

lemma get_set_field [simp]:
  "get_field (set_field k v d) k' = (if k' = k then v else get_field d k')"
  by (induction k v d rule: set_field.induct) (auto simp: get_field_def)

lemma keys_of_select: "keys_of (select_fields data ks) = set ks \<inter> keys_of data"
  by (auto simp: select_fields_def keys_of_def)

lemma keys_of_set_field [simp]: "keys_of (set_field k v d) = insert k (keys_of d)"
  by (induction k v d rule: set_field.induct) (auto simp: keys_of_def)

text \<open>
  The contract of an observer of add-ons, which the Broker's client and the Manager Executor's both
  meet: an observation always says whether the add-on is installed, it contains no entry outside a
  fixed list, and an add-on that is not an exact slug is refused.
\<close>

locale addon_observer =
  fixes observe :: "loads \<Rightarrow> string \<Rightarrow> http_response \<Rightarrow> doc result" and fields :: "string list"
  assumes observe_fields: "observe loads slug resp = Inr d \<Longrightarrow> keys_of d \<subseteq> set fields"
    and observe_installed: "observe loads slug resp = Inr d \<Longrightarrow> get_field d ''installed'' \<noteq> JNull"
    and observe_slug: "observe loads slug resp = Inr d \<Longrightarrow> ADDON_SLUG_RE slug"
begin

lemma no_undeclared_field:
  "observe loads slug resp = Inr d \<Longrightarrow> k \<notin> set fields \<Longrightarrow> get_field d k = JNull"
  using observe_fields [of loads slug resp d]
  by (auto simp: get_field_def keys_of_def map_of_eq_None_iff split: option.splits)
    (metis fst_conv imageI in_mono map_of_SomeD)

lemma baseline_of_observation:
  assumes "observe loads slug resp = Inr d" and "addon_baseline_etag env (JObj d) = Inr etag"
  shows "\<exists>s st v i. get_field d ''slug'' = JStr s \<and> get_field d ''state'' = JStr st \<and>
    get_field d ''version'' = JStr v \<and> get_field d ''installed'' = JBool i"
  using assms(2) by (auto simp: addon_baseline_etag_def split: json.splits)

lemma unslugged_refused: "\<not> ADDON_SLUG_RE slug \<Longrightarrow> \<exists>e. observe loads slug resp = Inl e"
  using observe_slug [of loads slug resp] by (cases "observe loads slug resp") auto

end

lemma fill_installed_installed: "get_field (fill_installed d) ''installed'' \<noteq> JNull"
  by (simp add: fill_installed_def)

lemma keys_of_fill: "keys_of (fill_installed d) \<subseteq> insert ''installed'' (keys_of d)"
  by (auto simp: fill_installed_def)

interpretation broker_observer: addon_observer addon_info ADDON_INFO_FIELDS
proof unfold_locales
  fix loads slug resp d assume obs: "addon_info loads slug resp = Inr d"
  then obtain data where d: "d = fill_installed (select_fields data ADDON_INFO_FIELDS)"
    and re: "ADDON_SLUG_RE slug"
    by (auto simp: addon_info_def bind_result_Inr_iff split: if_splits)
  have "''installed'' \<in> set ADDON_INFO_FIELDS" by (simp add: ADDON_INFO_FIELDS_def)
  then show "keys_of d \<subseteq> set ADDON_INFO_FIELDS"
    using keys_of_fill [of "select_fields data ADDON_INFO_FIELDS"]
    unfolding d keys_of_select by blast
  show "get_field d ''installed'' \<noteq> JNull" unfolding d by (rule fill_installed_installed)
  show "ADDON_SLUG_RE slug" by (rule re)
qed

end
