(* ===== verification/Calendar.thy ===== *)
theory Calendar
  imports Contract
begin

text \<open>
  The texts the runtime writes for an instant: \<open>datetime.isoformat()\<close> of a whole second in UTC
  and \<open>strftime('%Y%m%d')\<close>, over the proleptic Gregorian calendar \<open>datetime\<close> uses.  Only digests
  and action ids depend on these texts; every stored timestamp is kept as the instant it denotes.
\<close>

text \<open>Days since 1970-01-01 to year, month and day, by 400-year eras starting on March 1st.\<close>

definition civil_from_days :: "int \<Rightarrow> int \<times> int \<times> int" where
  "civil_from_days days =
     (let z = days + 719468;
          era = z div 146097;
          doe = z mod 146097;
          yoe = (doe - doe div 1460 + doe div 36524 - doe div 146096) div 365;
          doy = doe - (365 * yoe + yoe div 4 - yoe div 100);
          mp = (5 * doy + 2) div 153;
          d = doy - (153 * mp + 2) div 5 + 1;
          m = (if mp < 10 then mp + 3 else mp - 9)
      in (yoe + era * 400 + (if m \<le> 2 then 1 else 0), m, d))"

definition pad :: "nat \<Rightarrow> int \<Rightarrow> string" where
  "pad w n = (let s = show_int n in replicate (w - length s) (CHR ''0'') @ s)"

text \<open>\<open>iso_timestamp\<close>: \<open>value.astimezone(utc).replace(microsecond=0).isoformat()\<close>.\<close>

definition iso_text :: "int \<Rightarrow> string" where
  "iso_text t =
     (let secs = t div 1000000;
          (y, m, d) = civil_from_days (secs div 86400);
          sod = secs mod 86400
      in pad 4 y @ ''-'' @ pad 2 m @ ''-'' @ pad 2 d @ ''T'' @
         pad 2 (sod div 3600) @ '':'' @ pad 2 (sod mod 3600 div 60) @ '':'' @ pad 2 (sod mod 60) @
         ''+00:00'')"

text \<open>\<open>datetime.isoformat()\<close> in UTC, with the microseconds when there are some.\<close>

definition isoformat :: "int \<Rightarrow> string" where
  "isoformat t =
     (let s = iso_text t; micros = t mod 1000000
      in take (length s - 6) s @ (if micros = 0 then [] else ''.'' @ pad 6 micros) @ ''+00:00'')"

definition ymd_text :: "int \<Rightarrow> string" where
  "ymd_text t =
     (let (y, m, d) = civil_from_days (t div 1000000 div 86400) in pad 4 y @ pad 2 m @ pad 2 d)"

lemma iso_text_whole_second: "iso_text (whole_second t) = iso_text t"
  by (simp add: iso_text_def whole_second_def minus_mod_eq_mult_div)

end
