(* ===== verification/Auth_Store.thy ===== *)
theory Auth_Store
  imports Calendar "HOL-Library.Product_Lexorder"
begin

text \<open>
  \<open>ha_operations_broker/operations_broker/authorization.py\<close>, class \<open>AuthorizationStore\<close>: the
  SQLite tables as lists of records, the documents the store hands out, passkeys and backup
  evidence.

  Representation.  A TEXT timestamp column holds what \<open>iso_timestamp\<close> wrote, a UTC text at second
  precision; it is represented by the instant it denotes (the texts have one format, so SQL's
  text order is the order of the instants).  A JSON column is represented by the value
  \<open>json.loads\<close> returns.  The binding columns of \<open>ALTER TABLE\<close> are nullable.
\<close>

section \<open>Rows\<close>

definition iso_timestamp :: "int \<Rightarrow> int" where
  "iso_timestamp t = whole_second t"

record passkey =
  pk_credential_id :: string
  pk_credential_data :: string
  pk_user_id_hash :: string
  pk_sign_count :: int
  pk_created_at :: int
  pk_last_used_at :: "int option"

record evidence_row = evidence +
  be_registered_at :: int

record binding =
  b_policy_epoch :: "int option"
  b_policy_hash :: "string option"
  b_allowlist_hash :: "string option"
  b_adapter_version :: "string option"
  b_adapter_schema_version :: "int option"
  b_baseline_etag :: "string option"
  b_backup_evidence_id :: "string option"

definition null_binding :: binding where
  "null_binding = \<lparr>b_policy_epoch = None, b_policy_hash = None, b_allowlist_hash = None,
     b_adapter_version = None, b_adapter_schema_version = None, b_baseline_etag = None,
     b_backup_evidence_id = None\<rparr>"

record proposal =
  pr_action_id :: string
  pr_idempotency_key :: string
  pr_action_type :: string
  pr_target :: string
  pr_proposal_hash :: string
  pr_risk_level :: string
  pr_requires_backup :: bool
  pr_parameter_summary :: json
  pr_expected_change :: string
  pr_validation_plan :: "string list"
  pr_rollback_plan :: "string list"
  pr_created_at :: int
  pr_expires_at :: int
  pr_version :: int
  pr_binding :: binding

datatype request_state = Pending | Authorized | Expired

datatype proposal_origin = Legacy_envelope | Broker_native

record request =
  rq_approval_id :: string
  rq_action_id :: string
  rq_action_type :: string
  rq_target :: string
  rq_proposal_hash :: string
  rq_risk_level :: string
  rq_requires_backup :: bool
  rq_parameter_summary :: json
  rq_expected_change :: string
  rq_validation_plan :: "string list"
  rq_rollback_plan :: "string list"
  rq_structural_owner_hash :: string
  rq_created_at :: int
  rq_expires_at :: int
  rq_state :: request_state
  rq_proposal_origin :: proposal_origin
  rq_version :: int
  rq_binding :: binding

record receipt =
  rc_receipt_id :: string
  rc_approval_id :: string
  rc_action_id :: string
  rc_proposal_hash :: string
  rc_authorized_user_hash :: string
  rc_credential_id_hash :: string
  rc_authorized_at :: int
  rc_expires_at :: int
  rc_assurance :: string
  rc_consumed_at :: "int option"
  rc_version :: int
  rc_binding :: binding

datatype exec_state =
  Ex_authorized | Ex_executing | Ex_verifying | Ex_succeeded | Ex_failed | Ex_recovery_required

record execution =
  ex_action_id :: string
  ex_receipt_id :: string
  ex_proposal_hash :: string
  ex_idempotency_key :: string
  ex_action_type :: string
  ex_target :: string
  ex_state :: exec_state
  ex_preflight :: "json option"
  ex_postflight :: "json option"
  ex_error_code :: "string option"
  ex_recovery_resolution :: "resolution option"
  ex_recovery_evidence_hash :: "string option"
  ex_recovery_resolved_at :: "int option"
  ex_started_at :: int
  ex_updated_at :: int
  ex_finished_at :: "int option"
  ex_version :: int
  ex_binding :: binding
  ex_lease_instance_id :: string
  ex_lease_epoch :: int

datatype lease_state = Ls_active | Ls_recovery_required | Ls_released

record lease =
  ls_lease_id :: string
  ls_resource :: string
  ls_action_id :: string
  ls_instance_id :: string
  ls_epoch :: int
  ls_heartbeat_at :: int
  ls_expires_at :: int
  ls_state :: lease_state
  ls_created_at :: int
  ls_released_at :: "int option"

record auth_db =
  passkeys :: "passkey list"
  requests :: "request list"
  receipts :: "receipt list"
  proposals :: "proposal list"
  executions :: "execution list"
  leases :: "lease list"
  backup_evidence :: "evidence_row list"

definition empty_db :: auth_db where
  "empty_db = \<lparr>passkeys = [], requests = [], receipts = [], proposals = [], executions = [],
     leases = [], backup_evidence = []\<rparr>"

section \<open>Documents\<close>

text \<open>
  A document is a dict with the row's columns and some derived entries; here it is the row with
  the derived entries.  The binding entries (and the lease of an execution) are present from
  version 2 on.
\<close>

record proposal_document =
  pd_row :: proposal
  pd_expired :: bool
  pd_execution_allowed :: bool
  pd_binding :: "binding option"

definition binding_document :: "int \<Rightarrow> binding \<Rightarrow> binding option" where
  "binding_document version b = (if version \<ge> 2 then Some b else None)"

definition proposal_document_of :: "proposal \<Rightarrow> int \<Rightarrow> proposal_document" where
  "proposal_document_of row now =
     \<lparr>pd_row = row, pd_expired = (now \<ge> pr_expires_at row), pd_execution_allowed = False,
      pd_binding = binding_document (pr_version row) (pr_binding row)\<rparr>"

datatype assurance = Passkey_verified | Structural_only

record request_document =
  rqd_row :: request
  rqd_assurance :: assurance
  rqd_execution_allowed :: bool
  rqd_binding :: "binding option"

definition request_document_of :: "request \<Rightarrow> request_document" where
  "request_document_of row =
     \<lparr>rqd_row = row,
      rqd_assurance = (if rq_state row = Authorized then Passkey_verified else Structural_only),
      rqd_execution_allowed = False,
      rqd_binding = binding_document (rq_version row) (rq_binding row)\<rparr>"

record receipt_document =
  rcd_row :: receipt
  rcd_consumed :: bool
  rcd_execution_allowed :: bool
  rcd_binding :: "binding option"

definition receipt_document_of :: "receipt \<Rightarrow> receipt_document" where
  "receipt_document_of row =
     \<lparr>rcd_row = row, rcd_consumed = (rc_consumed_at row \<noteq> None), rcd_execution_allowed = False,
      rcd_binding = binding_document (rc_version row) (rc_binding row)\<rparr>"

record recovery_document =
  rv_resolved :: bool
  rv_resolution :: "resolution option"
  rv_evidence_hash :: "string option"
  rv_resolved_at :: "int option"

record execution_document =
  xd_row :: execution
  xd_recovery :: "recovery_document option"
  xd_binding :: "binding option"
  xd_lease :: "(string \<times> int) option"

definition execution_document_of :: "execution \<Rightarrow> execution_document" where
  "execution_document_of row =
     \<lparr>xd_row = row,
      xd_recovery =
        (if ex_state row = Ex_recovery_required
         then Some \<lparr>rv_resolved = (ex_recovery_resolution row \<noteq> None),
                    rv_resolution = ex_recovery_resolution row,
                    rv_evidence_hash = ex_recovery_evidence_hash row,
                    rv_resolved_at = ex_recovery_resolved_at row\<rparr>
         else None),
      xd_binding = binding_document (ex_version row) (ex_binding row),
      xd_lease = (if ex_version row \<ge> 2
                  then Some (ex_lease_instance_id row, ex_lease_epoch row) else None)\<rparr>"

definition backup_evidence_document :: "evidence_row \<Rightarrow> evidence" where
  "backup_evidence_document row = evidence.truncate row"

section \<open>Passkeys\<close>

definition credential_count :: "auth_db \<Rightarrow> nat" where
  "credential_count db = length (passkeys db)"

definition credentials_for_user :: "auth_db \<Rightarrow> string \<Rightarrow> passkey list" where
  "credentials_for_user db user_id_hash =
     sort_key pk_created_at (filter (\<lambda>r. pk_user_id_hash r = user_id_hash) (passkeys db))"

definition add_credential ::
  "string \<Rightarrow> string \<Rightarrow> string \<Rightarrow> int \<Rightarrow> int \<Rightarrow> auth_db \<Rightarrow> unit result \<times> auth_db" where
  "add_credential credential_id credential_data user_id_hash sign_count created_at db =
     (if credential_id = [] \<or> credential_data = [] \<or> sign_count < 0
      then (Inl (AuthorizationError ''credential_invalid''), db)
      else transaction (\<lambda>db.
        if select_one (\<lambda>r. pk_user_id_hash r = user_id_hash) (passkeys db) \<noteq> None
        then (Inl (AuthorizationError ''passkey_already_enrolled''), db)
        else if credential_id \<in> set (map pk_credential_id (passkeys db))
        then (Inl (AuthorizationError ''credential_conflict''), db)
        else (Inr (), db\<lparr>passkeys := insert_row
               \<lparr>pk_credential_id = credential_id, pk_credential_data = credential_data,
                pk_user_id_hash = user_id_hash, pk_sign_count = sign_count,
                pk_created_at = iso_timestamp created_at, pk_last_used_at = None\<rparr>
               (passkeys db)\<rparr>)) db)"

definition update_counter ::
  "string \<Rightarrow> int \<Rightarrow> int \<Rightarrow> int \<Rightarrow> auth_db \<Rightarrow> unit result \<times> auth_db" where
  "update_counter credential_id old_count new_count used_at db =
     (if new_count < 0 then (Inl (AuthorizationError ''counter_invalid''), db)
      else if old_count > 0 \<and> new_count \<le> old_count
      then (Inl (AuthorizationError ''counter_rollback''), db)
      else if \<not> (old_count = 0 \<and> new_count = 0) \<and> \<not> new_count > old_count
      then (Inl (AuthorizationError ''counter_rollback''), db)
      else (let next_count = (if old_count = 0 \<and> new_count = 0 then 0 else new_count);
                hit = (\<lambda>r. pk_credential_id r = credential_id \<and> pk_sign_count r = old_count)
            in transaction (\<lambda>db.
                 (if rowcount hit (passkeys db) \<noteq> 1
                  then Inl (AuthorizationError ''credential_changed'') else Inr (),
                  db\<lparr>passkeys := update_where hit
                       (\<lambda>r. r\<lparr>pk_sign_count := next_count,
                               pk_last_used_at := Some (iso_timestamp used_at)\<rparr>)
                       (passkeys db)\<rparr>)) db))"

section \<open>Backup evidence\<close>

definition evidence_of_row :: "evidence \<Rightarrow> int \<Rightarrow> evidence_row" where
  "evidence_of_row e registered_at = evidence.extend e (evidence_row.fields registered_at)"

definition register_backup_evidence ::
  "pyenv \<Rightarrow> json \<Rightarrow> int \<Rightarrow> auth_db \<Rightarrow> evidence result \<times> auth_db" where
  "register_backup_evidence env evidence registered_at db =
     (case as_authorization_error (validate_backup_evidence env evidence registered_at) of
        Inl e \<Rightarrow> (Inl e, db)
      | Inr validated \<Rightarrow> transaction (\<lambda>db.
          case select_one (\<lambda>r. be_logical_id r = be_logical_id validated) (backup_evidence db) of
            Some existing \<Rightarrow>
              if backup_evidence_document existing \<noteq> validated
              then (Inl (AuthorizationError ''backup_evidence_conflict''), db)
              else (Inr (backup_evidence_document existing), db)
          | None \<Rightarrow>
              (Inr validated,
               db\<lparr>backup_evidence := insert_row
                    (evidence_of_row validated (iso_timestamp registered_at))
                    (backup_evidence db)\<rparr>)) db)"

definition get_backup_evidence :: "auth_db \<Rightarrow> string \<Rightarrow> evidence result" where
  "get_backup_evidence db logical_id =
     (if \<not> BACKUP_EVIDENCE_ID_RE logical_id
      then Inl (AuthorizationError ''backup_evidence_not_found'')
      else (case select_one (\<lambda>r. be_logical_id r = logical_id) (backup_evidence db) of
              None \<Rightarrow> Inl (AuthorizationError ''backup_evidence_not_found'')
            | Some row \<Rightarrow> Inr (backup_evidence_document row)))"

definition assert_backup_evidence_row ::
  "evidence_row option \<Rightarrow> string option \<Rightarrow> string list \<Rightarrow> string \<Rightarrow> int \<Rightarrow> int \<Rightarrow> unit result" where
  "assert_backup_evidence_row row logical_id scopes baseline now valid_until =
     (case (row, logical_id) of
        (Some r, Some lid) \<Rightarrow>
          if be_logical_id r \<noteq> lid \<or> be_scope r \<notin> set scopes \<or> be_baseline r \<noteq> baseline
          then Inl (AuthorizationError ''backup_evidence_changed'')
          else if \<not> be_completed r \<or> \<not> be_readable r \<or> be_size r < 1
                  \<or> \<not> SHA256_RE (be_sha256 r) \<or> \<not> SHA256_RE (be_off_device_sha256 r)
                  \<or> \<not> SHA256_RE (be_baseline r)
          then Inl (AuthorizationError ''backup_evidence_changed'')
          else if be_created_at r > now
          then Inl (AuthorizationError ''backup_evidence_changed'')
          else if be_expires_at r \<le> now \<or> be_expires_at r < valid_until
          then Inl (AuthorizationError ''backup_evidence_expired'')
          else Inr ()
      | _ \<Rightarrow> Inl (AuthorizationError ''backup_evidence_required''))"

text \<open>\<open>CASE scope WHEN 's0' THEN 0 WHEN 's1' THEN 1 ... ELSE n END\<close>\<close>

fun scope_priority :: "string list \<Rightarrow> string \<Rightarrow> nat" where
  "scope_priority [] s = 0"
| "scope_priority (x # xs) s = (if x = s then 0 else Suc (scope_priority xs s))"

definition evidence_candidate :: "string list \<Rightarrow> string \<Rightarrow> int \<Rightarrow> int \<Rightarrow> evidence_row \<Rightarrow> bool" where
  "evidence_candidate scopes baseline now valid_until r \<longleftrightarrow>
     be_scope r \<in> set scopes \<and> be_baseline r = baseline \<and> be_completed r \<and> be_readable r \<and>
     be_created_at r \<le> iso_timestamp now \<and> be_expires_at r \<ge> iso_timestamp valid_until"

definition evidence_order :: "string list \<Rightarrow> evidence_row \<Rightarrow> nat \<times> int \<times> string" where
  "evidence_order scopes r =
     (scope_priority scopes (be_scope r), - be_created_at r, be_logical_id r)"

definition select_backup_evidence ::
  "auth_db \<Rightarrow> string list \<Rightarrow> string \<Rightarrow> int \<Rightarrow> int \<Rightarrow> evidence result" where
  "select_backup_evidence db scopes baseline now valid_until =
     (if scopes = [] \<or> list_ex (\<lambda>s. s \<notin> set [''full'', ''addon'', ''dashboard'', ''recorder'']) scopes
      then Inl (AuthorizationError ''backup_evidence_scope_invalid'')
      else (case first_min (evidence_order scopes)
                   (filter (evidence_candidate scopes baseline now valid_until)
                     (backup_evidence db)) of
          None \<Rightarrow> Inl (AuthorizationError ''backup_evidence_required'')
        | Some row \<Rightarrow>
            bind_result (assert_backup_evidence_row (Some row) (Some (be_logical_id row)) scopes
                           baseline now valid_until)
              (\<lambda>_. Inr (backup_evidence_document row))))"

definition assert_backup_evidence_valid ::
  "auth_db \<Rightarrow> string option \<Rightarrow> string list \<Rightarrow> string \<Rightarrow> int \<Rightarrow> int \<Rightarrow> evidence result" where
  "assert_backup_evidence_valid db logical_id scopes baseline now valid_until =
     (let row = (case logical_id of None \<Rightarrow> None
                 | Some lid \<Rightarrow> select_one (\<lambda>r. be_logical_id r = lid) (backup_evidence db))
      in bind_result (assert_backup_evidence_row row logical_id scopes baseline now valid_until)
           (\<lambda>_. case row of Some r \<Rightarrow> Inr (backup_evidence_document r)
                 | None \<Rightarrow> Inl (AuthorizationError ''backup_evidence_required'')))"

end
