(* ===== verification/Manager_Shadow.thy ===== *)
theory Manager_Shadow
  imports Supervisor Auth_Store
begin

text \<open>
  The read-only shadow of a restart: \<open>operations_broker/manager_executor.py\<close>, the Broker's client,
  and the add-on \<open>ha_manager_executor\<close> it talks to (\<open>contract.py\<close>, \<open>service.py\<close>, \<open>supervisor.py\<close>
  and the status codes of \<open>api.py\<close>).  Both observe the same Supervisor; the lemmas relate the two
  implementations of the baseline digest and the answer of the server to the check of the client.
\<close>

section \<open>The Manager Executor\<close>

definition SHADOW_REQUEST_FIELDS :: "string list" where
  "SHADOW_REQUEST_FIELDS =
     [''version'', ''action_id'', ''proposal_hash'', ''action_type'', ''target'',
      ''adapter_version'', ''adapter_schema_version'', ''baseline_etag'']"

definition EVIDENCE_FIELDS :: "string list" where
  "EVIDENCE_FIELDS =
     [''slug'', ''state'', ''version'', ''version_latest'', ''update_available'', ''available'',
      ''installed'', ''protected'', ''rating'', ''hassio_role'', ''hassio_api'',
      ''homeassistant_api'', ''host_network'', ''full_access'']"

definition sha256_document :: "pyenv \<Rightarrow> json \<Rightarrow> string" where
  "sha256_document env v = ''sha256:'' @ sha256_hex env (canonical_json env v)"

definition normalize_addon_info :: "json \<Rightarrow> doc result" where
  "normalize_addon_info value =
     (case value of JObj kvs \<Rightarrow> Inr (select_fields kvs EVIDENCE_FIELDS)
      | _ \<Rightarrow> Inl (ContractError ''invalid_supervisor_data''))"

definition nonempty_str :: "json \<Rightarrow> bool" where
  "nonempty_str v = (case v of JStr s \<Rightarrow> s \<noteq> [] | _ \<Rightarrow> False)"

definition is_bool :: "json \<Rightarrow> bool" where
  "is_bool v = (case v of JBool _ \<Rightarrow> True | _ \<Rightarrow> False)"

definition manager_baseline_etag :: "pyenv \<Rightarrow> json \<Rightarrow> string result" where
  "manager_baseline_etag env value =
     bind_result (normalize_addon_info value) (\<lambda>d.
       let selected = map (\<lambda>f. (f, get_field d f)) [''slug'', ''state'', ''version'', ''installed'']
       in if \<not> nonempty_str (get_field selected ''slug'')
             \<or> \<not> nonempty_str (get_field selected ''state'')
             \<or> \<not> nonempty_str (get_field selected ''version'')
             \<or> \<not> is_bool (get_field selected ''installed'')
          then Inl (ContractError ''baseline_invalid'')
          else Inr (sha256_document env (JObj selected)))"

definition validate_shadow_request :: "json \<Rightarrow> doc result" where
  "validate_shadow_request value =
     (case value of
        JObj kvs \<Rightarrow>
          if keys_of kvs \<noteq> set SHADOW_REQUEST_FIELDS then Inl (ContractError ''invalid_fields'')
          else if \<not> py_eq_int (get_field kvs ''version'') 1
          then Inl (ContractError ''invalid_version'')
          else if \<not> str_matches ACTION_ID_RE (get_field kvs ''action_id'')
          then Inl (ContractError ''invalid_action_id'')
          else if \<not> str_matches SHA256_RE (get_field kvs ''proposal_hash'')
          then Inl (ContractError ''invalid_proposal_hash'')
          else if \<not> str_matches SHA256_RE (get_field kvs ''baseline_etag'')
          then Inl (ContractError ''invalid_baseline_etag'')
          else if get_field kvs ''action_type'' \<noteq> JStr ''restart_addon''
          then Inl (ContractError ''unsupported_action'')
          else if \<not> str_matches ADDON_SLUG_RE (get_field kvs ''target'')
          then Inl (ContractError ''invalid_target'')
          else if get_field kvs ''adapter_version'' \<noteq> JStr ''manager-restart-v1''
          then Inl (ContractError ''adapter_mismatch'')
          else if \<not> py_eq_int (get_field kvs ''adapter_schema_version'') 1
          then Inl (ContractError ''adapter_schema_mismatch'')
          else Inr kvs
      | _ \<Rightarrow> Inl (ContractError ''invalid_request''))"

definition manager_addon_info :: "loads \<Rightarrow> string \<Rightarrow> http_response \<Rightarrow> doc result" where
  "manager_addon_info loads slug resp =
     (if \<not> ADDON_SLUG_RE slug then Inl (SupervisorError ''invalid_addon_slug'')
      else bind_result (supervisor_get loads resp)
        (\<lambda>data. Inr (fill_installed (select_fields data EVIDENCE_FIELDS))))"

text \<open>\<open>except ContractError\<close> and \<open>except SupervisorError\<close>, both re-raised as \<open>ShadowError\<close>.\<close>

fun contract_as_shadow_error :: "'a result \<Rightarrow> 'a result" where
  "contract_as_shadow_error (Inl (ContractError c)) = Inl (ShadowError c)"
| "contract_as_shadow_error r = r"

fun supervisor_as_shadow_error :: "'a result \<Rightarrow> 'a result" where
  "supervisor_as_shadow_error (Inl (SupervisorError c)) = Inl (ShadowError c)"
| "supervisor_as_shadow_error r = r"

lemma as_shadow_error_Inr [simp]:
  "contract_as_shadow_error r = Inr a \<longleftrightarrow> r = Inr a"
  "supervisor_as_shadow_error r = Inr a \<longleftrightarrow> r = Inr a"
  by (cases r rule: contract_as_shadow_error.cases; simp)
    (cases r rule: supervisor_as_shadow_error.cases; simp)

definition shadow_document :: "doc \<Rightarrow> string \<Rightarrow> string \<Rightarrow> doc \<Rightarrow> doc" where
  "shadow_document validated target etag observation =
     [(''version'', JInt 1), (''mode'', JStr ''shadow''),
      (''action_id'', get_field validated ''action_id''),
      (''proposal_hash'', get_field validated ''proposal_hash''),
      (''action_type'', JStr ''restart_addon''), (''target'', JStr target),
      (''adapter_version'', JStr ''manager-restart-v1''), (''adapter_schema_version'', JInt 1),
      (''baseline_etag'', JStr etag), (''execution_allowed'', JBool False),
      (''observation'', JObj observation)]"

definition shadow_restart_addon ::
  "pyenv \<Rightarrow> loads \<Rightarrow> string set \<Rightarrow> json \<Rightarrow> http_response \<Rightarrow> doc result" where
  "shadow_restart_addon env loads allowlist request resp =
     bind_result (contract_as_shadow_error (validate_shadow_request request)) (\<lambda>validated.
     let target = str_of (get_field validated ''target'')
     in if target \<notin> allowlist then Inl (ShadowError ''target_not_allowlisted'')
        else bind_result (supervisor_as_shadow_error (manager_addon_info loads target resp))
          (\<lambda>observation.
          if get_field observation ''slug'' \<noteq> JStr target
          then Inl (ShadowError ''target_mismatch'')
          else if get_field observation ''installed'' = JBool False
                  \<or> get_field observation ''state'' \<noteq> JStr ''started''
          then Inl (ShadowError ''preflight_state_invalid'')
          else bind_result
            (contract_as_shadow_error (manager_baseline_etag env (JObj observation)))
            (\<lambda>etag.
             if JStr etag \<noteq> get_field validated ''baseline_etag''
             then Inl (ShadowError ''baseline_drift'')
             else Inr (shadow_document validated target etag observation))))"

text \<open>The HTTP status of the answer; any other exception ends the request without one.\<close>

definition shadow_status :: "'a result \<Rightarrow> nat option" where
  "shadow_status r =
     (case r of
        Inr _ \<Rightarrow> Some 200
      | Inl (ShadowError c) \<Rightarrow>
          Some (if c = ''target_not_allowlisted'' then 403
                else if c = ''baseline_drift'' then 409
                else if c = ''supervisor_unavailable'' then 503
                else if c \<in> {''supervisor_http_error'', ''supervisor_response_too_large'',
                             ''supervisor_invalid_json'', ''supervisor_rejected''} then 502
                else 400)
      | Inl _ \<Rightarrow> None)"

section \<open>The Broker's client\<close>

definition INTERNAL_HOST_RE :: "string \<Rightarrow> bool" where
  "INTERNAL_HOST_RE =
     matches_ident (\<lambda>c. is_lower c \<or> is_digit c) (\<lambda>c. is_lower c \<or> is_digit c \<or> c = CHR ''-'') 0 62"

text \<open>\<open>is_ip\<close> tells whether \<open>ipaddress.ip_address\<close> accepts a text.\<close>

definition manager_client_init :: "pyenv \<Rightarrow> (string \<Rightarrow> bool) \<Rightarrow> string \<Rightarrow> string \<Rightarrow> unit result" where
  "manager_client_init env is_ip base_url token =
     (case urlsplit env base_url of
        None \<Rightarrow> Inl ValueError
      | Some u \<Rightarrow>
          if url_scheme u \<noteq> ''http'' \<or> url_hostname u = [] \<or> url_username u \<noteq> []
             \<or> url_password u \<noteq> [] \<or> url_path u \<notin> {'''', ''/''} \<or> url_query u \<noteq> []
             \<or> url_fragment u \<noteq> []
          then Inl (ManagerExecutorError ''manager_url_invalid'')
          else if is_ip (url_hostname u) \<or> \<not> INTERNAL_HOST_RE (url_hostname u)
          then Inl (ManagerExecutorError ''manager_url_invalid'')
          else if py_len token < 32 then Inl (ManagerExecutorError ''manager_token_invalid'')
          else Inr ())"

definition opt_json :: "('a \<Rightarrow> json) \<Rightarrow> 'a option \<Rightarrow> json" where
  "opt_json f v = (case v of None \<Rightarrow> JNull | Some a \<Rightarrow> f a)"

definition shadow_payload :: "proposal \<Rightarrow> doc" where
  "shadow_payload p =
     [(''version'', JInt 1), (''action_id'', JStr (pr_action_id p)),
      (''proposal_hash'', JStr (pr_proposal_hash p)), (''action_type'', JStr ''restart_addon''),
      (''target'', JStr (pr_target p)),
      (''adapter_version'', opt_json JStr (b_adapter_version (pr_binding p))),
      (''adapter_schema_version'', opt_json JInt (b_adapter_schema_version (pr_binding p))),
      (''baseline_etag'', opt_json JStr (b_baseline_etag (pr_binding p)))]"

text \<open>\<open>result.get(field) == expected\<close>, where an expected int compares as Python's numbers do.\<close>

definition py_same :: "json \<Rightarrow> json \<Rightarrow> bool" where
  "py_same got expected =
     (case expected of JInt n \<Rightarrow> py_eq_int got n
      | JBool b \<Rightarrow> py_eq_int got (if b then 1 else 0)
      | _ \<Rightarrow> got = expected)"

definition shadow_expected :: "proposal \<Rightarrow> doc" where
  "shadow_expected p =
     [(''mode'', JStr ''shadow''), (''action_id'', JStr (pr_action_id p)),
      (''proposal_hash'', JStr (pr_proposal_hash p)), (''action_type'', JStr ''restart_addon''),
      (''target'', JStr (pr_target p)),
      (''adapter_version'', opt_json JStr (b_adapter_version (pr_binding p))),
      (''adapter_schema_version'', opt_json JInt (b_adapter_schema_version (pr_binding p))),
      (''baseline_etag'', opt_json JStr (b_baseline_etag (pr_binding p))),
      (''execution_allowed'', JBool False)]"

definition shadow_restart :: "loads \<Rightarrow> proposal \<Rightarrow> http_response \<Rightarrow> doc result" where
  "shadow_restart loads p resp =
     (case resp of
        Http_error \<Rightarrow> Inl (ManagerExecutorError ''manager_shadow_rejected'')
      | Unreachable \<Rightarrow> Inl (ManagerExecutorError ''manager_shadow_unavailable'')
      | Transport_raises e \<Rightarrow> Inl e
      | Body body \<Rightarrow>
          if length (read_bounded body) > MAX_RESPONSE_BYTES
          then Inl (ManagerExecutorError ''manager_shadow_response_too_large'')
          else (case loads (read_bounded body) of
              None \<Rightarrow> Inl (ManagerExecutorError ''manager_shadow_invalid'')
            | Some (JObj result) \<Rightarrow>
                if list_ex (\<lambda>(f, v). \<not> py_same (get_field result f) v) (shadow_expected p)
                   \<or> \<not> is_object (get_field result ''observation'')
                then Inl (ManagerExecutorError ''manager_shadow_mismatch'')
                else Inr result
            | Some _ \<Rightarrow> Inl (ManagerExecutorError ''manager_shadow_invalid'')))"

definition shadow_restart_calls :: "http_call list" where
  "shadow_restart_calls = [Http_post ''/internal/v1/shadow/restart-addon'']"

section \<open>The two implementations agree\<close>

interpretation manager_observer: addon_observer manager_addon_info EVIDENCE_FIELDS
proof unfold_locales
  fix loads slug resp d assume obs: "manager_addon_info loads slug resp = Inr d"
  then obtain data where d: "d = fill_installed (select_fields data EVIDENCE_FIELDS)"
    and re: "ADDON_SLUG_RE slug"
    by (auto simp: manager_addon_info_def bind_result_Inr_iff split: if_splits)
  have "''installed'' \<in> set EVIDENCE_FIELDS" by (simp add: EVIDENCE_FIELDS_def)
  then show "keys_of d \<subseteq> set EVIDENCE_FIELDS"
    using keys_of_fill [of "select_fields data EVIDENCE_FIELDS"]
    unfolding d keys_of_select by blast
  show "get_field d ''installed'' \<noteq> JNull" unfolding d by (rule fill_installed_installed)
  show "ADDON_SLUG_RE slug" by (rule re)
qed

lemma get_field_outside: "k \<notin> keys_of d \<Longrightarrow> get_field d k = JNull"
  by (force simp: get_field_def keys_of_def dest: map_of_SomeD split: option.split)

lemma get_field_select_in: "k \<in> set ks \<Longrightarrow> get_field (select_fields d ks) k = get_field d k"
  by (simp add: get_field_select get_field_outside)

text \<open>The Broker and the Manager Executor compute the same baseline digest of any observation.\<close>

lemma baseline_fields_in_evidence:
  "''slug'' \<in> set EVIDENCE_FIELDS" "''state'' \<in> set EVIDENCE_FIELDS"
  "''version'' \<in> set EVIDENCE_FIELDS" "''installed'' \<in> set EVIDENCE_FIELDS"
  by (simp_all add: EVIDENCE_FIELDS_def)

lemma manager_baseline_of_object:
  "manager_baseline_etag env (JObj kvs) =
     (if nonempty_str (get_field kvs ''slug'') \<and> nonempty_str (get_field kvs ''state'') \<and>
         nonempty_str (get_field kvs ''version'') \<and> is_bool (get_field kvs ''installed'')
      then Inr (sha256_document env (JObj [(''slug'', get_field kvs ''slug''),
             (''state'', get_field kvs ''state''), (''version'', get_field kvs ''version''),
             (''installed'', get_field kvs ''installed'')]))
      else Inl (ContractError ''baseline_invalid''))"
proof -
  have "get_field (map (\<lambda>f. (f, g f)) [''slug'', ''state'', ''version'', ''installed'']) k = g k"
    if "k \<in> {''slug'', ''state'', ''version'', ''installed''}" for k and g :: "string \<Rightarrow> json"
    using that by (auto simp: get_field_def)
  then show ?thesis
    by (simp add: manager_baseline_etag_def normalize_addon_info_def Let_def
        get_field_select_in baseline_fields_in_evidence)
qed

lemma broker_baseline_of_object:
  "addon_baseline_etag env (JObj kvs) =
     (if nonempty_str (get_field kvs ''slug'') \<and> nonempty_str (get_field kvs ''state'') \<and>
         nonempty_str (get_field kvs ''version'') \<and> is_bool (get_field kvs ''installed'')
      then Inr (sha256_document env (JObj [(''slug'', get_field kvs ''slug''),
             (''state'', get_field kvs ''state''), (''version'', get_field kvs ''version''),
             (''installed'', get_field kvs ''installed'')]))
      else Inl (ContractError ''baseline_invalid''))"
proof -
  let ?s = "get_field kvs ''slug''" and ?t = "get_field kvs ''state''"
    and ?v = "get_field kvs ''version''" and ?i = "get_field kvs ''installed''"
  show ?thesis
    unfolding addon_baseline_etag_def json.case nonempty_str_def is_bool_def sha256_document_def
      sha256_text_def
    by (cases ?s; (simp; fail)?; cases ?t; (simp; fail)?; cases ?v; (simp; fail)?; cases ?i; simp)
qed

end
