(* ===== verification/Auth_Requests.thy ===== *)
theory Auth_Requests
  imports Auth_Store
begin

text \<open>
  \<open>authorization.py\<close>, class \<open>AuthorizationStore\<close>: Broker-native proposals, authorization
  requests and the receipts a verified passkey assertion leaves.  The random tokens
  (\<open>secrets.token_hex\<close>, upper-cased) are arguments; a token that collides with a stored key
  raises \<open>IntegrityError\<close>, as the UNIQUE constraints do.
\<close>

section \<open>Native proposals\<close>

record policy =
  policy_epoch :: int
  policy_hash :: string
  adapter_version :: string
  adapter_schema_version :: int

definition utf8 :: "nat list \<Rightarrow> string" where
  "utf8 bs = map char_of bs"

text \<open>The fixed (Chinese) texts of a native proposal, as UTF-8 bytes.\<close>

definition EXPECTED_CHANGE :: string where
  "EXPECTED_CHANGE = utf8
     [233, 135, 141, 229, 144, 175, 231, 178, 190, 231, 161, 174, 231, 153, 189, 229, 144, 141,
      229, 141, 149, 228, 184, 173, 231, 154, 132, 32, 72, 111, 109, 101, 32, 65, 115, 115, 105,
      115, 116, 97, 110, 116, 32, 65, 100, 100, 45, 111, 110, 227, 128, 130]"

definition VALIDATION_PLAN :: "string list" where
  "VALIDATION_PLAN = [
     utf8 [230, 137, 167, 232, 161, 140, 229, 137, 141, 232, 175, 187, 229, 143, 150, 231, 178,
        190, 231, 161, 174, 32, 65, 100, 100, 45, 111, 110, 32, 231, 138, 182, 230, 128, 129,
        228, 184, 142, 231, 137, 136, 230, 156, 172],
     utf8 [230, 137, 167, 232, 161, 140, 229, 144, 142, 231, 161, 174, 232, 174, 164, 231, 138,
        182, 230, 128, 129, 230, 129, 162, 229, 164, 141, 228, 184, 186, 32, 115, 116, 97, 114,
        116, 101, 100, 32, 228, 184, 148, 231, 137, 136, 230, 156, 172, 230, 156, 170, 229, 143,
        152, 229, 140, 150]]"

definition ROLLBACK_PLAN :: "string list" where
  "ROLLBACK_PLAN = [
     utf8 [232, 139, 165, 231, 187, 147, 230, 158, 156, 228, 184, 141, 231, 161, 174, 229, 174,
        154, 229, 136, 153, 229, 129, 156, 230, 173, 162, 232, 135, 170, 229, 138, 168, 230,
        147, 141, 228, 189, 156, 229, 185, 182, 230, 160, 135, 232, 174, 176, 32, 114, 101, 99,
        111, 118, 101, 114, 121, 95, 114, 101, 113, 117, 105, 114, 101, 100],
     utf8 [229, 144, 142, 231, 187, 173, 230, 129, 162, 229, 164, 141, 230, 136, 150, 229, 164,
        135, 228, 187, 189, 232, 191, 152, 229, 142, 159, 229, 191, 133, 233, 161, 187, 229,
        141, 149, 231, 139, 172, 230, 142, 136, 230, 157, 131]]"

definition native_proposal_hash ::
  "pyenv \<Rightarrow> string \<Rightarrow> native_intent \<Rightarrow> policy \<Rightarrow> string \<Rightarrow> string \<Rightarrow> string \<Rightarrow> int \<Rightarrow> int \<Rightarrow> string" where
  "native_proposal_hash env action_id v pol allowlist_hash baseline_etag evidence_id now expires_at =
     ''sha256:'' @ sha256_text env (canonical_json env (JObj
       [(''version'', JInt 2),
        (''action_id'', JStr action_id),
        (''action_type'', JStr ''restart_addon''),
        (''target'', JStr (ni_target v)),
        (''parameter_summary'', JObj [(''idempotency_key'', JStr (ni_idempotency_key v))]),
        (''risk_level'', JStr ''L3''),
        (''requires_backup'', JBool True),
        (''expected_change'', JStr EXPECTED_CHANGE),
        (''validation_plan'', JList (map JStr VALIDATION_PLAN)),
        (''rollback_plan'', JList (map JStr ROLLBACK_PLAN)),
        (''policy_epoch'', JInt (policy_epoch pol)),
        (''policy_hash'', JStr (policy_hash pol)),
        (''allowlist_hash'', JStr allowlist_hash),
        (''adapter_version'', JStr (adapter_version pol)),
        (''adapter_schema_version'', JInt (adapter_schema_version pol)),
        (''baseline_etag'', JStr baseline_etag),
        (''backup_evidence_id'', JStr evidence_id),
        (''created_at'', JStr (iso_text now)),
        (''expires_at'', JStr (iso_text expires_at)),
        (''state'', JStr ''awaiting_approval'')]))"

definition policy_binding :: "policy \<Rightarrow> string \<Rightarrow> string \<Rightarrow> string option \<Rightarrow> binding" where
  "policy_binding pol allowlist_hash baseline_etag evidence_id =
     \<lparr>b_policy_epoch = Some (policy_epoch pol), b_policy_hash = Some (policy_hash pol),
      b_allowlist_hash = Some allowlist_hash, b_adapter_version = Some (adapter_version pol),
      b_adapter_schema_version = Some (adapter_schema_version pol),
      b_baseline_etag = Some baseline_etag, b_backup_evidence_id = evidence_id\<rparr>"

definition native_proposal_row ::
  "pyenv \<Rightarrow> string \<Rightarrow> native_intent \<Rightarrow> policy \<Rightarrow> string \<Rightarrow> string \<Rightarrow> string \<Rightarrow> int \<Rightarrow> int \<Rightarrow> proposal" where
  "native_proposal_row env token v pol allowlist_hash baseline_etag evidence_id now expires_at =
     (let action_id = ''OPS-'' @ ymd_text now @ ''-'' @ token
      in \<lparr>pr_action_id = action_id, pr_idempotency_key = ni_idempotency_key v,
          pr_action_type = ''restart_addon'', pr_target = ni_target v,
          pr_proposal_hash = native_proposal_hash env action_id v pol allowlist_hash baseline_etag
             evidence_id now expires_at,
          pr_risk_level = ''L3'', pr_requires_backup = True,
          pr_parameter_summary = JObj [(''idempotency_key'', JStr (ni_idempotency_key v))],
          pr_expected_change = EXPECTED_CHANGE, pr_validation_plan = VALIDATION_PLAN,
          pr_rollback_plan = ROLLBACK_PLAN, pr_created_at = iso_timestamp now,
          pr_expires_at = iso_timestamp expires_at, pr_version = 2,
          pr_binding = policy_binding pol allowlist_hash baseline_etag (Some evidence_id)\<rparr>)"

definition existing_native_proposal ::
  "auth_db \<Rightarrow> native_intent \<Rightarrow> int \<Rightarrow> proposal_document option result" where
  "existing_native_proposal db v now =
     (case select_one (\<lambda>r. pr_idempotency_key r = ni_idempotency_key v) (proposals db) of
        None \<Rightarrow> Inr None
      | Some row \<Rightarrow>
          if pr_action_type row \<noteq> ni_action_type v \<or> pr_target row \<noteq> ni_target v
          then Inl (AuthorizationError ''idempotency_conflict'')
          else Inr (Some (proposal_document_of row now)))"

text \<open>The transaction at the end of \<open>create_native_proposal\<close>.\<close>

definition insert_native_proposal ::
  "native_intent \<Rightarrow> proposal \<Rightarrow> int \<Rightarrow> auth_db \<Rightarrow> proposal_document result \<times> auth_db" where
  "insert_native_proposal v row now db =
     (case existing_native_proposal db v now of
        Inl e \<Rightarrow> (Inl e, db)
      | Inr (Some doc) \<Rightarrow> (Inr doc, db)
      | Inr None \<Rightarrow>
          if pr_action_id row \<in> set (map pr_action_id (proposals db))
             \<or> pr_proposal_hash row \<in> set (map pr_proposal_hash (proposals db))
          then (Inl IntegrityError, db)
          else (Inr (proposal_document_of row now),
                db\<lparr>proposals := insert_row row (proposals db)\<rparr>))"

definition create_native_proposal ::
  "pyenv \<Rightarrow> json \<Rightarrow> string set \<Rightarrow> policy \<Rightarrow> string \<Rightarrow> string \<Rightarrow> int \<Rightarrow> int \<Rightarrow> auth_db
     \<Rightarrow> proposal_document result \<times> auth_db" where
  "create_native_proposal env intent allowlist pol baseline_etag token created_at ttl_seconds db =
     (case as_authorization_error (validate_native_intent intent allowlist) of
        Inl e \<Rightarrow> (Inl e, db)
      | Inr v \<Rightarrow>
          if \<not> SHA256_RE baseline_etag then (Inl (AuthorizationError ''baseline_invalid''), db)
          else (let allowlist_hash = allowlist_fingerprint env allowlist;
                    expires_at = created_at + seconds ttl_seconds
                in case select_backup_evidence db [''addon'', ''full''] baseline_etag created_at
                          expires_at of
                     Inl e \<Rightarrow> (Inl e, db)
                   | Inr evidence \<Rightarrow>
                       transaction (insert_native_proposal v
                         (native_proposal_row env token v pol allowlist_hash baseline_etag
                            (be_logical_id evidence) created_at expires_at) created_at) db))"

definition get_native_proposal :: "auth_db \<Rightarrow> string \<Rightarrow> int \<Rightarrow> proposal_document result" where
  "get_native_proposal db action_id now =
     (case select_one (\<lambda>r. pr_action_id r = action_id) (proposals db) of
        None \<Rightarrow> Inl (AuthorizationError ''proposal_not_found'')
      | Some row \<Rightarrow> Inr (proposal_document_of row now))"

section \<open>Authorization requests\<close>

text \<open>INSERT INTO authorization_requests: primary key and UNIQUE(action_id).\<close>

definition insert_request :: "request \<Rightarrow> auth_db \<Rightarrow> request_document result \<times> auth_db" where
  "insert_request row db =
     (if rq_approval_id row \<in> set (map rq_approval_id (requests db))
         \<or> rq_action_id row \<in> set (map rq_action_id (requests db))
      then (Inl IntegrityError, db)
      else (Inr (request_document_of row), db\<lparr>requests := insert_row row (requests db)\<rparr>))"

definition request_of_proposal :: "proposal \<Rightarrow> string \<Rightarrow> int \<Rightarrow> request" where
  "request_of_proposal p approval_id now =
     \<lparr>rq_approval_id = approval_id, rq_action_id = pr_action_id p,
      rq_action_type = pr_action_type p, rq_target = pr_target p,
      rq_proposal_hash = pr_proposal_hash p, rq_risk_level = pr_risk_level p,
      rq_requires_backup = pr_requires_backup p, rq_parameter_summary = pr_parameter_summary p,
      rq_expected_change = pr_expected_change p, rq_validation_plan = pr_validation_plan p,
      rq_rollback_plan = pr_rollback_plan p, rq_structural_owner_hash = ''broker-native-passkey'',
      rq_created_at = iso_timestamp now, rq_expires_at = pr_expires_at p, rq_state = Pending,
      rq_proposal_origin = Broker_native, rq_version = pr_version p, rq_binding = pr_binding p\<rparr>"

definition create_request_from_native_proposal ::
  "json \<Rightarrow> string \<Rightarrow> int \<Rightarrow> auth_db \<Rightarrow> request_document result \<times> auth_db" where
  "create_request_from_native_proposal req token now db =
     (case as_authorization_error (validate_native_authorization_request req) of
        Inl e \<Rightarrow> (Inl e, db)
      | Inr action_id \<Rightarrow> transaction (\<lambda>db.
          case select_one (\<lambda>r. pr_action_id r = action_id) (proposals db) of
            None \<Rightarrow> (Inl (AuthorizationError ''proposal_not_found''), db)
          | Some p \<Rightarrow>
              if now \<ge> pr_expires_at p then (Inl (AuthorizationError ''proposal_expired''), db)
              else (case select_one (\<lambda>r. rq_action_id r = action_id) (requests db) of
                  Some existing \<Rightarrow>
                    if rq_proposal_hash existing \<noteq> pr_proposal_hash p
                    then (Inl (AuthorizationError ''action_conflict''), db)
                    else (Inr (request_document_of existing), db)
                | None \<Rightarrow> insert_request (request_of_proposal p (''AUTH-'' @ token) now) db)) db)"

definition request_of_envelope :: "validated_envelope \<Rightarrow> string \<Rightarrow> int \<Rightarrow> request" where
  "request_of_envelope v approval_id created_at =
     \<lparr>rq_approval_id = approval_id, rq_action_id = ve_action_id v,
      rq_action_type = ve_action_type v, rq_target = ve_target v,
      rq_proposal_hash = ve_proposal_hash v, rq_risk_level = ve_risk_level v,
      rq_requires_backup = ve_requires_backup v, rq_parameter_summary = ve_parameter_summary v,
      rq_expected_change = ve_expected_change v, rq_validation_plan = ve_validation_plan v,
      rq_rollback_plan = ve_rollback_plan v, rq_structural_owner_hash = ve_approved_by_hash v,
      rq_created_at = iso_timestamp created_at, rq_expires_at = ve_expires_at v,
      rq_state = Pending, rq_proposal_origin = Legacy_envelope, rq_version = 1,
      rq_binding = null_binding\<rparr>"

definition create_request ::
  "validated_envelope \<Rightarrow> string \<Rightarrow> int \<Rightarrow> auth_db \<Rightarrow> request_document result \<times> auth_db" where
  "create_request v token created_at = transaction (\<lambda>db.
     case select_one (\<lambda>r. rq_action_id r = ve_action_id v) (requests db) of
       Some existing \<Rightarrow>
         if rq_proposal_hash existing \<noteq> ve_proposal_hash v
         then (Inl (AuthorizationError ''action_conflict''), db)
         else (Inr (request_document_of existing), db)
     | None \<Rightarrow> insert_request (request_of_envelope v (''AUTH-'' @ token) created_at) db)"

definition expire_request :: "string \<Rightarrow> auth_db \<Rightarrow> auth_db" where
  "expire_request approval_id db =
     db\<lparr>requests := update_where (\<lambda>r. rq_approval_id r = approval_id)
          (\<lambda>r. r\<lparr>rq_state := Expired\<rparr>) (requests db)\<rparr>"

definition get_request ::
  "string \<Rightarrow> int \<Rightarrow> auth_db \<Rightarrow> request_document result \<times> auth_db" where
  "get_request approval_id now db =
     (if \<not> is_prefix ''AUTH-'' approval_id
      then (Inl (AuthorizationError ''approval_not_found''), db)
      else transaction (\<lambda>db.
        case select_one (\<lambda>r. rq_approval_id r = approval_id) (requests db) of
          None \<Rightarrow> (Inl (AuthorizationError ''approval_not_found''), db)
        | Some row \<Rightarrow>
            if rq_state row = Pending \<and> now \<ge> rq_expires_at row
            then (Inr (request_document_of (row\<lparr>rq_state := Expired\<rparr>)),
                  expire_request approval_id db)
            else (Inr (request_document_of row), db)) db)"

section \<open>Receipts\<close>

definition receipt_of_request ::
  "pyenv \<Rightarrow> request \<Rightarrow> string \<Rightarrow> string \<Rightarrow> string \<Rightarrow> int \<Rightarrow> receipt" where
  "receipt_of_request env q receipt_id user_id_hash credential_id authorized_at =
     \<lparr>rc_receipt_id = receipt_id, rc_approval_id = rq_approval_id q,
      rc_action_id = rq_action_id q, rc_proposal_hash = rq_proposal_hash q,
      rc_authorized_user_hash = user_id_hash,
      rc_credential_id_hash = sha256_hex env credential_id,
      rc_authorized_at = iso_timestamp authorized_at, rc_expires_at = rq_expires_at q,
      rc_assurance = ''passkey_verified'', rc_consumed_at = None,
      rc_version = rq_version q, rc_binding = rq_binding q\<rparr>"

definition authorize ::
  "pyenv \<Rightarrow> string \<Rightarrow> string \<Rightarrow> string \<Rightarrow> string \<Rightarrow> string \<Rightarrow> int \<Rightarrow> auth_db
     \<Rightarrow> receipt_document result \<times> auth_db" where
  "authorize env approval_id expected_proposal_hash user_id_hash credential_id token authorized_at =
     transaction (\<lambda>db.
       case select_one (\<lambda>r. rq_approval_id r = approval_id) (requests db) of
         None \<Rightarrow> (Inl (AuthorizationError ''approval_not_found''), db)
       | Some q \<Rightarrow>
           if rq_proposal_hash q \<noteq> expected_proposal_hash
           then (Inl (AuthorizationError ''proposal_changed''), db)
           else if rq_state q \<noteq> Pending
           then (Inl (AuthorizationError ''approval_not_pending''), db)
           else if authorized_at \<ge> rq_expires_at q
           then (Inl (AuthorizationError ''approval_expired''), expire_request approval_id db)
           else (let receipt_id = ''RCPT-'' @ token;
                     row = receipt_of_request env q receipt_id user_id_hash credential_id
                             authorized_at
                 in if receipt_id \<in> set (map rc_receipt_id (receipts db))
                       \<or> approval_id \<in> set (map rc_approval_id (receipts db))
                    then (Inl IntegrityError, db)
                    else (Inr (receipt_document_of row),
                          db\<lparr>receipts := insert_row row (receipts db),
                             requests := update_where (\<lambda>r. rq_approval_id r = approval_id)
                               (\<lambda>r. r\<lparr>rq_state := Authorized\<rparr>) (requests db)\<rparr>)))"

definition receipt_for_request :: "auth_db \<Rightarrow> string \<Rightarrow> receipt_document option" where
  "receipt_for_request db approval_id =
     map_option receipt_document_of
       (select_one (\<lambda>r. rc_approval_id r = approval_id) (receipts db))"

end
