(* ===== verification/Auth_Execution.thy ===== *)
theory Auth_Execution
  imports Auth_Requests
begin

text \<open>
  \<open>authorization.py\<close>, class \<open>AuthorizationStore\<close>: execution claims, persistent leases and
  recovery.  A claim consumes one receipt and takes two leases, the singleton
  \<open>singleton:operations\<close> and the add-on's own; an expired lease is not taken over, it is committed
  as \<open>recovery_required\<close> and the claim is refused.
\<close>

section \<open>Leases and execution states\<close>

definition active_execution :: "execution \<Rightarrow> bool" where
  "active_execution x \<longleftrightarrow> ex_state x \<in> {Ex_authorized, Ex_executing, Ex_verifying}"

definition unresolved_execution :: "execution \<Rightarrow> bool" where
  "unresolved_execution x \<longleftrightarrow>
     ex_state x = Ex_recovery_required \<and> ex_recovery_resolution x = None"

definition held_lease :: "lease \<Rightarrow> bool" where
  "held_lease l \<longleftrightarrow> ls_state l \<in> {Ls_active, Ls_recovery_required}"

definition SINGLETON_RESOURCE :: string where
  "SINGLETON_RESOURCE = ''singleton:operations''"

definition addon_resource :: "string \<Rightarrow> string" where
  "addon_resource target = ''addon:'' @ target"

text \<open>\<open>SELECT COALESCE(MAX(epoch), 0) + 1 FROM operation_leases WHERE resource = ?\<close>\<close>

definition max_epoch :: "int list \<Rightarrow> int" where
  "max_epoch es = (case es of [] \<Rightarrow> 0 | e # es' \<Rightarrow> fold max es' e)"

definition next_epoch :: "lease list \<Rightarrow> string \<Rightarrow> int" where
  "next_epoch ls resource =
     max_epoch (map ls_epoch (filter (\<lambda>l. ls_resource l = resource) ls)) + 1"

text \<open>
  INSERT INTO operation_leases: primary key, UNIQUE(resource, epoch) and the partial unique index
  on the resource of held leases.
\<close>

definition insert_lease :: "lease \<Rightarrow> lease list \<Rightarrow> lease list option" where
  "insert_lease l ls =
     (if ls_lease_id l \<in> set (map ls_lease_id ls)
         \<or> (ls_resource l, ls_epoch l) \<in> set (map (\<lambda>k. (ls_resource k, ls_epoch k)) ls)
         \<or> (held_lease l \<and> list_ex (\<lambda>k. held_lease k \<and> ls_resource k = ls_resource l) ls)
      then None else Some (insert_row l ls))"

section \<open>Claiming an execution\<close>

record claim =
  cl_receipt_id :: string
  cl_action_id :: string
  cl_proposal_hash :: string
  cl_idempotency_key :: string
  cl_policy :: policy
  cl_allowlist_hash :: string
  cl_baseline_etag :: string
  cl_backup_evidence_id :: "string option"
  cl_instance_id :: string
  cl_lease_ttl_seconds :: int

definition claim_binding :: "claim \<Rightarrow> binding" where
  "claim_binding c =
     policy_binding (cl_policy c) (cl_allowlist_hash c) (cl_baseline_etag c)
       (cl_backup_evidence_id c)"

datatype claim_outcome = Claimed execution_document bool | Lease_expired

definition expire_lease :: "int \<Rightarrow> string \<Rightarrow> auth_db \<Rightarrow> auth_db" where
  "expire_lease now_text action_id db =
     db\<lparr>executions := update_where (\<lambda>x. ex_action_id x = action_id \<and> active_execution x)
          (\<lambda>x. x\<lparr>ex_state := Ex_recovery_required, ex_error_code := Some ''lease_expired'',
                  ex_updated_at := now_text,
                  ex_finished_at := (case ex_finished_at x of None \<Rightarrow> Some now_text
                                     | Some t \<Rightarrow> Some t)\<rparr>)
          (executions db),
        leases := update_where (\<lambda>l. ls_action_id l = action_id \<and> ls_state l = Ls_active)
          (\<lambda>l. l\<lparr>ls_state := Ls_recovery_required, ls_heartbeat_at := now_text\<rparr>)
          (leases db)\<rparr>"

text \<open>The SELECT that joins a receipt with its request and its native proposal.\<close>

definition select_receipt_join :: "auth_db \<Rightarrow> string \<Rightarrow> (receipt \<times> request \<times> proposal) option" where
  "select_receipt_join db receipt_id =
     (case select_one (\<lambda>r. rc_receipt_id r = receipt_id) (receipts db) of
        None \<Rightarrow> None
      | Some r \<Rightarrow>
          (case select_one (\<lambda>q. rq_approval_id q = rc_approval_id r) (requests db) of
             None \<Rightarrow> None
           | Some q \<Rightarrow>
               (case select_one (\<lambda>p. pr_action_id p = rc_action_id r) (proposals db) of
                  None \<Rightarrow> None
                | Some p \<Rightarrow> Some (r, q, p))))"

text \<open>The loop over \<open>expected_binding\<close>: the drift code of the first field that changed.\<close>

definition binding_drift :: "proposal \<Rightarrow> binding \<Rightarrow> string option" where
  "binding_drift p expected =
     (let b = pr_binding p
      in if pr_version p \<noteq> 2 then Some ''proposal_version_changed''
         else if b_policy_epoch b \<noteq> b_policy_epoch expected then Some ''policy_changed''
         else if b_policy_hash b \<noteq> b_policy_hash expected then Some ''policy_changed''
         else if b_allowlist_hash b \<noteq> b_allowlist_hash expected then Some ''allowlist_changed''
         else if b_adapter_version b \<noteq> b_adapter_version expected then Some ''adapter_changed''
         else if b_adapter_schema_version b \<noteq> b_adapter_schema_version expected
         then Some ''adapter_changed''
         else if b_baseline_etag b \<noteq> b_baseline_etag expected then Some ''baseline_changed''
         else if b_backup_evidence_id b \<noteq> b_backup_evidence_id expected
         then Some ''backup_evidence_changed''
         else None)"

definition claim_evidence :: "auth_db \<Rightarrow> claim \<Rightarrow> receipt \<Rightarrow> int \<Rightarrow> unit result" where
  "claim_evidence db c r now =
     assert_backup_evidence_row
       (case cl_backup_evidence_id c of None \<Rightarrow> None
        | Some lid \<Rightarrow> select_one (\<lambda>e. be_logical_id e = lid) (backup_evidence db))
       (cl_backup_evidence_id c) [''addon'', ''full''] (cl_baseline_etag c) now (rc_expires_at r)"

definition claim_checks ::
  "auth_db \<Rightarrow> claim \<Rightarrow> receipt \<Rightarrow> request \<Rightarrow> proposal \<Rightarrow> int \<Rightarrow> unit result" where
  "claim_checks db c r q p now =
     (if rq_proposal_origin q \<noteq> Broker_native
      then Inl (AuthorizationError ''legacy_receipt_not_executable'')
      else if rc_action_id r \<noteq> cl_action_id c \<or> rc_proposal_hash r \<noteq> cl_proposal_hash c
              \<or> pr_idempotency_key p \<noteq> cl_idempotency_key c
      then Inl (AuthorizationError ''receipt_mismatch'')
      else if rq_state q \<noteq> Authorized \<or> rc_assurance r \<noteq> ''passkey_verified''
      then Inl (AuthorizationError ''receipt_not_authorized'')
      else if rc_consumed_at r \<noteq> None then Inl (AuthorizationError ''receipt_consumed'')
      else if now \<ge> rc_expires_at r then Inl (AuthorizationError ''receipt_expired'')
      else bind_result (claim_evidence db c r now) (\<lambda>_.
        case binding_drift p (claim_binding c) of
          Some code \<Rightarrow> Inl (AuthorizationError code)
        | None \<Rightarrow>
            if rc_version r \<noteq> 2 \<or> rc_binding r \<noteq> claim_binding c
            then Inl (AuthorizationError ''receipt_binding_changed'')
            else Inr ()))"

definition claimed_execution :: "claim \<Rightarrow> proposal \<Rightarrow> int \<Rightarrow> int \<Rightarrow> execution" where
  "claimed_execution c p now_text epoch =
     \<lparr>ex_action_id = cl_action_id c, ex_receipt_id = cl_receipt_id c,
      ex_proposal_hash = cl_proposal_hash c, ex_idempotency_key = cl_idempotency_key c,
      ex_action_type = pr_action_type p, ex_target = pr_target p, ex_state = Ex_authorized,
      ex_preflight = None, ex_postflight = None, ex_error_code = None,
      ex_recovery_resolution = None, ex_recovery_evidence_hash = None,
      ex_recovery_resolved_at = None, ex_started_at = now_text, ex_updated_at = now_text,
      ex_finished_at = None, ex_version = 2, ex_binding = claim_binding c,
      ex_lease_instance_id = cl_instance_id c, ex_lease_epoch = epoch\<rparr>"

definition claimed_lease :: "claim \<Rightarrow> string \<Rightarrow> string \<Rightarrow> int \<Rightarrow> int \<Rightarrow> int \<Rightarrow> lease" where
  "claimed_lease c token resource epoch now_text expires_text =
     \<lparr>ls_lease_id = ''LEASE-'' @ token, ls_resource = resource, ls_action_id = cl_action_id c,
      ls_instance_id = cl_instance_id c, ls_epoch = epoch, ls_heartbeat_at = now_text,
      ls_expires_at = expires_text, ls_state = Ls_active, ls_created_at = now_text,
      ls_released_at = None\<rparr>"

text \<open>
  The writes of a successful claim: the receipt is consumed, the execution and both leases are
  inserted.  The UNIQUE constraints of \<open>operation_executions\<close> are its action, receipt and
  idempotency key.
\<close>

definition claim_commit ::
  "claim \<Rightarrow> proposal \<Rightarrow> string \<times> string \<Rightarrow> int \<Rightarrow> auth_db \<Rightarrow> claim_outcome result \<times> auth_db" where
  "claim_commit c p tokens now db =
     (let now_text = iso_timestamp now;
          expires_text = iso_timestamp (now + seconds (cl_lease_ttl_seconds c));
          resource = addon_resource (pr_target p);
          consumable = (\<lambda>r. rc_receipt_id r = cl_receipt_id c \<and> rc_consumed_at r = None);
          epoch1 = next_epoch (leases db) SINGLETON_RESOURCE;
          epoch2 = next_epoch (leases db) resource;
          x = claimed_execution c p now_text epoch1;
          db1 = db\<lparr>receipts := update_where consumable
                     (\<lambda>r. r\<lparr>rc_consumed_at := Some now_text\<rparr>) (receipts db)\<rparr>
      in if rowcount consumable (receipts db) \<noteq> 1
         then (Inl (AuthorizationError ''receipt_consumed''), db1)
         else if ex_action_id x \<in> set (map ex_action_id (executions db))
                 \<or> ex_receipt_id x \<in> set (map ex_receipt_id (executions db))
                 \<or> ex_idempotency_key x \<in> set (map ex_idempotency_key (executions db))
         then (Inl IntegrityError, db1)
         else (let db2 = db1\<lparr>executions := insert_row x (executions db)\<rparr>
               in case insert_lease (claimed_lease c (fst tokens) SINGLETON_RESOURCE epoch1
                         now_text expires_text) (leases db) of
                    None \<Rightarrow> (Inl IntegrityError, db2)
                  | Some ls1 \<Rightarrow>
                      (case insert_lease (claimed_lease c (snd tokens) resource epoch2
                              now_text expires_text) ls1 of
                         None \<Rightarrow> (Inl IntegrityError, db2\<lparr>leases := ls1\<rparr>)
                       | Some ls2 \<Rightarrow>
                           (Inr (Claimed (execution_document_of x) False), db2\<lparr>leases := ls2\<rparr>))))"

text \<open>The body of the transaction of \<open>claim_execution\<close>.\<close>

definition claim_body ::
  "claim \<Rightarrow> string \<times> string \<Rightarrow> int \<Rightarrow> auth_db \<Rightarrow> claim_outcome result \<times> auth_db" where
  "claim_body c tokens now db =
     (case select_one (\<lambda>x. ex_action_id x = cl_action_id c) (executions db) of
        Some existing \<Rightarrow>
          if ex_receipt_id existing \<noteq> cl_receipt_id c
             \<or> ex_proposal_hash existing \<noteq> cl_proposal_hash c
             \<or> ex_idempotency_key existing \<noteq> cl_idempotency_key c
          then (Inl (AuthorizationError ''execution_conflict''), db)
          else (Inr (Claimed (execution_document_of existing) True), db)
      | None \<Rightarrow>
          (case first_min ls_created_at
                  (filter (\<lambda>l. ls_state l = Ls_active \<and> ls_expires_at l \<le> iso_timestamp now)
                    (leases db)) of
             Some l \<Rightarrow> (Inr Lease_expired, expire_lease (iso_timestamp now) (ls_action_id l) db)
           | None \<Rightarrow>
               if select_one held_lease (leases db) \<noteq> None
               then (Inl (AuthorizationError ''execution_busy''), db)
               else if select_one unresolved_execution (executions db) \<noteq> None
               then (Inl (AuthorizationError ''unresolved_recovery''), db)
               else (case select_receipt_join db (cl_receipt_id c) of
                   None \<Rightarrow> (Inl (AuthorizationError ''receipt_not_found''), db)
                 | Some (r, q, p) \<Rightarrow>
                     (case claim_checks db c r q p now of
                        Inl e \<Rightarrow> (Inl e, db)
                      | Inr _ \<Rightarrow> claim_commit c p tokens now db))))"

definition claim_execution ::
  "claim \<Rightarrow> string \<times> string \<Rightarrow> int \<Rightarrow> auth_db \<Rightarrow> (execution_document \<times> bool) result \<times> auth_db" where
  "claim_execution c tokens now db =
     (case transaction (claim_body c tokens now) db of
        (Inl e, db') \<Rightarrow> (Inl e, db')
      | (Inr Lease_expired, db') \<Rightarrow> (Inl (AuthorizationError ''lease_recovery_required''), db')
      | (Inr (Claimed doc replayed), db') \<Rightarrow> (Inr (doc, replayed), db'))"

section \<open>Updating an execution\<close>

record execution_update =
  up_expected_states :: "exec_state set"
  up_state :: exec_state
  up_preflight :: "json option"
  up_postflight :: "json option"
  up_error_code :: "string option"
  up_finished :: bool

definition apply_update :: "execution_update \<Rightarrow> int \<Rightarrow> execution \<Rightarrow> execution" where
  "apply_update u now x =
     x\<lparr>ex_state := up_state u,
       ex_preflight := (case up_preflight u of None \<Rightarrow> ex_preflight x | Some v \<Rightarrow> Some v),
       ex_postflight := (case up_postflight u of None \<Rightarrow> ex_postflight x | Some v \<Rightarrow> Some v),
       ex_error_code := up_error_code u, ex_updated_at := now,
       ex_finished_at := (if up_finished u then Some now else ex_finished_at x)\<rparr>"

definition recover_active_leases :: "(lease \<Rightarrow> bool) \<Rightarrow> int \<Rightarrow> lease list \<Rightarrow> lease list" where
  "recover_active_leases p now =
     update_where (\<lambda>l. p l \<and> ls_state l = Ls_active)
       (\<lambda>l. l\<lparr>ls_state := Ls_recovery_required, ls_heartbeat_at := now\<rparr>)"

definition release_leases :: "(lease \<Rightarrow> bool) \<Rightarrow> lease_state \<Rightarrow> int \<Rightarrow> lease list \<Rightarrow> lease list" where
  "release_leases p st now =
     update_where (\<lambda>l. p l \<and> ls_state l = st)
       (\<lambda>l. l\<lparr>ls_state := Ls_released, ls_heartbeat_at := now, ls_released_at := Some now\<rparr>)"

definition update_execution ::
  "string \<Rightarrow> execution_update \<Rightarrow> int \<Rightarrow> auth_db \<Rightarrow> execution_document result \<times> auth_db" where
  "update_execution action_id u updated_at = transaction (\<lambda>db.
     let now = iso_timestamp updated_at in
     case select_one (\<lambda>x. ex_action_id x = action_id) (executions db) of
       None \<Rightarrow> (Inl (AuthorizationError ''execution_not_found''), db)
     | Some row \<Rightarrow>
         if ex_state row \<notin> up_expected_states u
         then (Inl (AuthorizationError ''execution_state_conflict''), db)
         else (Inr (execution_document_of (apply_update u now row)),
               db\<lparr>executions := update_where (\<lambda>x. ex_action_id x = action_id)
                    (apply_update u now) (executions db),
                  leases :=
                    (if up_state u = Ex_recovery_required
                     then recover_active_leases (\<lambda>l. ls_action_id l = action_id) now (leases db)
                     else if up_finished u
                     then release_leases (\<lambda>l. ls_action_id l = action_id) Ls_active now (leases db)
                     else leases db)\<rparr>))"

definition heartbeat_execution_leases ::
  "string \<Rightarrow> string \<Rightarrow> int \<Rightarrow> int \<Rightarrow> auth_db \<Rightarrow> unit result \<times> auth_db" where
  "heartbeat_execution_leases action_id instance_id now lease_ttl_seconds = transaction (\<lambda>db.
     let now_text = iso_timestamp now;
         expires_text = iso_timestamp (now + seconds lease_ttl_seconds);
         rows = filter (\<lambda>l. ls_action_id l = action_id) (leases db)
     in if length rows \<noteq> 2
           \<or> list_ex (\<lambda>l. ls_instance_id l \<noteq> instance_id \<or> ls_state l \<noteq> Ls_active) rows
        then (Inl (AuthorizationError ''lease_lost''), db)
        else (Inr (), db\<lparr>leases := update_where
               (\<lambda>l. ls_action_id l = action_id \<and> ls_instance_id l = instance_id
                    \<and> ls_state l = Ls_active)
               (\<lambda>l. l\<lparr>ls_heartbeat_at := now_text, ls_expires_at := expires_text\<rparr>)
               (leases db)\<rparr>))"

definition leases_for_action :: "auth_db \<Rightarrow> string \<Rightarrow> lease list" where
  "leases_for_action db action_id =
     sort_key ls_resource (filter (\<lambda>l. ls_action_id l = action_id) (leases db))"

definition get_execution :: "auth_db \<Rightarrow> string \<Rightarrow> execution_document result" where
  "get_execution db action_id =
     (case select_one (\<lambda>x. ex_action_id x = action_id) (executions db) of
        None \<Rightarrow> Inl (AuthorizationError ''execution_not_found'')
      | Some row \<Rightarrow> Inr (execution_document_of row))"

definition assert_execution_interlock_clear :: "auth_db \<Rightarrow> unit result" where
  "assert_execution_interlock_clear db =
     (if select_one unresolved_execution (executions db) \<noteq> None
      then Inl (AuthorizationError ''unresolved_recovery'') else Inr ())"

section \<open>Recovery\<close>

definition resolve_recovery ::
  "string \<Rightarrow> resolution \<Rightarrow> string \<Rightarrow> int \<Rightarrow> auth_db \<Rightarrow> execution_document result \<times> auth_db" where
  "resolve_recovery action_id resolution evidence_hash resolved_at = transaction (\<lambda>db.
     let now = iso_timestamp resolved_at;
         resolve = (\<lambda>x. x\<lparr>ex_recovery_resolution := Some resolution,
                          ex_recovery_evidence_hash := Some evidence_hash,
                          ex_recovery_resolved_at := Some now, ex_updated_at := now\<rparr>)
     in case select_one (\<lambda>x. ex_action_id x = action_id) (executions db) of
          None \<Rightarrow> (Inl (AuthorizationError ''execution_not_found''), db)
        | Some row \<Rightarrow>
            if ex_state row \<noteq> Ex_recovery_required
            then (Inl (AuthorizationError ''recovery_not_required''), db)
            else if ex_recovery_resolution row \<noteq> None
            then (Inl (AuthorizationError ''recovery_already_resolved''), db)
            else (let resolvable = (\<lambda>x. ex_action_id x = action_id \<and> unresolved_execution x);
                      db1 = db\<lparr>executions := update_where resolvable resolve (executions db)\<rparr>
                  in if rowcount resolvable (executions db) \<noteq> 1
                     then (Inl (AuthorizationError ''recovery_already_resolved''), db1)
                     else (Inr (execution_document_of (resolve row)),
                           db1\<lparr>leases := release_leases (\<lambda>l. ls_action_id l = action_id)
                                  Ls_recovery_required now (leases db)\<rparr>)))"

definition recover_incomplete_executions :: "int \<Rightarrow> auth_db \<Rightarrow> nat \<times> auth_db" where
  "recover_incomplete_executions recovered_at db =
     (let now = iso_timestamp recovered_at
      in (rowcount active_execution (executions db),
          db\<lparr>executions := update_where active_execution
               (\<lambda>x. x\<lparr>ex_state := Ex_recovery_required, ex_error_code := Some ''broker_restarted'',
                       ex_updated_at := now, ex_finished_at := Some now\<rparr>) (executions db),
             leases := recover_active_leases (\<lambda>_. True) now (leases db)\<rparr>))"

end
