(* ===== verification/Auth_Invariant.thy ===== *)
theory Auth_Invariant
  imports Auth_Execution
begin

text \<open>
  The invariant of the authorization database and its preservation by every operation of
  \<open>AuthorizationStore\<close>.  Abstractly the store implements a lock: the state of an execution alone
  determines the state of its two leases (\<open>lease_state_for\<close>), and at most one execution is open,
  that is active or awaiting a recovery decision.  Concretely each execution row is backed by one
  consumed, passkey-verified receipt for a Broker-native proposal with the same digest.
\<close>

section \<open>The lock the leases implement\<close>

definition open_execution :: "execution \<Rightarrow> bool" where
  "open_execution x \<longleftrightarrow> active_execution x \<or> unresolved_execution x"

definition lease_state_for :: "execution \<Rightarrow> lease_state" where
  "lease_state_for x =
     (if active_execution x then Ls_active
      else if unresolved_execution x then Ls_recovery_required else Ls_released)"

definition execution_resources :: "execution \<Rightarrow> string list" where
  "execution_resources x = [SINGLETON_RESOURCE, addon_resource (ex_target x)]"

definition leases_track :: "execution list \<Rightarrow> lease list \<Rightarrow> bool" where
  "leases_track xs ls \<longleftrightarrow>
     (\<forall>l \<in> set ls. \<exists>x \<in> set xs. ex_action_id x = ls_action_id l \<and> ls_state l = lease_state_for x)"

definition leases_cover :: "execution list \<Rightarrow> lease list \<Rightarrow> bool" where
  "leases_cover xs ls \<longleftrightarrow>
     (\<forall>x \<in> set xs. map ls_resource (filter (\<lambda>l. ls_action_id l = ex_action_id x) ls)
                   = execution_resources x)"

definition single_open :: "execution list \<Rightarrow> bool" where
  "single_open xs \<longleftrightarrow>
     (\<forall>x \<in> set xs. \<forall>y \<in> set xs. open_execution x \<longrightarrow> open_execution y \<longrightarrow> x = y)"

definition epochs_fresh :: "lease list \<Rightarrow> bool" where
  "epochs_fresh ls \<longleftrightarrow>
     distinct (map (\<lambda>l. (ls_resource l, ls_epoch l)) ls) \<and> (\<forall>l \<in> set ls. ls_epoch l \<ge> 1)"

definition execution_keys :: "execution list \<Rightarrow> bool" where
  "execution_keys xs \<longleftrightarrow>
     distinct (map ex_action_id xs) \<and> distinct (map ex_receipt_id xs) \<and>
     distinct (map ex_idempotency_key xs)"

definition resolution_only_in_recovery :: "execution list \<Rightarrow> bool" where
  "resolution_only_in_recovery xs \<longleftrightarrow>
     (\<forall>x \<in> set xs. ex_recovery_resolution x \<noteq> None \<longrightarrow> ex_state x = Ex_recovery_required)"

definition lock_inv :: "auth_db \<Rightarrow> bool" where
  "lock_inv db \<longleftrightarrow>
     execution_keys (executions db) \<and> resolution_only_in_recovery (executions db) \<and>
     leases_track (executions db) (leases db) \<and> leases_cover (executions db) (leases db) \<and>
     single_open (executions db) \<and> epochs_fresh (leases db)"

named_theorems lock_defs \<open>the conjuncts of the lock invariant\<close>

declare execution_keys_def [lock_defs] resolution_only_in_recovery_def [lock_defs]
  leases_track_def [lock_defs] leases_cover_def [lock_defs] single_open_def [lock_defs]
  epochs_fresh_def [lock_defs]

lemma active_not_unresolved: "active_execution x \<Longrightarrow> \<not> unresolved_execution x"
  by (auto simp: active_execution_def unresolved_execution_def)

lemma lease_state_for_open: "open_execution x \<longleftrightarrow> lease_state_for x \<noteq> Ls_released"
  by (auto simp: open_execution_def lease_state_for_def)

lemma held_lease_iff: "held_lease l \<longleftrightarrow> ls_state l \<noteq> Ls_released"
  by (cases "ls_state l") (auto simp: held_lease_def)

lemma lock_inv_empty: "lock_inv empty_db"
  by (simp add: lock_inv_def empty_db_def lock_defs)

text \<open>Every open execution holds its leases, so a store with no held lease has none open.\<close>

lemma open_execution_has_held_lease:
  assumes inv: "lock_inv db" and x: "x \<in> set (executions db)" and "open_execution x"
  shows "\<exists>l \<in> set (leases db). ls_action_id l = ex_action_id x \<and> held_lease l"
proof -
  from inv x have "filter (\<lambda>l. ls_action_id l = ex_action_id x) (leases db) \<noteq> []"
    by (auto simp: lock_inv_def leases_cover_def execution_resources_def)
  then obtain l where l: "l \<in> set (leases db)" "ls_action_id l = ex_action_id x"
    by (auto simp: filter_empty_conv)
  from inv l obtain y where y: "y \<in> set (executions db)" "ex_action_id y = ex_action_id x"
      "ls_state l = lease_state_for y"
    by (auto simp: lock_inv_def leases_track_def)
  from inv x y have "y = x"
    by (auto simp: lock_inv_def execution_keys_def distinct_map inj_on_def)
  with y assms(3) have "held_lease l"
    by (simp add: held_lease_iff lease_state_for_open)
  with l show ?thesis by blast
qed

lemma execution_lease_state:
  assumes inv: "lock_inv db" and x: "x \<in> set (executions db)"
    and l: "l \<in> set (leases db)" "ls_action_id l = ex_action_id x"
  shows "ls_state l = lease_state_for x"
proof -
  from inv l obtain y where y: "y \<in> set (executions db)" "ex_action_id y = ex_action_id x"
      "ls_state l = lease_state_for y"
    by (auto simp: lock_inv_def leases_track_def)
  from inv x y have "y = x"
    by (auto simp: lock_inv_def execution_keys_def distinct_map inj_on_def)
  with y show ?thesis by simp
qed

lemma no_held_lease_no_open:
  assumes "lock_inv db" and "select_one held_lease (leases db) = None"
  shows "\<forall>x \<in> set (executions db). \<not> open_execution x"
  using assms open_execution_has_held_lease by (auto simp: select_one_None_iff)

section \<open>Rewriting executions and leases together\<close>

text \<open>
  The common shape of update, expiry, recovery and resolution: a map over the executions and a map
  over the leases that keep the identifying columns, never reopen an execution and move each
  lease to the state its execution now asks for.
\<close>

definition row_rewrite :: "(execution \<Rightarrow> execution) \<Rightarrow> (lease \<Rightarrow> lease) \<Rightarrow> bool" where
  "row_rewrite f g \<longleftrightarrow>
     (\<forall>x. ex_action_id (f x) = ex_action_id x \<and> ex_receipt_id (f x) = ex_receipt_id x \<and>
          ex_idempotency_key (f x) = ex_idempotency_key x \<and> ex_target (f x) = ex_target x) \<and>
     (\<forall>l. ls_action_id (g l) = ls_action_id l \<and> ls_resource (g l) = ls_resource l \<and>
          ls_epoch (g l) = ls_epoch l)"

lemma lock_inv_rewrite:
  assumes inv: "lock_inv db" and fg: "row_rewrite f g"
    and res: "\<And>x. x \<in> set (executions db) \<Longrightarrow>
       ex_recovery_resolution (f x) \<noteq> None \<longrightarrow> ex_state (f x) = Ex_recovery_required"
    and opn: "\<And>x. x \<in> set (executions db) \<Longrightarrow> open_execution (f x) \<Longrightarrow> open_execution x"
    and track: "\<And>x l. x \<in> set (executions db) \<Longrightarrow> l \<in> set (leases db) \<Longrightarrow>
       ex_action_id x = ls_action_id l \<Longrightarrow> ls_state l = lease_state_for x \<Longrightarrow>
       ls_state (g l) = lease_state_for (f x)"
    and db': "executions db' = map f (executions db)" "leases db' = map g (leases db)"
  shows "lock_inv db'"
proof -
  let ?xs = "executions db" and ?ls = "leases db"
  have keys: "map ex_action_id (map f ?xs) = map ex_action_id ?xs"
      "map ex_receipt_id (map f ?xs) = map ex_receipt_id ?xs"
      "map ex_idempotency_key (map f ?xs) = map ex_idempotency_key ?xs"
      "map (\<lambda>l. (ls_resource l, ls_epoch l)) (map g ?ls) = map (\<lambda>l. (ls_resource l, ls_epoch l)) ?ls"
    using fg by (simp_all add: row_rewrite_def)
  have cover: "leases_cover (map f ?xs) (map g ?ls)"
    using inv fg
    by (simp add: lock_inv_def leases_cover_def row_rewrite_def execution_resources_def filter_map
        comp_def)
  have trk: "leases_track (map f ?xs) (map g ?ls)"
    using inv fg track unfolding lock_inv_def leases_track_def row_rewrite_def
    by (simp, blast)
  have "single_open (map f ?xs)"
    using inv opn by (auto simp: lock_inv_def single_open_def)
  moreover have "execution_keys (map f ?xs)"
    using inv by (simp add: lock_inv_def execution_keys_def keys del: map_map)
  moreover have "resolution_only_in_recovery (map f ?xs)"
    using res by (auto simp: resolution_only_in_recovery_def)
  moreover have "epochs_fresh (map g ?ls)"
    using inv fg unfolding lock_inv_def epochs_fresh_def keys by (auto simp: row_rewrite_def)
  ultimately show ?thesis
    using cover trk by (simp add: lock_inv_def db')
qed

text \<open>Operations that leave executions and leases alone keep the lock.\<close>

lemma lock_inv_frame:
  "lock_inv db \<Longrightarrow> executions db' = executions db \<Longrightarrow> leases db' = leases db \<Longrightarrow> lock_inv db'"
  by (simp add: lock_inv_def)

section \<open>The transitions of an execution\<close>

text \<open>
  The updates \<open>ExecutionManager\<close> makes: an authorized execution fails or starts, an executing one
  becomes uncertain or is verified, a verified one succeeds or becomes uncertain.
\<close>

definition legal_update :: "execution_update \<Rightarrow> bool" where
  "legal_update u \<longleftrightarrow>
     (up_expected_states u, up_state u, up_finished u) \<in>
       {({Ex_authorized}, Ex_failed, True), ({Ex_authorized}, Ex_executing, False),
        ({Ex_executing}, Ex_recovery_required, True), ({Ex_executing}, Ex_verifying, False),
        ({Ex_verifying}, Ex_recovery_required, True), ({Ex_verifying}, Ex_succeeded, True)}"

lemma legal_update_from:
  assumes "legal_update u" and "ex_state x \<in> up_expected_states u"
  shows "active_execution x"
  using assms by (auto simp: legal_update_def active_execution_def)

lemma legal_update_target:
  "legal_update u \<Longrightarrow>
     (up_state u = Ex_failed \<and> up_finished u) \<or> (up_state u = Ex_executing \<and> \<not> up_finished u) \<or>
     (up_state u = Ex_recovery_required \<and> up_finished u) \<or>
     (up_state u = Ex_verifying \<and> \<not> up_finished u) \<or> (up_state u = Ex_succeeded \<and> up_finished u)"
  unfolding legal_update_def by blast

lemma legal_update_lease:
  assumes "legal_update u" and "ex_recovery_resolution x = None"
  shows "lease_state_for (apply_update u now x) =
     (if up_state u = Ex_recovery_required then Ls_recovery_required
      else if up_finished u then Ls_released else Ls_active)"
proof -
  have st: "ex_state (apply_update u now x) = up_state u"
    and res: "ex_recovery_resolution (apply_update u now x) = None"
    using assms(2) by (simp_all add: apply_update_def)
  show ?thesis
    using legal_update_target [OF assms(1)]
    unfolding lease_state_for_def active_execution_def unresolved_execution_def st res
    by (elim disjE) simp_all
qed

text \<open>What an update does to one active lease of the execution.\<close>

definition move_lease :: "execution_update \<Rightarrow> int \<Rightarrow> lease \<Rightarrow> lease" where
  "move_lease u now l =
     (if up_state u = Ex_recovery_required
      then l\<lparr>ls_state := Ls_recovery_required, ls_heartbeat_at := now\<rparr>
      else if up_finished u
      then l\<lparr>ls_state := Ls_released, ls_heartbeat_at := now, ls_released_at := Some now\<rparr>
      else l)"

lemma move_lease_simps [simp]:
  "ls_action_id (move_lease u now l) = ls_action_id l"
  "ls_resource (move_lease u now l) = ls_resource l"
  "ls_epoch (move_lease u now l) = ls_epoch l"
  "ls_state (move_lease u now l) =
     (if up_state u = Ex_recovery_required then Ls_recovery_required
      else if up_finished u then Ls_released else ls_state l)"
  by (simp_all add: move_lease_def)

lemma update_leases_eq:
  "(if up_state u = Ex_recovery_required then recover_active_leases p now ls
    else if up_finished u then release_leases p Ls_active now ls else ls)
   = update_where (\<lambda>l. p l \<and> ls_state l = Ls_active) (move_lease u now) ls"
  by (induction ls) (auto simp: recover_active_leases_def release_leases_def move_lease_def)

lemma apply_update_simps [simp]:
  "ex_action_id (apply_update u now x) = ex_action_id x"
  "ex_receipt_id (apply_update u now x) = ex_receipt_id x"
  "ex_proposal_hash (apply_update u now x) = ex_proposal_hash x"
  "ex_idempotency_key (apply_update u now x) = ex_idempotency_key x"
  "ex_target (apply_update u now x) = ex_target x"
  "ex_action_type (apply_update u now x) = ex_action_type x"
  "ex_binding (apply_update u now x) = ex_binding x"
  "ex_version (apply_update u now x) = ex_version x"
  "ex_state (apply_update u now x) = up_state u"
  "ex_recovery_resolution (apply_update u now x) = ex_recovery_resolution x"
  by (simp_all add: apply_update_def)

lemma update_execution_cases:
  obtains (same) e where "fst (update_execution a u t db) = Inl e"
      and "snd (update_execution a u t db) = db"
  | (updated) row where "row \<in> set (executions db)" and "ex_action_id row = a"
      and "ex_state row \<in> up_expected_states u"
      and "fst (update_execution a u t db)
             = Inr (execution_document_of (apply_update u (iso_timestamp t) row))"
      and "snd (update_execution a u t db) = db\<lparr>
             executions := update_where (\<lambda>x. ex_action_id x = a) (apply_update u (iso_timestamp t))
               (executions db),
             leases := update_where (\<lambda>l. ls_action_id l = a \<and> ls_state l = Ls_active)
               (move_lease u (iso_timestamp t)) (leases db)\<rparr>"
proof (cases "select_one (\<lambda>x. ex_action_id x = a) (executions db)")
  case None
  then show ?thesis by (intro same) (simp_all add: update_execution_def transaction_def Let_def)
next
  case (Some row)
  show ?thesis
  proof (cases "ex_state row \<in> up_expected_states u")
    case True
    with Some show ?thesis
      using select_one_Some_iff [OF Some]
      by (intro updated [of row])
        (simp_all add: update_execution_def transaction_def Let_def update_leases_eq)
  next
    case False
    with Some show ?thesis
      by (intro same) (simp_all add: update_execution_def transaction_def Let_def)
  qed
qed

lemma update_execution_lock_inv:
  assumes inv: "lock_inv db" and legal: "legal_update u"
  shows "lock_inv (snd (update_execution a u t db))"
proof (cases rule: update_execution_cases [of a u t db])
  case same
  with inv show ?thesis by simp
next
  case (updated row)
  let ?now = "iso_timestamp t"
  let ?f = "\<lambda>x. if ex_action_id x = a then apply_update u ?now x else x"
  let ?g = "\<lambda>l. if ls_action_id l = a \<and> ls_state l = Ls_active then move_lease u ?now l else l"
  have only: "x = row" if "x \<in> set (executions db)" "ex_action_id x = a" for x
    using that updated(1,2) inv by (auto simp: lock_inv_def execution_keys_def distinct_map inj_on_def)
  have act: "active_execution row" using legal updated(3) by (rule legal_update_from)
  have none: "ex_recovery_resolution row = None"
    using inv updated(1) act
    by (auto simp: lock_inv_def resolution_only_in_recovery_def active_execution_def)
  show ?thesis
  proof (rule lock_inv_rewrite [OF inv, where f = ?f and g = ?g])
    show "row_rewrite ?f ?g" by (simp add: row_rewrite_def)
    show "ex_recovery_resolution (?f x) \<noteq> None \<longrightarrow> ex_state (?f x) = Ex_recovery_required"
      if "x \<in> set (executions db)" for x
      using that inv none only [OF that]
      by (auto simp: lock_inv_def resolution_only_in_recovery_def)
    show "open_execution x" if "x \<in> set (executions db)" "open_execution (?f x)" for x
      using that act only [OF that(1)] by (auto simp: open_execution_def split: if_splits)
    show "ls_state (?g l) = lease_state_for (?f x)"
      if "x \<in> set (executions db)" "ex_action_id x = ls_action_id l" "ls_state l = lease_state_for x"
      for x l
    proof (cases "ex_action_id x = a")
      case True
      with that only have "x = row" by blast
      with True that act none show ?thesis
        by (simp add: legal_update_lease [OF legal] lease_state_for_def [of row])
    next
      case False
      with that show ?thesis by simp
    qed
  qed (simp_all add: updated update_where_def)
qed

section \<open>Recovery, expiry, resolution, heartbeats\<close>

text \<open>Moving every active execution of some actions, with its active leases, to recovery.\<close>

lemma lock_inv_to_recovery:
  assumes inv: "lock_inv db"
    and h: "\<And>x. ex_action_id (h x) = ex_action_id x \<and> ex_receipt_id (h x) = ex_receipt_id x \<and>
        ex_idempotency_key (h x) = ex_idempotency_key x \<and> ex_target (h x) = ex_target x \<and>
        ex_recovery_resolution (h x) = ex_recovery_resolution x \<and>
        ex_state (h x) = Ex_recovery_required"
    and db': "executions db' =
        update_where (\<lambda>x. pa (ex_action_id x) \<and> active_execution x) h (executions db)"
      "leases db' = update_where (\<lambda>l. pa (ls_action_id l) \<and> ls_state l = Ls_active)
        (\<lambda>l. l\<lparr>ls_state := Ls_recovery_required, ls_heartbeat_at := now\<rparr>) (leases db)"
  shows "lock_inv db'"
proof (rule lock_inv_rewrite [OF inv])
  let ?f = "\<lambda>x. if pa (ex_action_id x) \<and> active_execution x then h x else x"
  let ?g = "\<lambda>l. if pa (ls_action_id l) \<and> ls_state l = Ls_active
      then l\<lparr>ls_state := Ls_recovery_required, ls_heartbeat_at := now\<rparr> else l"
  show "row_rewrite ?f ?g" using h by (simp add: row_rewrite_def)
  show "executions db' = map ?f (executions db)" "leases db' = map ?g (leases db)"
    by (simp_all add: db' update_where_def)
  have none: "ex_recovery_resolution x = None" if "x \<in> set (executions db)" "active_execution x" for x
    using inv that
    by (auto simp: lock_inv_def resolution_only_in_recovery_def active_execution_def)
  show "ex_recovery_resolution (?f x) \<noteq> None \<longrightarrow> ex_state (?f x) = Ex_recovery_required"
    if "x \<in> set (executions db)" for x
    using that inv h by (auto simp: lock_inv_def resolution_only_in_recovery_def)
  show "open_execution x" if "open_execution (?f x)" for x
    using that by (auto simp: open_execution_def split: if_splits)
  show "ls_state (?g l) = lease_state_for (?f x)"
    if "x \<in> set (executions db)" "ex_action_id x = ls_action_id l" "ls_state l = lease_state_for x"
    for x l
  proof (cases "pa (ex_action_id x) \<and> active_execution x")
    case True
    have "lease_state_for (h x) = Ls_recovery_required"
      using h [of x] none [OF that(1)] True
      by (simp add: lease_state_for_def active_execution_def unresolved_execution_def)
    with True that show ?thesis by (simp add: lease_state_for_def [of x])
  next
    case False
    with that show ?thesis by (auto simp: lease_state_for_def [of x] split: if_splits)
  qed
qed

lemma expire_lease_lock_inv: "lock_inv db \<Longrightarrow> lock_inv (expire_lease now a db)"
  by (rule lock_inv_to_recovery [where pa = "\<lambda>i. i = a" and now = now
        and h = "\<lambda>x. x\<lparr>ex_state := Ex_recovery_required, ex_error_code := Some ''lease_expired'',
                  ex_updated_at := now,
                  ex_finished_at := (case ex_finished_at x of None \<Rightarrow> Some now | Some t \<Rightarrow> Some t)\<rparr>"])
    (simp_all add: expire_lease_def)

lemma recover_incomplete_lock_inv:
  "lock_inv db \<Longrightarrow> lock_inv (snd (recover_incomplete_executions t db))"
  by (rule lock_inv_to_recovery [where pa = "\<lambda>_. True" and now = "iso_timestamp t"
        and h = "\<lambda>x. x\<lparr>ex_state := Ex_recovery_required, ex_error_code := Some ''broker_restarted'',
                 ex_updated_at := iso_timestamp t, ex_finished_at := Some (iso_timestamp t)\<rparr>"])
    (simp_all add: recover_incomplete_executions_def recover_active_leases_def Let_def)

text \<open>The row a resolution writes.\<close>

definition resolve_row :: "resolution \<Rightarrow> string \<Rightarrow> int \<Rightarrow> execution \<Rightarrow> execution" where
  "resolve_row r evidence_hash now x =
     x\<lparr>ex_recovery_resolution := Some r, ex_recovery_evidence_hash := Some evidence_hash,
       ex_recovery_resolved_at := Some now, ex_updated_at := now\<rparr>"

lemma resolve_recovery_cases:
  obtains (same) e where "fst (resolve_recovery a r h t db) = Inl e"
      and "snd (resolve_recovery a r h t db) = db"
  | (resolved) row where "row \<in> set (executions db)" and "ex_action_id row = a"
      and "unresolved_execution row"
      and "fst (resolve_recovery a r h t db)
             = Inr (execution_document_of (resolve_row r h (iso_timestamp t) row))"
      and "snd (resolve_recovery a r h t db) = db\<lparr>
             executions := update_where (\<lambda>x. ex_action_id x = a \<and> unresolved_execution x)
               (resolve_row r h (iso_timestamp t)) (executions db),
             leases := release_leases (\<lambda>l. ls_action_id l = a) Ls_recovery_required
               (iso_timestamp t) (leases db)\<rparr>"
proof (cases "select_one (\<lambda>x. ex_action_id x = a) (executions db)")
  case None
  then show ?thesis by (intro same) (simp_all add: resolve_recovery_def transaction_def Let_def)
next
  case (Some row)
  show ?thesis
  proof (cases "unresolved_execution row \<and>
      rowcount (\<lambda>x. ex_action_id x = a \<and> unresolved_execution x) (executions db) = 1")
    case True
    with Some show ?thesis
      using select_one_Some_iff [OF Some]
      by (intro resolved [of row])
        (simp_all add: resolve_recovery_def transaction_def Let_def unresolved_execution_def
          resolve_row_def [abs_def])
  next
    case False
    with Some have "\<exists>e. fst (resolve_recovery a r h t db) = Inl e"
      by (auto simp: resolve_recovery_def transaction_result Let_def unresolved_execution_def)
    then obtain e where e: "fst (resolve_recovery a r h t db) = Inl e" by blast
    then have "resolve_recovery a r h t db = (Inl e, db)"
      by (auto simp: resolve_recovery_def transaction_def split: prod.splits sum.splits)
    with e show ?thesis by (intro same) simp_all
  qed
qed

lemma resolve_recovery_lock_inv:
  assumes inv: "lock_inv db"
  shows "lock_inv (snd (resolve_recovery a r h t db))"
proof (cases rule: resolve_recovery_cases [of a r h t db])
  case same
  with inv show ?thesis by simp
next
  case (resolved row)
  let ?now = "iso_timestamp t"
  let ?f = "\<lambda>x. if ex_action_id x = a \<and> unresolved_execution x then resolve_row r h ?now x else x"
  let ?g = "\<lambda>l. if ls_action_id l = a \<and> ls_state l = Ls_recovery_required
      then l\<lparr>ls_state := Ls_released, ls_heartbeat_at := ?now, ls_released_at := Some ?now\<rparr> else l"
  have closed: "lease_state_for (resolve_row r h ?now x) = Ls_released"
    if "unresolved_execution x" for x
    using that by (simp add: lease_state_for_def resolve_row_def unresolved_execution_def
        active_execution_def)
  show ?thesis
  proof (rule lock_inv_rewrite [OF inv, where f = ?f and g = ?g])
    show "row_rewrite ?f ?g" by (simp add: row_rewrite_def resolve_row_def)
    show "ex_recovery_resolution (?f x) \<noteq> None \<longrightarrow> ex_state (?f x) = Ex_recovery_required"
      if "x \<in> set (executions db)" for x
      using that inv
      by (auto simp: lock_inv_def resolution_only_in_recovery_def resolve_row_def
          unresolved_execution_def)
    show "open_execution x" if "open_execution (?f x)" for x
      using that by (auto simp: open_execution_def split: if_splits)
    show "ls_state (?g l) = lease_state_for (?f x)"
      if "x \<in> set (executions db)" "ex_action_id x = ls_action_id l" "ls_state l = lease_state_for x"
      for x l
      using that active_not_unresolved [of x]
      by (auto simp: closed lease_state_for_def [of x] split: if_splits)
  qed (simp_all add: resolved update_where_def release_leases_def)
qed

lemma heartbeat_cases:
  "snd (heartbeat_execution_leases a i t ttl db) = db \<or>
   snd (heartbeat_execution_leases a i t ttl db) = db\<lparr>leases := update_where
      (\<lambda>l. ls_action_id l = a \<and> ls_instance_id l = i \<and> ls_state l = Ls_active)
      (\<lambda>l. l\<lparr>ls_heartbeat_at := iso_timestamp t, ls_expires_at := iso_timestamp (t + seconds ttl)\<rparr>)
      (leases db)\<rparr>"
  by (simp add: heartbeat_execution_leases_def transaction_state Let_def)

lemma heartbeat_lock_inv:
  assumes inv: "lock_inv db"
  shows "lock_inv (snd (heartbeat_execution_leases a i t ttl db))"
  using heartbeat_cases [of a i t ttl db]
proof
  assume "snd (heartbeat_execution_leases a i t ttl db) = db"
  with inv show ?thesis by simp
next
  let ?hit = "\<lambda>l. ls_action_id l = a \<and> ls_instance_id l = i \<and> ls_state l = Ls_active"
  let ?h = "\<lambda>l. l\<lparr>ls_heartbeat_at := iso_timestamp t,
                 ls_expires_at := iso_timestamp (t + seconds ttl)\<rparr>"
  assume eq: "snd (heartbeat_execution_leases a i t ttl db)
      = db\<lparr>leases := update_where ?hit ?h (leases db)\<rparr>"
  show ?thesis
    by (rule lock_inv_rewrite [OF inv, where f = "\<lambda>x. x" and g = "\<lambda>l. if ?hit l then ?h l else l"])
      (use inv in \<open>auto simp: eq row_rewrite_def update_where_def lock_inv_def
         resolution_only_in_recovery_def\<close>)
qed

section \<open>Claims\<close>

lemma fold_max_ge: "(e::int) \<le> fold max es e \<and> (\<forall>x \<in> set es. x \<le> fold max es e)"
  by (induction es arbitrary: e) (auto, meson max.boundedE order_trans, (meson max.boundedE)+)

lemma max_epoch_ge: "e \<in> set es \<Longrightarrow> e \<le> max_epoch es"
  using fold_max_ge by (cases es) (auto simp: max_epoch_def)

lemma max_epoch_nonneg: "\<forall>e \<in> set es. 1 \<le> e \<Longrightarrow> 0 \<le> max_epoch es"
proof (cases es)
  case (Cons e es')
  assume "\<forall>e \<in> set es. 1 \<le> e"
  with Cons have "1 \<le> e" by simp
  also have "e \<le> max_epoch es" using Cons by (intro max_epoch_ge) simp
  finally show ?thesis by simp
qed (simp add: max_epoch_def)

lemma next_epoch_gt:
  "l \<in> set ls \<Longrightarrow> ls_resource l = res \<Longrightarrow> ls_epoch l < next_epoch ls res"
  using max_epoch_ge [of "ls_epoch l" "map ls_epoch (filter (\<lambda>l. ls_resource l = res) ls)"]
  by (auto simp: next_epoch_def)

lemma next_epoch_pos: "\<forall>l \<in> set ls. 1 \<le> ls_epoch l \<Longrightarrow> 1 \<le> next_epoch ls res"
  unfolding next_epoch_def using max_epoch_nonneg [of "map ls_epoch (filter (\<lambda>l. ls_resource l = res) ls)"]
  by auto

lemma resources_differ: "SINGLETON_RESOURCE \<noteq> addon_resource t"
  by (simp add: SINGLETON_RESOURCE_def addon_resource_def)

text \<open>The effect of a claim that goes through.\<close>

definition commit_execution :: "claim \<Rightarrow> proposal \<Rightarrow> int \<Rightarrow> auth_db \<Rightarrow> execution" where
  "commit_execution c p now db =
     claimed_execution c p (iso_timestamp now) (next_epoch (leases db) SINGLETON_RESOURCE)"

definition commit_leases ::
  "claim \<Rightarrow> proposal \<Rightarrow> string \<times> string \<Rightarrow> int \<Rightarrow> auth_db \<Rightarrow> lease list" where
  "commit_leases c p tokens now db =
     [claimed_lease c (fst tokens) SINGLETON_RESOURCE (next_epoch (leases db) SINGLETON_RESOURCE)
        (iso_timestamp now) (iso_timestamp (now + seconds (cl_lease_ttl_seconds c))),
      claimed_lease c (snd tokens) (addon_resource (pr_target p))
        (next_epoch (leases db) (addon_resource (pr_target p)))
        (iso_timestamp now) (iso_timestamp (now + seconds (cl_lease_ttl_seconds c)))]"

definition commit_db ::
  "claim \<Rightarrow> proposal \<Rightarrow> string \<times> string \<Rightarrow> int \<Rightarrow> auth_db \<Rightarrow> auth_db" where
  "commit_db c p tokens now db =
     db\<lparr>receipts := update_where
          (\<lambda>r. rc_receipt_id r = cl_receipt_id c \<and> rc_consumed_at r = None)
          (\<lambda>r. r\<lparr>rc_consumed_at := Some (iso_timestamp now)\<rparr>) (receipts db),
        executions := insert_row (commit_execution c p now db) (executions db),
        leases := leases db @ commit_leases c p tokens now db\<rparr>"

lemma claim_commit_Inr:
  assumes "claim_commit c p tokens now db = (Inr out, db')"
  shows "out = Claimed (execution_document_of (commit_execution c p now db)) False"
    and "db' = commit_db c p tokens now db"
    and "rowcount (\<lambda>r. rc_receipt_id r = cl_receipt_id c \<and> rc_consumed_at r = None) (receipts db) = 1"
    and "cl_action_id c \<notin> ex_action_id ` set (executions db)"
    and "cl_receipt_id c \<notin> ex_receipt_id ` set (executions db)"
    and "cl_idempotency_key c \<notin> ex_idempotency_key ` set (executions db)"
  using assms
  by (simp_all add: claim_commit_def Let_def insert_lease_def commit_db_def commit_execution_def
      commit_leases_def claimed_execution_def insert_row_def
      split: if_splits option.splits)

lemma commit_execution_simps [simp]:
  "ex_action_id (commit_execution c p now db) = cl_action_id c"
  "ex_receipt_id (commit_execution c p now db) = cl_receipt_id c"
  "ex_idempotency_key (commit_execution c p now db) = cl_idempotency_key c"
  "ex_proposal_hash (commit_execution c p now db) = cl_proposal_hash c"
  "ex_target (commit_execution c p now db) = pr_target p"
  "ex_action_type (commit_execution c p now db) = pr_action_type p"
  "ex_state (commit_execution c p now db) = Ex_authorized"
  "ex_recovery_resolution (commit_execution c p now db) = None"
  "ex_binding (commit_execution c p now db) = claim_binding c"
  "ex_version (commit_execution c p now db) = 2"
  by (simp_all add: commit_execution_def claimed_execution_def)

lemma commit_lease_cases:
  assumes "l \<in> set (commit_leases c p tokens now db)"
  shows "ls_action_id l = cl_action_id c \<and> ls_state l = Ls_active \<and>
    ls_epoch l = next_epoch (leases db) (ls_resource l)"
  using assms by (auto simp: commit_leases_def claimed_lease_def)

lemma epochs_fresh_commit:
  assumes "epochs_fresh (leases db)"
  shows "epochs_fresh (leases db @ commit_leases c p tokens now db)"
proof -
  let ?new = "commit_leases c p tokens now db"
  have fresh: "ls_epoch l < ls_epoch k"
    if "l \<in> set (leases db)" "k \<in> set ?new" "ls_resource l = ls_resource k" for l k
    using that commit_lease_cases [OF that(2)] next_epoch_gt [of l "leases db" "ls_resource k"]
    by simp
  have pos: "1 \<le> ls_epoch k" if "k \<in> set ?new" for k
    using assms commit_lease_cases [OF that] next_epoch_pos [of "leases db" "ls_resource k"]
    by (simp add: epochs_fresh_def)
  have "distinct (map (\<lambda>l. (ls_resource l, ls_epoch l)) ?new)"
    using resources_differ by (simp add: commit_leases_def claimed_lease_def)
  with assms fresh pos show ?thesis
    unfolding epochs_fresh_def by (fastforce simp: distinct_append)
qed

lemma commit_db_lock_inv:
  assumes inv: "lock_inv db" and closed: "\<forall>x \<in> set (executions db). \<not> open_execution x"
    and fresh: "cl_action_id c \<notin> ex_action_id ` set (executions db)"
      "cl_receipt_id c \<notin> ex_receipt_id ` set (executions db)"
      "cl_idempotency_key c \<notin> ex_idempotency_key ` set (executions db)"
  shows "lock_inv (commit_db c p tokens now db)"
proof -
  let ?x = "commit_execution c p now db" and ?new = "commit_leases c p tokens now db"
  let ?xs = "insert_row ?x (executions db)" and ?ls = "leases db @ ?new"
  have act: "lease_state_for ?x = Ls_active"
    by (simp add: lease_state_for_def active_execution_def)
  have other: "ls_action_id l \<noteq> cl_action_id c" if "l \<in> set (leases db)" for l
    using that inv fresh(1) by (force simp: lock_inv_def leases_track_def)
  have "leases_track ?xs ?ls"
    using inv act commit_lease_cases [of _ c p tokens now db]
    by (auto simp: lock_inv_def leases_track_def)
  moreover have "leases_cover ?xs ?ls"
  proof -
    have "filter (\<lambda>l. ls_action_id l = cl_action_id c) (leases db) = []"
      using other by (auto simp: filter_empty_conv)
    moreover have "filter (\<lambda>l. ls_action_id l = cl_action_id c) ?new = ?new"
      by (simp add: commit_leases_def claimed_lease_def)
    moreover have "map ls_resource ?new = execution_resources ?x"
      by (simp add: commit_leases_def claimed_lease_def execution_resources_def)
    moreover have "filter (\<lambda>l. ls_action_id l = ex_action_id y) ?new = []"
      if "y \<in> set (executions db)" for y
      using that fresh(1) by (auto simp: commit_leases_def claimed_lease_def)
    ultimately show ?thesis using inv by (auto simp: lock_inv_def leases_cover_def)
  qed
  moreover have "single_open ?xs" using closed by (auto simp: single_open_def)
  moreover have "execution_keys ?xs"
    using inv fresh by (auto simp: lock_inv_def execution_keys_def)
  moreover have "resolution_only_in_recovery ?xs"
    using inv by (auto simp: lock_inv_def resolution_only_in_recovery_def)
  moreover have "epochs_fresh ?ls"
    using inv by (intro epochs_fresh_commit) (simp add: lock_inv_def)
  ultimately show ?thesis by (simp add: lock_inv_def commit_db_def)
qed

lemma claim_cases:
  obtains (refused) e where "fst (claim_execution c tokens now db) = Inl e"
      and "snd (claim_execution c tokens now db) = db"
  | (replayed) x where "select_one (\<lambda>x. ex_action_id x = cl_action_id c) (executions db) = Some x"
      and "ex_receipt_id x = cl_receipt_id c" and "ex_proposal_hash x = cl_proposal_hash c"
      and "ex_idempotency_key x = cl_idempotency_key c"
      and "claim_execution c tokens now db = (Inr (execution_document_of x, True), db)"
  | (expired) l where "l \<in> set (leases db)" and "ls_state l = Ls_active"
      and "ls_expires_at l \<le> iso_timestamp now"
      and "claim_execution c tokens now db =
        (Inl (AuthorizationError ''lease_recovery_required''),
         expire_lease (iso_timestamp now) (ls_action_id l) db)"
  | (claimed) r q p where "select_one held_lease (leases db) = None"
      and "select_one unresolved_execution (executions db) = None"
      and "select_receipt_join db (cl_receipt_id c) = Some (r, q, p)"
      and "claim_checks db c r q p now = Inr ()"
      and "claim_commit c p tokens now db
        = (Inr (Claimed (execution_document_of (commit_execution c p now db)) False),
           commit_db c p tokens now db)"
      and "claim_execution c tokens now db =
        (Inr (execution_document_of (commit_execution c p now db), False),
         commit_db c p tokens now db)"
proof (cases "claim_body c tokens now db")
  case (Pair res db')
  show ?thesis
  proof (cases res)
    case (Inl e)
    with Pair show ?thesis
      by (intro refused [of e]) (simp_all add: claim_execution_def transaction_def)
  next
    case (Inr out)
    with Pair have body: "claim_body c tokens now db = (Inr out, db')" by simp
    show ?thesis
    proof (cases "select_one (\<lambda>x. ex_action_id x = cl_action_id c) (executions db)")
      case (Some x)
      with body have "out = Claimed (execution_document_of x) True" "db' = db"
          "ex_receipt_id x = cl_receipt_id c" "ex_proposal_hash x = cl_proposal_hash c"
          "ex_idempotency_key x = cl_idempotency_key c"
        by (simp_all add: claim_body_def split: if_splits)
      with Some body show ?thesis
        by (intro replayed [of x]) (simp_all add: claim_execution_def transaction_def)
    next
      case None
      let ?due = "filter (\<lambda>l. ls_state l = Ls_active \<and> ls_expires_at l \<le> iso_timestamp now) (leases db)"
      show ?thesis
      proof (cases "first_min ls_created_at ?due")
        case (Some l)
        with None body have "out = Lease_expired"
            "db' = expire_lease (iso_timestamp now) (ls_action_id l) db"
          by (simp_all add: claim_body_def)
        with body first_min_mem [OF Some] show ?thesis
          by (intro expired [of l]) (simp_all add: claim_execution_def transaction_def)
      next
        case no_due: None
        with None body obtain r q p where
          free: "select_one held_lease (leases db) = None"
            "select_one unresolved_execution (executions db) = None"
          and j: "select_receipt_join db (cl_receipt_id c) = Some (r, q, p)"
          and ok: "claim_checks db c r q p now = Inr ()"
          and commit: "claim_commit c p tokens now db = (Inr out, db')"
          by (simp add: claim_body_def split: if_splits option.splits prod.splits sum.splits)
        note eq = claim_commit_Inr(1,2) [OF commit]
        show ?thesis
          by (rule claimed [OF free j ok])
            (use body commit eq in \<open>simp_all add: claim_execution_def transaction_def\<close>)
      qed
    qed
  qed
qed

lemma claim_lock_inv:
  assumes inv: "lock_inv db"
  shows "lock_inv (snd (claim_execution c tokens now db))"
proof (cases rule: claim_cases [of c tokens now db])
  case (expired l)
  with inv show ?thesis by (simp add: expire_lease_lock_inv)
next
  case (claimed r q p)
  have "lock_inv (commit_db c p tokens now db)"
    by (rule commit_db_lock_inv [OF inv no_held_lease_no_open [OF inv claimed(1)]
          claim_commit_Inr(4,5,6) [OF claimed(5)]])
  with claimed show ?thesis by simp
qed (use inv in simp_all)

end
