(* ===== verification/Auth_Provenance.thy ===== *)
theory Auth_Provenance
  imports Auth_Invariant
begin

text \<open>
  Where an execution comes from.  \<open>auth_inv\<close> ties the four tables of the authorization chain
  together: a receipt belongs to one authorized request, a Broker-native request mirrors its
  proposal, an execution is backed by one consumed receipt, and a consumed receipt has its
  execution.  \<open>auth_step\<close> is any one operation of the store, with any arguments;
  \<open>broker\<close> interprets the invariant interface on it.
\<close>

section \<open>The invariant\<close>

definition receipt_backed :: "request list \<Rightarrow> receipt \<Rightarrow> bool" where
  "receipt_backed qs r \<longleftrightarrow>
     rc_assurance r = ''passkey_verified'' \<and>
     (\<exists>q \<in> set qs. rq_approval_id q = rc_approval_id r \<and> rq_action_id q = rc_action_id r \<and>
        rq_proposal_hash q = rc_proposal_hash r \<and> rq_state q = Authorized \<and>
        rq_expires_at q = rc_expires_at r \<and> rq_binding q = rc_binding r)"

definition mirrors :: "request \<Rightarrow> proposal \<Rightarrow> bool" where
  "mirrors q p \<longleftrightarrow>
     pr_action_id p = rq_action_id q \<and> pr_proposal_hash p = rq_proposal_hash q \<and>
     pr_target p = rq_target q \<and> pr_expires_at p = rq_expires_at q \<and>
     pr_binding p = rq_binding q \<and> pr_version p = rq_version q"

definition request_mirrored :: "proposal list \<Rightarrow> request \<Rightarrow> bool" where
  "request_mirrored ps q \<longleftrightarrow>
     (rq_proposal_origin q = Broker_native \<longrightarrow> (\<exists>p \<in> set ps. mirrors q p))"

definition execution_backed :: "auth_db \<Rightarrow> execution \<Rightarrow> bool" where
  "execution_backed db x \<longleftrightarrow>
     (\<exists>r \<in> set (receipts db). \<exists>q \<in> set (requests db). \<exists>p \<in> set (proposals db).
        rc_receipt_id r = ex_receipt_id x \<and> rc_action_id r = ex_action_id x \<and>
        rc_proposal_hash r = ex_proposal_hash x \<and> rc_assurance r = ''passkey_verified'' \<and>
        rc_consumed_at r \<noteq> None \<and> rc_binding r = ex_binding x \<and>
        rq_approval_id q = rc_approval_id r \<and> rq_proposal_origin q = Broker_native \<and>
        rq_state q = Authorized \<and>
        pr_action_id p = ex_action_id x \<and> pr_proposal_hash p = ex_proposal_hash x \<and>
        pr_idempotency_key p = ex_idempotency_key x \<and> pr_target p = ex_target x \<and>
        pr_binding p = ex_binding x)"

definition native_row :: "proposal \<Rightarrow> bool" where
  "native_row p \<longleftrightarrow>
     pr_action_type p = ''restart_addon'' \<and> pr_risk_level p = ''L3'' \<and> pr_requires_backup p \<and>
     pr_version p = 2"

definition auth_inv :: "auth_db \<Rightarrow> bool" where
  "auth_inv db \<longleftrightarrow>
     distinct (map rq_approval_id (requests db)) \<and> distinct (map rq_action_id (requests db)) \<and>
     distinct (map rc_receipt_id (receipts db)) \<and> distinct (map rc_approval_id (receipts db)) \<and>
     distinct (map pr_action_id (proposals db)) \<and>
     distinct (map pr_idempotency_key (proposals db)) \<and>
     (\<forall>r \<in> set (receipts db). receipt_backed (requests db) r) \<and>
     (\<forall>q \<in> set (requests db). request_mirrored (proposals db) q) \<and>
     (\<forall>x \<in> set (executions db). execution_backed db x) \<and>
     (\<forall>r \<in> set (receipts db). rc_consumed_at r \<noteq> None \<longrightarrow>
        rc_receipt_id r \<in> ex_receipt_id ` set (executions db)) \<and>
     (\<forall>p \<in> set (proposals db). native_row p)"

lemma auth_inv_empty: "auth_inv empty_db"
  by (simp add: auth_inv_def empty_db_def)

lemma auth_inv_frame:
  "auth_inv db \<Longrightarrow> requests db' = requests db \<Longrightarrow> receipts db' = receipts db \<Longrightarrow>
   proposals db' = proposals db \<Longrightarrow> executions db' = executions db \<Longrightarrow> auth_inv db'"
  by (simp add: auth_inv_def execution_backed_def)

section \<open>Executions rewritten, leases changed\<close>

lemma auth_inv_executions:
  assumes inv: "auth_inv db"
    and f: "\<And>x. ex_action_id (f x) = ex_action_id x \<and> ex_receipt_id (f x) = ex_receipt_id x \<and>
        ex_proposal_hash (f x) = ex_proposal_hash x \<and>
        ex_idempotency_key (f x) = ex_idempotency_key x \<and> ex_target (f x) = ex_target x \<and>
        ex_binding (f x) = ex_binding x"
    and db': "requests db' = requests db" "receipts db' = receipts db"
      "proposals db' = proposals db" "executions db' = update_where hit f (executions db)"
  shows "auth_inv db'"
proof -
  have "execution_backed db' (if hit x then f x else x)" if "x \<in> set (executions db)" for x
    using that inv f by (simp add: auth_inv_def execution_backed_def db')
  moreover have "map ex_receipt_id (update_where hit f (executions db))
      = map ex_receipt_id (executions db)"
    by (rule map_update_where) (simp add: f)
  then have "ex_receipt_id ` set (update_where hit f (executions db))
      = ex_receipt_id ` set (executions db)"
    by (metis set_map)
  ultimately show ?thesis
    using inv by (auto simp: auth_inv_def db' update_where_mem)
qed

lemma update_execution_auth_inv:
  assumes inv: "auth_inv db"
  shows "auth_inv (snd (update_execution a u t db))"
proof (cases rule: update_execution_cases [of a u t db])
  case (updated row)
  show ?thesis
    by (rule auth_inv_executions [OF inv, where f = "apply_update u (iso_timestamp t)"
          and hit = "\<lambda>x. ex_action_id x = a"]) (simp_all add: updated)
qed (use inv in simp)

lemma expire_lease_auth_inv: "auth_inv db \<Longrightarrow> auth_inv (expire_lease now a db)"
  by (rule auth_inv_executions [where hit = "\<lambda>x. ex_action_id x = a \<and> active_execution x"
        and f = "\<lambda>x. x\<lparr>ex_state := Ex_recovery_required, ex_error_code := Some ''lease_expired'',
                  ex_updated_at := now,
                  ex_finished_at := (case ex_finished_at x of None \<Rightarrow> Some now | Some t \<Rightarrow> Some t)\<rparr>"])
    (simp_all add: expire_lease_def)

lemma recover_incomplete_auth_inv:
  "auth_inv db \<Longrightarrow> auth_inv (snd (recover_incomplete_executions t db))"
  by (rule auth_inv_executions [where hit = active_execution
        and f = "\<lambda>x. x\<lparr>ex_state := Ex_recovery_required, ex_error_code := Some ''broker_restarted'',
                 ex_updated_at := iso_timestamp t, ex_finished_at := Some (iso_timestamp t)\<rparr>"])
    (simp_all add: recover_incomplete_executions_def Let_def)

lemma resolve_recovery_auth_inv:
  assumes inv: "auth_inv db"
  shows "auth_inv (snd (resolve_recovery a r h t db))"
proof (cases rule: resolve_recovery_cases [of a r h t db])
  case (resolved row)
  show ?thesis
    by (rule auth_inv_executions [OF inv, where f = "resolve_row r h (iso_timestamp t)"
          and hit = "\<lambda>x. ex_action_id x = a \<and> unresolved_execution x"])
      (simp_all add: resolved resolve_row_def)
qed (use inv in simp)

lemma heartbeat_auth_inv:
  assumes inv: "auth_inv db"
  shows "auth_inv (snd (heartbeat_execution_leases a i t ttl db))"
  using heartbeat_cases [of a i t ttl db] by (auto intro: auth_inv_frame [OF inv])

section \<open>Claims consume receipts\<close>

lemma select_receipt_join_Some:
  assumes "select_receipt_join db rid = Some (r, q, p)"
  shows "r \<in> set (receipts db)" "rc_receipt_id r = rid"
    and "q \<in> set (requests db)" "rq_approval_id q = rc_approval_id r"
    and "p \<in> set (proposals db)" "pr_action_id p = rc_action_id r"
  using assms
  by (auto simp: select_receipt_join_def split: option.splits dest!: select_one_Some_iff)

lemma binding_drift_None:
  assumes "binding_drift p b = None"
  shows "pr_version p = 2 \<and> pr_binding p = b"
  using assms by (auto simp: binding_drift_def Let_def split: if_splits)

lemma claim_checks_ok:
  assumes "claim_checks db c r q p now = Inr ()"
  shows "rq_proposal_origin q = Broker_native" "rc_action_id r = cl_action_id c"
    and "rc_proposal_hash r = cl_proposal_hash c" "pr_idempotency_key p = cl_idempotency_key c"
    and "rq_state q = Authorized" "rc_assurance r = ''passkey_verified''"
    and "rc_consumed_at r = None" "now < rc_expires_at r" "claim_evidence db c r now = Inr ()"
    and "pr_version p = 2" "pr_binding p = claim_binding c"
    and "rc_version r = 2" "rc_binding r = claim_binding c"
  using assms binding_drift_None [of p "claim_binding c"]
  by (auto simp: claim_checks_def bind_result_Inr_iff split: if_splits option.splits)

lemma commit_db_auth_inv:
  assumes inv: "auth_inv db" and join: "select_receipt_join db (cl_receipt_id c) = Some (r, q, p)"
    and ok: "claim_checks db c r q p now = Inr ()"
  shows "auth_inv (commit_db c p tokens now db)"
proof -
  let ?hit = "\<lambda>r. rc_receipt_id r = cl_receipt_id c \<and> rc_consumed_at r = None"
  let ?f = "\<lambda>r. r\<lparr>rc_consumed_at := Some (iso_timestamp now)\<rparr>"
  let ?rs = "update_where ?hit ?f (receipts db)"
  let ?x = "commit_execution c p now db" and ?db = "commit_db c p tokens now db"
  note j = select_receipt_join_Some [OF join] and ck = claim_checks_ok [OF ok]
  have tables: "receipts ?db = ?rs" "requests ?db = requests db" "proposals ?db = proposals db"
      "executions ?db = insert_row ?x (executions db)"
    by (simp_all add: commit_db_def)
  have keys: "map rc_receipt_id ?rs = map rc_receipt_id (receipts db)"
      "map rc_approval_id ?rs = map rc_approval_id (receipts db)"
    by (simp_all add: map_update_where)
  from inv j(3) ck(1) obtain p' where p': "p' \<in> set (proposals db)" "mirrors q p'"
    by (auto simp: auth_inv_def request_mirrored_def)
  from inv j(1) obtain q' where q': "q' \<in> set (requests db)" "rq_approval_id q' = rc_approval_id r"
      "rq_action_id q' = rc_action_id r" "rq_proposal_hash q' = rc_proposal_hash r"
    by (auto simp: auth_inv_def receipt_backed_def)
  have "q' = q"
    using inv q' j(3,4) by (auto simp: auth_inv_def distinct_map inj_on_def)
  have "p' = p"
    using inv p' q' j(5,6) \<open>q' = q\<close>
    by (auto simp: auth_inv_def distinct_map inj_on_def mirrors_def)
  have new: "execution_backed ?db ?x"
  proof -
    have "?f r \<in> set ?rs" using j(1,2) ck(7) by (force simp: set_update_where)
    then show ?thesis
      unfolding execution_backed_def tables
      using j ck p' q' \<open>p' = p\<close> \<open>q' = q\<close>
      by (intro bexI [of _ "?f r"] bexI [of _ q] bexI [of _ p]) (simp_all add: mirrors_def)
  qed
  have old: "execution_backed ?db x" if x: "x \<in> set (executions db)" for x
  proof -
    from inv x obtain r' where r': "r' \<in> set (receipts db)" "rc_consumed_at r' \<noteq> None"
      and b: "\<exists>q \<in> set (requests db). \<exists>p \<in> set (proposals db).
        rc_receipt_id r' = ex_receipt_id x \<and> rc_action_id r' = ex_action_id x \<and>
        rc_proposal_hash r' = ex_proposal_hash x \<and> rc_assurance r' = ''passkey_verified'' \<and>
        rc_consumed_at r' \<noteq> None \<and> rc_binding r' = ex_binding x \<and>
        rq_approval_id q = rc_approval_id r' \<and> rq_proposal_origin q = Broker_native \<and>
        rq_state q = Authorized \<and>
        pr_action_id p = ex_action_id x \<and> pr_proposal_hash p = ex_proposal_hash x \<and>
        pr_idempotency_key p = ex_idempotency_key x \<and> pr_target p = ex_target x \<and>
        pr_binding p = ex_binding x"
      unfolding auth_inv_def execution_backed_def by blast
    have "r' \<in> set ?rs" using r' by (force simp: set_update_where)
    with b show ?thesis unfolding execution_backed_def tables by blast
  qed
  have rb: "\<forall>r \<in> set ?rs. receipt_backed (requests db) r"
    using inv by (auto simp: auth_inv_def set_update_where receipt_backed_def)
  have cons: "\<forall>r \<in> set ?rs. rc_consumed_at r \<noteq> None \<longrightarrow>
      rc_receipt_id r \<in> ex_receipt_id ` set (insert_row ?x (executions db))"
    using inv by (auto simp: auth_inv_def set_update_where)
  show ?thesis
    using inv new old rb cons unfolding auth_inv_def tables keys by simp
qed

lemma claim_auth_inv:
  assumes inv: "auth_inv db"
  shows "auth_inv (snd (claim_execution c tokens now db))"
proof (cases rule: claim_cases [of c tokens now db])
  case (claimed r q p)
  then show ?thesis using commit_db_auth_inv [OF inv claimed(3,4)] by simp
qed (use inv in \<open>simp_all add: expire_lease_auth_inv\<close>)

section \<open>Proposals, requests and receipts\<close>

lemma request_mirrored_mono:
  "request_mirrored ps q \<Longrightarrow> set ps \<subseteq> set ps' \<Longrightarrow> request_mirrored ps' q"
  unfolding request_mirrored_def by blast

lemma receipt_backed_mono:
  "receipt_backed qs r \<Longrightarrow> set qs \<subseteq> set qs' \<Longrightarrow> receipt_backed qs' r"
  unfolding receipt_backed_def by blast

lemma execution_backed_mono:
  "execution_backed db x \<Longrightarrow> set (receipts db) \<subseteq> set (receipts db') \<Longrightarrow>
   set (requests db) \<subseteq> set (requests db') \<Longrightarrow> set (proposals db) \<subseteq> set (proposals db') \<Longrightarrow>
   execution_backed db' x"
  unfolding execution_backed_def by blast

text \<open>A row written by \<open>create_native_proposal\<close> has the fixed policy fields.\<close>

lemma native_proposal_row_native:
  "native_row (native_proposal_row env token v pol ah b ev now expires_at)"
  by (simp add: native_row_def native_proposal_row_def Let_def)

lemma insert_native_proposal_cases:
  "snd (insert_native_proposal v row now db) = db \<or>
   snd (insert_native_proposal v row now db) = db\<lparr>proposals := insert_row row (proposals db)\<rparr> \<and>
   pr_action_id row \<notin> pr_action_id ` set (proposals db) \<and>
   ni_idempotency_key v \<notin> pr_idempotency_key ` set (proposals db)"
  by (auto simp: insert_native_proposal_def existing_native_proposal_def select_one_None_iff
      split: sum.splits option.splits if_splits)

lemma create_native_proposal_cases:
  "snd (create_native_proposal env intent allow pol b token t ttl db) = db \<or>
   (\<exists>row. snd (create_native_proposal env intent allow pol b token t ttl db)
            = db\<lparr>proposals := insert_row row (proposals db)\<rparr> \<and> native_row row \<and>
          pr_action_id row \<notin> pr_action_id ` set (proposals db) \<and>
          pr_idempotency_key row \<notin> pr_idempotency_key ` set (proposals db))"
proof -
  have key: "pr_idempotency_key (native_proposal_row env token v pol ah b ev now ex)
      = ni_idempotency_key v" for v ah ev now ex
    by (simp add: native_proposal_row_def Let_def)
  show ?thesis
    using insert_native_proposal_cases native_proposal_row_native
    by (simp add: create_native_proposal_def Let_def transaction_state split: sum.splits)
      (metis key)
qed

lemma create_native_proposal_auth_inv:
  assumes inv: "auth_inv db"
  shows "auth_inv (snd (create_native_proposal env intent allow pol b token t ttl db))"
  using create_native_proposal_cases [of env intent allow pol b token t ttl db]
proof
  assume "snd (create_native_proposal env intent allow pol b token t ttl db) = db"
  with inv show ?thesis by simp
next
  assume "\<exists>row. snd (create_native_proposal env intent allow pol b token t ttl db)
            = db\<lparr>proposals := insert_row row (proposals db)\<rparr> \<and> native_row row \<and>
          pr_action_id row \<notin> pr_action_id ` set (proposals db) \<and>
          pr_idempotency_key row \<notin> pr_idempotency_key ` set (proposals db)"
  then obtain row where row: "snd (create_native_proposal env intent allow pol b token t ttl db)
            = db\<lparr>proposals := insert_row row (proposals db)\<rparr>" "native_row row"
          "pr_action_id row \<notin> pr_action_id ` set (proposals db)"
          "pr_idempotency_key row \<notin> pr_idempotency_key ` set (proposals db)"
    by blast
  let ?db = "db\<lparr>proposals := insert_row row (proposals db)\<rparr>"
  have "\<forall>q \<in> set (requests db). request_mirrored (insert_row row (proposals db)) q"
    using inv by (auto simp: auth_inv_def intro: request_mirrored_mono)
  moreover have "\<forall>x \<in> set (executions db). execution_backed ?db x"
    using inv by (auto simp: auth_inv_def intro: execution_backed_mono)
  ultimately show ?thesis using inv row by (simp add: auth_inv_def)
qed

lemma insert_request_auth_inv:
  assumes inv: "auth_inv db" and m: "request_mirrored (proposals db) row"
  shows "auth_inv (snd (insert_request row db))"
proof (cases "snd (insert_request row db) = db")
  case False
  let ?db = "db\<lparr>requests := insert_row row (requests db)\<rparr>"
  from False have row: "snd (insert_request row db) = ?db"
      "rq_approval_id row \<notin> rq_approval_id ` set (requests db)"
      "rq_action_id row \<notin> rq_action_id ` set (requests db)"
    by (auto simp: insert_request_def split: if_splits)
  have "\<forall>r \<in> set (receipts db). receipt_backed (insert_row row (requests db)) r"
    using inv by (auto simp: auth_inv_def intro: receipt_backed_mono)
  moreover have "\<forall>x \<in> set (executions db). execution_backed ?db x"
    using inv by (auto simp: auth_inv_def intro: execution_backed_mono)
  ultimately show ?thesis using inv row m by (simp add: auth_inv_def)
qed (use inv in simp)

lemma request_of_proposal_mirrored:
  "p \<in> set ps \<Longrightarrow> request_mirrored ps (request_of_proposal p a t)"
  by (auto simp: request_mirrored_def mirrors_def request_of_proposal_def)

lemma request_of_envelope_mirrored: "request_mirrored ps (request_of_envelope v a t)"
  by (simp add: request_mirrored_def request_of_envelope_def)

lemma create_native_request_auth_inv:
  assumes inv: "auth_inv db"
  shows "auth_inv (snd (create_request_from_native_proposal req token t db))"
  using inv
  by (auto simp: create_request_from_native_proposal_def transaction_state
      intro!: insert_request_auth_inv request_of_proposal_mirrored
      dest: select_one_Some_iff split: sum.splits option.splits)

lemma create_request_auth_inv:
  assumes inv: "auth_inv db"
  shows "auth_inv (snd (create_request v token t db))"
  using inv
  by (auto simp: create_request_def transaction_state
      intro!: insert_request_auth_inv request_of_envelope_mirrored split: sum.splits option.splits)

text \<open>
  Changing the state of one request that is not authorized touches no receipt.
\<close>

lemma request_state_auth_inv:
  assumes inv: "auth_inv db" and q: "q \<in> set (requests db)" and st: "rq_state q \<noteq> Authorized"
  shows "auth_inv (db\<lparr>requests := update_where (\<lambda>r. rq_approval_id r = rq_approval_id q)
      (\<lambda>r. r\<lparr>rq_state := s\<rparr>) (requests db)\<rparr>)"
proof -
  let ?qs = "update_where (\<lambda>r. rq_approval_id r = rq_approval_id q) (\<lambda>r. r\<lparr>rq_state := s\<rparr>) (requests db)"
  have keys: "map rq_approval_id ?qs = map rq_approval_id (requests db)"
      "map rq_action_id ?qs = map rq_action_id (requests db)"
    by (simp_all add: map_update_where)
  have same: "k \<in> set ?qs" if "k \<in> set (requests db)" "rq_state k = Authorized" for k
  proof -
    have "rq_approval_id k \<noteq> rq_approval_id q"
      using inv that q st by (auto simp: auth_inv_def distinct_map inj_on_def)
    with that show ?thesis by (force simp: set_update_where)
  qed
  have "\<forall>r \<in> set (receipts db). receipt_backed ?qs r"
    using inv same unfolding auth_inv_def receipt_backed_def by blast
  moreover have "\<forall>k \<in> set ?qs. request_mirrored (proposals db) k"
    using inv by (auto simp: auth_inv_def set_update_where request_mirrored_def mirrors_def)
  moreover have "\<forall>x \<in> set (executions db). execution_backed (db\<lparr>requests := ?qs\<rparr>) x"
    using inv same unfolding auth_inv_def execution_backed_def by (simp, blast)
  ultimately show ?thesis using inv by (simp add: auth_inv_def keys)
qed

lemma get_request_auth_inv:
  assumes inv: "auth_inv db"
  shows "auth_inv (snd (get_request a t db))"
proof (cases "select_one (\<lambda>r. rq_approval_id r = a) (requests db)")
  case None
  with inv show ?thesis by (simp add: get_request_def transaction_state)
next
  case (Some q)
  from select_one_Some_iff [OF Some] have q: "q \<in> set (requests db)" "rq_approval_id q = a" by auto
  show ?thesis
    using Some inv request_state_auth_inv [OF inv q(1), of Expired] q(2)
    by (auto simp: get_request_def transaction_state expire_request_def)
qed

lemma authorize_auth_inv:
  assumes inv: "auth_inv db"
  shows "auth_inv (snd (authorize env a h u cid token t db))"
proof (cases "snd (authorize env a h u cid token t db) = db")
  case False
  then obtain q where sel: "select_one (\<lambda>r. rq_approval_id r = a) (requests db) = Some q"
    by (cases "select_one (\<lambda>r. rq_approval_id r = a) (requests db)")
      (auto simp: authorize_def transaction_state)
  let ?row = "receipt_of_request env q (''RCPT-'' @ token) u cid t"
  let ?qs = "update_where (\<lambda>r. rq_approval_id r = a) (\<lambda>r. r\<lparr>rq_state := Authorized\<rparr>) (requests db)"
  let ?db = "db\<lparr>receipts := insert_row ?row (receipts db), requests := ?qs\<rparr>"
  from select_one_Some_iff [OF sel] have q: "q \<in> set (requests db)" "rq_approval_id q = a" by auto
  from False sel have db': "snd (authorize env a h u cid token t db) = ?db"
    and st: "rq_state q = Pending"
    and new: "rc_receipt_id ?row \<notin> rc_receipt_id ` set (receipts db)"
      "rc_approval_id ?row \<notin> rc_approval_id ` set (receipts db)"
    by (auto simp: authorize_def transaction_state Let_def receipt_of_request_def q(2)
        split: if_splits)
  have step1: "auth_inv (db\<lparr>requests := ?qs\<rparr>)"
    using request_state_auth_inv [OF inv q(1), of Authorized] st q(2) by simp
  have "q\<lparr>rq_state := Authorized\<rparr> \<in> set ?qs" using q by (force simp: set_update_where)
  then have backed: "receipt_backed ?qs ?row"
    unfolding receipt_backed_def
    by (intro conjI bexI [of _ "q\<lparr>rq_state := Authorized\<rparr>"]) (simp_all add: receipt_of_request_def q(2))
  have unconsumed: "rc_consumed_at ?row = None" by (simp add: receipt_of_request_def)
  have "\<forall>x \<in> set (executions db). execution_backed ?db x"
    using step1 by (auto simp: auth_inv_def intro: execution_backed_mono)
  then show ?thesis using step1 new backed unconsumed unfolding db' auth_inv_def by simp
qed (use inv in simp)

end
