(* ===== verification/Auth_System.thy ===== *)
theory Auth_System
  imports Auth_Provenance
begin

text \<open>
  The authorization store as a transition system.  A step is one call of one operation of
  \<open>AuthorizationStore\<close> by anyone, with any arguments, tokens and clock reading: the API, the
  execution manager and a restarted Broker interleave freely at the granularity of the store's
  transactions.  \<open>store_inv\<close> collects the invariants of all tables; the interpretation \<open>broker\<close>
  discharges the laws of \<open>inv_system\<close>, and the properties rest on its facts.
\<close>

section \<open>Passkeys and evidence\<close>

definition passkey_inv :: "auth_db \<Rightarrow> bool" where
  "passkey_inv db \<longleftrightarrow>
     distinct (map pk_credential_id (passkeys db)) \<and> distinct (map pk_user_id_hash (passkeys db)) \<and>
     (\<forall>k \<in> set (passkeys db). 0 \<le> pk_sign_count k)"

definition evidence_row_ok :: "evidence_row \<Rightarrow> bool" where
  "evidence_row_ok e \<longleftrightarrow>
     be_scope e \<in> set BACKUP_EVIDENCE_SCOPES \<and> be_completed e \<and> be_readable e \<and> 1 \<le> be_size e \<and>
     SHA256_RE (be_sha256 e) \<and> SHA256_RE (be_off_device_sha256 e) \<and> SHA256_RE (be_baseline e)"

definition evidence_inv :: "auth_db \<Rightarrow> bool" where
  "evidence_inv db \<longleftrightarrow>
     distinct (map be_logical_id (backup_evidence db)) \<and>
     (\<forall>e \<in> set (backup_evidence db). evidence_row_ok e)"

lemma passkey_inv_frame: "passkey_inv db \<Longrightarrow> passkeys db' = passkeys db \<Longrightarrow> passkey_inv db'"
  by (simp add: passkey_inv_def)

lemma evidence_inv_frame:
  "evidence_inv db \<Longrightarrow> backup_evidence db' = backup_evidence db \<Longrightarrow> evidence_inv db'"
  by (simp add: evidence_inv_def)

text \<open>The UPDATE of \<open>update_counter\<close> leaves the primary key and the owner of a passkey alone.\<close>

interpretation counter_update: key_preserving pk_credential_id
  "\<lambda>r. r\<lparr>pk_sign_count := n, pk_last_used_at := t\<rparr>"
  by unfold_locales simp

interpretation counter_update_owner: key_preserving pk_user_id_hash
  "\<lambda>r. r\<lparr>pk_sign_count := n, pk_last_used_at := t\<rparr>"
  by unfold_locales simp

lemma add_credential_cases:
  "snd (add_credential cid cd uh n t db) = db \<or>
   (0 \<le> n \<and> cid \<notin> pk_credential_id ` set (passkeys db) \<and>
    uh \<notin> pk_user_id_hash ` set (passkeys db) \<and>
    snd (add_credential cid cd uh n t db) = db\<lparr>passkeys := insert_row
      \<lparr>pk_credential_id = cid, pk_credential_data = cd, pk_user_id_hash = uh, pk_sign_count = n,
       pk_created_at = iso_timestamp t, pk_last_used_at = None\<rparr> (passkeys db)\<rparr>)"
  by (auto simp: add_credential_def transaction_state select_one_None_iff)

lemma update_counter_cases:
  "snd (update_counter cid old new t db) = db \<or>
   (\<exists>next. 0 \<le> next \<and> old \<le> next \<and> (next = old \<longrightarrow> old = 0) \<and>
      snd (update_counter cid old new t db) = db\<lparr>passkeys := update_where
        (\<lambda>r. pk_credential_id r = cid \<and> pk_sign_count r = old)
        (\<lambda>r. r\<lparr>pk_sign_count := next, pk_last_used_at := Some (iso_timestamp t)\<rparr>)
        (passkeys db)\<rparr>)"
proof (cases "snd (update_counter cid old new t db) = db")
  case False
  let ?next = "if old = 0 \<and> new = 0 then 0 else new"
  from False have guards: "\<not> new < 0" "\<not> (old > 0 \<and> new \<le> old)" "(old = 0 \<and> new = 0) \<or> new > old"
    unfolding update_counter_def by (auto simp del: not_less split: if_splits)
  with False have eq: "snd (update_counter cid old new t db) = db\<lparr>passkeys := update_where
        (\<lambda>r. pk_credential_id r = cid \<and> pk_sign_count r = old)
        (\<lambda>r. r\<lparr>pk_sign_count := ?next, pk_last_used_at := Some (iso_timestamp t)\<rparr>)
        (passkeys db)\<rparr>"
    unfolding update_counter_def transaction_def Let_def by (auto split: if_splits)
  have "0 \<le> ?next \<and> old \<le> ?next \<and> (?next = old \<longrightarrow> old = 0)" using guards by auto
  with eq show ?thesis by blast
qed simp

lemma add_credential_passkey_inv:
  "passkey_inv db \<Longrightarrow> passkey_inv (snd (add_credential cid cd uh n t db))"
  using add_credential_cases [of cid cd uh n t db] by (auto simp: passkey_inv_def)

lemma update_counter_passkey_inv:
  assumes "passkey_inv db"
  shows "passkey_inv (snd (update_counter cid old new t db))"
  using update_counter_cases [of cid old new t db] assms
  by (auto simp: passkey_inv_def counter_update.keys counter_update_owner.keys update_where_mem)

lemma validate_backup_evidence_ok:
  assumes "validate_backup_evidence env v now = Inr e"
  shows "be_scope e \<in> set BACKUP_EVIDENCE_SCOPES" "be_completed e" "be_readable e" "1 \<le> be_size e"
    and "SHA256_RE (be_sha256 e)" "SHA256_RE (be_off_device_sha256 e)" "SHA256_RE (be_baseline e)"
    and "be_created_at e \<le> now" "be_created_at e \<le> be_expires_at e"
    and "BACKUP_EVIDENCE_ID_RE (be_logical_id e)"
proof -
  from assms obtain kvs where v: "v = JObj kvs"
    unfolding validate_backup_evidence_def by (cases v) simp_all
  from assms [unfolded v] obtain created expires where
    scope: "in_string_set (get_field kvs ''scope'') (set BACKUP_EVIDENCE_SCOPES) = Inr True"
    and lid: "evidence_id_ok env (get_field kvs ''logical_id'')"
    and size: "evidence_size_ok (get_field kvs ''size'')"
    and sha: "is_sha256 (get_field kvs ''sha256'')" "is_sha256 (get_field kvs ''off_device_sha256'')"
      "is_sha256 (get_field kvs ''baseline'')"
    and times: "created \<le> now" "created < expires"
    and e: "e = \<lparr>be_scope = str_of (get_field kvs ''scope''),
                     be_logical_id = str_of (get_field kvs ''logical_id''),
                     be_completed = True,
                     be_created_at = whole_second created,
                     be_size = int_of_json (get_field kvs ''size''),
                     be_sha256 = str_of (get_field kvs ''sha256''),
                     be_off_device_sha256 = str_of (get_field kvs ''off_device_sha256''),
                     be_readable = True,
                     be_baseline = str_of (get_field kvs ''baseline''),
                     be_expires_at = whole_second expires\<rparr>"
    unfolding validate_backup_evidence_def json.case bind_result_Inr_iff
    by (auto split: if_splits simp: bind_result_Inr_iff) (metis not_less order_le_less_trans)
  show "be_scope e \<in> set BACKUP_EVIDENCE_SCOPES"
    using scope by (auto simp: e in_string_set_def str_of_def split: if_splits json.splits)
  show "be_completed e" "be_readable e" by (simp_all add: e)
  show "1 \<le> be_size e" using size
    by (auto simp: e evidence_size_ok_def int_of_json_def split: json.splits)
  show "SHA256_RE (be_sha256 e)" "SHA256_RE (be_off_device_sha256 e)" "SHA256_RE (be_baseline e)"
    using sha by (auto simp: e is_sha256_def str_of_def split: json.splits)
  show "be_created_at e \<le> now" using times whole_second_le [of created] by (simp add: e)
  show "be_created_at e \<le> be_expires_at e" using times by (simp add: e whole_second_mono)
  show "BACKUP_EVIDENCE_ID_RE (be_logical_id e)"
    using lid by (auto simp: e evidence_id_ok_def str_of_def split: json.splits)
qed

lemma evidence_of_row_simps [simp]:
  "be_scope (evidence_of_row e t) = be_scope e"
  "be_logical_id (evidence_of_row e t) = be_logical_id e"
  "be_completed (evidence_of_row e t) = be_completed e"
  "be_created_at (evidence_of_row e t) = be_created_at e"
  "be_size (evidence_of_row e t) = be_size e"
  "be_sha256 (evidence_of_row e t) = be_sha256 e"
  "be_off_device_sha256 (evidence_of_row e t) = be_off_device_sha256 e"
  "be_readable (evidence_of_row e t) = be_readable e"
  "be_baseline (evidence_of_row e t) = be_baseline e"
  "be_expires_at (evidence_of_row e t) = be_expires_at e"
  "backup_evidence_document (evidence_of_row e t) = e"
  by (cases e; simp add: evidence_of_row_def evidence.defs evidence_row.defs
      backup_evidence_document_def)+

lemma register_backup_evidence_cases:
  "snd (register_backup_evidence env v t db) = db \<or>
   (\<exists>e. validate_backup_evidence env v t = Inr e \<and>
        be_logical_id e \<notin> be_logical_id ` set (backup_evidence db) \<and>
        snd (register_backup_evidence env v t db) = db\<lparr>backup_evidence :=
          insert_row (evidence_of_row e (iso_timestamp t)) (backup_evidence db)\<rparr>)"
  by (auto simp: register_backup_evidence_def transaction_state select_one_None_iff
      split: sum.splits option.splits)

lemma validated_evidence_row_ok:
  assumes "validate_backup_evidence env v now = Inr e"
  shows "evidence_row_ok (evidence_of_row e t)"
  using validate_backup_evidence_ok [OF assms] by (simp add: evidence_row_ok_def)

lemma register_backup_evidence_inv:
  assumes "evidence_inv db"
  shows "evidence_inv (snd (register_backup_evidence env v t db))"
  using register_backup_evidence_cases [of env v t db] assms
  by (auto simp: evidence_inv_def validated_evidence_row_ok)

section \<open>Frames\<close>

text \<open>The tables each operation of the other groups leaves alone.\<close>

lemma frame_add_credential:
  "requests (snd (add_credential cid cd uh n t db)) = requests db"
  "receipts (snd (add_credential cid cd uh n t db)) = receipts db"
  "proposals (snd (add_credential cid cd uh n t db)) = proposals db"
  "executions (snd (add_credential cid cd uh n t db)) = executions db"
  "leases (snd (add_credential cid cd uh n t db)) = leases db"
  "backup_evidence (snd (add_credential cid cd uh n t db)) = backup_evidence db"
  using add_credential_cases [of cid cd uh n t db] by auto

lemma frame_update_counter:
  "requests (snd (update_counter cid old new t db)) = requests db"
  "receipts (snd (update_counter cid old new t db)) = receipts db"
  "proposals (snd (update_counter cid old new t db)) = proposals db"
  "executions (snd (update_counter cid old new t db)) = executions db"
  "leases (snd (update_counter cid old new t db)) = leases db"
  "backup_evidence (snd (update_counter cid old new t db)) = backup_evidence db"
  using update_counter_cases [of cid old new t db] by auto

lemma frame_register_backup_evidence:
  "requests (snd (register_backup_evidence env v t db)) = requests db"
  "receipts (snd (register_backup_evidence env v t db)) = receipts db"
  "proposals (snd (register_backup_evidence env v t db)) = proposals db"
  "executions (snd (register_backup_evidence env v t db)) = executions db"
  "leases (snd (register_backup_evidence env v t db)) = leases db"
  "passkeys (snd (register_backup_evidence env v t db)) = passkeys db"
  using register_backup_evidence_cases [of env v t db] by auto

lemma frame_create_native_proposal:
  "executions (snd (create_native_proposal env i al pol b tk t ttl db)) = executions db"
  "leases (snd (create_native_proposal env i al pol b tk t ttl db)) = leases db"
  "passkeys (snd (create_native_proposal env i al pol b tk t ttl db)) = passkeys db"
  "backup_evidence (snd (create_native_proposal env i al pol b tk t ttl db)) = backup_evidence db"
  using create_native_proposal_cases [of env i al pol b tk t ttl db] by auto

lemma frame_insert_request:
  "executions (snd (insert_request row db)) = executions db"
  "leases (snd (insert_request row db)) = leases db"
  "passkeys (snd (insert_request row db)) = passkeys db"
  "backup_evidence (snd (insert_request row db)) = backup_evidence db"
  by (simp_all add: insert_request_def)

lemma frame_create_native_request:
  "executions (snd (create_request_from_native_proposal req tk t db)) = executions db"
  "leases (snd (create_request_from_native_proposal req tk t db)) = leases db"
  "passkeys (snd (create_request_from_native_proposal req tk t db)) = passkeys db"
  "backup_evidence (snd (create_request_from_native_proposal req tk t db)) = backup_evidence db"
  by (simp_all add: create_request_from_native_proposal_def transaction_state frame_insert_request
      split: sum.splits option.splits)

lemma frame_create_request:
  "executions (snd (create_request v tk t db)) = executions db"
  "leases (snd (create_request v tk t db)) = leases db"
  "passkeys (snd (create_request v tk t db)) = passkeys db"
  "backup_evidence (snd (create_request v tk t db)) = backup_evidence db"
  by (simp_all add: create_request_def transaction_state frame_insert_request
      split: sum.splits option.splits)

lemma frame_get_request:
  "executions (snd (get_request a t db)) = executions db"
  "leases (snd (get_request a t db)) = leases db"
  "passkeys (snd (get_request a t db)) = passkeys db"
  "backup_evidence (snd (get_request a t db)) = backup_evidence db"
  by (simp_all add: get_request_def transaction_state expire_request_def
      split: sum.splits option.splits)

lemma frame_authorize:
  "executions (snd (authorize env a h u cid tk t db)) = executions db"
  "leases (snd (authorize env a h u cid tk t db)) = leases db"
  "passkeys (snd (authorize env a h u cid tk t db)) = passkeys db"
  "backup_evidence (snd (authorize env a h u cid tk t db)) = backup_evidence db"
  by (simp_all add: authorize_def transaction_state Let_def split: sum.splits option.splits)

lemma frame_claim:
  "passkeys (snd (claim_execution c tokens t db)) = passkeys db"
  "backup_evidence (snd (claim_execution c tokens t db)) = backup_evidence db"
  by (cases rule: claim_cases [of c tokens t db]; simp add: expire_lease_def commit_db_def)+

lemma frame_update_execution:
  "passkeys (snd (update_execution a u t db)) = passkeys db"
  "backup_evidence (snd (update_execution a u t db)) = backup_evidence db"
  by (cases rule: update_execution_cases [of a u t db]; simp)+

lemma frame_heartbeat:
  "passkeys (snd (heartbeat_execution_leases a i t ttl db)) = passkeys db"
  "backup_evidence (snd (heartbeat_execution_leases a i t ttl db)) = backup_evidence db"
  using heartbeat_cases [of a i t ttl db] by auto

lemma frame_resolve:
  "passkeys (snd (resolve_recovery a r h t db)) = passkeys db"
  "backup_evidence (snd (resolve_recovery a r h t db)) = backup_evidence db"
  by (cases rule: resolve_recovery_cases [of a r h t db]; simp)+

lemma frame_recover:
  "passkeys (snd (recover_incomplete_executions t db)) = passkeys db"
  "backup_evidence (snd (recover_incomplete_executions t db)) = backup_evidence db"
  by (simp_all add: recover_incomplete_executions_def Let_def)

lemmas frames = frame_add_credential frame_update_counter frame_register_backup_evidence
  frame_create_native_proposal frame_create_native_request frame_create_request frame_get_request
  frame_authorize frame_claim frame_update_execution frame_heartbeat frame_resolve frame_recover

section \<open>Steps\<close>

inductive auth_step :: "pyenv \<Rightarrow> auth_db \<Rightarrow> auth_db \<Rightarrow> bool" for env where
  add_credential: "auth_step env db (snd (add_credential cid cd uh n t db))"
| update_counter: "auth_step env db (snd (update_counter cid old new t db))"
| register_evidence: "auth_step env db (snd (register_backup_evidence env v t db))"
| create_proposal: "auth_step env db (snd (create_native_proposal env i al pol b tk t ttl db))"
| create_native: "auth_step env db (snd (create_request_from_native_proposal req tk t db))"
| create_legacy: "validate_envelope env j owners now = Inr v \<Longrightarrow>
     auth_step env db (snd (create_request v tk t db))"
| read_request: "auth_step env db (snd (get_request a t db))"
| authorize: "auth_step env db (snd (authorize env a h u cid tk t db))"
| claim: "auth_step env db (snd (claim_execution c tokens t db))"
| update: "legal_update up \<Longrightarrow> auth_step env db (snd (update_execution a up t db))"
| heartbeat: "auth_step env db (snd (heartbeat_execution_leases a inst t ttl db))"
| resolve: "auth_step env db (snd (resolve_recovery a r h t db))"
| restart: "auth_step env db (snd (recover_incomplete_executions t db))"

definition store_inv :: "auth_db \<Rightarrow> bool" where
  "store_inv db \<longleftrightarrow> lock_inv db \<and> auth_inv db \<and> passkey_inv db \<and> evidence_inv db"

lemmas lock_preserved = claim_lock_inv update_execution_lock_inv heartbeat_lock_inv
  resolve_recovery_lock_inv recover_incomplete_lock_inv

lemmas auth_preserved = claim_auth_inv update_execution_auth_inv heartbeat_auth_inv
  resolve_recovery_auth_inv recover_incomplete_auth_inv create_native_proposal_auth_inv
  create_native_request_auth_inv create_request_auth_inv get_request_auth_inv authorize_auth_inv

lemma auth_step_lock_inv: "auth_step env s t \<Longrightarrow> lock_inv s \<Longrightarrow> lock_inv t"
  by (induction rule: auth_step.induct)
    (auto intro: lock_preserved elim: lock_inv_frame simp: frames)

lemma auth_step_auth_inv: "auth_step env s t \<Longrightarrow> auth_inv s \<Longrightarrow> auth_inv t"
  by (induction rule: auth_step.induct)
    (auto intro: auth_preserved elim: auth_inv_frame simp: frames)

lemma auth_step_passkey_inv: "auth_step env s t \<Longrightarrow> passkey_inv s \<Longrightarrow> passkey_inv t"
  by (induction rule: auth_step.induct)
    (auto intro: add_credential_passkey_inv update_counter_passkey_inv elim: passkey_inv_frame
      simp: frames)

lemma auth_step_evidence_inv: "auth_step env s t \<Longrightarrow> evidence_inv s \<Longrightarrow> evidence_inv t"
  by (induction rule: auth_step.induct)
    (auto intro: register_backup_evidence_inv elim: evidence_inv_frame simp: frames)

interpretation broker: inv_system empty_db "auth_step env" store_inv
proof unfold_locales
  show "store_inv empty_db"
    using lock_inv_empty auth_inv_empty
    by (simp add: store_inv_def passkey_inv_def evidence_inv_def empty_db_def)
  show "store_inv t" if "store_inv s" "auth_step env s t" for s t
    using that auth_step_lock_inv auth_step_auth_inv auth_step_passkey_inv auth_step_evidence_inv
    unfolding store_inv_def by blast
qed

text \<open>The states of the store that some sequence of operations reaches.\<close>

definition reachable_store :: "pyenv \<Rightarrow> auth_db \<Rightarrow> bool" where
  "reachable_store env db \<longleftrightarrow> reach empty_db (auth_step env) db"

lemma reachable_store_inv:
  "reachable_store env db \<Longrightarrow> lock_inv db \<and> auth_inv db \<and> passkey_inv db \<and> evidence_inv db"
  using broker.invariant unfolding reachable_store_def store_inv_def by blast

lemma reachable_store_step:
  "reachable_store env s \<Longrightarrow> auth_step env s t \<Longrightarrow> reachable_store env t"
  unfolding reachable_store_def by (rule reach.next_state)

lemma reachable_store_start: "reachable_store env empty_db"
  unfolding reachable_store_def by (rule reach.start)

end
