(* ===== verification/Execution_Manager.thy ===== *)
theory Execution_Manager
  imports Manager_Shadow Auth_System
begin

text \<open>
  \<open>operations_broker/execution.py\<close>, class \<open>ExecutionManager\<close>.  \<open>execute\<close> checks a request and the
  world without writing anything (\<open>prepare\<close>), then claims the receipt, revalidates, marks the
  execution, renews its leases, posts the one restart and verifies it.  Every access to the store is
  its own transaction, so the writing part is a machine with one phase per access (\<open>exec_step\<close>);
  \<open>execute\<close> runs it to its end.  The clock readings, the tokens and the answers of the network are
  the inputs (\<open>exec_input\<close>), and each phase yields the HTTP calls it makes.
\<close>

section \<open>Configuration and inputs\<close>

record exec_config =
  xc_execution_enabled :: bool
  xc_enabled_actions :: "string set"
  xc_restart_addon_allowlist :: "string set"
  xc_policy :: policy
  xc_manager_shadow :: bool
  xc_instance_id :: string
  xc_lease_ttl_seconds :: int

record exec_input =
  xi_now_proposal :: int
  xi_now_evidence :: int
  xi_now_claim :: int
  xi_now_start :: int
  xi_now_beat1 :: int
  xi_now_restarted :: int
  xi_now_beat2 :: int
  xi_now_final :: int
  xi_tokens :: "string \<times> string"
  xi_before :: http_response
  xi_shadow :: http_response
  xi_revalidated :: http_response
  xi_restart :: http_response
  xi_after :: http_response

definition execution_manager_init :: "exec_config \<Rightarrow> int \<Rightarrow> auth_db \<Rightarrow> nat result \<times> auth_db" where
  "execution_manager_init cfg now db =
     (if xc_enabled_actions cfg - {''restart_addon''} \<noteq> {}
      then (Inl (AuthorizationError ''enabled_actions_invalid''), db)
      else if \<not> (5 \<le> xc_lease_ttl_seconds cfg \<and> xc_lease_ttl_seconds cfg \<le> 300)
      then (Inl (AuthorizationError ''lease_ttl_invalid''), db)
      else (let (n, db') = recover_incomplete_executions now db in (Inr n, db')))"

fun manager_as_authorization_error :: "'a result \<Rightarrow> 'a result" where
  "manager_as_authorization_error (Inl (ManagerExecutorError c)) = Inl (AuthorizationError c)"
| "manager_as_authorization_error r = r"

lemma manager_as_authorization_error_Inr [simp]:
  "manager_as_authorization_error r = Inr a \<longleftrightarrow> r = Inr a"
  by (cases r rule: manager_as_authorization_error.cases) auto

section \<open>The checks before any write\<close>

definition admit :: "exec_config \<Rightarrow> bool \<Rightarrow> json \<Rightarrow> execution_request result" where
  "admit cfg busy request =
     bind_result (as_authorization_error (validate_execution_request request)) (\<lambda>v.
     if \<not> xc_execution_enabled cfg then Inl (AuthorizationError ''execution_disabled'')
     else if ''restart_addon'' \<notin> xc_enabled_actions cfg
     then Inl (AuthorizationError ''action_disabled'')
     else if busy then Inl (AuthorizationError ''execution_busy'')
     else Inr v)"

text \<open>The loop over \<open>runtime_binding\<close>.\<close>

definition runtime_drift :: "pyenv \<Rightarrow> exec_config \<Rightarrow> binding \<Rightarrow> string option" where
  "runtime_drift env cfg b =
     (if b_policy_epoch b \<noteq> Some (policy_epoch (xc_policy cfg)) then Some ''policy_changed''
      else if b_policy_hash b \<noteq> Some (policy_hash (xc_policy cfg)) then Some ''policy_changed''
      else if b_allowlist_hash b
              \<noteq> Some (allowlist_fingerprint env (xc_restart_addon_allowlist cfg))
      then Some ''allowlist_changed''
      else if b_adapter_version b \<noteq> Some (adapter_version (xc_policy cfg))
      then Some ''adapter_changed''
      else if b_adapter_schema_version b \<noteq> Some (adapter_schema_version (xc_policy cfg))
      then Some ''adapter_changed''
      else None)"

definition check_proposal ::
  "pyenv \<Rightarrow> exec_config \<Rightarrow> execution_request \<Rightarrow> int \<Rightarrow> auth_db \<Rightarrow> proposal result" where
  "check_proposal env cfg v now db =
     bind_result (get_native_proposal db (er_action_id v) now) (\<lambda>doc.
     let p = pd_row doc
     in if pd_expired doc then Inl (AuthorizationError ''proposal_expired'')
        else if pr_action_type p \<noteq> ''restart_addon'' \<or> pr_proposal_hash p \<noteq> er_proposal_hash v
                \<or> pr_idempotency_key p \<noteq> er_idempotency_key v
        then Inl (AuthorizationError ''proposal_mismatch'')
        else if pr_version p \<noteq> 2 then Inl (AuthorizationError ''proposal_version_changed'')
        else (case runtime_drift env cfg (pr_binding p) of
            Some code \<Rightarrow> Inl (AuthorizationError code)
          | None \<Rightarrow>
              if pr_target p \<notin> xc_restart_addon_allowlist cfg
              then Inl (AuthorizationError ''target_not_allowlisted'')
              else Inr p))"

text \<open>\<open>get_execution\<close>, where \<open>execution_not_found\<close> means that there is nothing to replay.\<close>

definition check_replay ::
  "execution_request \<Rightarrow> auth_db \<Rightarrow> execution_document option result" where
  "check_replay v db =
     (case get_execution db (er_action_id v) of
        Inl (AuthorizationError c) \<Rightarrow>
          if c \<noteq> ''execution_not_found'' then Inl (AuthorizationError c) else Inr None
      | Inl e \<Rightarrow> Inl e
      | Inr x \<Rightarrow>
          if ex_receipt_id (xd_row x) \<noteq> er_receipt_id v
             \<or> ex_proposal_hash (xd_row x) \<noteq> er_proposal_hash v
             \<or> ex_idempotency_key (xd_row x) \<noteq> er_idempotency_key v
          then Inl (AuthorizationError ''execution_conflict'') else Inr (Some x))"

definition opt_text :: "string option \<Rightarrow> string" where
  "opt_text v = (case v of None \<Rightarrow> [] | Some s \<Rightarrow> s)"

definition check_store :: "proposal \<Rightarrow> int \<Rightarrow> auth_db \<Rightarrow> unit result" where
  "check_store p now db =
     bind_result (assert_execution_interlock_clear db) (\<lambda>_.
     bind_result (assert_backup_evidence_valid db (b_backup_evidence_id (pr_binding p))
        [''addon'', ''full''] (opt_text (b_baseline_etag (pr_binding p))) now (pr_expires_at p))
       (\<lambda>_. Inr ()))"

text \<open>What the add-on must look like, before the claim and again after it.\<close>

definition restartable :: "string \<Rightarrow> doc \<Rightarrow> bool" where
  "restartable target d \<longleftrightarrow>
     get_field d ''slug'' = JStr target \<and> get_field d ''state'' = JStr ''started'' \<and>
     get_field d ''installed'' \<noteq> JBool False"

definition check_addon :: "pyenv \<Rightarrow> loads \<Rightarrow> proposal \<Rightarrow> http_response \<Rightarrow> (doc \<times> string) result" where
  "check_addon env loads p resp =
     bind_result (supervisor_as_authorization_error (addon_info loads (pr_target p) resp))
       (\<lambda>before.
     if \<not> restartable (pr_target p) before
     then Inl (AuthorizationError ''preflight_state_invalid'')
     else bind_result (as_authorization_error (addon_baseline_etag env (JObj before))) (\<lambda>etag.
       if Some etag \<noteq> b_baseline_etag (pr_binding p)
       then Inl (AuthorizationError ''baseline_changed'') else Inr (before, etag)))"

definition check_shadow ::
  "pyenv \<Rightarrow> loads \<Rightarrow> proposal \<Rightarrow> string \<Rightarrow> http_response \<Rightarrow> unit result" where
  "check_shadow env loads p etag resp =
     bind_result (manager_as_authorization_error (shadow_restart loads p resp)) (\<lambda>shadow.
     bind_result (as_authorization_error
         (addon_baseline_etag env (get_field shadow ''observation''))) (\<lambda>shadow_baseline.
     if shadow_baseline \<noteq> etag then Inl (AuthorizationError ''manager_shadow_mismatch'')
     else Inr ()))"

record plan =
  pl_request :: execution_request
  pl_proposal :: proposal
  pl_before :: doc
  pl_baseline :: string

text \<open>The write phases; the last one holds the result, with the flag of a replay.\<close>

datatype exec_phase =
    At_claim plan
  | At_revalidate plan execution
  | At_beat1 plan string string
  | At_restart plan string string
  | At_restarted plan string string "unit result"
  | At_beat2 plan string string
  | At_after plan string string
  | Finished "(execution_document \<times> bool) result"

definition plan_or_replay ::
  "pyenv \<Rightarrow> exec_config \<Rightarrow> loads \<Rightarrow> exec_input \<Rightarrow> execution_request \<Rightarrow> auth_db
     \<Rightarrow> (plan + execution_document) result" where
  "plan_or_replay env cfg loads inp v db =
     bind_result (check_proposal env cfg v (xi_now_proposal inp) db) (\<lambda>p.
     bind_result (check_replay v db) (\<lambda>existing.
     case existing of
       Some x \<Rightarrow> Inr (Inr x)
     | None \<Rightarrow>
         bind_result (check_store p (xi_now_evidence inp) db) (\<lambda>_.
         bind_result (check_addon env loads p (xi_before inp)) (\<lambda>(before, etag).
         bind_result (if xc_manager_shadow cfg
                      then check_shadow env loads p etag (xi_shadow inp) else Inr ()) (\<lambda>_.
         Inr (Inl \<lparr>pl_request = v, pl_proposal = p, pl_before = before, pl_baseline = etag\<rparr>))))))"

definition prepare ::
  "pyenv \<Rightarrow> exec_config \<Rightarrow> loads \<Rightarrow> exec_input \<Rightarrow> bool \<Rightarrow> json \<Rightarrow> auth_db \<Rightarrow> exec_phase" where
  "prepare env cfg loads inp busy request db =
     (case admit cfg busy request of
        Inl e \<Rightarrow> Finished (Inl e)
      | Inr v \<Rightarrow>
          (case plan_or_replay env cfg loads inp v db of
             Inl e \<Rightarrow> Finished (Inl e)
           | Inr (Inl pl) \<Rightarrow> At_claim pl
           | Inr (Inr x) \<Rightarrow> Finished (Inr (x, True))))"

section \<open>The write phases\<close>

definition claim_of :: "pyenv \<Rightarrow> exec_config \<Rightarrow> plan \<Rightarrow> claim" where
  "claim_of env cfg pl =
     \<lparr>cl_receipt_id = er_receipt_id (pl_request pl), cl_action_id = er_action_id (pl_request pl),
      cl_proposal_hash = er_proposal_hash (pl_request pl),
      cl_idempotency_key = er_idempotency_key (pl_request pl), cl_policy = xc_policy cfg,
      cl_allowlist_hash = allowlist_fingerprint env (xc_restart_addon_allowlist cfg),
      cl_baseline_etag = pl_baseline pl,
      cl_backup_evidence_id = b_backup_evidence_id (pr_binding (pl_proposal pl)),
      cl_instance_id = xc_instance_id cfg, cl_lease_ttl_seconds = xc_lease_ttl_seconds cfg\<rparr>"

definition doc_json :: "doc \<Rightarrow> json option" where
  "doc_json d = Some (JObj d)"

definition failed_update :: "string \<Rightarrow> json option \<Rightarrow> execution_update" where
  "failed_update code preflight =
     \<lparr>up_expected_states = {Ex_authorized}, up_state = Ex_failed, up_preflight = preflight,
      up_postflight = None, up_error_code = Some code, up_finished = True\<rparr>"

definition started_update :: "doc \<Rightarrow> execution_update" where
  "started_update revalidated =
     \<lparr>up_expected_states = {Ex_authorized}, up_state = Ex_executing,
      up_preflight = doc_json revalidated, up_postflight = None, up_error_code = None,
      up_finished = False\<rparr>"

definition uncertain_update :: "exec_state \<Rightarrow> string \<Rightarrow> execution_update" where
  "uncertain_update st code =
     \<lparr>up_expected_states = {st}, up_state = Ex_recovery_required, up_preflight = None,
      up_postflight = None, up_error_code = Some code, up_finished = True\<rparr>"

definition verifying_update :: execution_update where
  "verifying_update =
     \<lparr>up_expected_states = {Ex_executing}, up_state = Ex_verifying, up_preflight = None,
      up_postflight = None, up_error_code = None, up_finished = False\<rparr>"

definition final_update :: "bool \<Rightarrow> doc \<Rightarrow> execution_update" where
  "final_update verification_ok after =
     \<lparr>up_expected_states = {Ex_verifying},
      up_state = (if verification_ok then Ex_succeeded else Ex_recovery_required),
      up_preflight = None, up_postflight = doc_json after,
      up_error_code = (if verification_ok then None else Some ''postflight_mismatch''),
      up_finished = True\<rparr>"

text \<open>An update that ends the call, and one that leads to the next phase.\<close>

definition finish_with ::
  "string \<Rightarrow> execution_update \<Rightarrow> int \<Rightarrow> auth_db \<Rightarrow> exec_phase \<times> auth_db" where
  "finish_with action_id u now db =
     (case update_execution action_id u now db of
        (Inl e, db') \<Rightarrow> (Finished (Inl e), db')
      | (Inr d, db') \<Rightarrow> (Finished (Inr (d, False)), db'))"

definition continue_with ::
  "string \<Rightarrow> execution_update \<Rightarrow> int \<Rightarrow> exec_phase \<Rightarrow> auth_db \<Rightarrow> exec_phase \<times> auth_db" where
  "continue_with action_id u now next_phase db =
     (case update_execution action_id u now db of
        (Inl e, db') \<Rightarrow> (Finished (Inl e), db')
      | (Inr _, db') \<Rightarrow> (next_phase, db'))"

definition beat_with ::
  "exec_config \<Rightarrow> string \<Rightarrow> int \<Rightarrow> exec_phase \<Rightarrow> auth_db \<Rightarrow> exec_phase \<times> auth_db" where
  "beat_with cfg action_id now next_phase db =
     (case heartbeat_execution_leases action_id (xc_instance_id cfg) now
             (xc_lease_ttl_seconds cfg) db of
        (Inl e, db') \<Rightarrow> (Finished (Inl e), db')
      | (Inr _, db') \<Rightarrow> (next_phase, db'))"

definition step_claim ::
  "pyenv \<Rightarrow> exec_config \<Rightarrow> exec_input \<Rightarrow> plan \<Rightarrow> auth_db \<Rightarrow> exec_phase \<times> auth_db" where
  "step_claim env cfg inp pl db =
     (case claim_execution (claim_of env cfg pl) (xi_tokens inp) (xi_now_claim inp) db of
        (Inl e, db') \<Rightarrow> (Finished (Inl e), db')
      | (Inr (d, replayed), db') \<Rightarrow>
          (if replayed then Finished (Inr (d, True)) else At_revalidate pl (xd_row d), db'))"

definition step_revalidate ::
  "pyenv \<Rightarrow> loads \<Rightarrow> exec_input \<Rightarrow> plan \<Rightarrow> execution \<Rightarrow> auth_db \<Rightarrow> exec_phase \<times> auth_db" where
  "step_revalidate env loads inp pl x db =
     (let a = ex_action_id x; target = ex_target x; now = xi_now_start inp
      in if ex_action_type x \<noteq> ''restart_addon''
         then finish_with a (failed_update ''unsupported_action'' None) now db
         else (case addon_info loads target (xi_revalidated inp) of
             Inl (SupervisorError c) \<Rightarrow> finish_with a (failed_update c None) now db
           | Inl e \<Rightarrow> (Finished (Inl e), db)
           | Inr again \<Rightarrow>
               (case addon_baseline_etag env (JObj again) of
                  Inl (ContractError c) \<Rightarrow> finish_with a (failed_update c None) now db
                | Inl e \<Rightarrow> (Finished (Inl e), db)
                | Inr etag \<Rightarrow>
                    if \<not> restartable target again \<or> Some etag \<noteq> b_baseline_etag (ex_binding x)
                    then finish_with a
                           (failed_update ''preflight_revalidation_changed'' (doc_json again)) now db
                    else continue_with a (started_update again) now (At_beat1 pl a target) db)))"

definition step_restarted ::
  "exec_input \<Rightarrow> plan \<Rightarrow> string \<Rightarrow> string \<Rightarrow> unit result \<Rightarrow> auth_db \<Rightarrow> exec_phase \<times> auth_db" where
  "step_restarted inp pl a target outcome db =
     (case outcome of
        Inl (SupervisorError c) \<Rightarrow>
          finish_with a (uncertain_update Ex_executing c) (xi_now_restarted inp) db
      | Inl e \<Rightarrow> (Finished (Inl e), db)
      | Inr _ \<Rightarrow> continue_with a verifying_update (xi_now_restarted inp) (At_beat2 pl a target) db)"

definition step_after ::
  "loads \<Rightarrow> exec_input \<Rightarrow> plan \<Rightarrow> string \<Rightarrow> string \<Rightarrow> auth_db \<Rightarrow> exec_phase \<times> auth_db" where
  "step_after loads inp pl a target db =
     (case addon_info loads target (xi_after inp) of
        Inl (SupervisorError c) \<Rightarrow>
          finish_with a (uncertain_update Ex_verifying c) (xi_now_final inp) db
      | Inl e \<Rightarrow> (Finished (Inl e), db)
      | Inr after \<Rightarrow>
          finish_with a
            (final_update (get_field after ''slug'' = JStr target
                           \<and> get_field after ''state'' = JStr ''started''
                           \<and> get_field after ''version'' = get_field (pl_before pl) ''version'') after)
            (xi_now_final inp) db)"

fun exec_step ::
  "pyenv \<Rightarrow> exec_config \<Rightarrow> loads \<Rightarrow> exec_input \<Rightarrow> exec_phase \<Rightarrow> auth_db \<Rightarrow> exec_phase \<times> auth_db" where
  "exec_step env cfg loads inp (At_claim pl) db = step_claim env cfg inp pl db"
| "exec_step env cfg loads inp (At_revalidate pl x) db = step_revalidate env loads inp pl x db"
| "exec_step env cfg loads inp (At_beat1 pl a t) db =
     beat_with cfg a (xi_now_beat1 inp) (At_restart pl a t) db"
| "exec_step env cfg loads inp (At_restart pl a t) db =
     (At_restarted pl a t (restart_addon loads t (xi_restart inp)), db)"
| "exec_step env cfg loads inp (At_restarted pl a t r) db = step_restarted inp pl a t r db"
| "exec_step env cfg loads inp (At_beat2 pl a t) db =
     beat_with cfg a (xi_now_beat2 inp) (At_after pl a t) db"
| "exec_step env cfg loads inp (At_after pl a t) db = step_after loads inp pl a t db"
| "exec_step env cfg loads inp (Finished r) db = (Finished r, db)"

text \<open>The restarts a phase posts, each with the action it is for.\<close>

fun phase_restarts :: "exec_phase \<Rightarrow> (string \<times> http_call) list" where
  "phase_restarts (At_restart pl a t) = map (Pair a) (restart_addon_calls t)"
| "phase_restarts _ = []"

fun run_phases ::
  "nat \<Rightarrow> pyenv \<Rightarrow> exec_config \<Rightarrow> loads \<Rightarrow> exec_input \<Rightarrow> exec_phase \<Rightarrow> auth_db
     \<Rightarrow> exec_phase \<times> auth_db \<times> (string \<times> http_call) list" where
  "run_phases 0 env cfg loads inp ph db = (ph, db, [])"
| "run_phases (Suc n) env cfg loads inp ph db =
     (let (ph', db') = exec_step env cfg loads inp ph db;
          (ph'', db'', calls) = run_phases n env cfg loads inp ph' db'
      in (ph'', db'', phase_restarts ph @ calls))"

definition EXEC_FUEL :: nat where
  "EXEC_FUEL = 7"

definition execute ::
  "pyenv \<Rightarrow> exec_config \<Rightarrow> loads \<Rightarrow> exec_input \<Rightarrow> bool \<Rightarrow> json \<Rightarrow> auth_db
     \<Rightarrow> exec_phase \<times> auth_db \<times> (string \<times> http_call) list" where
  "execute env cfg loads inp busy request db =
     run_phases EXEC_FUEL env cfg loads inp (prepare env cfg loads inp busy request db) db"

definition execution_status :: "auth_db \<Rightarrow> string \<Rightarrow> execution_document result" where
  "execution_status db action_id = get_execution db action_id"

definition manager_resolve_recovery ::
  "string \<Rightarrow> json \<Rightarrow> int \<Rightarrow> auth_db \<Rightarrow> execution_document result \<times> auth_db" where
  "manager_resolve_recovery action_id request now db =
     (if \<not> ACTION_ID_RE action_id then (Inl (AuthorizationError ''invalid_action_id''), db)
      else (case as_authorization_error (validate_recovery_resolution request) of
          Inl e \<Rightarrow> (Inl e, db)
        | Inr (r, evidence_hash) \<Rightarrow> resolve_recovery action_id r evidence_hash now db))"

end
