(* ===== verification/Auth_Manager.thy ===== *)
theory Auth_Manager
  imports Supervisor Auth_System
begin

text \<open>
  \<open>authorization.py\<close>, class \<open>AuthorizationManager\<close>: pending passkey flows and the operations behind
  the API.  A flow is a one-time challenge bound to a user, and for an authorization to the request
  and its digest.  The passkey backend (\<open>passkeys.py\<close> over python-fido2) is a parameter; so are
  the tokens, and the clock is an argument at each of its readings, in the order the code reads it.
\<close>

section \<open>Flows\<close>

datatype flow_kind = Registration_flow | Authorization_flow

record pending_flow =
  pf_kind :: flow_kind
  pf_user_id_hash :: string
  pf_state :: json
  pf_expires_at :: int
  pf_approval_id :: "string option"
  pf_proposal_hash :: "string option"

type_synonym flows = "(string \<times> pending_flow) list"

record manager_config =
  mc_trusted_owner_hashes :: "string set"
  mc_enrollment_token :: string
  mc_challenge_ttl :: int
  mc_max_passkeys :: nat
  mc_max_pending_flows :: nat
  mc_restart_addon_allowlist :: "string set"
  mc_proposal_ttl_seconds :: int
  mc_policy :: policy

record manager =
  mg_db :: auth_db
  mg_flows :: flows

text \<open>
  The checks of the constructor.  \<open>has_baseline\<close> tells whether a baseline provider was passed; the
  type checks of the integers and strings are the types.
\<close>

definition manager_init :: "manager_config \<Rightarrow> bool \<Rightarrow> auth_db \<Rightarrow> manager result" where
  "manager_init cfg has_baseline db =
     (if mc_enrollment_token cfg \<noteq> [] \<and> py_len (mc_enrollment_token cfg) < 32
      then Inl (AuthorizationError ''enrollment_token_invalid'')
      else if \<not> (60 \<le> mc_challenge_ttl cfg \<and> mc_challenge_ttl cfg \<le> 600)
      then Inl (AuthorizationError ''challenge_ttl_invalid'')
      else if \<not> (1 \<le> mc_max_passkeys cfg \<and> mc_max_passkeys cfg \<le> 32)
              \<or> \<not> (10 \<le> mc_max_pending_flows cfg \<and> mc_max_pending_flows cfg \<le> 500)
      then Inl (AuthorizationError ''limit_invalid'')
      else if \<not> (60 \<le> mc_proposal_ttl_seconds cfg \<and> mc_proposal_ttl_seconds cfg \<le> 1800)
      then Inl (AuthorizationError ''proposal_ttl_invalid'')
      else if policy_epoch (mc_policy cfg) < 1 then Inl (AuthorizationError ''policy_invalid'')
      else if \<not> SHA256_RE (policy_hash (mc_policy cfg))
      then Inl (AuthorizationError ''policy_invalid'')
      else if adapter_version (mc_policy cfg) = [] then Inl (AuthorizationError ''adapter_invalid'')
      else if adapter_schema_version (mc_policy cfg) < 1
      then Inl (AuthorizationError ''adapter_invalid'')
      else if \<not> has_baseline then Inl (AuthorizationError ''baseline_provider_missing'')
      else Inr \<lparr>mg_db = db, mg_flows = []\<rparr>)"

text \<open>\<open>_flows[flow_id] = flow\<close> on a dict: an existing key keeps its place.\<close>

fun dict_set :: "string \<Rightarrow> pending_flow \<Rightarrow> flows \<Rightarrow> flows" where
  "dict_set k f [] = [(k, f)]"
| "dict_set k f ((k', f') # fs) = (if k' = k then (k, f) # fs else (k', f') # dict_set k f fs)"

definition put_flow ::
  "manager_config \<Rightarrow> pending_flow \<Rightarrow> string \<Rightarrow> int \<Rightarrow> flows \<Rightarrow> string result \<times> flows" where
  "put_flow cfg flow flow_id now fs =
     (let live = filter (\<lambda>(_, f). pf_expires_at f > now) fs
      in if length live \<ge> mc_max_pending_flows cfg
         then (Inl (AuthorizationError ''challenge_limit''), live)
         else (Inr flow_id, dict_set flow_id flow live))"

definition take_flow ::
  "json \<Rightarrow> flow_kind \<Rightarrow> string \<Rightarrow> string option \<Rightarrow> int \<Rightarrow> flows \<Rightarrow> pending_flow result \<times> flows" where
  "take_flow flow_id kind user_id_hash approval_id now fs =
     (case flow_id of
        JStr k \<Rightarrow>
          if py_len k > 128 then (Inl (AuthorizationError ''challenge_invalid''), fs)
          else (let rest = filter (\<lambda>(k', _). k' \<noteq> k) fs
                in case map_of fs k of
                     None \<Rightarrow> (Inl (AuthorizationError ''challenge_invalid''), rest)
                   | Some flow \<Rightarrow>
                       (if pf_kind flow \<noteq> kind
                        then Inl (AuthorizationError ''challenge_invalid'')
                        else if pf_expires_at flow \<le> now
                        then Inl (AuthorizationError ''challenge_expired'')
                        else if pf_user_id_hash flow \<noteq> user_id_hash
                                \<or> pf_approval_id flow \<noteq> approval_id
                        then Inl (AuthorizationError ''challenge_mismatch'')
                        else Inr flow, rest))
      | _ \<Rightarrow> (Inl (AuthorizationError ''challenge_invalid''), fs))"

definition hash_ha_user_id :: "pyenv \<Rightarrow> json \<Rightarrow> string result" where
  "hash_ha_user_id env user_id =
     (case user_id of
        JStr s \<Rightarrow>
          let value = py_strip s
          in if value = [] \<or> py_len value > 256 \<or> list_ex (\<lambda>c. byte c < 33) value
             then Inl (AuthorizationError ''ingress_user_invalid'')
             else Inr (sha256_hex env (''ha-user:'' @ value))
      | _ \<Rightarrow> Inl (AuthorizationError ''ingress_user_required''))"

definition require_enrollment_token :: "manager_config \<Rightarrow> json \<Rightarrow> unit result" where
  "require_enrollment_token cfg value =
     (if mc_enrollment_token cfg = [] then Inl (AuthorizationError ''enrollment_disabled'')
      else (case value of
          JStr s \<Rightarrow>
            if list_ex (\<lambda>c. 128 \<le> byte c) (s @ mc_enrollment_token cfg) then Inl TypeError
            else if s \<noteq> mc_enrollment_token cfg
            then Inl (AuthorizationError ''enrollment_denied'') else Inr ()
        | _ \<Rightarrow> Inl (AuthorizationError ''enrollment_denied'')))"

section \<open>The passkey backend\<close>

record material =
  mt_credential_id :: string
  mt_credential_data :: string
  mt_sign_count :: int

record backend =
  pb_registration_begin :: "string \<Rightarrow> (json \<times> json) result"
  pb_registration_complete :: "json \<Rightarrow> json \<Rightarrow> material result"
  pb_authentication_begin :: "string list \<Rightarrow> (json \<times> json) result"
  pb_authentication_complete :: "json \<Rightarrow> string list \<Rightarrow> json \<Rightarrow> (string \<times> int) result"

text \<open>\<open>except AuthorizationError: raise\<close>, \<open>except Exception: raise AuthorizationError(code)\<close>.\<close>

fun as_failure :: "string \<Rightarrow> 'a result \<Rightarrow> 'a result" where
  "as_failure code (Inl (AuthorizationError c)) = Inl (AuthorizationError c)"
| "as_failure code (Inl _) = Inl (AuthorizationError code)"
| "as_failure code (Inr a) = Inr a"

lemma as_failure_Inr [simp]: "as_failure code r = Inr a \<longleftrightarrow> r = Inr a"
  by (cases "(code, r)" rule: as_failure.cases) auto

section \<open>Proposals and requests\<close>

text \<open>The state and an operation that touches only the store.\<close>

definition on_store :: "(auth_db \<Rightarrow> 'a result \<times> auth_db) \<Rightarrow> manager \<Rightarrow> 'a result \<times> manager" where
  "on_store f m = (fst (f (mg_db m)), m\<lparr>mg_db := snd (f (mg_db m))\<rparr>)"

definition manager_create_request ::
  "pyenv \<Rightarrow> manager_config \<Rightarrow> json \<Rightarrow> string \<Rightarrow> int \<Rightarrow> int \<Rightarrow> manager
     \<Rightarrow> request_document result \<times> manager" where
  "manager_create_request env cfg envelope token now1 now2 m =
     (case as_authorization_error (validate_envelope env envelope (mc_trusted_owner_hashes cfg) now1)
      of Inl e \<Rightarrow> (Inl e, m)
       | Inr v \<Rightarrow> on_store (create_request v token now2) m)"

text \<open>
  \<open>baseline_provider\<close> of \<open>main.py\<close>: the digest of the add-on's current observation.
\<close>

definition baseline_provider :: "pyenv \<Rightarrow> loads \<Rightarrow> string \<Rightarrow> http_response \<Rightarrow> string result" where
  "baseline_provider env loads target resp =
     (case addon_info loads target resp of
        Inl (SupervisorError c) \<Rightarrow> Inl (ContractError c)
      | Inl e \<Rightarrow> Inl e
      | Inr observation \<Rightarrow> addon_baseline_etag env (JObj observation))"

definition create_proposal ::
  "pyenv \<Rightarrow> manager_config \<Rightarrow> loads \<Rightarrow> json \<Rightarrow> http_response \<Rightarrow> string \<Rightarrow> int \<Rightarrow> int \<Rightarrow> manager
     \<Rightarrow> proposal_document result \<times> manager" where
  "create_proposal env cfg loads intent resp token now1 now2 m =
     (case as_authorization_error (validate_native_intent intent (mc_restart_addon_allowlist cfg)) of
        Inl e \<Rightarrow> (Inl e, m)
      | Inr v \<Rightarrow>
          (case existing_native_proposal (mg_db m) v now1 of
             Inl e \<Rightarrow> (Inl e, m)
           | Inr (Some doc) \<Rightarrow> (Inr doc, m)
           | Inr None \<Rightarrow>
               (case as_authorization_error (baseline_provider env loads (ni_target v) resp) of
                  Inl e \<Rightarrow> (Inl e, m)
                | Inr etag \<Rightarrow>
                    on_store (create_native_proposal env intent (mc_restart_addon_allowlist cfg)
                      (mc_policy cfg) etag token now2 (mc_proposal_ttl_seconds cfg)) m)))"

definition manager_register_backup_evidence ::
  "pyenv \<Rightarrow> json \<Rightarrow> int \<Rightarrow> manager \<Rightarrow> evidence result \<times> manager" where
  "manager_register_backup_evidence env evidence now =
     on_store (register_backup_evidence env evidence now)"

definition manager_backup_evidence :: "manager \<Rightarrow> string \<Rightarrow> evidence result" where
  "manager_backup_evidence m logical_id = get_backup_evidence (mg_db m) logical_id"

definition create_native_request ::
  "json \<Rightarrow> string \<Rightarrow> int \<Rightarrow> manager \<Rightarrow> request_document result \<times> manager" where
  "create_native_request req token now = on_store (create_request_from_native_proposal req token now)"

definition native_proposal :: "manager \<Rightarrow> string \<Rightarrow> int \<Rightarrow> proposal_document result" where
  "native_proposal m action_id now = get_native_proposal (mg_db m) action_id now"

definition internal_status ::
  "string \<Rightarrow> int \<Rightarrow> manager \<Rightarrow> (request_document \<times> receipt_document option) result \<times> manager" where
  "internal_status approval_id now m =
     (case on_store (get_request approval_id now) m of
        (Inl e, m') \<Rightarrow> (Inl e, m')
      | (Inr q, m') \<Rightarrow> (Inr (q, receipt_for_request (mg_db m') approval_id), m'))"

record ingress_view =
  iv_registered_for_user :: bool
  iv_enrollment_enabled :: bool
  iv_request :: "request_document option"
  iv_receipt :: "(string \<times> int \<times> string) option"

definition receipt_summary :: "receipt_document \<Rightarrow> string \<times> int \<times> string" where
  "receipt_summary d =
     (rc_receipt_id (rcd_row d), rc_authorized_at (rcd_row d), rc_assurance (rcd_row d))"

definition ingress_context ::
  "pyenv \<Rightarrow> manager_config \<Rightarrow> string option \<Rightarrow> json \<Rightarrow> int \<Rightarrow> manager
     \<Rightarrow> ingress_view result \<times> manager" where
  "ingress_context env cfg approval_id remote_user_id now m =
     (case hash_ha_user_id env remote_user_id of
        Inl e \<Rightarrow> (Inl e, m)
      | Inr user_hash \<Rightarrow>
          let registered = (credentials_for_user (mg_db m) user_hash \<noteq> []);
              enabled = (mc_enrollment_token cfg \<noteq> [])
          in case approval_id of
               None \<Rightarrow> (Inr \<lparr>iv_registered_for_user = registered, iv_enrollment_enabled = enabled,
                             iv_request = None, iv_receipt = None\<rparr>, m)
             | Some [] \<Rightarrow> (Inr \<lparr>iv_registered_for_user = registered, iv_enrollment_enabled = enabled,
                             iv_request = None, iv_receipt = None\<rparr>, m)
             | Some a \<Rightarrow>
                 (case on_store (get_request a now) m of
                    (Inl e, m') \<Rightarrow> (Inl e, m')
                  | (Inr q, m') \<Rightarrow>
                      (Inr \<lparr>iv_registered_for_user = registered, iv_enrollment_enabled = enabled,
                            iv_request = Some q,
                            iv_receipt = map_option receipt_summary
                              (receipt_for_request (mg_db m') a)\<rparr>, m')))"

section \<open>Enrolment\<close>

definition begin_registration ::
  "pyenv \<Rightarrow> manager_config \<Rightarrow> backend \<Rightarrow> json \<Rightarrow> json \<Rightarrow> string \<Rightarrow> int \<Rightarrow> int \<Rightarrow> manager
     \<Rightarrow> (string \<times> json) result \<times> manager" where
  "begin_registration env cfg pb remote_user_id enrollment_token flow_id now1 now2 m =
     (case hash_ha_user_id env remote_user_id of
        Inl e \<Rightarrow> (Inl e, m)
      | Inr user_hash \<Rightarrow>
          (case require_enrollment_token cfg enrollment_token of
             Inl e \<Rightarrow> (Inl e, m)
           | Inr _ \<Rightarrow>
               if credentials_for_user (mg_db m) user_hash \<noteq> []
               then (Inl (AuthorizationError ''passkey_already_enrolled''), m)
               else if credential_count (mg_db m) \<ge> mc_max_passkeys cfg
               then (Inl (AuthorizationError ''passkey_limit''), m)
               else (case pb_registration_begin pb user_hash of
                   Inl e \<Rightarrow> (Inl e, m)
                 | Inr (options, st) \<Rightarrow>
                     (let flow = \<lparr>pf_kind = Registration_flow, pf_user_id_hash = user_hash,
                                  pf_state = st, pf_expires_at = now1 + seconds (mc_challenge_ttl cfg),
                                  pf_approval_id = None, pf_proposal_hash = None\<rparr>
                      in case put_flow cfg flow flow_id now2 (mg_flows m) of
                           (Inl e, fs) \<Rightarrow> (Inl e, m\<lparr>mg_flows := fs\<rparr>)
                         | (Inr k, fs) \<Rightarrow> (Inr (k, options), m\<lparr>mg_flows := fs\<rparr>)))))"

definition complete_registration ::
  "pyenv \<Rightarrow> manager_config \<Rightarrow> backend \<Rightarrow> json \<Rightarrow> json \<Rightarrow> json \<Rightarrow> json \<Rightarrow> int \<Rightarrow> int \<Rightarrow> manager
     \<Rightarrow> string result \<times> manager" where
  "complete_registration env cfg pb remote_user_id enrollment_token flow_id response now1 now2 m =
     (case hash_ha_user_id env remote_user_id of
        Inl e \<Rightarrow> (Inl e, m)
      | Inr user_hash \<Rightarrow>
          (case require_enrollment_token cfg enrollment_token of
             Inl e \<Rightarrow> (Inl e, m)
           | Inr _ \<Rightarrow>
               (case take_flow flow_id Registration_flow user_hash None now1 (mg_flows m) of
                  (Inl e, fs) \<Rightarrow> (Inl e, m\<lparr>mg_flows := fs\<rparr>)
                | (Inr flow, fs) \<Rightarrow>
                    (let m' = m\<lparr>mg_flows := fs\<rparr>
                     in case as_failure ''passkey_registration_failed''
                               (pb_registration_complete pb (pf_state flow) response) of
                          Inl e \<Rightarrow> (Inl e, m')
                        | Inr mat \<Rightarrow>
                            (case on_store (add_credential (mt_credential_id mat)
                                    (mt_credential_data mat) user_hash (mt_sign_count mat) now2) m' of
                               (Inl e, m'') \<Rightarrow> (Inl e, m'')
                             | (Inr _, m'') \<Rightarrow> (Inr (sha256_hex env (mt_credential_id mat)), m''))))))"

section \<open>Authorization\<close>

definition begin_authorization ::
  "pyenv \<Rightarrow> manager_config \<Rightarrow> backend \<Rightarrow> string \<Rightarrow> json \<Rightarrow> string \<Rightarrow> int \<Rightarrow> int \<Rightarrow> int \<Rightarrow> manager
     \<Rightarrow> (string \<times> json \<times> string) result \<times> manager" where
  "begin_authorization env cfg pb approval_id remote_user_id flow_id now1 now2 now3 m =
     (case hash_ha_user_id env remote_user_id of
        Inl e \<Rightarrow> (Inl e, m)
      | Inr user_hash \<Rightarrow>
          (case on_store (get_request approval_id now1) m of
             (Inl e, m') \<Rightarrow> (Inl e, m')
           | (Inr q, m') \<Rightarrow>
               if rq_state (rqd_row q) = Expired
               then (Inl (AuthorizationError ''approval_expired''), m')
               else if rq_state (rqd_row q) \<noteq> Pending
               then (Inl (AuthorizationError ''approval_not_pending''), m')
               else (let credentials = credentials_for_user (mg_db m') user_hash
                     in if credentials = []
                        then (Inl (AuthorizationError ''passkey_not_enrolled''), m')
                        else (case pb_authentication_begin pb (map pk_credential_data credentials) of
                            Inl e \<Rightarrow> (Inl e, m')
                          | Inr (options, st) \<Rightarrow>
                              (let flow = \<lparr>pf_kind = Authorization_flow, pf_user_id_hash = user_hash,
                                     pf_state = st,
                                     pf_expires_at = now2 + seconds (mc_challenge_ttl cfg),
                                     pf_approval_id = Some approval_id,
                                     pf_proposal_hash = Some (rq_proposal_hash (rqd_row q))\<rparr>
                               in case put_flow cfg flow flow_id now3 (mg_flows m') of
                                    (Inl e, fs) \<Rightarrow> (Inl e, m'\<lparr>mg_flows := fs\<rparr>)
                                  | (Inr k, fs) \<Rightarrow>
                                      (Inr (k, options, rq_proposal_hash (rqd_row q)),
                                       m'\<lparr>mg_flows := fs\<rparr>))))))"

text \<open>The part of \<open>complete_authorization\<close> after the flow was taken.\<close>

definition verify_and_authorize ::
  "pyenv \<Rightarrow> backend \<Rightarrow> pending_flow \<Rightarrow> string \<Rightarrow> string \<Rightarrow> json \<Rightarrow> string \<Rightarrow> int \<Rightarrow> int \<Rightarrow> manager
     \<Rightarrow> receipt_document result \<times> manager" where
  "verify_and_authorize env pb flow user_hash approval_id response token now2 now3 m =
     (case on_store (get_request approval_id now2) m of
        (Inl e, m1) \<Rightarrow> (Inl e, m1)
      | (Inr q, m1) \<Rightarrow>
          if rq_state (rqd_row q) \<noteq> Pending
             \<or> Some (rq_proposal_hash (rqd_row q)) \<noteq> pf_proposal_hash flow
          then (Inl (AuthorizationError ''proposal_changed''), m1)
          else (let credentials = credentials_for_user (mg_db m1) user_hash
                in case as_failure ''passkey_verification_failed''
                          (pb_authentication_complete pb (pf_state flow)
                            (map pk_credential_data credentials) response) of
                     Inl e \<Rightarrow> (Inl e, m1)
                   | Inr (credential_id, sign_count) \<Rightarrow>
                       (case select_one (\<lambda>c. pk_credential_id c = credential_id) credentials of
                          None \<Rightarrow> (Inl (AuthorizationError ''credential_unknown''), m1)
                        | Some matching \<Rightarrow>
                            (case on_store (update_counter (pk_credential_id matching)
                                    (pk_sign_count matching) sign_count now3) m1 of
                               (Inl e, m2) \<Rightarrow> (Inl e, m2)
                             | (Inr _, m2) \<Rightarrow>
                                 on_store (authorize env approval_id
                                   (case pf_proposal_hash flow of None \<Rightarrow> [] | Some h \<Rightarrow> h)
                                   user_hash (pk_credential_id matching) token now3) m2))))"

definition complete_authorization ::
  "pyenv \<Rightarrow> backend \<Rightarrow> string \<Rightarrow> json \<Rightarrow> json \<Rightarrow> json \<Rightarrow> string \<Rightarrow> int \<Rightarrow> int \<Rightarrow> int \<Rightarrow> manager
     \<Rightarrow> receipt_document result \<times> manager" where
  "complete_authorization env pb approval_id remote_user_id flow_id response token now1 now2 now3 m =
     (case hash_ha_user_id env remote_user_id of
        Inl e \<Rightarrow> (Inl e, m)
      | Inr user_hash \<Rightarrow>
          (case take_flow flow_id Authorization_flow user_hash (Some approval_id) now1 (mg_flows m) of
             (Inl e, fs) \<Rightarrow> (Inl e, m\<lparr>mg_flows := fs\<rparr>)
           | (Inr flow, fs) \<Rightarrow>
               verify_and_authorize env pb flow user_hash approval_id response token now2 now3
                 (m\<lparr>mg_flows := fs\<rparr>)))"

end
