(* ===== verification/Preflight_Service.thy ===== *)
theory Preflight_Service
  imports Supervisor Auth_Store
begin

text \<open>
  \<open>operations_broker/service.py\<close>: the read-only preflight of a proposal.  It validates, reads at most
  one observation from the Supervisor and answers with a document; every exception becomes a blocked
  document.  Request id, clock and network answer are arguments.
\<close>

section \<open>Routing\<close>

definition ADDON_ACTIONS :: "string list" where
  "ADDON_ACTIONS =
     [''install_addon'', ''configure_addon'', ''start_addon'', ''stop_addon'', ''restart_addon'',
      ''update_addon'', ''repair_addon'', ''uninstall_addon'']"

definition CORE_ACTIONS :: "string list" where
  "CORE_ACTIONS = [''check_ha_config'', ''restart_core'']"

definition BACKUP_ACTIONS :: "string list" where
  "BACKUP_ACTIONS = [''create_backup'', ''delete_expired_backup'']"

definition UNSUPPORTED_ACTIONS :: "string list" where
  "UNSUPPORTED_ACTIONS =
     [''install_hacs'', ''update_hacs'', ''repair_hacs'', ''remove_hacs'', ''start_config_flow'',
      ''enable_integration'', ''disable_integration'', ''reload_integration'',
      ''remove_integration'', ''purge_recorder'', ''cleanup_allowlisted_cache'']"

section \<open>Documents\<close>

datatype decision = Preflight_observed | Blocked

record preflight_document =
  pf_request_id :: string
  pf_sampled_at :: int
  pf_subject :: "(string \<times> string) option"
  pf_decision :: decision
  pf_assurance :: string
  pf_execution_allowed :: bool
  pf_observation :: "(string \<times> doc) option"
  pf_issues :: "string list"
  pf_future_role :: "string option"

definition blocked :: "string \<Rightarrow> int \<Rightarrow> string \<Rightarrow> preflight_document" where
  "blocked request_id sampled_at code =
     \<lparr>pf_request_id = request_id, pf_sampled_at = sampled_at, pf_subject = None,
      pf_decision = Blocked, pf_assurance = ''none'', pf_execution_allowed = False,
      pf_observation = None, pf_issues = [code], pf_future_role = None\<rparr>"

text \<open>The \<open>except\<close> clauses of both entry points.\<close>

fun blocked_on_error ::
  "string \<Rightarrow> int \<Rightarrow> preflight_document result \<Rightarrow> preflight_document" where
  "blocked_on_error request_id sampled_at (Inr d) = d"
| "blocked_on_error request_id sampled_at (Inl (ContractError c)) = blocked request_id sampled_at c"
| "blocked_on_error request_id sampled_at (Inl (SupervisorError c)) = blocked request_id sampled_at c"
| "blocked_on_error request_id sampled_at (Inl _) = blocked request_id sampled_at ''internal_error''"

section \<open>The preflight\<close>

record subject =
  sj_action_id :: string
  sj_proposal_hash :: string
  sj_action_type :: string
  sj_target :: string

definition preflight_validated ::
  "loads \<Rightarrow> subject \<Rightarrow> http_response \<Rightarrow> string \<Rightarrow> int \<Rightarrow> string \<Rightarrow> preflight_document result" where
  "preflight_validated loads sj resp request_id sampled_at assurance =
     (let answer = (\<lambda>decision observation issues role.
        \<lparr>pf_request_id = request_id, pf_sampled_at = sampled_at,
         pf_subject = Some (sj_action_id sj, sj_proposal_hash sj), pf_decision = decision,
         pf_assurance = assurance, pf_execution_allowed = False, pf_observation = observation,
         pf_issues = issues, pf_future_role = Some role\<rparr>)
      in if sj_action_type sj \<in> set ADDON_ACTIONS
         then bind_result (addon_info loads (sj_target sj) resp) (\<lambda>data.
                Inr (answer Preflight_observed (Some (''addon_info'', data)) [] ''manager''))
         else if sj_action_type sj \<in> set CORE_ACTIONS
         then if sj_target sj \<noteq> ''home-assistant-core''
              then Inl (ContractError ''target_mismatch'')
              else bind_result (core_info loads resp) (\<lambda>data.
                Inr (answer Preflight_observed (Some (''core_info'', data)) [] ''homeassistant''))
         else if sj_action_type sj \<in> set BACKUP_ACTIONS
         then Inr (answer Blocked None [''permission_not_granted''] ''backup'')
         else if sj_action_type sj \<in> set UNSUPPORTED_ACTIONS
         then Inr (answer Blocked None [''unsupported_canary''] ''separate_design_required'')
         else Inl (ContractError ''unsupported_action''))"

definition subject_of_envelope :: "validated_envelope \<Rightarrow> subject" where
  "subject_of_envelope v =
     \<lparr>sj_action_id = ve_action_id v, sj_proposal_hash = ve_proposal_hash v,
      sj_action_type = ve_action_type v, sj_target = ve_target v\<rparr>"

definition preflight ::
  "pyenv \<Rightarrow> loads \<Rightarrow> string set \<Rightarrow> json \<Rightarrow> http_response \<Rightarrow> string \<Rightarrow> int \<Rightarrow> int
     \<Rightarrow> preflight_document" where
  "preflight env loads trusted_owner_hashes envelope resp token now1 now2 =
     (let request_id = ''PREFLIGHT-'' @ token; sampled_at = iso_timestamp now1
      in blocked_on_error request_id sampled_at
           (bind_result (validate_envelope env envelope trusted_owner_hashes now2) (\<lambda>v.
            preflight_validated loads (subject_of_envelope v) resp request_id sampled_at
              ''structural_only'')))"

definition subject_of_proposal :: "proposal \<Rightarrow> subject" where
  "subject_of_proposal p =
     \<lparr>sj_action_id = pr_action_id p, sj_proposal_hash = pr_proposal_hash p,
      sj_action_type = pr_action_type p, sj_target = pr_target p\<rparr>"

definition preflight_native_proposal ::
  "loads \<Rightarrow> proposal_document \<Rightarrow> http_response \<Rightarrow> string \<Rightarrow> int \<Rightarrow> preflight_document" where
  "preflight_native_proposal loads d resp token now =
     (let request_id = ''PREFLIGHT-'' @ token; sampled_at = iso_timestamp now
      in blocked_on_error request_id sampled_at
           (if pd_expired d then Inl (ContractError ''proposal_expired'')
            else preflight_validated loads (subject_of_proposal (pd_row d)) resp request_id
              sampled_at ''broker_native''))"

text \<open>The HTTP calls: one read at most.\<close>

definition preflight_validated_calls :: "subject \<Rightarrow> http_call list" where
  "preflight_validated_calls sj =
     (if sj_action_type sj \<in> set ADDON_ACTIONS then addon_info_calls (sj_target sj)
      else if sj_action_type sj \<in> set CORE_ACTIONS \<and> sj_target sj = ''home-assistant-core''
      then [Http_get ''/core/info''] else [])"

definition preflight_calls ::
  "pyenv \<Rightarrow> string set \<Rightarrow> json \<Rightarrow> int \<Rightarrow> http_call list" where
  "preflight_calls env trusted_owner_hashes envelope now =
     (case validate_envelope env envelope trusted_owner_hashes now of
        Inl _ \<Rightarrow> [] | Inr v \<Rightarrow> preflight_validated_calls (subject_of_envelope v))"

section \<open>What it answers\<close>

lemma routes_cover: "set (map fst ACTION_RISKS) =
    set ADDON_ACTIONS \<union> set CORE_ACTIONS \<union> set BACKUP_ACTIONS \<union> set UNSUPPORTED_ACTIONS"
  by code_simp

lemma routes_disjoint:
  "distinct (ADDON_ACTIONS @ CORE_ACTIONS @ BACKUP_ACTIONS @ UNSUPPORTED_ACTIONS)"
  by code_simp

lemma envelope_policy_action:
  assumes "envelope_policy p = Inr u"
  shows "str_of (get_field p ''action_type'') \<in> set (map fst ACTION_RISKS)"
proof -
  from assms obtain r where
    "map_of ACTION_RISKS (str_of (get_field p ''action_type'')) = Some r"
    by (auto simp: envelope_policy_def bind_result_Inr_iff split: if_splits option.splits)
  then show ?thesis by (force dest: map_of_SomeD)
qed

lemma validate_envelope_action:
  assumes "validate_envelope env e owners now = Inr v"
  shows "ve_action_type v \<in> set (map fst ACTION_RISKS)"
proof -
  from assms obtain p u where "envelope_policy p = Inr u"
      "ve_action_type v = str_of (get_field p ''action_type'')"
    unfolding validate_envelope_def bind_result_Inr_iff by (auto simp: bind_result_Inr_iff)
  with envelope_policy_action show ?thesis by metis
qed

lemma preflight_validated_never_allows:
  "preflight_validated loads sj resp rid t a = Inr d \<Longrightarrow> \<not> pf_execution_allowed d"
  by (auto simp: preflight_validated_def Let_def bind_result_Inr_iff split: if_splits)

text \<open>The document reports what the Supervisor answered about its subject.\<close>

definition observes :: "loads \<Rightarrow> http_response \<Rightarrow> subject \<Rightarrow> preflight_document \<Rightarrow> bool" where
  "observes loads resp sj d \<longleftrightarrow>
     pf_subject d = Some (sj_action_id sj, sj_proposal_hash sj) \<and> pf_issues d = [] \<and>
     (sj_action_type sj \<in> set ADDON_ACTIONS \<and> ADDON_SLUG_RE (sj_target sj) \<and>
       (\<exists>data. pf_observation d = Some (''addon_info'', data) \<and>
          addon_info loads (sj_target sj) resp = Inr data) \<or>
      sj_action_type sj \<in> set CORE_ACTIONS \<and> sj_target sj = ''home-assistant-core'' \<and>
       (\<exists>data. pf_observation d = Some (''core_info'', data) \<and> core_info loads resp = Inr data))"

lemma preflight_validated_observed:
  assumes "preflight_validated loads sj resp rid t a = Inr d" and "pf_decision d = Preflight_observed"
  shows "observes loads resp sj d"
  using assms broker_observer.observe_slug unfolding observes_def
  by (auto simp: preflight_validated_def Let_def bind_result_Inr_iff split: if_splits)

lemma preflight_validated_observes:
  "preflight_validated loads sj resp rid t a = Inr d \<Longrightarrow> observes loads resp sj' d \<Longrightarrow>
   pf_decision d = Preflight_observed"
  by (auto simp: preflight_validated_def Let_def bind_result_Inr_iff observes_def split: if_splits)

lemma blocked_simps [simp]:
  "\<not> pf_execution_allowed (blocked rid t c)" "pf_decision (blocked rid t c) = Blocked"
  "pf_observation (blocked rid t c) = None" "pf_issues (blocked rid t c) = [c]"
  by (simp_all add: blocked_def)

lemma blocked_on_error_cases:
  obtains (answered) d where "r = Inr d" and "blocked_on_error rid t r = d"
  | (raised) e c where "r = Inl e" and "blocked_on_error rid t r = blocked rid t c"
  by (cases "(rid, t, r)" rule: blocked_on_error.cases) auto

lemma preflight_calls_reads:
  "length (preflight_validated_calls sj) \<le> 1 \<and>
   set (preflight_validated_calls sj) \<subseteq> range Http_get"
  by (auto simp: preflight_validated_calls_def addon_info_calls_def)

text \<open>No validated action falls through the routing: its last branch is dead code.\<close>

lemma routing_total:
  assumes "validate_envelope env e owners now = Inr v"
  shows "ve_action_type v \<in> set ADDON_ACTIONS \<union> set CORE_ACTIONS \<union> set BACKUP_ACTIONS \<union>
    set UNSUPPORTED_ACTIONS"
  using validate_envelope_action [OF assms] routes_cover by simp

text \<open>A preflight never grants anything and never writes.  Whatever envelope comes in, the answer
forbids execution, and at most one call is made, a read.  An observation is reported exactly for an
envelope that validated, about its own action and digest, and it is what the Supervisor answered for
its target; a restart is observed on an exact add-on slug, a Core action on Core.\<close>

theorem preflight_read_only:
  "\<not> pf_execution_allowed (preflight env loads owners e resp tok now1 now2) \<and>
   length (preflight_calls env owners e now2) \<le> 1 \<and>
   set (preflight_calls env owners e now2) \<subseteq> range Http_get \<and>
   (pf_decision (preflight env loads owners e resp tok now1 now2) = Preflight_observed \<longleftrightarrow>
      (\<exists>v. validate_envelope env e owners now2 = Inr v \<and>
         observes loads resp (subject_of_envelope v)
           (preflight env loads owners e resp tok now1 now2)))"
proof -
  let ?rid = "''PREFLIGHT-'' @ tok" and ?t = "iso_timestamp now1"
  let ?r = "bind_result (validate_envelope env e owners now2) (\<lambda>v.
    preflight_validated loads (subject_of_envelope v) resp ?rid ?t ''structural_only'')"
  have d: "preflight env loads owners e resp tok now1 now2 = blocked_on_error ?rid ?t ?r"
    by (simp add: preflight_def Let_def)
  have "length (preflight_calls env owners e now2) \<le> 1 \<and>
      set (preflight_calls env owners e now2) \<subseteq> range Http_get"
    using preflight_calls_reads by (auto simp: preflight_calls_def split: sum.splits)
  then show ?thesis
    unfolding d
    by (cases rule: blocked_on_error_cases [of ?r ?rid ?t])
      (auto simp: bind_result_Inr_iff observes_def [of _ _ _ "blocked _ _ _"]
        dest: preflight_validated_never_allows preflight_validated_observed
          preflight_validated_observes)
qed

end
