(* ===== verification/Broker_Api.thy ===== *)
theory Broker_Api
  imports Execution_Manager Auth_Manager Preflight_Service
begin

text \<open>
  \<open>operations_broker/api.py\<close>: the HTTP interface of the Broker, wired as \<open>main.py\<close> wires it.  A
  request is what \<open>http.server\<close> hands to the handler: the target, the headers the code reads, as
  \<open>self.headers\<close> returns them, and the body.  \<open>do_GET\<close> and \<open>do_POST\<close> answer a request themselves or
  decide on one call (\<open>api_call\<close>); \<open>perform\<close> makes that call on the manager and the store they
  share, and \<open>handle\<close> is one request from its line to its reply.  \<open>urllib.parse\<close> is a parameter
  (\<open>urlsplit\<close> in \<open>pyenv\<close>; \<open>unquote\<close> and \<open>parse_qs\<close> in \<open>web_env\<close>).
\<close>

section \<open>Configuration and requests\<close>

record web_env =
  unquote :: "string \<Rightarrow> string"
  parse_qs :: "string \<Rightarrow> (string \<times> string list) list"

record api_config =
  ac_api_token :: string
  ac_recovery_api_token :: string
  ac_backup_evidence_api_token :: string
  ac_max_request_bytes :: int
  ac_authorization_manager :: bool
  ac_execution_handler :: bool
  ac_execution_status_handler :: bool
  ac_recovery_resolution_handler :: bool
  ac_execution_enabled :: bool
  ac_enabled_actions :: "string set"
  ac_allowed_ingress_origins :: "string set"

record http_request =
  ht_method :: string
  ht_target :: string
  ht_authorization :: string
  ht_remote_user :: string
  ht_origin :: string
  ht_content_type :: string
  ht_content_length :: "int option"
  ht_body :: string

text \<open>\<open>hmac.compare_digest\<close> of two texts: only ASCII texts can be compared.\<close>

definition compare_digest :: "string \<Rightarrow> string \<Rightarrow> bool result" where
  "compare_digest a b =
     (if list_ex (\<lambda>c. 128 \<le> byte c) (a @ b) then Inl TypeError else Inr (a = b))"

definition create_server :: "api_config \<Rightarrow> unit result" where
  "create_server cfg =
     (let a = ac_api_token cfg; b = ac_recovery_api_token cfg; c = ac_backup_evidence_api_token cfg
      in if list_ex (\<lambda>t. py_len t < 32) [a, b, c] then Inl ValueError
         else bind_result (compare_digest a b) (\<lambda>same. if same then Inl ValueError
         else bind_result (compare_digest a c) (\<lambda>same. if same then Inl ValueError
         else bind_result (compare_digest b c) (\<lambda>same. if same then Inl ValueError
         else Inr ()))))"

section \<open>Calls and replies\<close>

datatype api_call =
    Preflight json
  | Ingress_context "string option" string
  | Internal_status string
  | Execution_status string
  | Backup_evidence string
  | Create_proposal json
  | Register_backup_evidence json
  | Create_native_request json
  | Execute json
  | Resolve_recovery string json
  | Begin_registration string json
  | Complete_registration string json json json
  | Begin_authorization string string
  | Complete_authorization string string json json

datatype api_doc =
    Preflight_doc preflight_document
  | Context_doc ingress_view
  | Status_doc request_document "receipt_document option"
  | Execution_doc execution_document
  | Executed_doc execution_document bool
  | Evidence_doc evidence
  | Proposal_doc proposal_document
  | Request_doc request_document
  | Registration_doc string json
  | Registered_doc string
  | Challenge_doc string json string
  | Receipt_doc receipt_document

datatype api_body =
    Health bool "string set"
  | Asset string
  | Error_body string
  | Payload api_doc

text \<open>What a handler decides: an answer, a call, or an exception that ends the connection.\<close>

datatype route = Answer nat api_body | Call api_call | Raises exn

section \<open>The guards\<close>

text \<open>Each guard answers itself or goes on with the rest of the handler.\<close>

definition bearer_authorized :: "string \<Rightarrow> string \<Rightarrow> http_request \<Rightarrow> route \<Rightarrow> route" where
  "bearer_authorized token code req rest =
     (case compare_digest (ht_authorization req) (''Bearer '' @ token) of
        Inl e \<Rightarrow> Raises e
      | Inr same \<Rightarrow> if same then rest else Answer 401 (Error_body code))"

definition with_manager :: "api_config \<Rightarrow> route \<Rightarrow> route" where
  "with_manager cfg rest =
     (if ac_authorization_manager cfg then rest
      else Answer 404 (Error_body ''authorization_unavailable''))"

definition not_found :: route where
  "not_found = Answer 404 (Error_body ''not_found'')"

definition ingress_user :: "api_config \<Rightarrow> bool \<Rightarrow> http_request \<Rightarrow> (string \<Rightarrow> route) \<Rightarrow> route" where
  "ingress_user cfg require_origin req rest =
     (if ht_remote_user req = [] then Answer 401 (Error_body ''ingress_user_required'')
      else if require_origin \<and> ht_origin req \<notin> ac_allowed_ingress_origins cfg
      then Answer 403 (Error_body ''ingress_origin_rejected'')
      else rest (ht_remote_user req))"

definition read_json :: "api_config \<Rightarrow> loads \<Rightarrow> http_request \<Rightarrow> (doc \<Rightarrow> route) \<Rightarrow> route" where
  "read_json cfg loads req rest =
     (if ht_content_type req \<noteq> ''application/json''
      then Answer 415 (Error_body ''content_type_required'')
      else (let content_length = (case ht_content_length req of None \<Rightarrow> -1 | Some n \<Rightarrow> n)
            in if content_length < 1 \<or> content_length > ac_max_request_bytes cfg
               then Answer 413 (Error_body ''request_size_invalid'')
               else (case loads (take (nat content_length) (ht_body req)) of
                   None \<Rightarrow> Answer 400 (Error_body ''invalid_json'')
                 | Some (JObj payload) \<Rightarrow> rest payload
                 | Some _ \<Rightarrow> Answer 400 (Error_body ''json_object_required''))))"

section \<open>The paths\<close>

text \<open>
  The five regular expressions match a path by its segments; a group \<open>([^/]+)\<close> is a segment that is
  not empty.
\<close>

definition segment :: "string list \<Rightarrow> string \<Rightarrow> string list \<Rightarrow> string list \<Rightarrow> string option" where
  "segment before s after segments =
     (if segments = before @ s # after \<and> s \<noteq> [] then Some s else None)"

fun INTERNAL_STATUS :: "string list \<Rightarrow> string option" where
  "INTERNAL_STATUS [a, b, c, d, s] = segment [[], ''v1'', ''authorization'', ''requests''] s [] [a, b, c, d, s]"
| "INTERNAL_STATUS _ = None"

fun EXECUTION_STATUS :: "string list \<Rightarrow> string option" where
  "EXECUTION_STATUS [a, b, c, s] = segment [[], ''v1'', ''executions''] s [] [a, b, c, s]"
| "EXECUTION_STATUS _ = None"

fun RECOVERY_RESOLUTION :: "string list \<Rightarrow> string option" where
  "RECOVERY_RESOLUTION [a, b, c, s, d] =
     segment [[], ''v1'', ''executions''] s [''recovery-resolution''] [a, b, c, s, d]"
| "RECOVERY_RESOLUTION _ = None"

fun BACKUP_EVIDENCE :: "string list \<Rightarrow> string option" where
  "BACKUP_EVIDENCE [a, b, c, s] = segment [[], ''v1'', ''backup-evidence''] s [] [a, b, c, s]"
| "BACKUP_EVIDENCE _ = None"

fun APPROVAL_PATH :: "string list \<Rightarrow> (string \<times> bool) option" where
  "APPROVAL_PATH [a, b, c, s, operation] =
     (if operation \<in> {''begin'', ''complete''}
      then map_option (\<lambda>s. (s, operation = ''begin''))
             (segment [[], ''api'', ''approvals''] s [operation] [a, b, c, s, operation])
      else None)"
| "APPROVAL_PATH _ = None"

definition segments :: "string \<Rightarrow> string list" where
  "segments path = split_on (CHR ''/'') path"

section \<open>Routing\<close>

text \<open>\<open>parse_qs(query).get("approval_id", [None])[0]\<close>; \<open>parse_qs\<close> has no empty list of values.\<close>

definition query_approval_id :: "web_env \<Rightarrow> string \<Rightarrow> string option" where
  "query_approval_id web query =
     (case map_of (parse_qs web query) ''approval_id'' of
        None \<Rightarrow> None | Some [] \<Rightarrow> None | Some (v # _) \<Rightarrow> Some v)"

definition get_path ::
  "web_env \<Rightarrow> api_config \<Rightarrow> http_request \<Rightarrow> string \<Rightarrow> string \<Rightarrow> route" where
  "get_path web cfg req path query =
     (if path = ''/healthz''
      then Answer 200 (Health (ac_execution_enabled cfg) (ac_enabled_actions cfg))
      else if path \<in> {[], ''/'', ''/index.html''} then Answer 200 (Asset ''INDEX_HTML'')
      else if path = ''/static/app.css'' then Answer 200 (Asset ''APP_CSS'')
      else if path = ''/static/app.js'' then Answer 200 (Asset ''APP_JS'')
      else if path = ''/api/context''
      then with_manager cfg (ingress_user cfg False req (\<lambda>user_id.
             Call (Ingress_context (query_approval_id web query) user_id)))
      else (case INTERNAL_STATUS (segments path) of
          Some s \<Rightarrow> bearer_authorized (ac_api_token cfg) ''not_authorized'' req
                      (with_manager cfg (Call (Internal_status (unquote web s))))
        | None \<Rightarrow>
      (case EXECUTION_STATUS (segments path) of
          Some s \<Rightarrow> bearer_authorized (ac_api_token cfg) ''not_authorized'' req
                      (if ac_execution_status_handler cfg
                       then Call (Execution_status (unquote web s)) else not_found)
        | None \<Rightarrow>
      (case BACKUP_EVIDENCE (segments path) of
          Some s \<Rightarrow> bearer_authorized (ac_backup_evidence_api_token cfg)
                      ''backup_evidence_not_authorized'' req
                      (with_manager cfg (Call (Backup_evidence (unquote web s))))
        | None \<Rightarrow> not_found))))"

text \<open>The rest of \<open>do_POST\<close>: what only an Ingress user of an allowed origin can reach.\<close>

definition post_ingress ::
  "web_env \<Rightarrow> api_config \<Rightarrow> loads \<Rightarrow> http_request \<Rightarrow> string \<Rightarrow> route" where
  "post_ingress web cfg loads req path =
     with_manager cfg (ingress_user cfg True req (\<lambda>user_id. read_json cfg loads req (\<lambda>payload.
       if path = ''/api/passkeys/register/begin''
       then Call (Begin_registration user_id (get_field payload ''enrollment_token''))
       else if path = ''/api/passkeys/register/complete''
       then Call (Complete_registration user_id (get_field payload ''enrollment_token'')
                    (get_field payload ''flow_id'') (get_field payload ''response''))
       else (case APPROVAL_PATH (segments path) of
           Some (s, True) \<Rightarrow> Call (Begin_authorization (unquote web s) user_id)
         | Some (s, False) \<Rightarrow>
             Call (Complete_authorization (unquote web s) user_id
                     (get_field payload ''flow_id'') (get_field payload ''response''))
         | None \<Rightarrow> not_found))))"

definition post_path ::
  "web_env \<Rightarrow> api_config \<Rightarrow> loads \<Rightarrow> http_request \<Rightarrow> string \<Rightarrow> route" where
  "post_path web cfg loads req path =
     (let bearer = bearer_authorized (ac_api_token cfg) ''not_authorized'' req
      in if path = ''/v1/preflight''
         then bearer (read_json cfg loads req (\<lambda>payload. Call (Preflight (JObj payload))))
         else if path = ''/v1/proposals''
         then bearer (with_manager cfg (read_json cfg loads req (\<lambda>payload.
                Call (Create_proposal (JObj payload)))))
         else if path = ''/v1/backup-evidence''
         then bearer_authorized (ac_backup_evidence_api_token cfg)
                ''backup_evidence_not_authorized'' req
                (with_manager cfg (read_json cfg loads req (\<lambda>payload.
                   Call (Register_backup_evidence (JObj payload)))))
         else if path = ''/v1/authorization/requests''
         then bearer (with_manager cfg (read_json cfg loads req (\<lambda>payload.
                Call (Create_native_request (JObj payload)))))
         else if path = ''/v1/executions''
         then bearer (if \<not> ac_execution_handler cfg then not_found
                      else read_json cfg loads req (\<lambda>payload. Call (Execute (JObj payload))))
         else (case RECOVERY_RESOLUTION (segments path) of
             Some s \<Rightarrow> bearer_authorized (ac_recovery_api_token cfg) ''recovery_not_authorized'' req
                         (if \<not> ac_recovery_resolution_handler cfg then not_found
                          else read_json cfg loads req (\<lambda>payload.
                            Call (Resolve_recovery (unquote web s) (JObj payload))))
           | None \<Rightarrow> post_ingress web cfg loads req path))"

text \<open>\<open>http.server\<close> answers 501 to a method without a \<open>do_\<close> method.\<close>

definition route_request ::
  "pyenv \<Rightarrow> web_env \<Rightarrow> api_config \<Rightarrow> loads \<Rightarrow> http_request \<Rightarrow> route" where
  "route_request env web cfg loads req =
     (if ht_method req \<notin> {''GET'', ''POST''} then Answer 501 (Error_body ''unsupported_method'')
      else (case urlsplit env (ht_target req) of
          None \<Rightarrow> Raises ValueError
        | Some u \<Rightarrow>
            if ht_method req = ''GET'' then get_path web cfg req (url_path u) (url_query u)
            else post_path web cfg loads req (url_path u)))"

section \<open>The calls\<close>

record broker_config =
  bc_api :: api_config
  bc_manager :: manager_config
  bc_exec :: exec_config

text \<open>What a call reads from the outside: a token, the clock, the network, the execution lock.\<close>

record api_inputs =
  ai_token :: string
  ai_now1 :: int
  ai_now2 :: int
  ai_now3 :: int
  ai_response :: http_response
  ai_busy :: bool
  ai_exec :: exec_input

text \<open>
  What a call yields: the document or exception, \<open>None\<close> if the execution did not come to its end, the
  manager after it, and the restarts it posted.
\<close>

type_synonym call_result = "api_doc result option \<times> manager \<times> (string \<times> http_call) list"

definition made :: "('a \<Rightarrow> api_doc) \<Rightarrow> 'a result \<times> manager \<Rightarrow> call_result" where
  "made f rm = (Some (map_sum id f (fst rm)), snd rm, [])"

fun executed :: "exec_phase \<Rightarrow> api_doc result option" where
  "executed (Finished r) = Some (map_sum id (\<lambda>(d, replayed). Executed_doc d replayed) r)"
| "executed _ = None"

fun perform ::
  "pyenv \<Rightarrow> loads \<Rightarrow> broker_config \<Rightarrow> backend \<Rightarrow> api_inputs \<Rightarrow> api_call \<Rightarrow> manager \<Rightarrow> call_result" where
  "perform env loads cfg pb inp (Preflight payload) m =
     made Preflight_doc
       (Inr (preflight env loads (mc_trusted_owner_hashes (bc_manager cfg)) payload (ai_response inp)
               (ai_token inp) (ai_now1 inp) (ai_now2 inp)), m)"
| "perform env loads cfg pb inp (Ingress_context approval_id user_id) m =
     made Context_doc
       (ingress_context env (bc_manager cfg) approval_id (JStr user_id) (ai_now1 inp) m)"
| "perform env loads cfg pb inp (Internal_status approval_id) m =
     made (\<lambda>(q, r). Status_doc q r) (internal_status approval_id (ai_now1 inp) m)"
| "perform env loads cfg pb inp (Execution_status action_id) m =
     made Execution_doc (execution_status (mg_db m) action_id, m)"
| "perform env loads cfg pb inp (Backup_evidence logical_id) m =
     made Evidence_doc (manager_backup_evidence m logical_id, m)"
| "perform env loads cfg pb inp (Create_proposal payload) m =
     made Proposal_doc
       (create_proposal env (bc_manager cfg) loads payload (ai_response inp) (ai_token inp)
          (ai_now1 inp) (ai_now2 inp) m)"
| "perform env loads cfg pb inp (Register_backup_evidence payload) m =
     made Evidence_doc (manager_register_backup_evidence env payload (ai_now1 inp) m)"
| "perform env loads cfg pb inp (Create_native_request payload) m =
     made Request_doc (create_native_request payload (ai_token inp) (ai_now1 inp) m)"
| "perform env loads cfg pb inp (Execute payload) m =
     (let (phase, db, restarts) =
            execute env (bc_exec cfg) loads (ai_exec inp) (ai_busy inp) payload (mg_db m)
      in (executed phase, m\<lparr>mg_db := db\<rparr>, restarts))"
| "perform env loads cfg pb inp (Resolve_recovery action_id payload) m =
     made Execution_doc
       (on_store (manager_resolve_recovery action_id payload (ai_now1 inp)) m)"
| "perform env loads cfg pb inp (Begin_registration user_id token) m =
     made (\<lambda>(k, options). Registration_doc k options)
       (begin_registration env (bc_manager cfg) pb (JStr user_id) token (ai_token inp)
          (ai_now1 inp) (ai_now2 inp) m)"
| "perform env loads cfg pb inp (Complete_registration user_id token flow_id response) m =
     made Registered_doc
       (complete_registration env (bc_manager cfg) pb (JStr user_id) token flow_id response
          (ai_now1 inp) (ai_now2 inp) m)"
| "perform env loads cfg pb inp (Begin_authorization approval_id user_id) m =
     made (\<lambda>(k, options, h). Challenge_doc k options h)
       (begin_authorization env (bc_manager cfg) pb approval_id (JStr user_id) (ai_token inp)
          (ai_now1 inp) (ai_now2 inp) (ai_now3 inp) m)"
| "perform env loads cfg pb inp (Complete_authorization approval_id user_id flow_id response) m =
     made Receipt_doc
       (complete_authorization env pb approval_id (JStr user_id) flow_id response (ai_token inp)
          (ai_now1 inp) (ai_now2 inp) (ai_now3 inp) m)"

section \<open>From the request to the reply\<close>

definition AUTHORIZATION_STATUS :: "(string \<times> nat) list" where
  "AUTHORIZATION_STATUS =
     [(''approval_not_found'', 404), (''approval_expired'', 410), (''challenge_expired'', 410),
      (''action_conflict'', 409), (''idempotency_conflict'', 409), (''execution_conflict'', 409),
      (''execution_state_conflict'', 409), (''unresolved_recovery'', 409),
      (''lease_recovery_required'', 409), (''recovery_not_required'', 409),
      (''recovery_already_resolved'', 409), (''receipt_consumed'', 409),
      (''approval_not_pending'', 409), (''passkey_already_enrolled'', 409),
      (''challenge_limit'', 429), (''execution_busy'', 429), (''passkey_limit'', 429),
      (''enrollment_denied'', 403), (''enrollment_disabled'', 403), (''ingress_user_required'', 401),
      (''proposal_not_found'', 404), (''receipt_not_found'', 404),
      (''backup_evidence_not_found'', 404), (''execution_not_found'', 404),
      (''proposal_expired'', 410), (''receipt_expired'', 410), (''backup_evidence_expired'', 410),
      (''backup_evidence_conflict'', 409)]"

definition authorization_status :: "string \<Rightarrow> nat" where
  "authorization_status code =
     (case map_of AUTHORIZATION_STATUS code of None \<Rightarrow> 400 | Some status \<Rightarrow> status)"

text \<open>A reply, a connection that an exception ended, or a request that is never answered.\<close>

datatype reply = Reply nat api_body | Aborted exn | Unanswered

fun authorization_call :: "api_doc result option \<Rightarrow> reply" where
  "authorization_call None = Unanswered"
| "authorization_call (Some (Inr d)) = Reply 200 (Payload d)"
| "authorization_call (Some (Inl (AuthorizationError code))) =
     Reply (authorization_status code) (Error_body code)"
| "authorization_call (Some (Inl _)) = Reply 500 (Error_body ''internal_error'')"

fun answer_route ::
  "pyenv \<Rightarrow> loads \<Rightarrow> broker_config \<Rightarrow> backend \<Rightarrow> api_inputs \<Rightarrow> route \<Rightarrow> manager
     \<Rightarrow> reply \<times> manager \<times> (string \<times> http_call) list" where
  "answer_route env loads cfg pb inp (Answer status body) m = (Reply status body, m, [])"
| "answer_route env loads cfg pb inp (Raises e) m = (Aborted e, m, [])"
| "answer_route env loads cfg pb inp (Call c) m =
     (let (r, m', restarts) = perform env loads cfg pb inp c m
      in (authorization_call r, m', restarts))"

definition handle ::
  "pyenv \<Rightarrow> web_env \<Rightarrow> loads \<Rightarrow> broker_config \<Rightarrow> backend \<Rightarrow> api_inputs \<Rightarrow> http_request \<Rightarrow> manager
     \<Rightarrow> reply \<times> manager \<times> (string \<times> http_call) list" where
  "handle env web loads cfg pb inp req m =
     answer_route env loads cfg pb inp (route_request env web (bc_api cfg) loads req) m"

end
