(* ===== verification/Example_Runtime.thy ===== *)
theory Example_Runtime
  imports Calendar
begin

text \<open>
  A concrete runtime for the witnesses: its digest is constant and its clock texts are one letter.
  No theorem depends on it.
\<close>

definition hash64 :: "char \<Rightarrow> string" where
  "hash64 c = replicate 64 c"

definition sha :: "char \<Rightarrow> string" where
  "sha c = ''sha256:'' @ hash64 c"

definition env0 :: pyenv where
  "env0 = \<lparr>sha256_hex = (\<lambda>_. hash64 (CHR ''a'')),
     fromisoformat = (\<lambda>s. if s = ''A'' then IsoAware 0 else if s = ''Z'' then IsoAware 900000000
                          else IsoInvalid),
     urlsplit = (\<lambda>s. Some \<lparr>url_scheme = [], url_hostname = [], url_username = [],
       url_password = [], url_path = s, url_query = [], url_fragment = []\<rparr>), uni_alnum = (\<lambda>_. False), float_repr = (\<lambda>_. ''0.0'')\<rparr>"

lemma env0_hash [simp]: "sha256_text env0 s = hash64 (CHR ''a'')" "sha256_hex env0 s = hash64 (CHR ''a'')"
  by (simp_all add: sha256_text_def env0_def)

lemma env0_times [simp]:
  "parse_timestamp env0 (JStr ''A'') = Inr 0" "parse_timestamp env0 (JStr ''Z'') = Inr 900000000"
  by (code_simp, code_simp)

lemma sha_re [simp]:
  "SHA256_RE (sha (CHR ''a''))" "SHA256_RE (sha (CHR ''c''))"
  by (code_simp, code_simp)

lemma fingerprint0 [simp]: "allowlist_fingerprint env0 S = sha (CHR ''a'')"
  by (simp add: allowlist_fingerprint_def sha_def)

end
