(* ===== verification/Auth_Example.thy ===== *)
theory Auth_Example
  imports Auth_System Example_Runtime
begin

text \<open>
  One concrete run of the authorization store, used by the witnesses: evidence is registered, a
  proposal for the add-on \<open>demo\<close> is created, requested, authorized by a passkey and claimed.
\<close>

definition policy0 :: policy where
  "policy0 = \<lparr>policy_epoch = 1, policy_hash = sha (CHR ''a''),
     adapter_version = ''manager-restart-v1'', adapter_schema_version = 1\<rparr>"

definition evidence_json0 :: json where
  "evidence_json0 = JObj
     [(''version'', JInt 1), (''scope'', JStr ''addon''), (''logical_id'', JStr ''backup-0001''),
      (''completed'', JBool True), (''created_at'', JStr ''A''), (''size'', JInt 42),
      (''sha256'', JStr (sha (CHR ''a''))), (''off_device_sha256'', JStr (sha (CHR ''a''))),
      (''readable'', JBool True), (''baseline'', JStr (sha (CHR ''a''))),
      (''expires_at'', JStr ''Z'')]"

definition intent_json0 :: json where
  "intent_json0 = JObj
     [(''version'', JInt 1), (''action_type'', JStr ''restart_addon''), (''target'', JStr ''demo''),
      (''idempotency_key'', JStr (sha (CHR ''c'')))]"

definition evidence0 :: evidence where
  "evidence0 = \<lparr>be_scope = ''addon'', be_logical_id = ''backup-0001'', be_completed = True,
     be_created_at = 0, be_size = 42, be_sha256 = sha (CHR ''a''),
     be_off_device_sha256 = sha (CHR ''a''), be_readable = True, be_baseline = sha (CHR ''a''),
     be_expires_at = 900000000\<rparr>"

lemma evidence_id0 [simp]: "evidence_id_ok env0 (JStr ''backup-0001'')"
  by code_simp

lemma evidence0_valid: "validate_backup_evidence env0 evidence_json0 1000000 = Inr evidence0"
  by (simp add: validate_backup_evidence_def evidence_json0_def BACKUP_EVIDENCE_FIELDS_def
      keys_of_def get_field_def in_string_set_def BACKUP_EVIDENCE_SCOPES_def evidence_size_ok_def
      is_sha256_def str_of_def int_of_json_def evidence0_def whole_second_def)

definition intent0 :: native_intent where
  "intent0 = \<lparr>ni_action_type = ''restart_addon'', ni_target = ''demo'',
     ni_idempotency_key = sha (CHR ''c'')\<rparr>"

lemma slug0 [simp]: "ADDON_SLUG_RE ''demo''"
  by code_simp

lemma intent0_valid: "validate_native_intent intent_json0 {''demo''} = Inr intent0"
  by (simp add: validate_native_intent_def intent_json0_def keys_of_def get_field_def
      NATIVE_INTENT_FIELDS_def str_matches_def str_of_def intent0_def)

section \<open>The run\<close>

definition db1 :: auth_db where
  "db1 = empty_db\<lparr>backup_evidence := [evidence_of_row evidence0 1000000]\<rparr>"

lemma db1_step: "snd (register_backup_evidence env0 evidence_json0 1000000 empty_db) = db1"
  by (simp add: register_backup_evidence_def evidence0_valid transaction_def empty_db_def db1_def
      insert_row_def iso_timestamp_def whole_second_def)

definition action0 :: string where
  "action0 = ''OPS-19700101-0123456789AB''"

definition proposal0 :: proposal where
  "proposal0 = \<lparr>pr_action_id = action0, pr_idempotency_key = sha (CHR ''c''),
     pr_action_type = ''restart_addon'', pr_target = ''demo'', pr_proposal_hash = sha (CHR ''a''),
     pr_risk_level = ''L3'', pr_requires_backup = True,
     pr_parameter_summary = JObj [(''idempotency_key'', JStr (sha (CHR ''c'')))],
     pr_expected_change = EXPECTED_CHANGE, pr_validation_plan = VALIDATION_PLAN,
     pr_rollback_plan = ROLLBACK_PLAN, pr_created_at = 2000000, pr_expires_at = 602000000,
     pr_version = 2,
     pr_binding = policy_binding policy0 (sha (CHR ''a'')) (sha (CHR ''a'')) (Some ''backup-0001'')\<rparr>"

lemma ymd0: "ymd_text 2000000 = ''19700101''"
  by code_simp

lemma proposal0_eq:
  "native_proposal_row env0 ''0123456789AB'' intent0 policy0 (sha (CHR ''a'')) (sha (CHR ''a''))
     ''backup-0001'' 2000000 602000000 = proposal0"
  by (simp add: native_proposal_row_def proposal0_def Let_def action0_def native_proposal_hash_def
      intent0_def iso_timestamp_def whole_second_def ymd0 sha_def)

lemma evidence_selected0:
  "select_backup_evidence db1 [''addon'', ''full''] (sha (CHR ''a'')) 2000000 602000000 = Inr evidence0"
  by (simp add: select_backup_evidence_def db1_def evidence_candidate_def
      assert_backup_evidence_row_def iso_timestamp_def whole_second_def evidence0_def
      backup_evidence_document_def evidence_of_row_def evidence.defs evidence_row.defs empty_db_def)

definition db2 :: auth_db where
  "db2 = db1\<lparr>proposals := [proposal0]\<rparr>"

lemma db2_step:
  "create_native_proposal env0 intent_json0 {''demo''} policy0 (sha (CHR ''a'')) ''0123456789AB''
     2000000 600 db1 = (Inr (proposal_document_of proposal0 2000000), db2)"
  using proposal0_eq evidence_selected0
  by (simp add: create_native_proposal_def intent0_valid seconds_def Let_def evidence0_def
      transaction_def insert_native_proposal_def existing_native_proposal_def db1_def db2_def
      empty_db_def insert_row_def)

definition request0 :: request where
  "request0 = request_of_proposal proposal0 ''AUTH-01'' 3000000"

definition db3 :: auth_db where
  "db3 = db2\<lparr>requests := [request0]\<rparr>"

definition authorization_json0 :: json where
  "authorization_json0 = JObj [(''version'', JInt 1), (''action_id'', JStr action0)]"

lemma action0_re [simp]: "ACTION_ID_RE action0"
  by code_simp

lemma db3_step:
  "create_request_from_native_proposal authorization_json0 ''01'' 3000000 db2
     = (Inr (request_document_of request0), db3)"
  by (simp add: create_request_from_native_proposal_def validate_native_authorization_request_def
      authorization_json0_def keys_of_def NATIVE_AUTHORIZATION_REQUEST_FIELDS_def get_field_def
      str_matches_def str_of_def transaction_def db2_def db1_def empty_db_def insert_request_def
      db3_def insert_row_def request0_def proposal0_def)

definition rtoken0 :: string where
  "rtoken0 = replicate 32 (CHR ''A'')"

definition receipt_id0 :: string where
  "receipt_id0 = ''RCPT-'' @ rtoken0"

lemma receipt_id0_fold [simp]:
  "CHR ''R'' # CHR ''C'' # CHR ''P'' # CHR ''T'' # CHR ''-'' # rtoken0 = receipt_id0"
  by (simp add: receipt_id0_def)

lemma receipt_id0_other [simp]: "receipt_id0 \<noteq> ''other''" "''other'' \<noteq> receipt_id0"
  by (simp_all add: receipt_id0_def del: receipt_id0_fold)

lemma receipt_id0_re [simp]: "RECEIPT_ID_RE receipt_id0"
  by code_simp

definition receipt0 :: receipt where
  "receipt0 = receipt_of_request env0 request0 receipt_id0 ''user'' ''cred'' 4000000"

definition db4 :: auth_db where
  "db4 = db3\<lparr>receipts := [receipt0], requests := [request0\<lparr>rq_state := Authorized\<rparr>]\<rparr>"

lemma request0_simps [simp]:
  "rq_approval_id request0 = ''AUTH-01''" "rq_action_id request0 = action0"
  "rq_state request0 = Pending" "rq_expires_at request0 = 602000000"
  "rq_proposal_hash request0 = sha (CHR ''a'')" "rq_proposal_origin request0 = Broker_native"
  "rq_version request0 = 2" "rq_binding request0 = pr_binding proposal0"
  by (simp_all add: request0_def request_of_proposal_def proposal0_def)

lemma db4_step:
  "authorize env0 ''AUTH-01'' (sha (CHR ''a'')) ''user'' ''cred'' rtoken0 4000000 db3
     = (Inr (receipt_document_of receipt0), db4)"
  by (simp add: authorize_def transaction_def db4_def db3_def db2_def db1_def empty_db_def Let_def
      receipt0_def insert_row_def)

definition claim0 :: claim where
  "claim0 = \<lparr>cl_receipt_id = receipt_id0, cl_action_id = action0,
     cl_proposal_hash = sha (CHR ''a''), cl_idempotency_key = sha (CHR ''c''),
     cl_policy = policy0, cl_allowlist_hash = sha (CHR ''a''), cl_baseline_etag = sha (CHR ''a''),
     cl_backup_evidence_id = Some ''backup-0001'', cl_instance_id = ''BROKER-1'',
     cl_lease_ttl_seconds = 30\<rparr>"

definition execution0 :: execution where
  "execution0 = claimed_execution claim0 proposal0 5000000 1"

definition lease1 :: lease where
  "lease1 = claimed_lease claim0 ''1'' SINGLETON_RESOURCE 1 5000000 35000000"

definition lease2 :: lease where
  "lease2 = claimed_lease claim0 ''2'' (addon_resource ''demo'') 1 5000000 35000000"

definition db5 :: auth_db where
  "db5 = db4\<lparr>receipts := [receipt0\<lparr>rc_consumed_at := Some 5000000\<rparr>],
             executions := [execution0], leases := [lease1, lease2]\<rparr>"

lemma receipt0_simps [simp]:
  "rc_receipt_id receipt0 = receipt_id0" "rc_approval_id receipt0 = ''AUTH-01''"
  "rc_action_id receipt0 = action0" "rc_proposal_hash receipt0 = sha (CHR ''a'')"
  "rc_assurance receipt0 = ''passkey_verified''" "rc_consumed_at receipt0 = None"
  "rc_expires_at receipt0 = 602000000" "rc_version receipt0 = 2"
  "rc_binding receipt0 = pr_binding proposal0"
  by (simp_all add: receipt0_def receipt_of_request_def)

lemma proposal0_simps [simp]:
  "pr_action_id proposal0 = action0" "pr_idempotency_key proposal0 = sha (CHR ''c'')"
  "pr_target proposal0 = ''demo''" "pr_version proposal0 = 2"
  "pr_proposal_hash proposal0 = sha (CHR ''a'')" "pr_action_type proposal0 = ''restart_addon''"
  "pr_expires_at proposal0 = 602000000"
  by (simp_all add: proposal0_def)

lemma claim_binding0: "claim_binding claim0 = pr_binding proposal0"
  by (simp add: claim_binding_def claim0_def proposal0_def)

lemma claim_evidence0: "claim_evidence db4 claim0 receipt0 5000000 = Inr ()"
  by (simp add: claim_evidence_def claim0_def db4_def db3_def db2_def db1_def
      assert_backup_evidence_row_def evidence0_def)

lemma claim_checks0:
  "claim_checks db4 claim0 receipt0 (request0\<lparr>rq_state := Authorized\<rparr>) proposal0 5000000 = Inr ()"
  using claim_evidence0
  by (simp add: claim_checks_def claim_binding0 binding_drift_def)
    (simp add: claim0_def)

lemma db5_step:
  "claim_execution claim0 (''1'', ''2'') 5000000 db4
     = (Inr (execution_document_of execution0, False), db5)"
proof -
  have join: "select_receipt_join db4 receipt_id0
      = Some (receipt0, request0\<lparr>rq_state := Authorized\<rparr>, proposal0)"
    by (simp add: select_receipt_join_def db4_def db3_def db2_def)
  have free: "executions db4 = []" "leases db4 = []" "receipts db4 = [receipt0]"
    by (simp_all add: db4_def db3_def db2_def db1_def empty_db_def)
  have commit: "claim_commit claim0 proposal0 (''1'', ''2'') 5000000 db4
      = (Inr (Claimed (execution_document_of execution0) False), db5)"
    using resources_differ [of "''demo''"]
    by (simp add: claim_commit_def free rowcount_def claim0_def Let_def next_epoch_def max_epoch_def
        insert_lease_def claimed_lease_def claimed_execution_def insert_row_def
        iso_timestamp_def whole_second_def seconds_def db5_def execution0_def lease1_def
        lease2_def)
  have body: "claim_body claim0 (''1'', ''2'') 5000000 db4
      = (Inr (Claimed (execution_document_of execution0) False), db5)"
    using claim_checks0 join commit by (simp add: claim_body_def free claim0_def)
  show ?thesis by (simp add: claim_execution_def transaction_def body)
qed

section \<open>Its states are reachable\<close>

lemma reachable_db2: "reachable_store env0 db2"
proof -
  have "reachable_store env0 db1"
    using reachable_store_step [OF reachable_store_start auth_step.register_evidence] db1_step
    by metis
  from reachable_store_step [OF this auth_step.create_proposal] db2_step show ?thesis
    by (metis snd_conv)
qed

lemma reachable_db4: "reachable_store env0 db4"
proof -
  from reachable_store_step [OF reachable_db2 auth_step.create_native] db3_step
  have "reachable_store env0 db3" by (metis snd_conv)
  from reachable_store_step [OF this auth_step.authorize] db4_step show ?thesis
    by (metis snd_conv)
qed

lemma reachable_db3: "reachable_store env0 db3"
  using reachable_store_step [OF reachable_db2 auth_step.create_native] db3_step
  by (metis snd_conv)

lemma reachable_db5: "reachable_store env0 db5"
  using reachable_store_step [OF reachable_db4 auth_step.claim] db5_step by (metis snd_conv)

lemma execution0_simps [simp]:
  "ex_action_id execution0 = action0" "ex_state execution0 = Ex_authorized"
  "ex_receipt_id execution0 = receipt_id0" "ex_target execution0 = ''demo''"
  "ex_recovery_resolution execution0 = None" "ex_proposal_hash execution0 = sha (CHR ''a'')"
  "ex_idempotency_key execution0 = sha (CHR ''c'')" "ex_finished_at execution0 = None"
  by (simp_all add: execution0_def claimed_execution_def claim0_def)

lemma lease0_simps [simp]:
  "ls_action_id lease1 = action0" "ls_action_id lease2 = action0"
  "ls_state lease1 = Ls_active" "ls_state lease2 = Ls_active"
  "ls_expires_at lease1 = 35000000" "ls_expires_at lease2 = 35000000"
  "ls_created_at lease1 = 5000000" "ls_created_at lease2 = 5000000"
  "ls_instance_id lease1 = ''BROKER-1''" "ls_instance_id lease2 = ''BROKER-1''"
  by (simp_all add: lease1_def lease2_def claimed_lease_def claim0_def)

lemma db5_tables [simp]:
  "executions db5 = [execution0]" "leases db5 = [lease1, lease2]"
  "receipts db5 = [receipt0\<lparr>rc_consumed_at := Some 5000000\<rparr>]"
  by (simp_all add: db5_def)

end
