(* ===== verification/Execution_Example.thy ===== *)
theory Execution_Example
  imports Execution_Manager Auth_Example
begin

text \<open>
  One concrete execution, from the request to the verified restart, continuing the run of
  \<open>Auth_Example\<close>.  The Supervisor answers every call with the same running add-on.
\<close>

section \<open>Configuration, inputs and answers\<close>

definition exec_config0 :: exec_config where
  "exec_config0 = \<lparr>xc_execution_enabled = True, xc_enabled_actions = {''restart_addon''},
     xc_restart_addon_allowlist = {''demo''}, xc_policy = policy0, xc_manager_shadow = False,
     xc_instance_id = ''BROKER-1'', xc_lease_ttl_seconds = 30\<rparr>"

definition addon0 :: doc where
  "addon0 = [(''slug'', JStr ''demo''), (''state'', JStr ''started''), (''version'', JStr ''1.0'')]"

definition input0 :: exec_input where
  "input0 = \<lparr>xi_now_proposal = 5000000, xi_now_evidence = 5000000, xi_now_claim = 5000000,
     xi_now_start = 5000000, xi_now_beat1 = 5000000, xi_now_restarted = 6000000,
     xi_now_beat2 = 6000000, xi_now_final = 7000000, xi_tokens = (''1'', ''2''),
     xi_before = Body ''x'', xi_shadow = Unreachable, xi_revalidated = Body ''x'',
     xi_restart = Body ''x'', xi_after = Body ''x''\<rparr>"

definition execution_json0 :: json where
  "execution_json0 = JObj
     [(''version'', JInt 1), (''action_id'', JStr action0), (''receipt_id'', JStr receipt_id0),
      (''proposal_hash'', JStr (sha (CHR ''a''))), (''idempotency_key'', JStr (sha (CHR ''c'')))]"

text \<open>The body \<open>q\<close> of a request is the execution request, any other body the Supervisor's answer.\<close>

definition loads0 :: loads where
  "loads0 s = (if s = ''q'' then Some execution_json0
     else Some (JObj [(''result'', JStr ''ok''), (''data'', JObj addon0)]))"

definition execution_request0 :: execution_request where
  "execution_request0 = \<lparr>er_action_id = action0, er_receipt_id = receipt_id0,
     er_proposal_hash = sha (CHR ''a''), er_idempotency_key = sha (CHR ''c'')\<rparr>"

definition observation0 :: doc where
  "observation0 = addon0 @ [(''installed'', JBool True)]"

definition plan0 :: plan where
  "plan0 = \<lparr>pl_request = execution_request0, pl_proposal = proposal0, pl_before = observation0,
     pl_baseline = sha (CHR ''a'')\<rparr>"

section \<open>The checks pass\<close>

lemma read_x:
  "read_bounded ''x'' = ''x''" "\<not> length (read_bounded ''x'') > MAX_RESPONSE_BYTES"
  by (simp_all add: read_bounded_def) (simp add: MAX_RESPONSE_BYTES_def)

lemma loads0_x:
  "loads0 (read_bounded ''x'') = Some (JObj [(''result'', JStr ''ok''), (''data'', JObj addon0)])"
  by (simp add: loads0_def read_x(1))

lemma supervisor_get0: "supervisor_get loads0 (Body ''x'') = Inr addon0"
proof -
  have "get_field [(''result'', JStr ''ok''), (''data'', JObj addon0)] ''result'' = JStr ''ok''"
    "get_field [(''result'', JStr ''ok''), (''data'', JObj addon0)] ''data'' = JObj addon0"
    by (simp_all add: get_field_def)
  with read_x(2) show ?thesis by (simp add: supervisor_get_def loads0_x)
qed

lemma selected0: "fill_installed (select_fields addon0 ADDON_INFO_FIELDS) = observation0"
  by code_simp

lemma addon_info0: "addon_info loads0 ''demo'' (Body ''x'') = Inr observation0"
  by (simp add: addon_info_def supervisor_get0 selected0)

lemma observation0_simps [simp]:
  "get_field observation0 ''slug'' = JStr ''demo''"
  "get_field observation0 ''state'' = JStr ''started''"
  "get_field observation0 ''version'' = JStr ''1.0''"
  "get_field observation0 ''installed'' = JBool True"
  by (simp_all add: observation0_def addon0_def get_field_def)

lemma baseline0: "addon_baseline_etag env0 (JObj observation0) = Inr (sha (CHR ''a''))"
  by (simp add: broker_baseline_of_object nonempty_str_def is_bool_def sha256_document_def sha_def)

lemma restart0: "restart_addon loads0 ''demo'' (Body ''x'') = Inr ()"
  unfolding restart_addon_def http_response.case
  using read_x(2) by (simp add: loads0_x get_field_def)

lemma request_valid0: "validate_execution_request execution_json0 = Inr execution_request0"
  by (simp add: validate_execution_request_def execution_json0_def keys_of_def get_field_def
      EXECUTION_REQUEST_FIELDS_def str_matches_def str_of_def execution_request0_def insert_commute)

lemma config0_simps [simp]:
  "xc_execution_enabled exec_config0" "xc_enabled_actions exec_config0 = {''restart_addon''}"
  "xc_restart_addon_allowlist exec_config0 = {''demo''}" "xc_policy exec_config0 = policy0"
  "\<not> xc_manager_shadow exec_config0" "xc_instance_id exec_config0 = ''BROKER-1''"
  "xc_lease_ttl_seconds exec_config0 = 30"
  by (simp_all add: exec_config0_def)

lemma input0_simps [simp]:
  "xi_now_proposal input0 = 5000000" "xi_now_evidence input0 = 5000000"
  "xi_now_claim input0 = 5000000" "xi_now_start input0 = 5000000"
  "xi_now_beat1 input0 = 5000000" "xi_now_restarted input0 = 6000000"
  "xi_now_beat2 input0 = 6000000" "xi_now_final input0 = 7000000"
  "xi_tokens input0 = (''1'', ''2'')" "xi_before input0 = Body ''x''"
  "xi_revalidated input0 = Body ''x''" "xi_restart input0 = Body ''x''"
  "xi_after input0 = Body ''x''"
  by (simp_all add: input0_def)

lemma binding0_simps [simp]:
  "pr_binding proposal0 = policy_binding policy0 (sha (CHR ''a'')) (sha (CHR ''a''))
     (Some ''backup-0001'')"
  "ex_binding execution0 = policy_binding policy0 (sha (CHR ''a'')) (sha (CHR ''a''))
     (Some ''backup-0001'')"
  by (simp_all add: proposal0_def execution0_def claimed_execution_def claim_binding_def claim0_def)

lemma request0_fields [simp]:
  "er_action_id execution_request0 = action0" "er_receipt_id execution_request0 = receipt_id0"
  "er_proposal_hash execution_request0 = sha (CHR ''a'')"
  "er_idempotency_key execution_request0 = sha (CHR ''c'')"
  by (simp_all add: execution_request0_def)

lemma proposals_db4 [simp]: "proposals db4 = [proposal0]" "executions db4 = []"
  "backup_evidence db4 = [evidence_of_row evidence0 1000000]"
  by (simp_all add: db4_def db3_def db2_def db1_def empty_db_def)

lemma check_proposal0:
  "check_proposal env0 exec_config0 execution_request0 5000000 db4 = Inr proposal0"
  by (simp add: check_proposal_def get_native_proposal_def proposal_document_of_def Let_def
      runtime_drift_def policy_binding_def)

lemma check_store0: "check_store proposal0 5000000 db4 = Inr ()"
  by (simp add: check_store_def assert_execution_interlock_clear_def policy_binding_def opt_text_def
      assert_backup_evidence_valid_def assert_backup_evidence_row_def evidence0_def)

lemma restartable0: "restartable ''demo'' observation0"
  by (simp add: restartable_def)

lemma check_addon0:
  "check_addon env0 loads0 proposal0 (Body ''x'') = Inr (observation0, sha (CHR ''a''))"
  by (simp add: check_addon_def addon_info0 baseline0 restartable0 policy_binding_def)

lemma prepare0: "prepare env0 exec_config0 loads0 input0 False execution_json0 db4 = At_claim plan0"
  by (simp add: prepare_def admit_def request_valid0 plan_or_replay_def check_proposal0
      check_replay_def get_execution_def check_store0 check_addon0 plan0_def)

section \<open>The phases\<close>

definition db_started :: auth_db where
  "db_started = snd (update_execution action0 (started_update observation0) 5000000 db5)"

lemma claim_of0: "claim_of env0 exec_config0 plan0 = claim0"
  by (simp add: claim_of_def plan0_def claim0_def policy_binding_def)

lemma phase_claim0:
  "exec_step env0 exec_config0 loads0 input0 (At_claim plan0) db4
     = (At_revalidate plan0 execution0, db5)"
  by (simp add: step_claim_def claim_of0 db5_step execution_document_of_def)

definition execution_started :: execution where
  "execution_started = apply_update (started_update observation0) 5000000 execution0"

lemma execution_started_simps [simp]:
  "ex_action_id execution_started = action0" "ex_state execution_started = Ex_executing"
  "ex_target execution_started = ''demo''" "ex_receipt_id execution_started = receipt_id0"
  by (simp_all add: execution_started_def apply_update_def started_update_def)

lemma db_started_eq:
  "update_execution action0 (started_update observation0) 5000000 db5
     = (Inr (execution_document_of execution_started), db_started)"
  "executions db_started = [execution_started]" "leases db_started = [lease1, lease2]"
  "receipts db_started = receipts db5"
  by (simp_all add: db_started_def update_execution_def transaction_def iso_timestamp_def
      whole_second_def execution_started_def started_update_def)

lemma phase_revalidate0:
  "exec_step env0 exec_config0 loads0 input0 (At_revalidate plan0 execution0) db5
     = (At_beat1 plan0 action0 ''demo'', db_started)"
proof -
  have "ex_action_type execution0 = ''restart_addon''"
    by (simp add: execution0_def claimed_execution_def)
  then show ?thesis
    by (simp add: step_revalidate_def Let_def addon_info0 baseline0 restartable0 continue_with_def
        db_started_eq(1) policy_binding_def)
qed

definition db_beaten :: auth_db where
  "db_beaten = snd (heartbeat_execution_leases action0 ''BROKER-1'' 5000000 30 db_started)"

lemma beat0:
  "heartbeat_execution_leases action0 ''BROKER-1'' 5000000 30 db_started = (Inr (), db_beaten)"
  "executions db_beaten = [execution_started]"
  "leases db_beaten = [lease1\<lparr>ls_heartbeat_at := 5000000, ls_expires_at := 35000000\<rparr>,
     lease2\<lparr>ls_heartbeat_at := 5000000, ls_expires_at := 35000000\<rparr>]"
  by (simp_all add: db_beaten_def heartbeat_execution_leases_def transaction_def Let_def
      db_started_eq iso_timestamp_def whole_second_def seconds_def)

lemma phase_beat0:
  "exec_step env0 exec_config0 loads0 input0 (At_beat1 plan0 action0 ''demo'') db_started
     = (At_restart plan0 action0 ''demo'', db_beaten)"
  by (simp add: beat_with_def beat0(1))

lemma phase_restart0:
  "exec_step env0 exec_config0 loads0 input0 (At_restart plan0 action0 ''demo'') db_beaten
     = (At_restarted plan0 action0 ''demo'' (Inr ()), db_beaten)"
  "phase_restarts (At_restart plan0 action0 ''demo'')
     = [(action0, Http_post ''/addons/demo/restart'')]"
  by (simp_all add: restart0 restart_addon_calls_def restart_path_def)

definition execution_verifying :: execution where
  "execution_verifying = apply_update verifying_update 6000000 execution_started"

definition db_verifying :: auth_db where
  "db_verifying = snd (update_execution action0 verifying_update 6000000 db_beaten)"

lemma execution_verifying_simps [simp]:
  "ex_action_id execution_verifying = action0" "ex_state execution_verifying = Ex_verifying"
  by (simp_all add: execution_verifying_def apply_update_def verifying_update_def)

lemma db_verifying_eq:
  "update_execution action0 verifying_update 6000000 db_beaten
     = (Inr (execution_document_of execution_verifying), db_verifying)"
  "executions db_verifying = [execution_verifying]" "leases db_verifying = leases db_beaten"
  by (simp_all add: db_verifying_def update_execution_def transaction_def iso_timestamp_def
      whole_second_def execution_verifying_def verifying_update_def beat0)

lemma phase_restarted0:
  "exec_step env0 exec_config0 loads0 input0 (At_restarted plan0 action0 ''demo'' (Inr ())) db_beaten
     = (At_beat2 plan0 action0 ''demo'', db_verifying)"
  by (simp add: step_restarted_def continue_with_def db_verifying_eq(1))

definition db_beaten2 :: auth_db where
  "db_beaten2 = snd (heartbeat_execution_leases action0 ''BROKER-1'' 6000000 30 db_verifying)"

lemma phase_beat20:
  "exec_step env0 exec_config0 loads0 input0 (At_beat2 plan0 action0 ''demo'') db_verifying
     = (At_after plan0 action0 ''demo'', db_beaten2)"
  "executions db_beaten2 = [execution_verifying]"
  by (simp_all add: beat_with_def db_beaten2_def heartbeat_execution_leases_def transaction_def
      Let_def db_verifying_eq beat0(3))

definition execution_done :: execution where
  "execution_done = apply_update (final_update True observation0) 7000000 execution_verifying"

definition db_done :: auth_db where
  "db_done = snd (update_execution action0 (final_update True observation0) 7000000 db_beaten2)"

lemma phase_after0:
  "exec_step env0 exec_config0 loads0 input0 (At_after plan0 action0 ''demo'') db_beaten2
     = (Finished (Inr (execution_document_of execution_done, False)), db_done)"
  by (simp add: step_after_def addon_info0 finish_with_def db_done_def update_execution_def
      transaction_def iso_timestamp_def whole_second_def execution_done_def final_update_def
      plan0_def phase_beat20(2))

lemma execution_done_simps [simp]:
  "ex_action_id execution_done = action0" "ex_state execution_done = Ex_succeeded"
  by (simp_all add: execution_done_def apply_update_def final_update_def execution_verifying_def)

section \<open>The whole call\<close>

lemmas run0 = phase_claim0 phase_revalidate0 phase_beat0 phase_restart0(1) phase_restarted0
  phase_beat20(1) phase_after0

lemma execute0:
  "execute env0 exec_config0 loads0 input0 False execution_json0 db4
     = (Finished (Inr (execution_document_of execution_done, False)), db_done,
        [(action0, Http_post ''/addons/demo/restart'')])"
proof -
  have seven: "EXEC_FUEL = Suc (Suc (Suc (Suc (Suc (Suc (Suc 0))))))"
    by (simp add: EXEC_FUEL_def)
  show ?thesis
    unfolding execute_def prepare0 seven
    by (simp del: exec_step.simps phase_restarts.simps(1)
        add: run0 phase_restart0(2) split_beta)
qed

end
