(* ===== verification/Auth_History.thy ===== *)
theory Auth_History
  imports Auth_System
begin

text \<open>
  How the rows of the store change over one step: an execution follows its lifecycle and keeps its
  identity, proposals and backup evidence are never changed or removed, a request only leaves
  \<open>pending\<close>, a receipt is only ever consumed, once.
\<close>

section \<open>Executions\<close>

text \<open>The edges of an execution's life; failed, succeeded and recovery_required have no successor.\<close>

definition lifecycle :: "(exec_state \<times> exec_state) set" where
  "lifecycle =
     {(Ex_authorized, Ex_failed), (Ex_authorized, Ex_executing), (Ex_authorized, Ex_recovery_required),
      (Ex_executing, Ex_verifying), (Ex_executing, Ex_recovery_required),
      (Ex_verifying, Ex_succeeded), (Ex_verifying, Ex_recovery_required)}"

definition same_identity :: "execution \<Rightarrow> execution \<Rightarrow> bool" where
  "same_identity x y \<longleftrightarrow>
     ex_action_id y = ex_action_id x \<and> ex_receipt_id y = ex_receipt_id x \<and>
     ex_proposal_hash y = ex_proposal_hash x \<and> ex_idempotency_key y = ex_idempotency_key x \<and>
     ex_action_type y = ex_action_type x \<and> ex_target y = ex_target x \<and>
     ex_binding y = ex_binding x \<and> ex_version y = ex_version x \<and>
     ex_started_at y = ex_started_at x \<and> ex_lease_epoch y = ex_lease_epoch x"

definition exec_advance :: "execution \<Rightarrow> execution \<Rightarrow> bool" where
  "exec_advance x y \<longleftrightarrow>
     same_identity x y \<and>
     (y = x \<or> (ex_state x, ex_state y) \<in> lifecycle \<or>
      (unresolved_execution x \<and> ex_state y = Ex_recovery_required \<and>
       ex_recovery_resolution y \<noteq> None))"

lemma exec_advance_refl [simp]: "exec_advance x x"
  by (simp add: exec_advance_def same_identity_def)

lemma unchanged_advance [intro]: "x \<in> set xs \<Longrightarrow> \<exists>y \<in> set xs. exec_advance x y"
  by (rule bexI [of _ x]) simp_all

lemma active_to_recovery:
  "active_execution x \<Longrightarrow> (ex_state x, Ex_recovery_required) \<in> lifecycle"
  by (auto simp: active_execution_def lifecycle_def)

lemma legal_update_lifecycle:
  "legal_update u \<Longrightarrow> ex_state x \<in> up_expected_states u \<Longrightarrow> (ex_state x, up_state u) \<in> lifecycle"
  by (auto simp: legal_update_def lifecycle_def)

lemma update_execution_advance:
  assumes "lock_inv db" and "legal_update u" and x: "x \<in> set (executions db)"
  shows "\<exists>y \<in> set (executions (snd (update_execution a u t db))). exec_advance x y"
proof (cases rule: update_execution_cases [of a u t db])
  case (same e)
  with x show ?thesis by auto
next
  case (updated row)
  have "row = x" if "ex_action_id x = a"
    using that updated(1,2) x assms(1)
    by (auto simp: lock_inv_def execution_keys_def distinct_map inj_on_def)
  then have "(ex_state x, up_state u) \<in> lifecycle" if "ex_action_id x = a"
    using that updated(3) legal_update_lifecycle [OF assms(2), of x] by simp
  then have "exec_advance x (apply_update u (iso_timestamp t) x)" if "ex_action_id x = a"
    using that by (simp add: exec_advance_def same_identity_def apply_update_def)
  then show ?thesis
    unfolding updated(5) using update_where_survives [OF x, of "\<lambda>x. ex_action_id x = a" exec_advance
        "apply_update u (iso_timestamp t)"] by simp
qed

lemma expire_lease_advance:
  assumes x: "x \<in> set (executions db)"
  shows "\<exists>y \<in> set (executions (expire_lease now a db)). exec_advance x y"
  unfolding expire_lease_def
  by (simp, rule update_where_survives [OF x])
    (auto simp: exec_advance_def same_identity_def active_to_recovery)

lemma recover_advance:
  assumes x: "x \<in> set (executions db)"
  shows "\<exists>y \<in> set (executions (snd (recover_incomplete_executions t db))). exec_advance x y"
  unfolding recover_incomplete_executions_def
  by (simp add: Let_def, rule update_where_survives [OF x])
    (auto simp: exec_advance_def same_identity_def active_to_recovery)

lemma resolve_advance:
  assumes x: "x \<in> set (executions db)"
  shows "\<exists>y \<in> set (executions (snd (resolve_recovery a r h t db))). exec_advance x y"
proof (cases rule: resolve_recovery_cases [of a r h t db])
  case (same e)
  with x show ?thesis by auto
next
  case (resolved row)
  show ?thesis
    unfolding resolved(5) auth_db.simps
    by (simp, rule update_where_survives [OF x])
      (auto simp: exec_advance_def same_identity_def resolve_row_def unresolved_execution_def)
qed

lemma claim_advance:
  assumes x: "x \<in> set (executions db)"
  shows "\<exists>y \<in> set (executions (snd (claim_execution c tokens t db))). exec_advance x y"
proof (cases rule: claim_cases [of c tokens t db])
  case (expired l)
  with expire_lease_advance [OF x] show ?thesis by simp
next
  case (claimed r q p)
  with x show ?thesis by (auto simp: commit_db_def)
qed (use x in auto)

lemma heartbeat_executions: "executions (snd (heartbeat_execution_leases a i t ttl db)) = executions db"
  using heartbeat_cases [of a i t ttl db] by auto

lemma auth_step_advance:
  assumes "auth_step env s t" and "lock_inv s" and "x \<in> set (executions s)"
  shows "\<exists>y \<in> set (executions t). exec_advance x y"
  using assms(1)
proof (cases rule: auth_step.cases)
  case (update up a t)
  with update_execution_advance assms(2,3) show ?thesis by simp
qed (use assms(3) in \<open>auto simp: frames heartbeat_executions intro: claim_advance resolve_advance
      recover_advance\<close>)

section \<open>Proposals and evidence\<close>

lemma lease_ops_proposals:
  "proposals (snd (claim_execution c tokens t db)) = proposals db"
  "proposals (snd (update_execution a up t db)) = proposals db"
  "proposals (snd (heartbeat_execution_leases a i t ttl db)) = proposals db"
  "proposals (snd (resolve_recovery a r h t db)) = proposals db"
  "proposals (snd (recover_incomplete_executions t db)) = proposals db"
  "proposals (snd (get_request a t db)) = proposals db"
  "proposals (snd (authorize env a h uh cid tk t db)) = proposals db"
  "proposals (snd (create_request v tk t db)) = proposals db"
  "proposals (snd (create_request_from_native_proposal req tk t db)) = proposals db"
proof -
  show "proposals (snd (claim_execution c tokens t db)) = proposals db"
    by (cases rule: claim_cases [of c tokens t db]) (simp_all add: expire_lease_def commit_db_def)
  show "proposals (snd (update_execution a up t db)) = proposals db"
    by (cases rule: update_execution_cases [of a up t db]) simp_all
  show "proposals (snd (heartbeat_execution_leases a i t ttl db)) = proposals db"
    using heartbeat_cases [of a i t ttl db] by auto
  show "proposals (snd (resolve_recovery a r h t db)) = proposals db"
    by (cases rule: resolve_recovery_cases [of a r h t db]) simp_all
  show "proposals (snd (recover_incomplete_executions t db)) = proposals db"
    by (simp add: recover_incomplete_executions_def Let_def)
  show "proposals (snd (get_request a t db)) = proposals db"
    by (simp add: get_request_def transaction_state expire_request_def split: sum.splits option.splits)
  show "proposals (snd (authorize env a h uh cid tk t db)) = proposals db"
    by (simp add: authorize_def transaction_state Let_def split: sum.splits option.splits)
  show "proposals (snd (create_request v tk t db)) = proposals db"
    by (simp add: create_request_def transaction_state insert_request_def
        split: sum.splits option.splits)
  show "proposals (snd (create_request_from_native_proposal req tk t db)) = proposals db"
    by (simp add: create_request_from_native_proposal_def transaction_state insert_request_def
        split: sum.splits option.splits)
qed

lemma auth_step_proposals: "auth_step env s t \<Longrightarrow> \<exists>ps. proposals t = proposals s @ ps"
proof (induction rule: auth_step.induct)
  case (create_proposal db i al pol b tk t ttl)
  then show ?case
    using create_native_proposal_cases [of env i al pol b tk t ttl db] by (auto simp: insert_row_def)
qed (simp_all add: lease_ops_proposals frames)

lemma auth_step_evidence: "auth_step env s t \<Longrightarrow> \<exists>es. backup_evidence t = backup_evidence s @ es"
proof (induction rule: auth_step.induct)
  case (register_evidence db v t)
  then show ?case
    using register_backup_evidence_cases [of env v t db] by (auto simp: insert_row_def)
qed (simp_all add: frames)

section \<open>Requests and receipts\<close>

definition request_advance :: "request \<Rightarrow> request \<Rightarrow> bool" where
  "request_advance q q' \<longleftrightarrow>
     q' = q \<or> (rq_state q = Pending \<and>
       (q' = q\<lparr>rq_state := Authorized\<rparr> \<or> q' = q\<lparr>rq_state := Expired\<rparr>))"

definition receipt_advance :: "receipt \<Rightarrow> receipt \<Rightarrow> bool" where
  "receipt_advance r r' \<longleftrightarrow>
     r' = r \<or> (rc_consumed_at r = None \<and> (\<exists>t. r' = r\<lparr>rc_consumed_at := Some t\<rparr>))"

lemma request_update_advance:
  assumes inv: "auth_inv db" and q: "q \<in> set (requests db)"
    and sel: "select_one (\<lambda>r. rq_approval_id r = a) (requests db) = Some p" "rq_state p = Pending"
    and st: "st = Authorized \<or> st = Expired"
  shows "\<exists>q' \<in> set (update_where (\<lambda>r. rq_approval_id r = a) (\<lambda>r. r\<lparr>rq_state := st\<rparr>) (requests db)).
     request_advance q q'"
proof (rule update_where_survives [OF q])
  assume a: "rq_approval_id q = a"
  from select_one_Some_iff [OF sel(1)] q a inv have "q = p"
    by (auto simp: auth_inv_def distinct_map inj_on_def)
  with sel(2) st show "request_advance q (q\<lparr>rq_state := st\<rparr>)" by (auto simp: request_advance_def)
qed (simp add: request_advance_def)

lemma unchanged_request [intro]: "q \<in> set qs \<Longrightarrow> \<exists>q' \<in> set qs. request_advance q q'"
  by (rule bexI [of _ q]) (simp_all add: request_advance_def)

lemma unchanged_receipt [intro]: "r \<in> set rs \<Longrightarrow> \<exists>r' \<in> set rs. receipt_advance r r'"
  by (rule bexI [of _ r]) (simp_all add: receipt_advance_def)

lemma get_request_advance:
  assumes inv: "auth_inv db" and q: "q \<in> set (requests db)"
  shows "\<exists>q' \<in> set (requests (snd (get_request a t db))). request_advance q q'"
proof (cases "select_one (\<lambda>r. rq_approval_id r = a) (requests db)")
  case None
  with q show ?thesis by (auto simp: get_request_def transaction_def)
next
  case (Some p)
  then show ?thesis
    using q request_update_advance [OF inv q Some _, of Expired]
    by (auto simp: get_request_def transaction_def expire_request_def)
qed

lemma authorize_advance:
  assumes inv: "auth_inv db" and q: "q \<in> set (requests db)"
  shows "\<exists>q' \<in> set (requests (snd (authorize env a h uh cid tk t db))). request_advance q q'"
proof (cases "select_one (\<lambda>r. rq_approval_id r = a) (requests db)")
  case None
  with q show ?thesis by (auto simp: authorize_def transaction_def)
next
  case (Some p)
  then show ?thesis
    using q request_update_advance [OF inv q Some _, of Authorized]
    by (auto simp: authorize_def transaction_def Let_def)
qed

lemma lease_ops_requests:
  "requests (snd (claim_execution c tokens t db)) = requests db"
  "requests (snd (update_execution a u t db)) = requests db"
  "requests (snd (heartbeat_execution_leases a i t ttl db)) = requests db"
  "requests (snd (resolve_recovery a r h t db)) = requests db"
  "requests (snd (recover_incomplete_executions t db)) = requests db"
  "requests (snd (create_native_proposal env v al pol b tk t ttl db)) = requests db"
proof -
  show "requests (snd (claim_execution c tokens t db)) = requests db"
    by (cases rule: claim_cases [of c tokens t db]) (simp_all add: expire_lease_def commit_db_def)
  show "requests (snd (update_execution a u t db)) = requests db"
    by (cases rule: update_execution_cases [of a u t db]) simp_all
  show "requests (snd (heartbeat_execution_leases a i t ttl db)) = requests db"
    using heartbeat_cases [of a i t ttl db] by auto
  show "requests (snd (resolve_recovery a r h t db)) = requests db"
    by (cases rule: resolve_recovery_cases [of a r h t db]) simp_all
  show "requests (snd (recover_incomplete_executions t db)) = requests db"
    by (simp add: recover_incomplete_executions_def Let_def)
  show "requests (snd (create_native_proposal env v al pol b tk t ttl db)) = requests db"
    using create_native_proposal_cases [of env v al pol b tk t ttl db] by auto
qed

lemma insert_request_keeps:
  "q \<in> set (requests db) \<Longrightarrow> q \<in> set (requests (snd (insert_request row db)))"
  by (simp add: insert_request_def)

lemma create_request_keeps:
  "q \<in> set (requests db) \<Longrightarrow> q \<in> set (requests (snd (create_request v tk t db)))"
  "q \<in> set (requests db) \<Longrightarrow>
     q \<in> set (requests (snd (create_request_from_native_proposal req tk t db)))"
  by (auto simp: create_request_def create_request_from_native_proposal_def transaction_state
      insert_request_keeps split: sum.splits option.splits)

lemma auth_step_request_advance:
  assumes "auth_step env s t" and "auth_inv s" and "q \<in> set (requests s)"
  shows "\<exists>q' \<in> set (requests t). request_advance q q'"
  using assms(1)
  by (cases rule: auth_step.cases)
    (use assms(2,3) in \<open>auto simp: frames lease_ops_requests
      intro: get_request_advance authorize_advance create_request_keeps\<close>)

lemma lease_ops_receipts:
  "receipts (snd (update_execution a u t db)) = receipts db"
  "receipts (snd (heartbeat_execution_leases a i t ttl db)) = receipts db"
  "receipts (snd (resolve_recovery a r h t db)) = receipts db"
  "receipts (snd (recover_incomplete_executions t db)) = receipts db"
  "receipts (snd (create_native_proposal env v al pol b tk t ttl db)) = receipts db"
  "receipts (snd (get_request a t db)) = receipts db"
  "receipts (snd (create_request ve tk t db)) = receipts db"
  "receipts (snd (create_request_from_native_proposal req tk t db)) = receipts db"
proof -
  show "receipts (snd (update_execution a u t db)) = receipts db"
    by (cases rule: update_execution_cases [of a u t db]) simp_all
  show "receipts (snd (heartbeat_execution_leases a i t ttl db)) = receipts db"
    using heartbeat_cases [of a i t ttl db] by auto
  show "receipts (snd (resolve_recovery a r h t db)) = receipts db"
    by (cases rule: resolve_recovery_cases [of a r h t db]) simp_all
  show "receipts (snd (recover_incomplete_executions t db)) = receipts db"
    by (simp add: recover_incomplete_executions_def Let_def)
  show "receipts (snd (create_native_proposal env v al pol b tk t ttl db)) = receipts db"
    using create_native_proposal_cases [of env v al pol b tk t ttl db] by auto
  show "receipts (snd (get_request a t db)) = receipts db"
    by (simp add: get_request_def transaction_state expire_request_def split: sum.splits option.splits)
  show "receipts (snd (create_request ve tk t db)) = receipts db"
    by (simp add: create_request_def transaction_state insert_request_def
        split: sum.splits option.splits)
  show "receipts (snd (create_request_from_native_proposal req tk t db)) = receipts db"
    by (simp add: create_request_from_native_proposal_def transaction_state insert_request_def
        split: sum.splits option.splits)
qed

lemma claim_receipt_advance:
  assumes r: "r \<in> set (receipts db)"
  shows "\<exists>r' \<in> set (receipts (snd (claim_execution c tokens t db))). receipt_advance r r'"
proof (cases rule: claim_cases [of c tokens t db])
  case (expired l)
  with r show ?thesis by (auto simp: expire_lease_def)
next
  case (claimed r0 q p)
  show ?thesis
    unfolding claimed(6) commit_db_def
    by (simp, rule update_where_survives [OF r]) (auto simp: receipt_advance_def)
qed (use r in auto)

lemma authorize_keeps_receipts:
  "r \<in> set (receipts db) \<Longrightarrow> r \<in> set (receipts (snd (authorize env a h uh cid tk t db)))"
  by (auto simp: authorize_def transaction_state Let_def split: sum.splits option.splits)

lemma auth_step_receipt_advance:
  assumes "auth_step env s t" and "r \<in> set (receipts s)"
  shows "\<exists>r' \<in> set (receipts t). receipt_advance r r'"
  using assms(1)
  by (cases rule: auth_step.cases)
    (use assms(2) in \<open>auto simp: frames lease_ops_receipts
      intro: claim_receipt_advance authorize_keeps_receipts\<close>)

end
