(* ===== verification/Auth_Properties.thy ===== *)
theory Auth_Properties
  imports Auth_Example
begin

text \<open>
  What the authorization store guarantees in every state its operations reach: mutual exclusion of
  executions, their provenance, single use of receipts, the lease contract, the exact guard of a
  claim, recovery after a lost lease or a restart, the counter check of passkeys, and the selection
  of backup evidence.
\<close>

section \<open>When a claim is granted\<close>

definition usable_evidence :: "auth_db \<Rightarrow> claim \<Rightarrow> int \<Rightarrow> int \<Rightarrow> bool" where
  "usable_evidence db c valid_until now \<longleftrightarrow>
     (\<exists>e \<in> set (backup_evidence db).
        cl_backup_evidence_id c = Some (be_logical_id e) \<and> be_scope e \<in> {''addon'', ''full''} \<and>
        be_baseline e = cl_baseline_etag c \<and> be_created_at e \<le> now \<and> now < be_expires_at e \<and>
        valid_until \<le> be_expires_at e)"

definition claimable :: "auth_db \<Rightarrow> claim \<Rightarrow> int \<Rightarrow> bool" where
  "claimable db c now \<longleftrightarrow>
     (\<exists>r \<in> set (receipts db). \<exists>p \<in> set (proposals db). \<exists>q \<in> set (requests db).
        rc_receipt_id r = cl_receipt_id c \<and> rc_action_id r = cl_action_id c \<and>
        rc_proposal_hash r = cl_proposal_hash c \<and> rc_consumed_at r = None \<and>
        now < rc_expires_at r \<and> rc_version r = 2 \<and> rc_binding r = claim_binding c \<and>
        rq_approval_id q = rc_approval_id r \<and> rq_proposal_origin q = Broker_native \<and>
        pr_action_id p = cl_action_id c \<and> pr_idempotency_key p = cl_idempotency_key c \<and>
        pr_binding p = claim_binding c \<and> usable_evidence db c (rc_expires_at r) now)"

lemma claim_evidence_iff:
  assumes "evidence_inv db"
  shows "claim_evidence db c r now = Inr () \<longleftrightarrow> usable_evidence db c (rc_expires_at r) now"
proof -
  have row: "evidence_row_ok e" if "e \<in> set (backup_evidence db)" for e
    using assms that by (simp add: evidence_inv_def)
  have find: "select_one (\<lambda>e. be_logical_id e = lid) (backup_evidence db) = Some e
      \<longleftrightarrow> e \<in> set (backup_evidence db) \<and> be_logical_id e = lid" for lid e
    using assms select_one_key_eq [of be_logical_id "backup_evidence db" e lid]
      select_one_Some_iff [of "\<lambda>e. be_logical_id e = lid" "backup_evidence db" e]
    by (auto simp: evidence_inv_def)
  show ?thesis
  proof (cases "cl_backup_evidence_id c")
    case None
    then show ?thesis
      by (simp add: claim_evidence_def assert_backup_evidence_row_def usable_evidence_def)
  next
    case (Some lid)
    show ?thesis
    proof (cases "select_one (\<lambda>e. be_logical_id e = lid) (backup_evidence db)")
      case None
      then have "\<forall>e \<in> set (backup_evidence db). be_logical_id e \<noteq> lid"
        by (simp add: select_one_None_iff)
      with None Some show ?thesis
        by (auto simp: claim_evidence_def assert_backup_evidence_row_def usable_evidence_def)
    next
      case (Some e)
      then have e: "e \<in> set (backup_evidence db)" "be_logical_id e = lid" by (simp_all add: find)
      have only: "e' = e" if "e' \<in> set (backup_evidence db)" "be_logical_id e' = lid" for e'
        using Some find [of lid e'] that by simp
      let ?Q = "\<lambda>e. be_scope e \<in> {''addon'', ''full''} \<and> be_baseline e = cl_baseline_etag c \<and>
          be_created_at e \<le> now \<and> now < be_expires_at e \<and> rc_expires_at r \<le> be_expires_at e"
      have "usable_evidence db c (rc_expires_at r) now \<longleftrightarrow>
          (\<exists>e \<in> set (backup_evidence db). be_logical_id e = lid \<and> ?Q e)"
        unfolding usable_evidence_def \<open>cl_backup_evidence_id c = Some lid\<close> by blast
      also have "\<dots> \<longleftrightarrow> ?Q e" using e only by blast
      finally have "usable_evidence db c (rc_expires_at r) now \<longleftrightarrow> ?Q e" .
      moreover have "claim_evidence db c r now = Inr () \<longleftrightarrow> ?Q e"
        using e(2) row [OF e(1)]
        by (simp add: claim_evidence_def \<open>cl_backup_evidence_id c = Some lid\<close> Some
            assert_backup_evidence_row_def evidence_row_ok_def not_less not_le) metis
      ultimately show ?thesis by simp
    qed
  qed
qed

text \<open>A claimable receipt passes the checks.\<close>

lemma claimable_iff_checks:
  assumes inv: "auth_inv db" "evidence_inv db"
  shows "claimable db c now \<longleftrightarrow>
    (\<exists>r q p. select_receipt_join db (cl_receipt_id c) = Some (r, q, p) \<and>
       claim_checks db c r q p now = Inr ())"
proof
  assume "claimable db c now"
  then obtain r p q where
    mem: "r \<in> set (receipts db)" "p \<in> set (proposals db)" "q \<in> set (requests db)"
    and r: "rc_receipt_id r = cl_receipt_id c" "rc_action_id r = cl_action_id c"
      "rc_proposal_hash r = cl_proposal_hash c" "rc_consumed_at r = None" "now < rc_expires_at r"
      "rc_version r = 2" "rc_binding r = claim_binding c"
    and q: "rq_approval_id q = rc_approval_id r" "rq_proposal_origin q = Broker_native"
    and p: "pr_action_id p = cl_action_id c" "pr_idempotency_key p = cl_idempotency_key c"
      "pr_binding p = claim_binding c"
    and ev: "usable_evidence db c (rc_expires_at r) now"
    unfolding claimable_def by blast
  from inv(1) mem(1) obtain q' where q': "q' \<in> set (requests db)"
      "rq_approval_id q' = rc_approval_id r" "rq_state q' = Authorized"
      and ra: "rc_assurance r = ''passkey_verified''"
    by (auto simp: auth_inv_def receipt_backed_def)
  with inv(1) mem(3) q(1) have "q' = q"
    by (auto simp: auth_inv_def distinct_map inj_on_def)
  with q' have auth: "rq_state q = Authorized" by simp
  have version: "pr_version p = 2" using inv(1) mem(2) by (simp add: auth_inv_def native_row_def)
  have keys: "distinct (map rc_receipt_id (receipts db))" "distinct (map rq_approval_id (requests db))"
      "distinct (map pr_action_id (proposals db))"
    using inv(1) by (simp_all add: auth_inv_def)
  have "select_receipt_join db (cl_receipt_id c) = Some (r, q, p)"
    using select_one_key_eq [OF keys(1) mem(1) r(1)] select_one_key_eq [OF keys(2) mem(3) q(1)]
      select_one_key_eq [OF keys(3) mem(2) p(1)] r(2)
    by (simp add: select_receipt_join_def)
  moreover have "claim_checks db c r q p now = Inr ()"
    using r q p auth ra version ev claim_evidence_iff [OF inv(2), of c r now]
    by (simp add: claim_checks_def binding_drift_def)
  ultimately show "\<exists>r q p. select_receipt_join db (cl_receipt_id c) = Some (r, q, p) \<and>
      claim_checks db c r q p now = Inr ()" by blast
next
  assume "\<exists>r q p. select_receipt_join db (cl_receipt_id c) = Some (r, q, p) \<and>
      claim_checks db c r q p now = Inr ()"
  then obtain r q p where j: "select_receipt_join db (cl_receipt_id c) = Some (r, q, p)"
      and ok: "claim_checks db c r q p now = Inr ()" by blast
  note sel = select_receipt_join_Some [OF j] and checks = claim_checks_ok [OF ok]
  have "usable_evidence db c (rc_expires_at r) now"
    using claim_evidence_iff [OF inv(2)] checks(9) by blast
  with sel checks show "claimable db c now" unfolding claimable_def by force
qed

text \<open>No UNIQUE constraint stands in the way of a claim that passes the checks.\<close>

lemma claim_keys_fresh:
  assumes inv: "auth_inv db" and j: "select_receipt_join db (cl_receipt_id c) = Some (r, q, p)"
    and ok: "claim_checks db c r q p now = Inr ()"
    and new: "\<forall>x \<in> set (executions db). ex_action_id x \<noteq> cl_action_id c"
  shows "cl_receipt_id c \<notin> ex_receipt_id ` set (executions db)"
    and "cl_idempotency_key c \<notin> ex_idempotency_key ` set (executions db)"
proof -
  note sel = select_receipt_join_Some [OF j] and checks = claim_checks_ok [OF ok]
  have backed: "execution_backed db x" if "x \<in> set (executions db)" for x
    using inv that by (simp add: auth_inv_def)
  show "cl_receipt_id c \<notin> ex_receipt_id ` set (executions db)"
  proof
    assume "cl_receipt_id c \<in> ex_receipt_id ` set (executions db)"
    then obtain x where x: "x \<in> set (executions db)" "ex_receipt_id x = cl_receipt_id c" by auto
    from backed [OF x(1)] obtain r' where "r' \<in> set (receipts db)" "rc_consumed_at r' \<noteq> None"
        "rc_receipt_id r' = rc_receipt_id r"
      using x(2) sel(2) by (auto simp: execution_backed_def)
    with inv sel(1) have "r' = r" by (auto simp: auth_inv_def distinct_map inj_on_def)
    with \<open>rc_consumed_at r' \<noteq> None\<close> checks(7) show False by simp
  qed
  show "cl_idempotency_key c \<notin> ex_idempotency_key ` set (executions db)"
  proof
    assume "cl_idempotency_key c \<in> ex_idempotency_key ` set (executions db)"
    then obtain x where x: "x \<in> set (executions db)" "ex_idempotency_key x = cl_idempotency_key c"
      by auto
    from backed [OF x(1)] obtain p' where "p' \<in> set (proposals db)"
        "pr_idempotency_key p' = pr_idempotency_key p" "pr_action_id p' = ex_action_id x"
      using x(2) checks(4) by (auto simp: execution_backed_def)
    with inv sel(5) have "p' = p" by (auto simp: auth_inv_def distinct_map inj_on_def)
    with \<open>pr_action_id p' = ex_action_id x\<close> sel(6) checks(2) new x(1) show False by auto
  qed
qed

lemma all_released_iff: "select_one held_lease ls = None \<longleftrightarrow> (\<forall>l \<in> set ls. ls_state l = Ls_released)"
  by (simp add: select_one_None_iff held_lease_iff)

definition fresh_lease_tokens :: "auth_db \<Rightarrow> string \<times> string \<Rightarrow> bool" where
  "fresh_lease_tokens db tokens \<longleftrightarrow>
     fst tokens \<noteq> snd tokens \<and>
     (\<forall>l \<in> set (leases db). ls_lease_id l \<noteq> ''LEASE-'' @ fst tokens
        \<and> ls_lease_id l \<noteq> ''LEASE-'' @ snd tokens)"

lemma insert_lease_Some:
  assumes "\<forall>l \<in> set ls. ls_lease_id l \<noteq> ls_lease_id k"
    and "\<forall>l \<in> set ls. ls_resource l = ls_resource k \<longrightarrow>
           ls_epoch l \<noteq> ls_epoch k \<and> \<not> held_lease l"
  shows "insert_lease k ls = Some (insert_row k ls)"
  using assms by (auto simp: insert_lease_def list_ex_iff)

lemma claim_commit_grants:
  assumes inv: "auth_inv db" and tokens: "fresh_lease_tokens db tokens"
    and free: "\<forall>l \<in> set (leases db). ls_state l = Ls_released"
    and j: "select_receipt_join db (cl_receipt_id c) = Some (r, q, p)"
    and ok: "claim_checks db c r q p now = Inr ()"
    and new: "\<forall>x \<in> set (executions db). ex_action_id x \<noteq> cl_action_id c"
  shows "\<exists>out. fst (claim_commit c p tokens now db) = Inr out"
proof -
  let ?hit = "\<lambda>r. rc_receipt_id r = cl_receipt_id c \<and> rc_consumed_at r = None"
  let ?k1 = "\<lambda>e t u. claimed_lease c (fst tokens) SINGLETON_RESOURCE e t u"
  let ?res = "addon_resource (pr_target p)"
  have "filter ?hit (receipts db) = filter (\<lambda>x. rc_receipt_id x = rc_receipt_id r) (receipts db)"
  proof (rule filter_cong)
    fix x assume "x \<in> set (receipts db)"
    then show "?hit x = (rc_receipt_id x = rc_receipt_id r)"
      using inv select_receipt_join_Some(1,2) [OF j] claim_checks_ok(7) [OF ok]
      by (auto simp: auth_inv_def distinct_map inj_on_def)
  qed simp
  moreover have "length (filter (\<lambda>x. rc_receipt_id x = rc_receipt_id r) (receipts db)) = 1"
    using inv select_receipt_join_Some(1) [OF j]
    by (intro filter_key_length) (simp_all add: auth_inv_def)
  ultimately have count: "rowcount ?hit (receipts db) = 1" by (simp add: rowcount_def)
  have old: "ls_epoch l \<noteq> next_epoch (leases db) res \<and> \<not> held_lease l"
    if "l \<in> set (leases db)" "ls_resource l = res" for l res
    using that next_epoch_gt [OF that] free by (simp add: held_lease_iff)
  have first: "insert_lease (?k1 (next_epoch (leases db) SINGLETON_RESOURCE) t u) (leases db)
      = Some (insert_row (?k1 (next_epoch (leases db) SINGLETON_RESOURCE) t u) (leases db))" for t u
    using tokens old by (intro insert_lease_Some) (auto simp: fresh_lease_tokens_def claimed_lease_def)
  have second: "\<exists>ls. insert_lease (claimed_lease c (snd tokens) ?res (next_epoch (leases db) ?res) t u)
        (insert_row (?k1 e t u) (leases db)) = Some ls" for e t u
    using tokens old resources_differ [of "pr_target p"]
    by (subst insert_lease_Some) (auto simp: fresh_lease_tokens_def claimed_lease_def)
  from claim_keys_fresh [OF inv j ok new] new count first second show ?thesis
    by (auto simp: claim_commit_def Let_def claimed_execution_def split: option.splits)
qed

section \<open>The lock\<close>

text \<open>C1: Mutual exclusion.  In every state the store reaches, at most one execution is open: active,
or in recovery with no decision yet.\<close>

theorem mutual_exclusion:
  assumes "reachable_store env db"
  shows "length (filter open_execution (executions db)) \<le> 1"
proof -
  have inv: "lock_inv db" using reachable_store_inv [OF assms] by blast
  have "distinct (filter open_execution (executions db))"
    using inv by (auto simp: lock_inv_def execution_keys_def distinct_map)
  moreover have "x = y" if "x \<in> set (filter open_execution (executions db))"
      "y \<in> set (filter open_execution (executions db))" for x y
    using that inv by (auto simp: lock_inv_def single_open_def)
  ultimately show ?thesis by (rule distinct_all_equal)
qed

theorem mutual_exclusion_witness: "length (filter open_execution (executions db5)) \<le> 1"
  by (rule mutual_exclusion [OF reachable_db5])

text \<open>C4: The lease contract.  In every reachable state the leases of an execution are exactly two, the
singleton and the add-on's, and both are in the one state that the state of the execution calls for:
active while it runs, kept back while a recovery is undecided, released otherwise.\<close>

theorem leases_follow_execution:
  assumes "reachable_store env db" and "x \<in> set (executions db)"
  shows "map (\<lambda>l. (ls_resource l, ls_state l))
           (filter (\<lambda>l. ls_action_id l = ex_action_id x) (leases db))
         = [(SINGLETON_RESOURCE, lease_state_for x),
            (addon_resource (ex_target x), lease_state_for x)]"
proof -
  have inv: "lock_inv db" using reachable_store_inv [OF assms(1)] by blast
  have st: "ls_state l = lease_state_for x"
    if "l \<in> set (leases db)" "ls_action_id l = ex_action_id x" for l
    using execution_lease_state [OF inv assms(2) that] .
  have "map (\<lambda>l. (ls_resource l, ls_state l))
          (filter (\<lambda>l. ls_action_id l = ex_action_id x) (leases db))
      = map (\<lambda>res. (res, lease_state_for x)) (map ls_resource
          (filter (\<lambda>l. ls_action_id l = ex_action_id x) (leases db)))"
    using st by simp
  also have "\<dots> = map (\<lambda>res. (res, lease_state_for x)) (execution_resources x)"
    using inv assms(2) by (simp add: lock_inv_def leases_cover_def)
  finally show ?thesis by (simp add: execution_resources_def)
qed

theorem leases_follow_execution_witness:
  "map (\<lambda>l. (ls_resource l, ls_state l))
     (filter (\<lambda>l. ls_action_id l = ex_action_id execution0) (leases db5))
   = [(SINGLETON_RESOURCE, lease_state_for execution0),
      (addon_resource (ex_target execution0), lease_state_for execution0)]"
  by (rule leases_follow_execution [OF reachable_db5]) simp

text \<open>C2: Provenance.  Every execution row of a reachable store was bought with one receipt, consumed and
passkey-verified, whose request is authorized and Broker-native and whose proposal is the restart of
one add-on at risk L3; digest, idempotency key, target and binding agree along the chain.\<close>

theorem execution_provenance:
  assumes "reachable_store env db" and "x \<in> set (executions db)"
  shows "\<exists>r \<in> set (receipts db). \<exists>q \<in> set (requests db). \<exists>p \<in> set (proposals db).
     rc_receipt_id r = ex_receipt_id x \<and> rc_proposal_hash r = ex_proposal_hash x \<and>
     rc_assurance r = ''passkey_verified'' \<and> rc_consumed_at r \<noteq> None \<and>
     rq_approval_id q = rc_approval_id r \<and> rq_state q = Authorized \<and>
     rq_proposal_origin q = Broker_native \<and>
     pr_action_id p = ex_action_id x \<and> pr_proposal_hash p = ex_proposal_hash x \<and>
     pr_idempotency_key p = ex_idempotency_key x \<and> pr_target p = ex_target x \<and>
     pr_action_type p = ''restart_addon'' \<and> pr_risk_level p = ''L3'' \<and> pr_requires_backup p \<and>
     rc_binding r = ex_binding x \<and> pr_binding p = ex_binding x"
proof -
  have inv: "auth_inv db" using reachable_store_inv [OF assms(1)] by blast
  with assms(2) have "execution_backed db x" by (simp add: auth_inv_def)
  moreover have "native_row p" if "p \<in> set (proposals db)" for p
    using inv that by (simp add: auth_inv_def)
  ultimately show ?thesis unfolding execution_backed_def native_row_def by blast
qed

theorem execution_provenance_witness:
  "\<exists>r \<in> set (receipts db5). \<exists>q \<in> set (requests db5). \<exists>p \<in> set (proposals db5).
     rc_receipt_id r = ex_receipt_id execution0 \<and> rc_proposal_hash r = ex_proposal_hash execution0 \<and>
     rc_assurance r = ''passkey_verified'' \<and> rc_consumed_at r \<noteq> None \<and>
     rq_approval_id q = rc_approval_id r \<and> rq_state q = Authorized \<and>
     rq_proposal_origin q = Broker_native \<and>
     pr_action_id p = ex_action_id execution0 \<and> pr_proposal_hash p = ex_proposal_hash execution0 \<and>
     pr_idempotency_key p = ex_idempotency_key execution0 \<and> pr_target p = ex_target execution0 \<and>
     pr_action_type p = ''restart_addon'' \<and> pr_risk_level p = ''L3'' \<and> pr_requires_backup p \<and>
     rc_binding r = ex_binding execution0 \<and> pr_binding p = ex_binding execution0"
  by (rule execution_provenance [OF reachable_db5]) simp

text \<open>C5: A receipt is used once.  In a reachable store a receipt is marked consumed exactly when an
execution carries its id, and no two executions carry the same receipt, action or idempotency key.\<close>

theorem receipt_single_use:
  assumes "reachable_store env db"
  shows "(\<forall>r \<in> set (receipts db). rc_consumed_at r \<noteq> None \<longleftrightarrow>
            (\<exists>x \<in> set (executions db). ex_receipt_id x = rc_receipt_id r))
    \<and> distinct (map ex_receipt_id (executions db)) \<and> distinct (map ex_action_id (executions db))
    \<and> distinct (map ex_idempotency_key (executions db))"
proof -
  have inv: "lock_inv db" "auth_inv db" using reachable_store_inv [OF assms] by blast+
  have "rc_consumed_at r \<noteq> None" if r: "r \<in> set (receipts db)" and
      x: "x \<in> set (executions db)" "ex_receipt_id x = rc_receipt_id r" for r x
  proof -
    from inv(2) x(1) obtain r' where "r' \<in> set (receipts db)" "rc_receipt_id r' = rc_receipt_id r"
        "rc_consumed_at r' \<noteq> None"
      using x(2) by (auto simp: auth_inv_def execution_backed_def)
    with inv(2) r show ?thesis by (auto simp: auth_inv_def distinct_map inj_on_def)
  qed
  then show ?thesis
    using inv by (fastforce simp: auth_inv_def lock_inv_def execution_keys_def)
qed

theorem receipt_single_use_witness:
  "(\<exists>x \<in> set (executions db5). ex_receipt_id x = receipt_id0) \<and>
   distinct (map ex_receipt_id (executions db5)) \<and> distinct (map ex_action_id (executions db5)) \<and>
   distinct (map ex_idempotency_key (executions db5))"
  using receipt_single_use [OF reachable_db5] by simp

section \<open>Claims\<close>

text \<open>C3: The guard of a claim, exactly.  In a reachable store, with lease ids that are new, a claim
starts a new execution if and only if the action has none yet, every lease is released and the
receipt is claimable: unconsumed, unexpired, for this action, digest and idempotency key, with the
binding of the running policy, and covered by valid backup evidence.  In particular no UNIQUE
constraint fails.\<close>

theorem claim_granted_iff:
  assumes "reachable_store env db" and "fresh_lease_tokens db tokens"
  shows "(\<exists>doc. fst (claim_execution c tokens now db) = Inr (doc, False)) \<longleftrightarrow>
    (\<forall>x \<in> set (executions db). ex_action_id x \<noteq> cl_action_id c) \<and>
    (\<forall>l \<in> set (leases db). ls_state l = Ls_released) \<and> claimable db c now"
  (is "?granted \<longleftrightarrow> ?new \<and> ?free \<and> _")
proof -
  have inv: "lock_inv db" "auth_inv db" "evidence_inv db"
    using reachable_store_inv [OF assms(1)] by blast+
  show ?thesis
  proof
    assume ?granted
    then show "?new \<and> ?free \<and> claimable db c now"
    proof (cases rule: claim_cases [of c tokens now db])
      case (claimed r q p)
      have "?new" using claim_commit_Inr(4) [OF claimed(5)] by (metis imageI)
      with claimed show ?thesis
        by (auto simp: claimable_iff_checks [OF inv(2,3)] all_released_iff)
    qed auto
  next
    assume asm: "?new \<and> ?free \<and> claimable db c now"
    then obtain r q p where j: "select_receipt_join db (cl_receipt_id c) = Some (r, q, p)"
      and ok: "claim_checks db c r q p now = Inr ()"
      by (auto simp: claimable_iff_checks [OF inv(2,3)])
    from claim_commit_grants [OF inv(2) assms(2) _ j ok] asm obtain out where
      commit: "fst (claim_commit c p tokens now db) = Inr out" by blast
    then have shape: "claim_commit c p tokens now db
        = (Inr (Claimed (execution_document_of (commit_execution c p now db)) False),
           commit_db c p tokens now db)"
      using claim_commit_Inr [of c p tokens now db out] by (metis prod.collapse)
    have "select_one (\<lambda>x. ex_action_id x = cl_action_id c) (executions db) = None"
      using asm by (simp add: select_one_None_iff)
    moreover have "first_min ls_created_at
        (filter (\<lambda>l. ls_state l = Ls_active \<and> ls_expires_at l \<le> iso_timestamp now) (leases db)) = None"
      using asm by (simp add: filter_empty_conv)
    moreover have none: "select_one held_lease (leases db) = None"
      using asm by (simp add: all_released_iff)
    moreover have "select_one unresolved_execution (executions db) = None"
      using no_held_lease_no_open [OF inv(1) none]
      by (auto simp: select_one_None_iff open_execution_def)
    ultimately show ?granted
      using j ok shape by (simp add: claim_execution_def claim_body_def transaction_def)
  qed
qed

theorem claim_granted_iff_witness:
  "(\<exists>doc. fst (claim_execution claim0 (''1'', ''2'') 5000000 db4) = Inr (doc, False)) \<longleftrightarrow>
    (\<forall>x \<in> set (executions db4). ex_action_id x \<noteq> cl_action_id claim0) \<and>
    (\<forall>l \<in> set (leases db4). ls_state l = Ls_released) \<and> claimable db4 claim0 5000000"
  by (rule claim_granted_iff [OF reachable_db4])
    (simp add: fresh_lease_tokens_def db4_def db3_def db2_def db1_def empty_db_def)

text \<open>A claim is idempotent.  Repeating a claim that was granted, at any later clock reading and with any
other lease ids, returns the recorded execution as a replay and changes nothing, whatever the
intervening state of the leases; a claim of the same action with another receipt, digest or
idempotency key is refused.\<close>

theorem claim_replayed:
  assumes "claim_execution c tokens now db = (Inr (doc, False), db')"
  shows "claim_execution c tokens' later db' = (Inr (doc, True), db') \<and>
    (\<forall>c'. cl_action_id c' = cl_action_id c \<and>
        (cl_receipt_id c' \<noteq> cl_receipt_id c \<or> cl_proposal_hash c' \<noteq> cl_proposal_hash c \<or>
         cl_idempotency_key c' \<noteq> cl_idempotency_key c) \<longrightarrow>
      claim_execution c' tokens' later db'
        = (Inl (AuthorizationError ''execution_conflict''), db'))"
proof -
  from assms obtain p where eq: "doc = execution_document_of (commit_execution c p now db)"
      "db' = commit_db c p tokens now db"
    and new: "cl_action_id c \<notin> ex_action_id ` set (executions db)"
    by (cases rule: claim_cases [of c tokens now db])
      (auto dest: claim_commit_Inr(4))
  from new have "select_one (\<lambda>x. ex_action_id x = cl_action_id c) (executions db) = None"
    by (simp add: select_one_None_iff) (metis imageI)
  then have found: "select_one (\<lambda>x. ex_action_id x = cl_action_id c) (executions db')
      = Some (commit_execution c p now db)"
    by (simp add: eq(2) commit_db_def insert_row_def)
  show ?thesis
    using found by (auto simp: claim_execution_def claim_body_def transaction_def eq(1))
qed

theorem claim_replayed_witness:
  "claim_execution claim0 (''9'', ''9'') 77 db5 = (Inr (execution_document_of execution0, True), db5) \<and>
   claim_execution (claim0\<lparr>cl_receipt_id := ''other''\<rparr>) (''9'', ''9'') 77 db5
     = (Inl (AuthorizationError ''execution_conflict''), db5)"
  using claim_replayed [OF db5_step, of "(''9'', ''9'')" 77]
  by (simp add: claim0_def)

section \<open>Lost leases, recovery, restart\<close>

lemma active_lease_execution:
  assumes inv: "lock_inv db" and l: "l \<in> set (leases db)" "ls_state l = Ls_active"
  obtains x where "x \<in> set (executions db)" "ex_action_id x = ls_action_id l" "active_execution x"
    "ex_recovery_resolution x = None"
proof -
  from inv l obtain x where x: "x \<in> set (executions db)" "ex_action_id x = ls_action_id l"
      "lease_state_for x = Ls_active"
    unfolding lock_inv_def leases_track_def by metis
  then have act: "active_execution x" by (simp add: lease_state_for_def split: if_splits)
  then have "ex_recovery_resolution x = None"
    using inv x(1) by (auto simp: lock_inv_def resolution_only_in_recovery_def active_execution_def)
  with x act show thesis by (intro that)
qed

lemma one_active:
  assumes "lock_inv db" and "x \<in> set (executions db)" "active_execution x"
    and "y \<in> set (executions db)" "active_execution y"
  shows "x = y"
  using assms by (auto simp: lock_inv_def single_open_def open_execution_def)

lemma unresolved_blocks_claims:
  assumes inv: "lock_inv db" and none: "\<forall>x \<in> set (executions db). \<not> active_execution x"
    and x: "x \<in> set (executions db)" "unresolved_execution x"
    and new: "\<forall>x \<in> set (executions db). ex_action_id x \<noteq> cl_action_id c"
  shows "claim_execution c tokens now db = (Inl (AuthorizationError ''execution_busy''), db)"
proof -
  have "\<forall>l \<in> set (leases db). ls_state l \<noteq> Ls_active"
    using none active_lease_execution [OF inv] by metis
  then have "first_min ls_created_at
      (filter (\<lambda>l. ls_state l = Ls_active \<and> ls_expires_at l \<le> iso_timestamp now) (leases db)) = None"
    by (simp add: filter_empty_conv)
  moreover have "select_one (\<lambda>x. ex_action_id x = cl_action_id c) (executions db) = None"
    using new by (simp add: select_one_None_iff)
  moreover have "select_one held_lease (leases db) \<noteq> None"
    using open_execution_has_held_lease [OF inv x(1)] x(2)
    by (auto simp: select_one_None_iff open_execution_def)
  ultimately show ?thesis by (simp add: claim_execution_def claim_body_def transaction_def)
qed

text \<open>A lease that ran out is never taken over.  The first new claim that meets an expired lease is
refused, and what it commits is the fence: the execution that held the lease goes to
\<open>recovery_required\<close> with \<open>lease_expired\<close>, nothing is active any more, and from then on every claim of
an action without an execution is refused as busy, at any time.\<close>

theorem lost_lease_fences:
  assumes "reachable_store env db"
    and new: "\<forall>x \<in> set (executions db). ex_action_id x \<noteq> cl_action_id c"
    and l: "l \<in> set (leases db)" "ls_state l = Ls_active" "ls_expires_at l \<le> iso_timestamp now"
  shows "fst (claim_execution c tokens now db) = Inl (AuthorizationError ''lease_recovery_required'')
    \<and> (let db' = snd (claim_execution c tokens now db) in
        (\<forall>x \<in> set (executions db'). \<not> active_execution x) \<and>
        (\<exists>x \<in> set (executions db'). ex_action_id x = ls_action_id l \<and> unresolved_execution x
           \<and> ex_error_code x = Some ''lease_expired'') \<and>
        (\<forall>c' tokens' later. (\<forall>x \<in> set (executions db'). ex_action_id x \<noteq> cl_action_id c') \<longrightarrow>
           claim_execution c' tokens' later db'
             = (Inl (AuthorizationError ''execution_busy''), db')))"
proof -
  have inv: "lock_inv db" using reachable_store_inv [OF assms(1)] by blast
  let ?due = "filter (\<lambda>l. ls_state l = Ls_active \<and> ls_expires_at l \<le> iso_timestamp now) (leases db)"
  from l obtain k where k: "first_min ls_created_at ?due = Some k"
    by (cases "first_min ls_created_at ?due") (auto simp: filter_empty_conv)
  then have due: "k \<in> set (leases db)" "ls_state k = Ls_active" by (auto dest: first_min_mem)
  obtain x where x: "x \<in> set (executions db)" "ex_action_id x = ls_action_id l"
      "active_execution x" "ex_recovery_resolution x = None"
    by (rule active_lease_execution [OF inv l(1,2)])
  obtain y where y: "y \<in> set (executions db)" "ex_action_id y = ls_action_id k" "active_execution y"
    by (rule active_lease_execution [OF inv due])
  from one_active [OF inv y(1,3) x(1,3)] y(2) x(2) have same: "ls_action_id k = ls_action_id l"
    by simp
  let ?db = "expire_lease (iso_timestamp now) (ls_action_id l) db"
  have "select_one (\<lambda>x. ex_action_id x = cl_action_id c) (executions db) = None"
    using new by (simp add: select_one_None_iff)
  with k have run: "claim_execution c tokens now db
      = (Inl (AuthorizationError ''lease_recovery_required''), ?db)"
    by (simp add: claim_execution_def claim_body_def transaction_def same)
  have inv': "lock_inv ?db" using inv by (rule expire_lease_lock_inv)
  have quiet: "\<forall>z \<in> set (executions ?db). \<not> active_execution z"
  proof
    fix z assume "z \<in> set (executions ?db)"
    then obtain y where "y \<in> set (executions db)" "active_execution z \<longrightarrow> z = y \<and>
        \<not> (ex_action_id y = ls_action_id l \<and> active_execution y)"
      by (auto simp: expire_lease_def set_update_where active_execution_def)
    with x(2) one_active [OF inv x(1,3)] show "\<not> active_execution z" by blast
  qed
  have fenced: "\<exists>z \<in> set (executions ?db). ex_action_id z = ls_action_id l \<and> unresolved_execution z
           \<and> ex_error_code z = Some ''lease_expired''"
  proof (rule bexI)
    let ?z = "x\<lparr>ex_state := Ex_recovery_required, ex_error_code := Some ''lease_expired'',
        ex_updated_at := iso_timestamp now,
        ex_finished_at := (case ex_finished_at x of None \<Rightarrow> Some (iso_timestamp now) | Some t \<Rightarrow> Some t)\<rparr>"
    show "?z \<in> set (executions ?db)"
      using x update_where_hit [OF x(1), where f = "\<lambda>x. x\<lparr>ex_state := Ex_recovery_required,
          ex_error_code := Some ''lease_expired'', ex_updated_at := iso_timestamp now,
          ex_finished_at := (case ex_finished_at x of None \<Rightarrow> Some (iso_timestamp now) | Some t \<Rightarrow> Some t)\<rparr>"]
      by (simp add: expire_lease_def)
    show "ex_action_id ?z = ls_action_id l \<and> unresolved_execution ?z
           \<and> ex_error_code ?z = Some ''lease_expired''"
      using x by (simp add: unresolved_execution_def)
  qed
  with unresolved_blocks_claims [OF inv' quiet] have "claim_execution c' tokens' later ?db
        = (Inl (AuthorizationError ''execution_busy''), ?db)"
    if "\<forall>x \<in> set (executions ?db). ex_action_id x \<noteq> cl_action_id c'" for c' tokens' later
    using that by blast
  with run quiet fenced show ?thesis by (simp add: Let_def)
qed

definition claim1 :: claim where
  "claim1 = claim0\<lparr>cl_receipt_id := ''RCPT-02'', cl_action_id := ''OPS-19700101-000000000000''\<rparr>"

theorem lost_lease_fences_witness:
  "fst (claim_execution claim1 (''3'', ''4'') 35000000 db5)
      = Inl (AuthorizationError ''lease_recovery_required'')
    \<and> (let db' = snd (claim_execution claim1 (''3'', ''4'') 35000000 db5) in
        (\<forall>x \<in> set (executions db'). \<not> active_execution x) \<and>
        (\<exists>x \<in> set (executions db'). ex_action_id x = ls_action_id lease1 \<and> unresolved_execution x
           \<and> ex_error_code x = Some ''lease_expired'') \<and>
        (\<forall>c' tokens' later. (\<forall>x \<in> set (executions db'). ex_action_id x \<noteq> cl_action_id c') \<longrightarrow>
           claim_execution c' tokens' later db'
             = (Inl (AuthorizationError ''execution_busy''), db')))"
  by (rule lost_lease_fences [OF reachable_db5])
    (simp_all add: claim1_def action0_def iso_timestamp_def whole_second_def)

lemma resolved_closed:
  assumes inv: "lock_inv db" and "resolve_recovery a r h t db = (Inr doc, db')"
  shows "\<forall>x \<in> set (executions db'). \<not> open_execution x"
    and "\<forall>l \<in> set (leases db'). ls_state l = Ls_released"
proof -
  show closed: "\<forall>x \<in> set (executions db'). \<not> open_execution x"
  proof (cases rule: resolve_recovery_cases [of a r h t db])
    case same
    with assms(2) show ?thesis by simp
  next
    case (resolved row)
    have db': "db' = snd (resolve_recovery a r h t db)" using assms(2) by simp
    have only: "x = row" if "x \<in> set (executions db)" "open_execution x" for x
      using that inv resolved(1,3) by (auto simp: lock_inv_def single_open_def open_execution_def)
    show ?thesis
    proof
      fix x assume "x \<in> set (executions db')"
      then obtain y where y: "y \<in> set (executions db)"
          "x = (if ex_action_id y = a \<and> unresolved_execution y
                then resolve_row r h (iso_timestamp t) y else y)"
        by (auto simp: db' resolved(5) set_update_where)
      have "\<not> open_execution (resolve_row r h (iso_timestamp t) row)"
        using resolved(3)
        by (simp add: open_execution_def resolve_row_def active_execution_def unresolved_execution_def)
      moreover have "open_execution y" if "unresolved_execution y"
        using that by (simp add: open_execution_def)
      ultimately show "\<not> open_execution x"
        using y only [OF y(1)] resolved(2,3) by (auto split: if_splits)
    qed
  qed
  have "lock_inv db'" using resolve_recovery_lock_inv [OF inv, of a r h t] assms(2) by simp
  with closed show "\<forall>l \<in> set (leases db'). ls_state l = Ls_released"
    by (auto simp: lock_inv_def leases_track_def lease_state_for_open)
qed

text \<open>A recorded recovery decision is what lifts the fence.  When \<open>resolve_recovery\<close> succeeds in a
reachable store, the execution keeps its state and gains the decision, no execution is open and
every lease is released; the decision cannot be recorded a second time.\<close>

theorem recovery_unlocks:
  assumes "reachable_store env db" and "resolve_recovery a r h t db = (Inr doc, db')"
  shows "(\<exists>x \<in> set (executions db'). ex_action_id x = a \<and> ex_state x = Ex_recovery_required \<and>
            ex_recovery_resolution x = Some r \<and> ex_recovery_evidence_hash x = Some h \<and>
            doc = execution_document_of x)
    \<and> (\<forall>x \<in> set (executions db'). \<not> open_execution x)
    \<and> (\<forall>l \<in> set (leases db'). ls_state l = Ls_released)
    \<and> fst (resolve_recovery a r' h' t' db')
        = Inl (AuthorizationError ''recovery_already_resolved'')"
proof -
  have inv: "lock_inv db" using reachable_store_inv [OF assms(1)] by blast
  show ?thesis
  proof (cases rule: resolve_recovery_cases [of a r h t db])
    case same
    with assms(2) show ?thesis by simp
  next
    case (resolved row)
    let ?row = "resolve_row r h (iso_timestamp t) row"
    have db': "db' = snd (resolve_recovery a r h t db)" and doc: "doc = execution_document_of ?row"
      using assms(2) resolved(4) by simp_all
    have inv': "lock_inv db'" unfolding db' using inv by (rule resolve_recovery_lock_inv)
    have keys: "distinct (map ex_action_id (executions db))" "distinct (map ex_action_id (executions db'))"
      using inv inv' by (simp_all add: lock_inv_def execution_keys_def)
    have row': "?row \<in> set (executions db')" "ex_action_id ?row = a"
      using resolved(1-3) by (auto simp: db' resolved(5) set_update_where resolve_row_def)
    note closed = resolved_closed [OF inv assms(2)]
    have "fst (resolve_recovery a r' h' t' db')
        = Inl (AuthorizationError ''recovery_already_resolved'')"
      using select_one_key_eq [OF keys(2) row'] resolved(3)
      by (simp add: resolve_recovery_def transaction_result Let_def resolve_row_def
          unresolved_execution_def)
    with closed row' resolved(3) doc show ?thesis
      by (auto simp: resolve_row_def unresolved_execution_def intro!: bexI [of _ ?row])
  qed
qed

definition db6 :: auth_db where
  "db6 = snd (recover_incomplete_executions 6000000 db5)"

definition execution6 :: execution where
  "execution6 = execution0\<lparr>ex_state := Ex_recovery_required,
     ex_error_code := Some ''broker_restarted'', ex_updated_at := 6000000,
     ex_finished_at := Some 6000000\<rparr>"

lemma execution0_active [simp]: "active_execution execution0"
  by (simp add: active_execution_def)

lemma db6_executions [simp]: "executions db6 = [execution6]"
  by (simp add: db6_def recover_incomplete_executions_def execution6_def iso_timestamp_def
      whole_second_def Let_def)

lemma reachable_db6: "reachable_store env0 db6"
  unfolding db6_def by (rule reachable_store_step [OF reachable_db5 auth_step.restart])

lemma db6_resolved:
  "fst (resolve_recovery action0 Confirmed_healthy ''h'' 7000000 db6)
     = Inr (execution_document_of
         (resolve_row Confirmed_healthy ''h'' 7000000 execution6))"
  by (simp add: resolve_recovery_def transaction_result Let_def execution6_def rowcount_def
      unresolved_execution_def resolve_row_def iso_timestamp_def whole_second_def)

theorem recovery_unlocks_witness:
  "\<exists>doc db'. resolve_recovery action0 Confirmed_healthy ''h'' 7000000 db6 = (Inr doc, db') \<and>
     (\<forall>l \<in> set (leases db'). ls_state l = Ls_released) \<and>
     fst (resolve_recovery action0 Confirmed_healthy ''h'' 8000000 db')
       = Inl (AuthorizationError ''recovery_already_resolved'')"
proof -
  obtain doc db' where run:
      "resolve_recovery action0 Confirmed_healthy ''h'' 7000000 db6 = (Inr doc, db')"
    using db6_resolved by (metis prod.collapse)
  from recovery_unlocks [OF reachable_db6 run] run show ?thesis by blast
qed

text \<open>A restart leaves nothing running.  \<open>recover_incomplete_executions\<close> reports at most one
execution; afterwards none is active and no lease is, the interrupted one waits for a recovery
decision with \<open>broker_restarted\<close>, every execution that was not active is untouched, and running
it again changes nothing.\<close>

theorem restart_recovers:
  assumes "reachable_store env db" and run: "recover_incomplete_executions t db = (n, db')"
  shows "n \<le> 1 \<and> (\<forall>x \<in> set (executions db'). \<not> active_execution x) \<and>
    (\<forall>l \<in> set (leases db'). ls_state l \<noteq> Ls_active) \<and>
    (\<forall>x \<in> set (executions db). if active_execution x
       then \<exists>y \<in> set (executions db'). ex_action_id y = ex_action_id x \<and> unresolved_execution y \<and>
              ex_error_code y = Some ''broker_restarted''
       else x \<in> set (executions db')) \<and>
    recover_incomplete_executions t' db' = (0, db')"
proof -
  have inv: "lock_inv db" using reachable_store_inv [OF assms(1)] by blast
  let ?r = "\<lambda>x. x\<lparr>ex_state := Ex_recovery_required, ex_error_code := Some ''broker_restarted'',
      ex_updated_at := iso_timestamp t, ex_finished_at := Some (iso_timestamp t)\<rparr>"
  have xs: "executions db' = update_where active_execution ?r (executions db)"
    and n: "n = rowcount active_execution (executions db)"
    and ls: "leases db' = recover_active_leases (\<lambda>_. True) (iso_timestamp t) (leases db)"
    using run by (auto simp: recover_incomplete_executions_def Let_def)
  have quiet: "\<forall>x \<in> set (executions db'). \<not> active_execution x"
    by (auto simp: xs set_update_where) (simp_all add: active_execution_def)
  have idle: "\<forall>l \<in> set (leases db'). ls_state l \<noteq> Ls_active"
    by (auto simp: ls recover_active_leases_def set_update_where)
  have "n \<le> length (filter open_execution (executions db))"
    unfolding n rowcount_def by (rule filter_length_mono) (simp add: open_execution_def)
  also have "\<dots> \<le> 1"
  proof (rule distinct_all_equal)
    show "distinct (filter open_execution (executions db))"
      using inv by (auto simp: lock_inv_def execution_keys_def distinct_map)
    show "x = y" if "x \<in> set (filter open_execution (executions db))"
        "y \<in> set (filter open_execution (executions db))" for x y
      using that inv by (auto simp: lock_inv_def single_open_def)
  qed
  finally have count: "n \<le> 1" .
  have moved: "if active_execution x
       then \<exists>y \<in> set (executions db'). ex_action_id y = ex_action_id x \<and> unresolved_execution y \<and>
              ex_error_code y = Some ''broker_restarted''
       else x \<in> set (executions db')" if x: "x \<in> set (executions db)" for x
  proof (cases "active_execution x")
    case True
    have "ex_recovery_resolution x = None"
      using inv x True
      by (auto simp: lock_inv_def resolution_only_in_recovery_def active_execution_def)
    then have "unresolved_execution (?r x)" by (simp add: unresolved_execution_def)
    with update_where_hit [where p = active_execution and f = ?r, OF x True] True show ?thesis
      unfolding xs by (auto intro!: bexI [of _ "?r x"])
  next
    case False
    with x show ?thesis by (auto simp: xs update_where_mem)
  qed
  have "recover_incomplete_executions t' db' = (0, db')"
    using quiet idle
    by (simp add: recover_incomplete_executions_def Let_def recover_active_leases_def
        update_where_id rowcount_0_iff)
  with quiet idle count moved show ?thesis by blast
qed

theorem restart_recovers_witness:
  "\<exists>n. recover_incomplete_executions 6000000 db5 = (n, db6) \<and> n \<le> 1 \<and>
     (\<forall>x \<in> set (executions db6). \<not> active_execution x) \<and>
     recover_incomplete_executions 9000000 db6 = (0, db6)"
proof -
  obtain n where run: "recover_incomplete_executions 6000000 db5 = (n, db6)"
    unfolding db6_def by (metis prod.collapse)
  from restart_recovers [OF reachable_db5 run] run show ?thesis by blast
qed

section \<open>Passkey counters\<close>

text \<open>The signature counter of a passkey only moves forward: over every step of the store each
enrolled passkey stays, with its owner and its public data, and its counter never decreases.\<close>

theorem passkey_counter_monotone:
  assumes "auth_step env db db'" and "k \<in> set (passkeys db)"
  shows "\<exists>k' \<in> set (passkeys db').
     pk_credential_id k' = pk_credential_id k \<and> pk_user_id_hash k' = pk_user_id_hash k \<and>
     pk_credential_data k' = pk_credential_data k \<and> pk_sign_count k \<le> pk_sign_count k'"
  using assms(1)
proof (cases rule: auth_step.cases)
  case (add_credential cid cd uh n t)
  with assms(2) show ?thesis using add_credential_cases [of cid cd uh n t db] by force
next
  case (update_counter cid old new t)
  let ?hit = "\<lambda>r. pk_credential_id r = cid \<and> pk_sign_count r = old"
  from update_counter_cases [of cid old new t db] show ?thesis
  proof (elim disjE exE conjE)
    assume "snd (Auth_Store.update_counter cid old new t db) = db"
    with update_counter assms(2) show ?thesis by auto
  next
    fix nx assume "old \<le> nx" and
      "snd (Auth_Store.update_counter cid old new t db) = db\<lparr>passkeys := update_where ?hit
        (\<lambda>r. r\<lparr>pk_sign_count := nx, pk_last_used_at := Some (iso_timestamp t)\<rparr>) (passkeys db)\<rparr>"
    with update_counter have db': "passkeys db' = update_where ?hit
        (\<lambda>r. r\<lparr>pk_sign_count := nx, pk_last_used_at := Some (iso_timestamp t)\<rparr>) (passkeys db)"
      by simp
    show ?thesis
      unfolding db' using assms(2) by (rule update_where_survives) (use \<open>old \<le> nx\<close> in simp_all)
  qed
qed (use assms(2) in \<open>auto simp: frames\<close>)

theorem passkey_counter_monotone_witness:
  "let k = \<lparr>pk_credential_id = ''cred'', pk_credential_data = ''data'', pk_user_id_hash = ''user'',
        pk_sign_count = 3, pk_created_at = 0, pk_last_used_at = None\<rparr>;
       db = empty_db\<lparr>passkeys := [k]\<rparr>
   in \<exists>k' \<in> set (passkeys (snd (update_counter ''cred'' 3 7 0 db))).
     pk_credential_id k' = pk_credential_id k \<and> pk_user_id_hash k' = pk_user_id_hash k \<and>
     pk_credential_data k' = pk_credential_data k \<and> pk_sign_count k \<le> pk_sign_count k'"
  unfolding Let_def by (rule passkey_counter_monotone [OF auth_step.update_counter]) simp

text \<open>An assertion is accepted once.  When \<open>update_counter\<close> accepts a counter, other than the zero of an
authenticator that does not count, the counter has grown past the stored one, and a second
update from the same stored counter is refused and changes nothing.\<close>

theorem assertion_replay_refused:
  assumes run: "update_counter cid old new t db = (Inr (), post)" and "old \<noteq> 0 \<or> new \<noteq> 0"
  shows "old < new \<and> (\<exists>e. update_counter cid old new' t' post = (Inl (AuthorizationError e), post))"
proof -
  let ?hit = "\<lambda>r. pk_credential_id r = cid \<and> pk_sign_count r = old"
  from assms have less: "old < new"
    by (auto simp: update_counter_def split: if_splits)
  have "post = db\<lparr>passkeys := update_where ?hit
      (\<lambda>r. r\<lparr>pk_sign_count := new, pk_last_used_at := Some (iso_timestamp t)\<rparr>) (passkeys db)\<rparr>"
    using less assms by (simp add: update_counter_def transaction_def Let_def split: if_splits)
  from arg_cong [OF this, of passkeys] have post: "passkeys post = update_where ?hit
      (\<lambda>r. r\<lparr>pk_sign_count := new, pk_last_used_at := Some (iso_timestamp t)\<rparr>) (passkeys db)"
    by simp
  have "\<not> ?hit r" if mem: "r \<in> set (passkeys post)" for r
  proof -
    obtain s where s: "r = (if ?hit s
        then s\<lparr>pk_sign_count := new, pk_last_used_at := Some (iso_timestamp t)\<rparr> else s)"
      using mem unfolding post update_where_mem by blast
    show ?thesis by (cases "?hit s") (use s less in simp_all)
  qed
  then have "rowcount ?hit (passkeys post) = 0" by (simp add: rowcount_0_iff)
  then have "\<exists>e. update_counter cid old new' t' post = (Inl (AuthorizationError e), post)"
    by (simp add: update_counter_def transaction_def Let_def)
  with less show ?thesis by blast
qed

theorem assertion_replay_refused_witness:
  "\<exists>post. update_counter ''cred'' 3 7 0 (empty_db\<lparr>passkeys :=
       [\<lparr>pk_credential_id = ''cred'', pk_credential_data = ''data'', pk_user_id_hash = ''user'',
        pk_sign_count = 3, pk_created_at = 0, pk_last_used_at = None\<rparr>]\<rparr>) = (Inr (), post) \<and>
     (3::int) < 7 \<and> (\<exists>e. update_counter ''cred'' 3 7 9 post = (Inl (AuthorizationError e), post))"
proof -
  let ?db = "empty_db\<lparr>passkeys :=
       [\<lparr>pk_credential_id = ''cred'', pk_credential_data = ''data'', pk_user_id_hash = ''user'',
        pk_sign_count = 3, pk_created_at = 0, pk_last_used_at = None\<rparr>]\<rparr>"
  obtain post where run: "update_counter ''cred'' 3 7 0 ?db = (Inr (), post)"
    by (simp add: update_counter_def transaction_def Let_def rowcount_def)
  from assertion_replay_refused [OF run, of 7 9] run show ?thesis by auto
qed

end
