(* ===== verification/Execution_Properties.thy ===== *)
theory Execution_Properties
  imports Execution_Example Auth_History Auth_Properties
begin

text \<open>
  What the execution manager guarantees, also when other operations of the store, other requests and
  crashes come between its transactions: a running Broker is a store, at most one call in flight and
  the log of the restarts it posted, and its steps interleave freely.
\<close>

section \<open>The effect of a phase on the store\<close>

lemma legal_updates [simp]:
  "legal_update (failed_update c pf)" "legal_update (started_update d)"
  "legal_update verifying_update" "legal_update (final_update ok d)"
  "legal_update (uncertain_update Ex_executing c)" "legal_update (uncertain_update Ex_verifying c)"
  by (simp_all add: legal_update_def failed_update_def started_update_def verifying_update_def
      final_update_def uncertain_update_def)

lemma finish_with_db:
  "snd (finish_with a u now db) = snd (update_execution a u now db)"
  by (simp add: finish_with_def split: prod.splits sum.splits)

lemma continue_with_db:
  "snd (continue_with a u now ph db) = snd (update_execution a u now db)"
  by (simp add: continue_with_def split: prod.splits sum.splits)

lemma beat_with_db:
  "snd (beat_with cfg a now ph db) =
     snd (heartbeat_execution_leases a (xc_instance_id cfg) now (xc_lease_ttl_seconds cfg) db)"
  by (simp add: beat_with_def split: prod.splits sum.splits)

lemma finish_with_finished: "\<exists>r. fst (finish_with a u now db) = Finished r"
  by (simp add: finish_with_def split: prod.splits sum.splits)

definition store_stays :: "pyenv \<Rightarrow> auth_db \<Rightarrow> auth_db \<Rightarrow> bool" where
  "store_stays env db db' \<longleftrightarrow> db' = db \<or> auth_step env db db'"

lemma finish_with_stays: "legal_update u \<Longrightarrow> store_stays env db (snd (finish_with a u now db))"
  by (simp add: store_stays_def finish_with_db auth_step.update)

lemma continue_with_stays:
  "legal_update u \<Longrightarrow> store_stays env db (snd (continue_with a u now ph db))"
  by (simp add: store_stays_def continue_with_db auth_step.update)

lemma beat_with_stays: "store_stays env db (snd (beat_with cfg a now ph db))"
  by (simp add: store_stays_def beat_with_db auth_step.heartbeat)

lemma step_claim_db:
  "snd (step_claim env cfg inp pl db)
     = snd (claim_execution (claim_of env cfg pl) (xi_tokens inp) (xi_now_claim inp) db)"
  by (simp add: step_claim_def split: prod.splits sum.splits)

lemma exec_step_stays: "store_stays env db (snd (exec_step env cfg loads inp ph db))"
proof (cases ph)
  case (At_claim pl)
  then show ?thesis by (simp add: store_stays_def step_claim_db auth_step.claim)
next
  case (At_revalidate pl x)
  then show ?thesis
    by (auto simp: step_revalidate_def Let_def store_stays_def [of env db db]
        intro: finish_with_stays continue_with_stays split: sum.splits exn.splits)
next
  case (At_restarted pl a t r)
  then show ?thesis
    by (auto simp: step_restarted_def store_stays_def [of env db db]
        intro: finish_with_stays continue_with_stays split: sum.splits exn.splits)
next
  case (At_after pl a t)
  then show ?thesis
    by (auto simp: step_after_def store_stays_def [of env db db]
        intro: finish_with_stays split: sum.splits exn.splits)
qed (auto simp: beat_with_stays store_stays_def [of env db db])

section \<open>The end of a call\<close>

fun phase_rank :: "exec_phase \<Rightarrow> nat" where
  "phase_rank (At_claim _) = 7"
| "phase_rank (At_revalidate _ _) = 6"
| "phase_rank (At_beat1 _ _ _) = 5"
| "phase_rank (At_restart _ _ _) = 4"
| "phase_rank (At_restarted _ _ _ _) = 3"
| "phase_rank (At_beat2 _ _ _) = 2"
| "phase_rank (At_after _ _ _) = 1"
| "phase_rank (Finished _) = 0"

lemma phase_rank_0: "phase_rank ph = 0 \<longleftrightarrow> (\<exists>r. ph = Finished r)"
  by (cases ph) auto

lemma finish_with_rank [simp]: "phase_rank (fst (finish_with a u now db)) = 0"
  using finish_with_finished phase_rank_0 by blast







text \<open>A disabled or busy manager touches nothing.  With execution disabled, with \<open>restart_addon\<close> not
enabled, or while another call holds the lock, \<open>execute\<close> raises, the store is as it was and no
restart is posted.\<close>

theorem disabled_executes_nothing:
  assumes "\<not> xc_execution_enabled cfg \<or> ''restart_addon'' \<notin> xc_enabled_actions cfg \<or> busy"
  shows "\<exists>e. execute env cfg loads inp busy request db = (Finished (Inl e), db, [])"
proof -
  have "run_phases n env cfg loads inp (Finished r) db = (Finished r, db, [])" for n r
    by (induction n) simp_all
  moreover have "\<exists>e. admit cfg busy request = Inl e"
    using assms by (cases "as_authorization_error (validate_execution_request request)")
      (auto simp: admit_def)
  ultimately show ?thesis by (auto simp: execute_def prepare_def)
qed

theorem disabled_executes_nothing_witness:
  "\<exists>e. execute env0 (exec_config0\<lparr>xc_execution_enabled := False\<rparr>) (\<lambda>_. None) input0 False JNull db4
     = (Finished (Inl e), db4, [])"
  by (rule disabled_executes_nothing) simp

section \<open>A running Broker\<close>

record broker_state =
  bs_db :: auth_db
  bs_call :: "(exec_input \<times> exec_phase) option"
  bs_restarts :: "(string \<times> http_call) list"

text \<open>
  One step: any operation of the store by another thread or process, the start of a call when the
  lock is free, one phase of the call in flight, its return, or a crash followed by the recovery of
  the new process.
\<close>

inductive broker_step ::
  "pyenv \<Rightarrow> exec_config \<Rightarrow> loads \<Rightarrow> broker_state \<Rightarrow> broker_state \<Rightarrow> bool" for env cfg loads where
  other: "auth_step env (bs_db s) db' \<Longrightarrow> broker_step env cfg loads s (s\<lparr>bs_db := db'\<rparr>)"
| accept: "bs_call s = None \<Longrightarrow>
     broker_step env cfg loads s
       (s\<lparr>bs_call := Some (inp, prepare env cfg loads inp False req (bs_db s))\<rparr>)"
| advance: "bs_call s = Some (inp, ph) \<Longrightarrow>
     broker_step env cfg loads s
       (s\<lparr>bs_db := snd (exec_step env cfg loads inp ph (bs_db s)),
          bs_call := Some (inp, fst (exec_step env cfg loads inp ph (bs_db s))),
          bs_restarts := bs_restarts s @ phase_restarts ph\<rparr>)"
| return: "bs_call s = Some (inp, Finished r) \<Longrightarrow> broker_step env cfg loads s (s\<lparr>bs_call := None\<rparr>)"
| crash: "broker_step env cfg loads s
     (s\<lparr>bs_db := snd (recover_incomplete_executions t (bs_db s)), bs_call := None\<rparr>)"

text \<open>An execution of the action has left \<open>authorized\<close>, and its target is an allowlisted slug.\<close>

definition started :: "exec_config \<Rightarrow> auth_db \<Rightarrow> string \<Rightarrow> string \<Rightarrow> bool" where
  "started cfg db a t \<longleftrightarrow>
     t \<in> xc_restart_addon_allowlist cfg \<and>
     (\<exists>x \<in> set (executions db). ex_action_id x = a \<and> ex_target x = t \<and> ex_state x \<noteq> Ex_authorized)"

fun phase_ok :: "exec_config \<Rightarrow> auth_db \<Rightarrow> (string \<times> http_call) list \<Rightarrow> exec_phase \<Rightarrow> bool" where
  "phase_ok cfg db posted (At_claim pl) \<longleftrightarrow>
     pl_proposal pl \<in> set (proposals db) \<and>
     pr_action_id (pl_proposal pl) = er_action_id (pl_request pl) \<and>
     pr_target (pl_proposal pl) \<in> xc_restart_addon_allowlist cfg"
| "phase_ok cfg db posted (At_revalidate pl x) \<longleftrightarrow>
     ex_target x \<in> xc_restart_addon_allowlist cfg \<and>
     (\<exists>y \<in> set (executions db). same_identity x y)"
| "phase_ok cfg db posted (At_beat1 pl a t) \<longleftrightarrow> started cfg db a t \<and> a \<notin> fst ` set posted"
| "phase_ok cfg db posted (At_restart pl a t) \<longleftrightarrow> started cfg db a t \<and> a \<notin> fst ` set posted"
| "phase_ok cfg db posted _ \<longleftrightarrow> True"

definition call_ok :: "exec_config \<Rightarrow> broker_state \<Rightarrow> bool" where
  "call_ok cfg s \<longleftrightarrow>
     (case bs_call s of None \<Rightarrow> True | Some (inp, ph) \<Rightarrow> phase_ok cfg (bs_db s) (bs_restarts s) ph)"

definition log_ok :: "exec_config \<Rightarrow> auth_db \<Rightarrow> (string \<times> http_call) list \<Rightarrow> bool" where
  "log_ok cfg db posted \<longleftrightarrow>
     distinct (map fst posted) \<and>
     (\<forall>(a, c) \<in> set posted. \<exists>t. c = Http_post (restart_path t) \<and> started cfg db a t)"

definition broker_inv :: "exec_config \<Rightarrow> broker_state \<Rightarrow> bool" where
  "broker_inv cfg s \<longleftrightarrow>
     store_inv (bs_db s) \<and> log_ok cfg (bs_db s) (bs_restarts s) \<and> call_ok cfg s"

section \<open>The invariant over a change of the store\<close>

lemma lifecycle_leaves_authorized: "(a, b) \<in> lifecycle \<Longrightarrow> b \<noteq> Ex_authorized"
  by (auto simp: lifecycle_def)

lemma started_step:
  assumes "store_inv db" and "auth_step env db db'" and "started cfg db a t"
  shows "started cfg db' a t"
proof -
  from assms(3) obtain x where x: "x \<in> set (executions db)" "ex_action_id x = a" "ex_target x = t"
      "ex_state x \<noteq> Ex_authorized" and t: "t \<in> xc_restart_addon_allowlist cfg"
    by (auto simp: started_def)
  from auth_step_advance [OF assms(2) _ x(1)] assms(1) obtain y where
    y: "y \<in> set (executions db')" "exec_advance x y" by (auto simp: store_inv_def)
  with x have "ex_action_id y = a" "ex_target y = t" "ex_state y \<noteq> Ex_authorized"
    using lifecycle_leaves_authorized
    by (auto simp: exec_advance_def same_identity_def)
  with y(1) t show ?thesis by (auto simp: started_def)
qed

lemma same_identity_trans: "same_identity x y \<Longrightarrow> same_identity y z \<Longrightarrow> same_identity x z"
  by (simp add: same_identity_def)

lemma phase_ok_step:
  assumes "store_inv db" and "auth_step env db db'" and "phase_ok cfg db posted ph"
  shows "phase_ok cfg db' posted ph"
proof (cases ph)
  case (At_claim pl)
  with assms(3) auth_step_proposals [OF assms(2)] show ?thesis by auto
next
  case (At_revalidate pl x)
  with assms(3) obtain y where y: "y \<in> set (executions db)" "same_identity x y" by auto
  from auth_step_advance [OF assms(2) _ y(1)] assms(1) obtain z where
    "z \<in> set (executions db')" "same_identity y z"
    by (auto simp: store_inv_def exec_advance_def)
  with y same_identity_trans have "\<exists>z \<in> set (executions db'). same_identity x z" by blast
  with At_revalidate assms(3) show ?thesis by simp
qed (use assms started_step in auto)

lemma log_ok_step:
  assumes "store_inv db" and "auth_step env db db'" and "log_ok cfg db posted"
  shows "log_ok cfg db' posted"
  using assms(3) started_step [OF assms(1,2)] unfolding log_ok_def by fast

lemma store_stays_inv:
  assumes "store_stays env db db'" and "store_inv db"
  shows "store_inv db'" "log_ok cfg db posted \<Longrightarrow> log_ok cfg db' posted"
    "phase_ok cfg db posted ph \<Longrightarrow> phase_ok cfg db' posted ph"
    "started cfg db a t \<Longrightarrow> started cfg db' a t"
  using assms broker.inv_step log_ok_step phase_ok_step started_step
  unfolding store_stays_def by blast+

section \<open>The phases keep the invariant\<close>

lemma check_proposal_Inr:
  assumes "check_proposal env cfg v now db = Inr p"
  shows "p \<in> set (proposals db) \<and> pr_action_id p = er_action_id v \<and> now < pr_expires_at p \<and>
    pr_proposal_hash p = er_proposal_hash v \<and> pr_idempotency_key p = er_idempotency_key v \<and>
    pr_target p \<in> xc_restart_addon_allowlist cfg"
  using assms
  by (auto simp: check_proposal_def bind_result_Inr_iff get_native_proposal_def Let_def
      proposal_document_of_def split: option.splits if_splits dest!: select_one_Some_iff)

lemma prepare_ok: "phase_ok cfg db posted (prepare env cfg loads inp busy req db)"
proof (cases "prepare env cfg loads inp busy req db")
  case (At_claim pl)
  then obtain v where "plan_or_replay env cfg loads inp v db = Inr (Inl pl)"
    by (auto simp: prepare_def split: sum.splits)
  then obtain p where "check_proposal env cfg v (xi_now_proposal inp) db = Inr p"
      "pl_proposal pl = p" "pl_request pl = v"
    by (auto simp: plan_or_replay_def bind_result_Inr_iff split: option.splits)
  with check_proposal_Inr At_claim show ?thesis by auto
qed (auto simp: prepare_def split: sum.splits)

lemma claim_of_simps [simp]:
  "cl_action_id (claim_of env cfg pl) = er_action_id (pl_request pl)"
  "cl_receipt_id (claim_of env cfg pl) = er_receipt_id (pl_request pl)"
  by (simp_all add: claim_of_def)

lemma step_claim_ok:
  assumes inv: "store_inv db" and ok: "phase_ok cfg db posted (At_claim pl)"
  shows "phase_ok cfg (snd (step_claim env cfg inp pl db)) posted (fst (step_claim env cfg inp pl db))"
proof (cases rule: claim_cases [of "claim_of env cfg pl" "xi_tokens inp" "xi_now_claim inp" db])
  case (claimed r q p)
  have "pr_action_id p = pr_action_id (pl_proposal pl)" "p \<in> set (proposals db)"
    using select_receipt_join_Some [OF claimed(3)] claim_checks_ok(2) [OF claimed(4)] ok by simp_all
  with ok inv have "p = pl_proposal pl"
    by (auto simp: store_inv_def auth_inv_def distinct_map inj_on_def)
  with ok claimed(6) show ?thesis
    by (simp add: step_claim_def execution_document_of_def commit_db_def same_identity_def)
next
  case (refused e)
  then show ?thesis by (auto simp: step_claim_def split: prod.splits)
qed (simp_all add: step_claim_def)

text \<open>
  Leaving \<open>authorized\<close> is what makes the action fresh: no restart was logged for it before.
\<close>

lemma started_update_ok:
  assumes inv: "store_inv db" and posted: "log_ok cfg db posted"
    and ok: "phase_ok cfg db posted (At_revalidate pl x)"
    and run: "update_execution (ex_action_id x) (started_update d) now db = (Inr doc, db')"
  shows "started cfg db' (ex_action_id x) (ex_target x) \<and> ex_action_id x \<notin> fst ` set posted"
proof -
  let ?a = "ex_action_id x"
  from ok obtain y where y: "y \<in> set (executions db)" "same_identity x y" by auto
  have key: "u = v" if "u \<in> set (executions db)" "v \<in> set (executions db)"
      "ex_action_id u = ex_action_id v" for u v
    using that inv by (auto simp: store_inv_def lock_inv_def execution_keys_def distinct_map inj_on_def)
  show ?thesis
  proof (cases rule: update_execution_cases [of ?a "started_update d" now db])
    case (same e)
    with run show ?thesis by simp
  next
    case (updated row)
    from y updated(1,2) key have row: "row = y" by (auto simp: same_identity_def)
    have auth: "ex_state y = Ex_authorized" using updated(3) row by (simp add: started_update_def)
    have only: "z = y" if "z \<in> set (executions db)" "ex_action_id z = ?a" for z
      using key [OF that(1) y(1)] that(2) y(2) by (simp add: same_identity_def)
    have "\<not> started cfg db ?a t" for t
      using auth only unfolding started_def by blast
    with posted have "?a \<notin> fst ` set posted" unfolding log_ok_def by fastforce
    moreover have "apply_update (started_update d) (iso_timestamp now) y \<in> set (executions db')"
      using run updated(5) update_where_hit [OF y(1), where p = "\<lambda>x. ex_action_id x = ?a"] y(2)
      by (simp add: same_identity_def)
    then have "started cfg db' ?a (ex_target x)"
      using ok y(2) unfolding started_def
      by (auto simp: same_identity_def started_update_def
          intro!: bexI [of _ "apply_update (started_update d) (iso_timestamp now) y"])
    ultimately show ?thesis by simp
  qed
qed

lemma finish_with_ok: "phase_ok cfg db' posted (fst (finish_with a u now db))"
  using finish_with_finished [of a u now db] by auto

lemma continue_with_ok:
  "(\<And>doc db'. update_execution a u now db = (Inr doc, db') \<Longrightarrow> phase_ok cfg db' posted ph) \<Longrightarrow>
   phase_ok cfg (snd (continue_with a u now ph db)) posted (fst (continue_with a u now ph db))"
  by (auto simp: continue_with_def split: prod.splits sum.splits)

lemma beat_with_ok:
  assumes "store_inv db" and "phase_ok cfg db posted ph"
  shows "phase_ok cfg (snd (beat_with cfg a now ph db)) posted (fst (beat_with cfg a now ph db))"
proof -
  have "fst (beat_with cfg a now ph db) = ph \<or> (\<exists>r. fst (beat_with cfg a now ph db) = Finished r)"
    by (simp add: beat_with_def split: prod.splits sum.splits)
  with store_stays_inv(3) [OF beat_with_stays assms] show ?thesis by auto
qed

lemma step_revalidate_ok:
  assumes "store_inv db" and "log_ok cfg db posted" and "phase_ok cfg db posted (At_revalidate pl x)"
  shows "phase_ok cfg (snd (step_revalidate env loads inp pl x db)) posted
           (fst (step_revalidate env loads inp pl x db))"
proof -
  have "phase_ok cfg (snd (continue_with (ex_action_id x) (started_update d) now
            (At_beat1 pl (ex_action_id x) (ex_target x)) db)) posted
          (fst (continue_with (ex_action_id x) (started_update d) now
            (At_beat1 pl (ex_action_id x) (ex_target x)) db))" for d now
    using started_update_ok [OF assms] by (intro continue_with_ok) simp
  then show ?thesis
    by (auto simp: step_revalidate_def Let_def finish_with_ok split: sum.splits exn.splits)
qed

lemma exec_step_ok:
  assumes "store_inv db" and "log_ok cfg db posted" and "phase_ok cfg db posted ph"
  shows "phase_ok cfg (snd (exec_step env cfg loads inp ph db)) (posted @ phase_restarts ph)
           (fst (exec_step env cfg loads inp ph db))"
proof (cases ph)
  case (At_claim pl)
  with step_claim_ok [OF assms(1), of cfg posted pl] assms(3) show ?thesis by simp
next
  case (At_revalidate pl x)
  with step_revalidate_ok [OF assms(1,2), of pl x] assms(3) show ?thesis by simp
next
  case (At_beat1 pl a t)
  with beat_with_ok [OF assms(1), of cfg posted "At_restart pl a t"] assms(3) show ?thesis by simp
next
  case (At_beat2 pl a t)
  with beat_with_ok [OF assms(1), of cfg posted "At_after pl a t"] show ?thesis by simp
next
  case (At_restarted pl a t r)
  then show ?thesis
    by (auto simp: step_restarted_def finish_with_ok intro: continue_with_ok
        split: sum.splits exn.splits)
next
  case (At_after pl a t)
  then show ?thesis by (auto simp: step_after_def finish_with_ok split: sum.splits exn.splits)
qed auto

lemma log_ok_restart:
  assumes "log_ok cfg db posted" and "phase_ok cfg db posted ph"
  shows "log_ok cfg db (posted @ phase_restarts ph)"
proof (cases ph)
  case (At_restart pl a t)
  with assms show ?thesis by (auto simp: log_ok_def restart_addon_calls_def)
qed (use assms in simp_all)

interpretation running_broker: inv_system
  "\<lparr>bs_db = empty_db, bs_call = None, bs_restarts = []\<rparr>" "broker_step env cfg loads" "broker_inv cfg"
proof unfold_locales
  show "broker_inv cfg \<lparr>bs_db = empty_db, bs_call = None, bs_restarts = []\<rparr>"
    using broker.inv_start by (simp add: broker_inv_def log_ok_def call_ok_def)
  fix s t assume inv: "broker_inv cfg s" and step: "broker_step env cfg loads s t"
  then have st: "store_inv (bs_db s)" "log_ok cfg (bs_db s) (bs_restarts s)" "call_ok cfg s"
    by (simp_all add: broker_inv_def)
  from step show "broker_inv cfg t"
  proof (cases rule: broker_step.cases)
    case (other db')
    then have "store_stays env (bs_db s) db'" by (simp add: store_stays_def)
    with store_stays_inv [OF this st(1)] st other show ?thesis
      by (auto simp: broker_inv_def call_ok_def split: option.splits)
  next
    case (accept inp req)
    with st prepare_ok show ?thesis by (simp add: broker_inv_def call_ok_def)
  next
    case (advance inp ph)
    with st have ph: "phase_ok cfg (bs_db s) (bs_restarts s) ph" by (simp add: call_ok_def)
    with exec_step_ok [OF st(1,2) ph] log_ok_restart [OF st(2) ph]
      store_stays_inv(1,2) [OF exec_step_stays st(1)] advance
    show ?thesis by (simp add: broker_inv_def call_ok_def)
  next
    case (return inp r)
    with st show ?thesis by (simp add: broker_inv_def call_ok_def)
  next
    case (crash t')
    have "store_stays env (bs_db s) (snd (recover_incomplete_executions t' (bs_db s)))"
      by (simp add: store_stays_def auth_step.restart)
    with store_stays_inv [OF this st(1)] st crash show ?thesis
      by (simp add: broker_inv_def call_ok_def)
  qed
qed

definition reachable_broker :: "pyenv \<Rightarrow> exec_config \<Rightarrow> loads \<Rightarrow> broker_state \<Rightarrow> bool" where
  "reachable_broker env cfg loads s \<longleftrightarrow>
     reach \<lparr>bs_db = empty_db, bs_call = None, bs_restarts = []\<rparr> (broker_step env cfg loads) s"

text \<open>C8: At most one restart per approval.  In every state a running Broker reaches, whatever else
happened to the store between its transactions and however often it crashed: no action was ever
restarted twice, and every restart that was posted went to the path of one allowlisted add-on and
belongs to an execution, of that action and that target, which had left \<open>authorized\<close> and which one
consumed, passkey-verified receipt paid for.\<close>

theorem restart_safety:
  assumes "reachable_broker env cfg loads s"
  shows "distinct (map fst (bs_restarts s)) \<and>
    (\<forall>(a, c) \<in> set (bs_restarts s). \<exists>x \<in> set (executions (bs_db s)). \<exists>r \<in> set (receipts (bs_db s)).
       ex_action_id x = a \<and> c = Http_post (restart_path (ex_target x)) \<and>
       ex_target x \<in> xc_restart_addon_allowlist cfg \<and> ex_state x \<noteq> Ex_authorized \<and>
       rc_receipt_id r = ex_receipt_id x \<and> rc_proposal_hash r = ex_proposal_hash x \<and>
       rc_consumed_at r \<noteq> None \<and> rc_assurance r = ''passkey_verified'')"
proof -
  have inv: "broker_inv cfg s"
    using assms running_broker.invariant unfolding reachable_broker_def by blast
  then have backed: "execution_backed (bs_db s) x" if "x \<in> set (executions (bs_db s))" for x
    using that by (simp add: broker_inv_def store_inv_def auth_inv_def)
  have "\<exists>x \<in> set (executions (bs_db s)). \<exists>r \<in> set (receipts (bs_db s)).
       ex_action_id x = a \<and> c = Http_post (restart_path (ex_target x)) \<and>
       ex_target x \<in> xc_restart_addon_allowlist cfg \<and> ex_state x \<noteq> Ex_authorized \<and>
       rc_receipt_id r = ex_receipt_id x \<and> rc_proposal_hash r = ex_proposal_hash x \<and>
       rc_consumed_at r \<noteq> None \<and> rc_assurance r = ''passkey_verified''"
    if ac: "(a, c) \<in> set (bs_restarts s)" for a c
  proof -
    from inv ac obtain t where t: "c = Http_post (restart_path t)" "started cfg (bs_db s) a t"
      by (auto simp: broker_inv_def log_ok_def)
    then obtain x where x: "x \<in> set (executions (bs_db s))" "ex_action_id x = a" "ex_target x = t"
        "ex_state x \<noteq> Ex_authorized" "t \<in> xc_restart_addon_allowlist cfg"
      by (auto simp: started_def)
    with t(1) backed [OF x(1)] show ?thesis unfolding execution_backed_def by blast
  qed
  with inv show ?thesis by (auto simp: broker_inv_def log_ok_def)
qed

section \<open>The example run as a running Broker\<close>

definition broker0 :: "auth_db \<Rightarrow> exec_phase \<Rightarrow> (string \<times> http_call) list \<Rightarrow> broker_state" where
  "broker0 db ph posted = \<lparr>bs_db = db, bs_call = Some (input0, ph), bs_restarts = posted\<rparr>"

lemma broker0_advance:
  assumes "reachable_broker env cfg loads (broker0 db ph posted)"
    and "exec_step env cfg loads input0 ph db = (ph', db')"
  shows "reachable_broker env cfg loads (broker0 db' ph' (posted @ phase_restarts ph))"
  using reach.next_state [OF assms(1) [unfolded reachable_broker_def],
      OF broker_step.advance [of "broker0 db ph posted" input0 ph]] assms(2)
  by (simp add: broker0_def reachable_broker_def)

lemma reachable_idle_broker:
  assumes "reachable_store env db"
  shows "reachable_broker env cfg loads \<lparr>bs_db = db, bs_call = None, bs_restarts = []\<rparr>"
  using assms unfolding reachable_store_def
proof (induction rule: reach.induct)
  case start
  then show ?case unfolding reachable_broker_def by (rule reach.start)
next
  case (next_state s t)
  from broker_step.other [of env "\<lparr>bs_db = s, bs_call = None, bs_restarts = []\<rparr>" t] next_state
  show ?case unfolding reachable_broker_def by (auto intro: reach.next_state)
qed

lemma reachable_done:
  "reachable_broker env0 exec_config0 loads0
     (broker0 db_done (Finished (Inr (execution_document_of execution_done, False)))
        [(action0, Http_post ''/addons/demo/restart'')])"
proof -
  have "reachable_broker env0 exec_config0 loads0 (broker0 db4 (At_claim plan0) [])"
    using reach.next_state [OF reachable_idle_broker [OF reachable_db4, unfolded reachable_broker_def],
        OF broker_step.accept [of _ env0 exec_config0 loads0 input0 execution_json0]] prepare0
    by (simp add: broker0_def reachable_broker_def)
  from broker0_advance [OF this phase_claim0]
  have "reachable_broker env0 exec_config0 loads0 (broker0 db5 (At_revalidate plan0 execution0) [])"
    by simp
  from broker0_advance [OF broker0_advance [OF this phase_revalidate0] phase_beat0]
  have "reachable_broker env0 exec_config0 loads0
      (broker0 db_beaten (At_restart plan0 action0 ''demo'') [])"
    by simp
  from broker0_advance [OF this phase_restart0(1)]
  have "reachable_broker env0 exec_config0 loads0
      (broker0 db_beaten (At_restarted plan0 action0 ''demo'' (Inr ()))
        [(action0, Http_post ''/addons/demo/restart'')])"
    by (simp only: phase_restart0(2) append_Nil)
  from broker0_advance [OF broker0_advance [OF broker0_advance [OF this phase_restarted0]
        phase_beat20(1)] phase_after0]
  show ?thesis by simp
qed

theorem restart_safety_witness:
  "bs_restarts (broker0 db_done (Finished (Inr (execution_document_of execution_done, False)))
        [(action0, Http_post ''/addons/demo/restart'')]) \<noteq> [] \<and>
   (\<exists>x \<in> set (executions db_done). ex_action_id x = action0 \<and> ex_state x \<noteq> Ex_authorized \<and>
      ''/addons/demo/restart'' = restart_path (ex_target x))"
  using restart_safety [OF reachable_done] by (simp add: broker0_def) blast

section \<open>What the result of a call means\<close>

text \<open>
  Along one call the restarts posted so far are determined by the phase, and the state a document
  reports by the updates before it.
\<close>

fun outcome_ok ::
  "loads \<Rightarrow> exec_input \<Rightarrow> (string \<times> http_call) list \<Rightarrow> exec_phase \<Rightarrow> bool" where
  "outcome_ok loads inp posted (At_claim pl) \<longleftrightarrow>
     posted = [] \<and> (\<exists>s. addon_info loads s (xi_before inp) = Inr (pl_before pl))"
| "outcome_ok loads inp posted (At_revalidate pl x) \<longleftrightarrow>
     posted = [] \<and> (\<exists>s. addon_info loads s (xi_before inp) = Inr (pl_before pl))"
| "outcome_ok loads inp posted (At_beat1 pl a t) \<longleftrightarrow>
     posted = [] \<and> ADDON_SLUG_RE t \<and>
     (\<exists>s. addon_info loads s (xi_before inp) = Inr (pl_before pl))"
| "outcome_ok loads inp posted (At_restart pl a t) \<longleftrightarrow>
     posted = [] \<and> ADDON_SLUG_RE t \<and>
     (\<exists>s. addon_info loads s (xi_before inp) = Inr (pl_before pl))"
| "outcome_ok loads inp posted (At_restarted pl a t r) \<longleftrightarrow>
     posted = [(a, Http_post (restart_path t))] \<and> r = restart_addon loads t (xi_restart inp) \<and>
     (\<exists>s. addon_info loads s (xi_before inp) = Inr (pl_before pl))"
| "outcome_ok loads inp posted (At_beat2 pl a t) \<longleftrightarrow>
     posted = [(a, Http_post (restart_path t))] \<and> restart_addon loads t (xi_restart inp) = Inr () \<and>
     (\<exists>s. addon_info loads s (xi_before inp) = Inr (pl_before pl))"
| "outcome_ok loads inp posted (At_after pl a t) \<longleftrightarrow>
     posted = [(a, Http_post (restart_path t))] \<and> restart_addon loads t (xi_restart inp) = Inr () \<and>
     (\<exists>s. addon_info loads s (xi_before inp) = Inr (pl_before pl))"
| "outcome_ok loads inp posted (Finished (Inl e)) \<longleftrightarrow> True"
| "outcome_ok loads inp posted (Finished (Inr (d, replayed))) \<longleftrightarrow>
     replayed \<and> posted = [] \<or>
     \<not> replayed \<and> ex_state (xd_row d) = Ex_failed \<and> posted = [] \<or>
     \<not> replayed \<and> (\<exists>t. posted = [(ex_action_id (xd_row d), Http_post (restart_path t))] \<and>
       (ex_state (xd_row d) = Ex_recovery_required \<or>
        ex_state (xd_row d) = Ex_succeeded \<and> restart_addon loads t (xi_restart inp) = Inr () \<and>
        (\<exists>s before after. addon_info loads s (xi_before inp) = Inr before \<and>
           addon_info loads t (xi_after inp) = Inr after \<and>
           get_field after ''slug'' = JStr t \<and> get_field after ''state'' = JStr ''started'' \<and>
           get_field after ''version'' = get_field before ''version'')))"

lemma updated_row:
  assumes "update_execution a u now db = (Inr d, db')"
  shows "ex_action_id (xd_row d) = a \<and> ex_state (xd_row d) = up_state u"
proof (cases rule: update_execution_cases [of a u now db])
  case (updated row)
  with assms show ?thesis by (simp add: execution_document_of_def apply_update_def)
qed (use assms in simp)

lemma finish_with_outcome:
  assumes "\<And>d. ex_action_id (xd_row d) = a \<Longrightarrow> ex_state (xd_row d) = up_state u \<Longrightarrow>
    outcome_ok loads inp posted (Finished (Inr (d, False)))"
  shows "outcome_ok loads inp posted (fst (finish_with a u now db))"
  using assms updated_row [of a u now db]
  by (auto simp del: outcome_ok.simps(9) simp: finish_with_def split: prod.splits sum.splits)

lemma continue_with_outcome:
  "outcome_ok loads inp posted ph \<Longrightarrow> outcome_ok loads inp posted (fst (continue_with a u now ph db))"
  by (simp add: continue_with_def split: prod.splits sum.splits)

lemma beat_with_outcome:
  "outcome_ok loads inp posted ph \<Longrightarrow> outcome_ok loads inp posted (fst (beat_with cfg a now ph db))"
  by (simp add: beat_with_def split: prod.splits sum.splits)

lemma step_outcome:
  assumes "outcome_ok loads inp posted ph"
  shows "outcome_ok loads inp (posted @ phase_restarts ph) (fst (exec_step env cfg loads inp ph db))"
proof (cases ph)
  case (At_claim pl)
  with assms show ?thesis by (auto simp: step_claim_def split: prod.splits sum.splits)
next
  case (At_revalidate pl x)
  have failed: "outcome_ok loads inp posted (fst (finish_with a (failed_update c pf) now db))"
    for a c pf now
    using assms At_revalidate by (intro finish_with_outcome) (simp add: failed_update_def)
  have going: "outcome_ok loads inp posted (fst (continue_with (ex_action_id x) u now
      (At_beat1 pl (ex_action_id x) (ex_target x)) db))"
    if "addon_info loads (ex_target x) r = Inr d" for u now r d
    using assms At_revalidate broker_observer.observe_slug [OF that]
    by (intro continue_with_outcome) simp
  show ?thesis
    using At_revalidate
    by (auto simp: step_revalidate_def Let_def failed going split: sum.splits exn.splits)
next
  case (At_beat1 pl a t)
  with assms beat_with_outcome [of loads inp posted "At_restart pl a t"] show ?thesis by simp
next
  case (At_restart pl a t)
  with assms show ?thesis by (simp add: restart_addon_calls_def)
next
  case (At_restarted pl a t r)
  have "outcome_ok loads inp posted (fst (finish_with a (uncertain_update Ex_executing c) now db))"
    for c now
    using assms At_restarted by (intro finish_with_outcome) (auto simp: uncertain_update_def)
  moreover have "outcome_ok loads inp posted (fst (continue_with a u now (At_beat2 pl a t) db))"
    if "r = Inr ()" for u now
    using assms At_restarted that by (intro continue_with_outcome) simp
  ultimately show ?thesis
    using At_restarted by (auto simp: step_restarted_def split: sum.splits exn.splits)
next
  case (At_beat2 pl a t)
  with assms beat_with_outcome [of loads inp posted "At_after pl a t"] show ?thesis by simp
next
  case (At_after pl a t)
  have "outcome_ok loads inp posted (fst (finish_with a (uncertain_update Ex_verifying c) now db))"
    for c now
    using assms At_after by (intro finish_with_outcome) (auto simp: uncertain_update_def)
  moreover have "outcome_ok loads inp posted (fst (finish_with a (final_update
       (get_field after ''slug'' = JStr t \<and> get_field after ''state'' = JStr ''started'' \<and>
        get_field after ''version'' = get_field (pl_before pl) ''version'') after) now db))"
    if "addon_info loads t (xi_after inp) = Inr after" for after now
    using assms At_after that by (intro finish_with_outcome) (auto simp: final_update_def)
  ultimately show ?thesis
    using At_after by (auto simp: step_after_def split: sum.splits exn.splits)
qed (use assms in simp)

lemma run_phases_outcome:
  assumes "outcome_ok loads inp posted ph" and "run_phases n env cfg loads inp ph db = (ph', db', calls)"
  shows "outcome_ok loads inp (posted @ calls) ph'"
  using assms
proof (induction n arbitrary: ph db posted calls)
  case (Suc n)
  obtain ph1 db1 where step: "exec_step env cfg loads inp ph db = (ph1, db1)" by fastforce
  with Suc.prems(2) obtain rest where
    "run_phases n env cfg loads inp ph1 db1 = (ph', db', rest)" "calls = phase_restarts ph @ rest"
    by (auto split: prod.splits)
  with Suc.IH [of "posted @ phase_restarts ph" ph1 db1 rest]
    step_outcome [OF Suc.prems(1), of env cfg db] step
  show ?case by simp
qed simp

lemma prepare_outcome: "outcome_ok loads inp [] (prepare env cfg loads inp busy req db)"
  by (auto simp: prepare_def plan_or_replay_def check_addon_def bind_result_Inr_iff
      split: sum.splits option.splits prod.splits if_splits)

text \<open>What the answer of \<open>execute\<close> says is what happened.  A replayed document posted nothing; a
new one that says \<open>failed\<close> posted nothing; any other new document belongs to exactly one restart,
posted for its own action, and says either that the outcome needs a person (\<open>recovery_required\<close>) or
\<open>succeeded\<close>, and then the Supervisor accepted the restart and was seen, afterwards, to run the
target in the version it had before.\<close>

theorem execute_outcome:
  assumes "execute env cfg loads inp busy request db = (Finished (Inr (d, replayed)), db', calls)"
  shows "(calls = [] \<and> (replayed \<or> ex_state (xd_row d) = Ex_failed)) \<or>
    (\<exists>t. \<not> replayed \<and> calls = [(ex_action_id (xd_row d), Http_post (restart_path t))] \<and>
       (ex_state (xd_row d) = Ex_recovery_required \<or>
        ex_state (xd_row d) = Ex_succeeded \<and> restart_addon loads t (xi_restart inp) = Inr () \<and>
        (\<exists>s before after. addon_info loads s (xi_before inp) = Inr before \<and>
           addon_info loads t (xi_after inp) = Inr after \<and>
           get_field after ''slug'' = JStr t \<and> get_field after ''state'' = JStr ''started'' \<and>
           get_field after ''version'' = get_field before ''version'')))"
  using run_phases_outcome [OF prepare_outcome assms [unfolded execute_def]] by auto

theorem execute_outcome_witness:
  "ex_state (xd_row (execution_document_of execution_done)) \<noteq> Ex_failed \<and>
   (\<exists>t. restart_addon loads0 t (xi_restart input0) = Inr () \<and>
      ''/addons/demo/restart'' = restart_path t)"
  using execute_outcome [OF execute0] by (auto simp: execution_document_of_def)

text \<open>C9: The audit trail.  Over any step of a reachable store no row of the trail is lost or
rewritten: proposals and backup evidence are only appended; every execution keeps its identity and
moves along its life cycle, so that \<open>failed\<close> and \<open>succeeded\<close> are final; a request keeps its digest
and only leaves \<open>pending\<close>; a receipt keeps what it certifies and is consumed at most once.\<close>

theorem audit_trail:
  assumes "reachable_store env s" and "auth_step env s t"
  shows "(\<exists>ps. proposals t = proposals s @ ps) \<and>
    (\<exists>es. backup_evidence t = backup_evidence s @ es) \<and>
    (\<forall>x \<in> set (executions s). \<exists>y \<in> set (executions t). exec_advance x y) \<and>
    (\<forall>q \<in> set (requests s). \<exists>q' \<in> set (requests t). request_advance q q') \<and>
    (\<forall>r \<in> set (receipts s). \<exists>r' \<in> set (receipts t). receipt_advance r r')"
  using auth_step_proposals [OF assms(2)] auth_step_evidence [OF assms(2)]
    auth_step_advance [OF assms(2)] auth_step_request_advance [OF assms(2)]
    auth_step_receipt_advance [OF assms(2)] reachable_store_inv [OF assms(1)]
  by blast

theorem audit_trail_witness:
  "(\<exists>r \<in> set (receipts db5). receipt_advance receipt0 r) \<and>
   (\<exists>es. backup_evidence db5 = backup_evidence db4 @ es)"
proof -
  have "auth_step env0 db4 db5"
    using auth_step.claim [of env0 db4 claim0 "(''1'', ''2'')" 5000000] db5_step by simp
  from audit_trail [OF reachable_db4 this] show ?thesis
    by (simp add: db4_def)
qed

end
