(* ===== verification/Manager_Properties.thy ===== *)
theory Manager_Properties
  imports Auth_Manager Auth_Properties
begin

text \<open>
  What the authorization manager guarantees: a flow is taken at most once, the table of flows is
  bounded, every operation acts on the store by the store's own steps, and a receipt is only issued
  to the user, the request and the digest its flow was begun for, after a verified assertion of a
  passkey of that user.
\<close>

section \<open>Flow tables\<close>

lemma take_flow_gone:
  "py_len k \<le> 128 \<Longrightarrow> map_of (snd (take_flow (JStr k) kind u a t fs)) k = None"
  by (auto simp: take_flow_def Let_def map_of_eq_None_iff split: option.splits)

lemma take_flow_subset: "set (snd (take_flow i kind u a t fs)) \<subseteq> set fs"
  by (auto simp: take_flow_def Let_def split: json.splits option.splits)

lemma take_flow_distinct:
  "distinct (map fst fs) \<Longrightarrow> distinct (map fst (snd (take_flow i kind u a t fs)))"
  by (auto simp: take_flow_def Let_def distinct_map_filter split: json.splits option.splits)

lemma take_flow_length: "length (snd (take_flow i kind u a t fs)) \<le> length fs"
  by (auto simp: take_flow_def Let_def split: json.splits option.splits)

lemma take_flow_Inr:
  assumes "take_flow i kind u a t fs = (Inr flow, fs')"
  shows "\<exists>k. i = JStr k \<and> map_of fs k = Some flow \<and> pf_kind flow = kind \<and> t < pf_expires_at flow \<and>
    pf_user_id_hash flow = u \<and> pf_approval_id flow = a \<and> map_of fs' k = None"
  using assms
  by (auto simp: take_flow_def Let_def map_of_eq_None_iff
      split: json.splits option.splits if_splits)

lemma dict_set_keys: "fst ` set (dict_set k f fs) = insert k (fst ` set fs)"
  by (induction k f fs rule: dict_set.induct) auto

lemma dict_set_distinct: "distinct (map fst fs) \<Longrightarrow> distinct (map fst (dict_set k f fs))"
  by (induction k f fs rule: dict_set.induct) (auto simp: dict_set_keys)

lemma dict_set_length: "length (dict_set k f fs) \<le> Suc (length fs)"
  by (induction k f fs rule: dict_set.induct) auto

lemma map_of_dict_set: "map_of (dict_set k f fs) k' = (if k' = k then Some f else map_of fs k')"
  by (induction k f fs rule: dict_set.induct) auto

definition flows_inv :: "manager_config \<Rightarrow> flows \<Rightarrow> bool" where
  "flows_inv cfg fs \<longleftrightarrow> distinct (map fst fs) \<and> length fs \<le> mc_max_pending_flows cfg"

lemma put_flow_inv: "flows_inv cfg fs \<Longrightarrow> flows_inv cfg (snd (put_flow cfg flow k t fs))"
proof -
  assume inv: "flows_inv cfg fs"
  let ?live = "filter (\<lambda>(_, f). pf_expires_at f > t) fs"
  have live: "distinct (map fst ?live)" "length ?live \<le> mc_max_pending_flows cfg"
    using inv by (auto simp: flows_inv_def distinct_map_filter intro: order_trans [OF length_filter_le])
  show ?thesis
    using live dict_set_length [of k flow ?live] dict_set_distinct [OF live(1), of k flow]
    by (auto simp: put_flow_def Let_def flows_inv_def)
qed

lemma take_flow_inv: "flows_inv cfg fs \<Longrightarrow> flows_inv cfg (snd (take_flow i kind u a t fs))"
  using take_flow_distinct [of fs i kind u a t] take_flow_length [of i kind u a t fs]
  by (simp add: flows_inv_def)

section \<open>The manager as a transition system\<close>

inductive manager_step :: "pyenv \<Rightarrow> manager_config \<Rightarrow> manager \<Rightarrow> manager \<Rightarrow> bool" for env cfg where
  create_request: "manager_step env cfg m (snd (manager_create_request env cfg j tk t1 t2 m))"
| create_proposal: "manager_step env cfg m (snd (create_proposal env cfg loads j resp tk t1 t2 m))"
| register_evidence: "manager_step env cfg m (snd (manager_register_backup_evidence env j t m))"
| create_native: "manager_step env cfg m (snd (create_native_request j tk t m))"
| status: "manager_step env cfg m (snd (internal_status a t m))"
| ingress: "manager_step env cfg m (snd (ingress_context env cfg ao u t m))"
| begin_registration:
    "manager_step env cfg m (snd (begin_registration env cfg pb u e k t1 t2 m))"
| complete_registration:
    "manager_step env cfg m (snd (complete_registration env cfg pb u e i r t1 t2 m))"
| begin_authorization:
    "manager_step env cfg m (snd (begin_authorization env cfg pb a u k t1 t2 t3 m))"
| complete_authorization:
    "manager_step env cfg m (snd (complete_authorization env pb a u i r tk t1 t2 t3 m))"

lemma on_store_simps [simp]:
  "mg_db (snd (on_store f m)) = snd (f (mg_db m))" "mg_flows (snd (on_store f m)) = mg_flows m"
  "fst (on_store f m) = fst (f (mg_db m))"
  by (simp_all add: on_store_def)

abbreviation store_steps :: "pyenv \<Rightarrow> auth_db \<Rightarrow> auth_db \<Rightarrow> bool" where
  "store_steps env \<equiv> (auth_step env)\<^sup>*\<^sup>*"

lemma store_steps_1: "auth_step env s t \<Longrightarrow> store_steps env s t" by blast

lemma on_store_Pair: "on_store f m = (r, m') \<longleftrightarrow> r = fst (f (mg_db m)) \<and> m' = m\<lparr>mg_db := snd (f (mg_db m))\<rparr>"
  by (auto simp: on_store_def)

lemma read_step: "store_steps env db (snd (get_request a t db))"
  by (intro store_steps_1 auth_step.read_request)

lemma verify_and_authorize_steps:
  "store_steps env (mg_db m) (mg_db (snd (verify_and_authorize env pb fl u a r tk t2 t3 m))) \<and>
   mg_flows (snd (verify_and_authorize env pb fl u a r tk t2 t3 m)) = mg_flows m"
proof -
  have counter: "store_steps env (mg_db m) (snd (update_counter c o' n t3 (snd (get_request a t2 (mg_db m)))))"
    for c o' n
    using read_step [of env "mg_db m" a t2] auth_step.update_counter by (rule rtranclp.rtrancl_into_rtrancl)
  have auth: "store_steps env (mg_db m) (snd (authorize env a h u c tk t3
      (snd (update_counter c o' n t3 (snd (get_request a t2 (mg_db m)))))))" for c o' n h
    using counter auth_step.authorize by (rule rtranclp.rtrancl_into_rtrancl)
  show ?thesis
    using read_step [of env "mg_db m" a t2] counter auth
    by (simp add: verify_and_authorize_def on_store_def Let_def split: sum.splits option.splits prod.splits)
qed

lemma verify_and_authorize_db:
  "store_steps env db (mg_db m) \<Longrightarrow>
   store_steps env db (mg_db (snd (verify_and_authorize env pb fl u a r tk t2 t3 m)))"
  using verify_and_authorize_steps by (meson rtranclp_trans)

text \<open>Every operation of the manager acts on the store by steps of the store.\<close>

lemma manager_create_request_db:
  "store_steps env (mg_db m) (mg_db (snd (manager_create_request env cfg j tk t1 t2 m)))"
  by (cases "validate_envelope env j (mc_trusted_owner_hashes cfg) t1")
    (auto simp: manager_create_request_def intro: auth_step.create_legacy split: sum.splits
      dest: as_authorization_error_Inr [THEN iffD1])

lemma create_proposal_db:
  "store_steps env (mg_db m) (mg_db (snd (create_proposal env cfg loads j resp tk t1 t2 m)))"
  by (auto simp: create_proposal_def intro: auth_step.create_proposal split: sum.splits option.splits)

lemma begin_registration_db:
  "mg_db (snd (begin_registration env cfg pb u e k t1 t2 m)) = mg_db m"
  by (simp add: begin_registration_def Let_def split: sum.splits prod.splits)

lemma complete_registration_db:
  "store_steps env (mg_db m) (mg_db (snd (complete_registration env cfg pb u e i r t1 t2 m)))"
  by (auto simp: complete_registration_def Let_def on_store_def intro: auth_step.add_credential
      split: sum.splits prod.splits)

lemma begin_authorization_db:
  "mg_db (snd (begin_authorization env cfg pb a u k t1 t2 t3 m)) = mg_db m \<or>
   mg_db (snd (begin_authorization env cfg pb a u k t1 t2 t3 m)) = snd (get_request a t1 (mg_db m))"
  by (auto simp: begin_authorization_def Let_def on_store_def split: sum.splits prod.splits)

lemma complete_authorization_db:
  "store_steps env (mg_db m)
     (mg_db (snd (complete_authorization env pb a u i r tk t1 t2 t3 m)))"
  by (auto simp: complete_authorization_def intro: verify_and_authorize_db
      split: sum.splits prod.splits)

lemma internal_status_db:
  "mg_db (snd (internal_status a t m)) = snd (get_request a t (mg_db m))"
  by (simp add: internal_status_def on_store_def split: sum.splits prod.splits)

lemma ingress_context_db:
  "mg_db (snd (ingress_context env cfg ao u t m)) = mg_db m \<or>
   (\<exists>a. mg_db (snd (ingress_context env cfg ao u t m)) = snd (get_request a t (mg_db m)))"
  by (auto simp: ingress_context_def Let_def on_store_def
      split: sum.splits prod.splits option.splits list.splits)

lemma manager_step_db: "manager_step env cfg m m' \<Longrightarrow> store_steps env (mg_db m) (mg_db m')"
proof (induction rule: manager_step.induct)
  case (begin_authorization m pb a u k t1 t2 t3)
  then show ?case using begin_authorization_db read_step by (metis rtranclp.rtrancl_refl)
next
  case (ingress m ao u t)
  then show ?case using ingress_context_db read_step by (metis rtranclp.rtrancl_refl)
qed (auto simp: internal_status_db begin_registration_db manager_register_backup_evidence_def
    create_native_request_def intro: manager_create_request_db create_proposal_db
    complete_registration_db complete_authorization_db read_step auth_step.register_evidence
    auth_step.create_native)

lemma begin_registration_flows:
  "flows_inv cfg (mg_flows m) \<Longrightarrow> flows_inv cfg (mg_flows (snd (begin_registration env cfg pb u e k t1 t2 m)))"
  using put_flow_inv by (auto simp: begin_registration_def Let_def split: sum.splits prod.splits)
    (metis snd_conv)+

lemma begin_authorization_flows:
  "flows_inv cfg (mg_flows m) \<Longrightarrow>
   flows_inv cfg (mg_flows (snd (begin_authorization env cfg pb a u k t1 t2 t3 m)))"
  using put_flow_inv
  by (auto simp: begin_authorization_def Let_def on_store_def split: sum.splits prod.splits)
    (metis snd_conv)+

lemma complete_registration_flows:
  "flows_inv cfg (mg_flows m) \<Longrightarrow>
   flows_inv cfg (mg_flows (snd (complete_registration env cfg pb u e i r t1 t2 m)))"
  using take_flow_inv
  by (auto simp: complete_registration_def Let_def on_store_def split: sum.splits prod.splits)
    (metis snd_conv)+

lemma complete_authorization_flows:
  "flows_inv cfg (mg_flows m) \<Longrightarrow>
   flows_inv cfg (mg_flows (snd (complete_authorization env pb a u i r tk t1 t2 t3 m)))"
  using take_flow_inv verify_and_authorize_steps
  by (auto simp: complete_authorization_def split: sum.splits prod.splits) (metis snd_conv)+

lemma other_flows:
  "mg_flows (snd (manager_create_request env cfg j tk t1 t2 m)) = mg_flows m"
  "mg_flows (snd (create_proposal env cfg loads j resp tk t1 t2 m)) = mg_flows m"
  "mg_flows (snd (manager_register_backup_evidence env j t m)) = mg_flows m"
  "mg_flows (snd (create_native_request j tk t m)) = mg_flows m"
  "mg_flows (snd (internal_status a t m)) = mg_flows m"
  "mg_flows (snd (ingress_context env cfg ao u t m)) = mg_flows m"
  by (auto simp: manager_create_request_def create_proposal_def manager_register_backup_evidence_def
      create_native_request_def internal_status_def ingress_context_def Let_def on_store_def
      split: sum.splits prod.splits option.splits list.splits)

lemma manager_step_flows:
  "manager_step env cfg m m' \<Longrightarrow> flows_inv cfg (mg_flows m) \<Longrightarrow> flows_inv cfg (mg_flows m')"
  by (induction rule: manager_step.induct)
    (simp_all add: other_flows begin_registration_flows begin_authorization_flows
      complete_registration_flows complete_authorization_flows)

definition manager_inv :: "manager_config \<Rightarrow> manager \<Rightarrow> bool" where
  "manager_inv cfg m \<longleftrightarrow> store_inv (mg_db m) \<and> flows_inv cfg (mg_flows m)"

definition empty_manager :: manager where
  "empty_manager = \<lparr>mg_db = empty_db, mg_flows = []\<rparr>"

interpretation manager_system: inv_system empty_manager "manager_step env cfg" "manager_inv cfg"
proof unfold_locales
  show "manager_inv cfg empty_manager"
    using broker.inv_start by (simp add: manager_inv_def flows_inv_def empty_manager_def)
  show "manager_inv cfg m'" if "manager_inv cfg m" "manager_step env cfg m m'" for m m'
    using that manager_step_flows broker.invariant_from [OF manager_step_db]
    unfolding manager_inv_def by blast
qed

definition reachable_manager :: "pyenv \<Rightarrow> manager_config \<Rightarrow> manager \<Rightarrow> bool" where
  "reachable_manager env cfg m \<longleftrightarrow> reach empty_manager (manager_step env cfg) m"

section \<open>Flows are used once, and the table is bounded\<close>

text \<open>The pending flows are bounded.  In every state the manager reaches there are at most
\<open>max_pending_flows\<close> of them, under distinct ids, and the store underneath is in a state the store's
own operations reach.\<close>

theorem manager_bounded:
  assumes "reachable_manager env cfg m"
  shows "length (mg_flows m) \<le> mc_max_pending_flows cfg \<and> distinct (map fst (mg_flows m)) \<and>
    reachable_store env (mg_db m)"
proof -
  have "flows_inv cfg (mg_flows m)"
    using assms manager_system.invariant unfolding reachable_manager_def manager_inv_def by blast
  moreover have "reachable_store env (mg_db m)"
    using assms unfolding reachable_manager_def
  proof (induction rule: reach.induct)
    case start
    show ?case using reachable_store_start by (simp add: empty_manager_def)
  next
    case (next_state s t)
    then have "store_steps env empty_db (mg_db s)"
      by (simp add: reachable_store_def reach_rtranclp)
    with manager_step_db [OF next_state(2)] show ?case
      by (auto simp: reachable_store_def reach_rtranclp intro: rtranclp_trans)
  qed
  ultimately show ?thesis by (simp add: flows_inv_def)
qed

definition config0 :: manager_config where
  "config0 = \<lparr>mc_trusted_owner_hashes = {}, mc_enrollment_token = replicate 32 (CHR ''t''),
     mc_challenge_ttl = 180, mc_max_passkeys = 1, mc_max_pending_flows = 100,
     mc_restart_addon_allowlist = {''demo''}, mc_proposal_ttl_seconds = 600, mc_policy = policy0\<rparr>"

definition backend0 :: backend where
  "backend0 = \<lparr>pb_registration_begin = (\<lambda>h. Inr (JNull, JStr h)),
     pb_registration_complete = (\<lambda>st r. Inr \<lparr>mt_credential_id = str_of r,
        mt_credential_data = str_of r, mt_sign_count = 0\<rparr>),
     pb_authentication_begin = (\<lambda>cs. Inr (JNull, JStr ''challenge'')),
     pb_authentication_complete = (\<lambda>st cs r. Inr (str_of r, 1))\<rparr>"

definition token0 :: json where
  "token0 = JStr (replicate 32 (CHR ''t''))"

definition manager1 :: manager where
  "manager1 = snd (begin_registration env0 config0 backend0 (JStr ''alice'') token0 ''F1'' 0 0 empty_manager)"

lemma reachable_manager1: "reachable_manager env0 config0 manager1"
  unfolding reachable_manager_def manager1_def
  by (rule reach.next_state [OF reach.start]) (rule manager_step.begin_registration)

theorem manager_bounded_witness:
  "length (mg_flows manager1) \<le> mc_max_pending_flows config0 \<and>
   distinct (map fst (mg_flows manager1)) \<and> reachable_store env0 (mg_db manager1)"
  by (rule manager_bounded [OF reachable_manager1])

text \<open>A challenge is answered at most once.  Whatever the outcome of \<open>complete_authorization\<close> for a
known user, success, refusal or failure of the verification, its flow is gone afterwards: the next
attempt with the same flow id, by anyone, for any request and with any response, is refused as
invalid, and changes nothing.\<close>

theorem flow_single_use:
  assumes "hash_ha_user_id env u = Inr h" and "py_len k \<le> 128"
    and "hash_ha_user_id env u' = Inr h'"
  shows "let m' = snd (complete_authorization env pb a u (JStr k) r tk t1 t2 t3 m) in
    complete_authorization env pb a' u' (JStr k) r' tk' t1' t2' t3' m'
      = (Inl (AuthorizationError ''challenge_invalid''), m')"
proof -
  let ?m = "snd (complete_authorization env pb a u (JStr k) r tk t1 t2 t3 m)"
  have "map_of (mg_flows ?m) k = None"
    using take_flow_gone [OF assms(2), of Authorization_flow h "Some a" t1 "mg_flows m"]
      verify_and_authorize_steps
    by (auto simp: complete_authorization_def assms(1) split: sum.splits prod.splits)
  moreover then have "filter (\<lambda>(k', _). k' \<noteq> k) (mg_flows ?m) = mg_flows ?m"
    by (auto simp: filter_id_conv map_of_eq_None_iff image_iff)
  ultimately show ?thesis
    using assms(2) by (simp add: Let_def complete_authorization_def assms(3) take_flow_def)
qed

theorem flow_single_use_witness:
  "let m' = snd (complete_authorization env0 backend0 ''AUTH-1'' (JStr ''alice'') (JStr ''F1'') JNull
        ''01'' 0 0 0 manager1) in
    complete_authorization env0 backend0 ''AUTH-1'' (JStr ''alice'') (JStr ''F1'') JNull ''02'' 1 1 1 m'
      = (Inl (AuthorizationError ''challenge_invalid''), m')"
proof (rule flow_single_use)
  show "hash_ha_user_id env0 (JStr ''alice'') = Inr (hash64 (CHR ''a''))" by code_simp
  then show "hash_ha_user_id env0 (JStr ''alice'') = Inr (hash64 (CHR ''a''))" .
  show "py_len ''F1'' \<le> 128" by code_simp
qed

section \<open>What a receipt certifies\<close>

lemma authorize_Inr:
  assumes "authorize env a h u cid tk t db = (Inr d, db')"
  obtains q where "q \<in> set (requests db)" "rq_approval_id q = a" "rq_proposal_hash q = h"
    "rq_state q = Pending" "t < rq_expires_at q"
    "rcd_row d = receipt_of_request env q (''RCPT-'' @ tk) u cid t"
    "rcd_row d \<in> set (receipts db')"
    "requests db' = update_where (\<lambda>r. rq_approval_id r = a) (\<lambda>r. r\<lparr>rq_state := Authorized\<rparr>)
       (requests db)"
proof (cases "select_one (\<lambda>r. rq_approval_id r = a) (requests db)")
  case None
  with assms show thesis by (simp add: authorize_def transaction_def)
next
  case (Some q)
  with assms have "q \<in> set (requests db)" "rq_approval_id q = a" "rq_proposal_hash q = h"
      "rq_state q = Pending" "t < rq_expires_at q"
    and d: "d = receipt_document_of (receipt_of_request env q (''RCPT-'' @ tk) u cid t)"
    and db': "db' = db\<lparr>receipts := insert_row (receipt_of_request env q (''RCPT-'' @ tk) u cid t)
          (receipts db), requests := update_where (\<lambda>r. rq_approval_id r = a)
          (\<lambda>r. r\<lparr>rq_state := Authorized\<rparr>) (requests db)\<rparr>"
    using select_one_Some_iff [OF Some]
    by (simp_all add: authorize_def transaction_def Let_def split: if_splits)
  then show thesis by (intro that [of q]) (simp_all add: receipt_document_of_def)
qed

lemma get_request_pending:
  assumes "get_request a t db = (Inr d, db')" and "rq_state (rqd_row d) = Pending"
  shows "db' = db \<and> rqd_row d \<in> set (requests db) \<and> rq_approval_id (rqd_row d) = a"
  using assms
  by (auto simp: get_request_def transaction_def request_document_of_def
      split: option.splits if_splits dest!: select_one_Some_iff)

lemma update_counter_requests:
  "update_counter c o' n t db = (r, db') \<Longrightarrow> requests db' = requests db"
  using frame_update_counter(1) [of c o' n t db] by simp

lemma credentials_for_user_mem:
  "c \<in> set (credentials_for_user db h) \<longleftrightarrow> c \<in> set (passkeys db) \<and> pk_user_id_hash c = h"
  by (auto simp: credentials_for_user_def)

text \<open>C6: What a receipt certifies.  When \<open>complete_authorization\<close> returns a receipt, the caller's flow was
pending, unexpired and begun by the same user for the same request; the request was pending,
unexpired and still had the digest the flow was begun with; the backend verified the response for a
passkey that user had enrolled; and the stored receipt carries that user, passkey, request and
digest.\<close>

theorem receipt_certifies:
  assumes "complete_authorization env pb a u i r tk t1 t2 t3 m = (Inr doc, m')"
  shows "\<exists>k flow h q c n. i = JStr k \<and> map_of (mg_flows m) k = Some flow \<and>
    hash_ha_user_id env u = Inr h \<and>
    pf_kind flow = Authorization_flow \<and> pf_user_id_hash flow = h \<and> pf_approval_id flow = Some a \<and>
    t1 < pf_expires_at flow \<and>
    q \<in> set (requests (mg_db m)) \<and> rq_approval_id q = a \<and> rq_state q = Pending \<and>
    t3 < rq_expires_at q \<and> pf_proposal_hash flow = Some (rq_proposal_hash q) \<and>
    c \<in> set (passkeys (mg_db m)) \<and> pk_user_id_hash c = h \<and>
    pb_authentication_complete pb (pf_state flow)
      (map pk_credential_data (credentials_for_user (mg_db m) h)) r = Inr (pk_credential_id c, n) \<and>
    rcd_row doc \<in> set (receipts (mg_db m')) \<and> rc_approval_id (rcd_row doc) = a \<and>
    rc_proposal_hash (rcd_row doc) = rq_proposal_hash q \<and>
    rc_authorized_user_hash (rcd_row doc) = h \<and>
    rc_credential_id_hash (rcd_row doc) = sha256_hex env (pk_credential_id c)"
proof -
  from assms obtain h where h: "hash_ha_user_id env u = Inr h"
    by (auto simp: complete_authorization_def split: sum.splits)
  with assms obtain flow fs where
    take: "take_flow i Authorization_flow h (Some a) t1 (mg_flows m) = (Inr flow, fs)" and
    ver: "verify_and_authorize env pb flow h a r tk t2 t3 (m\<lparr>mg_flows := fs\<rparr>) = (Inr doc, m')"
    by (auto simp: complete_authorization_def split: sum.splits prod.splits)
  from take_flow_Inr [OF take] obtain k where k: "i = JStr k" "map_of (mg_flows m) k = Some flow"
      "pf_kind flow = Authorization_flow" "t1 < pf_expires_at flow" "pf_user_id_hash flow = h"
      "pf_approval_id flow = Some a" by blast
  from ver obtain q0 db1 where read: "get_request a t2 (mg_db m) = (Inr q0, db1)"
    by (cases "get_request a t2 (mg_db m)")
      (auto simp: verify_and_authorize_def on_store_def split: sum.splits prod.splits)
  with ver have pend: "rq_state (rqd_row q0) = Pending"
      "pf_proposal_hash flow = Some (rq_proposal_hash (rqd_row q0))"
    by (auto simp: verify_and_authorize_def on_store_def split: if_splits)
  from get_request_pending [OF read pend(1)] have db1: "db1 = mg_db m" by simp
  let ?cs = "credentials_for_user (mg_db m) h"
  from ver read pend obtain cid n where
    verified: "pb_authentication_complete pb (pf_state flow) (map pk_credential_data ?cs) r = Inr (cid, n)"
    by (auto simp: verify_and_authorize_def on_store_def db1 Let_def split: sum.splits prod.splits)
  with ver read pend obtain c where c: "select_one (\<lambda>c. pk_credential_id c = cid) ?cs = Some c"
    by (auto simp: verify_and_authorize_def on_store_def db1 Let_def split: option.splits)
  from select_one_Some_iff [OF c] have cmem: "c \<in> set ?cs" "pk_credential_id c = cid" by auto
  from ver read pend verified c obtain db2 where
    upd: "update_counter (pk_credential_id c) (pk_sign_count c) n t3 (mg_db m) = (Inr (), db2)"
    by (cases "update_counter (pk_credential_id c) (pk_sign_count c) n t3 (mg_db m)")
      (auto simp: verify_and_authorize_def on_store_def db1 Let_def split: sum.splits)
  with ver read pend verified c have
    auth: "authorize env a (rq_proposal_hash (rqd_row q0)) h (pk_credential_id c) tk t3 db2
      = (Inr doc, mg_db m')"
    by (cases "authorize env a (rq_proposal_hash (rqd_row q0)) h (pk_credential_id c) tk t3 db2")
      (auto simp: verify_and_authorize_def on_store_def db1 Let_def)
  obtain q where q: "q \<in> set (requests db2)" "rq_approval_id q = a"
      "rq_proposal_hash q = rq_proposal_hash (rqd_row q0)" "rq_state q = Pending" "t3 < rq_expires_at q"
      "rcd_row doc = receipt_of_request env q (''RCPT-'' @ tk) h (pk_credential_id c) t3"
      "rcd_row doc \<in> set (receipts (mg_db m'))"
    by (rule authorize_Inr [OF auth])
  have "q \<in> set (requests (mg_db m))" using q(1) update_counter_requests [OF upd] by simp
  with h k q pend(2) verified cmem show ?thesis
    by (intro exI [of _ k] exI [of _ flow] exI [of _ h] exI [of _ q] exI [of _ c] exI [of _ n])
      (simp add: credentials_for_user_mem receipt_of_request_def)
qed

definition alice_key :: passkey where
  "alice_key = \<lparr>pk_credential_id = ''cred'', pk_credential_data = ''data'',
     pk_user_id_hash = hash64 (CHR ''a''), pk_sign_count = 0, pk_created_at = 0,
     pk_last_used_at = None\<rparr>"

definition alice_flow :: pending_flow where
  "alice_flow = \<lparr>pf_kind = Authorization_flow, pf_user_id_hash = hash64 (CHR ''a''),
     pf_state = JNull, pf_expires_at = 180000000, pf_approval_id = Some ''AUTH-01'',
     pf_proposal_hash = Some (sha (CHR ''a''))\<rparr>"

definition manager2 :: manager where
  "manager2 = \<lparr>mg_db = db3\<lparr>passkeys := [alice_key]\<rparr>, mg_flows = [(''F1'', alice_flow)]\<rparr>"

lemma alice_hash: "hash_ha_user_id env0 (JStr ''alice'') = Inr (hash64 (CHR ''a''))"
  by code_simp

lemma db3_tables: "requests db3 = [request0]" "receipts db3 = []"
  by (simp_all add: db3_def db2_def db1_def empty_db_def)

lemma alice_authorizes:
  "fst (complete_authorization env0 backend0 ''AUTH-01'' (JStr ''alice'') (JStr ''F1'') (JStr ''cred'')
     rtoken0 4000000 4000000 4000000 manager2)
   = Inr (receipt_document_of
       (receipt_of_request env0 request0 receipt_id0 (hash64 (CHR ''a'')) ''cred'' 4000000))"
proof -
  have len: "\<not> 128 < py_len ''F1''" by code_simp
  have take: "take_flow (JStr ''F1'') Authorization_flow (hash64 (CHR ''a'')) (Some ''AUTH-01'') 4000000
      [(''F1'', alice_flow)] = (Inr alice_flow, [])"
    using len by (simp add: take_flow_def alice_flow_def)
  have creds: "credentials_for_user (db3\<lparr>passkeys := [alice_key]\<rparr>) (hash64 (CHR ''a'')) = [alice_key]"
    by (simp add: credentials_for_user_def alice_key_def)
  have read: "get_request ''AUTH-01'' 4000000 (db3\<lparr>passkeys := [alice_key]\<rparr>)
      = (Inr (request_document_of request0), db3\<lparr>passkeys := [alice_key]\<rparr>)"
    by (simp add: get_request_def transaction_def db3_tables)
  have upd: "update_counter ''cred'' 0 1 4000000 (db3\<lparr>passkeys := [alice_key]\<rparr>)
      = (Inr (), db3\<lparr>passkeys := [alice_key\<lparr>pk_sign_count := 1, pk_last_used_at := Some 4000000\<rparr>]\<rparr>)"
    by (simp add: update_counter_def transaction_def Let_def rowcount_def alice_key_def
        iso_timestamp_def whole_second_def)
  have auth: "fst (authorize env0 ''AUTH-01'' (sha (CHR ''a'')) (hash64 (CHR ''a'')) ''cred'' rtoken0 4000000
      (db3\<lparr>passkeys := ps\<rparr>))
      = Inr (receipt_document_of
         (receipt_of_request env0 request0 receipt_id0 (hash64 (CHR ''a'')) ''cred'' 4000000))" for ps
    by (simp add: authorize_def transaction_result db3_tables Let_def)
  have key: "pk_credential_id alice_key = ''cred''" "pk_sign_count alice_key = 0"
      "pf_proposal_hash alice_flow = Some (sha (CHR ''a''))"
      "rqd_row (request_document_of request0) = request0"
    by (simp_all add: alice_key_def alice_flow_def request_document_of_def)
  show ?thesis
    using take read creds upd auth
    by (simp add: complete_authorization_def alice_hash manager2_def verify_and_authorize_def
        on_store_def key backend0_def str_of_def Let_def)
qed

theorem receipt_certifies_witness:
  "\<exists>doc m' flow q c. complete_authorization env0 backend0 ''AUTH-01'' (JStr ''alice'') (JStr ''F1'')
       (JStr ''cred'') rtoken0 4000000 4000000 4000000 manager2 = (Inr doc, m') \<and>
     map_of (mg_flows manager2) ''F1'' = Some flow \<and> pf_approval_id flow = Some ''AUTH-01'' \<and>
     q \<in> set (requests (mg_db manager2)) \<and> rq_state q = Pending \<and>
     c \<in> set (passkeys (mg_db manager2)) \<and> rc_proposal_hash (rcd_row doc) = rq_proposal_hash q \<and>
     rc_authorized_user_hash (rcd_row doc) = pk_user_id_hash c"
proof -
  obtain doc m' where run: "complete_authorization env0 backend0 ''AUTH-01'' (JStr ''alice'')
      (JStr ''F1'') (JStr ''cred'') rtoken0 4000000 4000000 4000000 manager2 = (Inr doc, m')"
    using alice_authorizes by (metis prod.collapse)
  from receipt_certifies [OF run] run show ?thesis by force
qed

section \<open>The limit on passkeys\<close>

text \<open>
  \<open>begin_registration\<close> refuses a user once \<open>max_passkeys\<close> credentials are stored, but nothing checks
  the limit again when the registration completes: two users who begin while one place is left both
  get one.
\<close>

definition env1 :: pyenv where
  "env1 = env0\<lparr>sha256_hex := (\<lambda>s. s)\<rparr>"

definition enrol_steps :: "manager list" where
  "enrol_steps =
     (let m1 = snd (begin_registration env1 config0 backend0 (JStr ''alice'') token0 ''F1'' 0 0
            empty_manager);
          m2 = snd (begin_registration env1 config0 backend0 (JStr ''bob'') token0 ''F2'' 0 0 m1);
          m3 = snd (complete_registration env1 config0 backend0 (JStr ''alice'') token0 (JStr ''F1'')
            (JStr ''A'') 1 1 m2);
          m4 = snd (complete_registration env1 config0 backend0 (JStr ''bob'') token0 (JStr ''F2'')
            (JStr ''B'') 1 1 m3)
      in [m1, m2, m3, m4])"

lemma reachable_manager_start: "reachable_manager env cfg empty_manager"
  unfolding reachable_manager_def by (rule reach.start)

lemma begin_reachable:
  "reachable_manager env cfg m \<Longrightarrow>
   reachable_manager env cfg (snd (begin_registration env cfg pb u e k t1 t2 m))"
  unfolding reachable_manager_def
  by (erule reach.next_state) (rule manager_step.begin_registration)

lemma complete_reachable:
  "reachable_manager env cfg m \<Longrightarrow>
   reachable_manager env cfg (snd (complete_registration env cfg pb u e i r t1 t2 m))"
  unfolding reachable_manager_def
  by (erule reach.next_state) (rule manager_step.complete_registration)

lemma enrol_reachable: "reachable_manager env1 config0 (last enrol_steps)"
  by (simp add: enrol_steps_def Let_def begin_reachable complete_reachable reachable_manager_start)

lemma enrol_count: "credential_count (mg_db (last enrol_steps)) = 2"
  by code_simp

theorem passkey_limit_exceeded:
  "\<exists>m. reachable_manager env1 config0 m \<and> credential_count (mg_db m) > mc_max_passkeys config0"
  using enrol_reachable enrol_count by (auto simp: config0_def)

end
