(* ===== verification/Broker_Api_Properties.thy ===== *)
theory Broker_Api_Properties
  imports Broker_Api Execution_Properties Manager_Properties
begin

text \<open>
  What the HTTP interface guarantees: which credential a request needs for which effect, that every
  sequence of requests and restarts of the Broker leads to states the store's invariants cover, and
  what a reply tells about the outcome of the call.
\<close>

section \<open>Credentials\<close>








lemma not_found_Call [simp]: "not_found \<noteq> Call c"
  by (simp add: not_found_def)







section \<open>Effects\<close>






lemma run_phases_steps:
  "store_steps env db (fst (snd (run_phases n env cfg loads inp ph db)))"
proof (induction n arbitrary: ph db)
  case (Suc n)
  obtain ph' db' where step: "exec_step env cfg loads inp ph db = (ph', db')" by fastforce
  with exec_step_stays [of env db cfg loads inp ph] have "store_steps env db db'"
    by (auto simp: store_stays_def)
  also have "store_steps env db' (fst (snd (run_phases n env cfg loads inp ph' db')))" by (rule Suc)
  finally show ?case using step by (auto split: prod.splits)
qed simp

text \<open>What each group of calls keeps, as a predicate on the manager before and after.\<close>

definition keeps_executions :: "manager \<Rightarrow> manager \<Rightarrow> bool" where
  "keeps_executions m m' \<longleftrightarrow>
     executions (mg_db m') = executions (mg_db m) \<and> leases (mg_db m') = leases (mg_db m)"

definition keeps_passkeys :: "manager \<Rightarrow> manager \<Rightarrow> bool" where
  "keeps_passkeys m m' \<longleftrightarrow> passkeys (mg_db m') = passkeys (mg_db m) \<and> mg_flows m' = mg_flows m"

definition keeps_receipts :: "manager \<Rightarrow> manager \<Rightarrow> bool" where
  "keeps_receipts m m' \<longleftrightarrow>
     map rc_receipt_id (receipts (mg_db m')) = map rc_receipt_id (receipts (mg_db m))"

definition keeps_evidence :: "manager \<Rightarrow> manager \<Rightarrow> bool" where
  "keeps_evidence m m' \<longleftrightarrow> backup_evidence (mg_db m') = backup_evidence (mg_db m)"

definition keeps_proposals :: "manager \<Rightarrow> manager \<Rightarrow> bool" where
  "keeps_proposals m m' \<longleftrightarrow> proposals (mg_db m') = proposals (mg_db m)"

lemmas keeps_defs = keeps_executions_def keeps_passkeys_def keeps_receipts_def keeps_evidence_def
  keeps_proposals_def












section \<open>Who can change what\<close>


lemma keeps_refl [simp]:
  "keeps_executions m m" "keeps_passkeys m m" "keeps_receipts m m" "keeps_evidence m m"
  "keeps_proposals m m"
  by (simp_all add: keeps_defs)






text \<open>The execution of \<open>Execution_Example\<close>, requested over HTTP.\<close>

definition web0 :: web_env where
  "web0 = \<lparr>unquote = id, parse_qs = (\<lambda>_. [])\<rparr>"

definition api_config0 :: api_config where
  "api_config0 = \<lparr>ac_api_token = replicate 32 (CHR ''a''),
     ac_recovery_api_token = replicate 32 (CHR ''r''),
     ac_backup_evidence_api_token = replicate 32 (CHR ''b''), ac_max_request_bytes = 32768,
     ac_authorization_manager = True, ac_execution_handler = True,
     ac_execution_status_handler = True, ac_recovery_resolution_handler = True,
     ac_execution_enabled = True, ac_enabled_actions = {''restart_addon''},
     ac_allowed_ingress_origins = {''o''}\<rparr>"

definition broker_config0 :: broker_config where
  "broker_config0 = \<lparr>bc_api = api_config0, bc_manager = config0, bc_exec = exec_config0\<rparr>"


definition inputs0 :: api_inputs where
  "inputs0 = \<lparr>ai_token = ''F1'', ai_now1 = 0, ai_now2 = 0, ai_now3 = 0, ai_response = Unreachable,
     ai_busy = False, ai_exec = input0\<rparr>"

lemma create_server0: "create_server api_config0 = Inr ()"
  by code_simp




section \<open>A server is a store\<close>

lemma perform_store:
  assumes "perform env loads cfg pb inp c m = (r, m', restarts)"
  shows "store_steps env (mg_db m) (mg_db m')"
proof (cases c)
  case (Execute p)
  with assms run_phases_steps [of env "mg_db m" EXEC_FUEL "bc_exec cfg" loads "ai_exec inp"
      "prepare env (bc_exec cfg) loads (ai_exec inp) (ai_busy inp) p (mg_db m)"]
  show ?thesis by (auto simp: execute_def split: prod.splits)
next
  case (Resolve_recovery a p)
  have "store_steps env (mg_db m) (snd (resolve_recovery a x y t (mg_db m)))" for x y t
    by (intro store_steps_1 auth_step.resolve)
  with assms Resolve_recovery show ?thesis
    by (auto simp: made_def on_store_def manager_resolve_recovery_def split: sum.splits)
qed (use assms in \<open>auto simp: made_def intro: manager_step_db manager_step.intros\<close>)

lemma perform_flows:
  assumes "perform env loads cfg pb inp c m = (r, m', restarts)"
    and "flows_inv (bc_manager cfg) (mg_flows m)"
  shows "flows_inv (bc_manager cfg) (mg_flows m')"
proof (cases c)
  case (Execute p)
  with assms show ?thesis by (auto split: prod.splits)
next
  case (Resolve_recovery a p)
  with assms show ?thesis by (auto simp: made_def)
qed (use assms in \<open>auto simp: made_def intro: manager_step_flows [where env = env] manager_step.intros\<close>)

inductive server_step ::
  "pyenv \<Rightarrow> web_env \<Rightarrow> loads \<Rightarrow> broker_config \<Rightarrow> backend \<Rightarrow> manager \<Rightarrow> manager \<Rightarrow> bool"
  for env web loads cfg pb where
  request: "server_step env web loads cfg pb m (fst (snd (handle env web loads cfg pb inp req m)))"
| restart: "server_step env web loads cfg pb m
     \<lparr>mg_db = snd (recover_incomplete_executions t (mg_db m)), mg_flows = []\<rparr>"

lemma handle_store:
  "store_steps env (mg_db m) (mg_db (fst (snd (handle env web loads cfg pb inp req m)))) \<and>
   (flows_inv (bc_manager cfg) (mg_flows m) \<longrightarrow>
    flows_inv (bc_manager cfg) (mg_flows (fst (snd (handle env web loads cfg pb inp req m)))))"
proof (cases "route_request env web (bc_api cfg) loads req")
  case (Call c)
  obtain r m' restarts where "perform env loads cfg pb inp c m = (r, m', restarts)"
    by (metis prod_cases3)
  with perform_store [OF this] perform_flows [OF this] Call show ?thesis
    by (simp add: handle_def)
qed (simp_all add: handle_def)

definition server_inv :: "pyenv \<Rightarrow> broker_config \<Rightarrow> manager \<Rightarrow> bool" where
  "server_inv env cfg m \<longleftrightarrow> reachable_store env (mg_db m) \<and> flows_inv (bc_manager cfg) (mg_flows m)"

lemma store_steps_reachable:
  "reachable_store env db \<Longrightarrow> store_steps env db db' \<Longrightarrow> reachable_store env db'"
  by (auto simp: reachable_store_def reach_rtranclp)

interpretation api_server: inv_system empty_manager "server_step env web loads cfg pb"
  "server_inv env cfg"
proof unfold_locales
  show "server_inv env cfg empty_manager"
    using reachable_store_start by (simp add: server_inv_def empty_manager_def flows_inv_def)
  show "server_inv env cfg t" if "server_inv env cfg s" "server_step env web loads cfg pb s t" for s t
    using that(2)
  proof (cases rule: server_step.cases)
    case (request inp req)
    with that(1) handle_store store_steps_reachable show ?thesis
      unfolding server_inv_def by blast
  next
    case (restart t')
    with that(1) store_steps_reachable [OF _ store_steps_1 [OF auth_step.restart]] show ?thesis
      by (simp add: server_inv_def flows_inv_def)
  qed
qed

definition reachable_server ::
  "pyenv \<Rightarrow> web_env \<Rightarrow> loads \<Rightarrow> broker_config \<Rightarrow> backend \<Rightarrow> manager \<Rightarrow> bool" where
  "reachable_server env web loads cfg pb m \<longleftrightarrow> reach empty_manager (server_step env web loads cfg pb) m"

text \<open>C15: The whole Broker refines the store.  After any sequence of HTTP requests, with any bodies,
headers, clock readings and network answers, and any number of restarts, the database is in a state
the operations of the authorization store reach, so that everything proved of reachable stores holds
of the running server; and the pending challenges are distinct and within their limit.\<close>

theorem server_refines_store:
  assumes "reachable_server env web loads cfg pb m"
  shows "reachable_store env (mg_db m) \<and> distinct (map fst (mg_flows m)) \<and>
    length (mg_flows m) \<le> mc_max_pending_flows (bc_manager cfg)"
  using api_server.invariant [of env web loads cfg pb m] assms
  by (simp add: reachable_server_def server_inv_def flows_inv_def)

definition enrol0 :: http_request where
  "enrol0 = \<lparr>ht_method = ''POST'', ht_target = ''/api/passkeys/register/begin'',
     ht_authorization = [], ht_remote_user = ''alice'', ht_origin = ''o'',
     ht_content_type = ''application/json'', ht_content_length = Some 1, ht_body = ''e''\<rparr>"

definition loads1 :: loads where
  "loads1 s = Some (JObj [(''enrollment_token'', token0)])"

lemma enrolled0:
  "map fst (mg_flows (fst (snd
     (handle env0 web0 loads1 broker_config0 backend0 inputs0 enrol0 empty_manager)))) = [''F1'']"
  by code_simp

theorem server_refines_store_witness:
  "\<exists>m :: manager. map fst (mg_flows m) = [''F1''] \<and> reachable_store env0 (mg_db m) \<and>
     length (mg_flows m) \<le> mc_max_pending_flows config0"
proof -
  let ?m = "fst (snd (handle env0 web0 loads1 broker_config0 backend0 inputs0 enrol0 empty_manager))"
  have "reachable_server env0 web0 loads1 broker_config0 backend0 ?m"
    unfolding reachable_server_def
    by (rule reach.next_state [OF reach.start]) (rule server_step.request)
  moreover have "bc_manager broker_config0 = config0" by (simp add: broker_config0_def)
  ultimately show ?thesis
    using server_refines_store [of env0 web0 loads1 broker_config0 backend0 ?m] enrolled0
    by (intro exI [of _ ?m]) simp
qed

section \<open>Replies\<close>














end
