(* ===== verification/Manager_Api.thy ===== *)
theory Manager_Api
  imports Broker_Api Execution_Example
begin

text \<open>
  \<open>ha_manager_executor/api.py\<close>: the HTTP interface of the Manager Executor, and the exchange of a
  shadow restart between it and the Broker's client.  The Supervisor's answer is an argument.
\<close>

section \<open>The server\<close>

record shadow_config =
  sc_api_token :: string
  sc_max_request_bytes :: int
  sc_restart_addon_allowlist :: "string set"

text \<open>
  A reply: the health document, the shadow's document, an error, no reply at all, which is what the
  handler does with a body that is \<open>null\<close>, or a connection that an exception ended.
\<close>

datatype shadow_reply =
    Shadow_health nat
  | Shadow_ok doc
  | Shadow_error nat string
  | Shadow_silent
  | Shadow_aborted exn

definition shadow_read_json ::
  "shadow_config \<Rightarrow> loads \<Rightarrow> http_request \<Rightarrow> (json \<Rightarrow> shadow_reply) \<Rightarrow> shadow_reply" where
  "shadow_read_json cfg loads req rest =
     (case ht_content_length req of
        None \<Rightarrow> Shadow_error 400 ''invalid_length''
      | Some n \<Rightarrow>
          if n \<le> 0 \<or> n > sc_max_request_bytes cfg then Shadow_error 413 ''request_size_invalid''
          else (case loads (take (nat n) (ht_body req)) of
              None \<Rightarrow> Shadow_error 400 ''invalid_json''
            | Some JNull \<Rightarrow> Shadow_silent
            | Some payload \<Rightarrow> rest payload))"

text \<open>\<open>except ShadowError\<close> with the table of statuses.\<close>

definition shadow_answer :: "doc result \<Rightarrow> shadow_reply" where
  "shadow_answer r =
     (case r of
        Inr d \<Rightarrow> Shadow_ok d
      | Inl (ShadowError c) \<Rightarrow>
          Shadow_error (case shadow_status r of None \<Rightarrow> 500 | Some status \<Rightarrow> status) c
      | Inl e \<Rightarrow> Shadow_aborted e)"

definition shadow_post ::
  "pyenv \<Rightarrow> loads \<Rightarrow> shadow_config \<Rightarrow> http_response \<Rightarrow> http_request \<Rightarrow> string \<Rightarrow> shadow_reply" where
  "shadow_post env loads cfg resp req path =
     (if path \<noteq> ''/internal/v1/shadow/restart-addon'' then Shadow_error 404 ''not_found''
      else (case compare_digest (ht_authorization req) (''Bearer '' @ sc_api_token cfg) of
          Inl e \<Rightarrow> Shadow_aborted e
        | Inr False \<Rightarrow> Shadow_error 401 ''not_authorized''
        | Inr True \<Rightarrow>
            shadow_read_json cfg loads req (\<lambda>payload.
              shadow_answer
                (shadow_restart_addon env loads (sc_restart_addon_allowlist cfg) payload resp))))"

definition shadow_handle ::
  "pyenv \<Rightarrow> loads \<Rightarrow> shadow_config \<Rightarrow> nat \<Rightarrow> http_response \<Rightarrow> http_request \<Rightarrow> shadow_reply" where
  "shadow_handle env loads cfg allowlist_count resp req =
     (if ht_method req \<notin> {''GET'', ''POST''} then Shadow_error 501 ''unsupported_method''
      else (case urlsplit env (ht_target req) of
          None \<Rightarrow> Shadow_aborted ValueError
        | Some u \<Rightarrow>
            if ht_method req = ''POST'' then shadow_post env loads cfg resp req (url_path u)
            else if url_path u = ''/healthz'' then Shadow_health allowlist_count
            else Shadow_error 404 ''not_found''))"

text \<open>The calls it makes: \<open>addon_info\<close>, once a request is valid and its target allowlisted.\<close>

definition shadow_calls :: "loads \<Rightarrow> shadow_config \<Rightarrow> json \<Rightarrow> http_call list" where
  "shadow_calls loads cfg request =
     (case validate_shadow_request request of
        Inl _ \<Rightarrow> []
      | Inr validated \<Rightarrow>
          (let target = str_of (get_field validated ''target'')
           in if target \<in> sc_restart_addon_allowlist cfg then addon_info_calls target else []))"

section \<open>Both sides compute one digest\<close>

lemma get_field_set_field: "get_field (set_field k v d) k' = (if k' = k then v else get_field d k')"
  by (induction k v d rule: set_field.induct) (auto simp: get_field_def)

lemma get_field_fill:
  assumes "k \<in> set ks" and "''installed'' \<in> set ks"
  shows "get_field (fill_installed (select_fields data ks)) k =
    (if k = ''installed'' \<and> get_field data k = JNull then JBool True else get_field data k)"
  using assms by (auto simp: fill_installed_def get_field_set_field get_field_select_in)

text \<open>The Broker and the Manager Executor agree on an add-on.  Of any answer of the Supervisor for
any add-on, the Broker's observation and digest and the Manager Executor's, two implementations with
different lists of fields, give the same baseline digest or fail with the same error.\<close>

theorem baselines_agree:
  "bind_result (addon_info loads slug resp) (\<lambda>d. addon_baseline_etag env (JObj d))
     = bind_result (manager_addon_info loads slug resp) (\<lambda>d. manager_baseline_etag env (JObj d))"
proof -
  have fields: "set [''slug'', ''state'', ''version'', ''installed''] \<subseteq> set ADDON_INFO_FIELDS"
    "set [''slug'', ''state'', ''version'', ''installed''] \<subseteq> set EVIDENCE_FIELDS"
    by (simp_all add: ADDON_INFO_FIELDS_def EVIDENCE_FIELDS_def)
  have "addon_baseline_etag env (JObj (fill_installed (select_fields data ADDON_INFO_FIELDS)))
      = manager_baseline_etag env (JObj (fill_installed (select_fields data EVIDENCE_FIELDS)))" for data
    using fields by (simp add: broker_baseline_of_object manager_baseline_of_object get_field_fill)
  then show ?thesis
    by (cases "supervisor_get loads resp")
      (simp_all add: addon_info_def manager_addon_info_def)
qed

section \<open>The exchange\<close>

text \<open>Two objects with the same entries; a dict that was written and parsed may have another order.\<close>

definition same_fields :: "doc \<Rightarrow> doc \<Rightarrow> bool" where
  "same_fields d d' \<longleftrightarrow> keys_of d = keys_of d' \<and> (\<forall>k. get_field d k = get_field d' k)"

text \<open>What \<open>urlopen\<close> gives the Broker for the reply of the server.\<close>

fun delivered :: "string \<Rightarrow> shadow_reply \<Rightarrow> http_response" where
  "delivered body (Shadow_ok _) = Body body"
| "delivered body (Shadow_health _) = Body body"
| "delivered body (Shadow_error _ _) = Http_error"
| "delivered body Shadow_silent = Unreachable"
| "delivered body (Shadow_aborted _) = Unreachable"

lemma validate_shadow_same:
  assumes "same_fields q d"
  shows "validate_shadow_request (JObj q) = Inl e \<longleftrightarrow> validate_shadow_request (JObj d) = Inl e"
    and "validate_shadow_request (JObj q) = Inr q \<longleftrightarrow> validate_shadow_request (JObj d) = Inr d"
  using assms by (auto simp: validate_shadow_request_def same_fields_def)

lemma validate_shadow_value: "validate_shadow_request (JObj q) = Inr v \<Longrightarrow> v = q"
  by (simp add: validate_shadow_request_def split: if_splits)

lemma validate_shadow_payload:
  assumes "same_fields q (shadow_payload p)" and "validate_shadow_request (JObj q) = Inr v"
  shows "b_adapter_version (pr_binding p) = Some ''manager-restart-v1''"
    and "b_adapter_schema_version (pr_binding p) = Some 1"
    and "\<exists>etag. b_baseline_etag (pr_binding p) = Some etag"
proof -
  have "get_field q k = get_field (shadow_payload p) k" for k
    using assms(1) by (simp add: same_fields_def)
  with assms(2) show "b_adapter_version (pr_binding p) = Some ''manager-restart-v1''"
    "b_adapter_schema_version (pr_binding p) = Some 1"
    "\<exists>etag. b_baseline_etag (pr_binding p) = Some etag"
    by (auto simp: validate_shadow_request_def shadow_payload_def get_field_def opt_json_def
        str_matches_def split: if_splits option.splits)
qed

lemma shadow_restart_addon_Inr:
  assumes "shadow_restart_addon env loads allow (JObj q) resp = Inr d"
  obtains target observation etag where "validate_shadow_request (JObj q) = Inr q"
    and "get_field q ''target'' = JStr target" and "target \<in> allow"
    and "manager_addon_info loads target resp = Inr observation"
    and "get_field observation ''slug'' = JStr target"
    and "get_field observation ''state'' = JStr ''started''"
    and "manager_baseline_etag env (JObj observation) = Inr etag"
    and "get_field q ''baseline_etag'' = JStr etag"
    and "d = shadow_document q target etag observation"
proof -
  from assms obtain v where v: "validate_shadow_request (JObj q) = Inr v"
    by (auto simp: shadow_restart_addon_def bind_result_Inr_iff)
  with validate_shadow_value have "v = q" by blast
  moreover from v have "\<exists>t. get_field q ''target'' = JStr t"
    by (auto simp: validate_shadow_request_def str_matches_def split: if_splits json.splits)
  ultimately show thesis
    using assms v that
    by (auto simp: shadow_restart_addon_def bind_result_Inr_iff Let_def str_of_def split: if_splits)
qed

lemma shadow_document_expected:
  assumes "same_fields q (shadow_payload p)" and "validate_shadow_request (JObj q) = Inr q"
    and "get_field q ''target'' = JStr target" and "get_field q ''baseline_etag'' = JStr etag"
    and "same_fields d' (shadow_document q target etag observation)"
  shows "\<not> list_ex (\<lambda>(f, v). \<not> py_same (get_field d' f) v) (shadow_expected p)"
    and "get_field d' ''observation'' = JObj observation"
proof -
  have q: "get_field q k = get_field (shadow_payload p) k" for k
    using assms(1) by (simp add: same_fields_def)
  have d': "get_field d' k = get_field (shadow_document q target etag observation) k" for k
    using assms(5) by (simp add: same_fields_def)
  note binding = validate_shadow_payload [OF assms(1,2)]
  obtain e where e: "b_baseline_etag (pr_binding p) = Some e" using binding(3) by blast
  have "target = pr_target p" "etag = e"
    using assms(3,4) e unfolding q by (simp_all add: shadow_payload_def get_field_def opt_json_def)
  then show "\<not> list_ex (\<lambda>(f, v). \<not> py_same (get_field d' f) v) (shadow_expected p)"
    using q [of "''action_id''"] q [of "''proposal_hash''"] binding(1,2) e
    by (simp add: shadow_expected_def d' shadow_document_def)
      (simp add: get_field_def py_same_def opt_json_def shadow_payload_def)
  show "get_field d' ''observation'' = JObj observation"
    unfolding d' by (simp add: shadow_document_def get_field_def)
qed

text \<open>The shadow exchange.  The server parses the client's payload and the client the server's reply,
each with the same entries in any order.  Then the client accepts exactly when the server does: a
document of the server always passes the client's check, and it certifies that the target is on the
server's allowlist, runs, and has at this moment the baseline digest the proposal was made for; a
refusal of the server is a \<open>ManagerExecutorError\<close> of the client.\<close>

theorem shadow_exchange:
  assumes "same_fields q (shadow_payload p)"
    and "shadow_restart_addon env loads allow (JObj q) resp = r"
    and "\<And>d. r = Inr d \<Longrightarrow> loads' body = Some (JObj d') \<and> same_fields d' d"
    and "length body \<le> MAX_RESPONSE_BYTES"
  shows "case r of
      Inr d \<Rightarrow> shadow_restart loads' p (delivered body (shadow_answer r)) = Inr d' \<and>
        pr_target p \<in> allow \<and>
        (\<exists>observation etag. manager_addon_info loads (pr_target p) resp = Inr observation \<and>
          get_field observation ''state'' = JStr ''started'' \<and>
          manager_baseline_etag env (JObj observation) = Inr etag \<and>
          b_baseline_etag (pr_binding p) = Some etag)
    | Inl e \<Rightarrow> \<exists>c. shadow_restart loads' p (delivered body (shadow_answer r))
        = Inl (ManagerExecutorError c)"
proof (cases r)
  case (Inl e)
  then show ?thesis by (cases e) (simp_all add: shadow_answer_def shadow_restart_def)
next
  case (Inr d)
  with assms(2) obtain target observation etag where
    v: "validate_shadow_request (JObj q) = Inr q" and t: "get_field q ''target'' = JStr target"
    and allow: "target \<in> allow" and obs: "manager_addon_info loads target resp = Inr observation"
    and state: "get_field observation ''state'' = JStr ''started''"
    and etag: "manager_baseline_etag env (JObj observation) = Inr etag"
    and b: "get_field q ''baseline_etag'' = JStr etag"
    and d: "d = shadow_document q target etag observation"
    by (metis shadow_restart_addon_Inr)
  have q: "get_field q k = get_field (shadow_payload p) k" for k
    using assms(1) by (simp add: same_fields_def)
  have "pr_target p = target" using t unfolding q by (simp add: shadow_payload_def get_field_def)
  moreover have "b_baseline_etag (pr_binding p) = Some etag"
    using b unfolding q
    by (auto simp: shadow_payload_def get_field_def opt_json_def split: option.splits)
  moreover have "shadow_restart loads' p (Body body) = Inr d'"
  proof -
    have "same_fields d' (shadow_document q target etag observation)" "loads' body = Some (JObj d')"
      using assms(3) Inr d by blast+
    moreover have "read_bounded body = body" "\<not> length body > MAX_RESPONSE_BYTES"
      using assms(4) by (simp_all add: read_bounded_def)
    ultimately show ?thesis
      using shadow_document_expected [OF assms(1) v t b, of d' observation]
      by (simp add: shadow_restart_def is_object_def)
  qed
  ultimately show ?thesis
    using Inr allow obs state etag by (simp add: shadow_answer_def)
qed

text \<open>The exchange for the proposal of \<open>Auth_Example\<close> and the add-on of \<open>Execution_Example\<close>.\<close>

definition shadow0 :: doc where
  "shadow0 = shadow_document (shadow_payload proposal0) ''demo'' (sha (CHR ''a'')) observation0"

lemma manager_addon_info0: "manager_addon_info loads0 ''demo'' (Body ''x'') = Inr observation0"
proof -
  have "fill_installed (select_fields addon0 EVIDENCE_FIELDS) = observation0" "ADDON_SLUG_RE ''demo''"
    by (code_simp, code_simp)
  then show ?thesis by (simp add: manager_addon_info_def supervisor_get0)
qed

lemma payload_fields0 [simp]:
  "get_field (shadow_payload proposal0) ''version'' = JInt 1"
  "get_field (shadow_payload proposal0) ''action_id'' = JStr action0"
  "get_field (shadow_payload proposal0) ''proposal_hash'' = JStr (sha (CHR ''a''))"
  "get_field (shadow_payload proposal0) ''action_type'' = JStr ''restart_addon''"
  "get_field (shadow_payload proposal0) ''target'' = JStr ''demo''"
  "get_field (shadow_payload proposal0) ''adapter_version'' = JStr ''manager-restart-v1''"
  "get_field (shadow_payload proposal0) ''adapter_schema_version'' = JInt 1"
  "get_field (shadow_payload proposal0) ''baseline_etag'' = JStr (sha (CHR ''a''))"
  by (simp_all add: shadow_payload_def get_field_def proposal0_def policy_binding_def policy0_def
      opt_json_def)

lemma payload_valid0:
  "validate_shadow_request (JObj (shadow_payload proposal0)) = Inr (shadow_payload proposal0)"
proof -
  have "keys_of (shadow_payload proposal0) = set SHADOW_REQUEST_FIELDS"
    by (simp add: shadow_payload_def keys_of_def SHADOW_REQUEST_FIELDS_def)
  moreover have "ADDON_SLUG_RE ''demo''" "ACTION_ID_RE action0" by (code_simp, code_simp)
  ultimately show ?thesis
    by (simp add: validate_shadow_request_def str_matches_def str_of_def)
qed

lemma manager_baseline0: "manager_baseline_etag env0 (JObj observation0) = Inr (sha (CHR ''a''))"
  by (simp add: manager_baseline_of_object nonempty_str_def is_bool_def sha256_document_def sha_def)

lemma shadow_accepted0:
  "shadow_restart_addon env0 loads0 {''demo''} (JObj (shadow_payload proposal0)) (Body ''x'')
     = Inr shadow0"
  by (simp add: shadow_restart_addon_def payload_valid0 manager_addon_info0 manager_baseline0
      Let_def str_of_def shadow0_def)

theorem shadow_exchange_witness:
  "shadow_restart (\<lambda>_. Some (JObj shadow0)) proposal0 (delivered [] (shadow_answer (Inr shadow0)))
     = Inr shadow0 \<and> pr_target proposal0 \<in> {''demo''}"
proof -
  have same: "same_fields d d" for d by (simp add: same_fields_def)
  have parsed: "(\<lambda>_. Some (JObj shadow0)) [] = Some (JObj shadow0) \<and> same_fields shadow0 d"
    if "(Inr shadow0 :: doc result) = Inr d" for d
    using that same by simp
  show ?thesis
    using shadow_exchange [OF same shadow_accepted0 parsed, of "[]"] unfolding sum.case by simp
qed

lemma shadow_read_json_ok:
  "shadow_read_json cfg loads req rest = Shadow_ok d \<Longrightarrow> \<exists>payload. rest payload = Shadow_ok d"
  by (auto simp: shadow_read_json_def split: option.splits if_splits json.splits)

lemma shadow_answer_ok: "shadow_answer r = Shadow_ok d \<longleftrightarrow> r = Inr d"
  by (auto simp: shadow_answer_def split: sum.splits exn.splits)

lemma shadow_post_ok:
  assumes "shadow_post env loads cfg resp req path = Shadow_ok d"
  shows "ht_authorization req = ''Bearer '' @ sc_api_token cfg \<and>
    (\<exists>payload. shadow_restart_addon env loads (sc_restart_addon_allowlist cfg) payload resp = Inr d)"
proof -
  from assms have "compare_digest (ht_authorization req) (''Bearer '' @ sc_api_token cfg) = Inr True"
    by (auto simp: shadow_post_def split: if_splits sum.splits bool.splits)
  with assms show ?thesis
    by (auto simp: shadow_post_def shadow_answer_ok compare_digest_def [of "ht_authorization req"]
        dest!: shadow_read_json_ok split: if_splits)
qed

lemma shadow_document_forbids:
  "shadow_restart_addon env loads allow request resp = Inr d \<Longrightarrow>
   get_field d ''execution_allowed'' = JBool False"
  by (auto simp: shadow_restart_addon_def bind_result_Inr_iff Let_def shadow_document_def
      get_field_def split: if_splits)

text \<open>The Manager Executor only reads, and only for its client.  Without the bearer token no document
leaves it; a document says that execution is not allowed; and whatever is asked, its only call is one
read of an add-on on its allowlist.\<close>

theorem shadow_read_only:
  "(case shadow_handle env loads cfg n resp req of
      Shadow_ok d \<Rightarrow> ht_authorization req = ''Bearer '' @ sc_api_token cfg \<and>
        get_field d ''execution_allowed'' = JBool False
    | _ \<Rightarrow> True) \<and>
   length (shadow_calls loads cfg request) \<le> 1 \<and>
   set (shadow_calls loads cfg request) \<subseteq>
     {Http_get (''/addons/'' @ slug @ ''/info'') | slug. slug \<in> sc_restart_addon_allowlist cfg}"
proof -
  have "ht_authorization req = ''Bearer '' @ sc_api_token cfg \<and>
      get_field d ''execution_allowed'' = JBool False"
    if "shadow_handle env loads cfg n resp req = Shadow_ok d" for d
    using that shadow_post_ok shadow_document_forbids
    by (auto simp: shadow_handle_def split: if_splits option.splits; metis)
  then show ?thesis
    by (auto simp: shadow_calls_def Let_def addon_info_calls_def split: sum.splits shadow_reply.splits)
qed

end
