(* ===== verification/Approval_Ledger.thy ===== *)
theory Approval_Ledger
  imports Calendar
begin

text \<open>
  \<open>hermes_agent/bundled_plugins/ha-operations-approval/ledger.py\<close>: the proposal and approval ledger
  on the agent's side.  Its SQLite table is a list of rows in rowid order; a TEXT timestamp is the
  instant it denotes; the column \<open>rollback_state\<close>, always \<open>not_required\<close>, is left out.
  \<open>json.loads\<close> and Python's Unicode case tables are parameters, the digest and
  \<open>urlsplit\<close> are those of \<open>pyenv\<close>; the clock, the tokens and the challenge are arguments.
\<close>

section \<open>Policy tables\<close>

definition LEDGER_ACTION_RISKS :: "(string \<times> string) list" where
  "LEDGER_ACTION_RISKS =
    (''check_ha_config'', ''L1'') #
    map (\<lambda>a. (a, ''L3''))
      [''install_addon'', ''configure_addon'', ''start_addon'', ''stop_addon'', ''restart_addon'',
       ''update_addon'', ''repair_addon'', ''uninstall_addon'', ''install_hacs'', ''update_hacs'',
       ''repair_hacs'', ''remove_hacs'', ''start_config_flow'', ''enable_integration'',
       ''disable_integration'', ''reload_integration'', ''remove_integration'', ''restart_core'',
       ''create_backup'', ''purge_recorder'', ''delete_expired_backup'',
       ''cleanup_allowlisted_cache'']"

text \<open>The ledger and the Broker carry the same table.\<close>

lemma same_risks: "LEDGER_ACTION_RISKS = ACTION_RISKS"
  by (simp add: LEDGER_ACTION_RISKS_def ACTION_RISKS_def)

definition CHALLENGE_RE :: "string \<Rightarrow> bool" where
  "CHALLENGE_RE = matches (replicate 8 is_hex_upper)"

type_synonym json_loads = "string \<Rightarrow> json option"

section \<open>Sanitising\<close>

definition ledger_safe_text :: "pyenv \<Rightarrow> json \<Rightarrow> nat \<Rightarrow> string result" where
  "ledger_safe_text env value maximum =
     (case value of
        JStr s \<Rightarrow>
          (let text = py_strip s in
           if text = [] \<or> py_len text > maximum then Inl (ProposalError ''invalid_field'')
           else if list_ex (\<lambda>c. byte c < 32 \<and> byte c \<noteq> 9) text
           then Inl (ProposalError ''invalid_field'')
           else if SENSITIVE_VALUE_RE env text then Inl (ProposalError ''sensitive_value'')
           else Inr text)
      | _ \<Rightarrow> Inl (ProposalError ''invalid_field''))"

definition ledger_safe_text_list :: "pyenv \<Rightarrow> json_loads \<Rightarrow> json \<Rightarrow> string list result" where
  "ledger_safe_text_list env loads value =
     bind_result
       (case value of
          JStr s \<Rightarrow> (case loads s of None \<Rightarrow> Inl (ProposalError ''invalid_json'') | Some v \<Rightarrow> Inr v)
        | _ \<Rightarrow> Inr value)
       (\<lambda>v. case v of
          JList vs \<Rightarrow>
            if \<not> (1 \<le> length vs \<and> length vs \<le> 10) then Inl (ProposalError ''invalid_field'')
            else map_result (\<lambda>item. ledger_safe_text env item 300) vs
        | _ \<Rightarrow> Inl (ProposalError ''invalid_field''))"

definition validate_url_summary :: "pyenv \<Rightarrow> string \<Rightarrow> unit result" where
  "validate_url_summary env value =
     (if \<not> is_infix ''://'' value then Inr ()
      else (case urlsplit env value of
              None \<Rightarrow> Inl ValueError
            | Some u \<Rightarrow>
                if url_scheme u \<notin> {''http'', ''https''} \<or> url_hostname u = []
                then Inl (ProposalError ''invalid_url'')
                else if url_username u \<noteq> [] \<or> url_password u \<noteq> [] \<or> url_query u \<noteq> []
                        \<or> url_fragment u \<noteq> []
                then Inl (ProposalError ''sensitive_url'')
                else Inr ()))"

definition normalize_parameter_key :: "string \<Rightarrow> string" where
  "normalize_parameter_key key = filter (\<lambda>c. is_lower c \<or> is_digit c) (map ascii_lower key)"

definition parameter_key_check :: "string \<Rightarrow> unit result" where
  "parameter_key_check key =
     (if \<not> PARAMETER_KEY_RE key then Inl (ProposalError ''invalid_parameter_key'')
      else if list_ex (\<lambda>part. is_infix part (normalize_parameter_key key)) SENSITIVE_KEY_PARTS
      then Inl (ProposalError ''sensitive_parameter'')
      else Inr ())"

text \<open>\<open>_sanitize_parameter_value\<close> with its mutable counter passed and returned.\<close>

function (sequential)
  ledger_sanitize_value :: "pyenv \<Rightarrow> json \<Rightarrow> nat \<Rightarrow> nat \<Rightarrow> (json \<times> nat) result" and
  ledger_sanitize_items :: "pyenv \<Rightarrow> json list \<Rightarrow> nat \<Rightarrow> nat \<Rightarrow> (json list \<times> nat) result" and
  ledger_sanitize_fields :: "pyenv \<Rightarrow> (string \<times> json) list \<Rightarrow> nat \<Rightarrow> nat \<Rightarrow>
                        ((string \<times> json) list \<times> nat) result" where
  "ledger_sanitize_value env value depth counter =
     (if Suc counter > 64 \<or> depth > 4 then Inl (ProposalError ''parameters_too_large'')
      else (case value of
          JNull \<Rightarrow> Inr (JNull, Suc counter)
        | JBool b \<Rightarrow> Inr (JBool b, Suc counter)
        | JInt i \<Rightarrow> Inr (JInt i, Suc counter)
        | JFloat (FFin q) \<Rightarrow> Inr (JFloat (FFin q), Suc counter)
        | JFloat _ \<Rightarrow> Inl (ProposalError ''invalid_number'')
        | JStr s \<Rightarrow>
            bind_result (ledger_safe_text env (JStr s) 256) (\<lambda>text.
            bind_result (validate_url_summary env text) (\<lambda>_. Inr (JStr text, Suc counter)))
        | JList vs \<Rightarrow>
            if length vs > 16 then Inl (ProposalError ''parameters_too_large'')
            else bind_result (ledger_sanitize_items env vs (Suc depth) (Suc counter))
                   (\<lambda>(us, n). Inr (JList us, n))
        | JObj kvs \<Rightarrow>
            if length kvs > 32 then Inl (ProposalError ''parameters_too_large'')
            else bind_result (ledger_sanitize_fields env (sort_key fst kvs) (Suc depth) (Suc counter))
                   (\<lambda>(us, n). Inr (JObj us, n))))"
| "ledger_sanitize_items env [] depth counter = Inr ([], counter)"
| "ledger_sanitize_items env (v # vs) depth counter =
     bind_result (ledger_sanitize_value env v depth counter) (\<lambda>(u, n).
       bind_result (ledger_sanitize_items env vs depth n) (\<lambda>(us, n'). Inr (u # us, n')))"
| "ledger_sanitize_fields env [] depth counter = Inr ([], counter)"
| "ledger_sanitize_fields env ((k, v) # kvs) depth counter =
     bind_result (parameter_key_check k) (\<lambda>_.
       bind_result (ledger_sanitize_value env v depth counter) (\<lambda>(u, n).
         bind_result (ledger_sanitize_fields env kvs depth n) (\<lambda>(us, n'). Inr ((k, u) # us, n'))))"
  by pat_completeness auto
termination
  by (relation "measure (\<lambda>x. case x of
        Inl (env, v, d, n) \<Rightarrow> Suc (2 * size v)
      | Inr (Inl (env, vs, d, n)) \<Rightarrow> 2 * size_list size vs
      | Inr (Inr (env, kvs, d, n)) \<Rightarrow> 2 * size_list (size_prod (\<lambda>_. 0) size) kvs)")
    (auto)

declare ledger_sanitize_value.simps [simp del]

definition ledger_sanitize_summary :: "pyenv \<Rightarrow> json_loads \<Rightarrow> json \<Rightarrow> json result" where
  "ledger_sanitize_summary env loads value =
     bind_result
       (case (if value = JNull \<or> value = JStr [] then JObj [] else value) of
          JStr s \<Rightarrow>
            if py_len s > 4096 then Inl (ProposalError ''parameters_too_large'')
            else (case loads s of None \<Rightarrow> Inl (ProposalError ''invalid_json'') | Some v \<Rightarrow> Inr v)
        | v \<Rightarrow> Inr v)
       (\<lambda>v. case v of
          JObj _ \<Rightarrow> bind_result (ledger_sanitize_value env v 0 0) (\<lambda>(u, _). Inr u)
        | _ \<Rightarrow> Inl (ProposalError ''invalid_parameters''))"

section \<open>The request of a proposal\<close>

text \<open>
  \<open>str(v)\<close>; of a container only the bracket it begins with matters here, for no action and no target
  begins with one.
\<close>

fun py_str :: "pyenv \<Rightarrow> json \<Rightarrow> string" where
  "py_str env (JStr s) = s"
| "py_str env JNull = ''None''"
| "py_str env (JBool b) = (if b then ''True'' else ''False'')"
| "py_str env (JInt i) = show_int i"
| "py_str env (JFloat x) = float_repr env x"
| "py_str env (JList _) = ''[''"
| "py_str env (JObj _) = ''{''"

definition get_default :: "doc \<Rightarrow> string \<Rightarrow> json \<Rightarrow> json" where
  "get_default kvs k d = (case map_of kvs k of None \<Rightarrow> d | Some v \<Rightarrow> v)"

record normalized =
  nz_action_type :: string
  nz_target :: string
  nz_parameter_summary :: json
  nz_risk_level :: string
  nz_requires_backup :: bool
  nz_expected_change :: string
  nz_validation_plan :: "string list"
  nz_rollback_plan :: "string list"

definition normalize_proposal_request :: "pyenv \<Rightarrow> json_loads \<Rightarrow> doc \<Rightarrow> normalized result" where
  "normalize_proposal_request env loads args =
     (let action_type = py_strip (py_str env (get_default args ''action_type'' (JStr [])));
          target = py_strip (py_str env (get_default args ''target'' (JStr [])))
      in case map_of LEDGER_ACTION_RISKS action_type of
           None \<Rightarrow> Inl (ProposalError ''unsupported_action'')
         | Some risk_level \<Rightarrow>
             if \<not> TARGET_RE target \<or> is_infix ''..'' target \<or> is_prefix ''/'' target
                \<or> is_prefix [CHR 0x5C] target
             then Inl (ProposalError ''invalid_target'')
             else
               bind_result (ledger_sanitize_summary env loads (get_field args ''parameter_summary''))
                 (\<lambda>params.
               bind_result (ledger_safe_text env (get_field args ''expected_change'') 300) (\<lambda>change.
               bind_result (ledger_safe_text_list env loads (get_field args ''validation_plan''))
                 (\<lambda>validation.
               bind_result (ledger_safe_text_list env loads (get_field args ''rollback_plan''))
                 (\<lambda>rollback.
               case get_field args ''requires_backup'' of
                 JBool requires_backup \<Rightarrow>
                   if risk_level = ''L3'' \<and> \<not> requires_backup \<and> action_type \<noteq> ''check_ha_config''
                   then Inl (ProposalError ''backup_required'')
                   else Inr \<lparr>nz_action_type = action_type, nz_target = target,
                             nz_parameter_summary = params, nz_risk_level = risk_level,
                             nz_requires_backup = requires_backup, nz_expected_change = change,
                             nz_validation_plan = validation, nz_rollback_plan = rollback\<rparr>
               | _ \<Rightarrow> Inl (ProposalError ''invalid_field''))))))"

section \<open>The table\<close>

datatype op_state =
  Awaiting_approval | Awaiting_confirmation | Approved | Cancelled | Op_expired

record operation =
  op_action_id :: string
  op_action_type :: string
  op_target :: string
  op_parameter_hash :: string
  op_proposal_hash :: string
  op_risk_level :: string
  op_requires_backup :: bool
  op_created_at :: int
  op_expires_at :: int
  op_state :: op_state
  op_approval_started_at :: "int option"
  op_approved_at :: "int option"
  op_approved_by_hash :: "string option"
  op_cancelled_at :: "int option"
  op_cancelled_by_hash :: "string option"
  op_confirmation_hash :: "string option"
  op_error_code :: "string option"

type_synonym ledger = "operation list"

definition in_nonterminal :: "op_state \<Rightarrow> bool" where
  "in_nonterminal st \<longleftrightarrow> st \<in> {Awaiting_approval, Awaiting_confirmation, Approved}"

definition in_terminal :: "op_state \<Rightarrow> bool" where
  "in_terminal st \<longleftrightarrow> st \<in> {Cancelled, Op_expired}"

text \<open>The constructor's limits.\<close>

record ledger_config =
  lc_ttl_seconds :: int
  lc_max_pending :: nat

definition ledger_init :: "ledger_config \<Rightarrow> unit result" where
  "ledger_init cfg =
     (if \<not> (60 \<le> lc_ttl_seconds cfg \<and> lc_ttl_seconds cfg \<le> 3600)
      then Inl (ProposalError ''invalid_ttl'')
      else if \<not> (1 \<le> lc_max_pending cfg \<and> lc_max_pending cfg \<le> 100)
      then Inl (ProposalError ''invalid_limit'')
      else Inr ())"

text \<open>\<open>_row_status\<close> hides the actor and the challenge digest; an approval adds its challenge.\<close>

record op_status =
  os_action_id :: string
  os_action_type :: string
  os_target :: string
  os_parameter_hash :: string
  os_proposal_hash :: string
  os_risk_level :: string
  os_requires_backup :: bool
  os_created_at :: int
  os_expires_at :: int
  os_state :: op_state
  os_approval_started_at :: "int option"
  os_approved_at :: "int option"
  os_cancelled_at :: "int option"
  os_error_code :: "string option"
  os_challenge :: "string option"
  os_confirmation_required :: bool

definition row_status :: "operation \<Rightarrow> op_status" where
  "row_status row =
     \<lparr>os_action_id = op_action_id row, os_action_type = op_action_type row,
      os_target = op_target row, os_parameter_hash = ''sha256:'' @ op_parameter_hash row,
      os_proposal_hash = ''sha256:'' @ op_proposal_hash row, os_risk_level = op_risk_level row,
      os_requires_backup = op_requires_backup row, os_created_at = op_created_at row,
      os_expires_at = op_expires_at row, os_state = op_state row,
      os_approval_started_at = op_approval_started_at row, os_approved_at = op_approved_at row,
      os_cancelled_at = op_cancelled_at row, os_error_code = op_error_code row,
      os_challenge = None, os_confirmation_required = False\<rparr>"

definition expire_operation :: "operation \<Rightarrow> operation" where
  "expire_operation r =
     r\<lparr>op_state := Op_expired, op_error_code := Some ''approval_ttl_expired'',
       op_confirmation_hash := None\<rparr>"

definition expire_if_needed :: "operation \<Rightarrow> int \<Rightarrow> ledger \<Rightarrow> operation \<times> ledger" where
  "expire_if_needed row now db =
     (if in_nonterminal (op_state row) \<and> now \<ge> op_expires_at row
      then (expire_operation row,
            update_where (\<lambda>r. op_action_id r = op_action_id row) expire_operation db)
      else (row, db))"

section \<open>Creating a proposal\<close>

definition proposal_fields :: "normalized \<Rightarrow> string \<Rightarrow> int \<Rightarrow> int \<Rightarrow> doc" where
  "proposal_fields n action_id now expires_at =
     [(''version'', JInt 1), (''action_id'', JStr action_id),
      (''action_type'', JStr (nz_action_type n)), (''target'', JStr (nz_target n)),
      (''parameter_summary'', nz_parameter_summary n), (''risk_level'', JStr (nz_risk_level n)),
      (''requires_backup'', JBool (nz_requires_backup n)),
      (''expected_change'', JStr (nz_expected_change n)),
      (''validation_plan'', JList (map JStr (nz_validation_plan n))),
      (''rollback_plan'', JList (map JStr (nz_rollback_plan n))),
      (''created_at'', JStr (iso_text now)), (''expires_at'', JStr (iso_text expires_at)),
      (''state'', JStr ''awaiting_approval'')]"

definition new_operation :: "pyenv \<Rightarrow> normalized \<Rightarrow> string \<Rightarrow> int \<Rightarrow> int \<Rightarrow> operation" where
  "new_operation env n action_id now expires_at =
     \<lparr>op_action_id = action_id, op_action_type = nz_action_type n, op_target = nz_target n,
      op_parameter_hash = sha256_text env (canonical_json env (nz_parameter_summary n)),
      op_proposal_hash =
        sha256_text env (canonical_json env (JObj (proposal_fields n action_id now expires_at))),
      op_risk_level = nz_risk_level n, op_requires_backup = nz_requires_backup n,
      op_created_at = whole_second now, op_expires_at = whole_second expires_at,
      op_state = Awaiting_approval, op_approval_started_at = None, op_approved_at = None,
      op_approved_by_hash = None, op_cancelled_at = None, op_cancelled_by_hash = None,
      op_confirmation_hash = None, op_error_code = None\<rparr>"

definition created_document :: "pyenv \<Rightarrow> normalized \<Rightarrow> string \<Rightarrow> int \<Rightarrow> int \<Rightarrow> doc" where
  "created_document env n action_id now expires_at =
     (let row = new_operation env n action_id now expires_at
      in proposal_fields n action_id now expires_at @
         [(''parameter_summary_hash'', JStr (''sha256:'' @ op_parameter_hash row)),
          (''proposal_hash'', JStr (''sha256:'' @ op_proposal_hash row))])"

text \<open>The loop over the attempts, one random token each.\<close>

fun allocate ::
  "pyenv \<Rightarrow> normalized \<Rightarrow> int \<Rightarrow> int \<Rightarrow> string list \<Rightarrow> ledger \<Rightarrow> doc result \<times> ledger" where
  "allocate env n now expires_at [] db = (Inl (ProposalError ''id_collision''), db)"
| "allocate env n now expires_at (token # tokens) db =
     (let action_id = ''OPS-'' @ ymd_text now @ ''-'' @ token;
          row = new_operation env n action_id now expires_at
      in if action_id \<in> set (map op_action_id db) \<or> op_proposal_hash row \<in> set (map op_proposal_hash db)
         then allocate env n now expires_at tokens db
         else (Inr (created_document env n action_id now expires_at), insert_row row db))"

definition pending_at :: "int \<Rightarrow> operation \<Rightarrow> bool" where
  "pending_at now r \<longleftrightarrow> in_nonterminal (op_state r) \<and> op_expires_at r > whole_second now"

definition create ::
  "pyenv \<Rightarrow> json_loads \<Rightarrow> ledger_config \<Rightarrow> doc \<Rightarrow> (nat \<Rightarrow> string) \<Rightarrow> int \<Rightarrow> ledger
     \<Rightarrow> doc result \<times> ledger" where
  "create env loads cfg args token now db =
     (case normalize_proposal_request env loads args of
        Inl e \<Rightarrow> (Inl e, db)
      | Inr n \<Rightarrow> transaction (\<lambda>db.
          if rowcount (pending_at now) db \<ge> lc_max_pending cfg
          then (Inl (ProposalError ''too_many_pending''), db)
          else allocate env n now (now + seconds (lc_ttl_seconds cfg)) (map token [0..<8]) db) db)"

section \<open>Reading, cancelling and approving\<close>

text \<open>The beginning of every other operation: the row, expired when its time has come.\<close>

definition with_row ::
  "string \<Rightarrow> int \<Rightarrow> (operation \<Rightarrow> ledger \<Rightarrow> op_status result \<times> ledger) \<Rightarrow> ledger
     \<Rightarrow> op_status result \<times> ledger" where
  "with_row action_id now body = transaction (\<lambda>db.
     case select_one (\<lambda>r. op_action_id r = action_id) db of
       None \<Rightarrow> (Inl (ProposalError ''not_found''), db)
     | Some row \<Rightarrow> (let (row', db') = expire_if_needed row now db in body row' db'))"

definition ledger_get :: "string \<Rightarrow> int \<Rightarrow> ledger \<Rightarrow> op_status result \<times> ledger" where
  "ledger_get action_id now db =
     (if \<not> ACTION_ID_RE action_id then (Inl (ProposalError ''invalid_action_id''), db)
      else with_row action_id now (\<lambda>row db. (Inr (row_status row), db)) db)"

definition cancelled_row :: "int \<Rightarrow> string \<Rightarrow> operation \<Rightarrow> operation" where
  "cancelled_row now actor_hash r =
     r\<lparr>op_state := Cancelled, op_cancelled_at := Some (whole_second now),
       op_cancelled_by_hash := Some actor_hash, op_confirmation_hash := None,
       op_error_code := Some ''cancelled_by_owner''\<rparr>"

text \<open>An UPDATE of the row and the SELECT that reads it back.\<close>

definition update_row ::
  "(operation \<Rightarrow> operation) \<Rightarrow> operation \<Rightarrow> ledger \<Rightarrow> op_status result \<times> ledger" where
  "update_row f row db =
     (Inr (row_status (f row)), update_where (\<lambda>r. op_action_id r = op_action_id row) f db)"

text \<open>\<open>row[...] and not compare_digest(row[...], actor_hash)\<close>\<close>

definition other_owner :: "operation \<Rightarrow> string \<Rightarrow> bool" where
  "other_owner row actor_hash \<longleftrightarrow>
     (case op_approved_by_hash row of None \<Rightarrow> False | Some h \<Rightarrow> h \<noteq> [] \<and> h \<noteq> actor_hash)"

definition cancel_body ::
  "string \<Rightarrow> int \<Rightarrow> operation \<Rightarrow> ledger \<Rightarrow> op_status result \<times> ledger" where
  "cancel_body actor_hash now row db =
     (if in_terminal (op_state row) then (Inr (row_status row), db)
      else if op_state row \<notin> {Awaiting_approval, Awaiting_confirmation}
      then (Inl (ProposalError ''cannot_cancel''), db)
      else if other_owner row actor_hash then (Inl (ProposalError ''identity_mismatch''), db)
      else update_row (cancelled_row now actor_hash) row db)"

definition cancel :: "string \<Rightarrow> string \<Rightarrow> int \<Rightarrow> ledger \<Rightarrow> op_status result \<times> ledger" where
  "cancel action_id actor_hash now db =
     (if \<not> ACTION_ID_RE action_id then (Inl (ProposalError ''invalid_action_id''), db)
      else if \<not> IDENTITY_HASH_RE actor_hash then (Inl (ProposalError ''not_authorized''), db)
      else with_row action_id now (cancel_body actor_hash now) db)"

datatype approval_mode = Approve_mode string | Confirm_mode string

text \<open>Or-ing a nullable text with the empty one.\<close>

definition or_empty :: "string option \<Rightarrow> string" where
  "or_empty v = (case v of None \<Rightarrow> [] | Some s \<Rightarrow> s)"

definition awaiting_confirmation_row :: "pyenv \<Rightarrow> int \<Rightarrow> string \<Rightarrow> string \<Rightarrow> operation \<Rightarrow> operation" where
  "awaiting_confirmation_row env now actor_hash confirmation r =
     r\<lparr>op_state := Awaiting_confirmation, op_approval_started_at := Some (whole_second now),
       op_approved_by_hash := Some actor_hash,
       op_confirmation_hash := Some (sha256_text env confirmation)\<rparr>"

definition approved_row :: "int \<Rightarrow> string \<Rightarrow> operation \<Rightarrow> operation" where
  "approved_row now actor_hash r =
     r\<lparr>op_state := Approved, op_approval_started_at := Some (whole_second now),
       op_approved_at := Some (whole_second now), op_approved_by_hash := Some actor_hash\<rparr>"

definition confirmed_row :: "int \<Rightarrow> operation \<Rightarrow> operation" where
  "confirmed_row now r =
     r\<lparr>op_state := Approved, op_approved_at := Some (whole_second now),
       op_confirmation_hash := None\<rparr>"

definition approval_body ::
  "pyenv \<Rightarrow> approval_mode \<Rightarrow> string \<Rightarrow> int \<Rightarrow> operation \<Rightarrow> ledger \<Rightarrow> op_status result \<times> ledger" where
  "approval_body env mode actor_hash now row db =
     (if in_terminal (op_state row) \<or> op_state row = Approved then (Inr (row_status row), db)
      else (case (mode, op_state row) of
          (Approve_mode confirmation, Awaiting_approval) \<Rightarrow>
            if op_risk_level row = ''L3''
            then (let f = awaiting_confirmation_row env now actor_hash confirmation
                  in (Inr (row_status (f row)\<lparr>os_challenge := Some confirmation\<rparr>),
                      update_where (\<lambda>r. op_action_id r = op_action_id row) f db))
            else update_row (approved_row now actor_hash) row db
        | (Approve_mode _, Awaiting_confirmation) \<Rightarrow>
            if or_empty (op_approved_by_hash row) \<noteq> actor_hash
            then (Inl (ProposalError ''identity_mismatch''), db)
            else (Inr (row_status row\<lparr>os_confirmation_required := True\<rparr>), db)
        | (Confirm_mode challenge, Awaiting_confirmation) \<Rightarrow>
            if or_empty (op_approved_by_hash row) \<noteq> actor_hash
            then (Inl (ProposalError ''identity_mismatch''), db)
            else if \<not> CHALLENGE_RE challenge
                    \<or> or_empty (op_confirmation_hash row) \<noteq> sha256_text env challenge
            then (Inl (ProposalError ''invalid_confirmation''), db)
            else update_row (confirmed_row now) row db
        | _ \<Rightarrow> (Inl (ProposalError ''invalid_transition''), db)))"

definition approval_transition ::
  "pyenv \<Rightarrow> approval_mode \<Rightarrow> string \<Rightarrow> string \<Rightarrow> int \<Rightarrow> ledger \<Rightarrow> op_status result \<times> ledger" where
  "approval_transition env mode action_id actor_hash now db =
     (if \<not> ACTION_ID_RE action_id then (Inl (ProposalError ''invalid_action_id''), db)
      else if \<not> IDENTITY_HASH_RE actor_hash then (Inl (ProposalError ''not_authorized''), db)
      else with_row action_id now (approval_body env mode actor_hash now) db)"

text \<open>\<open>approve\<close> with the challenge it may issue; \<open>confirm\<close> with the upper-casing of the runtime.\<close>

definition approve ::
  "pyenv \<Rightarrow> string \<Rightarrow> string \<Rightarrow> string \<Rightarrow> int \<Rightarrow> ledger \<Rightarrow> op_status result \<times> ledger" where
  "approve env action_id actor_hash confirmation now db =
     approval_transition env (Approve_mode confirmation) action_id actor_hash now db"

definition confirm ::
  "pyenv \<Rightarrow> (string \<Rightarrow> string) \<Rightarrow> string \<Rightarrow> string \<Rightarrow> string \<Rightarrow> int \<Rightarrow> ledger
     \<Rightarrow> op_status result \<times> ledger" where
  "confirm env upper action_id actor_hash challenge now db =
     approval_transition env (Confirm_mode (upper (py_strip challenge))) action_id actor_hash now db"

end
