(* ===== verification/Ledger_Properties.thy ===== *)
theory Ledger_Properties
  imports Approval_Ledger Example_Runtime
begin

text \<open>
  The approval ledger as a transition system: one step is one call of one of its operations, by
  anyone and at any time.  Its properties are the two-step approval of L3 operations, the life cycle
  of a proposal, the bound on pending proposals, and the agreement of its sanitiser with the Broker's.
\<close>

section \<open>Operations as steps\<close>

datatype ledger_op =
    Op_create doc "nat \<Rightarrow> string" int
  | Op_get string int
  | Op_approve string string string int
  | Op_confirm string string string int
  | Op_cancel string string int

fun run_op ::
  "pyenv \<Rightarrow> json_loads \<Rightarrow> (string \<Rightarrow> string) \<Rightarrow> ledger_config \<Rightarrow> ledger_op \<Rightarrow> ledger \<Rightarrow> ledger" where
  "run_op env loads upper cfg (Op_create args token now) db = snd (create env loads cfg args token now db)"
| "run_op env loads upper cfg (Op_get a now) db = snd (ledger_get a now db)"
| "run_op env loads upper cfg (Op_approve a actor c now) db = snd (approve env a actor c now db)"
| "run_op env loads upper cfg (Op_confirm a actor c now) db =
     snd (confirm env upper a actor c now db)"
| "run_op env loads upper cfg (Op_cancel a actor now) db = snd (cancel a actor now db)"

section \<open>What one operation does to one row\<close>

text \<open>The change an operation makes to the row it names, when that row is live at its time.\<close>

fun live_change :: "pyenv \<Rightarrow> (string \<Rightarrow> string) \<Rightarrow> ledger_op \<Rightarrow> operation \<Rightarrow> operation \<Rightarrow> bool" where
  "live_change env upper (Op_approve a actor c now) r r' \<longleftrightarrow>
     IDENTITY_HASH_RE actor \<and> op_state r = Awaiting_approval \<and>
     r' = (if op_risk_level r = ''L3'' then awaiting_confirmation_row env now actor c r
           else approved_row now actor r)"
| "live_change env upper (Op_confirm a actor c now) r r' \<longleftrightarrow>
     op_state r = Awaiting_confirmation \<and> or_empty (op_approved_by_hash r) = actor \<and>
     CHALLENGE_RE (upper (py_strip c)) \<and>
     or_empty (op_confirmation_hash r) = sha256_text env (upper (py_strip c)) \<and>
     r' = confirmed_row now r"
| "live_change env upper (Op_cancel a actor now) r r' \<longleftrightarrow>
     IDENTITY_HASH_RE actor \<and> op_state r \<in> {Awaiting_approval, Awaiting_confirmation} \<and>
     \<not> other_owner r actor \<and> r' = cancelled_row now actor r"
| "live_change env upper _ r r' \<longleftrightarrow> False"

fun op_subject :: "ledger_op \<Rightarrow> (string \<times> int) option" where
  "op_subject (Op_create _ _ _) = None"
| "op_subject (Op_get a now) = Some (a, now)"
| "op_subject (Op_approve a _ _ now) = Some (a, now)"
| "op_subject (Op_confirm a _ _ now) = Some (a, now)"
| "op_subject (Op_cancel a _ now) = Some (a, now)"

text \<open>A row and what one operation leaves of it.\<close>

definition row_change :: "pyenv \<Rightarrow> (string \<Rightarrow> string) \<Rightarrow> ledger_op \<Rightarrow> operation \<Rightarrow> operation \<Rightarrow> bool" where
  "row_change env upper op r r' \<longleftrightarrow>
     r' = r \<or>
     (\<exists>now. op_subject op = Some (op_action_id r, now) \<and>
        (in_nonterminal (op_state r) \<and> op_expires_at r \<le> now \<and> r' = expire_operation r \<or>
         (in_nonterminal (op_state r) \<longrightarrow> now < op_expires_at r) \<and> live_change env upper op r r'))"

lemma row_change_refl [simp]: "row_change env upper op r r"
  by (simp add: row_change_def)

lemma expire_not_live: "\<not> in_nonterminal (op_state (expire_operation r))"
  "in_terminal (op_state (expire_operation r))"
  by (simp_all add: expire_operation_def in_nonterminal_def in_terminal_def)

lemma row_updates_keep_id [simp]:
  "op_action_id (expire_operation r) = op_action_id r"
  "op_action_id (cancelled_row now h r) = op_action_id r"
  "op_action_id (awaiting_confirmation_row env now h c r) = op_action_id r"
  "op_action_id (approved_row now h r) = op_action_id r"
  "op_action_id (confirmed_row now r) = op_action_id r"
  by (simp_all add: expire_operation_def cancelled_row_def awaiting_confirmation_row_def
      approved_row_def confirmed_row_def)

text \<open>
  The three shapes of an operation on a row: nothing, the expiry of its row, or the body on a live row.
\<close>

definition keeps_terminal :: "(operation \<Rightarrow> ledger \<Rightarrow> op_status result \<times> ledger) \<Rightarrow> bool" where
  "keeps_terminal body \<longleftrightarrow> (\<forall>r db. in_terminal (op_state r) \<longrightarrow> (\<exists>v. body r db = (Inr v, db)))"

lemma with_row_cases [consumes 1]:
  assumes terminal: "keeps_terminal body"
  obtains (same) "snd (with_row a now body db) = db"
  | (expired) row where "select_one (\<lambda>r. op_action_id r = a) db = Some row"
      and "in_nonterminal (op_state row)" and "op_expires_at row \<le> now"
      and "snd (with_row a now body db) = update_where (\<lambda>r. op_action_id r = a) expire_operation db"
  | (live) row where "select_one (\<lambda>r. op_action_id r = a) db = Some row"
      and "in_nonterminal (op_state row) \<longrightarrow> now < op_expires_at row"
      and "with_row a now body db = transaction (body row) db"
proof (cases "select_one (\<lambda>r. op_action_id r = a) db")
  case None
  then show ?thesis by (intro same) (simp add: with_row_def transaction_def)
next
  case (Some row)
  then have id: "op_action_id row = a" using select_one_Some_iff by fastforce
  show ?thesis
  proof (cases "in_nonterminal (op_state row) \<and> op_expires_at row \<le> now")
    case True
    from terminal expire_not_live(2) [of row] obtain v where
      "body (expire_operation row) (update_where (\<lambda>r. op_action_id r = a) expire_operation db)
         = (Inr v, update_where (\<lambda>r. op_action_id r = a) expire_operation db)"
      unfolding keeps_terminal_def by blast
    with True Some id show ?thesis
      by (intro expired [of row]) (simp_all add: with_row_def transaction_def expire_if_needed_def)
  next
    case False
    with Some id show ?thesis
      by (intro live [of row]) (auto simp: with_row_def transaction_def expire_if_needed_def)
  qed
qed

lemma bodies_terminal [simp]:
  "keeps_terminal (\<lambda>row db. (Inr (row_status row), db))"
  "keeps_terminal (cancel_body actor now)" "keeps_terminal (approval_body env mode actor now)"
  by (simp_all add: keeps_terminal_def cancel_body_def approval_body_def)

definition allocated ::
  "pyenv \<Rightarrow> normalized \<Rightarrow> int \<Rightarrow> int \<Rightarrow> string \<Rightarrow> ledger \<Rightarrow> doc result \<times> ledger \<Rightarrow> bool" where
  "allocated env n now e tok db res \<longleftrightarrow>
     (let action_id = ''OPS-'' @ ymd_text now @ ''-'' @ tok;
          row = new_operation env n action_id now e
      in action_id \<notin> op_action_id ` set db \<and> op_proposal_hash row \<notin> op_proposal_hash ` set db \<and>
         res = (Inr (created_document env n action_id now e), insert_row row db))"

lemma allocate_effect:
  "(\<exists>c. allocate env n now e toks db = (Inl (ProposalError c), db)) \<or>
   (\<exists>tok \<in> set toks. allocated env n now e tok db (allocate env n now e toks db))"
proof (induction toks)
  case (Cons tok toks)
  then show ?case
    by (cases "allocated env n now e tok db (allocate env n now e (tok # toks) db)")
      (auto simp: allocated_def Let_def)
qed simp

lemma create_cases:
  obtains (none) c where "create env loads cfg args token now db = (Inl c, db)"
  | (row) n i where "normalize_proposal_request env loads args = Inr n" and "i < 8"
      and "rowcount (pending_at now) db < lc_max_pending cfg"
      and "allocated env n now (now + seconds (lc_ttl_seconds cfg)) (token i) db
             (create env loads cfg args token now db)"
proof (cases "normalize_proposal_request env loads args")
  case (Inl e)
  then show ?thesis by (intro none) (simp add: create_def)
next
  case (Inr n)
  let ?e = "now + seconds (lc_ttl_seconds cfg)"
  show ?thesis
  proof (cases "rowcount (pending_at now) db < lc_max_pending cfg")
    case False
    with Inr show ?thesis by (intro none) (simp add: create_def transaction_def)
  next
    case True
    have eq: "create env loads cfg args token now db
        = transaction (allocate env n now ?e (map token [0..<8])) db"
      using True Inr by (simp add: create_def transaction_def)
    from allocate_effect [of env n now ?e "map token [0..<8]" db]
    consider c where "allocate env n now ?e (map token [0..<8]) db = (Inl (ProposalError c), db)"
      | i where "i < 8" "allocated env n now ?e (token i) db (allocate env n now ?e (map token [0..<8]) db)"
      by auto
    then show ?thesis
    proof cases
      case 1
      then show ?thesis by (intro none) (simp add: eq transaction_def)
    next
      case 2
      then show ?thesis using Inr True
        by (intro row [of n i]) (auto simp: eq transaction_def allocated_def Let_def)
    qed
  qed
qed

text \<open>
  Every operation leaves the table as it was, inserts one row, or changes the one row it names.
\<close>

definition changes_row ::
  "pyenv \<Rightarrow> (string \<Rightarrow> string) \<Rightarrow> ledger_op \<Rightarrow> ledger \<Rightarrow> ledger \<Rightarrow> bool" where
  "changes_row env upper op db db' \<longleftrightarrow>
     (\<exists>row f. select_one (\<lambda>r. op_action_id r = op_action_id row) db = Some row \<and>
        row_change env upper op row (f row) \<and> op_action_id (f row) = op_action_id row \<and>
        db' = update_where (\<lambda>r. op_action_id r = op_action_id row) f db)"

lemma approval_body_effect:
  assumes "IDENTITY_HASH_RE actor" and "a = op_action_id row"
    and "snd (transaction (approval_body env (Approve_mode c) actor now row) db) = db'"
  shows "db' = db \<or> (\<exists>f. live_change env upper (Op_approve a actor c now) row (f row) \<and>
    op_action_id (f row) = a \<and> db' = update_where (\<lambda>r. op_action_id r = a) f db)"
  using assms
  by (cases "op_state row")
    (auto simp: transaction_def approval_body_def update_row_def Let_def in_terminal_def
      split: if_splits)

lemma confirm_body_effect:
  assumes "a = op_action_id row"
    and "snd (transaction (approval_body env (Confirm_mode (upper (py_strip c))) actor now row) db) = db'"
  shows "db' = db \<or> (\<exists>f. live_change env upper (Op_confirm a actor c now) row (f row) \<and>
    op_action_id (f row) = a \<and> db' = update_where (\<lambda>r. op_action_id r = a) f db)"
  using assms
  by (cases "op_state row")
    (auto simp: transaction_def approval_body_def update_row_def Let_def in_terminal_def
      split: if_splits)

lemma cancel_body_effect:
  assumes "IDENTITY_HASH_RE actor" and "a = op_action_id row"
    and "snd (transaction (cancel_body actor now row) db) = db'"
  shows "db' = db \<or> (\<exists>f. live_change env upper (Op_cancel a actor now) row (f row) \<and>
    op_action_id (f row) = a \<and> db' = update_where (\<lambda>r. op_action_id r = a) f db)"
  using assms
  by (auto simp: transaction_def cancel_body_def update_row_def split: if_splits)

lemma with_row_effect:
  assumes "keeps_terminal body"
    and subject: "op_subject op = Some (a, now)"
    and live: "\<And>row db'. op_action_id row = a \<Longrightarrow> snd (transaction (body row) db) = db' \<Longrightarrow>
      db' = db \<or> (\<exists>f. live_change env upper op row (f row) \<and> op_action_id (f row) = a \<and>
        db' = update_where (\<lambda>r. op_action_id r = a) f db)"
  shows "snd (with_row a now body db) = db \<or>
    changes_row env upper op db (snd (with_row a now body db))"
  using assms(1)
proof (cases rule: with_row_cases [of body a now db])
  case (expired row)
  then have id: "op_action_id row = a" using select_one_Some_iff by fastforce
  with expired subject have "row_change env upper op row (expire_operation row)"
    by (simp add: row_change_def)
  with expired id show ?thesis
    unfolding changes_row_def by (intro disjI2 exI [of _ row] exI [of _ expire_operation]) simp
next
  case (live row)
  then have id: "op_action_id row = a" using select_one_Some_iff by fastforce
  show ?thesis
  proof (cases "snd (with_row a now body db) = db")
    case False
    with assms(3) [OF id refl] live obtain f where
      f: "live_change env upper op row (f row)" "op_action_id (f row) = a"
        "snd (with_row a now body db) = update_where (\<lambda>r. op_action_id r = a) f db" by auto
    from f(1) live(2) subject id have "row_change env upper op row (f row)"
      by (simp add: row_change_def)
    with f live(1) id show ?thesis
      unfolding changes_row_def by (intro disjI2 exI [of _ row] exI [of _ f]) simp
  qed simp
qed auto

lemma run_op_effect:
  "run_op env loads upper cfg op db = db \<or>
   (\<exists>args token now n i. op = Op_create args token now \<and>
      normalize_proposal_request env loads args = Inr n \<and> i < 8 \<and>
      rowcount (pending_at now) db < lc_max_pending cfg \<and>
      allocated env n now (now + seconds (lc_ttl_seconds cfg)) (token i) db
        (create env loads cfg args token now db)) \<or>
   changes_row env upper op db (run_op env loads upper cfg op db)"
proof (cases op)
  case (Op_create args token now)
  then show ?thesis
    by (cases rule: create_cases [of env loads cfg args token now db]) auto
next
  case (Op_get a now)
  with with_row_effect [of "\<lambda>row db. (Inr (row_status row), db)" op a now db env upper]
  show ?thesis by (auto simp: ledger_get_def transaction_def)
next
  case (Op_approve a actor c now)
  with with_row_effect [of "approval_body env (Approve_mode c) actor now" op a now db env upper]
    approval_body_effect [of actor a _ env c now db _ upper]
  show ?thesis by (auto simp: approve_def approval_transition_def)
next
  case (Op_confirm a actor c now)
  with with_row_effect [of "approval_body env (Confirm_mode (upper (py_strip c))) actor now" op a now
      db env upper]
    confirm_body_effect [of a _ env upper c actor now db]
  show ?thesis by (auto simp: confirm_def approval_transition_def)
next
  case (Op_cancel a actor now)
  with with_row_effect [of "cancel_body actor now" op a now db env upper]
    cancel_body_effect [of actor a _ now db _ env upper]
  show ?thesis by (auto simp: cancel_def)
qed

section \<open>The invariant of the table\<close>

definition row_ok :: "operation \<Rightarrow> bool" where
  "row_ok r \<longleftrightarrow>
     map_of LEDGER_ACTION_RISKS (op_action_type r) = Some (op_risk_level r) \<and>
     (op_risk_level r = ''L3'' \<longrightarrow> op_requires_backup r) \<and>
     (case op_state r of
        Awaiting_approval \<Rightarrow>
          op_approved_by_hash r = None \<and> op_approved_at r = None \<and> op_confirmation_hash r = None
      | Awaiting_confirmation \<Rightarrow>
          op_risk_level r = ''L3'' \<and> op_approved_at r = None \<and> op_approval_started_at r \<noteq> None \<and>
          (\<exists>h c. op_approved_by_hash r = Some h \<and> IDENTITY_HASH_RE h \<and>
             op_confirmation_hash r = Some c)
      | Approved \<Rightarrow>
          op_approval_started_at r \<noteq> None \<and> op_approved_at r \<noteq> None \<and>
          op_confirmation_hash r = None \<and>
          (\<exists>h. op_approved_by_hash r = Some h \<and> IDENTITY_HASH_RE h)
      | Cancelled \<Rightarrow>
          op_cancelled_at r \<noteq> None \<and> op_approved_at r = None \<and> op_confirmation_hash r = None \<and>
          (\<exists>h. op_cancelled_by_hash r = Some h \<and> IDENTITY_HASH_RE h \<and>
             op_approved_by_hash r \<in> {None, Some h})
      | Op_expired \<Rightarrow>
          op_confirmation_hash r = None \<and> op_error_code r = Some ''approval_ttl_expired'')"

definition ledger_inv :: "ledger \<Rightarrow> bool" where
  "ledger_inv db \<longleftrightarrow>
     distinct (map op_action_id db) \<and> distinct (map op_proposal_hash db) \<and> (\<forall>r \<in> set db. row_ok r)"

lemma identity_nonempty: "IDENTITY_HASH_RE h \<Longrightarrow> h \<noteq> []"
  by (auto simp: IDENTITY_HASH_RE_def matches_replicate)

lemma live_change_ok:
  assumes "row_ok r" and "live_change env upper op r r'"
  shows "row_ok r'"
proof (cases op)
  case (Op_approve a actor c now)
  with assms show ?thesis
    by (auto simp: row_ok_def awaiting_confirmation_row_def approved_row_def)
next
  case (Op_confirm a actor c now)
  with assms show ?thesis by (auto simp: row_ok_def confirmed_row_def)
next
  case (Op_cancel a actor now)
  with assms identity_nonempty show ?thesis
    by (auto simp: row_ok_def cancelled_row_def other_owner_def)
qed (use assms in auto)

lemma row_change_ok: "row_ok r \<Longrightarrow> row_change env upper op r r' \<Longrightarrow> row_ok r'"
  by (auto simp: row_change_def live_change_ok) (simp add: row_ok_def expire_operation_def)

lemma live_change_hash: "live_change env upper op r r' \<Longrightarrow> op_proposal_hash r' = op_proposal_hash r"
  by (cases op) (auto simp: awaiting_confirmation_row_def approved_row_def confirmed_row_def
      cancelled_row_def)

lemma row_change_hash: "row_change env upper op r r' \<Longrightarrow> op_proposal_hash r' = op_proposal_hash r"
  by (auto simp: row_change_def live_change_hash expire_operation_def)

lemma normalize_facts:
  assumes "normalize_proposal_request env loads args = Inr n"
  shows "map_of LEDGER_ACTION_RISKS (nz_action_type n) = Some (nz_risk_level n)"
    and "nz_risk_level n = ''L3'' \<longrightarrow> nz_requires_backup n"
    and "TARGET_RE (nz_target n) \<and> \<not> is_infix ''..'' (nz_target n) \<and> \<not> is_prefix ''/'' (nz_target n) \<and>
      \<not> is_prefix [CHR 0x5C] (nz_target n)"
    and "ledger_sanitize_summary env loads (get_field args ''parameter_summary'')
      = Inr (nz_parameter_summary n)"
    and "ledger_safe_text env (get_field args ''expected_change'') 300 = Inr (nz_expected_change n)"
    and "ledger_safe_text_list env loads (get_field args ''validation_plan'')
      = Inr (nz_validation_plan n)"
    and "ledger_safe_text_list env loads (get_field args ''rollback_plan'') = Inr (nz_rollback_plan n)"
proof -
  let ?act = "py_strip (py_str env (get_default args ''action_type'' (JStr [])))"
  let ?tgt = "py_strip (py_str env (get_default args ''target'' (JStr [])))"
  from assms obtain risk params change validation rollback b where
    risk: "map_of LEDGER_ACTION_RISKS ?act = Some risk"
    and tgt: "TARGET_RE ?tgt" "\<not> is_infix ''..'' ?tgt" "\<not> is_prefix ''/'' ?tgt"
      "\<not> is_prefix [CHR 0x5C] ?tgt"
    and parts: "ledger_sanitize_summary env loads (get_field args ''parameter_summary'') = Inr params"
      "ledger_safe_text env (get_field args ''expected_change'') 300 = Inr change"
      "ledger_safe_text_list env loads (get_field args ''validation_plan'') = Inr validation"
      "ledger_safe_text_list env loads (get_field args ''rollback_plan'') = Inr rollback"
    and backup: "\<not> (risk = ''L3'' \<and> \<not> b \<and> ?act \<noteq> ''check_ha_config'')"
    and n: "n = \<lparr>nz_action_type = ?act, nz_target = ?tgt, nz_parameter_summary = params,
        nz_risk_level = risk, nz_requires_backup = b, nz_expected_change = change,
        nz_validation_plan = validation, nz_rollback_plan = rollback\<rparr>"
    unfolding normalize_proposal_request_def Let_def
    by (cases "get_field args ''requires_backup''")
      (auto simp: bind_result_Inr_iff split: option.splits if_splits)
  have "risk = ''L1''" if "?act = ''check_ha_config''"
    using risk unfolding that by (simp add: LEDGER_ACTION_RISKS_def)
  with backup risk tgt parts show
    "map_of LEDGER_ACTION_RISKS (nz_action_type n) = Some (nz_risk_level n)"
    "nz_risk_level n = ''L3'' \<longrightarrow> nz_requires_backup n"
    "TARGET_RE (nz_target n) \<and> \<not> is_infix ''..'' (nz_target n) \<and> \<not> is_prefix ''/'' (nz_target n) \<and>
      \<not> is_prefix [CHR 0x5C] (nz_target n)"
    "ledger_sanitize_summary env loads (get_field args ''parameter_summary'')
      = Inr (nz_parameter_summary n)"
    "ledger_safe_text env (get_field args ''expected_change'') 300 = Inr (nz_expected_change n)"
    "ledger_safe_text_list env loads (get_field args ''validation_plan'') = Inr (nz_validation_plan n)"
    "ledger_safe_text_list env loads (get_field args ''rollback_plan'') = Inr (nz_rollback_plan n)"
    unfolding n by auto
qed

lemma normalized_row_ok:
  assumes "normalize_proposal_request env loads args = Inr n"
  shows "row_ok (new_operation env n a now e)"
  using normalize_facts(1,2) [OF assms] by (simp add: row_ok_def new_operation_def)

lemma changes_row_keys:
  assumes "distinct (map op_action_id db)" and "changes_row env upper op db db'"
  shows "map op_action_id db' = map op_action_id db" "map op_proposal_hash db' = map op_proposal_hash db"
proof -
  from assms(2) obtain row f where
    row: "select_one (\<lambda>r. op_action_id r = op_action_id row) db = Some row"
      "row_change env upper op row (f row)" "op_action_id (f row) = op_action_id row"
    and db': "db' = update_where (\<lambda>r. op_action_id r = op_action_id row) f db"
    by (auto simp: changes_row_def)
  have "x = row" if "x \<in> set db" "op_action_id x = op_action_id row" for x
    using select_one_key_eq [OF assms(1) that] row(1) by simp
  then show "map op_action_id db' = map op_action_id db"
    "map op_proposal_hash db' = map op_proposal_hash db"
    using row(3) row_change_hash [OF row(2)] unfolding db' update_where_def by auto
qed

text \<open>Each row of the table after an operation: an old one, changed by \<open>row_change\<close>.\<close>

lemma changes_row_mem:
  assumes "distinct (map op_action_id db)" and "changes_row env upper op db db'"
  shows "x' \<in> set db' \<Longrightarrow> \<exists>x \<in> set db. row_change env upper op x x'"
    and "x \<in> set db \<Longrightarrow> \<exists>x' \<in> set db'. row_change env upper op x x'"
proof -
  from assms(2) obtain row f where
    row: "select_one (\<lambda>r. op_action_id r = op_action_id row) db = Some row"
      "row_change env upper op row (f row)"
    and db': "db' = update_where (\<lambda>r. op_action_id r = op_action_id row) f db"
    by (auto simp: changes_row_def)
  have one: "x = row" if "x \<in> set db" "op_action_id x = op_action_id row" for x
    using select_one_key_eq [OF assms(1) that] row(1) by simp
  show "\<exists>x \<in> set db. row_change env upper op x x'" if "x' \<in> set db'"
    using that row(2) one unfolding db' update_where_mem by (metis row_change_refl)
  show "\<exists>x' \<in> set db'. row_change env upper op x x'" if "x \<in> set db"
    using that row(2) one unfolding db'
    by (intro update_where_survives [where Q = "row_change env upper op"]) auto
qed

inductive ledger_step ::
  "pyenv \<Rightarrow> json_loads \<Rightarrow> (string \<Rightarrow> string) \<Rightarrow> ledger_config \<Rightarrow> ledger \<Rightarrow> ledger \<Rightarrow> bool"
  for env loads upper cfg where
  run: "ledger_step env loads upper cfg db (run_op env loads upper cfg op db)"

lemma allocated_inv:
  assumes "ledger_inv db" and "normalize_proposal_request env loads args = Inr n"
    and "allocated env n now e tok db res"
  shows "ledger_inv (snd res)"
  using assms normalized_row_ok [OF assms(2)]
  by (auto simp: ledger_inv_def allocated_def Let_def new_operation_def)

lemma run_op_inv:
  assumes "ledger_inv db"
  shows "ledger_inv (run_op env loads upper cfg op db)"
  using run_op_effect [of env loads upper cfg op db]
proof (elim disjE exE conjE)
  assume "changes_row env upper op db (run_op env loads upper cfg op db)"
  from changes_row_keys [OF _ this] changes_row_mem(1) [OF _ this] assms row_change_ok
  show ?thesis unfolding ledger_inv_def by metis
qed (use assms allocated_inv in auto)

interpretation approval_ledger: inv_system "[]" "ledger_step env loads upper cfg" ledger_inv
  by unfold_locales (auto simp: ledger_inv_def [of "[]"] run_op_inv elim: ledger_step.cases)

definition reachable_ledger ::
  "pyenv \<Rightarrow> json_loads \<Rightarrow> (string \<Rightarrow> string) \<Rightarrow> ledger_config \<Rightarrow> ledger \<Rightarrow> bool" where
  "reachable_ledger env loads upper cfg db \<longleftrightarrow> reach [] (ledger_step env loads upper cfg) db"

lemma reachable_ledger_inv: "reachable_ledger env loads upper cfg db \<Longrightarrow> ledger_inv db"
  using approval_ledger.invariant unfolding reachable_ledger_def by blast

lemma reachable_ledger_run:
  "reachable_ledger env loads upper cfg db \<Longrightarrow>
   reachable_ledger env loads upper cfg (run_op env loads upper cfg op db)"
  unfolding reachable_ledger_def using reach.next_state ledger_step.run by metis

section \<open>Two-step approval\<close>

lemma new_rows:
  assumes "ledger_inv s" and "r \<in> set (run_op env loads upper cfg op s)"
    and "op_state r \<noteq> Awaiting_approval"
  shows "\<exists>r0 \<in> set s. row_change env upper op r0 r"
  using run_op_effect [of env loads upper cfg op s]
proof (elim disjE exE conjE)
  assume "changes_row env upper op s (run_op env loads upper cfg op s)"
  with changes_row_mem(1) [OF _ this assms(2)] assms(1) show ?thesis
    by (simp add: ledger_inv_def)
next
  fix args token now n i
  assume "op = Op_create args token now"
    "allocated env n now (now + seconds (lc_ttl_seconds cfg)) (token i) s
       (create env loads cfg args token now s)"
  with assms(2,3) have "r \<in> set s"
    by (auto simp: allocated_def Let_def new_operation_def)
  then show ?thesis by (intro bexI [of _ r]) simp_all
qed (use assms(2) in \<open>auto intro!: bexI [of _ r]\<close>)

text \<open>C10: No L3 operation is approved in one step.  When an operation of the ledger makes an L3
proposal \<open>approved\<close>, that operation is \<open>confirm\<close>, the proposal was live and awaiting confirmation,
the confirming actor is the one that started the approval, and the challenge it sent has the digest
stored when the approval started.\<close>

theorem two_step_approval:
  assumes "reachable_ledger env loads upper cfg s"
    and "r \<in> set (run_op env loads upper cfg op s)" and "r \<notin> set s"
    and "op_state r = Approved" and "op_risk_level r = ''L3''"
  shows "\<exists>actor challenge now. \<exists>r0 \<in> set s.
    op = Op_confirm (op_action_id r0) actor challenge now \<and> now < op_expires_at r0 \<and>
    op_state r0 = Awaiting_confirmation \<and> op_approved_by_hash r0 = Some actor \<and>
    op_confirmation_hash r0 = Some (sha256_text env (upper (py_strip challenge))) \<and>
    r = confirmed_row now r0"
proof -
  note inv = reachable_ledger_inv [OF assms(1)]
  from new_rows [OF inv assms(2)] assms(3,4) obtain r0 now where
    r0: "r0 \<in> set s" "op_subject op = Some (op_action_id r0, now)"
      "in_nonterminal (op_state r0) \<longrightarrow> now < op_expires_at r0" "live_change env upper op r0 r"
    by (auto simp: row_change_def expire_operation_def)
  from inv r0(1) have ok: "row_ok r0" by (simp add: ledger_inv_def)
  show ?thesis
  proof (cases op)
    case (Op_approve a actor c n)
    with r0(4) assms(4,5) show ?thesis
      by (auto simp: awaiting_confirmation_row_def approved_row_def split: if_splits)
  next
    case (Op_confirm a actor c n)
    with r0 ok show ?thesis
      by (intro exI [of _ actor] exI [of _ c] exI [of _ now] bexI [of _ r0])
        (auto simp: row_ok_def or_empty_def in_nonterminal_def)
  next
    case (Op_cancel a actor n)
    with r0(4) assms(4) show ?thesis by (simp add: cancelled_row_def)
  qed (use r0(4) in auto)
qed

text \<open>A concrete run: an L3 restart is proposed, approved and confirmed by the same owner.\<close>

definition args0 :: doc where
  "args0 =
     [(''action_type'', JStr ''restart_addon''), (''target'', JStr ''demo''),
      (''requires_backup'', JBool True), (''expected_change'', JStr ''restart''),
      (''validation_plan'', JList [JStr ''check'']), (''rollback_plan'', JList [JStr ''stop''])]"

definition normalized0 :: normalized where
  "normalized0 = \<lparr>nz_action_type = ''restart_addon'', nz_target = ''demo'',
     nz_parameter_summary = JObj [], nz_risk_level = ''L3'', nz_requires_backup = True,
     nz_expected_change = ''restart'', nz_validation_plan = [''check''],
     nz_rollback_plan = [''stop'']\<rparr>"

lemma normalized0: "normalize_proposal_request env0 (\<lambda>_. None) args0 = Inr normalized0"
  by code_simp

definition ledger_config0 :: ledger_config where
  "ledger_config0 = \<lparr>lc_ttl_seconds = 600, lc_max_pending = 20\<rparr>"

definition op_id0 :: string where
  "op_id0 = ''OPS-19700101-AAAAAAAAAAAA''"

definition operation0 :: operation where
  "operation0 = new_operation env0 normalized0 op_id0 0 600000000"

lemma created0:
  "run_op env0 (\<lambda>_. None) id ledger_config0 (Op_create args0 (\<lambda>_. ''AAAAAAAAAAAA'') 0) [] = [operation0]"
proof -
  have "''OPS-'' @ ymd_text 0 @ ''-'' @ ''AAAAAAAAAAAA'' = op_id0" by code_simp
  then show ?thesis
    by (simp add: create_def normalized0 transaction_def rowcount_def ledger_config0_def seconds_def
        upt_rec [of _ 8] Let_def operation0_def insert_row_def)
qed

definition owner0 :: string where
  "owner0 = hash64 (CHR ''f'')"

lemma op_id0_res [simp]: "ACTION_ID_RE op_id0" "IDENTITY_HASH_RE owner0" "CHALLENGE_RE ''AAAAAAAA''"
    "py_strip ''AAAAAAAA'' = ''AAAAAAAA''"
  by (code_simp, code_simp, code_simp, code_simp)

lemma operation0_simps [simp]:
  "op_action_id operation0 = op_id0" "op_state operation0 = Awaiting_approval"
  "op_risk_level operation0 = ''L3''" "op_expires_at operation0 = 600000000"
  by (simp_all add: operation0_def new_operation_def normalized0_def whole_second_def)

definition awaiting0 :: operation where
  "awaiting0 = awaiting_confirmation_row env0 1000000 owner0 ''AAAAAAAA'' operation0"

lemma awaiting0_simps [simp]:
  "op_action_id awaiting0 = op_id0" "op_state awaiting0 = Awaiting_confirmation"
  "op_approved_by_hash awaiting0 = Some owner0" "op_risk_level awaiting0 = ''L3''"
  "op_confirmation_hash awaiting0 = Some (hash64 (CHR ''a''))"
  "op_expires_at awaiting0 = 600000000"
  by (simp_all add: awaiting0_def awaiting_confirmation_row_def)

lemma approved0:
  "run_op env0 (\<lambda>_. None) id ledger_config0 (Op_approve op_id0 owner0 ''AAAAAAAA'' 1000000) [operation0]
     = [awaiting0]"
  by (simp add: approve_def approval_transition_def with_row_def transaction_def expire_if_needed_def
      approval_body_def in_terminal_def Let_def awaiting0_def)

lemma confirmed0:
  "run_op env0 (\<lambda>_. None) id ledger_config0 (Op_confirm op_id0 owner0 ''AAAAAAAA'' 2000000) [awaiting0]
     = [confirmed_row 2000000 awaiting0]"
  by (simp add: confirm_def approval_transition_def with_row_def transaction_def expire_if_needed_def
      approval_body_def in_terminal_def or_empty_def update_row_def)

lemma reachable_awaiting0: "reachable_ledger env0 (\<lambda>_. None) id ledger_config0 [awaiting0]"
proof -
  have "reachable_ledger env0 (\<lambda>_. None) id ledger_config0 []"
    unfolding reachable_ledger_def by (rule reach.start)
  from reachable_ledger_run [OF this] created0
  have "reachable_ledger env0 (\<lambda>_. None) id ledger_config0 [operation0]" by metis
  from reachable_ledger_run [OF this] approved0 show ?thesis by metis
qed

theorem two_step_approval_witness:
  "\<exists>challenge. op_confirmation_hash awaiting0 = Some (sha256_text env0 challenge) \<and>
     op_approved_by_hash awaiting0 = Some owner0"
proof -
  have "confirmed_row 2000000 awaiting0 \<noteq> awaiting0" "op_state (confirmed_row 2000000 awaiting0) = Approved"
    "op_risk_level (confirmed_row 2000000 awaiting0) = ''L3''"
    by (auto simp: confirmed_row_def dest: arg_cong [of _ _ op_state])
  with two_step_approval [OF reachable_awaiting0, of "confirmed_row 2000000 awaiting0"
      "Op_confirm op_id0 owner0 ''AAAAAAAA'' 2000000"] confirmed0
  show ?thesis by auto
qed

section \<open>The life of a proposal\<close>

definition op_lifecycle :: "(op_state \<times> op_state) set" where
  "op_lifecycle =
     {(Awaiting_approval, Awaiting_confirmation), (Awaiting_approval, Approved),
      (Awaiting_approval, Cancelled), (Awaiting_approval, Op_expired),
      (Awaiting_confirmation, Approved), (Awaiting_confirmation, Cancelled),
      (Awaiting_confirmation, Op_expired), (Approved, Op_expired)}"

definition same_operation :: "operation \<Rightarrow> operation \<Rightarrow> bool" where
  "same_operation r r' \<longleftrightarrow>
     op_action_id r' = op_action_id r \<and> op_action_type r' = op_action_type r \<and>
     op_target r' = op_target r \<and> op_parameter_hash r' = op_parameter_hash r \<and>
     op_proposal_hash r' = op_proposal_hash r \<and> op_risk_level r' = op_risk_level r \<and>
     op_requires_backup r' = op_requires_backup r \<and> op_created_at r' = op_created_at r \<and>
     op_expires_at r' = op_expires_at r"

lemma row_change_life:
  assumes "row_change env upper op r r'"
  shows "same_operation r r' \<and> (r' = r \<or> (op_state r, op_state r') \<in> op_lifecycle)"
proof -
  have "same_operation r r' \<and> (op_state r, op_state r') \<in> op_lifecycle"
    if "live_change env upper op r r'"
    using that by (cases op)
      (auto simp: same_operation_def op_lifecycle_def awaiting_confirmation_row_def
        approved_row_def confirmed_row_def cancelled_row_def)
  with assms show ?thesis
    by (auto simp: row_change_def)
      (auto simp: same_operation_def op_lifecycle_def expire_operation_def in_nonterminal_def)
qed

text \<open>Proposals are immutable and their decisions final.  Over any operation of a reachable ledger
no proposal disappears, its action, target, digests, risk and times never change, and its state moves
along the life cycle: a cancelled or expired proposal never changes again, an approved one can only
expire; at most one proposal is added, by \<open>create\<close>.\<close>

theorem ledger_history:
  assumes "reachable_ledger env loads upper cfg s" and "r \<in> set s"
  shows "(\<exists>r' \<in> set (run_op env loads upper cfg op s).
      same_operation r r' \<and> (r' = r \<or> (op_state r, op_state r') \<in> op_lifecycle)) \<and>
    length (run_op env loads upper cfg op s) \<le> Suc (length s)"
  using run_op_effect [of env loads upper cfg op s]
proof (elim disjE exE conjE)
  assume ch: "changes_row env upper op s (run_op env loads upper cfg op s)"
  have "distinct (map op_action_id s)"
    using reachable_ledger_inv [OF assms(1)] by (simp add: ledger_inv_def)
  from changes_row_mem(2) [OF this ch assms(2)] changes_row_keys(1) [OF this ch] row_change_life
  show ?thesis by (metis le_SucI length_map order_refl)
qed (use assms(2) in \<open>auto simp: allocated_def Let_def same_operation_def intro!: bexI [of _ r]\<close>)

theorem ledger_history_witness:
  "\<exists>r' \<in> set (run_op env0 (\<lambda>_. None) id ledger_config0 (Op_get op_id0 700000000) [awaiting0]).
     same_operation awaiting0 r' \<and> op_state r' = Op_expired"
proof -
  have "run_op env0 (\<lambda>_. None) id ledger_config0 (Op_get op_id0 700000000) [awaiting0]
      = [expire_operation awaiting0]"
    by (simp add: ledger_get_def with_row_def transaction_def expire_if_needed_def in_nonterminal_def)
  with ledger_history [OF reachable_awaiting0, of awaiting0 "Op_get op_id0 700000000"]
  show ?thesis by (simp add: expire_operation_def)
qed

text \<open>The pending limit.  A proposal is only created while fewer than \<open>max_pending\<close> proposals are
pending; after it, at most \<open>max_pending\<close> are.  A refused creation changes nothing.\<close>

theorem pending_bounded:
  "case create env loads cfg args token now db of
     (Inl e, db') \<Rightarrow> db' = db
   | (Inr d, db') \<Rightarrow> rowcount (pending_at now) db < lc_max_pending cfg \<and>
       rowcount (pending_at now) db' \<le> lc_max_pending cfg \<and> length db' = Suc (length db)"
proof (cases rule: create_cases [of env loads cfg args token now db])
  case (row n i)
  then show ?thesis by (auto simp: allocated_def Let_def rowcount_def)
qed simp

end
