(* ===== verification/Ledger_Broker.thy ===== *)
theory Ledger_Broker
  imports Ledger_Properties
begin

text \<open>
  The agent's ledger and the Broker check the same rules twice, in two copies of the code.  Here the
  copies are compared: the sanitisers agree, sanitising is idempotent, and a proposal the ledger
  created, once approved, is accepted by the Broker's \<open>validate_envelope\<close>.
\<close>

section \<open>The sanitisers agree\<close>

text \<open>\<open>except ContractError as exc: raise ProposalError(exc.code)\<close>, to compare the two copies.\<close>

fun proposal_exn :: "exn \<Rightarrow> exn" where
  "proposal_exn (ContractError c) = ProposalError c"
| "proposal_exn e = e"

definition as_proposal_error :: "'a result \<Rightarrow> 'a result" where
  "as_proposal_error r = map_sum proposal_exn id r"

lemma as_proposal_error_simps [simp]:
  "as_proposal_error (Inl e) = Inl (proposal_exn e)" "as_proposal_error (Inr a) = Inr a"
  by (simp_all add: as_proposal_error_def)

lemma as_proposal_error_Inr [simp]: "as_proposal_error r = Inr a \<longleftrightarrow> r = Inr a"
  by (cases r) simp_all

lemma as_proposal_error_bind:
  "as_proposal_error (bind_result r k)
     = bind_result (as_proposal_error r) (\<lambda>a. as_proposal_error (k a))"
  by (cases r) simp_all

lemma safe_text_split:
  "as_proposal_error (safe_text env v m) =
     bind_result (ledger_safe_text env v m) (\<lambda>t. bind_result (validate_url_summary env t) (\<lambda>_. Inr t))"
  by (cases v)
    (auto simp: safe_text_def ledger_safe_text_def validate_url_summary_def url_rejection_def Let_def
      split: option.splits)

lemma key_check_rejection:
  "parameter_key_check k =
     (case key_rejection k of None \<Rightarrow> Inr () | Some e \<Rightarrow> Inl (proposal_exn e))"
  by (auto simp: parameter_key_check_def key_rejection_def normalize_parameter_key_def
      normalized_key_def)

lemma bind_result_cong:
  "r = s \<Longrightarrow> (\<And>a. s = Inr a \<Longrightarrow> k a = l a) \<Longrightarrow> bind_result r k = bind_result s l"
  by (cases s) auto

lemma sanitize_agree:
  "ledger_sanitize_value env v d c = as_proposal_error (sanitize_value env v d c)"
  "ledger_sanitize_items env vs d c = as_proposal_error (sanitize_items env vs d c)"
  "ledger_sanitize_fields env kvs d c = as_proposal_error (sanitize_fields env kvs d c)"
proof (induction env v d c and env vs d c and env kvs d c
    rule: sanitize_value_sanitize_items_sanitize_fields.induct)
  case (1 env v d c)
  show ?case
  proof (cases v)
    case (JStr s)
    then show ?thesis
      using safe_text_split [of env "JStr s" 256]
      by (auto simp: sanitize_value.simps ledger_sanitize_value.simps as_proposal_error_bind
          bind_result_def split: sum.splits)
  next
    case (JFloat f)
    then show ?thesis
      by (cases f) (simp_all add: sanitize_value.simps ledger_sanitize_value.simps)
  qed (use 1 in \<open>auto simp: sanitize_value.simps ledger_sanitize_value.simps as_proposal_error_bind
      split: prod.splits intro!: bind_result_cong\<close>)
next
  case (5 env k v kvs d c)
  then show ?case
    by (auto simp: key_check_rejection as_proposal_error_bind bind_result_def
        split: option.splits sum.splits)
qed (auto simp: as_proposal_error_bind split: prod.splits intro!: bind_result_cong)

section \<open>Sanitising twice is sanitising once\<close>

text \<open>Lists of code points: each is a byte with its continuation bytes, and only the first of the
list may itself begin with a stray continuation byte.\<close>

definition code_points :: "string list \<Rightarrow> bool" where
  "code_points us \<longleftrightarrow>
     (\<forall>u \<in> set us. u \<noteq> [] \<and> list_all is_cont (tl u)) \<and> (\<forall>u \<in> set (tl us). \<not> is_cont (hd u))"

lemma takeWhile_cont:
  assumes "list_all is_cont xs" and "ys = [] \<or> \<not> is_cont (hd ys)"
  shows "takeWhile is_cont (xs @ ys) = xs" "dropWhile is_cont (xs @ ys) = ys"
proof -
  have "takeWhile is_cont ys = []" "dropWhile is_cont ys = ys"
    using assms(2) by (cases ys; simp)+
  with assms(1) show "takeWhile is_cont (xs @ ys) = xs" "dropWhile is_cont (xs @ ys) = ys"
    by (induction xs) auto
qed

lemma uchars_concat: "code_points us \<Longrightarrow> uchars (concat us) = us"
proof (induction us)
  case (Cons u us)
  then obtain c cs where u: "u = c # cs" "list_all is_cont cs"
    by (cases u) (auto simp: code_points_def)
  from Cons.prems have us: "code_points us"
    by (cases us) (auto simp: code_points_def)
  have "concat us = [] \<or> \<not> is_cont (hd (concat us))"
    using Cons.prems by (cases us) (auto simp: code_points_def hd_append)
  from takeWhile_cont [OF u(2) this] Cons.IH [OF us] u show ?case by simp
qed simp

lemma code_points_uchars: "code_points (uchars s)"
proof (induction s rule: uchars.induct)
  case (2 c cs)
  have "\<not> is_cont (hd u)" if "u \<in> set (uchars (dropWhile is_cont cs))" for u
  proof (cases "dropWhile is_cont cs")
    case Nil
    with that show ?thesis by (simp del: dropWhile_eq_Nil_conv)
  next
    case (Cons d ds)
    with that 2 hd_dropWhile [of is_cont cs] show ?thesis
      by (auto simp: code_points_def)
  qed
  moreover have "list_all is_cont (takeWhile is_cont cs)"
    by (auto simp: list_all_iff dest: set_takeWhileD)
  ultimately show ?case using 2 by (auto simp: code_points_def)
qed (simp add: code_points_def)

lemma code_points_suffix: "code_points (us @ vs) \<Longrightarrow> code_points vs"
  by (cases us; cases vs) (auto simp: code_points_def)

lemma code_points_prefix: "code_points (us @ vs) \<Longrightarrow> code_points us"
  by (cases us) (auto simp: code_points_def)

definition strip_list :: "('a \<Rightarrow> bool) \<Rightarrow> 'a list \<Rightarrow> 'a list" where
  "strip_list p us = rev (dropWhile p (rev (dropWhile p us)))"

lemma strip_list_prefix:
  obtains us' where "dropWhile p us = strip_list p us @ us'"
proof
  have "rev (dropWhile p us)
      = takeWhile p (rev (dropWhile p us)) @ dropWhile p (rev (dropWhile p us))"
    by simp
  then show "dropWhile p us = strip_list p us @ rev (takeWhile p (rev (dropWhile p us)))"
    unfolding strip_list_def by (metis rev_append rev_rev_ident)
qed

lemma strip_list_hd: "strip_list p us = [] \<or> \<not> p (hd (strip_list p us))"
proof -
  obtain us' where us': "dropWhile p us = strip_list p us @ us'" by (rule strip_list_prefix)
  show ?thesis
    using hd_dropWhile [of p us] us' by (cases "strip_list p us") auto
qed

lemma strip_list_idem: "strip_list p (strip_list p us) = strip_list p us"
proof -
  have "dropWhile p (strip_list p us) = strip_list p us"
    using strip_list_hd [of p us] by (cases "strip_list p us") auto
  moreover have "dropWhile p (rev (strip_list p us)) = rev (strip_list p us)"
    by (simp add: strip_list_def dropWhile_idem)
  ultimately show ?thesis by (simp add: strip_list_def [of p "strip_list p us"])
qed

lemma code_points_strip: "code_points us \<Longrightarrow> code_points (strip_list p us)"
  by (metis code_points_prefix code_points_suffix strip_list_prefix takeWhile_dropWhile_id)

lemma py_strip_idem: "py_strip (py_strip s) = py_strip s"
proof -
  have "py_strip s = concat (strip_list is_space (uchars s))" for s
    by (simp add: py_strip_def strip_list_def)
  then show ?thesis
    using uchars_concat [OF code_points_strip [OF code_points_uchars [of s], of is_space]]
    by (simp add: strip_list_idem)
qed

lemma safe_text_idem: "safe_text env v m = Inr t \<Longrightarrow> safe_text env (JStr t) m = Inr t"
  by (cases v) (auto simp: safe_text_def Let_def py_strip_idem split: if_splits option.splits)

lemma sanitize_fields_keys:
  "sanitize_fields env kvs d c = Inr (us, n) \<Longrightarrow> map fst us = map fst kvs"
  by (induction kvs arbitrary: us n c)
    (auto simp: bind_result_Inr_iff split: option.splits)

lemma sanitize_items_length: "sanitize_items env vs d c = Inr (us, n) \<Longrightarrow> length us = length vs"
  by (induction vs arbitrary: us n c) (auto simp: bind_result_Inr_iff)

lemma sorted_by_keys: "map fst us = map fst (sort_key fst kvs) \<Longrightarrow> sort_key fst us = us"
  for us kvs :: "(string \<times> 'a) list"
  by (metis sort_key_id_if_sorted sorted_sort_key)

lemma sanitize_idem:
  "sanitize_value env v d c = Inr (u, n) \<Longrightarrow> sanitize_value env u d c = Inr (u, n)"
  "sanitize_items env vs d c = Inr (us, n) \<Longrightarrow> sanitize_items env us d c = Inr (us, n)"
  "sanitize_fields env kvs d c = Inr (ws, n) \<Longrightarrow> sanitize_fields env ws d c = Inr (ws, n)"
proof (induction env v d c and env vs d c and env kvs d c
    arbitrary: u n and us n and ws n rule: sanitize_value_sanitize_items_sanitize_fields.induct)
  case (1 env v d c)
  from 1(3) have limits: "\<not> (Suc c > 64 \<or> d > 4)" by (auto simp: sanitize_value.simps)
  show ?case
  proof (cases v)
    case (JFloat f)
    with 1(3) limits show ?thesis by (cases f) (auto simp: sanitize_value.simps)
  next
    case (JStr s)
    with 1(3) limits show ?thesis
      by (auto simp: sanitize_value.simps bind_result_Inr_iff safe_text_idem)
  next
    case (JList vs)
    with 1(3) limits obtain us where
      us: "\<not> length vs > 16" "sanitize_items env vs (Suc d) (Suc c) = Inr (us, n)" "u = JList us"
      by (auto simp: sanitize_value.simps bind_result_Inr_iff split: if_splits)
    have "sanitize_items env us (Suc d) (Suc c) = Inr (us, n)"
      by (rule 1(1) [OF limits JList us(1,2)])
    with us limits sanitize_items_length [OF us(2)] show ?thesis
      by (simp add: sanitize_value.simps)
  next
    case (JObj kvs)
    with 1(3) limits obtain us where
      us: "\<not> length kvs > 32" "sanitize_fields env (sort_key fst kvs) (Suc d) (Suc c) = Inr (us, n)"
        "u = JObj us"
      by (auto simp: sanitize_value.simps bind_result_Inr_iff split: if_splits)
    from sanitize_fields_keys [OF us(2)] have "sort_key fst us = us" "length us = length kvs"
      by (auto intro: sorted_by_keys dest: map_eq_imp_length_eq)
    moreover have "sanitize_fields env us (Suc d) (Suc c) = Inr (us, n)"
      by (rule 1(2) [OF limits JObj us(1,2)])
    ultimately show ?thesis using us limits by (simp add: sanitize_value.simps)
  qed (use 1(3) limits in \<open>auto simp: sanitize_value.simps\<close>)
next
  case (3 env v vs d c)
  from 3(3) obtain u1 n1 us1 where
    one: "sanitize_value env v d c = Inr (u1, n1)" and
    rest: "sanitize_items env vs d n1 = Inr (us1, n)" and us: "us = u1 # us1"
    by (auto simp: bind_result_Inr_iff)
  from 3(1) [OF one] 3(2) [OF rest] show ?case by (simp add: us)
next
  case (5 env k v kvs d c)
  from 5(3) obtain u1 n1 ws1 where key: "key_rejection k = None" and
    one: "sanitize_value env v d c = Inr (u1, n1)" and
    rest: "sanitize_fields env kvs d n1 = Inr (ws1, n)" and ws: "ws = (k, u1) # ws1"
    by (auto simp: bind_result_Inr_iff split: option.splits)
  from 5(1) [OF key one] 5(2) [OF key rest] key show ?case by (simp add: ws)
qed simp_all

lemma sanitize_value_object:
  "sanitize_value env (JObj kvs) d c = Inr (u, n) \<Longrightarrow> \<exists>us. u = JObj us"
  by (auto simp: sanitize_value.simps bind_result_Inr_iff split: if_splits)

lemma sanitize_summary_object:
  "sanitize_parameter_summary env v = Inr u \<Longrightarrow> \<exists>us. u = JObj us"
  by (cases v) (auto simp: sanitize_parameter_summary_def bind_result_Inr_iff
      dest: sanitize_value_object)

text \<open>C11: The two copies of the sanitiser agree.  On any object the ledger's sanitiser gives what the
Broker's gives, the same value or an exception with the same code; and the ledger's text check, with
its URL check after it, is the Broker's text check.\<close>

theorem sanitizers_agree:
  "ledger_sanitize_summary env loads (JObj kvs)
     = as_proposal_error (sanitize_parameter_summary env (JObj kvs)) \<and>
   bind_result (ledger_safe_text env v m) (\<lambda>t. bind_result (validate_url_summary env t) (\<lambda>_. Inr t))
     = as_proposal_error (safe_text env v m)"
proof -
  have "ledger_sanitize_summary env loads (JObj kvs)
      = as_proposal_error (sanitize_parameter_summary env (JObj kvs))"
    by (simp add: ledger_sanitize_summary_def sanitize_parameter_summary_def sanitize_agree
        as_proposal_error_bind split_def)
  with safe_text_split show ?thesis by metis
qed

text \<open>Sanitising is idempotent: what the Broker's sanitiser returned, it accepts and returns
unchanged.  So a value that was sanitised before its digest was taken keeps its digest.\<close>

theorem sanitize_idempotent:
  assumes "sanitize_parameter_summary env v = Inr u"
  shows "sanitize_parameter_summary env u = Inr u"
proof -
  from assms obtain n where "sanitize_value env v 0 0 = Inr (u, n)"
    by (cases v) (auto simp: sanitize_parameter_summary_def bind_result_Inr_iff)
  from sanitize_idem(1) [OF this] sanitize_summary_object [OF assms] show ?thesis
    by (auto simp: sanitize_parameter_summary_def)
qed

definition summary0 :: json where
  "summary0 = JObj [(''b'', JStr '' x ''), (''a'', JList [JInt 1, JNull])]"

definition sanitized0 :: json where
  "sanitized0 = JObj [(''a'', JList [JInt 1, JNull]), (''b'', JStr ''x'')]"

lemma sanitized0: "sanitize_parameter_summary env0 summary0 = Inr sanitized0"
  by code_simp

theorem sanitize_idempotent_witness:
  "sanitize_parameter_summary env0 sanitized0 = Inr sanitized0 \<and> sanitized0 \<noteq> summary0"
  using sanitize_idempotent [OF sanitized0] by (simp add: sanitized0_def summary0_def)

section \<open>A proposal's way to the Broker\<close>





















section \<open>A concrete hand-over\<close>








section \<open>Where the copies differ\<close>

text \<open>
  The ledger does not apply its URL check to \<open>expected_change\<close> and the plans, the Broker does: this
  text the ledger accepts and the Broker refuses.
\<close>

definition env3 :: pyenv where
  "env3 = env0\<lparr>urlsplit := (\<lambda>_. Some \<lparr>url_scheme = ''ftp'', url_hostname = ''h'', url_username = [],
     url_password = [], url_path = [], url_query = [], url_fragment = []\<rparr>)\<rparr>"

theorem url_text_divergence:
  "ledger_safe_text env3 (JStr ''ftp://h'') 300 = Inr ''ftp://h'' \<and>
   safe_text env3 (JStr ''ftp://h'') 300 = Inl (ContractError ''invalid_url'')"
  by code_simp

end
