(* ===== verification/Approval_Plugin.thy ===== *)
theory Approval_Plugin
  imports Ledger_Properties
begin

text \<open>
  \<open>ha-operations-approval/__init__.py\<close>: the agent plugin over the ledger.  A gateway event sets the
  current actor, the three chat commands act for that actor, the two tools act for the model.  The
  Unicode case tables (\<open>lower\<close>, \<open>upper\<close>) are parameters; the environment's configuration is an
  argument.  The registration of the handlers with the agent is not modelled.
\<close>

section \<open>Identity\<close>

definition identity_hash :: "pyenv \<Rightarrow> (string \<Rightarrow> string) \<Rightarrow> string \<Rightarrow> string \<Rightarrow> string" where
  "identity_hash env lower platform user_id =
     sha256_text env (lower (py_strip platform) @ '':'' @ py_strip user_id)"

definition configured_owner_hashes :: "(string \<Rightarrow> string) \<Rightarrow> string \<Rightarrow> string set result" where
  "configured_owner_hashes lower raw =
     (let hashes = map (\<lambda>item. lower (py_strip item))
                     (filter (\<lambda>item. py_strip item \<noteq> []) (split_on (CHR '','') raw))
      in if list_ex (\<lambda>item. \<not> IDENTITY_HASH_RE item) hashes
         then Inl (ProposalError ''invalid_owner_config'') else Inr (set hashes))"

section \<open>The current actor\<close>

record approval_actor =
  aa_platform :: string
  aa_chat_type :: string
  aa_identity_hash :: string
  aa_authorized :: bool

text \<open>A gateway event as the plugin reads it; a missing attribute is the empty text.\<close>

record gateway_event =
  ge_internal :: bool
  ge_platform :: string
  ge_chat_type :: string
  ge_user_id :: string

definition platform_name :: "(string \<Rightarrow> string) \<Rightarrow> string \<Rightarrow> string" where
  "platform_name lower value = lower (py_strip value)"

text \<open>\<open>_capture_gateway_actor\<close>: the new current actor, and the exception of a bad configuration.\<close>

definition capture_gateway_actor ::
  "pyenv \<Rightarrow> (string \<Rightarrow> string) \<Rightarrow> string \<Rightarrow> gateway_event option
     \<Rightarrow> unit result \<times> approval_actor option" where
  "capture_gateway_actor env lower owner_config event =
     (case event of
        None \<Rightarrow> (Inr (), None)
      | Some ev \<Rightarrow>
          if ge_internal ev then (Inr (), None)
          else (let platform = platform_name lower (ge_platform ev);
                    chat_type = lower (py_strip (ge_chat_type ev));
                    user_id = py_strip (ge_user_id ev)
                in if platform = [] \<or> user_id = [] then (Inr (), None)
                   else (let actor_hash = identity_hash env lower platform user_id
                         in case configured_owner_hashes lower owner_config of
                              Inl e \<Rightarrow> (Inl e, None)
                            | Inr owners \<Rightarrow>
                                (Inr (), Some
                                   \<lparr>aa_platform = platform, aa_chat_type = chat_type,
                                    aa_identity_hash = actor_hash,
                                    aa_authorized = (platform = ''weixin'' \<and> chat_type = ''dm''
                                      \<and> actor_hash \<in> owners)\<rparr>))))"

definition owner_actor :: "approval_actor option \<Rightarrow> approval_actor result" where
  "owner_actor current =
     (case current of
        None \<Rightarrow> Inl (ProposalError ''not_authorized'')
      | Some actor \<Rightarrow>
          if aa_authorized actor then Inr actor else Inl (ProposalError ''not_authorized''))"

section \<open>Commands\<close>

text \<open>\<open>str.split()\<close>\<close>

function words :: "string list \<Rightarrow> string list" where
  "words us =
     (case dropWhile is_space us of
        [] \<Rightarrow> []
      | v # vs \<Rightarrow>
          concat (v # takeWhile (\<lambda>u. \<not> is_space u) vs) # words (dropWhile (\<lambda>u. \<not> is_space u) vs))"
  by pat_completeness auto
termination
proof (relation "measure length")
  fix us :: "string list" and v vs assume "dropWhile is_space us = v # vs"
  then have "Suc (length vs) \<le> length us"
    using length_dropWhile_le [of is_space us] by simp
  with length_dropWhile_le [of "\<lambda>u. \<not> is_space u" vs]
  show "(dropWhile (\<lambda>u. \<not> is_space u) vs, us) \<in> measure length" by simp
qed simp

declare words.simps [simp del]

definition py_split :: "string \<Rightarrow> string list" where
  "py_split s = words (uchars s)"

fun op_state_text :: "op_state \<Rightarrow> string" where
  "op_state_text Awaiting_approval = ''awaiting_approval''"
| "op_state_text Awaiting_confirmation = ''awaiting_confirmation''"
| "op_state_text Approved = ''approved''"
| "op_state_text Cancelled = ''cancelled''"
| "op_state_text Op_expired = ''expired''"

definition command_error :: "string \<Rightarrow> string" where
  "command_error code =
     (if code = ''not_authorized'' then ''Approval command unavailable or not authorized.''
      else ''Operation approval rejected ('' @ code @ '').'')"

text \<open>\<open>except ProposalError as exc: return _command_error(exc)\<close>; other exceptions pass through.\<close>

fun reply_on_error :: "('a \<Rightarrow> string) \<Rightarrow> 'a result \<Rightarrow> string result" where
  "reply_on_error f (Inr a) = Inr (f a)"
| "reply_on_error f (Inl (ProposalError c)) = Inr (command_error c)"
| "reply_on_error f (Inl e) = Inl e"

text \<open>The actor, the arguments and the ledger every command begins with.\<close>

definition command_start ::
  "ledger_config \<Rightarrow> approval_actor option \<Rightarrow> nat \<Rightarrow> string \<Rightarrow> (string \<times> string list) result" where
  "command_start cfg current arity raw_args =
     bind_result (owner_actor current) (\<lambda>actor.
       let parts = py_split (py_strip raw_args)
       in if length parts \<noteq> arity then Inl (ProposalError ''invalid_command'')
          else bind_result (ledger_init cfg) (\<lambda>_. Inr (aa_identity_hash actor, parts)))"

definition approve_reply :: "op_status \<Rightarrow> string" where
  "approve_reply r =
     (if os_state r = Awaiting_confirmation
      then (case os_challenge r of
          Some (c # cs) \<Rightarrow>
            ''L3 confirmation required for '' @ os_action_id r @ '' ('' @ os_proposal_hash r @
            ''). Send /ha-confirm '' @ os_action_id r @ '' '' @ (c # cs) @ '' before '' @
            iso_text (os_expires_at r) @ ''.''
        | _ \<Rightarrow> ''L3 confirmation is still required for '' @ os_action_id r @ ''.'')
      else ''Operation '' @ os_action_id r @ '' state: '' @ op_state_text (os_state r) @ '' ('' @
           os_proposal_hash r @ '').'')"

definition confirm_reply :: "op_status \<Rightarrow> string" where
  "confirm_reply r =
     ''Operation '' @ os_action_id r @ '' state: '' @ op_state_text (os_state r) @ '' ('' @
     os_proposal_hash r @ '').''"

definition cancel_reply :: "op_status \<Rightarrow> string" where
  "cancel_reply r =
     ''Operation '' @ os_action_id r @ '' state: '' @ op_state_text (os_state r) @ ''.''"

definition approve_command ::
  "pyenv \<Rightarrow> (string \<Rightarrow> string) \<Rightarrow> ledger_config \<Rightarrow> approval_actor option \<Rightarrow> string \<Rightarrow> string \<Rightarrow> int
     \<Rightarrow> ledger \<Rightarrow> string result \<times> ledger" where
  "approve_command env upper cfg current raw_args confirmation now db =
     (case command_start cfg current 1 raw_args of
        Inl e \<Rightarrow> (reply_on_error id (Inl e), db)
      | Inr (actor_hash, parts) \<Rightarrow>
          (let (r, db') = approve env (upper (parts ! 0)) actor_hash confirmation now db
           in (reply_on_error approve_reply r, db')))"

definition confirm_command ::
  "pyenv \<Rightarrow> (string \<Rightarrow> string) \<Rightarrow> ledger_config \<Rightarrow> approval_actor option \<Rightarrow> string \<Rightarrow> int
     \<Rightarrow> ledger \<Rightarrow> string result \<times> ledger" where
  "confirm_command env upper cfg current raw_args now db =
     (case command_start cfg current 2 raw_args of
        Inl e \<Rightarrow> (reply_on_error id (Inl e), db)
      | Inr (actor_hash, parts) \<Rightarrow>
          (let (r, db') = confirm env upper (upper (parts ! 0)) actor_hash (upper (parts ! 1)) now db
           in (reply_on_error confirm_reply r, db')))"

definition cancel_command ::
  "(string \<Rightarrow> string) \<Rightarrow> ledger_config \<Rightarrow> approval_actor option \<Rightarrow> string \<Rightarrow> int
     \<Rightarrow> ledger \<Rightarrow> string result \<times> ledger" where
  "cancel_command upper cfg current raw_args now db =
     (case command_start cfg current 1 raw_args of
        Inl e \<Rightarrow> (reply_on_error id (Inl e), db)
      | Inr (actor_hash, parts) \<Rightarrow>
          (let (r, db') = cancel (upper (parts ! 0)) actor_hash now db
           in (reply_on_error cancel_reply r, db')))"

section \<open>Tools\<close>

text \<open>\<open>_tool_result\<close>: a result, or the code of an error.\<close>

fun tool_result :: "'a result \<Rightarrow> string + 'a" where
  "tool_result (Inr a) = Inr a"
| "tool_result (Inl (ProposalError c)) = Inl c"
| "tool_result (Inl _) = Inl ''internal_error''"

definition create_tool ::
  "pyenv \<Rightarrow> json_loads \<Rightarrow> ledger_config \<Rightarrow> doc \<Rightarrow> (nat \<Rightarrow> string) \<Rightarrow> int \<Rightarrow> ledger
     \<Rightarrow> (string + doc) \<times> ledger" where
  "create_tool env loads cfg args token now db =
     (case ledger_init cfg of
        Inl e \<Rightarrow> (tool_result (Inl e), db)
      | Inr _ \<Rightarrow> (let (r, db') = create env loads cfg args token now db in (tool_result r, db')))"

definition status_tool ::
  "pyenv \<Rightarrow> ledger_config \<Rightarrow> doc \<Rightarrow> int \<Rightarrow> ledger \<Rightarrow> (string + op_status) \<times> ledger" where
  "status_tool env cfg args now db =
     (case ledger_init cfg of
        Inl e \<Rightarrow> (tool_result (Inl e), db)
      | Inr _ \<Rightarrow>
          (let (r, db') = ledger_get (py_strip (py_str env (get_default args ''action_id'' (JStr []))))
                            now db
           in (tool_result r, db')))"

section \<open>Who can decide\<close>

datatype plugin_call =
    Chat_approve string string int
  | Chat_confirm string int
  | Chat_cancel string int
  | Tool_create doc "nat \<Rightarrow> string" int
  | Tool_status doc int

fun run_call ::
  "pyenv \<Rightarrow> json_loads \<Rightarrow> (string \<Rightarrow> string) \<Rightarrow> ledger_config \<Rightarrow> approval_actor option \<Rightarrow> plugin_call
     \<Rightarrow> ledger \<Rightarrow> ledger" where
  "run_call env loads upper cfg current (Chat_approve raw c now) db =
     snd (approve_command env upper cfg current raw c now db)"
| "run_call env loads upper cfg current (Chat_confirm raw now) db =
     snd (confirm_command env upper cfg current raw now db)"
| "run_call env loads upper cfg current (Chat_cancel raw now) db =
     snd (cancel_command upper cfg current raw now db)"
| "run_call env loads upper cfg current (Tool_create args token now) db =
     snd (create_tool env loads cfg args token now db)"
| "run_call env loads upper cfg current (Tool_status args now) db =
     snd (status_tool env cfg args now db)"

text \<open>Every call is one operation of the ledger or none; a chat command's actor is the current one.\<close>

fun acts_for :: "approval_actor option \<Rightarrow> ledger_op \<Rightarrow> bool" where
  "acts_for current (Op_approve a h c now) \<longleftrightarrow>
     (\<exists>actor. current = Some actor \<and> aa_authorized actor \<and> aa_identity_hash actor = h)"
| "acts_for current (Op_confirm a h c now) \<longleftrightarrow>
     (\<exists>actor. current = Some actor \<and> aa_authorized actor \<and> aa_identity_hash actor = h)"
| "acts_for current (Op_cancel a h now) \<longleftrightarrow>
     (\<exists>actor. current = Some actor \<and> aa_authorized actor \<and> aa_identity_hash actor = h)"
| "acts_for current _ \<longleftrightarrow> True"

lemma command_start_actor:
  assumes "command_start cfg current k raw = Inr (h, parts)"
  shows "\<exists>actor. current = Some actor \<and> aa_authorized actor \<and> aa_identity_hash actor = h"
  using assms by (auto simp: command_start_def owner_actor_def bind_result_Inr_iff Let_def
      split: option.splits if_splits)

lemma run_call_op:
  "run_call env loads upper cfg current call db = db \<or>
   (\<exists>op. acts_for current op \<and>
      run_call env loads upper cfg current call db = run_op env loads upper cfg op db)"
proof (cases call)
  case (Chat_approve raw c now)
  then show ?thesis
    by (auto simp: approve_command_def Let_def split_def split: sum.splits
        intro!: exI [of _ "Op_approve _ _ c now"] dest!: command_start_actor)
next
  case (Chat_confirm raw now)
  then show ?thesis
    by (auto simp: confirm_command_def Let_def split_def split: sum.splits
        intro!: exI [of _ "Op_confirm _ _ _ now"] dest!: command_start_actor)
next
  case (Chat_cancel raw now)
  then show ?thesis
    by (auto simp: cancel_command_def Let_def split_def split: sum.splits
        intro!: exI [of _ "Op_cancel _ _ now"] dest!: command_start_actor)
next
  case (Tool_create args token now)
  then show ?thesis
    by (auto simp: create_tool_def Let_def split_def split: sum.splits
        intro!: exI [of _ "Op_create args token now"])
next
  case (Tool_status args now)
  then show ?thesis
    by (auto simp: status_tool_def Let_def split_def split: sum.splits intro!: exI [of _ "Op_get _ now"])
qed

lemma captured_owner:
  assumes "capture_gateway_actor env lower conf event = (r, Some actor)" and "aa_authorized actor"
  shows "\<exists>ev owners. event = Some ev \<and> \<not> ge_internal ev \<and>
    platform_name lower (ge_platform ev) = ''weixin'' \<and>
    lower (py_strip (ge_chat_type ev)) = ''dm'' \<and> configured_owner_hashes lower conf = Inr owners \<and>
    aa_identity_hash actor = identity_hash env lower ''weixin'' (py_strip (ge_user_id ev)) \<and>
    aa_identity_hash actor \<in> owners"
  using assms
  by (auto simp: capture_gateway_actor_def Let_def split: option.splits if_splits sum.splits)

text \<open>C13: Only the configured owner decides.  Whatever the model calls and whoever writes: when a chat
command or a tool call moves a proposal to awaiting confirmation, approved or cancelled, then the
event that set the current actor was an external private message on Weixin by a user whose identity
hash is configured as an owner, and the proposal records that identity.\<close>

theorem plugin_owner_decides:
  assumes "capture_gateway_actor env lower conf event = (res, current)"
    and "reachable_ledger env loads upper cfg db"
    and "r' \<in> set (run_call env loads upper cfg current call db)" and "r' \<notin> set db"
    and "op_state r' \<in> {Awaiting_confirmation, Approved, Cancelled}"
  shows "\<exists>ev owners h. event = Some ev \<and> \<not> ge_internal ev \<and>
    platform_name lower (ge_platform ev) = ''weixin'' \<and>
    lower (py_strip (ge_chat_type ev)) = ''dm'' \<and> configured_owner_hashes lower conf = Inr owners \<and>
    h = identity_hash env lower ''weixin'' (py_strip (ge_user_id ev)) \<and> h \<in> owners \<and>
    (op_approved_by_hash r' = Some h \<or> op_cancelled_by_hash r' = Some h)"
proof -
  from run_call_op [of env loads upper cfg current call db] assms(3,4) obtain op where
    op: "acts_for current op" "r' \<in> set (run_op env loads upper cfg op db)" by auto
  note inv = reachable_ledger_inv [OF assms(2)]
  from new_rows [OF inv op(2)] assms(4,5) obtain r0 where
    r0: "r0 \<in> set db" "live_change env upper op r0 r'"
    by (auto simp: row_change_def expire_operation_def)
  from inv r0(1) have "row_ok r0" by (simp add: ledger_inv_def)
  then have "\<exists>actor. current = Some actor \<and> aa_authorized actor \<and>
      (op_approved_by_hash r' = Some (aa_identity_hash actor) \<or>
       op_cancelled_by_hash r' = Some (aa_identity_hash actor))"
    using r0(2) op(1)
    by (cases op) (auto simp: awaiting_confirmation_row_def approved_row_def confirmed_row_def
        cancelled_row_def row_ok_def or_empty_def)
  then obtain actor where actor: "current = Some actor" "aa_authorized actor"
    "op_approved_by_hash r' = Some (aa_identity_hash actor) \<or>
     op_cancelled_by_hash r' = Some (aa_identity_hash actor)" by blast
  from captured_owner [OF assms(1) [unfolded actor(1)] actor(2)] actor(3) show ?thesis by auto
qed

text \<open>The run of \<open>Ledger_Properties\<close> by chat: the owner sends the confirmation.\<close>

definition event0 :: gateway_event where
  "event0 = \<lparr>ge_internal = False, ge_platform = ''weixin'', ge_chat_type = ''dm'',
     ge_user_id = ''owner''\<rparr>"

definition actor0 :: approval_actor where
  "actor0 = \<lparr>aa_platform = ''weixin'', aa_chat_type = ''dm'', aa_identity_hash = hash64 (CHR ''a''),
     aa_authorized = True\<rparr>"

lemma captured0: "capture_gateway_actor env0 id (hash64 (CHR ''a'')) (Some event0) = (Inr (), Some actor0)"
  by code_simp

lemma started0:
  "command_start ledger_config0 (Some actor0) 1 op_id0 = Inr (hash64 (CHR ''a''), [op_id0])"
  by code_simp

lemma hash_a_identity: "IDENTITY_HASH_RE (hash64 (CHR ''a''))"
  by code_simp

lemma cancelled0:
  "run_call env0 (\<lambda>_. None) id ledger_config0 (Some actor0) (Chat_cancel op_id0 1000000) [operation0]
     = [cancelled_row 1000000 (hash64 (CHR ''a'')) operation0]"
proof -
  have "op_approved_by_hash operation0 = None" by (simp add: operation0_def new_operation_def)
  then show ?thesis
    by (simp add: cancel_command_def started0 [simplified] Let_def split_def cancel_def hash_a_identity
        with_row_def transaction_def expire_if_needed_def cancel_body_def in_terminal_def
        other_owner_def update_row_def)
qed

theorem plugin_owner_decides_witness:
  "\<exists>h. h = identity_hash env0 id ''weixin'' (py_strip (ge_user_id event0)) \<and>
     op_cancelled_by_hash (cancelled_row 1000000 (hash64 (CHR ''a'')) operation0) = Some h"
proof -
  let ?r = "cancelled_row 1000000 (hash64 (CHR ''a'')) operation0"
  have "reachable_ledger env0 (\<lambda>_. None) id ledger_config0 [operation0]"
    using reachable_ledger_run [of env0 "\<lambda>_. None" id ledger_config0 "[]"] created0
      reach.start [of "[]" "ledger_step env0 (\<lambda>_. None) id ledger_config0"]
    unfolding reachable_ledger_def by metis
  moreover have "op_state ?r = Cancelled" "?r \<noteq> operation0"
    "op_approved_by_hash ?r = None"
    by (auto simp: cancelled_row_def operation0_def new_operation_def)
  ultimately show ?thesis
    using plugin_owner_decides [OF captured0, of "\<lambda>_. None" id ledger_config0 "[operation0]" ?r
        "Chat_cancel op_id0 1000000"] cancelled0
    by auto
qed

end
