(* ===== verification/Auth_Liveness.thy ===== *)
theory Auth_Liveness
  imports Auth_Properties
begin

text \<open>
  The lock of the authorization store is never lost for good: from every reachable state a restart
  and at most one recovery decision release every lease.
\<close>

text \<open>Whether nothing stands in the way of a new claim: no unresolved recovery, no held lease.\<close>

definition lock_free :: "auth_db \<Rightarrow> bool" where
  "lock_free db \<longleftrightarrow>
     assert_execution_interlock_clear db = Inr () \<and> (\<forall>l \<in> set (leases db). ls_state l = Ls_released)"

lemma closed_lock_free:
  assumes "lock_inv db" and "\<forall>x \<in> set (executions db). \<not> open_execution x"
  shows "lock_free db"
proof -
  have "select_one unresolved_execution (executions db) = None"
    using assms(2) by (auto simp: select_one_None_iff open_execution_def)
  moreover have "\<forall>l \<in> set (leases db). ls_state l = Ls_released"
    using assms by (auto simp: lock_inv_def leases_track_def lease_state_for_open)
  ultimately show ?thesis by (simp add: lock_free_def assert_execution_interlock_clear_def)
qed

lemma filter_key_eq:
  "distinct (map k xs) \<Longrightarrow> x \<in> set xs \<Longrightarrow> P x \<Longrightarrow> filter (\<lambda>y. k y = k x \<and> P y) xs = [x]"
proof (induction xs)
  case (Cons a xs)
  have "filter (\<lambda>y. k y = k a \<and> P y) xs = []"
    using Cons.prems(1) by (simp add: filter_empty_conv) (metis imageI)
  then show ?case using Cons by (cases "x = a") auto
qed simp

lemma resolve_succeeds:
  assumes inv: "lock_inv db" and x: "x \<in> set (executions db)" "unresolved_execution x"
  shows "\<exists>doc. fst (resolve_recovery (ex_action_id x) r h t db) = Inr doc"
proof -
  have keys: "distinct (map ex_action_id (executions db))"
    using inv by (simp add: lock_inv_def execution_keys_def)
  then have "select_one (\<lambda>y. ex_action_id y = ex_action_id x) (executions db) = Some x"
    using x(1) by (rule select_one_key_eq) simp
  moreover have "rowcount (\<lambda>y. ex_action_id y = ex_action_id x \<and> unresolved_execution y) (executions db) = 1"
  proof -
    have "filter (\<lambda>y. ex_action_id y = ex_action_id x \<and> unresolved_execution y) (executions db) = [x]"
      by (rule filter_key_eq) (use keys x in simp_all)
    then show ?thesis by (simp add: rowcount_def)
  qed
  ultimately show ?thesis
    using x(2) by (simp add: resolve_recovery_def transaction_result Let_def unresolved_execution_def)
qed

text \<open>C17: Recovery is always possible.  From every reachable state of the store, however an execution was
interrupted, a restart of the Broker leaves the lock free, or exactly one execution waits for a
decision, and then any decision is accepted, at any time, and leaves the lock free.\<close>

theorem recovery_always_possible:
  assumes "reachable_store env db"
  shows "let db1 = snd (recover_incomplete_executions t db) in
    lock_free db1 \<or>
    (\<exists>x \<in> set (executions db1). unresolved_execution x \<and>
       (\<forall>y \<in> set (executions db1). open_execution y \<longleftrightarrow> y = x) \<and>
       (\<forall>r h t'. \<exists>doc db2. resolve_recovery (ex_action_id x) r h t' db1 = (Inr doc, db2) \<and>
          lock_free db2))"
proof -
  let ?db1 = "snd (recover_incomplete_executions t db)"
  have "lock_inv db" using reachable_store_inv [OF assms] by blast
  then have inv: "lock_inv ?db1" by (rule recover_incomplete_lock_inv)
  have quiet: "\<not> active_execution y" if "y \<in> set (executions ?db1)" for y
    using that by (auto simp: recover_incomplete_executions_def Let_def set_update_where)
      (auto simp: active_execution_def)
  show ?thesis
  proof (cases "\<exists>x \<in> set (executions ?db1). open_execution x")
    case False
    with closed_lock_free [OF inv] show ?thesis by (simp add: Let_def)
  next
    case True
    then obtain x where x: "x \<in> set (executions ?db1)" "open_execution x" by blast
    with quiet have un: "unresolved_execution x" by (auto simp: open_execution_def)
    have only: "\<forall>y \<in> set (executions ?db1). open_execution y \<longleftrightarrow> y = x"
      using inv x by (auto simp: lock_inv_def single_open_def)
    have "\<exists>doc db2. resolve_recovery (ex_action_id x) r h t' ?db1 = (Inr doc, db2) \<and> lock_free db2"
      for r h t'
    proof -
      obtain doc db2 where run: "resolve_recovery (ex_action_id x) r h t' ?db1 = (Inr doc, db2)"
        using resolve_succeeds [OF inv x(1) un, of r h t'] by (metis prod.collapse)
      moreover have "lock_inv db2"
        using resolve_recovery_lock_inv [OF inv, of "ex_action_id x" r h t'] run by simp
      ultimately show ?thesis
        using closed_lock_free resolved_closed(1) [OF inv run] by blast
    qed
    with x(1) un only show ?thesis unfolding Let_def by blast
  qed
qed

theorem recovery_always_possible_witness:
  "\<exists>db2. resolve_recovery action0 Confirmed_healthy ''h'' 7000000 db6
       = (Inr (execution_document_of (resolve_row Confirmed_healthy ''h'' 7000000 execution6)), db2) \<and>
     lock_free db2"
proof -
  have "\<not> lock_free db6"
    by (simp add: lock_free_def assert_execution_interlock_clear_def execution6_def
        unresolved_execution_def)
  moreover have "db6 = snd (recover_incomplete_executions 6000000 db5)" by (rule db6_def)
  ultimately obtain db2 where
    "fst (resolve_recovery action0 Confirmed_healthy ''h'' 7000000 db6) \<noteq> Inl TypeError"
    "snd (resolve_recovery action0 Confirmed_healthy ''h'' 7000000 db6) = db2" "lock_free db2"
    using recovery_always_possible [OF reachable_db5, of 6000000]
    by (auto simp: Let_def execution6_def) (metis fst_conv snd_conv sum.distinct(2))
  then show ?thesis using db6_resolved by (metis prod.collapse)
qed

end
