(* ===== verification/Runner_Store.thy ===== *)
theory Runner_Store
  imports Contract Calendar
begin

text \<open>
  \<open>codex_controller/codex_controller/runner_store.py\<close>, class \<open>RunnerStore\<close>: the registry of
  runners, their enrolment, credentials and administration.  The SQLite tables are lists of records in
  rowid order; a timestamp column, written by \<open>datetime.isoformat\<close> in UTC, is the instant it denotes
  (the text order of these timestamps is the order of the instants), a JSON column the value it
  holds.  Random tokens and the clock are arguments.  The columns that never vary
  (\<open>max_concurrency\<close>, always 1) and the creation times of audit rows are left out, as are the
  schema migrations.
\<close>

section \<open>States and tables\<close>

datatype admin_state = Adm_pending | Adm_enabled | Adm_draining | Adm_disabled | Adm_revoked

datatype work_state = Work_idle | Work_busy | Work_recovery_required | Work_error

datatype task_state =
    Waiting_runner | Task_leased | Task_dispatched | Task_queued | Task_running
  | Task_awaiting_confirmation | Task_completed | Task_failed | Task_cancelled | Task_expired
  | Task_recovery_required

definition RUNNER_CAPABILITIES :: "string set" where
  "RUNNER_CAPABILITIES =
     {''registered_projects'', ''worktree'', ''codex_exec_json'', ''codex_resume'', ''continue'',
      ''cancel'', ''expiry'', ''recovery_required'', ''summary_only_result'', ''non_force_git'',
      ''assignment_epoch'', ''lease'', ''self_check'', ''desktop_takeover_v1'', ''desktop_host_v1''}"

definition TERMINAL_TASK_STATES :: "task_state set" where
  "TERMINAL_TASK_STATES = {Task_completed, Task_failed, Task_cancelled, Task_expired}"

definition ACTIVE_TASK_STATES :: "task_state set" where
  "ACTIVE_TASK_STATES =
     {Task_leased, Task_dispatched, Task_queued, Task_running, Task_awaiting_confirmation}"

definition SAFE_ID_RE :: "string \<Rightarrow> bool" where
  "SAFE_ID_RE = matches_ident is_alnum (\<lambda>c. is_alnum c \<or> c \<in> set ''._:-'') 0 255"

definition RUNNER_ID_RE :: "string \<Rightarrow> bool" where
  "RUNNER_ID_RE s \<longleftrightarrow> is_prefix ''RN-'' s \<and> list_all (\<lambda>c. is_upper c \<or> 50 \<le> byte c \<and> byte c \<le> 55) (drop 3 s) \<and>
     20 \<le> length (drop 3 s) \<and> length (drop 3 s) \<le> 32"

definition TASK_ID_RE :: "string \<Rightarrow> bool" where
  "TASK_ID_RE s \<longleftrightarrow> is_prefix ''RW-'' s \<and>
     matches_ident is_alnum (\<lambda>c. is_alnum c \<or> c \<in> set ''._:-'') 0 124 (drop 3 s)"

definition REQUEST_ID_RE :: "string \<Rightarrow> bool" where
  "REQUEST_ID_RE = matches_ident is_alnum (\<lambda>c. is_alnum c \<or> c \<in> set ''._:-'') 7 127"

definition PROJECT_RE :: "string \<Rightarrow> bool" where
  "PROJECT_RE = matches_ident (\<lambda>c. is_lower c \<or> is_digit c) (\<lambda>c. is_lower c \<or> is_digit c \<or> c = CHR ''-'') 0 63"

definition LABEL_RE :: "string \<Rightarrow> bool" where
  "LABEL_RE = matches_ident (\<lambda>c. is_lower c \<or> is_digit c)
     (\<lambda>c. is_lower c \<or> is_digit c \<or> c \<in> set ''._-'') 0 63"

record runner =
  rn_id :: string
  rn_display_name :: string
  rn_admin_state :: admin_state
  rn_work_state :: work_state
  rn_agent_version :: "string option"
  rn_codex_version :: "string option"
  rn_os :: string
  rn_arch :: string
  rn_labels :: "string list"
  rn_allowed_projects :: "string list"
  rn_capabilities :: "string list"
  rn_policy_revision :: int
  rn_revision :: int
  rn_self_check :: "doc option"
  rn_last_heartbeat_at :: "int option"
  rn_heartbeat_sequence :: int
  rn_heartbeat_digest :: "string option"
  rn_relay_connected :: bool
  rn_current_task_id :: "string option"
  rn_archived_at :: "int option"
  rn_created_at :: int
  rn_updated_at :: int

record credential =
  cr_credential_id :: string
  cr_runner_id :: string
  cr_secret_digest :: string
  cr_active :: bool
  cr_created_at :: int
  cr_revoked_at :: "int option"

record enrollment =
  en_enrollment_id :: string
  en_runner_id :: string
  en_token_digest :: string
  en_request_id :: string
  en_request_digest :: string
  en_expires_at :: int
  en_claimed_at :: "int option"
  en_revoked_at :: "int option"
  en_created_at :: int

record task =
  tk_id :: string
  tk_create_request_id :: string
  tk_principal_hash :: string
  tk_project_alias :: string
  tk_instruction :: string
  tk_instruction_digest :: string
  tk_state :: task_state
  tk_stage :: "string option"
  tk_summary :: "string option"
  tk_candidate_id :: "string option"
  tk_branch :: "string option"
  tk_commits :: "string list"
  tk_result_hash :: "string option"
  tk_test_summary :: "string option"
  tk_changed_path_count :: "int option"
  tk_next_actions :: "string list"
  tk_error_code :: "string option"
  tk_action_required :: "string option"
  tk_preferred_runner_id :: "string option"
  tk_required_labels :: "string list"
  tk_required_capabilities :: "string list"
  tk_assigned_runner_id :: "string option"
  tk_assignment_epoch :: int
  tk_lease_id :: "string option"
  tk_lease_expires_at :: "int option"
  tk_ever_running :: bool
  tk_sequence :: int
  tk_expires_at :: int
  tk_created_at :: int
  tk_updated_at :: int

datatype runner_lease_state = Lease_active | Lease_released | Lease_expired

record runner_lease =
  rl_lease_id :: string
  rl_task_id :: string
  rl_runner_id :: string
  rl_assignment_epoch :: int
  rl_state :: runner_lease_state
  rl_created_at :: int
  rl_expires_at :: int
  rl_released_at :: "int option"

record runner_message =
  rm_runner_id :: string
  rm_task_id :: string
  rm_kind :: string
  rm_assignment_epoch :: int
  rm_sequence :: int
  rm_body_digest :: string

record command_request =
  cq_request_id :: string
  cq_operation :: string
  cq_body_digest :: string
  cq_task_id :: string

section \<open>Documents\<close>

datatype connectivity = Online | Stale | Offline

record enrollment_view =
  ev_state :: string
  ev_expires_at :: int
  ev_token :: "string option"

record runner_view =
  rv_row :: runner
  rv_connectivity :: connectivity
  rv_enrollment :: "enrollment_view option"

record task_view =
  tv_request_id :: string
  tv_task_id :: string
  tv_state :: task_state
  tv_updated_at :: int
  tv_stage :: "string option"
  tv_summary :: "string option"
  tv_candidate_id :: "string option"
  tv_branch :: "string option"
  tv_commits :: "string list"
  tv_result_hash :: "string option"
  tv_test_summary :: "string option"
  tv_changed_path_count :: "int option"
  tv_next_actions :: "string list"
  tv_error_code :: "string option"
  tv_action_required :: "string option"
  tv_assigned_runner_id :: "string option"
  tv_assignment_epoch :: int
  tv_lease_id :: "string option"
  tv_lease_expires_at :: "int option"
  tv_project_alias :: string
  tv_created_at :: int
  tv_expires_at :: int

record credential_view =
  cv_credential_id :: string
  cv_secret :: "string option"

text \<open>What an administration request answers, which is also what its replay answers.\<close>

datatype admin_response =
    Updated runner_view
  | Acted runner_view "credential_view option" bool
  | Enrollment_revoked runner_view
  | Enrollment_regenerated runner_view enrollment_view
  | Recovery_resolved task_view runner_view

record admin_request =
  aq_request_id :: string
  aq_action :: string
  aq_body_digest :: string
  aq_runner_id :: string
  aq_response :: admin_response

record runner_event =
  re_runner_id :: "string option"
  re_task_id :: "string option"
  re_event_type :: string
  re_metadata :: doc

record runner_db =
  runners :: "runner list"
  credentials :: "credential list"
  enrollments :: "enrollment list"
  tasks :: "task list"
  runner_leases :: "runner_lease list"
  runner_messages :: "runner_message list"
  command_requests :: "command_request list"
  admin_requests :: "admin_request list"
  runner_events :: "runner_event list"

definition empty_runner_db :: runner_db where
  "empty_runner_db = \<lparr>runners = [], credentials = [], enrollments = [], tasks = [],
     runner_leases = [], runner_messages = [], command_requests = [], admin_requests = [],
     runner_events = []\<rparr>"

record runner_config =
  rc_online_after_seconds :: int
  rc_offline_after_seconds :: int
  rc_lease_ttl_seconds :: int
  rc_task_ttl_seconds :: int

definition runner_store_init :: "runner_config \<Rightarrow> unit result" where
  "runner_store_init cfg =
     (if \<not> (1 \<le> rc_online_after_seconds cfg \<and>
            rc_online_after_seconds cfg < rc_offline_after_seconds cfg)
      then Inl ValueError
      else if \<not> (5 \<le> rc_lease_ttl_seconds cfg \<and> rc_lease_ttl_seconds cfg \<le> 3600)
              \<or> \<not> (60 \<le> rc_task_ttl_seconds cfg \<and> rc_task_ttl_seconds cfg \<le> 86400)
      then Inl ValueError else Inr ())"

section \<open>Checks of payloads\<close>

definition invalid :: "'a result" where
  "invalid = Inl (StoreError ''runner_payload_invalid'')"

definition runner_digest :: "pyenv \<Rightarrow> json \<Rightarrow> string" where
  "runner_digest env v = ''sha256:'' @ sha256_text env (canonical_json env v)"

definition secret_digest :: "pyenv \<Rightarrow> string \<Rightarrow> string" where
  "secret_digest env value = sha256_text env value"

definition bad_control :: "string \<Rightarrow> bool" where
  "bad_control s = list_ex (\<lambda>c. byte c < 32 \<and> byte c \<notin> {9, 10, 13}) s"

text \<open>\<open>_bounded_text\<close>, required and not.\<close>

definition bounded_text :: "json \<Rightarrow> nat \<Rightarrow> string result" where
  "bounded_text value maximum =
     (case value of
        JStr s \<Rightarrow>
          if py_strip s = [] \<or> py_len s > maximum then invalid
          else if bad_control s then invalid else Inr (py_strip s)
      | _ \<Rightarrow> invalid)"

definition optional_text :: "json \<Rightarrow> nat \<Rightarrow> string option result" where
  "optional_text value maximum =
     (case value of
        JNull \<Rightarrow> Inr None
      | JStr s \<Rightarrow>
          if py_len s > maximum then invalid
          else if bad_control s then invalid else Inr (Some (py_strip s))
      | _ \<Rightarrow> invalid)"

definition safe_values :: "json \<Rightarrow> (string \<Rightarrow> bool) \<Rightarrow> nat \<Rightarrow> string list result" where
  "safe_values value re maximum =
     (case value of
        JList vs \<Rightarrow>
          if length vs > maximum \<or> list_ex (\<lambda>v. \<not> str_matches re v) vs then invalid
          else Inr (sort (remdups (map str_of vs)))
      | _ \<Rightarrow> invalid)"

definition capabilities_of :: "json \<Rightarrow> string list result" where
  "capabilities_of value =
     bind_result (safe_values value LABEL_RE 32) (\<lambda>result.
       if set result \<subseteq> RUNNER_CAPABILITIES then Inr result else invalid)"

text \<open>\<open>isinstance(v, int) and not isinstance(v, bool) and v >= lo\<close>\<close>

definition int_at_least :: "int \<Rightarrow> json \<Rightarrow> bool" where
  "int_at_least lo v = (case v of JInt n \<Rightarrow> lo \<le> n | _ \<Rightarrow> False)"

definition revision_of :: "json \<Rightarrow> int result" where
  "revision_of v = (if int_at_least 1 v then Inr (int_of_json v) else invalid)"

definition matched :: "(string \<Rightarrow> bool) \<Rightarrow> json \<Rightarrow> string result" where
  "matched re v = (if str_matches re v then Inr (str_of v) else invalid)"

definition request_id_of :: "json \<Rightarrow> string result" where
  "request_id_of = matched REQUEST_ID_RE"

definition runner_id_of :: "json \<Rightarrow> string result" where
  "runner_id_of = matched RUNNER_ID_RE"

definition task_id_of :: "json \<Rightarrow> string result" where
  "task_id_of = matched TASK_ID_RE"

text \<open>\<open>os not in {...} or arch not in {...}\<close>, where a list or an object raises TypeError.\<close>

definition platform_ok :: "json \<Rightarrow> json \<Rightarrow> bool result" where
  "platform_ok os arch =
     bind_result (in_string_set os {''macos'', ''linux''}) (\<lambda>ok.
       if ok then in_string_set arch {''amd64'', ''aarch64''} else Inr False)"

section \<open>Views\<close>

definition runner_connectivity :: "runner_config \<Rightarrow> runner \<Rightarrow> int \<Rightarrow> connectivity" where
  "runner_connectivity cfg row now =
     (if \<not> rn_relay_connected row then Offline
      else (case rn_last_heartbeat_at row of
          None \<Rightarrow> Offline
        | Some t \<Rightarrow>
            (let age = max 0 (now - t)
             in if age \<le> seconds (rc_online_after_seconds cfg) then Online
                else if age \<le> seconds (rc_offline_after_seconds cfg) then Stale else Offline)))"

definition enrollment_state :: "enrollment \<Rightarrow> int \<Rightarrow> string" where
  "enrollment_state row now =
     (if en_claimed_at row \<noteq> None then ''claimed''
      else if en_revoked_at row \<noteq> None then ''revoked''
      else if en_expires_at row \<le> now then ''expired'' else ''pending'')"

definition public_enrollment :: "enrollment \<Rightarrow> int \<Rightarrow> enrollment_view" where
  "public_enrollment row now =
     \<lparr>ev_state = enrollment_state row now, ev_expires_at = en_expires_at row, ev_token = None\<rparr>"

definition public_runner :: "runner_config \<Rightarrow> runner \<Rightarrow> int \<Rightarrow> runner_view" where
  "public_runner cfg row now =
     \<lparr>rv_row = row, rv_connectivity = runner_connectivity cfg row now, rv_enrollment = None\<rparr>"

definition public_task :: "task \<Rightarrow> task_view" where
  "public_task t =
     \<lparr>tv_request_id = tk_create_request_id t, tv_task_id = tk_id t, tv_state = tk_state t,
      tv_updated_at = tk_updated_at t, tv_stage = tk_stage t, tv_summary = tk_summary t,
      tv_candidate_id = tk_candidate_id t, tv_branch = tk_branch t, tv_commits = tk_commits t,
      tv_result_hash = tk_result_hash t, tv_test_summary = tk_test_summary t,
      tv_changed_path_count = tk_changed_path_count t, tv_next_actions = tk_next_actions t,
      tv_error_code = tk_error_code t, tv_action_required = tk_action_required t,
      tv_assigned_runner_id = tk_assigned_runner_id t,
      tv_assignment_epoch = tk_assignment_epoch t, tv_lease_id = tk_lease_id t,
      tv_lease_expires_at = tk_lease_expires_at t, tv_project_alias = tk_project_alias t,
      tv_created_at = tk_created_at t, tv_expires_at = tk_expires_at t\<rparr>"

text \<open>\<open>ORDER BY created_at DESC, rowid DESC LIMIT 1\<close>: the last of the latest.\<close>

definition latest_enrollment :: "runner_db \<Rightarrow> string \<Rightarrow> enrollment option" where
  "latest_enrollment db runner_id =
     first_min (\<lambda>e. - en_created_at e) (rev (filter (\<lambda>e. en_runner_id e = runner_id) (enrollments db)))"

definition find_runner :: "runner_db \<Rightarrow> string \<Rightarrow> runner option" where
  "find_runner db runner_id = select_one (\<lambda>r. rn_id r = runner_id) (runners db)"

definition find_task :: "runner_db \<Rightarrow> string \<Rightarrow> task option" where
  "find_task db task_id = select_one (\<lambda>t. tk_id t = task_id) (tasks db)"

definition set_runner :: "string \<Rightarrow> (runner \<Rightarrow> runner) \<Rightarrow> runner_db \<Rightarrow> runner_db" where
  "set_runner runner_id f db =
     db\<lparr>runners := update_where (\<lambda>r. rn_id r = runner_id) f (runners db)\<rparr>"

definition set_task :: "string \<Rightarrow> (task \<Rightarrow> task) \<Rightarrow> runner_db \<Rightarrow> runner_db" where
  "set_task task_id f db = db\<lparr>tasks := update_where (\<lambda>t. tk_id t = task_id) f (tasks db)\<rparr>"

text \<open>\<open>revision=revision+1,updated_at=?\<close>\<close>

definition revised :: "int \<Rightarrow> runner \<Rightarrow> runner" where
  "revised now r = r\<lparr>rn_revision := rn_revision r + 1, rn_updated_at := now\<rparr>"

definition log_event ::
  "string \<Rightarrow> string option \<Rightarrow> string option \<Rightarrow> doc \<Rightarrow> runner_db \<Rightarrow> runner_db" where
  "log_event event_type runner_id task_id metadata db =
     db\<lparr>runner_events := insert_row
          \<lparr>re_runner_id = runner_id, re_task_id = task_id, re_event_type = event_type,
           re_metadata = metadata\<rparr> (runner_events db)\<rparr>"

text \<open>An INSERT with the primary key and the UNIQUE columns of its table.\<close>

definition insert_credential :: "credential \<Rightarrow> runner_db \<Rightarrow> runner_db result" where
  "insert_credential c db =
     (if cr_credential_id c \<in> set (map cr_credential_id (credentials db))
         \<or> cr_secret_digest c \<in> set (map cr_secret_digest (credentials db))
      then Inl IntegrityError else Inr (db\<lparr>credentials := insert_row c (credentials db)\<rparr>))"

definition insert_enrollment :: "enrollment \<Rightarrow> runner_db \<Rightarrow> runner_db result" where
  "insert_enrollment e db =
     (if en_enrollment_id e \<in> set (map en_enrollment_id (enrollments db))
         \<or> en_token_digest e \<in> set (map en_token_digest (enrollments db))
         \<or> en_request_id e \<in> set (map en_request_id (enrollments db))
      then Inl IntegrityError else Inr (db\<lparr>enrollments := insert_row e (enrollments db)\<rparr>))"

definition insert_runner :: "runner \<Rightarrow> runner_db \<Rightarrow> runner_db result" where
  "insert_runner r db =
     (if rn_id r \<in> set (map rn_id (runners db)) then Inl IntegrityError
      else Inr (db\<lparr>runners := insert_row r (runners db)\<rparr>))"

text \<open>
  A transaction whose body is a sequence of statements, each of which may raise; what it did is
  dropped when it raises.
\<close>

definition in_transaction :: "(runner_db \<Rightarrow> ('a \<times> runner_db) result) \<Rightarrow> runner_db \<Rightarrow> 'a result \<times> runner_db" where
  "in_transaction body db = (case body db of Inl e \<Rightarrow> (Inl e, db) | Inr (a, db') \<Rightarrow> (Inr a, db'))"

lemma in_transaction_Inr: "in_transaction body db = (Inr a, db') \<longleftrightarrow> body db = Inr (a, db')"
  by (auto simp: in_transaction_def split: sum.splits)

lemma in_transaction_cases:
  obtains (refused) e where "in_transaction body db = (Inl e, db)"
  | (completed) a db' where "in_transaction body db = (Inr a, db')" and "body db = Inr (a, db')"
  by (cases "body db") (auto simp: in_transaction_def)

definition conflict :: "string \<Rightarrow> 'a result" where
  "conflict code = Inl (StoreError code)"

section \<open>Enrolment\<close>

record enrollment_request =
  eq_display_name :: string
  eq_os :: string
  eq_arch :: string
  eq_labels :: "string list"
  eq_allowed_projects :: "string list"
  eq_request_id :: string

definition ENROLLMENT_FIELDS :: "string list" where
  "ENROLLMENT_FIELDS =
     [''display_name'', ''os'', ''arch'', ''labels'', ''allowed_projects'', ''max_concurrency'',
      ''request_id'']"

definition validate_enrollment :: "doc \<Rightarrow> enrollment_request result" where
  "validate_enrollment p =
     (if keys_of p \<noteq> set ENROLLMENT_FIELDS then invalid
      else bind_result (bounded_text (get_field p ''display_name'') 80) (\<lambda>display_name.
        bind_result (platform_ok (get_field p ''os'') (get_field p ''arch'')) (\<lambda>ok.
        if \<not> ok then invalid
        else bind_result (safe_values (get_field p ''labels'') LABEL_RE 32) (\<lambda>labels.
        bind_result (safe_values (get_field p ''allowed_projects'') PROJECT_RE 32) (\<lambda>projects.
        if projects = [] then invalid
        else if \<not> py_eq_int (get_field p ''max_concurrency'') 1 then invalid
        else bind_result (request_id_of (get_field p ''request_id'')) (\<lambda>request_id.
        Inr \<lparr>eq_display_name = display_name, eq_os = str_of (get_field p ''os''),
             eq_arch = str_of (get_field p ''arch''), eq_labels = labels,
             eq_allowed_projects = projects, eq_request_id = request_id\<rparr>))))))"

definition new_runner :: "enrollment_request \<Rightarrow> string \<Rightarrow> int \<Rightarrow> runner" where
  "new_runner v runner_id now =
     \<lparr>rn_id = runner_id, rn_display_name = eq_display_name v, rn_admin_state = Adm_pending,
      rn_work_state = Work_idle, rn_agent_version = None, rn_codex_version = None,
      rn_os = eq_os v, rn_arch = eq_arch v, rn_labels = eq_labels v,
      rn_allowed_projects = eq_allowed_projects v, rn_capabilities = [], rn_policy_revision = 1,
      rn_revision = 1, rn_self_check = None, rn_last_heartbeat_at = None,
      rn_heartbeat_sequence = 0, rn_heartbeat_digest = None, rn_relay_connected = False,
      rn_current_task_id = None, rn_archived_at = None, rn_created_at = now, rn_updated_at = now\<rparr>"

definition ENROLLMENT_TTL :: int where
  "ENROLLMENT_TTL = seconds (15 * 60)"

definition new_enrollment ::
  "pyenv \<Rightarrow> string \<Rightarrow> string \<Rightarrow> string \<Rightarrow> string \<Rightarrow> string \<Rightarrow> int \<Rightarrow> enrollment" where
  "new_enrollment env enrollment_id runner_id token request_id body_digest now =
     \<lparr>en_enrollment_id = enrollment_id, en_runner_id = runner_id,
      en_token_digest = secret_digest env token, en_request_id = request_id,
      en_request_digest = body_digest, en_expires_at = now + ENROLLMENT_TTL, en_claimed_at = None,
      en_revoked_at = None, en_created_at = now\<rparr>"

definition create_enrollment ::
  "pyenv \<Rightarrow> runner_config \<Rightarrow> doc \<Rightarrow> string \<times> string \<times> string \<Rightarrow> int \<Rightarrow> runner_db
     \<Rightarrow> (runner_view \<times> enrollment_view) result \<times> runner_db" where
  "create_enrollment env cfg p tokens now db =
     (case validate_enrollment p of
        Inl e \<Rightarrow> (Inl e, db)
      | Inr v \<Rightarrow> in_transaction (\<lambda>db.
          let body_digest = runner_digest env (JObj p);
              (runner_id, enrollment_id, token) = tokens
          in case select_one (\<lambda>e. en_request_id e = eq_request_id v) (enrollments db) of
               Some existing \<Rightarrow>
                 if en_request_digest existing \<noteq> body_digest then conflict ''idempotency_conflict''
                 else (case find_runner db (en_runner_id existing) of
                     None \<Rightarrow> Inl TypeError
                   | Some row \<Rightarrow>
                       (let ev = public_enrollment existing now
                        in Inr (((public_runner cfg row now)\<lparr>rv_enrollment := Some ev\<rparr>, ev), db)))
             | None \<Rightarrow>
                 bind_result (insert_runner (new_runner v runner_id now) db) (\<lambda>db.
                 bind_result (insert_enrollment (new_enrollment env enrollment_id runner_id token
                    (eq_request_id v) body_digest now) db) (\<lambda>db.
                 let db = log_event ''runner_enrollment_created'' (Some runner_id) None
                       [(''os'', JStr (eq_os v)), (''arch'', JStr (eq_arch v))] db;
                     ev = \<lparr>ev_state = ''pending'', ev_expires_at = now + ENROLLMENT_TTL,
                           ev_token = None\<rparr>
                 in Inr (((public_runner cfg (new_runner v runner_id now) now)
                            \<lparr>rv_enrollment := Some ev\<rparr>, ev\<lparr>ev_token := Some token\<rparr>), db)))) db)"

record redemption =
  rd_token :: string
  rd_runner_id :: string
  rd_agent_version :: string
  rd_codex_version :: string
  rd_capabilities :: "string list"
  rd_projects :: "string list"
  rd_labels :: "string list"
  rd_policy_revision :: int
  rd_self_check_ok :: bool
  rd_checks :: "string list"
  rd_error_code :: json

definition REDEMPTION_FIELDS :: "string list" where
  "REDEMPTION_FIELDS =
     [''token'', ''runner_id'', ''protocol_version'', ''agent_version'', ''codex_version'', ''os'',
      ''arch'', ''capabilities'', ''projects'', ''labels'', ''policy_revision'', ''self_check'']"

definition self_check_of :: "json \<Rightarrow> (bool \<times> string list \<times> json) result" where
  "self_check_of v =
     (case v of
        JObj c \<Rightarrow>
          if \<not> keys_of c \<subseteq> {''ok'', ''checks'', ''error_code''} then invalid
          else (case get_field c ''ok'' of
              JBool ok \<Rightarrow>
                (case (case map_of c ''checks'' of None \<Rightarrow> JList [] | Some w \<Rightarrow> w) of
                   JList ws \<Rightarrow>
                     if length ws > 32 \<or> list_ex (\<lambda>w. \<not> str_matches LABEL_RE w) ws then invalid
                     else Inr (ok, sort (remdups (map str_of ws)), get_field c ''error_code'')
                 | _ \<Rightarrow> invalid)
            | _ \<Rightarrow> invalid)
      | _ \<Rightarrow> invalid)"

definition validate_redemption :: "doc \<Rightarrow> redemption result" where
  "validate_redemption p =
     (if keys_of p \<noteq> set REDEMPTION_FIELDS then invalid
      else bind_result (bounded_text (get_field p ''token'') 256) (\<lambda>token.
        bind_result (runner_id_of (get_field p ''runner_id'')) (\<lambda>runner_id.
        if \<not> py_eq_int (get_field p ''protocol_version'') 2
        then Inl (StoreError ''runner_protocol_unsupported'')
        else bind_result (bounded_text (get_field p ''agent_version'') 64) (\<lambda>agent.
        bind_result (bounded_text (get_field p ''codex_version'') 64) (\<lambda>codex.
        bind_result (capabilities_of (get_field p ''capabilities'')) (\<lambda>capabilities.
        bind_result (safe_values (get_field p ''projects'') PROJECT_RE 32) (\<lambda>projects.
        bind_result (safe_values (get_field p ''labels'') LABEL_RE 32) (\<lambda>labels.
        bind_result (revision_of (get_field p ''policy_revision'')) (\<lambda>policy_revision.
        bind_result (self_check_of (get_field p ''self_check'')) (\<lambda>(ok, checks, error_code).
        Inr \<lparr>rd_token = token, rd_runner_id = runner_id, rd_agent_version = agent,
             rd_codex_version = codex, rd_capabilities = capabilities, rd_projects = projects,
             rd_labels = labels, rd_policy_revision = policy_revision, rd_self_check_ok = ok,
             rd_checks = checks, rd_error_code = error_code\<rparr>))))))))))"

text \<open>The checks of a redemption against the enrolment and the runner it was made for.\<close>

definition redemption_checks ::
  "redemption \<Rightarrow> doc \<Rightarrow> enrollment \<Rightarrow> runner \<Rightarrow> int \<Rightarrow> unit result" where
  "redemption_checks v p en row now =
     (if rn_admin_state row = Adm_revoked \<or> JStr (rn_os row) \<noteq> get_field p ''os''
         \<or> JStr (rn_arch row) \<noteq> get_field p ''arch''
      then conflict ''enrollment_identity_mismatch''
      else if \<not> set (rd_projects v) \<subseteq> set (rn_allowed_projects row)
      then conflict ''runner_policy_rejected''
      else if \<not> set (rd_labels v) \<subseteq> set (rn_labels row) then conflict ''runner_policy_rejected''
      else if rd_policy_revision v \<noteq> rn_policy_revision row
      then conflict ''runner_policy_rejected'' else Inr ())"

definition enrollment_usable :: "enrollment \<Rightarrow> int \<Rightarrow> unit result" where
  "enrollment_usable en now =
     (if en_claimed_at en \<noteq> None then conflict ''enrollment_replayed''
      else if en_revoked_at en \<noteq> None then conflict ''enrollment_revoked''
      else if en_expires_at en \<le> now then conflict ''enrollment_expired'' else Inr ())"

definition new_credential :: "pyenv \<Rightarrow> string \<Rightarrow> string \<Rightarrow> string \<Rightarrow> int \<Rightarrow> credential" where
  "new_credential env credential_id runner_id secret now =
     \<lparr>cr_credential_id = credential_id, cr_runner_id = runner_id,
      cr_secret_digest = secret_digest env secret, cr_active = True, cr_created_at = now,
      cr_revoked_at = None\<rparr>"

definition redeemed_runner :: "redemption \<Rightarrow> int \<Rightarrow> runner \<Rightarrow> runner" where
  "redeemed_runner v now r =
     (revised now r)\<lparr>rn_agent_version := Some (rd_agent_version v),
       rn_codex_version := Some (rd_codex_version v), rn_capabilities := rd_capabilities v,
       rn_self_check := Some [(''ok'', JBool (rd_self_check_ok v)),
         (''checks'', JList (map JStr (rd_checks v))), (''error_code'', rd_error_code v)]\<rparr>"

definition redeem_enrollment ::
  "pyenv \<Rightarrow> runner_config \<Rightarrow> doc \<Rightarrow> string \<times> string \<Rightarrow> int \<Rightarrow> runner_db
     \<Rightarrow> (runner_view \<times> credential_view) result \<times> runner_db" where
  "redeem_enrollment env cfg p tokens now db =
     (case validate_redemption p of
        Inl e \<Rightarrow> (Inl e, db)
      | Inr v \<Rightarrow> in_transaction (\<lambda>db.
          let (credential_id, secret) = tokens; runner_id = rd_runner_id v
          in case select_one (\<lambda>e. en_token_digest e = secret_digest env (rd_token v)
                                 \<and> en_runner_id e = runner_id) (enrollments db) of
               None \<Rightarrow> conflict ''enrollment_invalid''
             | Some en \<Rightarrow>
                 bind_result (enrollment_usable en now) (\<lambda>_.
                 case find_runner db runner_id of
                   None \<Rightarrow> Inl AssertionError
                 | Some row \<Rightarrow>
                     bind_result (redemption_checks v p en row now) (\<lambda>_.
                     let db = db\<lparr>enrollments := update_where
                           (\<lambda>e. en_enrollment_id e = en_enrollment_id en)
                           (\<lambda>e. e\<lparr>en_claimed_at := Some now\<rparr>) (enrollments db)\<rparr>
                     in bind_result (insert_credential
                          (new_credential env credential_id runner_id secret now) db) (\<lambda>db.
                        let db = log_event ''runner_enrollment_redeemed'' (Some runner_id) None
                              [(''self_check_ok'', JBool (rd_self_check_ok v))]
                              (set_runner runner_id (redeemed_runner v now) db);
                            view = (public_runner cfg (redeemed_runner v now row) now)
                              \<lparr>rv_enrollment := Some \<lparr>ev_state = ''claimed'',
                                 ev_expires_at = en_expires_at en, ev_token = None\<rparr>\<rparr>
                        in Inr ((view, \<lparr>cv_credential_id = credential_id,
                                       cv_secret = Some secret\<rparr>), db))))) db)"

definition inspect_enrollment ::
  "pyenv \<Rightarrow> json \<Rightarrow> int \<Rightarrow> runner_db \<Rightarrow> (runner \<times> enrollment) result" where
  "inspect_enrollment env token now db =
     (case token of
        JStr s \<Rightarrow>
          if \<not> (32 \<le> py_len s \<and> py_len s \<le> 512) \<or> list_ex is_space (uchars s)
          then conflict ''enrollment_invalid''
          else (case first_min (\<lambda>e. - en_created_at e)
                       (filter (\<lambda>e. en_token_digest e = secret_digest env s) (enrollments db)) of
              None \<Rightarrow> conflict ''enrollment_invalid''
            | Some en \<Rightarrow>
                (case find_runner db (en_runner_id en) of
                   None \<Rightarrow> Inl AssertionError
                 | Some row \<Rightarrow>
                     bind_result (enrollment_usable en now) (\<lambda>_.
                     if rn_admin_state row \<notin> {Adm_pending, Adm_disabled}
                        \<or> rn_archived_at row \<noteq> None
                     then conflict ''enrollment_state_conflict'' else Inr (row, en))))
      | _ \<Rightarrow> conflict ''enrollment_invalid'')"

end
