(* ===== verification/Runner_Admin.thy ===== *)
theory Runner_Admin
  imports Runner_Store
begin

text \<open>
  \<open>runner_store.py\<close>: the administration of runners.  Each request carries the revision of the runner
  it was made for and a request id; its answer is stored, without secrets, and given again when the
  request is repeated.
\<close>

section \<open>Replays and revisions\<close>

definition admin_replay ::
  "runner_db \<Rightarrow> string \<Rightarrow> string \<Rightarrow> string \<Rightarrow> string \<Rightarrow> admin_response option result" where
  "admin_replay db request_id action body_digest runner_id =
     (case select_one (\<lambda>a. aq_request_id a = request_id) (admin_requests db) of
        None \<Rightarrow> Inr None
      | Some a \<Rightarrow>
          if aq_action a \<noteq> action \<or> aq_body_digest a \<noteq> body_digest \<or> aq_runner_id a \<noteq> runner_id
          then conflict ''idempotency_conflict'' else Inr (Some (aq_response a)))"

definition save_admin_replay ::
  "string \<Rightarrow> string \<Rightarrow> string \<Rightarrow> string \<Rightarrow> admin_response \<Rightarrow> runner_db \<Rightarrow> runner_db" where
  "save_admin_replay request_id action body_digest runner_id response db =
     db\<lparr>admin_requests := insert_row
          \<lparr>aq_request_id = request_id, aq_action = action, aq_body_digest = body_digest,
           aq_runner_id = runner_id, aq_response = response\<rparr> (admin_requests db)\<rparr>"

definition locked_runner :: "runner_db \<Rightarrow> string \<Rightarrow> int \<Rightarrow> runner result" where
  "locked_runner db runner_id revision =
     (case find_runner db runner_id of
        None \<Rightarrow> conflict ''runner_not_found''
      | Some row \<Rightarrow> if rn_revision row \<noteq> revision then conflict ''revision_conflict'' else Inr row)"

text \<open>The runner, the revision and the request id of a request, checked in this order.\<close>

definition admin_ids :: "json \<Rightarrow> doc \<Rightarrow> (string \<times> int \<times> string) result" where
  "admin_ids runner_id p =
     bind_result (runner_id_of runner_id) (\<lambda>rid.
     bind_result (revision_of (get_field p ''revision'')) (\<lambda>revision.
     bind_result (request_id_of (get_field p ''request_id'')) (\<lambda>request_id.
     Inr (rid, revision, request_id))))"

text \<open>
  What the administration requests share: the replay, the lock on the revision, the change \<open>body\<close>,
  which yields the answer and the answer to store, and the stored request.
\<close>

definition administer ::
  "string \<Rightarrow> string \<Rightarrow> string \<Rightarrow> string \<Rightarrow> int
     \<Rightarrow> (runner \<Rightarrow> runner_db \<Rightarrow> ((admin_response \<times> admin_response) \<times> runner_db) result)
     \<Rightarrow> runner_db \<Rightarrow> admin_response result \<times> runner_db" where
  "administer request_id action body_digest runner_id revision body =
     in_transaction (\<lambda>db.
       bind_result (admin_replay db request_id action body_digest runner_id) (\<lambda>replay.
       case replay of
         Some response \<Rightarrow> Inr (response, db)
       | None \<Rightarrow>
           bind_result (locked_runner db runner_id revision) (\<lambda>row.
           bind_result (body row db) (\<lambda>((response, stored), db).
           Inr (response, save_admin_replay request_id action body_digest runner_id stored db)))))"

section \<open>Updating a runner\<close>

definition UPDATE_FIELDS :: "string list" where
  "UPDATE_FIELDS =
     [''admin_state'', ''display_name'', ''labels'', ''allowed_projects'', ''revision'',
      ''request_id'']"

definition self_check_passed :: "runner \<Rightarrow> bool" where
  "self_check_passed row \<longleftrightarrow>
     (case rn_self_check row of None \<Rightarrow> False | Some c \<Rightarrow> get_field c ''ok'' = JBool True)"

text \<open>The new administrative state, if the change is allowed.\<close>

definition updated_admin_state :: "json \<Rightarrow> runner \<Rightarrow> admin_state result" where
  "updated_admin_state target row =
     bind_result (in_string_set target {''enabled'', ''disabled''}) (\<lambda>known.
     if \<not> known then conflict ''runner_state_invalid''
     else if target = JStr ''enabled''
     then (if rn_admin_state row \<notin> {Adm_pending, Adm_disabled} \<or> \<not> self_check_passed row
           then conflict ''runner_state_conflict'' else Inr Adm_enabled)
     else if (rn_current_task_id row \<noteq> None \<and> rn_current_task_id row \<noteq> Some [])
             \<or> rn_work_state row = Work_recovery_required
     then conflict ''runner_state_conflict'' else Inr Adm_disabled)"

text \<open>The updates in the order of the code, each with its entry of the audit event.\<close>

type_synonym change = "((runner \<Rightarrow> runner) \<times> doc) option"

definition update_display_name :: "doc \<Rightarrow> change result" where
  "update_display_name p =
     (if ''display_name'' \<notin> keys_of p then Inr None
      else bind_result (bounded_text (get_field p ''display_name'') 80) (\<lambda>t.
        Inr (Some (\<lambda>r. r\<lparr>rn_display_name := t\<rparr>, []))))"

definition update_labels :: "doc \<Rightarrow> change result" where
  "update_labels p =
     (if ''labels'' \<notin> keys_of p then Inr None
      else bind_result (safe_values (get_field p ''labels'') LABEL_RE 32) (\<lambda>labels.
        Inr (Some (\<lambda>r. r\<lparr>rn_labels := labels\<rparr>, [(''labels_changed'', JBool True)]))))"

definition update_projects :: "doc \<Rightarrow> change result" where
  "update_projects p =
     (if ''allowed_projects'' \<notin> keys_of p then Inr None
      else bind_result (safe_values (get_field p ''allowed_projects'') PROJECT_RE 32) (\<lambda>projects.
        if projects = [] then invalid
        else Inr (Some (\<lambda>r. r\<lparr>rn_allowed_projects := projects,
                            rn_policy_revision := rn_policy_revision r + 1\<rparr>,
                     [(''projects_changed'', JBool True)]))))"

definition update_admin_state :: "doc \<Rightarrow> runner \<Rightarrow> change result" where
  "update_admin_state p row =
     (if ''admin_state'' \<notin> keys_of p then Inr None
      else bind_result (updated_admin_state (get_field p ''admin_state'') row) (\<lambda>st.
        Inr (Some (\<lambda>r. r\<lparr>rn_admin_state := st\<rparr>, [(''admin_state'', get_field p ''admin_state'')]))))"

definition applied :: "change list \<Rightarrow> runner \<Rightarrow> runner" where
  "applied cs r = fold (\<lambda>c r. case c of None \<Rightarrow> r | Some (f, _) \<Rightarrow> f r) cs r"

definition change_metadata :: "change list \<Rightarrow> doc" where
  "change_metadata cs = concat (map (\<lambda>c. case c of None \<Rightarrow> [] | Some (_, d) \<Rightarrow> d) cs)"

definition update_body ::
  "runner_config \<Rightarrow> doc \<Rightarrow> string \<Rightarrow> int \<Rightarrow> runner \<Rightarrow> runner_db
     \<Rightarrow> ((admin_response \<times> admin_response) \<times> runner_db) result" where
  "update_body cfg p runner_id now row db =
     bind_result (update_display_name p) (\<lambda>c1.
     bind_result (update_labels p) (\<lambda>c2.
     bind_result (update_projects p) (\<lambda>c3.
     bind_result (update_admin_state p row) (\<lambda>c4.
     let cs = [c1, c2, c3, c4]; f = (\<lambda>r. revised now (applied cs r));
         response = Updated (public_runner cfg (f row) now)
     in if list_all (\<lambda>c. c = None) cs then invalid
        else Inr ((response, response),
          log_event ''runner_updated'' (Some runner_id) None (change_metadata cs)
            (set_runner runner_id f db))))))"

definition update_runner ::
  "pyenv \<Rightarrow> runner_config \<Rightarrow> json \<Rightarrow> doc \<Rightarrow> int \<Rightarrow> runner_db \<Rightarrow> admin_response result \<times> runner_db" where
  "update_runner env cfg runner_id p now db =
     (if \<not> keys_of p \<subseteq> set UPDATE_FIELDS \<or> \<not> {''revision'', ''request_id''} \<subseteq> keys_of p
      then (invalid, db)
      else (case admin_ids runner_id p of
          Inl e \<Rightarrow> (Inl e, db)
        | Inr (rid, revision, request_id) \<Rightarrow>
            administer request_id ''update'' (runner_digest env (JObj p)) rid revision
              (update_body cfg p rid now) db))"

section \<open>Actions\<close>

datatype runner_action = Drain | Emergency_disable | Rotate_credential | Delete_runner | Self_check

fun action_name :: "runner_action \<Rightarrow> string" where
  "action_name Drain = ''drain''"
| "action_name Emergency_disable = ''emergency_disable''"
| "action_name Rotate_credential = ''rotate_credential''"
| "action_name Delete_runner = ''delete''"
| "action_name Self_check = ''self_check''"

text \<open>The truth value of a nullable id.\<close>

definition has_text :: "string option \<Rightarrow> bool" where
  "has_text v \<longleftrightarrow> v \<noteq> None \<and> v \<noteq> Some []"

text \<open>The texts for the operator, in UTF-8.\<close>

definition utf8_text :: "nat list \<Rightarrow> string" where
  "utf8_text bs = map char_of bs"

definition CHECK_WORKTREE :: string where
  "CHECK_WORKTREE = utf8_text [228,186,186,229,183,165,230,160,184,229,175,185] @ '' Runner '' @
     utf8_text [228,184,142,229,183,165,228,189,156,230,160,145,229,144,142,229,134,141,231,187,167,
       231,187,173]"

definition AWAIT_CANCEL :: string where
  "AWAIT_CANCEL = utf8_text [231,173,137,229,190,133] @ '' Runner '' @
     utf8_text [231,161,174,232,174,164,229,143,150,230,182,136,239,188,155,230,156,170,231,159,165,
       231,187,147,230,158,156,228,184,141,229,190,151,232,189,172,231,167,187]"

definition RUNNER_LOST :: string where
  "RUNNER_LOST = ''Runner '' @
     utf8_text [229,164,177,232,129,148,228,184,148,228,187,187,229,138,161,229,183,178,232,191,144,
       232,161,140,239,188,140,231,166,129,230,173,162,232,135,170,229,138,168,232,189,172,231,167,
       187]"

text \<open>\<open>UPDATE runner_leases SET state=?, released_at=? WHERE task_id=? AND state='active'\<close>\<close>

definition end_leases :: "string \<Rightarrow> runner_lease_state \<Rightarrow> int \<Rightarrow> runner_db \<Rightarrow> runner_db" where
  "end_leases task_id st now db =
     db\<lparr>runner_leases := update_where (\<lambda>l. rl_task_id l = task_id \<and> rl_state l = Lease_active)
          (\<lambda>l. l\<lparr>rl_state := st, rl_released_at := Some now\<rparr>) (runner_leases db)\<rparr>"

definition recovery_task :: "string \<Rightarrow> int \<Rightarrow> task \<Rightarrow> task" where
  "recovery_task message now t =
     t\<lparr>tk_state := Task_recovery_required, tk_stage := Some ''recovery'',
       tk_action_required := Some message, tk_updated_at := now\<rparr>"

definition cancelled_task :: "int \<Rightarrow> task \<Rightarrow> task" where
  "cancelled_task now t =
     t\<lparr>tk_state := Task_cancelled, tk_stage := Some ''cancelled'', tk_assigned_runner_id := None,
       tk_lease_id := None, tk_lease_expires_at := None, tk_updated_at := now\<rparr>"

definition active_credential :: "runner_db \<Rightarrow> string \<Rightarrow> bool" where
  "active_credential db runner_id \<longleftrightarrow>
     list_ex (\<lambda>c. cr_runner_id c = runner_id \<and> cr_active c) (credentials db)"

definition revoke_credentials :: "string \<Rightarrow> int \<Rightarrow> runner_db \<Rightarrow> runner_db" where
  "revoke_credentials runner_id now db =
     db\<lparr>credentials := update_where (\<lambda>c. cr_runner_id c = runner_id \<and> cr_active c)
          (\<lambda>c. c\<lparr>cr_active := False, cr_revoked_at := Some now\<rparr>) (credentials db)\<rparr>"

definition drain_body :: "string \<Rightarrow> int \<Rightarrow> runner \<Rightarrow> runner_db \<Rightarrow> runner_db result" where
  "drain_body runner_id now row db =
     (if rn_admin_state row \<noteq> Adm_enabled then conflict ''runner_state_conflict''
      else Inr (set_runner runner_id (\<lambda>r. (revised now r)
        \<lparr>rn_admin_state := (if has_text (rn_current_task_id row) then Adm_draining
                            else Adm_disabled)\<rparr>) db))"

text \<open>The task of a runner that is disabled at once, and what becomes of the runner's own columns.\<close>

definition emergency_task ::
  "string \<Rightarrow> int \<Rightarrow> runner \<Rightarrow> runner_db \<Rightarrow> (work_state \<times> string option) \<times> runner_db" where
  "emergency_task runner_id now row db =
     (case rn_current_task_id row of
        None \<Rightarrow> ((rn_work_state row, None), db)
      | Some a \<Rightarrow>
          if a = [] then ((rn_work_state row, Some a), db)
          else if (case find_task db a of None \<Rightarrow> False | Some t \<Rightarrow> tk_ever_running t)
          then ((Work_recovery_required, Some a), set_task a (recovery_task CHECK_WORKTREE now) db)
          else ((Work_idle, None),
                end_leases a Lease_released now (set_task a (cancelled_task now) db)))"

definition emergency_body :: "string \<Rightarrow> int \<Rightarrow> runner \<Rightarrow> runner_db \<Rightarrow> runner_db result" where
  "emergency_body runner_id now row db =
     (if rn_admin_state row = Adm_revoked then conflict ''runner_state_conflict''
      else (let ((work, task), db) = emergency_task runner_id now row db
            in Inr (set_runner runner_id (\<lambda>r. (revised now r)
                 \<lparr>rn_admin_state := Adm_disabled, rn_work_state := work,
                  rn_current_task_id := task\<rparr>) db)))"

definition rotate_body ::
  "pyenv \<Rightarrow> string \<Rightarrow> string \<times> string \<Rightarrow> int \<Rightarrow> runner \<Rightarrow> runner_db \<Rightarrow> runner_db result" where
  "rotate_body env runner_id tokens now row db =
     (let (secret, credential_id) = tokens
      in if rn_admin_state row = Adm_revoked then conflict ''runner_state_conflict''
         else if \<not> active_credential db runner_id then conflict ''runner_state_conflict''
         else bind_result (insert_credential (new_credential env credential_id runner_id secret now)
                (revoke_credentials runner_id now db)) (\<lambda>db.
              Inr (set_runner runner_id (revised now) db)))"

definition delete_body :: "string \<Rightarrow> int \<Rightarrow> runner \<Rightarrow> runner_db \<Rightarrow> runner_db result" where
  "delete_body runner_id now row db =
     (if rn_admin_state row \<noteq> Adm_disabled \<or> has_text (rn_current_task_id row)
         \<or> rn_work_state row \<noteq> Work_idle
      then conflict ''runner_delete_conflict''
      else Inr (set_runner runner_id (\<lambda>r. (revised now r)
        \<lparr>rn_admin_state := Adm_revoked, rn_archived_at := Some now\<rparr>)
        (revoke_credentials runner_id now db)))"

definition self_check_body :: "string \<Rightarrow> int \<Rightarrow> runner \<Rightarrow> runner_db \<Rightarrow> runner_db result" where
  "self_check_body runner_id now row db =
     (if rn_admin_state row = Adm_revoked then conflict ''runner_state_conflict''
      else Inr (set_runner runner_id (revised now) db))"

fun action_effect ::
  "pyenv \<Rightarrow> runner_action \<Rightarrow> string \<Rightarrow> string \<times> string \<Rightarrow> int \<Rightarrow> runner \<Rightarrow> runner_db \<Rightarrow> runner_db result" where
  "action_effect env Drain runner_id tokens now row db = drain_body runner_id now row db"
| "action_effect env Emergency_disable runner_id tokens now row db = emergency_body runner_id now row db"
| "action_effect env Rotate_credential runner_id tokens now row db =
     rotate_body env runner_id tokens now row db"
| "action_effect env Delete_runner runner_id tokens now row db = delete_body runner_id now row db"
| "action_effect env Self_check runner_id tokens now row db = self_check_body runner_id now row db"

definition action_body ::
  "pyenv \<Rightarrow> runner_config \<Rightarrow> runner_action \<Rightarrow> string \<Rightarrow> string \<times> string \<Rightarrow> int \<Rightarrow> runner \<Rightarrow> runner_db
     \<Rightarrow> ((admin_response \<times> admin_response) \<times> runner_db) result" where
  "action_body env cfg action runner_id tokens now row db =
     bind_result (action_effect env action runner_id tokens now row db) (\<lambda>db.
     let db = log_event (''runner_'' @ action_name action) (Some runner_id) (rn_current_task_id row)
                [] db;
         secret = (if action = Rotate_credential then Some (fst tokens) else None);
         credential = (\<lambda>s. if action = Rotate_credential
            then Some \<lparr>cv_credential_id = snd tokens, cv_secret = s\<rparr> else None)
     in case find_runner db runner_id of
          None \<Rightarrow> Inl TypeError
        | Some updated \<Rightarrow>
            (let view = public_runner cfg updated now; queued = (action = Self_check)
             in Inr ((Acted view (credential secret) queued, Acted view (credential None) queued), db)))"

definition admin_action ::
  "pyenv \<Rightarrow> runner_config \<Rightarrow> runner_action \<Rightarrow> json \<Rightarrow> doc \<Rightarrow> string \<times> string \<Rightarrow> int \<Rightarrow> runner_db
     \<Rightarrow> admin_response result \<times> runner_db" where
  "admin_action env cfg action runner_id p tokens now db =
     (if keys_of p \<noteq> {''revision'', ''request_id''} then (invalid, db)
      else (case admin_ids runner_id p of
          Inl e \<Rightarrow> (Inl e, db)
        | Inr (rid, revision, request_id) \<Rightarrow>
            administer request_id (action_name action) (runner_digest env (JObj p)) rid revision
              (action_body env cfg action rid tokens now) db))"

section \<open>Enrolment again\<close>

definition revoke_enrollment_body ::
  "runner_config \<Rightarrow> string \<Rightarrow> int \<Rightarrow> runner \<Rightarrow> runner_db
     \<Rightarrow> ((admin_response \<times> admin_response) \<times> runner_db) result" where
  "revoke_enrollment_body cfg runner_id now row db =
     (case latest_enrollment db runner_id of
        None \<Rightarrow> conflict ''enrollment_state_conflict''
      | Some en \<Rightarrow>
          if rn_admin_state row = Adm_revoked \<or> enrollment_state en now \<noteq> ''pending''
          then conflict ''enrollment_state_conflict''
          else (let revoke = (\<lambda>e. e\<lparr>en_revoked_at := Some now\<rparr>);
                    db = db\<lparr>enrollments := update_where
                      (\<lambda>e. en_enrollment_id e = en_enrollment_id en) revoke (enrollments db)\<rparr>;
                    db = log_event ''runner_enrollment_revoked'' (Some runner_id) None []
                      (set_runner runner_id (revised now) db);
                    response = Enrollment_revoked ((public_runner cfg (revised now row) now)
                      \<lparr>rv_enrollment := Some (public_enrollment (revoke en) now)\<rparr>)
                in Inr ((response, response), db)))"

definition revoke_enrollment ::
  "pyenv \<Rightarrow> runner_config \<Rightarrow> json \<Rightarrow> doc \<Rightarrow> int \<Rightarrow> runner_db \<Rightarrow> admin_response result \<times> runner_db" where
  "revoke_enrollment env cfg runner_id p now db =
     (if keys_of p \<noteq> {''revision'', ''request_id''} then (invalid, db)
      else (case admin_ids runner_id p of
          Inl e \<Rightarrow> (Inl e, db)
        | Inr (rid, revision, request_id) \<Rightarrow>
            administer request_id ''revoke_enrollment'' (runner_digest env (JObj p)) rid revision
              (revoke_enrollment_body cfg rid now) db))"

definition regenerate_body ::
  "pyenv \<Rightarrow> runner_config \<Rightarrow> doc \<Rightarrow> string \<Rightarrow> string \<Rightarrow> string \<times> string \<Rightarrow> int \<Rightarrow> runner \<Rightarrow> runner_db
     \<Rightarrow> ((admin_response \<times> admin_response) \<times> runner_db) result" where
  "regenerate_body env cfg p request_id runner_id tokens now row db =
     (let (enrollment_id, token) = tokens
      in if rn_admin_state row \<notin> {Adm_pending, Adm_disabled} \<or> rn_current_task_id row \<noteq> None
            \<or> list_ex (\<lambda>e. en_runner_id e = runner_id \<and> en_claimed_at e \<noteq> None) (enrollments db)
            \<or> active_credential db runner_id
         then conflict ''enrollment_state_conflict''
         else (let db = db\<lparr>enrollments := update_where
                     (\<lambda>e. en_runner_id e = runner_id \<and> en_claimed_at e = None \<and> en_revoked_at e = None)
                     (\<lambda>e. e\<lparr>en_revoked_at := Some now\<rparr>) (enrollments db)\<rparr>
               in bind_result (insert_enrollment (new_enrollment env enrollment_id runner_id token
                    request_id (runner_digest env (JObj p)) now) db) (\<lambda>db.
                  let db = log_event ''runner_enrollment_regenerated'' (Some runner_id) None []
                        (set_runner runner_id (revised now) db);
                      ev = \<lparr>ev_state = ''pending'', ev_expires_at = now + ENROLLMENT_TTL,
                            ev_token = None\<rparr>;
                      view = (public_runner cfg (revised now row) now)\<lparr>rv_enrollment := Some ev\<rparr>
                  in Inr ((Enrollment_regenerated view (ev\<lparr>ev_token := Some token\<rparr>),
                           Enrollment_regenerated view ev), db))))"

definition regenerate_enrollment ::
  "pyenv \<Rightarrow> runner_config \<Rightarrow> json \<Rightarrow> doc \<Rightarrow> string \<times> string \<Rightarrow> int \<Rightarrow> runner_db
     \<Rightarrow> admin_response result \<times> runner_db" where
  "regenerate_enrollment env cfg runner_id p tokens now db =
     (if keys_of p \<noteq> {''revision'', ''request_id''} then (invalid, db)
      else (case admin_ids runner_id p of
          Inl e \<Rightarrow> (Inl e, db)
        | Inr (rid, revision, request_id) \<Rightarrow>
            administer request_id ''regenerate_enrollment'' (runner_digest env (JObj p)) rid revision
              (regenerate_body env cfg p request_id rid tokens now) db))"

section \<open>Credentials and reads\<close>

definition verify_credential :: "pyenv \<Rightarrow> runner_db \<Rightarrow> json \<Rightarrow> json \<Rightarrow> unit result" where
  "verify_credential env db runner_id secret =
     bind_result (runner_id_of runner_id) (\<lambda>rid.
     case secret of
       JStr s \<Rightarrow>
         if py_len s < 32 then conflict ''runner_not_authorized''
         else if \<not> list_ex (\<lambda>c. cr_runner_id c = rid \<and> cr_secret_digest c = secret_digest env s
                               \<and> cr_active c) (credentials db)
         then conflict ''runner_not_authorized''
         else (case find_runner db rid of
             None \<Rightarrow> conflict ''runner_not_authorized''
           | Some row \<Rightarrow>
               if rn_admin_state row = Adm_revoked then conflict ''runner_not_authorized'' else Inr ())
     | _ \<Rightarrow> conflict ''runner_not_authorized'')"

definition list_runners :: "runner_config \<Rightarrow> runner_db \<Rightarrow> bool \<Rightarrow> int \<Rightarrow> runner_view list" where
  "list_runners cfg db include_archived now =
     map (\<lambda>r. (public_runner cfg r now)\<lparr>rv_enrollment :=
            map_option (\<lambda>e. public_enrollment e now) (latest_enrollment db (rn_id r))\<rparr>)
       (sort_key rn_created_at (sort_key rn_id
          (filter (\<lambda>r. include_archived \<or> rn_archived_at r = None) (runners db))))"

definition read_runner ::
  "runner_config \<Rightarrow> runner_db \<Rightarrow> json \<Rightarrow> int \<Rightarrow> (runner_view \<times> runner_event list) result" where
  "read_runner cfg db runner_id now =
     bind_result (runner_id_of runner_id) (\<lambda>rid.
     case find_runner db rid of
       None \<Rightarrow> conflict ''runner_not_found''
     | Some row \<Rightarrow>
         Inr ((public_runner cfg row now)\<lparr>rv_enrollment :=
                 map_option (\<lambda>e. public_enrollment e now) (latest_enrollment db rid)\<rparr>,
              take 50 (rev (filter (\<lambda>e. re_runner_id e = Some rid) (runner_events db)))))"

end
