(* ===== verification/Runner_Tasks.thy ===== *)
theory Runner_Tasks
  imports Runner_Admin
begin

text \<open>
  \<open>runner_store.py\<close>: the messages of the runners, the tasks and their assignment.  A task is leased
  to one runner at a time, under an assignment epoch that grows with each lease; a message of a
  runner counts only under the current assignment.
\<close>

section \<open>The envelope of a message\<close>

text \<open>\<open>_parse_time(str(v))\<close>: naive and malformed texts are a ValueError.\<close>

definition parse_time :: "pyenv \<Rightarrow> json \<Rightarrow> int result" where
  "parse_time env v =
     (case v of
        JStr s \<Rightarrow>
          (case fromisoformat env s of
             IsoInvalid \<Rightarrow> Inl ValueError
           | IsoNaive \<Rightarrow> Inl ValueError
           | IsoAware t \<Rightarrow> Inr t
           | IsoOverflow \<Rightarrow> Inl OverflowError)
      | _ \<Rightarrow> Inl ValueError)"

text \<open>\<open>except ValueError: raise StoreError("runner_payload_invalid")\<close>\<close>

fun value_error_invalid :: "'a result \<Rightarrow> 'a result" where
  "value_error_invalid (Inl ValueError) = invalid"
| "value_error_invalid r = r"

definition message_times :: "pyenv \<Rightarrow> doc \<Rightarrow> (int \<times> int) result" where
  "message_times env p =
     value_error_invalid
       (bind_result (parse_time env (get_field p ''created_at'')) (\<lambda>created_at.
        bind_result (parse_time env (get_field p ''expires_at'')) (\<lambda>expires_at.
        Inr (created_at, expires_at))))"

definition without_fields :: "string list \<Rightarrow> doc \<Rightarrow> doc" where
  "without_fields ks p = filter (\<lambda>(k, _). k \<notin> set ks) p"

definition MAX_MESSAGE_BYTES :: nat where
  "MAX_MESSAGE_BYTES = 32768"

definition validate_message :: "pyenv \<Rightarrow> doc \<Rightarrow> string \<Rightarrow> bool \<Rightarrow> int \<Rightarrow> unit result" where
  "validate_message env p message_type heartbeat now =
     (if \<not> py_eq_int (get_field p ''version'') 2
         \<or> get_field p ''message_type'' \<noteq> JStr message_type
      then conflict ''runner_protocol_unsupported''
      else bind_result (runner_id_of (get_field p ''runner_id'')) (\<lambda>_.
        bind_result
          (if heartbeat \<and> get_field p ''task_id'' = JNull
           then (if \<not> py_eq_int (get_field p ''assignment_epoch'') 0
                 then conflict ''runner_assignment_stale'' else Inr ())
           else bind_result (task_id_of (get_field p ''task_id'')) (\<lambda>_.
             if \<not> int_at_least 1 (get_field p ''assignment_epoch'')
             then conflict ''runner_sequence_invalid'' else Inr ()))
          (\<lambda>_.
        if \<not> int_at_least 1 (get_field p ''sequence'') then conflict ''runner_sequence_invalid''
        else bind_result (message_times env p) (\<lambda>(created_at, expires_at).
        if expires_at \<le> created_at \<or> expires_at - created_at > seconds 3600 then invalid
        else if expires_at \<le> now then conflict ''runner_message_expired''
        else if get_field p ''body_digest''
                \<noteq> JStr (runner_digest env (JObj (without_fields [''body_digest''] p)))
        then conflict ''runner_digest_invalid''
        else if length (canonical_json env (JObj p)) > MAX_MESSAGE_BYTES then invalid
        else Inr ()))))"

text \<open>\<open>required - set(payload) or set(payload) - required - optional\<close>\<close>

definition fields_ok :: "string list \<Rightarrow> string list \<Rightarrow> doc \<Rightarrow> bool" where
  "fields_ok required optional p \<longleftrightarrow>
     set required \<subseteq> keys_of p \<and> keys_of p \<subseteq> set required \<union> set optional"

text \<open>A nullable text column compared with a value of a payload.\<close>

definition column_is :: "string option \<Rightarrow> json \<Rightarrow> bool" where
  "column_is c v \<longleftrightarrow> (case c of None \<Rightarrow> v = JNull | Some s \<Rightarrow> v = JStr s)"

definition optional_match :: "(string \<Rightarrow> bool) \<Rightarrow> json \<Rightarrow> string option result" where
  "optional_match re v = (case v of JNull \<Rightarrow> Inr None | _ \<Rightarrow> map_sum id Some (matched re v))"

section \<open>Heartbeats\<close>

definition HEARTBEAT_FIELDS :: "string list" where
  "HEARTBEAT_FIELDS =
     [''version'', ''message_type'', ''runner_id'', ''task_id'', ''assignment_epoch'', ''sequence'',
      ''created_at'', ''expires_at'', ''body_digest'', ''online'', ''protocol_version'',
      ''agent_version'', ''codex_version'', ''os'', ''arch'', ''labels'', ''allowed_projects'',
      ''capabilities'', ''queue_depth'', ''work_state'', ''active_lease_id'', ''self_check'',
      ''policy_revision'', ''updated_at'']"

definition work_state_of :: "json \<Rightarrow> work_state option result" where
  "work_state_of v =
     (if \<not> is_hashable v then Inl TypeError
      else Inr (if v = JStr ''idle'' then Some Work_idle
                else if v = JStr ''busy'' then Some Work_busy
                else if v = JStr ''recovery_required'' then Some Work_recovery_required
                else if v = JStr ''error'' then Some Work_error else None))"

record heartbeat_report =
  hb_runner_id :: string
  hb_sequence :: int
  hb_body_digest :: string
  hb_online :: bool
  hb_work_state :: work_state
  hb_capabilities :: "string list"
  hb_projects :: "string list"
  hb_labels :: "string list"
  hb_self_check :: string
  hb_error_code :: "string option"

definition validate_heartbeat_platform :: "pyenv \<Rightarrow> doc \<Rightarrow> json \<Rightarrow> int \<Rightarrow> runner_db \<Rightarrow> (string \<times> work_state) result" where
  "validate_heartbeat_platform env p credential now db =
     (if \<not> fields_ok HEARTBEAT_FIELDS [''error_code''] p then invalid
      else bind_result (validate_message env p ''heartbeat'' True now) (\<lambda>_.
        bind_result (value_error_invalid (parse_time env (get_field p ''updated_at''))) (\<lambda>_.
        bind_result (runner_id_of (get_field p ''runner_id'')) (\<lambda>runner_id.
        bind_result (verify_credential env db (get_field p ''runner_id'') credential) (\<lambda>_.
        if \<not> py_eq_int (get_field p ''protocol_version'') 2 then invalid
        else bind_result (work_state_of (get_field p ''work_state'')) (\<lambda>work_state.
        case work_state of
          None \<Rightarrow> invalid
        | Some work \<Rightarrow>
            bind_result (platform_ok (get_field p ''os'') (get_field p ''arch'')) (\<lambda>ok.
            if ok then Inr (runner_id, work) else invalid)))))))"

definition validate_heartbeat ::
  "pyenv \<Rightarrow> doc \<Rightarrow> json \<Rightarrow> int \<Rightarrow> runner_db \<Rightarrow> heartbeat_report result" where
  "validate_heartbeat env p credential now db =
     bind_result (validate_heartbeat_platform env p credential now db) (\<lambda>(runner_id, work).
     case get_field p ''online'' of
       JBool online \<Rightarrow>
         if \<not> int_at_least 0 (get_field p ''queue_depth'') then invalid
         else bind_result (capabilities_of (get_field p ''capabilities'')) (\<lambda>capabilities.
           bind_result (safe_values (get_field p ''allowed_projects'') PROJECT_RE 64) (\<lambda>projects.
           bind_result (safe_values (get_field p ''labels'') LABEL_RE 32) (\<lambda>labels.
           bind_result (in_string_set (get_field p ''self_check'')
              {''ok'', ''warning'', ''error''}) (\<lambda>ok.
           if \<not> ok then invalid
           else bind_result (optional_match SAFE_ID_RE (get_field p ''error_code'')) (\<lambda>error_code.
           Inr \<lparr>hb_runner_id = runner_id, hb_sequence = int_of_json (get_field p ''sequence''),
                hb_body_digest = str_of (get_field p ''body_digest''), hb_online = online,
                hb_work_state = work, hb_capabilities = capabilities,
                hb_projects = projects, hb_labels = labels,
                hb_self_check = str_of (get_field p ''self_check''),
                hb_error_code = error_code\<rparr>)))))
     | _ \<Rightarrow> invalid)"

definition heartbeat_policy :: "heartbeat_report \<Rightarrow> doc \<Rightarrow> runner \<Rightarrow> unit result" where
  "heartbeat_policy h p row =
     (if \<not> set (hb_projects h) \<subseteq> set (rn_allowed_projects row) then conflict ''runner_policy_rejected''
      else if \<not> set (hb_labels h) \<subseteq> set (rn_labels row) then conflict ''runner_policy_rejected''
      else if get_field p ''os'' \<noteq> JStr (rn_os row) \<or> get_field p ''arch'' \<noteq> JStr (rn_arch row)
      then conflict ''runner_identity_mismatch''
      else if \<not> py_eq_int (get_field p ''policy_revision'') (rn_policy_revision row)
      then conflict ''runner_policy_rejected'' else Inr ())"

definition assigned_as :: "task \<Rightarrow> string \<Rightarrow> json \<Rightarrow> json \<Rightarrow> bool" where
  "assigned_as t runner_id epoch lease_id \<longleftrightarrow>
     tk_assigned_runner_id t = Some runner_id \<and> py_eq_int epoch (tk_assignment_epoch t) \<and>
     column_is (tk_lease_id t) lease_id"

definition renews :: "string \<Rightarrow> task \<Rightarrow> runner_lease \<Rightarrow> bool" where
  "renews runner_id t l \<longleftrightarrow>
     Some (rl_lease_id l) = tk_lease_id t \<and> rl_task_id l = tk_id t \<and> rl_runner_id l = runner_id \<and>
     rl_assignment_epoch l = tk_assignment_epoch t \<and> rl_state l = Lease_active"

text \<open>The heartbeat under an assignment renews the lease, of the task and of its row.\<close>

definition renew_lease ::
  "runner_config \<Rightarrow> string \<Rightarrow> task \<Rightarrow> int \<Rightarrow> runner_db \<Rightarrow> runner_db result" where
  "renew_lease cfg runner_id t now db =
     (let expires_at = now + seconds (rc_lease_ttl_seconds cfg)
      in if rowcount (renews runner_id t) (runner_leases db) \<noteq> 1 \<or> tk_state t \<notin> ACTIVE_TASK_STATES
         then conflict ''runner_assignment_stale''
         else Inr (set_task (tk_id t) (\<lambda>t. t\<lparr>tk_lease_expires_at := Some expires_at\<rparr>)
           (db\<lparr>runner_leases := update_where (renews runner_id t)
                 (\<lambda>l. l\<lparr>rl_expires_at := expires_at\<rparr>) (runner_leases db)\<rparr>)))"

definition heartbeat_assignment ::
  "runner_config \<Rightarrow> heartbeat_report \<Rightarrow> doc \<Rightarrow> runner \<Rightarrow> int \<Rightarrow> runner_db \<Rightarrow> runner_db result" where
  "heartbeat_assignment cfg h p row now db =
     (case get_field p ''task_id'' of
        JStr task_id \<Rightarrow>
          if rn_current_task_id row \<noteq> Some task_id then conflict ''runner_assignment_stale''
          else (case find_task db task_id of
              None \<Rightarrow> conflict ''runner_assignment_stale''
            | Some t \<Rightarrow>
                if \<not> assigned_as t (hb_runner_id h) (get_field p ''assignment_epoch'')
                       (get_field p ''active_lease_id'')
                then conflict ''runner_assignment_stale''
                else if hb_online h \<and> tk_state t \<in> ACTIVE_TASK_STATES
                then renew_lease cfg (hb_runner_id h) t now db
                else Inr db)
      | _ \<Rightarrow>
          if \<not> py_eq_int (get_field p ''assignment_epoch'') 0
             \<or> get_field p ''active_lease_id'' \<noteq> JNull
          then conflict ''runner_assignment_stale'' else Inr db)"

definition heard_runner ::
  "heartbeat_report \<Rightarrow> string \<Rightarrow> string option \<Rightarrow> int \<Rightarrow> runner \<Rightarrow> runner" where
  "heard_runner h agent codex now r =
     r\<lparr>rn_heartbeat_sequence := hb_sequence h, rn_heartbeat_digest := Some (hb_body_digest h),
       rn_last_heartbeat_at := (if hb_online h then Some now else None),
       rn_relay_connected := hb_online h, rn_agent_version := Some agent, rn_codex_version := codex,
       rn_capabilities := hb_capabilities h,
       rn_self_check := Some [(''ok'', JBool (hb_self_check h = ''ok'')),
         (''status'', JStr (hb_self_check h)),
         (''error_code'', case hb_error_code h of None \<Rightarrow> JNull | Some c \<Rightarrow> JStr c)],
       rn_work_state := (if has_text (rn_current_task_id r) \<and> hb_work_state h = Work_idle
                         then rn_work_state r else hb_work_state h),
       rn_updated_at := now\<rparr>"

definition heartbeat ::
  "pyenv \<Rightarrow> runner_config \<Rightarrow> doc \<Rightarrow> json \<Rightarrow> int \<Rightarrow> int \<Rightarrow> runner_db \<Rightarrow> runner_view result \<times> runner_db" where
  "heartbeat env cfg p credential now1 now db =
     (case validate_heartbeat env p credential now1 db of
        Inl e \<Rightarrow> (Inl e, db)
      | Inr h \<Rightarrow> in_transaction (\<lambda>db.
          case find_runner db (hb_runner_id h) of
            None \<Rightarrow> conflict ''runner_not_found''
          | Some row \<Rightarrow>
              if hb_sequence h < rn_heartbeat_sequence row then conflict ''runner_sequence_stale''
              else if hb_sequence h = rn_heartbeat_sequence row
              then (if rn_heartbeat_digest row \<noteq> Some (hb_body_digest h)
                    then conflict ''runner_message_conflict''
                    else Inr (public_runner cfg row now, db))
              else bind_result (heartbeat_policy h p row) (\<lambda>_.
                bind_result (heartbeat_assignment cfg h p row now db) (\<lambda>db.
                bind_result (bounded_text (get_field p ''agent_version'') 64) (\<lambda>agent.
                bind_result (optional_text (get_field p ''codex_version'') 64) (\<lambda>codex.
                Inr (public_runner cfg (heard_runner h agent codex now row) now,
                     set_runner (hb_runner_id h) (heard_runner h agent codex now) db)))))) db)"

section \<open>The commands of the owner\<close>

definition command_invalid :: "'a result" where
  "command_invalid = Inl (StoreError ''runner_command_invalid'')"

definition insert_task :: "task \<Rightarrow> runner_db \<Rightarrow> runner_db result" where
  "insert_task t db =
     (if tk_id t \<in> set (map tk_id (tasks db))
         \<or> tk_create_request_id t \<in> set (map tk_create_request_id (tasks db))
      then Inl IntegrityError else Inr (db\<lparr>tasks := insert_row t (tasks db)\<rparr>))"

definition insert_command ::
  "string \<Rightarrow> string \<Rightarrow> string \<Rightarrow> string \<Rightarrow> runner_db \<Rightarrow> runner_db result" where
  "insert_command request_id operation body_digest task_id db =
     (if request_id \<in> set (map cq_request_id (command_requests db)) then Inl IntegrityError
      else Inr (db\<lparr>command_requests := insert_row
        \<lparr>cq_request_id = request_id, cq_operation = operation, cq_body_digest = body_digest,
         cq_task_id = task_id\<rparr> (command_requests db)\<rparr>))"

text \<open>The stored command of a request id: its task is read again, as it now stands.\<close>

definition command_replay ::
  "string \<Rightarrow> string \<Rightarrow> string \<Rightarrow> runner_db \<Rightarrow> task_view option result" where
  "command_replay request_id operation body_digest db =
     (case select_one (\<lambda>c. cq_request_id c = request_id) (command_requests db) of
        None \<Rightarrow> Inr None
      | Some c \<Rightarrow>
          if cq_body_digest c \<noteq> body_digest \<or> cq_operation c \<noteq> operation
          then conflict ''idempotency_conflict''
          else (case find_task db (cq_task_id c) of
              None \<Rightarrow> Inl TypeError
            | Some t \<Rightarrow> Inr (Some (public_task t))))"

record start_command =
  sc_request_id :: string
  sc_principal_hash :: string
  sc_project_alias :: string
  sc_instruction :: string

definition command_match :: "(string \<Rightarrow> bool) \<Rightarrow> json \<Rightarrow> string result" where
  "command_match re v = (if str_matches re v then Inr (str_of v) else command_invalid)"

definition validate_start :: "doc \<Rightarrow> start_command result" where
  "validate_start p =
     (if keys_of p \<noteq> {''version'', ''request_id'', ''operation'', ''source'', ''project_alias'',
            ''instruction''}
         \<or> \<not> py_eq_int (get_field p ''version'') 2 \<or> get_field p ''operation'' \<noteq> JStr ''start''
      then command_invalid
      else bind_result (request_id_of (get_field p ''request_id'')) (\<lambda>request_id.
        case get_field p ''source'' of
          JObj source \<Rightarrow>
            if keys_of source \<noteq> {''channel'', ''principal_hash'', ''role''}
               \<or> get_field source ''channel'' \<noteq> JStr ''weixin''
               \<or> get_field source ''role'' \<noteq> JStr ''owner''
            then command_invalid
            else bind_result (command_match SHA256_RE (get_field source ''principal_hash'')) (\<lambda>owner.
              bind_result (command_match PROJECT_RE (get_field p ''project_alias'')) (\<lambda>project.
              bind_result (bounded_text (get_field p ''instruction'') 12000) (\<lambda>instruction.
              Inr \<lparr>sc_request_id = request_id, sc_principal_hash = owner,
                   sc_project_alias = project, sc_instruction = instruction\<rparr>)))
        | _ \<Rightarrow> command_invalid))"

definition work_task_id :: "pyenv \<Rightarrow> string \<Rightarrow> string" where
  "work_task_id env request_id =
     ''RW-'' @ map ascii_upper (take 20 (sha256_text env request_id))"

definition new_task :: "pyenv \<Rightarrow> runner_config \<Rightarrow> start_command \<Rightarrow> int \<Rightarrow> task" where
  "new_task env cfg v now =
     \<lparr>tk_id = work_task_id env (sc_request_id v), tk_create_request_id = sc_request_id v,
      tk_principal_hash = sc_principal_hash v, tk_project_alias = sc_project_alias v,
      tk_instruction = sc_instruction v,
      tk_instruction_digest = runner_digest env (JStr (sc_instruction v)),
      tk_state = Waiting_runner, tk_stage = None, tk_summary = None, tk_candidate_id = None,
      tk_branch = None, tk_commits = [], tk_result_hash = None, tk_test_summary = None,
      tk_changed_path_count = None, tk_next_actions = [], tk_error_code = None,
      tk_action_required = None, tk_preferred_runner_id = None, tk_required_labels = [],
      tk_required_capabilities = [], tk_assigned_runner_id = None, tk_assignment_epoch = 0,
      tk_lease_id = None, tk_lease_expires_at = None, tk_ever_running = False, tk_sequence = 0,
      tk_expires_at = now + seconds (rc_task_ttl_seconds cfg), tk_created_at = now,
      tk_updated_at = now\<rparr>"

definition create_work_task ::
  "pyenv \<Rightarrow> runner_config \<Rightarrow> doc \<Rightarrow> int \<Rightarrow> runner_db \<Rightarrow> (task_view \<times> bool) result \<times> runner_db" where
  "create_work_task env cfg p now db =
     (case validate_start p of
        Inl e \<Rightarrow> (Inl e, db)
      | Inr v \<Rightarrow> in_transaction (\<lambda>db.
          let body_digest = runner_digest env (JObj p); t = new_task env cfg v now
          in bind_result (command_replay (sc_request_id v) ''start'' body_digest db) (\<lambda>replay.
             case replay of
               Some view \<Rightarrow> Inr ((view, True), db)
             | None \<Rightarrow>
                 bind_result (insert_task t db) (\<lambda>db.
                 bind_result (insert_command (sc_request_id v) ''start'' body_digest (tk_id t) db) (\<lambda>db.
                 Inr ((public_task t, False),
                   log_event ''runner_task_created'' None (Some (tk_id t))
                     [(''project_alias'', JStr (sc_project_alias v))] db))))) db)"

datatype task_command = Cmd_status | Cmd_cancel | Cmd_continue

fun command_name :: "task_command \<Rightarrow> string" where
  "command_name Cmd_status = ''status''"
| "command_name Cmd_cancel = ''cancel''"
| "command_name Cmd_continue = ''continue''"

definition command_fields :: "task_command \<Rightarrow> string set" where
  "command_fields c =
     {''version'', ''request_id'', ''operation'', ''source'', ''task_id''} \<union>
     (if c = Cmd_continue then {''instruction''} else {})"

definition command_of :: "json \<Rightarrow> task_command option result" where
  "command_of v =
     (if \<not> is_hashable v then Inl TypeError
      else Inr (if v = JStr ''status'' then Some Cmd_status
                else if v = JStr ''cancel'' then Some Cmd_cancel
                else if v = JStr ''continue'' then Some Cmd_continue else None))"

definition validate_command :: "doc \<Rightarrow> (task_command \<times> string \<times> string \<times> string) result" where
  "validate_command p =
     bind_result (command_of (get_field p ''operation'')) (\<lambda>operation.
     case operation of
       None \<Rightarrow> command_invalid
     | Some c \<Rightarrow>
         if keys_of p \<noteq> command_fields c \<or> \<not> py_eq_int (get_field p ''version'') 2
         then command_invalid
         else bind_result (request_id_of (get_field p ''request_id'')) (\<lambda>request_id.
           bind_result (task_id_of (get_field p ''task_id'')) (\<lambda>task_id.
           case get_field p ''source'' of
             JObj source \<Rightarrow>
               if get_field source ''channel'' \<noteq> JStr ''weixin''
                  \<or> get_field source ''role'' \<noteq> JStr ''owner''
               then command_invalid
               else bind_result (command_match SHA256_RE (get_field source ''principal_hash''))
                 (\<lambda>owner. Inr (c, request_id, task_id, owner))
           | _ \<Rightarrow> command_invalid)))"

text \<open>
  Cancelling: a task some runner holds is not cancelled here, it waits for the runner.  (In the last
  branch the task has no runner, so the code's update of the runner does not run.)
\<close>

definition cancel_task :: "bool \<Rightarrow> task \<Rightarrow> int \<Rightarrow> runner_db \<Rightarrow> runner_db result" where
  "cancel_task control_available t now db =
     (if tk_state t \<in> TERMINAL_TASK_STATES then Inr db
      else if tk_state t = Task_awaiting_confirmation
      then Inr (set_task (tk_id t) (\<lambda>t. t\<lparr>tk_state := Task_cancelled, tk_stage := Some ''cancelled'',
             tk_action_required := None, tk_updated_at := now\<rparr>) db)
      else if has_text (tk_assigned_runner_id t)
      then (if \<not> control_available then conflict ''runner_relay_unavailable''
            else Inr (set_task (tk_id t) (\<lambda>t. t\<lparr>tk_action_required := Some AWAIT_CANCEL,
                   tk_updated_at := now\<rparr>) db))
      else Inr (end_leases (tk_id t) Lease_released now (set_task (tk_id t) (cancelled_task now) db)))"

definition continued_task ::
  "pyenv \<Rightarrow> runner_config \<Rightarrow> string \<Rightarrow> int \<Rightarrow> task \<Rightarrow> task" where
  "continued_task env cfg instruction now t =
     t\<lparr>tk_instruction := instruction, tk_instruction_digest := runner_digest env (JStr instruction),
       tk_state := Task_dispatched, tk_stage := Some ''continuation'', tk_summary := None,
       tk_candidate_id := None, tk_branch := None, tk_commits := [], tk_result_hash := None,
       tk_test_summary := None, tk_changed_path_count := None, tk_next_actions := [],
       tk_error_code := None, tk_action_required := None,
       tk_lease_expires_at := Some (now + seconds (rc_lease_ttl_seconds cfg)),
       tk_expires_at := now + seconds (rc_task_ttl_seconds cfg), tk_updated_at := now\<rparr>"

text \<open>
  The lease is made active again, which the unique index on the active leases of a task refuses if
  the task has another active lease.
\<close>

definition reactivate_lease :: "string \<Rightarrow> int \<Rightarrow> runner_db \<Rightarrow> runner_db result" where
  "reactivate_lease lease_id expires_at db =
     (if list_ex (\<lambda>l. rl_lease_id l = lease_id \<and>
           list_ex (\<lambda>m. rl_lease_id m \<noteq> lease_id \<and> rl_task_id m = rl_task_id l
             \<and> rl_state m = Lease_active) (runner_leases db)) (runner_leases db)
      then Inl IntegrityError
      else Inr (db\<lparr>runner_leases := update_where (\<lambda>l. rl_lease_id l = lease_id)
        (\<lambda>l. l\<lparr>rl_state := Lease_active, rl_expires_at := expires_at, rl_released_at := None\<rparr>)
        (runner_leases db)\<rparr>))"

definition busy_with :: "string \<Rightarrow> int \<Rightarrow> runner \<Rightarrow> runner" where
  "busy_with task_id now r =
     r\<lparr>rn_work_state := Work_busy, rn_current_task_id := Some task_id, rn_updated_at := now\<rparr>"

definition continue_task ::
  "pyenv \<Rightarrow> runner_config \<Rightarrow> doc \<Rightarrow> bool \<Rightarrow> task \<Rightarrow> int \<Rightarrow> runner_db \<Rightarrow> runner_db result" where
  "continue_task env cfg p control_available t now db =
     (if \<not> control_available then conflict ''runner_relay_unavailable''
      else bind_result (bounded_text (get_field p ''instruction'') 12000) (\<lambda>instruction.
        if tk_state t \<notin> insert Task_awaiting_confirmation TERMINAL_TASK_STATES
        then conflict ''runner_task_state_conflict''
        else if \<not> has_text (tk_assigned_runner_id t) \<or> \<not> has_text (tk_lease_id t)
        then conflict ''runner_task_state_conflict''
        else (case find_runner db (the (tk_assigned_runner_id t)) of
            None \<Rightarrow> conflict ''runner_unavailable''
          | Some r \<Rightarrow>
              if rn_admin_state r \<noteq> Adm_enabled \<or> runner_connectivity cfg r now \<noteq> Online
              then conflict ''runner_unavailable''
              else bind_result (reactivate_lease (the (tk_lease_id t))
                     (now + seconds (rc_lease_ttl_seconds cfg))
                     (set_task (tk_id t) (continued_task env cfg instruction now) db)) (\<lambda>db.
                   Inr (set_runner (rn_id r) (busy_with (tk_id t) now) db)))))"

definition command_effect ::
  "pyenv \<Rightarrow> runner_config \<Rightarrow> doc \<Rightarrow> bool \<Rightarrow> task_command \<Rightarrow> task \<Rightarrow> int \<Rightarrow> runner_db \<Rightarrow> runner_db result" where
  "command_effect env cfg p control_available c t now db =
     (case c of
        Cmd_status \<Rightarrow> Inr db
      | Cmd_cancel \<Rightarrow> cancel_task control_available t now db
      | Cmd_continue \<Rightarrow> continue_task env cfg p control_available t now db)"

definition command_task ::
  "pyenv \<Rightarrow> runner_config \<Rightarrow> doc \<Rightarrow> bool \<Rightarrow> int \<Rightarrow> runner_db \<Rightarrow> (task_view \<times> bool) result \<times> runner_db" where
  "command_task env cfg p control_available now db =
     (case validate_command p of
        Inl e \<Rightarrow> (Inl e, db)
      | Inr (c, request_id, task_id, owner) \<Rightarrow> in_transaction (\<lambda>db.
          let body_digest = runner_digest env (JObj p)
          in bind_result (command_replay request_id (command_name c) body_digest db) (\<lambda>replay.
             case replay of
               Some view \<Rightarrow> Inr ((view, True), db)
             | None \<Rightarrow>
                 (case find_task db task_id of
                    None \<Rightarrow> conflict ''runner_task_not_found''
                  | Some t \<Rightarrow>
                      if tk_principal_hash t \<noteq> owner then conflict ''runner_task_not_found''
                      else bind_result (command_effect env cfg p control_available c t now db) (\<lambda>db.
                        bind_result (insert_command request_id (command_name c) body_digest task_id db) (\<lambda>db.
                        let db = log_event (''runner_task_'' @ command_name c) None (Some task_id) [] db
                        in case find_task db task_id of
                             None \<Rightarrow> Inl TypeError
                           | Some t \<Rightarrow> Inr ((public_task t, False), db)))))) db)"

section \<open>The control message of an assignment\<close>

definition OWNER_AUTHORITY :: json where
  "OWNER_AUTHORITY = JStr ''owner_runner_development_v2''"

definition owner_source :: "string \<Rightarrow> json" where
  "owner_source principal_hash =
     JObj [(''channel'', JStr ''weixin''), (''principal_hash'', JStr principal_hash),
           (''role'', JStr ''owner'')]"

text \<open>\<open>document["body_digest"] = _digest(document)\<close>\<close>

definition with_digest :: "pyenv \<Rightarrow> doc \<Rightarrow> doc" where
  "with_digest env d = d @ [(''body_digest'', JStr (runner_digest env (JObj d)))]"

definition control_fields ::
  "task \<Rightarrow> string \<Rightarrow> string \<Rightarrow> string \<Rightarrow> string \<Rightarrow> string option \<Rightarrow> int \<Rightarrow> doc" where
  "control_fields t runner_id lease_id action control_id instruction now =
     [(''version'', JInt 2), (''message_type'', JStr ''control''), (''runner_id'', JStr runner_id),
      (''task_id'', JStr (tk_id t)), (''assignment_epoch'', JInt (tk_assignment_epoch t)),
      (''sequence'', JInt (tk_sequence t + 1)), (''created_at'', JStr (isoformat now)),
      (''expires_at'', JStr (isoformat (now + seconds 600))), (''control_id'', JStr control_id),
      (''lease_id'', JStr lease_id), (''action'', JStr action),
      (''source'', owner_source (tk_principal_hash t)), (''authority'', OWNER_AUTHORITY)] @
     (case instruction of None \<Rightarrow> [] | Some i \<Rightarrow> [(''instruction'', JStr i)])"

definition control_document ::
  "pyenv \<Rightarrow> runner_db \<Rightarrow> json \<Rightarrow> string \<Rightarrow> json \<Rightarrow> json \<Rightarrow> int \<Rightarrow> doc result" where
  "control_document env db task_id action control_id instruction now =
     bind_result (task_id_of task_id) (\<lambda>tid.
     if action \<notin> {''continue'', ''cancel''} \<or> \<not> str_matches SAFE_ID_RE control_id
     then command_invalid
     else (case find_task db tid of
         None \<Rightarrow> conflict ''runner_task_state_conflict''
       | Some t \<Rightarrow>
           if \<not> has_text (tk_assigned_runner_id t) \<or> \<not> has_text (tk_lease_id t)
           then conflict ''runner_task_state_conflict''
           else bind_result
             (if action = ''continue'' then map_sum id Some (bounded_text instruction 12000)
              else if instruction \<noteq> JNull then command_invalid else Inr None)
             (\<lambda>instruction. Inr (with_digest env (control_fields t (the (tk_assigned_runner_id t))
                (the (tk_lease_id t)) action (str_of control_id) instruction now)))))"

section \<open>Leasing a task to a runner\<close>

definition waiting_tasks :: "runner_db \<Rightarrow> task list" where
  "waiting_tasks db =
     sort_key tk_created_at (sort_key tk_id (filter (\<lambda>t. tk_state t = Waiting_runner) (tasks db)))"

definition idle_runners :: "runner_db \<Rightarrow> runner list" where
  "idle_runners db =
     sort_key rn_created_at (sort_key rn_id (filter (\<lambda>r. rn_archived_at r = None
       \<and> rn_admin_state r = Adm_enabled \<and> rn_work_state r = Work_idle
       \<and> rn_current_task_id r = None) (runners db)))"

definition can_take :: "runner_config \<Rightarrow> int \<Rightarrow> task \<Rightarrow> runner \<Rightarrow> bool" where
  "can_take cfg now t r \<longleftrightarrow>
     runner_connectivity cfg r now = Online \<and>
     (has_text (tk_preferred_runner_id t) \<longrightarrow> tk_preferred_runner_id t = Some (rn_id r)) \<and>
     tk_project_alias t \<in> set (rn_allowed_projects r) \<and>
     set (tk_required_labels t) \<subseteq> set (rn_labels r) \<and>
     set (tk_required_capabilities t) \<subseteq> set (rn_capabilities r)"

text \<open>
  The loop over the waiting tasks: the first task a runner can take, with the first such runner,
  and the ids of the tasks found expired on the way.
\<close>

fun select_assignment ::
  "runner_config \<Rightarrow> int \<Rightarrow> runner list \<Rightarrow> task list \<Rightarrow> string list \<times> (task \<times> runner) option" where
  "select_assignment cfg now rs [] = ([], None)"
| "select_assignment cfg now rs (t # ts) =
     (if tk_expires_at t \<le> now
      then (let (expired, found) = select_assignment cfg now rs ts in (tk_id t # expired, found))
      else (case find (can_take cfg now t) rs of
          Some r \<Rightarrow> ([], Some (t, r))
        | None \<Rightarrow> select_assignment cfg now rs ts))"

definition expired_task :: "int \<Rightarrow> task \<Rightarrow> task" where
  "expired_task now t =
     t\<lparr>tk_state := Task_expired, tk_stage := Some ''expired'', tk_updated_at := now\<rparr>"

definition expire_tasks :: "string list \<Rightarrow> int \<Rightarrow> runner_db \<Rightarrow> runner_db" where
  "expire_tasks ids now db = fold (\<lambda>i. set_task i (expired_task now)) ids db"

definition insert_runner_lease :: "runner_lease \<Rightarrow> runner_db \<Rightarrow> runner_db result" where
  "insert_runner_lease l db =
     (if rl_lease_id l \<in> set (map rl_lease_id (runner_leases db))
         \<or> list_ex (\<lambda>m. rl_task_id m = rl_task_id l \<and> rl_state m = Lease_active) (runner_leases db)
      then Inl IntegrityError
      else Inr (db\<lparr>runner_leases := insert_row l (runner_leases db)\<rparr>))"

definition leased_task :: "string \<Rightarrow> int \<Rightarrow> string \<Rightarrow> int \<Rightarrow> int \<Rightarrow> task \<Rightarrow> task" where
  "leased_task runner_id epoch lease_id expires_at now t =
     t\<lparr>tk_state := Task_leased, tk_stage := Some ''dispatch'',
       tk_assigned_runner_id := Some runner_id, tk_assignment_epoch := epoch,
       tk_lease_id := Some lease_id, tk_lease_expires_at := Some expires_at, tk_sequence := 1,
       tk_updated_at := now\<rparr>"

text \<open>The request message for the runner.\<close>

definition request_fields :: "task \<Rightarrow> string \<Rightarrow> int \<Rightarrow> string \<Rightarrow> int \<Rightarrow> int \<Rightarrow> doc" where
  "request_fields t runner_id policy_revision lease_id expires_at now =
     [(''version'', JInt 2), (''message_type'', JStr ''request''), (''runner_id'', JStr runner_id),
      (''task_id'', JStr (tk_id t)), (''assignment_epoch'', JInt (tk_assignment_epoch t)),
      (''sequence'', JInt 1), (''created_at'', JStr (isoformat now)),
      (''expires_at'', JStr (isoformat expires_at)),
      (''message_id'', JStr (''MSG-'' @ tk_id t @ ''-'' @ show_int (tk_assignment_epoch t))),
      (''lease_id'', JStr lease_id), (''lease_expires_at'', JStr (isoformat expires_at)),
      (''project_alias'', JStr (tk_project_alias t)), (''operation'', JStr ''start''),
      (''instruction'', JStr (tk_instruction t)), (''policy_revision'', JInt policy_revision),
      (''required_labels'', JList (map JStr (tk_required_labels t))),
      (''source'', owner_source (tk_principal_hash t)), (''authority'', OWNER_AUTHORITY)]"

text \<open>\<open>connection.total_changes < 2\<close> counts the expired tasks, the lease and the leased task.\<close>

definition claim_task ::
  "pyenv \<Rightarrow> runner_config \<Rightarrow> string \<Rightarrow> int \<Rightarrow> nat \<Rightarrow> task \<Rightarrow> runner \<Rightarrow> runner_db
     \<Rightarrow> ((task_view \<times> doc) option \<times> runner_db) result" where
  "claim_task env cfg lease_id now changes t r db =
     (let epoch = tk_assignment_epoch t + 1;
          expires_at = now + seconds (rc_lease_ttl_seconds cfg);
          waiting = (\<lambda>u. tk_id u = tk_id t \<and> tk_state u = Waiting_runner)
      in bind_result (insert_runner_lease \<lparr>rl_lease_id = lease_id, rl_task_id = tk_id t,
            rl_runner_id = rn_id r, rl_assignment_epoch = epoch, rl_state = Lease_active,
            rl_created_at = now, rl_expires_at = expires_at, rl_released_at = None\<rparr> db) (\<lambda>db.
         let n = rowcount waiting (tasks db);
             db = db\<lparr>tasks := update_where waiting
               (leased_task (rn_id r) epoch lease_id expires_at now) (tasks db)\<rparr>
         in if changes + 1 + n < 2 then Inr (None, db)
            else (let db = log_event ''runner_task_leased'' (Some (rn_id r)) (Some (tk_id t))
                        [(''assignment_epoch'', JInt epoch)]
                        (set_runner (rn_id r) (busy_with (tk_id t) now) db)
                  in case find_task db (tk_id t) of
                       None \<Rightarrow> Inl TypeError
                     | Some u \<Rightarrow> Inr (Some (public_task u, with_digest env
                         (request_fields u (rn_id r) (rn_policy_revision r) lease_id expires_at now)),
                         db))))"

definition claim_next ::
  "pyenv \<Rightarrow> runner_config \<Rightarrow> string \<Rightarrow> int \<Rightarrow> runner_db
     \<Rightarrow> (task_view \<times> doc) option result \<times> runner_db" where
  "claim_next env cfg lease_id now db =
     in_transaction (\<lambda>db.
       let (expired, found) = select_assignment cfg now (idle_runners db) (waiting_tasks db);
           db' = expire_tasks expired now db
       in case found of
            None \<Rightarrow> Inr (None, db')
          | Some (t, r) \<Rightarrow>
              bind_result (claim_task env cfg lease_id now (length expired) t r db')
                (\<lambda>(claimed, db''). Inr (claimed, if claimed = None then db else db''))) db"

definition set_task_stage ::
  "json \<Rightarrow> task_state set \<Rightarrow> task_state \<Rightarrow> string \<Rightarrow> bool \<Rightarrow> int \<Rightarrow> runner_db
     \<Rightarrow> task_view result \<times> runner_db" where
  "set_task_stage task_id from_states st stage clear_error now db =
     (case task_id_of task_id of
        Inl e \<Rightarrow> (Inl e, db)
      | Inr tid \<Rightarrow> in_transaction (\<lambda>db.
          case find_task db tid of
            None \<Rightarrow> conflict ''runner_task_not_found''
          | Some t \<Rightarrow>
              if tk_state t \<notin> from_states then conflict ''runner_task_state_conflict''
              else (let db = set_task tid (\<lambda>t.
                      let t = t\<lparr>tk_state := st, tk_stage := Some stage, tk_updated_at := now\<rparr>
                      in if clear_error then t\<lparr>tk_error_code := None, tk_action_required := None\<rparr>
                         else t) db
                    in case find_task db tid of
                         None \<Rightarrow> Inl TypeError | Some t \<Rightarrow> Inr (public_task t, db))) db)"

definition mark_dispatched :: "json \<Rightarrow> int \<Rightarrow> runner_db \<Rightarrow> task_view result \<times> runner_db" where
  "mark_dispatched task_id =
     set_task_stage task_id {Task_leased, Task_dispatched} Task_dispatched ''relay'' True"

text \<open>The assignment was certainly not delivered: exactly this assignment, still held and unused.\<close>

definition undelivered ::
  "runner_db \<Rightarrow> string \<Rightarrow> string \<Rightarrow> int \<Rightarrow> string \<Rightarrow> bool" where
  "undelivered db task_id runner_id epoch lease_id \<longleftrightarrow>
     (case (find_task db task_id, select_one (\<lambda>l. rl_lease_id l = lease_id) (runner_leases db),
            find_runner db runner_id) of
        (Some t, Some l, Some r) \<Rightarrow>
          tk_state t \<in> {Task_leased, Task_dispatched} \<and> \<not> tk_ever_running t \<and>
          tk_assigned_runner_id t = Some runner_id \<and> tk_assignment_epoch t = epoch \<and>
          tk_lease_id t = Some lease_id \<and> rl_task_id l = task_id \<and> rl_runner_id l = runner_id \<and>
          rl_assignment_epoch l = epoch \<and> rl_state l = Lease_active \<and>
          rn_current_task_id r = Some task_id \<and> rn_work_state r = Work_busy
      | _ \<Rightarrow> False)"

definition waiting_again :: "string option \<Rightarrow> int \<Rightarrow> task \<Rightarrow> task" where
  "waiting_again error_code now t =
     t\<lparr>tk_state := Waiting_runner, tk_stage := Some ''reschedule'', tk_assigned_runner_id := None,
       tk_lease_id := None, tk_lease_expires_at := None, tk_error_code := error_code,
       tk_updated_at := now\<rparr>"

definition idle_again :: "int \<Rightarrow> runner \<Rightarrow> runner" where
  "idle_again now r =
     r\<lparr>rn_work_state := Work_idle, rn_current_task_id := None, rn_updated_at := now\<rparr>"

definition reschedule_undelivered ::
  "json \<Rightarrow> json \<Rightarrow> json \<Rightarrow> json \<Rightarrow> int \<Rightarrow> runner_db \<Rightarrow> task_view result \<times> runner_db" where
  "reschedule_undelivered task_id runner_id assignment_epoch lease_id now db =
     (case bind_result (task_id_of task_id) (\<lambda>tid.
           bind_result (runner_id_of runner_id) (\<lambda>rid.
           if \<not> int_at_least 1 assignment_epoch \<or> \<not> str_matches SAFE_ID_RE lease_id then invalid
           else Inr (tid, rid))) of
        Inl e \<Rightarrow> (Inl e, db)
      | Inr (tid, rid) \<Rightarrow> in_transaction (\<lambda>db.
          let epoch = int_of_json assignment_epoch; lid = str_of lease_id
          in if \<not> undelivered db tid rid epoch lid then conflict ''runner_task_state_conflict''
             else (let db = db\<lparr>runner_leases := update_where
                         (\<lambda>l. rl_lease_id l = lid \<and> rl_state l = Lease_active)
                         (\<lambda>l. l\<lparr>rl_state := Lease_released, rl_released_at := Some now\<rparr>)
                         (runner_leases db)\<rparr>;
                       db = set_task tid (\<lambda>t. (waiting_again (Some ''runner_offline'') now t)
                         \<lparr>tk_action_required := None\<rparr>) db;
                       db = set_runner rid (\<lambda>r. (idle_again now r)\<lparr>rn_relay_connected := False\<rparr>) db;
                       db = log_event ''runner_task_rescheduled_undelivered'' (Some rid) (Some tid)
                         [(''assignment_epoch'', JInt epoch), (''reason'', JStr ''runner_offline'')] db
                   in case find_task db tid of
                        None \<Rightarrow> Inl TypeError | Some t \<Rightarrow> Inr (public_task t, db))) db)"

end
