(* ===== verification/Runner_Results.thy ===== *)
theory Runner_Results
  imports Runner_Tasks
begin

text \<open>
  \<open>runner_store.py\<close>: the status and result messages of the runners, the review of a recovery and the
  sweep.  A message is recorded in one transaction and applied in the next, so that another call may
  run in between; both check that the assignment is still the task's.
\<close>

section \<open>Recording a message\<close>

record message =
  ms_runner_id :: string
  ms_task_id :: string
  ms_epoch :: int
  ms_sequence :: int
  ms_body_digest :: string
  ms_lease_id :: json

definition message_of :: "doc \<Rightarrow> message result" where
  "message_of p =
     bind_result (runner_id_of (get_field p ''runner_id'')) (\<lambda>runner_id.
     bind_result (task_id_of (get_field p ''task_id'')) (\<lambda>task_id.
     if \<not> int_at_least 1 (get_field p ''assignment_epoch'')
        \<or> \<not> int_at_least 1 (get_field p ''sequence'')
     then conflict ''runner_sequence_invalid''
     else if \<not> is_sha256 (get_field p ''body_digest'') then conflict ''runner_digest_invalid''
     else Inr \<lparr>ms_runner_id = runner_id, ms_task_id = task_id,
               ms_epoch = int_of_json (get_field p ''assignment_epoch''),
               ms_sequence = int_of_json (get_field p ''sequence''),
               ms_body_digest = str_of (get_field p ''body_digest''),
               ms_lease_id = get_field p ''lease_id''\<rparr>))"

text \<open>The assignment the message speaks for is the one the task has.\<close>

definition holds_assignment :: "task \<Rightarrow> message \<Rightarrow> bool" where
  "holds_assignment t m \<longleftrightarrow>
     tk_assigned_runner_id t = Some (ms_runner_id m) \<and> tk_assignment_epoch t = ms_epoch m \<and>
     column_is (tk_lease_id t) (ms_lease_id m)"

definition same_message :: "string \<Rightarrow> message \<Rightarrow> runner_message \<Rightarrow> bool" where
  "same_message kind m r \<longleftrightarrow>
     rm_runner_id r = ms_runner_id m \<and> rm_task_id r = ms_task_id m \<and> rm_kind r = kind \<and>
     rm_assignment_epoch r = ms_epoch m \<and> rm_sequence r = ms_sequence m"

definition record_message :: "doc \<Rightarrow> string \<Rightarrow> runner_db \<Rightarrow> string result \<times> runner_db" where
  "record_message p kind db =
     (case message_of p of
        Inl e \<Rightarrow> (Inl e, db)
      | Inr m \<Rightarrow> in_transaction (\<lambda>db.
          case select_one (same_message kind m) (runner_messages db) of
            Some r \<Rightarrow>
              if rm_body_digest r = ms_body_digest m then Inr (''duplicate'', db)
              else conflict ''runner_message_conflict''
          | None \<Rightarrow>
              (case find_task db (ms_task_id m) of
                 None \<Rightarrow> conflict ''runner_task_not_found''
               | Some t \<Rightarrow>
                   if \<not> holds_assignment t m then conflict ''runner_assignment_stale''
                   else if ms_sequence m \<le> tk_sequence t then conflict ''runner_sequence_stale''
                   else if tk_state t = Task_recovery_required
                     \<or> (kind = ''result''
                        \<and> tk_state t \<in> insert Task_awaiting_confirmation TERMINAL_TASK_STATES)
                   then conflict ''runner_late_message''
                   else Inr (''recorded'', db\<lparr>runner_messages := insert_row
                     \<lparr>rm_runner_id = ms_runner_id m, rm_task_id = ms_task_id m, rm_kind = kind,
                      rm_assignment_epoch = ms_epoch m, rm_sequence = ms_sequence m,
                      rm_body_digest = ms_body_digest m\<rparr> (runner_messages db)\<rparr>))) db)"

definition locked_assignment :: "runner_db \<Rightarrow> message \<Rightarrow> task result" where
  "locked_assignment db m =
     (case find_task db (ms_task_id m) of
        None \<Rightarrow> conflict ''runner_task_not_found''
      | Some t \<Rightarrow> if holds_assignment t m then Inr t else conflict ''runner_assignment_stale'')"

definition work_task :: "runner_db \<Rightarrow> json \<Rightarrow> task_view result" where
  "work_task db task_id =
     bind_result (task_id_of task_id) (\<lambda>tid.
     case find_task db tid of
       None \<Rightarrow> conflict ''runner_task_not_found'' | Some t \<Rightarrow> Inr (public_task t))"

fun task_state_name :: "task_state \<Rightarrow> string" where
  "task_state_name Waiting_runner = ''waiting_runner''"
| "task_state_name Task_leased = ''leased''"
| "task_state_name Task_dispatched = ''dispatched''"
| "task_state_name Task_queued = ''queued''"
| "task_state_name Task_running = ''running''"
| "task_state_name Task_awaiting_confirmation = ''awaiting_confirmation''"
| "task_state_name Task_completed = ''completed''"
| "task_state_name Task_failed = ''failed''"
| "task_state_name Task_cancelled = ''cancelled''"
| "task_state_name Task_expired = ''expired''"
| "task_state_name Task_recovery_required = ''recovery_required''"

text \<open>\<open>payload.get("state") not in {...}\<close>, the state given by its name.\<close>

definition state_among :: "task_state list \<Rightarrow> json \<Rightarrow> task_state result" where
  "state_among sts v =
     (if \<not> is_hashable v then Inl TypeError
      else case find (\<lambda>st. v = JStr (task_state_name st)) sts of
          None \<Rightarrow> invalid | Some st \<Rightarrow> Inr st)"

section \<open>Status messages\<close>

definition STATUS_FIELDS :: "string list" where
  "STATUS_FIELDS =
     [''version'', ''message_type'', ''runner_id'', ''task_id'', ''assignment_epoch'', ''sequence'',
      ''created_at'', ''expires_at'', ''body_digest'', ''lease_id'', ''state'', ''stage'',
      ''updated_at'']"

definition STATUS_STAGES :: "string set" where
  "STATUS_STAGES =
     {''waiting_runner'', ''preflight'', ''queued'', ''workspace'', ''codex'', ''verify'', ''git'',
      ''handoff'', ''recovery''}"

record status_report =
  sr_message :: message
  sr_state :: task_state
  sr_stage :: string
  sr_candidate_id :: "string option"
  sr_error_code :: "string option"
  sr_action_required :: "string option"

definition member_or_invalid :: "json \<Rightarrow> string set \<Rightarrow> string result" where
  "member_or_invalid v S =
     bind_result (in_string_set v S) (\<lambda>ok. if ok then Inr (str_of v) else invalid)"

definition optional_member :: "json \<Rightarrow> string set \<Rightarrow> string option result" where
  "optional_member v S =
     (case v of JNull \<Rightarrow> Inr None | _ \<Rightarrow> map_sum id Some (member_or_invalid v S))"

definition validate_status ::
  "pyenv \<Rightarrow> doc \<Rightarrow> json \<Rightarrow> int \<Rightarrow> runner_db \<Rightarrow> status_report result" where
  "validate_status env p credential now db =
     (if \<not> fields_ok STATUS_FIELDS [''queue_position'', ''candidate_id'', ''error_code'',
            ''action_required''] p
      then invalid
      else bind_result (state_among [Task_queued, Task_running, Task_awaiting_confirmation,
             Task_recovery_required] (get_field p ''state'')) (\<lambda>st.
        bind_result (validate_message env p ''status'' False now) (\<lambda>_.
        bind_result (value_error_invalid (parse_time env (get_field p ''updated_at''))) (\<lambda>_.
        bind_result (verify_credential env db (get_field p ''runner_id'') credential) (\<lambda>_.
        bind_result (member_or_invalid (get_field p ''stage'') STATUS_STAGES) (\<lambda>stage.
        bind_result (optional_match SHA256_RE (get_field p ''candidate_id'')) (\<lambda>candidate_id.
        bind_result (optional_match SAFE_ID_RE (get_field p ''error_code'')) (\<lambda>error_code.
        bind_result (optional_member (get_field p ''action_required'')
          {''clarification'', ''production_confirmation'', ''recovery_review''}) (\<lambda>action_required.
        if get_field p ''queue_position'' \<noteq> JNull \<and> \<not> int_at_least 0 (get_field p ''queue_position'')
        then invalid
        else bind_result (message_of p) (\<lambda>m.
          Inr \<lparr>sr_message = m, sr_state = st, sr_stage = stage, sr_candidate_id = candidate_id,
               sr_error_code = error_code, sr_action_required = action_required\<rparr>))))))))))"

text \<open>What a status makes of the task; \<open>COALESCE\<close> keeps the candidate when none is sent.\<close>

definition reported_task :: "status_report \<Rightarrow> int \<Rightarrow> task \<Rightarrow> task" where
  "reported_task s now t =
     t\<lparr>tk_state := sr_state s, tk_stage := Some (sr_stage s),
       tk_candidate_id := (case sr_candidate_id s of None \<Rightarrow> tk_candidate_id t | Some c \<Rightarrow> Some c),
       tk_error_code := sr_error_code s, tk_action_required := sr_action_required s,
       tk_ever_running := (if sr_state s = Task_running then True else tk_ever_running t),
       tk_sequence := ms_sequence (sr_message s), tk_updated_at := now\<rparr>"

definition recovering_runner :: "string \<Rightarrow> int \<Rightarrow> runner \<Rightarrow> runner" where
  "recovering_runner task_id now r =
     r\<lparr>rn_work_state := Work_recovery_required, rn_current_task_id := Some task_id,
       rn_updated_at := now\<rparr>"

definition apply_status :: "status_report \<Rightarrow> int \<Rightarrow> runner_db \<Rightarrow> task_view result \<times> runner_db" where
  "apply_status s now =
     in_transaction (\<lambda>db.
       bind_result (locked_assignment db (sr_message s)) (\<lambda>t.
       let tid = ms_task_id (sr_message s); rid = ms_runner_id (sr_message s);
           db = set_task tid (reported_task s now) db;
           db = (if sr_state s = Task_recovery_required
                 then set_runner rid (recovering_runner tid now) db else db);
           db = log_event (''runner_task_'' @ task_state_name (sr_state s)) (Some rid) (Some tid)
                  [(''assignment_epoch'', JInt (tk_assignment_epoch t))] db
       in case find_task db tid of None \<Rightarrow> Inl TypeError | Some t \<Rightarrow> Inr (public_task t, db)))"

definition record_status ::
  "pyenv \<Rightarrow> doc \<Rightarrow> json \<Rightarrow> int \<Rightarrow> int \<Rightarrow> runner_db \<Rightarrow> task_view result \<times> runner_db" where
  "record_status env p credential now1 now db =
     (case validate_status env p credential now1 db of
        Inl e \<Rightarrow> (Inl e, db)
      | Inr s \<Rightarrow>
          (case record_message p ''status'' db of
             (Inl e, db) \<Rightarrow> (Inl e, db)
           | (Inr outcome, db) \<Rightarrow>
               if outcome = ''duplicate'' then (work_task db (get_field p ''task_id''), db)
               else apply_status s now db))"

section \<open>Result messages\<close>

text \<open>\<open>_reject_immutable_late_result\<close>: an authentic result for a task that is already settled.\<close>

definition late_result_shape :: "pyenv \<Rightarrow> doc \<Rightarrow> message option" where
  "late_result_shape env p =
     (if \<not> py_eq_int (get_field p ''version'') 2 \<or> get_field p ''message_type'' \<noteq> JStr ''result''
      then None
      else (case message_of p of
          Inl _ \<Rightarrow> None
        | Inr m \<Rightarrow>
            (case get_field p ''lease_id'' of
               JStr _ \<Rightarrow>
                 if get_field p ''body_digest''
                    = JStr (runner_digest env (JObj (without_fields [''body_digest''] p)))
                 then Some m else None
             | _ \<Rightarrow> None)))"

definition SETTLED_STATES :: "task_state set" where
  "SETTLED_STATES = TERMINAL_TASK_STATES \<union> {Task_awaiting_confirmation, Task_recovery_required}"

definition reject_late_result :: "pyenv \<Rightarrow> doc \<Rightarrow> json \<Rightarrow> runner_db \<Rightarrow> unit result" where
  "reject_late_result env p credential db =
     (case late_result_shape env p of
        None \<Rightarrow> Inr ()
      | Some m \<Rightarrow>
          bind_result (verify_credential env db (JStr (ms_runner_id m)) credential) (\<lambda>_.
          case find_task db (ms_task_id m) of
            None \<Rightarrow> Inr ()
          | Some t \<Rightarrow>
              if holds_assignment t m \<and> tk_state t \<in> SETTLED_STATES
              then conflict ''runner_late_message'' else Inr ()))"

definition RESULT_FIELDS :: "string list" where
  "RESULT_FIELDS =
     [''version'', ''message_type'', ''runner_id'', ''task_id'', ''assignment_epoch'', ''sequence'',
      ''created_at'', ''expires_at'', ''body_digest'', ''lease_id'', ''state'', ''finished_at'',
      ''summary'', ''commits'', ''changed_path_count'', ''next_actions'', ''candidate_id'',
      ''result_hash'']"

definition COMMIT_RE :: "string \<Rightarrow> bool" where
  "COMMIT_RE s \<longleftrightarrow> 7 \<le> length s \<and> length s \<le> 64 \<and> list_all is_hex_lower s"

definition BRANCH_RE :: "string \<Rightarrow> bool" where
  "BRANCH_RE = matches_ident is_alnum (\<lambda>c. is_alnum c \<or> c \<in> set ''._/-'') 0 254"

definition next_actions_of :: "json \<Rightarrow> string list result" where
  "next_actions_of v =
     (case v of
        JList vs \<Rightarrow>
          if length vs > 16 \<or> list_ex (\<lambda>v. \<not> str_matches (\<lambda>s. s \<noteq> [] \<and> py_len s \<le> 500) v) vs
          then invalid else Inr (map str_of vs)
      | _ \<Rightarrow> invalid)"

text \<open>\<open>set(commits)\<close> raises TypeError on an unhashable element before the elements are checked.\<close>

definition commits_of :: "json \<Rightarrow> string list result" where
  "commits_of v =
     (case v of
        JList vs \<Rightarrow>
          if length vs > 32 then invalid
          else if list_ex (\<lambda>v. \<not> is_hashable v) vs then Inl TypeError
          else if list_ex (\<lambda>v. \<not> str_matches COMMIT_RE v) vs \<or> \<not> distinct vs then invalid
          else Inr (map str_of vs)
      | _ \<Rightarrow> invalid)"

record result_report =
  rr_message :: message
  rr_state :: task_state
  rr_summary :: string
  rr_test_summary :: "string option"
  rr_candidate_id :: string
  rr_result_hash :: string
  rr_changed_path_count :: int
  rr_next_actions :: "string list"
  rr_commits :: "string list"
  rr_branch :: "string option"
  rr_error_code :: "string option"

definition validate_result_content :: "pyenv \<Rightarrow> doc \<Rightarrow> task_state \<Rightarrow> result_report result" where
  "validate_result_content env p st =
     bind_result (bounded_text (get_field p ''summary'') 6000) (\<lambda>summary.
     bind_result (optional_text (get_field p ''test_summary'') 3000) (\<lambda>test_summary.
     bind_result (matched SHA256_RE (get_field p ''candidate_id'')) (\<lambda>candidate_id.
     if get_field p ''result_hash''
        \<noteq> JStr (runner_digest env (JObj (without_fields [''body_digest'', ''result_hash''] p)))
     then conflict ''runner_digest_invalid''
     else if \<not> int_at_least 0 (get_field p ''changed_path_count'')
             \<or> int_of_json (get_field p ''changed_path_count'') > 100000 then invalid
     else bind_result (next_actions_of (get_field p ''next_actions'')) (\<lambda>next_actions.
       bind_result (commits_of (get_field p ''commits'')) (\<lambda>commits.
       bind_result (optional_match BRANCH_RE (get_field p ''branch'')) (\<lambda>branch.
       bind_result (optional_match SAFE_ID_RE (get_field p ''error_code'')) (\<lambda>error_code.
       bind_result (message_of p) (\<lambda>m.
       Inr \<lparr>rr_message = m, rr_state = st, rr_summary = summary, rr_test_summary = test_summary,
            rr_candidate_id = candidate_id, rr_result_hash = str_of (get_field p ''result_hash''),
            rr_changed_path_count = int_of_json (get_field p ''changed_path_count''),
            rr_next_actions = next_actions, rr_commits = commits, rr_branch = branch,
            rr_error_code = error_code\<rparr>))))))))"

definition validate_result ::
  "pyenv \<Rightarrow> doc \<Rightarrow> json \<Rightarrow> int \<Rightarrow> runner_db \<Rightarrow> result_report result" where
  "validate_result env p credential now db =
     bind_result (reject_late_result env p credential db) (\<lambda>_.
     if \<not> fields_ok RESULT_FIELDS [''branch'', ''test_summary'', ''error_code''] p then invalid
     else bind_result (state_among [Task_completed, Task_failed, Task_cancelled, Task_expired,
            Task_awaiting_confirmation, Task_recovery_required] (get_field p ''state'')) (\<lambda>st.
       bind_result (validate_message env p ''result'' False now) (\<lambda>_.
       bind_result (value_error_invalid (parse_time env (get_field p ''finished_at''))) (\<lambda>_.
       bind_result (verify_credential env db (get_field p ''runner_id'') credential) (\<lambda>_.
       validate_result_content env p st)))))"

definition finished_task :: "result_report \<Rightarrow> int \<Rightarrow> task \<Rightarrow> task" where
  "finished_task r now t =
     t\<lparr>tk_state := rr_state r, tk_stage := Some ''handoff'', tk_summary := Some (rr_summary r),
       tk_candidate_id := Some (rr_candidate_id r), tk_branch := rr_branch r,
       tk_commits := sort (rr_commits r), tk_result_hash := Some (rr_result_hash r),
       tk_test_summary := rr_test_summary r,
       tk_changed_path_count := Some (rr_changed_path_count r),
       tk_next_actions := rr_next_actions r, tk_error_code := rr_error_code r,
       tk_action_required :=
         (if rr_state r = Task_recovery_required then Some ''recovery_review''
          else if rr_state r = Task_awaiting_confirmation then Some ''clarification'' else None),
       tk_sequence := ms_sequence (rr_message r), tk_updated_at := now\<rparr>"

text \<open>The runner after its task ended: drained if it was to be, and free unless to be reviewed.\<close>

definition drained_state :: "admin_state \<Rightarrow> admin_state" where
  "drained_state st = (if st = Adm_draining then Adm_disabled else st)"

definition freed_runner :: "work_state \<Rightarrow> string option \<Rightarrow> int \<Rightarrow> runner \<Rightarrow> runner" where
  "freed_runner work current now r =
     (revised now r)\<lparr>rn_admin_state := drained_state (rn_admin_state r), rn_work_state := work,
       rn_current_task_id := current\<rparr>"

definition apply_result :: "result_report \<Rightarrow> int \<Rightarrow> runner_db \<Rightarrow> task_view result \<times> runner_db" where
  "apply_result r now =
     in_transaction (\<lambda>db.
       bind_result (locked_assignment db (rr_message r)) (\<lambda>t.
       let tid = ms_task_id (rr_message r); rid = ms_runner_id (rr_message r);
           review = (rr_state r = Task_recovery_required);
           db = set_task tid (finished_task r now) db;
           db = db\<lparr>runner_leases := update_where
                  (\<lambda>l. Some (rl_lease_id l) = tk_lease_id t \<and> rl_state l = Lease_active)
                  (\<lambda>l. l\<lparr>rl_state := Lease_released, rl_released_at := Some now\<rparr>)
                  (runner_leases db)\<rparr>
       in case find_runner db rid of
            None \<Rightarrow> Inl TypeError
          | Some _ \<Rightarrow>
              (let db = set_runner rid (freed_runner
                     (if review then Work_recovery_required else Work_idle)
                     (if review then Some tid else None) now) db;
                   db = log_event (''runner_task_'' @ task_state_name (rr_state r)) (Some rid)
                     (Some tid) [(''candidate_present'', JBool True)] db
               in case find_task db tid of
                    None \<Rightarrow> Inl TypeError | Some t \<Rightarrow> Inr (public_task t, db))))"

definition record_result ::
  "pyenv \<Rightarrow> doc \<Rightarrow> json \<Rightarrow> int \<Rightarrow> int \<Rightarrow> runner_db \<Rightarrow> task_view result \<times> runner_db" where
  "record_result env p credential now1 now db =
     (case validate_result env p credential now1 db of
        Inl e \<Rightarrow> (Inl e, db)
      | Inr r \<Rightarrow>
          (case record_message p ''result'' db of
             (Inl e, db) \<Rightarrow> (Inl e, db)
           | (Inr outcome, db) \<Rightarrow>
               if outcome = ''duplicate'' then (work_task db (get_field p ''task_id''), db)
               else apply_result r now db))"

section \<open>Reviewing a recovery\<close>

definition holds_other_task :: "runner_db \<Rightarrow> string \<Rightarrow> string \<Rightarrow> bool" where
  "holds_other_task db runner_id task_id \<longleftrightarrow>
     list_ex (\<lambda>t. tk_assigned_runner_id t = Some runner_id \<and> tk_id t \<noteq> task_id \<and>
       tk_state t \<in> insert Task_recovery_required ACTIVE_TASK_STATES) (tasks db)"

text \<open>The recovery is the runner's own, or one it lost when it was freed for another task.\<close>

definition reviewable :: "runner_db \<Rightarrow> runner \<Rightarrow> task \<Rightarrow> bool" where
  "reviewable db r t \<longleftrightarrow>
     tk_state t = Task_recovery_required \<and>
     (rn_current_task_id r = Some (tk_id t) \<and> rn_work_state r = Work_recovery_required
      \<or> rn_current_task_id r = None \<and> rn_work_state r = Work_idle \<and>
        tk_stage t = Some ''recovery'' \<and> tk_action_required t = Some RUNNER_LOST \<and>
        \<not> holds_other_task db (rn_id r) (tk_id t))"

definition failed_task :: "int \<Rightarrow> task \<Rightarrow> task" where
  "failed_task now t =
     t\<lparr>tk_state := Task_failed, tk_stage := Some ''recovery_resolved'',
       tk_error_code := Some ''recovery_confirmed_failed'', tk_action_required := None,
       tk_updated_at := now\<rparr>"

definition recovery_body ::
  "runner_config \<Rightarrow> string \<Rightarrow> string \<Rightarrow> int \<Rightarrow> runner \<Rightarrow> runner_db
     \<Rightarrow> ((admin_response \<times> admin_response) \<times> runner_db) result" where
  "recovery_body cfg runner_id task_id now row db =
     (case find_task db task_id of
        None \<Rightarrow> conflict ''runner_task_not_found''
      | Some t \<Rightarrow>
          if tk_assigned_runner_id t \<noteq> Some runner_id then conflict ''runner_task_not_found''
          else if \<not> reviewable db row t then conflict ''runner_task_state_conflict''
          else (let db = end_leases task_id Lease_released now (set_task task_id (failed_task now) db);
                    db = set_runner runner_id (freed_runner Work_idle None now) db;
                    db = log_event ''runner_task_recovery_resolved'' (Some runner_id) (Some task_id)
                      [(''resolution'', JStr ''confirmed_failed'')] db
                in case (find_task db task_id, find_runner db runner_id) of
                     (Some t, Some r) \<Rightarrow>
                       (let response = Recovery_resolved (public_task t) (public_runner cfg r now)
                        in Inr ((response, response), db))
                   | _ \<Rightarrow> Inl TypeError))"

definition resolve_task_recovery ::
  "pyenv \<Rightarrow> runner_config \<Rightarrow> json \<Rightarrow> doc \<Rightarrow> int \<Rightarrow> runner_db \<Rightarrow> admin_response result \<times> runner_db" where
  "resolve_task_recovery env cfg runner_id p now db =
     (if keys_of p \<noteq> {''task_id'', ''resolution'', ''revision'', ''request_id''}
         \<or> get_field p ''resolution'' \<noteq> JStr ''confirmed_failed''
      then (invalid, db)
      else (case bind_result (runner_id_of runner_id) (\<lambda>rid.
                 bind_result (task_id_of (get_field p ''task_id'')) (\<lambda>tid.
                 bind_result (revision_of (get_field p ''revision'')) (\<lambda>revision.
                 bind_result (request_id_of (get_field p ''request_id'')) (\<lambda>request_id.
                 Inr (rid, tid, revision, request_id))))) of
          Inl e \<Rightarrow> (Inl e, db)
        | Inr (rid, tid, revision, request_id) \<Rightarrow>
            administer request_id (''resolve_task_recovery:'' @ tid) (runner_digest env (JObj p)) rid
              revision (recovery_body cfg rid tid now) db))"

section \<open>The sweep\<close>

definition list_tasks :: "json \<Rightarrow> runner_db \<Rightarrow> task_view list result" where
  "list_tasks limit db =
     (if \<not> int_at_least 1 limit \<or> int_of_json limit > 1000 then invalid
      else Inr (map public_task (take (nat (int_of_json limit))
             (sort_key (\<lambda>t. - tk_created_at t) (tasks db)))))"

record sweep_counts =
  sw_rescheduled :: nat
  sw_recovery_required :: nat
  sw_expired :: nat
  sw_drained :: nat

definition SWEPT_STATES :: "task_state set" where
  "SWEPT_STATES = {Waiting_runner, Task_leased, Task_dispatched, Task_queued, Task_running}"

definition swept_tasks :: "runner_db \<Rightarrow> task list" where
  "swept_tasks db = filter (\<lambda>t. tk_state t \<in> SWEPT_STATES) (tasks db)"

text \<open>
  One task of the snapshot.  The lease of a runner that is offline has run out: a task that ever ran
  waits for a review, any other is given back.
\<close>

definition sweep_task ::
  "runner_config \<Rightarrow> int \<Rightarrow> task \<Rightarrow> sweep_counts \<times> runner_db \<Rightarrow> sweep_counts \<times> runner_db" where
  "sweep_task cfg now t = (\<lambda>(n, db).
     if tk_expires_at t \<le> now \<and> tk_state t = Waiting_runner
     then (n\<lparr>sw_expired := sw_expired n + 1\<rparr>, set_task (tk_id t) (expired_task now) db)
     else if \<not> has_text (tk_assigned_runner_id t) then (n, db)
     else (case find_runner db (the (tk_assigned_runner_id t)) of
         None \<Rightarrow> (n, db)
       | Some r \<Rightarrow>
           if runner_connectivity cfg r now \<noteq> Offline then (n, db)
           else (case tk_lease_expires_at t of
               None \<Rightarrow> (n, db)
             | Some e \<Rightarrow>
                 if e > now then (n, db)
                 else if tk_ever_running t
                 then (n\<lparr>sw_recovery_required := sw_recovery_required n + 1\<rparr>,
                       set_runner (rn_id r) (recovering_runner (tk_id t) now)
                         (set_task (tk_id t) (recovery_task RUNNER_LOST now) db))
                 else (n\<lparr>sw_rescheduled := sw_rescheduled n + 1\<rparr>,
                       set_runner (rn_id r) (idle_again now)
                         (set_task (tk_id t) (\<lambda>t. waiting_again (tk_error_code t) now t)
                           (end_leases (tk_id t) Lease_expired now db))))))"

definition drain_runners :: "int \<Rightarrow> runner_db \<Rightarrow> nat \<times> runner_db" where
  "drain_runners now db =
     (let drained = (\<lambda>r. rn_admin_state r = Adm_draining \<and> rn_current_task_id r = None)
      in (rowcount drained (runners db),
          db\<lparr>runners := update_where drained
            (\<lambda>r. (revised now r)\<lparr>rn_admin_state := Adm_disabled\<rparr>) (runners db)\<rparr>))"

text \<open>SQL leaves the order of the snapshot open: it is the argument \<open>order\<close>, a permutation.\<close>

definition sweep ::
  "runner_config \<Rightarrow> (task list \<Rightarrow> task list) \<Rightarrow> int \<Rightarrow> runner_db \<Rightarrow> sweep_counts \<times> runner_db" where
  "sweep cfg order now db =
     (let (n, db) = fold (sweep_task cfg now) (order (swept_tasks db))
            (\<lparr>sw_rescheduled = 0, sw_recovery_required = 0, sw_expired = 0, sw_drained = 0\<rparr>, db);
          (drained, db) = drain_runners now db
      in (n\<lparr>sw_drained := drained\<rparr>, db))"

end
