(* ===== verification/Runner_Changes.thy ===== *)
theory Runner_Changes
  imports Runner_Results
begin

text \<open>
  What the runner store promises, as a specification: the elementary changes its operations are made
  of, each with the conditions under which it may happen, and the invariants every change keeps.
\<close>

section \<open>The elementary changes\<close>

abbreviation no_active_credential :: "runner_db \<Rightarrow> string \<Rightarrow> bool" where
  "no_active_credential db rid \<equiv> \<forall>c \<in> set (credentials db). cr_runner_id c = rid \<longrightarrow> \<not> cr_active c"

abbreviation task_identity :: "task \<Rightarrow> string \<times> string \<times> string \<times> string \<times> int" where
  "task_identity t \<equiv>
     (tk_id t, tk_create_request_id t, tk_principal_hash t, tk_project_alias t, tk_created_at t)"

abbreviation task_holding :: "task \<Rightarrow> string option \<times> int \<times> string option" where
  "task_holding t \<equiv> (tk_assigned_runner_id t, tk_assignment_epoch t, tk_lease_id t)"

abbreviation lease_identity :: "runner_lease \<Rightarrow> string \<times> string \<times> string \<times> int" where
  "lease_identity l \<equiv> (rl_lease_id l, rl_task_id l, rl_runner_id l, rl_assignment_epoch l)"

definition held_by :: "runner_db \<Rightarrow> string \<Rightarrow> string \<Rightarrow> bool" where
  "held_by db task_id runner_id \<longleftrightarrow>
     (\<exists>t \<in> set (tasks db). tk_id t = task_id \<and> tk_assigned_runner_id t = Some runner_id)"

inductive runner_change :: "runner_db \<Rightarrow> runner_db \<Rightarrow> bool" where
  noted: "runner_change db (db\<lparr>runner_messages := ms, admin_requests := admin_requests db @ as,
            command_requests := command_requests db @ cs, runner_events := es\<rparr>)"
| runners_edited: "runner_change db (db\<lparr>runners := update_where p f (runners db)\<rparr>)"
  if "\<And>r. r \<in> set (runners db) \<Longrightarrow> p r \<Longrightarrow> rn_id (f r) = rn_id r"
    and "\<And>r a. r \<in> set (runners db) \<Longrightarrow> p r \<Longrightarrow> rn_current_task_id (f r) = Some a
           \<Longrightarrow> held_by db a (rn_id r)"
    and "\<And>r. r \<in> set (runners db) \<Longrightarrow> p r \<Longrightarrow> rn_admin_state (f r) = Adm_revoked
           \<Longrightarrow> no_active_credential db (rn_id r)"
| runner_enrolled: "runner_change db (db\<lparr>runners := insert_row r (runners db),
    enrollments := insert_row e (enrollments db)\<rparr>)"
  if "rn_id r \<notin> set (map rn_id (runners db))" and "rn_id r \<noteq> []"
    and "rn_current_task_id r = None" and "rn_admin_state r \<noteq> Adm_revoked"
    and "en_enrollment_id e \<notin> set (map en_enrollment_id (enrollments db))"
    and "en_token_digest e \<notin> set (map en_token_digest (enrollments db))"
    and "en_runner_id e = rn_id r" and "en_claimed_at e = None"
| enrollment_claimed: "runner_change db (db\<lparr>enrollments := update_where
      (\<lambda>x. en_enrollment_id x = en_enrollment_id e) (\<lambda>x. x\<lparr>en_claimed_at := Some now\<rparr>) (enrollments db),
    credentials := insert_row c (credentials db)\<rparr>)"
  if "e \<in> set (enrollments db)" and "en_claimed_at e = None" and "en_revoked_at e = None"
    and "cr_runner_id c = en_runner_id e" and "cr_active c"
    and "cr_credential_id c \<notin> set (map cr_credential_id (credentials db))"
    and "\<And>r. r \<in> set (runners db) \<Longrightarrow> rn_id r = cr_runner_id c \<Longrightarrow> rn_admin_state r \<noteq> Adm_revoked"
| enrollments_revoked: "runner_change db (db\<lparr>enrollments := update_where p
      (\<lambda>x. x\<lparr>en_revoked_at := Some now\<rparr>) (enrollments db)\<rparr>)"
  if "\<And>e. e \<in> set (enrollments db) \<Longrightarrow> p e \<Longrightarrow> en_claimed_at e = None"
| enrollment_added: "runner_change db (db\<lparr>enrollments := insert_row e (enrollments db)\<rparr>)"
  if "en_enrollment_id e \<notin> set (map en_enrollment_id (enrollments db))"
    and "en_token_digest e \<notin> set (map en_token_digest (enrollments db))"
    and "en_claimed_at e = None" and "en_runner_id e \<in> set (map rn_id (runners db))"
    and "\<And>x. x \<in> set (enrollments db) \<Longrightarrow> en_runner_id x = en_runner_id e \<Longrightarrow> en_revoked_at x \<noteq> None"
| credentials_revoked: "runner_change db (db\<lparr>credentials := update_where p
      (\<lambda>c. c\<lparr>cr_active := False, cr_revoked_at := Some now\<rparr>) (credentials db)\<rparr>)"
| credential_rotated: "runner_change db (db\<lparr>credentials := insert_row c (credentials db)\<rparr>)"
  if "cr_active c" and "cr_credential_id c \<notin> set (map cr_credential_id (credentials db))"
    and "no_active_credential db (cr_runner_id c)"
    and "cr_runner_id c \<in> set (map cr_runner_id (credentials db))"
    and "\<And>r. r \<in> set (runners db) \<Longrightarrow> rn_id r = cr_runner_id c \<Longrightarrow> rn_admin_state r \<noteq> Adm_revoked"
| task_added: "runner_change db (db\<lparr>tasks := insert_row t (tasks db)\<rparr>)"
  if "tk_id t \<notin> set (map tk_id (tasks db))" and "task_holding t = (None, 0, None)"
    and "\<not> tk_ever_running t"
| task_edited: "runner_change db (set_task tid f db)"
  if "\<And>t. t \<in> set (tasks db) \<Longrightarrow> tk_id t = tid \<Longrightarrow>
        task_identity (f t) = task_identity t \<and> task_holding (f t) = task_holding t \<and>
        (tk_ever_running t \<longrightarrow> tk_ever_running (f t)) \<and>
        (tk_ever_running (f t) \<longrightarrow> tk_ever_running t \<or> tk_assigned_runner_id t \<noteq> None) \<and>
        tk_state (f t) \<noteq> Waiting_runner"
| leases_edited: "runner_change db (db\<lparr>runner_leases := update_where p g (runner_leases db)\<rparr>)"
  if "\<And>l. lease_identity (g l) = lease_identity l"
    and "\<And>l. l \<in> set (runner_leases db) \<Longrightarrow> p l \<Longrightarrow> rl_state (g l) = Lease_active
           \<Longrightarrow> rl_state l = Lease_active"
| lease_reactivated: "runner_change db (db\<lparr>runner_leases := update_where (\<lambda>l. rl_lease_id l = lid)
      (\<lambda>l. l\<lparr>rl_state := Lease_active, rl_expires_at := e, rl_released_at := None\<rparr>)
      (runner_leases db)\<rparr>)"
  if "t \<in> set (tasks db)" and "tk_lease_id t = Some lid"
| task_released: "runner_change db (set_task tid f db)"
  if "\<And>t. t \<in> set (tasks db) \<Longrightarrow> tk_id t = tid \<Longrightarrow>
        task_identity (f t) = task_identity t \<and>
        task_holding (f t) = (None, tk_assignment_epoch t, None) \<and>
        \<not> tk_ever_running t \<and> \<not> tk_ever_running (f t)"
    and "\<And>l. l \<in> set (runner_leases db) \<Longrightarrow> rl_task_id l = tid \<Longrightarrow> rl_state l \<noteq> Lease_active"
    and "\<And>r. r \<in> set (runners db) \<Longrightarrow> rn_current_task_id r \<noteq> Some tid"
| task_assigned: "runner_change db (db\<lparr>runner_leases := insert_row l (runner_leases db),
    tasks := update_where (\<lambda>u. tk_id u = tk_id t) f (tasks db)\<rparr>)"
  if "t \<in> set (tasks db)" and "tk_assigned_runner_id t = None"
    and "rl_lease_id l \<notin> set (map rl_lease_id (runner_leases db))" and "rl_lease_id l \<noteq> []"
    and "rl_runner_id l \<in> set (map rn_id (runners db))"
    and "rl_task_id l = tk_id t" and "rl_assignment_epoch l = tk_assignment_epoch t + 1"
    and "task_identity (f t) = task_identity t"
    and "task_holding (f t)
       = (Some (rl_runner_id l), rl_assignment_epoch l, Some (rl_lease_id l))"
    and "tk_ever_running (f t) = tk_ever_running t" and "tk_state (f t) \<noteq> Waiting_runner"

section \<open>The tasks and their leases\<close>

text \<open>The rows a task row is consistent with, and the rows a lease is consistent with.\<close>

definition task_ok :: "runner_db \<Rightarrow> task \<Rightarrow> bool" where
  "task_ok db t \<longleftrightarrow>
     0 \<le> tk_assignment_epoch t \<and>
     (case (tk_assigned_runner_id t, tk_lease_id t) of
        (None, None) \<Rightarrow> \<not> tk_ever_running t
      | (Some rid, Some lid) \<Rightarrow>
          tk_state t \<noteq> Waiting_runner \<and> rid \<noteq> [] \<and> rid \<in> set (map rn_id (runners db)) \<and>
          (\<exists>l \<in> set (runner_leases db).
             lease_identity l = (lid, tk_id t, rid, tk_assignment_epoch t))
      | _ \<Rightarrow> False)"

definition lease_ok :: "runner_db \<Rightarrow> runner_lease \<Rightarrow> bool" where
  "lease_ok db l \<longleftrightarrow>
     rl_lease_id l \<noteq> [] \<and>
     (\<exists>t \<in> set (tasks db). tk_id t = rl_task_id l \<and>
        1 \<le> rl_assignment_epoch l \<and> rl_assignment_epoch l \<le> tk_assignment_epoch t \<and>
        (rl_state l = Lease_active \<longrightarrow>
           task_holding t = (Some (rl_runner_id l), rl_assignment_epoch l, Some (rl_lease_id l))))"

definition runner_ok :: "runner_db \<Rightarrow> runner \<Rightarrow> bool" where
  "runner_ok db r \<longleftrightarrow>
     rn_id r \<noteq> [] \<and> (\<forall>a. rn_current_task_id r = Some a \<longrightarrow> held_by db a (rn_id r))"

definition assignment_inv :: "runner_db \<Rightarrow> bool" where
  "assignment_inv db \<longleftrightarrow>
     distinct (map rn_id (runners db)) \<and> distinct (map tk_id (tasks db)) \<and>
     distinct (map rl_lease_id (runner_leases db)) \<and>
     distinct (map (\<lambda>l. (rl_task_id l, rl_assignment_epoch l)) (runner_leases db)) \<and>
     (\<forall>t \<in> set (tasks db). task_ok db t) \<and> (\<forall>l \<in> set (runner_leases db). lease_ok db l) \<and>
     (\<forall>r \<in> set (runners db). runner_ok db r)"

subsection \<open>What the conditions depend on\<close>

lemma task_ok_frame:
  assumes "task_ok db t" and "set (map rn_id (runners db)) \<subseteq> set (map rn_id (runners db'))"
    and "lease_identity ` set (runner_leases db) \<subseteq> lease_identity ` set (runner_leases db')"
  shows "task_ok db' t"
proof -
  have "\<exists>m \<in> set (runner_leases db'). lease_identity m = i"
    if "l \<in> set (runner_leases db)" "lease_identity l = i" for l i
    using assms(3) that by (metis (mono_tags, lifting) image_iff subset_eq)
  with assms(1,2) show ?thesis
    unfolding task_ok_def by (fastforce split: option.splits)
qed

lemma task_ok_edit:
  assumes "task_ok db t" and "tk_id u = tk_id t" and "task_holding u = task_holding t"
    and "tk_ever_running u \<longrightarrow> tk_ever_running t \<or> tk_assigned_runner_id t \<noteq> None"
    and "tk_state u \<noteq> Waiting_runner"
  shows "task_ok db u"
  using assms by (cases "tk_assigned_runner_id t"; cases "tk_lease_id t") (simp_all add: task_ok_def)

lemma lease_ok_frame:
  assumes "lease_ok db l"
    and "\<And>t. t \<in> set (tasks db) \<Longrightarrow> tk_id t = rl_task_id l \<Longrightarrow>
      \<exists>u \<in> set (tasks db'). tk_id u = tk_id t \<and> task_holding u = task_holding t"
  shows "lease_ok db' l"
proof -
  from assms(1) obtain t where "t \<in> set (tasks db)" "tk_id t = rl_task_id l"
    and t: "rl_lease_id l \<noteq> []" "1 \<le> rl_assignment_epoch l"
    "rl_assignment_epoch l \<le> tk_assignment_epoch t"
    "rl_state l = Lease_active \<longrightarrow>
       task_holding t = (Some (rl_runner_id l), rl_assignment_epoch l, Some (rl_lease_id l))"
    unfolding lease_ok_def by blast
  with assms(2) obtain u where "u \<in> set (tasks db')" "tk_id u = rl_task_id l"
    "task_holding u = task_holding t" by metis
  moreover from this(3) have "tk_assignment_epoch u = tk_assignment_epoch t" by simp
  ultimately show ?thesis unfolding lease_ok_def using t by metis
qed

lemma held_by_frame:
  assumes "held_by db a rid"
    and "\<And>t. t \<in> set (tasks db) \<Longrightarrow> tk_id t = a \<Longrightarrow>
      \<exists>u \<in> set (tasks db'). tk_id u = tk_id t \<and> tk_assigned_runner_id u = tk_assigned_runner_id t"
  shows "held_by db' a rid"
  using assms unfolding held_by_def by metis

lemma runner_ok_frame:
  assumes "runner_ok db r"
    and "\<And>t. t \<in> set (tasks db) \<Longrightarrow> rn_current_task_id r = Some (tk_id t) \<Longrightarrow>
      \<exists>u \<in> set (tasks db'). tk_id u = tk_id t \<and> tk_assigned_runner_id u = tk_assigned_runner_id t"
  shows "runner_ok db' r"
  unfolding runner_ok_def
proof (intro conjI allI impI)
  show "rn_id r \<noteq> []" using assms(1) by (simp add: runner_ok_def)
  fix a assume a: "rn_current_task_id r = Some a"
  then have "held_by db a (rn_id r)" using assms(1) by (simp add: runner_ok_def)
  then show "held_by db' a (rn_id r)" by (rule held_by_frame) (use assms(2) a in blast)
qed

lemma set_task_rows [simp]:
  "runners (set_task i f db) = runners db" "runner_leases (set_task i f db) = runner_leases db"
  "credentials (set_task i f db) = credentials db" "enrollments (set_task i f db) = enrollments db"
  "runner_messages (set_task i f db) = runner_messages db"
  "admin_requests (set_task i f db) = admin_requests db"
  "command_requests (set_task i f db) = command_requests db"
  "tasks (set_task i f db) = update_where (\<lambda>t. tk_id t = i) f (tasks db)"
  by (simp_all add: set_task_def)

lemma set_runner_rows [simp]:
  "tasks (set_runner i f db) = tasks db" "runner_leases (set_runner i f db) = runner_leases db"
  "credentials (set_runner i f db) = credentials db"
  "enrollments (set_runner i f db) = enrollments db"
  "runner_messages (set_runner i f db) = runner_messages db"
  "admin_requests (set_runner i f db) = admin_requests db"
  "command_requests (set_runner i f db) = command_requests db"
  "runners (set_runner i f db) = update_where (\<lambda>r. rn_id r = i) f (runners db)"
  by (simp_all add: set_runner_def)

lemma assignment_invI:
  assumes "distinct (map rn_id (runners db))" and "distinct (map tk_id (tasks db))"
    and "distinct (map rl_lease_id (runner_leases db))"
    and "distinct (map (\<lambda>l. (rl_task_id l, rl_assignment_epoch l)) (runner_leases db))"
    and "\<And>t. t \<in> set (tasks db) \<Longrightarrow> task_ok db t"
    and "\<And>l. l \<in> set (runner_leases db) \<Longrightarrow> lease_ok db l"
    and "\<And>r. r \<in> set (runners db) \<Longrightarrow> runner_ok db r"
  shows "assignment_inv db"
  using assms by (simp add: assignment_inv_def)

lemma assignment_invD:
  assumes "assignment_inv db"
  shows "distinct (map rn_id (runners db))" and "distinct (map tk_id (tasks db))"
    and "distinct (map rl_lease_id (runner_leases db))"
    and "distinct (map (\<lambda>l. (rl_task_id l, rl_assignment_epoch l)) (runner_leases db))"
    and "t \<in> set (tasks db) \<Longrightarrow> task_ok db t"
    and "l \<in> set (runner_leases db) \<Longrightarrow> lease_ok db l"
    and "r \<in> set (runners db) \<Longrightarrow> runner_ok db r"
  using assms by (simp_all add: assignment_inv_def)

text \<open>An update that leaves a key alone on the rows it meets keeps the column of keys.\<close>

lemma map_update_where_on:
  "(\<And>r. r \<in> set t \<Longrightarrow> p r \<Longrightarrow> k (f r) = k r) \<Longrightarrow> map k (update_where p f t) = map k t"
  by (simp add: update_where_def)

text \<open>Rows of other tables only.\<close>

lemma assignment_inv_same:
  assumes "assignment_inv db" and "map rn_id (runners db') = map rn_id (runners db)"
    and "map rn_current_task_id (runners db') = map rn_current_task_id (runners db)"
    and "tasks db' = tasks db" and "runner_leases db' = runner_leases db"
  shows "assignment_inv db'"
proof (rule assignment_invI)
  fix r assume "r \<in> set (runners db')"
  then obtain i where i: "i < length (runners db')" "r = runners db' ! i" by (metis in_set_conv_nth)
  have len: "length (runners db') = length (runners db)" using assms(2) by (metis length_map)
  have "rn_id r = rn_id (runners db ! i)" "rn_current_task_id r = rn_current_task_id (runners db ! i)"
    using i len assms(2,3) by (metis nth_map)+
  moreover have "runner_ok db (runners db ! i)"
    using assignment_invD(7) [OF assms(1)] i len by simp
  ultimately show "runner_ok db' r" by (simp add: runner_ok_def held_by_def assms(4))
next
  fix t assume "t \<in> set (tasks db')"
  then have "task_ok db t" using assignment_invD(5) [OF assms(1)] assms(4) by simp
  moreover have "set (map rn_id (runners db)) \<subseteq> set (map rn_id (runners db'))" by (simp only: assms(2))
  ultimately show "task_ok db' t" by (rule task_ok_frame) (simp add: assms(5))
next
  fix l assume "l \<in> set (runner_leases db')"
  then have "lease_ok db l" using assignment_invD(6) [OF assms(1)] assms(5) by simp
  then show "lease_ok db' l" by (rule lease_ok_frame) (use assms(4) in auto)
qed (use assignment_invD(1-4) [OF assms(1)] assms in simp_all)

subsection \<open>Every change keeps them\<close>

lemma assignment_runners_edited:
  assumes inv: "assignment_inv db"
    and id: "\<And>r. r \<in> set (runners db) \<Longrightarrow> p r \<Longrightarrow> rn_id (f r) = rn_id r"
    and cur: "\<And>r a. r \<in> set (runners db) \<Longrightarrow> p r \<Longrightarrow>
      rn_current_task_id (f r) = Some a \<Longrightarrow> held_by db a (rn_id r)"
  shows "assignment_inv (db\<lparr>runners := update_where p f (runners db)\<rparr>)" (is "assignment_inv ?db")
proof (rule assignment_invI)
  have ids: "map rn_id (runners ?db) = map rn_id (runners db)"
    by (simp, rule map_update_where_on) (rule id)
  show "distinct (map rn_id (runners ?db))" using assignment_invD(1) [OF inv] by (simp only: ids)
  show "task_ok ?db t" if "t \<in> set (tasks ?db)" for t
  proof (rule task_ok_frame)
    show "task_ok db t" using that assignment_invD(5) [OF inv] by simp
    show "set (map rn_id (runners db)) \<subseteq> set (map rn_id (runners ?db))" by (simp only: ids)
  qed simp
  show "lease_ok ?db l" if "l \<in> set (runner_leases ?db)" for l
    by (rule lease_ok_frame [OF assignment_invD(6) [OF inv]]) (use that in auto)
  show "runner_ok ?db r" if "r \<in> set (runners ?db)" for r
  proof -
    from that obtain q where q: "q \<in> set (runners db)" "r = (if p q then f q else q)"
      by (auto simp: update_where_mem)
    have "runner_ok db r"
      using q assignment_invD(7) [OF inv q(1)] id [OF q(1)] cur [OF q(1)]
      by (auto simp: runner_ok_def)
    then show ?thesis by (simp add: runner_ok_def held_by_def)
  qed
qed (use assignment_invD(2-4) [OF inv] in simp_all)

lemma assignment_runner_enrolled:
  assumes inv: "assignment_inv db" and "rn_id r \<notin> set (map rn_id (runners db))"
    and "rn_id r \<noteq> []" and "rn_current_task_id r = None"
  shows "assignment_inv (db\<lparr>runners := insert_row r (runners db), enrollments := es\<rparr>)" (is "assignment_inv ?db")
proof (rule assignment_invI)
  show "task_ok ?db t" if "t \<in> set (tasks ?db)" for t
    by (rule task_ok_frame [OF assignment_invD(5) [OF inv]]) (use that in auto)
  show "lease_ok ?db l" if "l \<in> set (runner_leases ?db)" for l
    by (rule lease_ok_frame [OF assignment_invD(6) [OF inv]]) (use that in auto)
  show "runner_ok ?db q" if "q \<in> set (runners ?db)" for q
  proof (cases "q = r")
    case False
    with that show ?thesis
      using assignment_invD(7) [OF inv, of q] by (auto simp: runner_ok_def held_by_def)
  qed (use assms(3,4) in \<open>simp add: runner_ok_def\<close>)
qed (use assignment_invD(1-4) [OF inv] assms(2) in auto)

lemma assignment_task_added:
  assumes inv: "assignment_inv db" and "tk_id t \<notin> set (map tk_id (tasks db))"
    and "task_holding t = (None, 0, None)" and "\<not> tk_ever_running t"
  shows "assignment_inv (db\<lparr>tasks := insert_row t (tasks db)\<rparr>)" (is "assignment_inv ?db")
proof (rule assignment_invI)
  show "task_ok ?db u" if "u \<in> set (tasks ?db)" for u
  proof (cases "u = t")
    case False
    with that assignment_invD(5) [OF inv, of u] show ?thesis by (auto intro: task_ok_frame)
  qed (use assms(3,4) in \<open>auto simp: task_ok_def\<close>)
  show "lease_ok ?db l" if "l \<in> set (runner_leases ?db)" for l
    by (rule lease_ok_frame [OF assignment_invD(6) [OF inv]]) (use that in auto)
  show "runner_ok ?db q" if "q \<in> set (runners ?db)" for q
    by (rule runner_ok_frame [OF assignment_invD(7) [OF inv]]) (use that in auto)
qed (use assignment_invD(1-4) [OF inv] assms(2) in auto)

lemma assignment_task_edited:
  assumes inv: "assignment_inv db"
    and f: "\<And>t. t \<in> set (tasks db) \<Longrightarrow> tk_id t = tid \<Longrightarrow>
        task_identity (f t) = task_identity t \<and> task_holding (f t) = task_holding t \<and>
        (tk_ever_running t \<longrightarrow> tk_ever_running (f t)) \<and>
        (tk_ever_running (f t) \<longrightarrow> tk_ever_running t \<or> tk_assigned_runner_id t \<noteq> None) \<and>
        tk_state (f t) \<noteq> Waiting_runner"
  shows "assignment_inv (set_task tid f db)"
proof (rule assignment_invI)
  have same: "\<exists>u \<in> set (tasks (set_task tid f db)). tk_id u = tk_id t \<and> task_holding u = task_holding t"
    if "t \<in> set (tasks db)" for t
    unfolding set_task_rows by (rule update_where_survives [OF that]) (use f [OF that] in auto)
  have "map tk_id (tasks (set_task tid f db)) = map tk_id (tasks db)"
    by (simp, rule map_update_where_on) (use f in simp)
  then show "distinct (map tk_id (tasks (set_task tid f db)))"
    using assignment_invD(2) [OF inv] by (simp only:)
  show "task_ok (set_task tid f db) u" if "u \<in> set (tasks (set_task tid f db))" for u
  proof -
    from that obtain t where t: "t \<in> set (tasks db)" "u = (if tk_id t = tid then f t else t)"
      by (auto simp: update_where_mem)
    have "task_ok db t" by (rule assignment_invD(5) [OF inv t(1)])
    then have "task_ok db u"
    proof (cases "tk_id t = tid")
      case True
      from f [OF t(1) True] True t(2) show ?thesis by (intro task_ok_edit [OF \<open>task_ok db t\<close>]) simp_all
    qed (simp add: t(2))
    then show ?thesis by (rule task_ok_frame) simp_all
  qed
  show "lease_ok (set_task tid f db) l" if "l \<in> set (runner_leases (set_task tid f db))" for l
  proof (rule lease_ok_frame)
    show "lease_ok db l" using that assignment_invD(6) [OF inv] by simp
  qed (rule same)
  show "runner_ok (set_task tid f db) q" if "q \<in> set (runners (set_task tid f db))" for q
  proof (rule runner_ok_frame)
    show "runner_ok db q" using that assignment_invD(7) [OF inv] by simp
  next
    fix t assume "t \<in> set (tasks db)"
    from same [OF this] show "\<exists>u \<in> set (tasks (set_task tid f db)). tk_id u = tk_id t \<and>
      tk_assigned_runner_id u = tk_assigned_runner_id t" by auto
  qed
qed (use assignment_invD(1,3,4) [OF inv] in simp_all)


lemma assignment_leases:
  assumes inv: "assignment_inv db"
    and id: "\<And>l. lease_identity (g l) = lease_identity l"
    and act: "\<And>l. l \<in> set (runner_leases db) \<Longrightarrow> p l \<Longrightarrow> rl_state (g l) = Lease_active \<Longrightarrow>
      rl_state l = Lease_active \<or>
      (\<exists>t \<in> set (tasks db). tk_id t = rl_task_id l \<and>
         task_holding t = (Some (rl_runner_id l), rl_assignment_epoch l, Some (rl_lease_id l)))"
  shows "assignment_inv (db\<lparr>runner_leases := update_where p g (runner_leases db)\<rparr>)" (is "assignment_inv ?db")
proof (rule assignment_invI)
  have maps: "map (k \<circ> lease_identity) (runner_leases ?db) = map (k \<circ> lease_identity) (runner_leases db)"
    for k :: "string \<times> string \<times> string \<times> int \<Rightarrow> 'k"
    by (simp, rule map_update_where) (simp only: comp_apply id)
  show "distinct (map rl_lease_id (runner_leases ?db))"
    using assignment_invD(3) [OF inv] maps [of fst] by (simp add: comp_def)
  show "distinct (map (\<lambda>l. (rl_task_id l, rl_assignment_epoch l)) (runner_leases ?db))"
    using assignment_invD(4) [OF inv] maps [of "\<lambda>(_, t, _, e). (t, e)"] by (simp add: comp_def)
  show "task_ok ?db t" if "t \<in> set (tasks ?db)" for t
  proof (rule task_ok_frame)
    show "task_ok db t" using that assignment_invD(5) [OF inv] by simp
    show "lease_identity ` set (runner_leases db) \<subseteq> lease_identity ` set (runner_leases ?db)"
      using maps [of id] by (simp flip: set_map)
  qed simp
  show "lease_ok ?db m" if "m \<in> set (runner_leases ?db)" for m
  proof -
    from that obtain l where l: "l \<in> set (runner_leases db)" "m = (if p l then g l else l)"
      by (auto simp: update_where_mem)
    have ids: "lease_identity m = lease_identity l" using l(2) id by auto
    from assignment_invD(6) [OF inv l(1)] obtain t where t: "t \<in> set (tasks db)"
      "tk_id t = rl_task_id l" and ok: "rl_lease_id l \<noteq> []" "1 \<le> rl_assignment_epoch l"
      "rl_assignment_epoch l \<le> tk_assignment_epoch t" "rl_state l = Lease_active \<longrightarrow>
       task_holding t = (Some (rl_runner_id l), rl_assignment_epoch l, Some (rl_lease_id l))"
      unfolding lease_ok_def by blast
    have "task_holding t = (Some (rl_runner_id l), rl_assignment_epoch l, Some (rl_lease_id l))"
      if active: "rl_state m = Lease_active"
    proof (cases "rl_state l = Lease_active")
      case False
      with active l act [OF l(1)] obtain u where u: "u \<in> set (tasks db)" "tk_id u = rl_task_id l"
        "task_holding u = (Some (rl_runner_id l), rl_assignment_epoch l, Some (rl_lease_id l))"
        by (auto split: if_splits)
      with t have "u = t" using assignment_invD(2) [OF inv] by (metis distinct_map inj_onD)
      with u(3) show ?thesis by simp
    qed (use ok in simp)
    with ok t ids show ?thesis unfolding lease_ok_def by auto
  qed
  show "runner_ok ?db q" if "q \<in> set (runners ?db)" for q
    using that assignment_invD(7) [OF inv, of q] by (simp add: runner_ok_def held_by_def)
qed (use assignment_invD(1,2) [OF inv] in simp_all)


lemma assignment_task_released:
  assumes inv: "assignment_inv db"
    and f: "\<And>t. t \<in> set (tasks db) \<Longrightarrow> tk_id t = tid \<Longrightarrow>
        task_identity (f t) = task_identity t \<and>
        task_holding (f t) = (None, tk_assignment_epoch t, None) \<and>
        \<not> tk_ever_running t \<and> \<not> tk_ever_running (f t)"
    and idle: "\<And>l. l \<in> set (runner_leases db) \<Longrightarrow> rl_task_id l = tid \<Longrightarrow> rl_state l \<noteq> Lease_active"
    and free: "\<And>r. r \<in> set (runners db) \<Longrightarrow> rn_current_task_id r \<noteq> Some tid"
  shows "assignment_inv (set_task tid f db)" (is "assignment_inv ?db")
proof (rule assignment_invI)
  have "map tk_id (tasks ?db) = map tk_id (tasks db)"
    unfolding set_task_rows by (rule map_update_where_on) (use f in simp)
  then show "distinct (map tk_id (tasks ?db))" using assignment_invD(2) [OF inv] by (simp only:)
  show "task_ok ?db u" if "u \<in> set (tasks ?db)" for u
  proof -
    from that obtain t where t: "t \<in> set (tasks db)" "u = (if tk_id t = tid then f t else t)"
      by (auto simp: update_where_mem)
    have "task_ok db t" by (rule assignment_invD(5) [OF inv t(1)])
    then have "task_ok db u"
    proof (cases "tk_id t = tid")
      case True
      with f [OF t(1) True] t(2) \<open>task_ok db t\<close> show ?thesis by (simp add: task_ok_def)
    qed (simp add: t(2))
    then show ?thesis by (rule task_ok_frame) simp_all
  qed
  show "lease_ok ?db l" if "l \<in> set (runner_leases ?db)" for l
  proof (cases "rl_task_id l = tid")
    case True
    have l: "l \<in> set (runner_leases db)" using that by simp
    from assignment_invD(6) [OF inv l] obtain t where t: "t \<in> set (tasks db)" "tk_id t = rl_task_id l"
      "rl_lease_id l \<noteq> []" "1 \<le> rl_assignment_epoch l" "rl_assignment_epoch l \<le> tk_assignment_epoch t"
      unfolding lease_ok_def by blast
    have "f t \<in> set (tasks ?db)" unfolding set_task_rows
      by (rule update_where_hit [OF t(1)]) (simp add: t(2) True)
    moreover have "tk_id (f t) = rl_task_id l" "tk_assignment_epoch (f t) = tk_assignment_epoch t"
      using f [OF t(1)] t(2) True by simp_all
    ultimately show ?thesis unfolding lease_ok_def using t idle [OF l True] by metis
  next
    case False
    show ?thesis
    proof (rule lease_ok_frame)
      show "lease_ok db l" using that assignment_invD(6) [OF inv] by simp
      fix t assume "t \<in> set (tasks db)" "tk_id t = rl_task_id l"
      then show "\<exists>u \<in> set (tasks ?db). tk_id u = tk_id t \<and> task_holding u = task_holding t"
        unfolding set_task_rows using False by (intro update_where_survives) auto
    qed
  qed
  show "runner_ok ?db q" if "q \<in> set (runners ?db)" for q
  proof (rule runner_ok_frame)
    show "runner_ok db q" using that assignment_invD(7) [OF inv] by simp
    fix t assume "t \<in> set (tasks db)" "rn_current_task_id q = Some (tk_id t)"
    then show "\<exists>u \<in> set (tasks ?db). tk_id u = tk_id t \<and>
      tk_assigned_runner_id u = tk_assigned_runner_id t"
      unfolding set_task_rows using free that by (intro update_where_survives) auto
  qed
qed (use assignment_invD(1,3,4) [OF inv] in simp_all)

lemma assignment_task_assigned:
  assumes inv: "assignment_inv db" and t: "t \<in> set (tasks db)"
    and unassigned: "tk_assigned_runner_id t = None"
    and fresh: "rl_lease_id l \<notin> set (map rl_lease_id (runner_leases db))" "rl_lease_id l \<noteq> []"
    and runner: "rl_runner_id l \<in> set (map rn_id (runners db))"
    and lease: "rl_task_id l = tk_id t" "rl_assignment_epoch l = tk_assignment_epoch t + 1"
    and f: "task_identity (f t) = task_identity t" "task_holding (f t)
       = (Some (rl_runner_id l), rl_assignment_epoch l, Some (rl_lease_id l))"
      "tk_state (f t) \<noteq> Waiting_runner"
  shows "assignment_inv (db\<lparr>runner_leases := insert_row l (runner_leases db),
    tasks := update_where (\<lambda>u. tk_id u = tk_id t) f (tasks db)\<rparr>)" (is "assignment_inv ?db")
proof (rule assignment_invI)
  have t_only: "u = t" if "u \<in> set (tasks db)" "tk_id u = tk_id t" for u
    using that t assignment_invD(2) [OF inv] by (metis distinct_map inj_onD)
  have t_ok: "task_ok db t" by (rule assignment_invD(5) [OF inv t])
  have rows: "set (tasks ?db) = insert (f t) (set (tasks db) - {t})"
  proof (rule set_eqI)
    fix x
    have "x \<in> set (tasks ?db) \<longleftrightarrow>
        (\<exists>u \<in> set (tasks db). x = (if tk_id u = tk_id t then f u else u))"
      by (simp add: update_where_mem)
    also have "\<dots> \<longleftrightarrow> x \<in> insert (f t) (set (tasks db) - {t})" using t t_only by (metis Diff_iff insert_iff singletonD)
    finally show "x \<in> set (tasks ?db) \<longleftrightarrow> x \<in> insert (f t) (set (tasks db) - {t})" .
  qed
  have "map tk_id (tasks ?db) = map tk_id (tasks db)"
    by simp (rule map_update_where_on, metis t_only f(1) prod.inject)
  then show "distinct (map tk_id (tasks ?db))" using assignment_invD(2) [OF inv] by (simp only:)
  show "distinct (map rl_lease_id (runner_leases ?db))"
    using assignment_invD(3) [OF inv] fresh(1) by simp
  have "rl_task_id m \<noteq> rl_task_id l \<or> rl_assignment_epoch m \<noteq> rl_assignment_epoch l"
    if "m \<in> set (runner_leases db)" for m
    using assignment_invD(6) [OF inv that] t_only lease unfolding lease_ok_def by fastforce
  then show "distinct (map (\<lambda>l. (rl_task_id l, rl_assignment_epoch l)) (runner_leases ?db))"
    using assignment_invD(4) [OF inv] by fastforce
  show "task_ok ?db u" if "u \<in> set (tasks ?db)" for u
  proof (cases "u = f t")
    case True
    from runner obtain r where "r \<in> set (runners db)" "rn_id r = rl_runner_id l" by auto
    then have "rl_runner_id l \<noteq> []" using assignment_invD(7) [OF inv] by (auto simp: runner_ok_def)
    moreover have "0 \<le> tk_assignment_epoch t" using t_ok by (simp add: task_ok_def)
    ultimately show ?thesis using True f lease runner by (simp add: task_ok_def)
  next
    case False
    with that have "u \<in> set (tasks db)" by (simp only: rows) blast
    from assignment_invD(5) [OF inv this] show ?thesis by (rule task_ok_frame) auto
  qed
  show "lease_ok ?db m" if "m \<in> set (runner_leases ?db)" for m
  proof (cases "m = l")
    case True
    have "1 \<le> rl_assignment_epoch l" using t_ok lease(2) by (simp add: task_ok_def)
    then show ?thesis unfolding lease_ok_def rows True using f lease fresh(2) by auto
  next
    case False
    with that have m: "m \<in> set (runner_leases db)" by simp
    from assignment_invD(6) [OF inv m] obtain u where u: "u \<in> set (tasks db)" "tk_id u = rl_task_id m"
      and ok: "rl_lease_id m \<noteq> []" "1 \<le> rl_assignment_epoch m"
      "rl_assignment_epoch m \<le> tk_assignment_epoch u" "rl_state m = Lease_active \<longrightarrow>
       task_holding u = (Some (rl_runner_id m), rl_assignment_epoch m, Some (rl_lease_id m))"
      unfolding lease_ok_def by blast
    show ?thesis
    proof (cases "u = t")
      case True
      have "rl_state m \<noteq> Lease_active" using ok(4) True unassigned by auto
      moreover have "tk_id (f t) = rl_task_id m" "rl_assignment_epoch m \<le> tk_assignment_epoch (f t)"
        using u ok f lease True by simp_all
      ultimately show ?thesis unfolding lease_ok_def rows using ok by blast
    next
      case False
      with u ok show ?thesis unfolding lease_ok_def rows by blast
    qed
  qed
  show "runner_ok ?db q" if "q \<in> set (runners ?db)" for q
  proof (rule runner_ok_frame)
    have q: "q \<in> set (runners db)" using that by simp
    show ok: "runner_ok db q" by (rule assignment_invD(7) [OF inv q])
    fix u assume u: "u \<in> set (tasks db)" "rn_current_task_id q = Some (tk_id u)"
    have "u \<noteq> t" using ok u(2) t_only unassigned unfolding runner_ok_def held_by_def by fastforce
    with u show "\<exists>v \<in> set (tasks ?db). tk_id v = tk_id u \<and>
      tk_assigned_runner_id v = tk_assigned_runner_id u" unfolding rows by blast
  qed
qed (use assignment_invD(1) [OF inv] in simp_all)

lemma assignment_reactivated:
  assumes inv: "assignment_inv db" and t: "t \<in> set (tasks db)" "tk_lease_id t = Some lid"
  shows "assignment_inv (db\<lparr>runner_leases := update_where (\<lambda>l. rl_lease_id l = lid)
      (\<lambda>l. l\<lparr>rl_state := Lease_active, rl_expires_at := e, rl_released_at := None\<rparr>)
      (runner_leases db)\<rparr>)"
proof (rule assignment_leases [OF inv])
  fix l assume l: "l \<in> set (runner_leases db)" "rl_lease_id l = lid"
  from assignment_invD(5) [OF inv t(1)] t(2) obtain rid where r: "tk_assigned_runner_id t = Some rid"
    by (cases "tk_assigned_runner_id t") (simp_all add: task_ok_def)
  with assignment_invD(5) [OF inv t(1)] t(2) obtain m where m: "m \<in> set (runner_leases db)"
    "lease_identity m = (lid, tk_id t, rid, tk_assignment_epoch t)"
    by (auto simp: task_ok_def)
  then have "m = l" using l assignment_invD(3) [OF inv] by (metis distinct_map inj_onD prod.inject)
  with r m t show "rl_state l = Lease_active \<or> (\<exists>t \<in> set (tasks db). tk_id t = rl_task_id l \<and>
      task_holding t = (Some (rl_runner_id l), rl_assignment_epoch l, Some (rl_lease_id l)))"
    by auto
qed simp

theorem assignment_change: "runner_change db db' \<Longrightarrow> assignment_inv db \<Longrightarrow> assignment_inv db'"
proof (induction rule: runner_change.induct)
  case (noted db ms as cs es)
  then show ?case by (rule assignment_inv_same) simp_all
next
  case (runners_edited db p f)
  then show ?case by (intro assignment_runners_edited) blast+
next
  case (runner_enrolled r db e)
  then show ?case by (intro assignment_runner_enrolled) simp_all
next
  case (task_added t db)
  then show ?case by (intro assignment_task_added) blast+
next
  case (task_edited db tid f)
  then show ?case by (intro assignment_task_edited)
next
  case (leases_edited g db p)
  then show ?case by (intro assignment_leases) blast+
next
  case (lease_reactivated t db lid e)
  from lease_reactivated show ?case by (intro assignment_reactivated)
next
  case (task_released db tid f)
  then show ?case by (intro assignment_task_released)
next
  case (task_assigned t db l f)
  then show ?case by (intro assignment_task_assigned)
qed (auto intro: assignment_inv_same)

section \<open>Enrolments and credentials\<close>

definition claimed :: "enrollment \<Rightarrow> bool" where
  "claimed e \<longleftrightarrow> en_claimed_at e \<noteq> None"

definition live :: "enrollment \<Rightarrow> bool" where
  "live e \<longleftrightarrow> en_revoked_at e = None"

definition credential_inv :: "runner_db \<Rightarrow> bool" where
  "credential_inv db \<longleftrightarrow>
     distinct (map en_enrollment_id (enrollments db)) \<and>
     distinct (map en_token_digest (enrollments db)) \<and>
     distinct (map cr_credential_id (credentials db)) \<and>
     (\<forall>e \<in> set (enrollments db). \<forall>x \<in> set (enrollments db).
        en_runner_id e = en_runner_id x \<longrightarrow> live e \<longrightarrow> live x \<longrightarrow> e = x) \<and>
     (\<forall>e \<in> set (enrollments db). (claimed e \<longrightarrow> live e) \<and>
        en_runner_id e \<in> set (map rn_id (runners db))) \<and>
     (\<forall>c \<in> set (credentials db).
        \<exists>e \<in> set (enrollments db). claimed e \<and> en_runner_id e = cr_runner_id c) \<and>
     (\<forall>c \<in> set (credentials db). \<forall>d \<in> set (credentials db).
        cr_runner_id c = cr_runner_id d \<longrightarrow> cr_active c \<longrightarrow> cr_active d \<longrightarrow> c = d) \<and>
     (\<forall>r \<in> set (runners db). rn_admin_state r = Adm_revoked \<longrightarrow> no_active_credential db (rn_id r))"

lemma credential_invI:
  assumes "distinct (map en_enrollment_id (enrollments db))"
    and "distinct (map en_token_digest (enrollments db))"
    and "distinct (map cr_credential_id (credentials db))"
    and "\<And>e x. e \<in> set (enrollments db) \<Longrightarrow> x \<in> set (enrollments db) \<Longrightarrow>
      en_runner_id e = en_runner_id x \<Longrightarrow> live e \<Longrightarrow> live x \<Longrightarrow> e = x"
    and "\<And>e. e \<in> set (enrollments db) \<Longrightarrow> claimed e \<Longrightarrow> live e"
    and "\<And>e. e \<in> set (enrollments db) \<Longrightarrow> en_runner_id e \<in> set (map rn_id (runners db))"
    and "\<And>c. c \<in> set (credentials db) \<Longrightarrow>
      \<exists>e \<in> set (enrollments db). claimed e \<and> en_runner_id e = cr_runner_id c"
    and "\<And>c d. c \<in> set (credentials db) \<Longrightarrow> d \<in> set (credentials db) \<Longrightarrow>
      cr_runner_id c = cr_runner_id d \<Longrightarrow> cr_active c \<Longrightarrow> cr_active d \<Longrightarrow> c = d"
    and "\<And>r c. r \<in> set (runners db) \<Longrightarrow> rn_admin_state r = Adm_revoked \<Longrightarrow>
      c \<in> set (credentials db) \<Longrightarrow> cr_runner_id c = rn_id r \<Longrightarrow> \<not> cr_active c"
  shows "credential_inv db"
  unfolding credential_inv_def using assms(1-3) by (intro conjI ballI impI) (rule assms; assumption | assumption)+

lemma credential_invD:
  assumes "credential_inv db"
  shows "distinct (map en_enrollment_id (enrollments db))"
    and "distinct (map en_token_digest (enrollments db))"
    and "distinct (map cr_credential_id (credentials db))"
    and "e \<in> set (enrollments db) \<Longrightarrow> x \<in> set (enrollments db) \<Longrightarrow>
      en_runner_id e = en_runner_id x \<Longrightarrow> live e \<Longrightarrow> live x \<Longrightarrow> e = x"
    and "e \<in> set (enrollments db) \<Longrightarrow> claimed e \<Longrightarrow> live e"
    and "e \<in> set (enrollments db) \<Longrightarrow> en_runner_id e \<in> set (map rn_id (runners db))"
    and "c \<in> set (credentials db) \<Longrightarrow>
      \<exists>e \<in> set (enrollments db). claimed e \<and> en_runner_id e = cr_runner_id c"
    and "c \<in> set (credentials db) \<Longrightarrow> d \<in> set (credentials db) \<Longrightarrow>
      cr_runner_id c = cr_runner_id d \<Longrightarrow> cr_active c \<Longrightarrow> cr_active d \<Longrightarrow> c = d"
    and "r \<in> set (runners db) \<Longrightarrow> rn_admin_state r = Adm_revoked \<Longrightarrow>
      c \<in> set (credentials db) \<Longrightarrow> cr_runner_id c = rn_id r \<Longrightarrow> \<not> cr_active c"
  using assms unfolding credential_inv_def by blast+

lemma credential_runners_edited:
  assumes inv: "credential_inv db"
    and id: "\<And>r. r \<in> set (runners db) \<Longrightarrow> p r \<Longrightarrow> rn_id (f r) = rn_id r"
    and adm: "\<And>r. r \<in> set (runners db) \<Longrightarrow> p r \<Longrightarrow> rn_admin_state (f r) = Adm_revoked
      \<Longrightarrow> no_active_credential db (rn_id r)"
  shows "credential_inv (db\<lparr>runners := update_where p f (runners db)\<rparr>)" (is "credential_inv ?db")
proof (rule credential_invI)
  have "map rn_id (runners ?db) = map rn_id (runners db)"
    by simp (rule map_update_where_on, rule id)
  then show "en_runner_id e \<in> set (map rn_id (runners ?db))" if "e \<in> set (enrollments ?db)" for e
    using that credential_invD(6) [OF inv] by simp
  show "\<not> cr_active c" if "r \<in> set (runners ?db)" "rn_admin_state r = Adm_revoked"
    "c \<in> set (credentials ?db)" "cr_runner_id c = rn_id r" for r c
  proof -
    from that(1) obtain q where q: "q \<in> set (runners db)" "r = (if p q then f q else q)"
      by (auto simp: update_where_mem)
    show ?thesis
    proof (cases "p q")
      case True
      with q id [OF q(1)] adm [OF q(1)] that(2-4) show ?thesis by auto
    qed (use q that(2-4) credential_invD(9) [OF inv q(1)] in auto)
  qed
qed (use credential_invD(1-5,7,8) [OF inv] in simp_all)

lemma credential_runner_enrolled:
  assumes inv: "credential_inv db" and r: "rn_id r \<notin> set (map rn_id (runners db))"
    "rn_admin_state r \<noteq> Adm_revoked"
    and e: "en_enrollment_id e \<notin> set (map en_enrollment_id (enrollments db))"
    "en_token_digest e \<notin> set (map en_token_digest (enrollments db))"
    "en_runner_id e = rn_id r" "en_claimed_at e = None"
  shows "credential_inv (db\<lparr>runners := insert_row r (runners db),
    enrollments := insert_row e (enrollments db)\<rparr>)" (is "credential_inv ?db")
proof (rule credential_invI)
  have other: "en_runner_id x \<noteq> en_runner_id e" if "x \<in> set (enrollments db)" for x
    using credential_invD(6) [OF inv that] r(1) e(3) by auto
  show "a = x" if "a \<in> set (enrollments ?db)" "x \<in> set (enrollments ?db)"
    "en_runner_id a = en_runner_id x" "live a" "live x" for a x
    using that other credential_invD(4) [OF inv] by simp metis
  show "\<exists>e \<in> set (enrollments ?db). claimed e \<and> en_runner_id e = cr_runner_id c"
    if "c \<in> set (credentials ?db)" for c
    using that credential_invD(7) [OF inv, of c] by auto
qed (use credential_invD(1,2,3,5,6,8,9) [OF inv] r e in \<open>auto simp: claimed_def live_def\<close>)

lemma credential_enrollment_claimed:
  assumes inv: "credential_inv db"
    and e: "e \<in> set (enrollments db)" "en_claimed_at e = None" "en_revoked_at e = None"
    and c: "cr_runner_id c = en_runner_id e" "cr_active c"
    "cr_credential_id c \<notin> set (map cr_credential_id (credentials db))"
    "\<And>r. r \<in> set (runners db) \<Longrightarrow> rn_id r = cr_runner_id c \<Longrightarrow> rn_admin_state r \<noteq> Adm_revoked"
  shows "credential_inv (db\<lparr>enrollments := update_where
      (\<lambda>x. en_enrollment_id x = en_enrollment_id e) (\<lambda>x. x\<lparr>en_claimed_at := Some now\<rparr>) (enrollments db),
    credentials := insert_row c (credentials db)\<rparr>)" (is "credential_inv ?db")
proof (rule credential_invI)
  have only: "x = e" if "x \<in> set (enrollments db)" "en_enrollment_id x = en_enrollment_id e" for x
    using that e(1) credential_invD(1) [OF inv] by (metis distinct_map inj_onD)
  let ?e = "e\<lparr>en_claimed_at := Some now\<rparr>"
  have rows: "set (enrollments ?db) = insert ?e (set (enrollments db) - {e})"
  proof (rule set_eqI)
    fix x
    have "x \<in> set (enrollments ?db) \<longleftrightarrow> (\<exists>u \<in> set (enrollments db).
        x = (if en_enrollment_id u = en_enrollment_id e then u\<lparr>en_claimed_at := Some now\<rparr> else u))"
      by (simp add: update_where_mem)
    also have "\<dots> \<longleftrightarrow> x \<in> insert ?e (set (enrollments db) - {e})"
      using e(1) only by (metis Diff_iff insert_iff singletonD)
    finally show "x \<in> set (enrollments ?db) \<longleftrightarrow> x \<in> insert ?e (set (enrollments db) - {e})" .
  qed
  have new: "cr_runner_id d \<noteq> cr_runner_id c" if d: "d \<in> set (credentials db)" for d
  proof
    assume "cr_runner_id d = cr_runner_id c"
    with credential_invD(7) [OF inv d] c(1) obtain x where "x \<in> set (enrollments db)" "claimed x"
      "en_runner_id x = en_runner_id e" by auto
    moreover from this have "live x" using credential_invD(5) [OF inv] by blast
    ultimately have "x = e" using credential_invD(4) [OF inv _ e(1)] e(3) by (simp add: live_def)
    with \<open>claimed x\<close> e(2) show False by (simp add: claimed_def)
  qed
  have maps: "map k (enrollments ?db) = map k (enrollments db)"
    if "\<And>x n. k (x\<lparr>en_claimed_at := n\<rparr>) = k x" for k :: "enrollment \<Rightarrow> string"
    by simp (rule map_update_where, rule that)
  show "distinct (map en_enrollment_id (enrollments ?db))"
    using credential_invD(1) [OF inv] by (subst maps) simp_all
  show "distinct (map en_token_digest (enrollments ?db))"
    using credential_invD(2) [OF inv] by (subst maps) simp_all
  show "a = x" if "a \<in> set (enrollments ?db)" "x \<in> set (enrollments ?db)"
    "en_runner_id a = en_runner_id x" "live a" "live x" for a x
    using that credential_invD(4) [OF inv] e(1,3) unfolding rows by (auto simp: live_def)
  show "live x" if "x \<in> set (enrollments ?db)" "claimed x" for x
    using that credential_invD(5) [OF inv] e(3) unfolding rows by (auto simp: live_def)
  show "en_runner_id x \<in> set (map rn_id (runners ?db))" if "x \<in> set (enrollments ?db)" for x
    using that credential_invD(6) [OF inv] e(1) unfolding rows by auto
  show "\<exists>x \<in> set (enrollments ?db). claimed x \<and> en_runner_id x = cr_runner_id d"
    if "d \<in> set (credentials ?db)" for d
  proof (cases "cr_runner_id d = cr_runner_id c")
    case True
    then show ?thesis unfolding rows using c(1) by (auto simp: claimed_def)
  next
    case False
    with that have "d \<in> set (credentials db)" by auto
    from credential_invD(7) [OF inv this] show ?thesis unfolding rows using False c(1) by auto
  qed
  show "a = d" if "a \<in> set (credentials ?db)" "d \<in> set (credentials ?db)"
    "cr_runner_id a = cr_runner_id d" "cr_active a" "cr_active d" for a d
    using that new credential_invD(8) [OF inv] by fastforce
  show "\<not> cr_active d" if "r \<in> set (runners ?db)" "rn_admin_state r = Adm_revoked"
    "d \<in> set (credentials ?db)" "cr_runner_id d = rn_id r" for r d
    using that c(4) credential_invD(9) [OF inv] by auto
qed (use credential_invD(3) [OF inv] c(3) in simp)

lemma credential_enrollments_revoked:
  assumes inv: "credential_inv db"
    and p: "\<And>e. e \<in> set (enrollments db) \<Longrightarrow> p e \<Longrightarrow> en_claimed_at e = None"
  shows "credential_inv (db\<lparr>enrollments := update_where p
      (\<lambda>x. x\<lparr>en_revoked_at := Some now\<rparr>) (enrollments db)\<rparr>)" (is "credential_inv ?db")
proof (rule credential_invI)
  have maps: "map k (enrollments ?db) = map k (enrollments db)"
    if "\<And>x n. k (x\<lparr>en_revoked_at := n\<rparr>) = k x" for k :: "enrollment \<Rightarrow> string"
    by simp (rule map_update_where, rule that)
  show "distinct (map en_enrollment_id (enrollments ?db))"
    using credential_invD(1) [OF inv] by (subst maps) simp_all
  show "distinct (map en_token_digest (enrollments ?db))"
    using credential_invD(2) [OF inv] by (subst maps) simp_all
  show "\<exists>x \<in> set (enrollments ?db). claimed x \<and> en_runner_id x = cr_runner_id d"
    if "d \<in> set (credentials ?db)" for d
  proof -
    from that credential_invD(7) [OF inv] obtain x where x: "x \<in> set (enrollments db)" "claimed x"
      "en_runner_id x = cr_runner_id d" by auto
    then have "x \<in> set (enrollments ?db)" using p [OF x(1)] by (force simp: update_where_mem claimed_def)
    with x show ?thesis by blast
  qed
  show "a = x" if "a \<in> set (enrollments ?db)" "x \<in> set (enrollments ?db)"
    "en_runner_id a = en_runner_id x" "live a" "live x" for a x
    using that credential_invD(4) [OF inv] by (auto simp: update_where_mem live_def split: if_splits)
  show "live x" if "x \<in> set (enrollments ?db)" "claimed x" for x
    using that credential_invD(5) [OF inv] p
    by (auto simp: update_where_mem live_def claimed_def split: if_splits)
  show "en_runner_id x \<in> set (map rn_id (runners ?db))" if "x \<in> set (enrollments ?db)" for x
    using that credential_invD(6) [OF inv] by (auto simp: update_where_mem split: if_splits)
qed (use credential_invD(3,8,9) [OF inv] in simp_all)

lemma credential_enrollment_added:
  assumes inv: "credential_inv db"
    and e: "en_enrollment_id e \<notin> set (map en_enrollment_id (enrollments db))"
    "en_token_digest e \<notin> set (map en_token_digest (enrollments db))"
    "en_claimed_at e = None" "en_runner_id e \<in> set (map rn_id (runners db))"
    and x: "\<And>x. x \<in> set (enrollments db) \<Longrightarrow> en_runner_id x = en_runner_id e \<Longrightarrow> en_revoked_at x \<noteq> None"
  shows "credential_inv (db\<lparr>enrollments := insert_row e (enrollments db)\<rparr>)" (is "credential_inv ?db")
proof (rule credential_invI)
  show "a = x" if "a \<in> set (enrollments ?db)" "x \<in> set (enrollments ?db)"
    "en_runner_id a = en_runner_id x" "live a" "live x" for a x
    using that x credential_invD(4) [OF inv] unfolding live_def by simp (metis option.distinct(1))
  show "\<exists>e \<in> set (enrollments ?db). claimed e \<and> en_runner_id e = cr_runner_id c"
    if "c \<in> set (credentials ?db)" for c
    using that credential_invD(7) [OF inv, of c] by auto
qed (use credential_invD(1,2,3,5,6,8,9) [OF inv] e in \<open>auto simp: claimed_def live_def\<close>)

lemma credential_credentials_revoked:
  assumes inv: "credential_inv db"
  shows "credential_inv (db\<lparr>credentials := update_where p
      (\<lambda>c. c\<lparr>cr_active := False, cr_revoked_at := Some now\<rparr>) (credentials db)\<rparr>)" (is "credential_inv ?db")
proof (rule credential_invI)
  have "map cr_credential_id (credentials ?db) = map cr_credential_id (credentials db)"
    by simp (rule map_update_where, simp)
  then show "distinct (map cr_credential_id (credentials ?db))"
    using credential_invD(3) [OF inv] by (simp only:)
  show "a = d" if "a \<in> set (credentials ?db)" "d \<in> set (credentials ?db)"
    "cr_runner_id a = cr_runner_id d" "cr_active a" "cr_active d" for a d
    using that credential_invD(8) [OF inv] by (auto simp: update_where_mem split: if_splits)
  show "\<exists>e \<in> set (enrollments ?db). claimed e \<and> en_runner_id e = cr_runner_id c"
    if "c \<in> set (credentials ?db)" for c
    using that credential_invD(7) [OF inv] by (auto simp: update_where_mem)
  show "\<not> cr_active d" if "r \<in> set (runners ?db)" "rn_admin_state r = Adm_revoked"
    "d \<in> set (credentials ?db)" "cr_runner_id d = rn_id r" for r d
    using that credential_invD(9) [OF inv] by (auto simp: update_where_mem split: if_splits)
qed (use credential_invD(1,2,4,5,6) [OF inv] in simp_all)

lemma credential_inv_rotated:
  assumes inv: "credential_inv db"
    and c: "cr_credential_id c \<notin> set (map cr_credential_id (credentials db))"
    "no_active_credential db (cr_runner_id c)"
    "cr_runner_id c \<in> set (map cr_runner_id (credentials db))"
    "\<And>r. r \<in> set (runners db) \<Longrightarrow> rn_id r = cr_runner_id c \<Longrightarrow> rn_admin_state r \<noteq> Adm_revoked"
  shows "credential_inv (db\<lparr>credentials := insert_row c (credentials db)\<rparr>)" (is "credential_inv ?db")
proof (rule credential_invI)
  from c(3) obtain d where d: "d \<in> set (credentials db)" "cr_runner_id d = cr_runner_id c" by auto
  show "\<exists>e \<in> set (enrollments ?db). claimed e \<and> en_runner_id e = cr_runner_id a"
    if "a \<in> set (credentials ?db)" for a
    using that credential_invD(7) [OF inv] d by auto (metis)
  show "a = d" if "a \<in> set (credentials ?db)" "d \<in> set (credentials ?db)"
    "cr_runner_id a = cr_runner_id d" "cr_active a" "cr_active d" for a d
    using that c(2) credential_invD(8) [OF inv] by fastforce
  show "\<not> cr_active d" if "r \<in> set (runners ?db)" "rn_admin_state r = Adm_revoked"
    "d \<in> set (credentials ?db)" "cr_runner_id d = rn_id r" for r d
    using that c(4) credential_invD(9) [OF inv] by auto
qed (use credential_invD(1-6) [OF inv] c(1) in simp_all)

lemma credential_inv_same:
  assumes "credential_inv db" and "runners db' = runners db"
    and "enrollments db' = enrollments db" and "credentials db' = credentials db"
  shows "credential_inv db'"
  using assms unfolding credential_inv_def by simp

theorem credential_change: "runner_change db db' \<Longrightarrow> credential_inv db \<Longrightarrow> credential_inv db'"
proof (induction rule: runner_change.induct)
  case (runners_edited db p f)
  then show ?case by (intro credential_runners_edited) blast+
next
  case (runner_enrolled r db e)
  then show ?case by (intro credential_runner_enrolled)
next
  case (enrollment_claimed e db c now)
  then show ?case by (intro credential_enrollment_claimed)
next
  case (enrollments_revoked db p now)
  then show ?case by (intro credential_enrollments_revoked)
next
  case (enrollment_added e db)
  then show ?case by (intro credential_enrollment_added)
next
  case (credentials_revoked db p now)
  then show ?case by (rule credential_credentials_revoked)
next
  case (credential_rotated c db)
  then show ?case by (intro credential_inv_rotated)
qed (rule credential_inv_same; simp)+

section \<open>What no change takes back\<close>

definition task_kept :: "task \<Rightarrow> task \<Rightarrow> bool" where
  "task_kept t u \<longleftrightarrow>
     task_identity u = task_identity t \<and> tk_assignment_epoch t \<le> tk_assignment_epoch u \<and>
     (tk_ever_running t \<longrightarrow> tk_ever_running u \<and> task_holding u = task_holding t)"

definition enrollment_kept :: "enrollment \<Rightarrow> enrollment \<Rightarrow> bool" where
  "enrollment_kept e x \<longleftrightarrow>
     en_enrollment_id x = en_enrollment_id e \<and> en_runner_id x = en_runner_id e \<and>
     en_token_digest x = en_token_digest e \<and> (claimed e \<longrightarrow> en_claimed_at x = en_claimed_at e)"

definition keeps_history :: "runner_db \<Rightarrow> runner_db \<Rightarrow> bool" where
  "keeps_history db db' \<longleftrightarrow>
     (\<forall>t \<in> set (tasks db). \<exists>u \<in> set (tasks db'). task_kept t u) \<and>
     (\<forall>e \<in> set (enrollments db). \<exists>x \<in> set (enrollments db'). enrollment_kept e x) \<and>
     (\<exists>as. admin_requests db' = admin_requests db @ as) \<and>
     (\<exists>cs. command_requests db' = command_requests db @ cs)"

lemma task_kept_refl [simp]: "task_kept t t"
  by (simp add: task_kept_def)

lemma task_stays: "t \<in> A \<Longrightarrow> \<exists>u \<in> A. task_kept t u"
  by (rule bexI) simp_all

lemma enrollment_kept_refl [simp]: "enrollment_kept e e"
  by (simp add: enrollment_kept_def)

lemma enrollment_stays: "e \<in> A \<Longrightarrow> \<exists>x \<in> A. enrollment_kept e x"
  by (rule bexI) simp_all

lemma keeps_history_refl [simp]: "keeps_history db db"
  by (auto simp: keeps_history_def intro: task_stays enrollment_stays)

lemma task_kept_trans: "task_kept t u \<Longrightarrow> task_kept u v \<Longrightarrow> task_kept t v"
  unfolding task_kept_def by auto

lemma enrollment_kept_trans: "enrollment_kept e x \<Longrightarrow> enrollment_kept x y \<Longrightarrow> enrollment_kept e y"
  unfolding enrollment_kept_def claimed_def by auto

lemma keeps_history_trans:
  assumes ab: "keeps_history a b" and bc: "keeps_history b c"
  shows "keeps_history a c"
  unfolding keeps_history_def
proof (intro conjI ballI)
  show "\<exists>v \<in> set (tasks c). task_kept t v" if "t \<in> set (tasks a)" for t
    using that ab bc task_kept_trans unfolding keeps_history_def by metis
  show "\<exists>y \<in> set (enrollments c). enrollment_kept e y" if "e \<in> set (enrollments a)" for e
    using that ab bc enrollment_kept_trans unfolding keeps_history_def by metis
  show "\<exists>as. admin_requests c = admin_requests a @ as"
    using ab bc unfolding keeps_history_def by (metis append_assoc)
  show "\<exists>cs. command_requests c = command_requests a @ cs"
    using ab bc unfolding keeps_history_def by (metis append_assoc)
qed

lemma history_tasks:
  assumes "\<And>t. t \<in> set (tasks db) \<Longrightarrow> p t \<Longrightarrow> task_kept t (f t)"
  shows "keeps_history db (db\<lparr>tasks := update_where p f (tasks db)\<rparr>)"
proof -
  have "\<exists>u \<in> set (update_where p f (tasks db)). task_kept t u" if "t \<in> set (tasks db)" for t
    using assms that by (intro update_where_survives) auto
  then show ?thesis unfolding keeps_history_def by (auto intro: enrollment_stays)
qed

lemma history_enrollments:
  assumes "\<And>e. e \<in> set (enrollments db) \<Longrightarrow> p e \<Longrightarrow> enrollment_kept e (f e)"
  shows "keeps_history db (db\<lparr>enrollments := update_where p f (enrollments db)\<rparr>)"
proof -
  have "\<exists>x \<in> set (update_where p f (enrollments db)). enrollment_kept e x"
    if "e \<in> set (enrollments db)" for e
    using assms that by (intro update_where_survives) auto
  then show ?thesis unfolding keeps_history_def by (auto intro: task_stays)
qed

text \<open>Rows only added, or of tables the history does not hold.\<close>

lemma history_added:
  assumes "set (tasks db) \<subseteq> set (tasks db')" and "set (enrollments db) \<subseteq> set (enrollments db')"
    and "admin_requests db' = admin_requests db @ as"
    and "command_requests db' = command_requests db @ cs"
  shows "keeps_history db db'"
  using assms unfolding keeps_history_def
  by (auto intro: task_stays enrollment_stays)

lemma history_same_tables:
  assumes "keeps_history db a" and "tasks b = tasks a" and "enrollments b = enrollments a"
    and "admin_requests b = admin_requests a" and "command_requests b = command_requests a"
  shows "keeps_history db b"
  using assms unfolding keeps_history_def by simp

theorem history_change:
  "runner_change db db' \<Longrightarrow> assignment_inv db \<Longrightarrow> credential_inv db \<Longrightarrow> keeps_history db db'"
proof (induction rule: runner_change.induct)
  case (enrollment_claimed e db c now)
  have "x = e" if "x \<in> set (enrollments db)" "en_enrollment_id x = en_enrollment_id e" for x
    using that enrollment_claimed credential_invD(1) by (metis distinct_map inj_onD)
  then have "keeps_history db (db\<lparr>enrollments := update_where
      (\<lambda>x. en_enrollment_id x = en_enrollment_id e) (\<lambda>x. x\<lparr>en_claimed_at := Some now\<rparr>) (enrollments db)\<rparr>)"
    using enrollment_claimed(2)
    by (intro history_enrollments) (fastforce simp: enrollment_kept_def claimed_def)
  then show ?case by (rule history_same_tables) simp_all
next
  case (enrollments_revoked db p now)
  then show ?case by (intro history_enrollments) (auto simp: enrollment_kept_def)
next
  case (task_edited db tid f)
  then show ?case unfolding set_task_def by (intro history_tasks) (auto simp: task_kept_def)
next
  case (task_released db tid f)
  then show ?case unfolding set_task_def by (intro history_tasks) (auto simp: task_kept_def)
next
  case (task_assigned t db l f)
  have t_only: "u = t" if "u \<in> set (tasks db)" "tk_id u = tk_id t" for u
    using that task_assigned(1) assignment_invD(2) [OF task_assigned(12)]
    by (metis distinct_map inj_onD)
  have "\<not> tk_ever_running t"
    using assignment_invD(5) [OF task_assigned(12,1)] task_assigned(2)
    by (simp add: task_ok_def split: option.splits)
  then have "task_kept t (f t)" using task_assigned(7-9) unfolding task_kept_def by simp
  then have "keeps_history db (db\<lparr>tasks := update_where (\<lambda>u. tk_id u = tk_id t) f (tasks db)\<rparr>)"
    using t_only by (intro history_tasks) auto
  then show ?case by (rule history_same_tables) simp_all
qed (rule history_added; auto)+

section \<open>All of it\<close>

definition runner_inv :: "runner_db \<Rightarrow> bool" where
  "runner_inv db \<longleftrightarrow> assignment_inv db \<and> credential_inv db"

lemma runner_inv_empty [simp]: "runner_inv empty_runner_db"
  by (simp add: runner_inv_def assignment_inv_def credential_inv_def empty_runner_db_def)

lemma runner_inv_change: "runner_change db db' \<Longrightarrow> runner_inv db \<Longrightarrow> runner_inv db'"
  using assignment_change credential_change by (auto simp: runner_inv_def)

lemma changes_history:
  "runner_change\<^sup>*\<^sup>* db db' \<Longrightarrow> runner_inv db \<Longrightarrow> runner_inv db' \<and> keeps_history db db'"
proof (induction rule: rtranclp_induct)
  case (step y z)
  then have inv: "runner_inv y" "keeps_history db y" by simp_all
  moreover have "keeps_history y z"
    using step(2) inv(1) by (intro history_change) (simp_all add: runner_inv_def)
  ultimately show ?case using step(2) runner_inv_change keeps_history_trans by blast
qed simp

end
