(* ===== verification/Runner_Steps.thy ===== *)
theory Runner_Steps
  imports Runner_Changes "HOL-Library.Multiset"
begin

text \<open>
  The operations of the runner store refine the specification: whatever an operation does to the
  tables is a sequence of the changes of \<open>Runner_Changes\<close>.
\<close>

abbreviation changes :: "runner_db \<Rightarrow> runner_db \<Rightarrow> bool" where
  "changes \<equiv> runner_change\<^sup>*\<^sup>*"

lemma update_where_ball:
  "(\<forall>x \<in> set (update_where p f t). Q x) \<longleftrightarrow> (\<forall>r \<in> set t. Q (if p r then f r else r))"
  by (auto simp: set_update_where)

section \<open>Lookups\<close>

lemma runner_invD:
  assumes "runner_inv db"
  shows "assignment_inv db" and "credential_inv db"
  using assms by (simp_all add: runner_inv_def)

lemma find_runnerD:
  "find_runner db rid = Some r \<Longrightarrow> r \<in> set (runners db) \<and> rn_id r = rid"
  unfolding find_runner_def by (drule select_one_Some_iff) simp

lemma find_taskD:
  "find_task db tid = Some t \<Longrightarrow> t \<in> set (tasks db) \<and> tk_id t = tid"
  unfolding find_task_def by (drule select_one_Some_iff) simp

lemma runner_unique:
  "runner_inv db \<Longrightarrow> r \<in> set (runners db) \<Longrightarrow> q \<in> set (runners db) \<Longrightarrow> rn_id r = rn_id q \<Longrightarrow> r = q"
  by (drule runner_invD(1), drule assignment_invD(1)) (metis distinct_map inj_onD)

lemma task_unique:
  "runner_inv db \<Longrightarrow> t \<in> set (tasks db) \<Longrightarrow> u \<in> set (tasks db) \<Longrightarrow> tk_id t = tk_id u \<Longrightarrow> t = u"
  by (drule runner_invD(1), drule assignment_invD(2)) (metis distinct_map inj_onD)

lemma enrollment_unique:
  "runner_inv db \<Longrightarrow> e \<in> set (enrollments db) \<Longrightarrow> x \<in> set (enrollments db) \<Longrightarrow>
   en_enrollment_id e = en_enrollment_id x \<Longrightarrow> e = x"
  by (drule runner_invD(2), drule credential_invD(1)) (metis distinct_map inj_onD)

lemma find_task_member:
  "runner_inv db \<Longrightarrow> t \<in> set (tasks db) \<Longrightarrow> find_task db (tk_id t) = Some t"
  unfolding find_task_def by (rule select_one_key) (auto dest: runner_invD assignment_invD)

lemma current_held:
  "runner_inv db \<Longrightarrow> r \<in> set (runners db) \<Longrightarrow> rn_current_task_id r = Some a \<Longrightarrow> held_by db a (rn_id r)"
  by (drule runner_invD(1), drule (1) assignment_invD(7)) (simp add: runner_ok_def)

lemma revoked_inactive:
  "runner_inv db \<Longrightarrow> r \<in> set (runners db) \<Longrightarrow> rn_admin_state r = Adm_revoked \<Longrightarrow>
   no_active_credential db (rn_id r)"
  by (drule runner_invD(2)) (blast dest: credential_invD(9))

text \<open>Who holds a task, of the runners whose current task it is.\<close>

lemma current_holder:
  assumes inv: "runner_inv db" and "r \<in> set (runners db)" "rn_current_task_id r = Some (tk_id t)"
    and "t \<in> set (tasks db)"
  shows "tk_assigned_runner_id t = Some (rn_id r)"
  using current_held [OF inv assms(2,3)] task_unique [OF inv _ assms(4)] unfolding held_by_def by blast

lemma assigned_task:
  assumes inv: "runner_inv db" and t: "t \<in> set (tasks db)" and "tk_assigned_runner_id t \<noteq> None"
  obtains rid lid l where "tk_assigned_runner_id t = Some rid" "tk_lease_id t = Some lid" "rid \<noteq> []"
    "lid \<noteq> []" "tk_state t \<noteq> Waiting_runner" "l \<in> set (runner_leases db)"
    "lease_identity l = (lid, tk_id t, rid, tk_assignment_epoch t)"
proof -
  obtain rid where rid: "tk_assigned_runner_id t = Some rid" using assms(3) by auto
  have ok: "task_ok db t" by (rule assignment_invD(5) [OF runner_invD(1) [OF inv] t])
  with rid obtain lid where lid: "tk_lease_id t = Some lid"
    by (cases "tk_lease_id t") (simp_all add: task_ok_def)
  from ok rid lid obtain l where l: "l \<in> set (runner_leases db)"
    "lease_identity l = (lid, tk_id t, rid, tk_assignment_epoch t)"
    and "rid \<noteq> []" "tk_state t \<noteq> Waiting_runner" by (auto simp: task_ok_def)
  moreover have "lid \<noteq> []"
    using assignment_invD(6) [OF runner_invD(1) [OF inv] l(1)] l(2) by (auto simp: lease_ok_def)
  ultimately show thesis using that rid lid by blast
qed

lemma unassigned_task:
  "runner_inv db \<Longrightarrow> t \<in> set (tasks db) \<Longrightarrow> tk_assigned_runner_id t = None \<Longrightarrow>
   tk_lease_id t = None \<and> \<not> tk_ever_running t"
  using assignment_invD(5) [OF runner_invD(1)] by (fastforce simp: task_ok_def split: option.splits)

lemma waiting_unassigned:
  "runner_inv db \<Longrightarrow> t \<in> set (tasks db) \<Longrightarrow> tk_state t = Waiting_runner \<Longrightarrow> tk_assigned_runner_id t = None"
  using assigned_task by blast

lemma active_lease_of:
  assumes inv: "runner_inv db" and l: "l \<in> set (runner_leases db)" "rl_state l = Lease_active"
    and t: "t \<in> set (tasks db)" "tk_id t = rl_task_id l"
  shows "task_holding t = (Some (rl_runner_id l), rl_assignment_epoch l, Some (rl_lease_id l))"
proof -
  from assignment_invD(6) [OF runner_invD(1) [OF inv] l(1)] l(2) obtain u where
    "u \<in> set (tasks db)" "tk_id u = rl_task_id l"
    "task_holding u = (Some (rl_runner_id l), rl_assignment_epoch l, Some (rl_lease_id l))"
    unfolding lease_ok_def by auto
  with t task_unique [OF inv] show ?thesis by metis
qed

section \<open>Single changes\<close>

lemma change_one: "runner_change db db' \<Longrightarrow> changes db db'"
  by (rule r_into_rtranclp)

lemma changes_step: "changes a b \<Longrightarrow> runner_change b c \<Longrightarrow> changes a c"
  by (rule rtranclp.rtrancl_into_rtrancl)

lemma changes_inv: "changes db db' \<Longrightarrow> runner_inv db \<Longrightarrow> runner_inv db'"
  using changes_history by blast

lemma note_event: "runner_change db (log_event ty r t m db)"
proof -
  have "log_event ty r t m db = db\<lparr>runner_messages := runner_messages db,
      admin_requests := admin_requests db @ [], command_requests := command_requests db @ [],
      runner_events := runner_events (log_event ty r t m db)\<rparr>"
    by (simp add: log_event_def)
  then show ?thesis by (metis noted)
qed

lemma note_admin_replay: "runner_change db (save_admin_replay q a b r s db)"
proof -
  have "save_admin_replay q a b r s db = db\<lparr>runner_messages := runner_messages db,
      admin_requests := admin_requests db @ [\<lparr>aq_request_id = q, aq_action = a, aq_body_digest = b,
        aq_runner_id = r, aq_response = s\<rparr>], command_requests := command_requests db @ [],
      runner_events := runner_events db\<rparr>"
    by (simp add: save_admin_replay_def insert_row_def)
  then show ?thesis by (metis noted)
qed

lemma note_command: "insert_command q o' b t db = Inr db' \<Longrightarrow> runner_change db db'"
proof -
  assume "insert_command q o' b t db = Inr db'"
  then have "db' = db\<lparr>runner_messages := runner_messages db,
      admin_requests := admin_requests db @ [], command_requests := command_requests db @
        [\<lparr>cq_request_id = q, cq_operation = o', cq_body_digest = b, cq_task_id = t\<rparr>],
      runner_events := runner_events db\<rparr>"
    by (auto simp: insert_command_def insert_row_def split: if_splits)
  then show ?thesis by (metis noted)
qed

lemma note_message: "runner_change db (db\<lparr>runner_messages := ms\<rparr>)"
proof -
  have "db\<lparr>runner_messages := ms\<rparr> = db\<lparr>runner_messages := ms,
      admin_requests := admin_requests db @ [], command_requests := command_requests db @ [],
      runner_events := runner_events db\<rparr>" by simp
  then show ?thesis by (metis noted)
qed

text \<open>An update of one runner that leaves its task alone, or takes it away.\<close>

lemma edit_runner:
  assumes inv: "runner_inv db"
    and "\<And>r. r \<in> set (runners db) \<Longrightarrow> rn_id r = rid \<Longrightarrow> rn_id (f r) = rid \<and>
      (rn_current_task_id (f r) = rn_current_task_id r \<or> rn_current_task_id (f r) = None
       \<or> (\<exists>a. rn_current_task_id (f r) = Some a \<and> held_by db a rid)) \<and>
      (rn_admin_state (f r) = Adm_revoked \<longrightarrow>
         rn_admin_state r = Adm_revoked \<or> no_active_credential db rid)"
  shows "runner_change db (set_runner rid f db)"
  unfolding set_runner_def
proof (rule runners_edited)
  fix r assume r: "r \<in> set (runners db)" "rn_id r = rid"
  note f = assms(2) [OF r]
  from f r show "rn_id (f r) = rn_id r" by simp
  show "held_by db a (rn_id r)" if "rn_current_task_id (f r) = Some a" for a
    using f that r current_held [OF inv r(1)] by auto
  show "no_active_credential db (rn_id r)" if "rn_admin_state (f r) = Adm_revoked"
    using f that r revoked_inactive [OF inv r(1)] by auto
qed

text \<open>An update of one task that leaves its assignment alone.\<close>

lemma edit_task:
  assumes "\<And>t. t \<in> set (tasks db) \<Longrightarrow> tk_id t = tid \<Longrightarrow>
        task_identity (f t) = task_identity t \<and> task_holding (f t) = task_holding t \<and>
        tk_ever_running (f t) = tk_ever_running t \<and> tk_state (f t) \<noteq> Waiting_runner"
  shows "runner_change db (set_task tid f db)"
  by (rule task_edited) (use assms in auto)

lemma end_leases_change: "st \<noteq> Lease_active \<Longrightarrow> runner_change db (end_leases tid st now db)"
  unfolding end_leases_def by (rule leases_edited) auto

section \<open>Transactions\<close>

lemma changes_transaction:
  assumes "\<And>a db'. body db = Inr (a, db') \<Longrightarrow> changes db db'"
  shows "changes db (snd (in_transaction body db))"
  using assms by (cases rule: in_transaction_cases [of body db]) auto

lemma changes_administer:
  assumes "\<And>row a s db'. find_runner db rid = Some row \<Longrightarrow> body row db = Inr ((a, s), db') \<Longrightarrow>
    changes db db'"
  shows "changes db (snd (administer q act d rid n body db))"
  unfolding administer_def
proof (rule changes_transaction)
  fix a db' assume "bind_result (admin_replay db q act d rid) (\<lambda>replay.
       case replay of
         Some response \<Rightarrow> Inr (response, db)
       | None \<Rightarrow>
           bind_result (locked_runner db rid n) (\<lambda>row.
           bind_result (body row db) (\<lambda>((response, stored), db).
           Inr (response, save_admin_replay q act d rid stored db)))) = Inr (a, db')"
  then show "changes db db'"
    using assms note_admin_replay
    by (fastforce simp: bind_result_Inr_iff locked_runner_def conflict_def
      split: option.splits if_splits intro: changes_step)
qed

section \<open>Enrolment and administration\<close>

lemma create_enrollment_changes:
  assumes "runner_inv db" and "runner_id \<noteq> []"
  shows "changes db (snd (create_enrollment env cfg p (runner_id, enrollment_id, token) now db))"
proof (cases "validate_enrollment p")
  case (Inr v)
  let ?e = "new_enrollment env enrollment_id runner_id token (eq_request_id v) (runner_digest env (JObj p)) now"
  let ?db = "db\<lparr>runners := insert_row (new_runner v runner_id now) (runners db),
    enrollments := insert_row ?e (enrollments db)\<rparr>"
  have add: "runner_change db ?db" if "insert_runner (new_runner v runner_id now) db = Inr db1"
    "insert_enrollment ?e db1 = Inr db2" for db1 db2
    using that assms(2)
    by (intro runner_enrolled) (auto simp: insert_runner_def insert_enrollment_def new_runner_def
      new_enrollment_def split: if_splits)
  show ?thesis unfolding create_enrollment_def
  proof (simp only: Inr sum.case, rule changes_transaction, simp only: Let_def prod.case, goal_cases)
    case (1 a db')
    then have "db' = db \<or> (\<exists>db1 db2 m. insert_runner (new_runner v runner_id now) db = Inr db1 \<and>
      insert_enrollment ?e db1 = Inr db2 \<and>
      db' = log_event ''runner_enrollment_created'' (Some runner_id) None m db2)"
      by (auto simp: bind_result_Inr_iff conflict_def split: option.splits if_splits)
    then show ?case
    proof (elim disjE exE conjE)
      fix db1 db2 m assume ins: "insert_runner (new_runner v runner_id now) db = Inr db1"
        "insert_enrollment ?e db1 = Inr db2"
        and db': "db' = log_event ''runner_enrollment_created'' (Some runner_id) None m db2"
      have "db2 = ?db" using ins by (auto simp: insert_runner_def insert_enrollment_def split: if_splits)
      with add [OF ins] db' show ?thesis by (auto intro: changes_step note_event)
    qed simp
  qed
qed (simp add: create_enrollment_def)

lemma redeem_enrollment_changes:
  assumes inv: "runner_inv db"
  shows "changes db (snd (redeem_enrollment env cfg p (credential_id, secret) now db))"
proof (cases "validate_redemption p")
  case (Inr v)
  let ?c = "new_credential env credential_id (rd_runner_id v) secret now"
  show ?thesis unfolding redeem_enrollment_def
  proof (simp only: Inr sum.case, rule changes_transaction, simp only: Let_def prod.case, goal_cases)
    case (1 a db')
    then obtain en row db1 m where en: "select_one (\<lambda>e. en_token_digest e = secret_digest env (rd_token v)
         \<and> en_runner_id e = rd_runner_id v) (enrollments db) = Some en"
      and usable: "enrollment_usable en now = Inr ()" and row: "find_runner db (rd_runner_id v) = Some row"
      and checks: "redemption_checks v p en row now = Inr ()"
      and ins: "insert_credential ?c (db\<lparr>enrollments := update_where
           (\<lambda>e. en_enrollment_id e = en_enrollment_id en) (\<lambda>e. e\<lparr>en_claimed_at := Some now\<rparr>)
           (enrollments db)\<rparr>) = Inr db1"
      and db': "db' = log_event ''runner_enrollment_redeemed'' (Some (rd_runner_id v)) None m
           (set_runner (rd_runner_id v) (redeemed_runner v now) db1)"
      by (auto simp: bind_result_Inr_iff conflict_def split: option.splits if_splits)
    have e: "en \<in> set (enrollments db)" "en_runner_id en = rd_runner_id v"
      "en_claimed_at en = None" "en_revoked_at en = None"
      using select_one_Some_iff [OF en] usable
      by (auto simp: enrollment_usable_def conflict_def split: if_splits)
    have r: "rn_admin_state r \<noteq> Adm_revoked" if "r \<in> set (runners db)" "rn_id r = rd_runner_id v" for r
      using find_runnerD [OF row] runner_unique [OF inv that(1)] that(2) checks
      by (auto simp: redemption_checks_def conflict_def split: if_splits)
    have "runner_change db db1"
    proof -
      have "db1 = db\<lparr>enrollments := update_where
          (\<lambda>e. en_enrollment_id e = en_enrollment_id en) (\<lambda>e. e\<lparr>en_claimed_at := Some now\<rparr>)
          (enrollments db), credentials := insert_row ?c (credentials db)\<rparr>"
        "cr_credential_id ?c \<notin> set (map cr_credential_id (credentials db))"
        using ins by (auto simp: insert_credential_def split: if_splits)
      then show ?thesis using e r by (auto intro!: enrollment_claimed simp: new_credential_def)
    qed
    moreover from this have "runner_inv db1" using inv by (rule runner_inv_change)
    then have "runner_change db1 (set_runner (rd_runner_id v) (redeemed_runner v now) db1)"
      by (rule edit_runner) (auto simp: redeemed_runner_def revised_def)
    ultimately show ?case unfolding db' by (intro changes_step [OF _ note_event]) (auto intro: changes_step)
  qed
qed (simp add: redeem_enrollment_def)

definition keeps_runner :: "(runner \<Rightarrow> runner) \<Rightarrow> bool" where
  "keeps_runner f \<longleftrightarrow> (\<forall>r. rn_id (f r) = rn_id r \<and> rn_current_task_id (f r) = rn_current_task_id r \<and>
     (rn_admin_state (f r) = Adm_revoked \<longrightarrow> rn_admin_state r = Adm_revoked))"

lemma edit_kept_runner: "runner_inv db \<Longrightarrow> keeps_runner f \<Longrightarrow> runner_change db (set_runner rid f db)"
  by (rule edit_runner) (auto simp: keeps_runner_def)

lemma keeps_runner_revised [simp]: "keeps_runner (revised now)"
  by (simp add: keeps_runner_def revised_def)

definition keeps_change :: "change \<Rightarrow> bool" where
  "keeps_change c \<longleftrightarrow> (\<forall>f d. c = Some (f, d) \<longrightarrow> keeps_runner f)"

lemma updated_admin_state_not_revoked:
  "updated_admin_state v row = Inr st \<Longrightarrow> st \<noteq> Adm_revoked"
  unfolding updated_admin_state_def conflict_def bind_result_Inr_iff by (auto split: if_splits)

lemma kept_changes:
  "update_display_name p = Inr c \<Longrightarrow> keeps_change c"
  "update_labels p = Inr c \<Longrightarrow> keeps_change c"
  "update_projects p = Inr c \<Longrightarrow> keeps_change c"
  "update_admin_state p row = Inr c \<Longrightarrow> keeps_change c"
  unfolding keeps_change_def keeps_runner_def
  by (auto simp: update_display_name_def update_labels_def update_projects_def
    update_admin_state_def bind_result_Inr_iff invalid_def split: if_splits
    dest: updated_admin_state_not_revoked)

lemma keeps_applied: "list_all keeps_change cs \<Longrightarrow> keeps_runner (applied cs)"
proof (induction cs)
  case Nil
  then show ?case by (simp add: applied_def keeps_runner_def)
next
  case (Cons c cs)
  then have IH: "keeps_runner (applied cs)" and c: "keeps_change c" by simp_all
  have "applied (c # cs) = (\<lambda>r. applied cs (case c of None \<Rightarrow> r | Some (f, _) \<Rightarrow> f r))"
    by (simp add: applied_def fun_eq_iff)
  with IH c show ?case by (cases c) (auto simp: keeps_change_def keeps_runner_def)
qed

lemma update_body_changes:
  assumes inv: "runner_inv db" and body: "update_body cfg p rid now row db = Inr ((a, s), db')"
  shows "changes db db'"
proof -
  from body obtain c1 c2 c3 c4 m where c: "update_display_name p = Inr c1" "update_labels p = Inr c2"
    "update_projects p = Inr c3" "update_admin_state p row = Inr c4"
    and db': "db' = log_event ''runner_updated'' (Some rid) None m
      (set_runner rid (\<lambda>r. revised now (applied [c1, c2, c3, c4] r)) db)"
    by (auto simp: update_body_def bind_result_Inr_iff Let_def invalid_def split: if_splits)
  have "list_all keeps_change [c1, c2, c3, c4]" using c kept_changes by simp
  then have "keeps_runner (applied [c1, c2, c3, c4])" by (rule keeps_applied)
  then have "keeps_runner (\<lambda>r. revised now (applied [c1, c2, c3, c4] r))"
    by (simp add: keeps_runner_def revised_def)
  then show ?thesis unfolding db'
    by (intro changes_step [OF _ note_event] change_one edit_kept_runner [OF inv])
qed

lemma update_runner_changes:
  "runner_inv db \<Longrightarrow> changes db (snd (update_runner env cfg rid p now db))"
  by (auto simp: update_runner_def split: sum.splits intro!: changes_administer update_body_changes)

subsection \<open>Actions\<close>

lemma set_runner_task: "set_runner i f (set_task j g db) = set_task j g (set_runner i f db)"
  by (simp add: set_runner_def set_task_def)

lemma set_runner_leases:
  "set_runner i f (db\<lparr>runner_leases := ls\<rparr>) = (set_runner i f db)\<lparr>runner_leases := ls\<rparr>"
  by (simp add: set_runner_def)

lemma end_leases_rows [simp]:
  "tasks (end_leases i st now db) = tasks db" "runners (end_leases i st now db) = runners db"
  "credentials (end_leases i st now db) = credentials db"
  "runner_leases (end_leases i st now db) = update_where
     (\<lambda>l. rl_task_id l = i \<and> rl_state l = Lease_active)
     (\<lambda>l. l\<lparr>rl_state := st, rl_released_at := Some now\<rparr>) (runner_leases db)"
  by (simp_all add: end_leases_def)

lemma end_leases_task: "end_leases i st now (set_task j g db) = set_task j g (end_leases i st now db)"
  by (simp add: end_leases_def set_task_def)

lemma set_runner_end_leases:
  "set_runner i f (end_leases j st now db) = end_leases j st now (set_runner i f db)"
  by (simp add: end_leases_def set_runner_def)

text \<open>
  A task that never ran leaves its runner: the runner is freed, the leases end, the assignment is
  taken from the task.
\<close>

lemma release_task:
  assumes inv: "runner_inv db" and t: "t \<in> set (tasks db)" "\<not> tk_ever_running t"
    and rid: "tk_assigned_runner_id t = Some rid"
    and f: "\<And>u. u \<in> set (tasks db) \<Longrightarrow> tk_id u = tk_id t \<Longrightarrow>
      task_identity (f u) = task_identity u \<and>
      task_holding (f u) = (None, tk_assignment_epoch u, None) \<and>
      tk_ever_running (f u) = tk_ever_running u"
    and g: "\<And>r. rn_id (g r) = rn_id r \<and> rn_current_task_id (g r) = None \<and>
      (rn_admin_state (g r) = Adm_revoked \<longrightarrow> rn_admin_state r = Adm_revoked)"
    and st: "st \<noteq> Lease_active"
  shows "changes db (set_task (tk_id t) f (end_leases (tk_id t) st now (set_runner rid g db)))"
proof -
  let ?a = "set_runner rid g db" and ?b = "end_leases (tk_id t) st now (set_runner rid g db)"
  have "runner_change db ?a" by (rule edit_runner [OF inv]) (use g in auto)
  moreover have "runner_change ?a ?b" by (rule end_leases_change [OF st])
  moreover have "runner_change ?b (set_task (tk_id t) f ?b)"
  proof (rule task_released)
    have "\<forall>l \<in> set (runner_leases ?b). rl_task_id l = tk_id t \<longrightarrow> rl_state l \<noteq> Lease_active"
      unfolding end_leases_rows update_where_ball using st by simp
    then show "rl_state l \<noteq> Lease_active" if "l \<in> set (runner_leases ?b)" "rl_task_id l = tk_id t" for l
      using that by blast
    show "rn_current_task_id r \<noteq> Some (tk_id t)" if r: "r \<in> set (runners ?b)" for r
    proof
      assume cur: "rn_current_task_id r = Some (tk_id t)"
      from r obtain q where q: "q \<in> set (runners db)" "r = (if rn_id q = rid then g q else q)"
        by (auto simp: update_where_mem)
      with cur g have "rn_id q \<noteq> rid" "rn_current_task_id q = Some (tk_id t)" by (auto split: if_splits)
      with current_holder [OF inv q(1) _ t(1)] rid show False by simp
    qed
    fix u assume u: "u \<in> set (tasks ?b)" "tk_id u = tk_id t"
    then have "u = t" using task_unique [OF inv _ t(1)] by simp
    with u f [of u] t(2) show "task_identity (f u) = task_identity u \<and>
        task_holding (f u) = (None, tk_assignment_epoch u, None) \<and>
        \<not> tk_ever_running u \<and> \<not> tk_ever_running (f u)" by simp
  qed
  ultimately show ?thesis by (meson change_one changes_step)
qed

lemma emergency_body_changes:
  assumes inv: "runner_inv db" and row: "find_runner db rid = Some row"
    and body: "emergency_body rid now row db = Inr db'"
  shows "changes db db'"
proof -
  obtain work task db1 where e: "emergency_task rid now row db = ((work, task), db1)"
    by (metis prod.exhaust)
  let ?g = "\<lambda>r. (revised now r)\<lparr>rn_admin_state := Adm_disabled, rn_work_state := work,
      rn_current_task_id := task\<rparr>"
  have db': "db' = set_runner rid ?g db1"
    using body e by (auto simp: emergency_body_def conflict_def split: if_splits)
  have r: "row \<in> set (runners db)" "rn_id row = rid" using find_runnerD [OF row] by simp_all
  have own: "rn_current_task_id r = rn_current_task_id row" if "r \<in> set (runners db)" "rn_id r = rid" for r
    using runner_unique [OF inv that(1) r(1)] that(2) r(2) by simp
  have "task = rn_current_task_id row \<or> task = None"
    using e by (auto simp: emergency_task_def Let_def split: option.splits if_splits)
  then have edit: "runner_change db (set_runner rid ?g db)"
    using own by (intro edit_runner [OF inv]) (auto simp: revised_def)
  consider (same) "db1 = db" | (recover) a where "db1 = set_task a (recovery_task CHECK_WORKTREE now) db"
    | (cancel) a where "rn_current_task_id row = Some a" "task = None"
      "\<forall>t. find_task db a = Some t \<longrightarrow> \<not> tk_ever_running t"
      "db1 = end_leases a Lease_released now (set_task a (cancelled_task now) db)"
    using e by (auto simp: emergency_task_def split: option.splits if_splits)
  then show ?thesis
  proof cases
    case same
    then show ?thesis using edit db' by (auto intro: change_one)
  next
    case recover
    have "runner_change (set_runner rid ?g db) db'" unfolding db' recover set_runner_task
      by (rule edit_task) (auto simp: recovery_task_def)
    then show ?thesis using edit by (meson change_one changes_step)
  next
    case cancel
    from current_held [OF inv r(1) cancel(1)] obtain t where t: "t \<in> set (tasks db)" "tk_id t = a"
      "tk_assigned_runner_id t = Some rid" by (auto simp: held_by_def r(2))
    then have "\<not> tk_ever_running t" using cancel(3) find_task_member [OF inv t(1)] by simp
    from release_task [OF inv t(1) this t(3), of "cancelled_task now" ?g Lease_released now]
    show ?thesis unfolding db' cancel(4) end_leases_task set_runner_task set_runner_end_leases t(2)
      using cancel(2) by (simp add: cancelled_task_def revised_def)
  qed
qed

lemma credentials_revoked_change: "runner_change db (revoke_credentials rid now db)"
  unfolding revoke_credentials_def by (rule credentials_revoked)

lemma revoke_credentials_rows [simp]:
  "runners (revoke_credentials rid now db) = runners db"
  "no_active_credential (revoke_credentials rid now db) rid"
  "map cr_runner_id (credentials (revoke_credentials rid now db)) = map cr_runner_id (credentials db)"
  by (simp_all add: revoke_credentials_def update_where_ball map_update_where)

lemma rotate_body_changes:
  assumes inv: "runner_inv db" and row: "find_runner db rid = Some row"
    and body: "rotate_body env rid (secret, cid) now row db = Inr db'"
  shows "changes db db'"
proof -
  let ?c = "new_credential env cid rid secret now" and ?a = "revoke_credentials rid now db"
  from body obtain db1 where adm: "rn_admin_state row \<noteq> Adm_revoked" and active: "active_credential db rid"
    and ins: "insert_credential ?c ?a = Inr db1" and db': "db' = set_runner rid (revised now) db1"
    by (auto simp: rotate_body_def conflict_def bind_result_Inr_iff split: if_splits)
  have r: "row \<in> set (runners db)" "rn_id row = rid" using find_runnerD [OF row] by simp_all
  have a: "runner_change db ?a" by (rule credentials_revoked_change)
  have "runner_change ?a db1"
  proof -
    have db1: "db1 = ?a\<lparr>credentials := insert_row ?c (credentials ?a)\<rparr>"
      and "cr_credential_id ?c \<notin> set (map cr_credential_id (credentials ?a))"
      using ins by (auto simp: insert_credential_def split: if_splits)
    moreover have "rid \<in> set (map cr_runner_id (credentials ?a))"
      unfolding revoke_credentials_rows using active by (auto simp: active_credential_def list_ex_iff)
    moreover have "rn_admin_state q \<noteq> Adm_revoked" if "q \<in> set (runners ?a)" "rn_id q = rid" for q
      using that runner_unique [OF inv _ r(1)] r(2) adm by (metis revoke_credentials_rows(1))
    ultimately show ?thesis
      unfolding db1 by (intro credential_rotated) (auto simp: new_credential_def)
  qed
  with a have c: "changes db db1" by (meson change_one changes_step)
  have "runner_change db1 db'" unfolding db'
    by (rule edit_kept_runner [OF changes_inv [OF c inv]]) simp
  with c show ?thesis by (rule changes_step)
qed

lemma delete_body_changes:
  assumes inv: "runner_inv db" and body: "delete_body rid now row db = Inr db'"
  shows "changes db db'"
proof -
  let ?a = "revoke_credentials rid now db"
  have db': "db' = set_runner rid (\<lambda>r. (revised now r)\<lparr>rn_admin_state := Adm_revoked,
      rn_archived_at := Some now\<rparr>) ?a"
    using body by (auto simp: delete_body_def conflict_def split: if_splits)
  have a: "changes db ?a" by (rule change_one, rule credentials_revoked_change)
  have "runner_change ?a db'" unfolding db'
    by (rule edit_runner [OF changes_inv [OF a inv]]) (auto simp: revised_def simp del: revoke_credentials_rows(2) intro: revoke_credentials_rows(2))
  with a show ?thesis by (rule changes_step)
qed

lemma drain_body_changes:
  assumes inv: "runner_inv db" and body: "drain_body rid now row db = Inr db'"
  shows "changes db db'"
proof -
  have db': "db' = set_runner rid (\<lambda>r. (revised now r)\<lparr>rn_admin_state :=
      (if has_text (rn_current_task_id row) then Adm_draining else Adm_disabled)\<rparr>) db"
    using body by (auto simp: drain_body_def conflict_def split: if_splits)
  show ?thesis unfolding db'
    by (rule change_one, rule edit_kept_runner [OF inv]) (simp add: keeps_runner_def revised_def)
qed

lemma action_effect_changes:
  assumes "runner_inv db" and "find_runner db rid = Some row"
    and "action_effect env act rid tokens now row db = Inr db'"
  shows "changes db db'"
proof (cases act)
  case Self_check
  with assms show ?thesis
    by (auto simp: self_check_body_def conflict_def split: if_splits intro!: change_one edit_kept_runner)
next
  case Rotate_credential
  with assms rotate_body_changes [OF assms(1,2), of env "fst tokens" "snd tokens"] show ?thesis by simp
qed (use assms in \<open>auto intro: emergency_body_changes delete_body_changes drain_body_changes\<close>)

lemma admin_action_changes:
  assumes inv: "runner_inv db"
  shows "changes db (snd (admin_action env cfg act rid p tokens now db))"
proof -
  have "changes db db'" if row: "find_runner db i = Some row"
    and body: "action_body env cfg act i tokens now row db = Inr ((a, s), db')" for i row a s db'
  proof -
    from body obtain db1 m where "action_effect env act i tokens now row db = Inr db1"
      and db': "db' = log_event (''runner_'' @ action_name act) (Some i) (rn_current_task_id row) m db1"
      by (auto simp: action_body_def bind_result_Inr_iff Let_def split: option.splits)
    from action_effect_changes [OF inv row this(1)] note_event show ?thesis
      unfolding db' by (rule changes_step)
  qed
  then show ?thesis
    by (auto simp: admin_action_def split: sum.splits intro!: changes_administer)
qed

subsection \<open>Enrolment again\<close>

lemma latest_enrollmentD:
  "latest_enrollment db rid = Some e \<Longrightarrow> e \<in> set (enrollments db) \<and> en_runner_id e = rid"
  unfolding latest_enrollment_def by (drule first_min_mem) simp

lemma revoke_enrollment_changes:
  assumes inv: "runner_inv db"
  shows "changes db (snd (revoke_enrollment env cfg rid p now db))"
proof -
  have "changes db db'" if row: "find_runner db i = Some row"
    and body: "revoke_enrollment_body cfg i now row db = Inr ((a, s), db')" for i row a s db'
  proof -
    from body obtain en where en: "latest_enrollment db i = Some en" "enrollment_state en now = ''pending''"
      and db': "db' = log_event ''runner_enrollment_revoked'' (Some i) None []
        (set_runner i (revised now) (db\<lparr>enrollments := update_where
          (\<lambda>e. en_enrollment_id e = en_enrollment_id en) (\<lambda>e. e\<lparr>en_revoked_at := Some now\<rparr>)
          (enrollments db)\<rparr>))" (is "_ = log_event _ _ _ _ (set_runner _ _ ?a)")
      by (auto simp: revoke_enrollment_body_def conflict_def Let_def split: option.splits if_splits)
    have "runner_change db ?a"
    proof (rule enrollments_revoked)
      fix e assume "e \<in> set (enrollments db)" "en_enrollment_id e = en_enrollment_id en"
      then have "e = en" using enrollment_unique [OF inv] latest_enrollmentD [OF en(1)] by blast
      then show "en_claimed_at e = None"
        using en(2) by (auto simp: enrollment_state_def split: if_splits)
    qed
    moreover from this have "runner_change ?a (set_runner i (revised now) ?a)"
      by (intro edit_kept_runner) (auto intro: runner_inv_change [OF _ inv])
    ultimately show ?thesis unfolding db' by (meson change_one changes_step note_event)
  qed
  then show ?thesis
    by (auto simp: revoke_enrollment_def split: sum.splits intro!: changes_administer)
qed

lemma regenerate_body_changes:
  assumes inv: "runner_inv db" and row: "find_runner db i = Some row"
    and body: "regenerate_body env cfg p q i (eid, token) now row db = Inr ((a, s), db')"
  shows "changes db db'"
proof -
  let ?p = "\<lambda>e. en_runner_id e = i \<and> en_claimed_at e = None \<and> en_revoked_at e = None"
  let ?a = "db\<lparr>enrollments := update_where ?p (\<lambda>e. e\<lparr>en_revoked_at := Some now\<rparr>) (enrollments db)\<rparr>"
  let ?e = "new_enrollment env eid i token q (runner_digest env (JObj p)) now"
  from body obtain db1 where
    claimed: "\<forall>e \<in> set (enrollments db). en_runner_id e = i \<longrightarrow> en_claimed_at e = None"
    and ins: "insert_enrollment ?e ?a = Inr db1"
    and db': "db' = log_event ''runner_enrollment_regenerated'' (Some i) None []
      (set_runner i (revised now) db1)"
    by (auto simp: regenerate_body_def conflict_def Let_def bind_result_Inr_iff list_ex_iff
      split: if_splits)
  have a: "runner_change db ?a" by (rule enrollments_revoked) simp
  have revoked: "\<forall>x \<in> set (enrollments ?a). en_runner_id x = i \<longrightarrow> en_revoked_at x \<noteq> None"
    using claimed by (simp add: update_where_ball)
  have "runner_change ?a db1"
  proof -
    have db1: "db1 = ?a\<lparr>enrollments := insert_row ?e (enrollments ?a)\<rparr>"
      and fresh: "en_enrollment_id ?e \<notin> set (map en_enrollment_id (enrollments ?a))"
      "en_token_digest ?e \<notin> set (map en_token_digest (enrollments ?a))"
      using ins by (auto simp: insert_enrollment_def split: if_splits)
    have "i \<in> set (map rn_id (runners ?a))" using find_runnerD [OF row] by auto
    then show ?thesis unfolding db1
      by (intro enrollment_added fresh) (use revoked in \<open>simp_all add: new_enrollment_def\<close>)
  qed
  with a have c: "changes db db1" by (meson change_one changes_step)
  have "runner_change db1 (set_runner i (revised now) db1)"
    by (rule edit_kept_runner [OF changes_inv [OF c inv]]) simp
  with c show ?thesis unfolding db' by (meson changes_step note_event)
qed

lemma regenerate_enrollment_changes:
  assumes inv: "runner_inv db"
  shows "changes db (snd (regenerate_enrollment env cfg rid p tokens now db))"
proof (cases tokens)
  case (Pair eid token)
  show ?thesis using regenerate_body_changes [OF inv]
    by (auto simp: regenerate_enrollment_def Pair split: sum.splits intro!: changes_administer)
qed

section \<open>Heartbeats\<close>

lemma renew_lease_changes:
  assumes t: "find_task db tid = Some t" and inv: "runner_inv db"
    and renewed: "renew_lease cfg rid t now db = Inr db'"
  shows "changes db db'"
proof -
  let ?e = "now + seconds (rc_lease_ttl_seconds cfg)"
  let ?a = "db\<lparr>runner_leases := update_where (renews rid t) (\<lambda>l. l\<lparr>rl_expires_at := ?e\<rparr>) (runner_leases db)\<rparr>"
  from renewed have st: "tk_state t \<in> ACTIVE_TASK_STATES"
    and db': "db' = set_task (tk_id t) (\<lambda>t. t\<lparr>tk_lease_expires_at := Some ?e\<rparr>) ?a"
    by (auto simp: renew_lease_def conflict_def Let_def split: if_splits)
  have "runner_change db ?a" by (rule leases_edited) auto
  moreover have "runner_change ?a db'" unfolding db'
  proof (rule edit_task)
    fix u assume "u \<in> set (tasks ?a)" "tk_id u = tk_id t"
    then have "u = t" using task_unique [OF inv] find_taskD [OF t] by auto
    with st show "task_identity (u\<lparr>tk_lease_expires_at := Some ?e\<rparr>) = task_identity u \<and>
      task_holding (u\<lparr>tk_lease_expires_at := Some ?e\<rparr>) = task_holding u \<and>
      tk_ever_running (u\<lparr>tk_lease_expires_at := Some ?e\<rparr>) = tk_ever_running u \<and>
      tk_state (u\<lparr>tk_lease_expires_at := Some ?e\<rparr>) \<noteq> Waiting_runner"
      by (auto simp: ACTIVE_TASK_STATES_def)
  qed
  ultimately show ?thesis by (meson change_one changes_step)
qed

lemma heartbeat_assignment_changes:
  assumes "runner_inv db" and "heartbeat_assignment cfg h p row now db = Inr db'"
  shows "changes db db'"
  using assms
  by (auto simp: heartbeat_assignment_def conflict_def split: json.splits option.splits if_splits
    intro: renew_lease_changes)

lemma heartbeat_changes:
  assumes inv: "runner_inv db"
  shows "changes db (snd (heartbeat env cfg p credential now1 now db))"
proof (cases "validate_heartbeat env p credential now1 db")
  case (Inr h)
  show ?thesis unfolding heartbeat_def
  proof (simp only: Inr sum.case, rule changes_transaction, goal_cases)
    case (1 a db')
    then consider "db' = db" | row db1 agent codex where
      "heartbeat_assignment cfg h p row now db = Inr db1"
      "db' = set_runner (hb_runner_id h) (heard_runner h agent codex now) db1"
      by (auto simp: bind_result_Inr_iff conflict_def split: option.splits if_splits)
    then show ?case
    proof cases
      case 2
      from heartbeat_assignment_changes [OF inv this(1)] have c: "changes db db1" .
      have "runner_change db1 db'" unfolding 2(2)
        by (rule edit_kept_runner [OF changes_inv [OF c inv]]) (simp add: keeps_runner_def heard_runner_def)
      with c show ?thesis by (rule changes_step)
    qed simp
  qed
qed (simp add: heartbeat_def)

section \<open>Commands\<close>

lemma create_work_task_changes:
  "changes db (snd (create_work_task env cfg p now db))"
proof (cases "validate_start p")
  case (Inr v)
  let ?t = "new_task env cfg v now"
  show ?thesis unfolding create_work_task_def
  proof (simp only: Inr sum.case, rule changes_transaction, simp only: Let_def, goal_cases)
    case (1 a db')
    then consider "db' = db" | db1 db2 m where "insert_task ?t db = Inr db1"
      "insert_command (sc_request_id v) ''start'' (runner_digest env (JObj p)) (tk_id ?t) db1 = Inr db2"
      "db' = log_event ''runner_task_created'' None (Some (tk_id ?t)) m db2"
      by (auto simp: bind_result_Inr_iff split: option.splits)
    then show ?case
    proof cases
      case 2
      have "runner_change db db1"
      proof -
        have db1: "db1 = db\<lparr>tasks := insert_row ?t (tasks db)\<rparr>"
          and "tk_id ?t \<notin> set (map tk_id (tasks db))"
          using 2(1) by (auto simp: insert_task_def split: if_splits)
        then show ?thesis unfolding db1 by (intro task_added) (simp_all add: new_task_def)
      qed
      with note_command [OF 2(2)] note_event show ?thesis
        unfolding 2(3) by (meson change_one changes_step)
    qed simp
  qed
qed (simp add: create_work_task_def)

lemma cancel_task_changes:
  assumes inv: "runner_inv db" and t: "find_task db tid = Some t"
    and cancel: "cancel_task control t now db = Inr db'"
  shows "changes db db'"
proof -
  have t': "t \<in> set (tasks db)" "tk_id t = tid" using find_taskD [OF t] by simp_all
  have only: "u = t" if "u \<in> set (tasks db)" "tk_id u = tk_id t" for u
    using task_unique [OF inv that(1) t'(1)] that(2) by simp
  let ?f = "\<lambda>t. t\<lparr>tk_state := Task_cancelled, tk_stage := Some ''cancelled'',
      tk_action_required := None, tk_updated_at := now\<rparr>"
  let ?g = "\<lambda>t. t\<lparr>tk_action_required := Some AWAIT_CANCEL, tk_updated_at := now\<rparr>"
  consider "db' = db" | "db' = set_task (tk_id t) ?f db"
    | "has_text (tk_assigned_runner_id t)" "db' = set_task (tk_id t) ?g db"
    | "\<not> has_text (tk_assigned_runner_id t)"
      "db' = end_leases (tk_id t) Lease_released now (set_task (tk_id t) (cancelled_task now) db)"
    using cancel by (auto simp: cancel_task_def conflict_def split: if_splits)
  then show ?thesis
  proof cases
    case 2
    have "runner_change db db'" unfolding 2 by (rule edit_task) simp
    then show ?thesis by (rule change_one)
  next
    case 3
    then have "tk_state t \<noteq> Waiting_runner"
      using waiting_unassigned [OF inv t'(1)] by (auto simp: has_text_def)
    then have "runner_change db db'" unfolding 3(2) by (intro edit_task) (use only in auto)
    then show ?thesis by (rule change_one)
  next
    case 4
    have a: "tk_assigned_runner_id t = None"
    proof (rule ccontr)
      assume "tk_assigned_runner_id t \<noteq> None"
      with assigned_task [OF inv t'(1)] 4(1) show False by (metis has_text_def option.inject option.distinct(1))
    qed
    then have "tk_lease_id t = None" using unassigned_task [OF inv t'(1)] by simp
    with a have "runner_change db (set_task (tk_id t) (cancelled_task now) db)"
      by (intro edit_task) (auto simp: cancelled_task_def dest!: only)
    then show ?thesis unfolding 4(2)
      by (rule changes_step [OF change_one end_leases_change]) simp
  qed simp
qed

lemma reactivate_leaseD:
  "reactivate_lease lid e db = Inr db' \<Longrightarrow>
   db' = db\<lparr>runner_leases := update_where (\<lambda>l. rl_lease_id l = lid)
     (\<lambda>l. l\<lparr>rl_state := Lease_active, rl_expires_at := e, rl_released_at := None\<rparr>) (runner_leases db)\<rparr>"
  by (auto simp: reactivate_lease_def split: if_splits)

lemma held_by_edited:
  assumes "held_by db a rid" and "\<And>u. tk_id (f u) = tk_id u \<and> tk_assigned_runner_id (f u) = tk_assigned_runner_id u"
  shows "held_by (set_task i f db) a rid"
  by (rule held_by_frame [OF assms(1)]) (auto intro!: update_where_survives simp: assms(2))

lemma continue_task_changes:
  assumes inv: "runner_inv db" and t: "find_task db tid = Some t"
    and continue: "continue_task env cfg p control t now db = Inr db'"
  shows "changes db db'"
proof -
  have t': "t \<in> set (tasks db)" "tk_id t = tid" using find_taskD [OF t] by simp_all
  from continue obtain instruction rid lid r db1 where
    rid: "tk_assigned_runner_id t = Some rid" and lid: "tk_lease_id t = Some lid"
    and r: "find_runner db rid = Some r"
    and re: "reactivate_lease lid (now + seconds (rc_lease_ttl_seconds cfg))
       (set_task (tk_id t) (continued_task env cfg instruction now) db) = Inr db1"
    and db': "db' = set_runner (rn_id r) (busy_with (tk_id t) now) db1"
    by (auto simp: continue_task_def bind_result_Inr_iff conflict_def has_text_def
      split: if_splits option.splits)
  let ?f = "continued_task env cfg instruction now"
  let ?a = "set_task (tk_id t) ?f db"
  have keep: "tk_id (?f u) = tk_id u \<and> tk_assigned_runner_id (?f u) = tk_assigned_runner_id u" for u
    by (simp add: continued_task_def)
  have a: "runner_change db ?a" by (rule edit_task) (simp add: continued_task_def)
  have "?f t \<in> set (tasks ?a)" unfolding set_task_rows by (rule update_where_hit [OF t'(1)]) simp
  moreover have "tk_lease_id (?f t) = Some lid" by (simp add: continued_task_def lid)
  ultimately have "runner_change ?a db1" unfolding reactivate_leaseD [OF re] by (rule lease_reactivated)
  with a have c: "changes db db1" by (meson change_one changes_step)
  have "held_by db (tk_id t) rid" using t'(1) rid by (auto simp: held_by_def)
  then have "held_by ?a (tk_id t) rid" using keep by (rule held_by_edited)
  then have "held_by db1 (tk_id t) (rn_id r)"
    unfolding reactivate_leaseD [OF re] using find_runnerD [OF r] by (simp add: held_by_def)
  then have "runner_change db1 db'" unfolding db'
    by (intro edit_runner [OF changes_inv [OF c inv]]) (simp add: busy_with_def)
  with c show ?thesis by (rule changes_step)
qed

lemma command_task_changes:
  assumes inv: "runner_inv db"
  shows "changes db (snd (command_task env cfg p control now db))"
proof (cases "validate_command p")
  case (Inr v)
  obtain c q tid owner where v: "v = (c, q, tid, owner)" by (metis prod.exhaust)
  show ?thesis unfolding command_task_def
  proof (simp only: Inr sum.case v prod.case, rule changes_transaction, simp only: Let_def, goal_cases)
    case (1 a db')
    then consider "db' = db" | t db1 db2 m where "find_task db tid = Some t"
      "command_effect env cfg p control c t now db = Inr db1"
      "insert_command q (command_name c) (runner_digest env (JObj p)) tid db1 = Inr db2"
      "db' = log_event (''runner_task_'' @ command_name c) None (Some tid) m db2"
      by (auto simp: bind_result_Inr_iff conflict_def split: option.splits if_splits)
    then show ?case
    proof cases
      case 2
      from 2(2) have "changes db db1"
        by (auto simp: command_effect_def split: task_command.splits
          intro: cancel_task_changes [OF inv 2(1)] continue_task_changes [OF inv 2(1)])
      with note_command [OF 2(3)] note_event show ?thesis unfolding 2(4) by (meson changes_step)
    qed simp
  qed
qed (simp add: command_task_def)

section \<open>Assignments\<close>

lemma expire_tasks_Cons [simp]:
  "expire_tasks (i # is) now db = expire_tasks is now (set_task i (expired_task now) db)"
  "expire_tasks [] now db = db"
  by (simp_all add: expire_tasks_def)

text \<open>Expiring tasks of the queue: they stay unassigned; the other tasks are untouched.\<close>

lemma expire_tasks_changes: "changes db (expire_tasks ids now db)"
proof (induction ids arbitrary: db)
  case (Cons i ids)
  have "runner_change db (set_task i (expired_task now) db)"
    by (rule edit_task) (simp add: expired_task_def)
  with Cons show ?case by (simp add: converse_rtranclp_into_rtranclp)
qed simp

lemma expire_tasks_other:
  "t \<in> set (tasks db) \<Longrightarrow> tk_id t \<notin> set ids \<Longrightarrow> t \<in> set (tasks (expire_tasks ids now db))"
proof (induction ids arbitrary: db)
  case (Cons i ids)
  have "t \<in> set (tasks (set_task i (expired_task now) db))"
    using Cons.prems by (force simp: update_where_mem)
  with Cons show ?case by simp
qed simp

lemma expire_tasks_runners [simp]: "runners (expire_tasks ids now db) = runners db"
  by (induction ids arbitrary: db) simp_all

lemma select_assignment_found:
  assumes "select_assignment cfg now rs ts = (expired, Some (t, r))" and "distinct (map tk_id ts)"
  shows "t \<in> set ts \<and> r \<in> set rs \<and> can_take cfg now t r \<and> now < tk_expires_at t \<and>
    tk_id t \<notin> set expired \<and> set expired \<subseteq> tk_id ` {u \<in> set ts. tk_expires_at u \<le> now}"
  using assms
proof (induction ts arbitrary: expired)
  case (Cons u ts)
  show ?case
  proof (cases "tk_expires_at u \<le> now")
    case True
    with Cons.prems obtain e where e: "select_assignment cfg now rs ts = (e, Some (t, r))"
      "expired = tk_id u # e" by (auto split: prod.splits)
    from Cons.IH [OF e(1)] Cons.prems(2) have "t \<in> set ts \<and> r \<in> set rs \<and> can_take cfg now t r \<and>
      now < tk_expires_at t \<and> tk_id t \<notin> set e \<and>
      set e \<subseteq> tk_id ` {u \<in> set ts. tk_expires_at u \<le> now}" by simp
    moreover have "tk_id v \<noteq> tk_id u" if "v \<in> set ts" for v
      using Cons.prems(2) that by (simp, metis imageI)
    ultimately show ?thesis using e(2) True by fastforce
  next
    case False
    then show ?thesis using Cons by (auto simp: find_Some_iff split: option.splits)
  qed
qed simp

lemma waiting_tasks_member: "t \<in> set (waiting_tasks db) \<longleftrightarrow> t \<in> set (tasks db) \<and> tk_state t = Waiting_runner"
  by (simp add: waiting_tasks_def)

lemma idle_runners_member:
  "r \<in> set (idle_runners db) \<longleftrightarrow> r \<in> set (runners db) \<and> rn_archived_at r = None \<and>
     rn_admin_state r = Adm_enabled \<and> rn_work_state r = Work_idle \<and> rn_current_task_id r = None"
  by (simp add: idle_runners_def conj_ac)

lemma waiting_tasks_distinct:
  assumes "runner_inv db"
  shows "distinct (map tk_id (waiting_tasks db))"
proof -
  have d: "distinct (map tk_id (tasks db))" using assms by (auto dest: runner_invD assignment_invD)
  have "distinct (waiting_tasks db)"
    unfolding waiting_tasks_def using d by (simp add: distinct_map)
  moreover have "inj_on tk_id (set (waiting_tasks db))"
    using d by (auto simp: distinct_map waiting_tasks_member inj_on_def)
  ultimately show ?thesis by (simp add: distinct_map)
qed

lemma insert_runner_leaseD:
  "insert_runner_lease l db = Inr db' \<Longrightarrow> db' = db\<lparr>runner_leases := insert_row l (runner_leases db)\<rparr> \<and>
     rl_lease_id l \<notin> set (map rl_lease_id (runner_leases db))"
  by (auto simp: insert_runner_lease_def split: if_splits)

lemma claim_task_changes:
  assumes inv: "runner_inv db" and t: "t \<in> set (tasks db)" "tk_state t = Waiting_runner"
    and r: "r \<in> set (runners db)" and lid: "lease_id \<noteq> []"
    and claimed: "claim_task env cfg lease_id now k t r db = Inr (Some v, db')"
  shows "changes db db'"
proof -
  let ?l = "\<lparr>rl_lease_id = lease_id, rl_task_id = tk_id t, rl_runner_id = rn_id r,
      rl_assignment_epoch = tk_assignment_epoch t + 1, rl_state = Lease_active, rl_created_at = now,
      rl_expires_at = now + seconds (rc_lease_ttl_seconds cfg), rl_released_at = None\<rparr>"
  let ?f = "leased_task (rn_id r) (tk_assignment_epoch t + 1) lease_id
      (now + seconds (rc_lease_ttl_seconds cfg)) now"
  let ?w = "\<lambda>u. tk_id u = tk_id t \<and> tk_state u = Waiting_runner"
  from claimed obtain db1 m where ins: "insert_runner_lease ?l db = Inr db1"
    and db': "db' = log_event ''runner_task_leased'' (Some (rn_id r)) (Some (tk_id t)) m
      (set_runner (rn_id r) (busy_with (tk_id t) now) (db1\<lparr>tasks := update_where ?w ?f (tasks db1)\<rparr>))"
    by (auto simp: claim_task_def bind_result_Inr_iff Let_def split: if_splits option.splits)
  let ?a = "db\<lparr>runner_leases := insert_row ?l (runner_leases db),
    tasks := update_where (\<lambda>u. tk_id u = tk_id t) ?f (tasks db)\<rparr>"
  have "update_where ?w ?f (tasks db) = update_where (\<lambda>u. tk_id u = tk_id t) ?f (tasks db)"
    using task_unique [OF inv _ t(1)] t(2) unfolding update_where_def by (intro map_cong) auto
  then have a: "db1\<lparr>tasks := update_where ?w ?f (tasks db1)\<rparr> = ?a"
    using insert_runner_leaseD [OF ins] by simp
  have "runner_change db ?a"
  proof (rule task_assigned [OF t(1) waiting_unassigned [OF inv t]])
    show "rl_lease_id ?l \<notin> set (map rl_lease_id (runner_leases db))" using insert_runner_leaseD [OF ins] by simp
  qed (use lid r in \<open>simp_all add: leased_task_def\<close>)
  then have c: "changes db ?a" by (rule change_one)
  have "?f t \<in> set (tasks ?a)" using t(1) by (auto intro: update_where_hit)
  then have "held_by ?a (tk_id t) (rn_id r)"
    unfolding held_by_def by (rule bexI [rotated]) (simp add: leased_task_def)
  then have "runner_change ?a (set_runner (rn_id r) (busy_with (tk_id t) now) ?a)"
    by (intro edit_runner [OF changes_inv [OF c inv]]) (simp add: busy_with_def)
  with c show ?thesis unfolding db' a by (meson changes_step note_event)
qed

lemma claim_next_changes:
  assumes inv: "runner_inv db" and lid: "lease_id \<noteq> []"
  shows "changes db (snd (claim_next env cfg lease_id now db))"
  unfolding claim_next_def
proof (rule changes_transaction)
  fix a db'
  obtain expired found where sel: "select_assignment cfg now (idle_runners db) (waiting_tasks db)
    = (expired, found)" by (metis prod.exhaust)
  let ?e = "expire_tasks expired now db"
  assume "(let (expired, found) = select_assignment cfg now (idle_runners db) (waiting_tasks db);
           db' = expire_tasks expired now db
       in case found of
            None \<Rightarrow> Inr (None, db')
          | Some (t, r) \<Rightarrow>
              bind_result (claim_task env cfg lease_id now (length expired) t r db')
                (\<lambda>(claimed, db''). Inr (claimed, if claimed = None then db else db''))) = Inr (a, db')"
  then consider "db' = ?e" | "db' = db" | t r v where "found = Some (t, r)"
    "claim_task env cfg lease_id now (length expired) t r ?e = Inr (Some v, db')"
    by (auto simp: sel Let_def bind_result_Inr_iff split: option.splits if_splits)
  then show "changes db db'"
  proof cases
    case 3
    from select_assignment_found [OF sel [unfolded 3(1)] waiting_tasks_distinct [OF inv]]
    have t: "t \<in> set (tasks db)" "tk_state t = Waiting_runner" "tk_id t \<notin> set expired"
      and r: "r \<in> set (runners db)" by (auto simp: waiting_tasks_member idle_runners_member)
    have e: "changes db ?e" by (rule expire_tasks_changes)
    have "changes ?e db'"
      by (rule claim_task_changes [OF changes_inv [OF e inv] expire_tasks_other [OF t(1,3)] t(2) _ lid 3(2)])
        (simp add: r)
    with e show ?thesis by (rule rtranclp_trans)
  qed (simp_all add: expire_tasks_changes)
qed

lemma mark_dispatched_changes: "changes db (snd (mark_dispatched tid now db))"
proof (cases "task_id_of tid")
  case (Inr i)
  show ?thesis unfolding mark_dispatched_def set_task_stage_def
    by (simp only: Inr sum.case, rule changes_transaction)
      (auto simp: conflict_def Let_def split: option.splits if_splits intro!: change_one edit_task)
qed (simp add: mark_dispatched_def set_task_stage_def)

lemma undelivered_cases:
  assumes "undelivered db tid rid n lid"
  obtains t l r where "find_task db tid = Some t" "find_runner db rid = Some r"
    "l \<in> set (runner_leases db)" "rl_lease_id l = lid" "rl_task_id l = tid"
    "tk_state t \<in> {Task_leased, Task_dispatched}" "\<not> tk_ever_running t"
    "tk_assigned_runner_id t = Some rid" "tk_assignment_epoch t = n" "tk_lease_id t = Some lid"
    "rn_current_task_id r = Some tid"
  using assms unfolding undelivered_def
  by (auto split: option.splits dest!: select_one_Some_iff [of _ "runner_leases db"])

text \<open>All active leases of a task held under a lease are that lease.\<close>

lemma active_leases_of:
  assumes inv: "runner_inv db" and t: "t \<in> set (tasks db)" "tk_lease_id t = Some lid"
    and l: "l \<in> set (runner_leases db)" "rl_state l = Lease_active"
  shows "rl_task_id l = tk_id t \<longleftrightarrow> rl_lease_id l = lid"
proof
  assume "rl_task_id l = tk_id t"
  with active_lease_of [OF inv l t(1)] t(2) show "rl_lease_id l = lid" by simp
next
  assume lid: "rl_lease_id l = lid"
  have "tk_assigned_runner_id t \<noteq> None" using unassigned_task [OF inv t(1)] t(2) by auto
  from assigned_task [OF inv t(1) this] obtain m where m: "m \<in> set (runner_leases db)"
    "rl_lease_id m = lid" "rl_task_id m = tk_id t" using t(2) by (metis option.inject prod.inject)
  have "distinct (map rl_lease_id (runner_leases db))"
    using inv by (auto dest: runner_invD assignment_invD)
  with m l lid have "m = l" by (metis distinct_map inj_onD)
  with m show "rl_task_id l = tk_id t" by simp
qed

lemma end_lease_eq:
  assumes "runner_inv db" and "t \<in> set (tasks db)" "tk_lease_id t = Some lid"
  shows "db\<lparr>runner_leases := update_where (\<lambda>l. rl_lease_id l = lid \<and> rl_state l = Lease_active)
      (\<lambda>l. l\<lparr>rl_state := st, rl_released_at := Some now\<rparr>) (runner_leases db)\<rparr>
    = end_leases (tk_id t) st now db"
  unfolding end_leases_def update_where_def using active_leases_of [OF assms]
  by (intro arg_cong [of _ _ "\<lambda>ls. db\<lparr>runner_leases := ls\<rparr>"] map_cong) auto

lemma reschedule_changes:
  assumes inv: "runner_inv db"
  shows "changes db (snd (reschedule_undelivered tid rid n lid now db))"
proof (cases "bind_result (task_id_of tid) (\<lambda>tid. bind_result (runner_id_of rid) (\<lambda>rid.
    if \<not> int_at_least 1 n \<or> \<not> str_matches SAFE_ID_RE lid then invalid else Inr (tid, rid)))")
  case (Inr v)
  obtain i j where v: "v = (i, j)" by (cases v)
  let ?f = "\<lambda>t. (waiting_again (Some ''runner_offline'') now t)\<lparr>tk_action_required := None\<rparr>"
  let ?g = "\<lambda>r. (idle_again now r)\<lparr>rn_relay_connected := False\<rparr>"
  show ?thesis unfolding reschedule_undelivered_def
  proof (simp only: Inr v sum.case prod.case, rule changes_transaction, simp only: Let_def, goal_cases)
    case (1 a db')
    let ?ls = "db\<lparr>runner_leases := update_where (\<lambda>l. rl_lease_id l = str_of lid \<and> rl_state l = Lease_active)
      (\<lambda>l. l\<lparr>rl_state := Lease_released, rl_released_at := Some now\<rparr>) (runner_leases db)\<rparr>"
    from 1 obtain m where u: "undelivered db i j (int_of_json n) (str_of lid)"
      and db': "db' = log_event ''runner_task_rescheduled_undelivered'' (Some j) (Some i) m
        (set_runner j ?g (set_task i ?f ?ls))"
      by (auto simp: conflict_def split: if_splits option.splits)
    from undelivered_cases [OF u] obtain t where t: "find_task db i = Some t" "\<not> tk_ever_running t"
      "tk_assigned_runner_id t = Some j" "tk_lease_id t = Some (str_of lid)" by metis
    have t': "t \<in> set (tasks db)" "tk_id t = i" using find_taskD [OF t(1)] by simp_all
    have "changes db (set_task (tk_id t) ?f (end_leases (tk_id t) Lease_released now (set_runner j ?g db)))"
      by (rule release_task [OF inv t'(1) t(2,3)]) (simp_all add: waiting_again_def idle_again_def)
    then show ?case
      unfolding db' end_lease_eq [OF inv t'(1) t(4)] set_runner_task set_runner_end_leases t'(2)
      by (rule changes_step) (rule note_event)
  qed
qed (simp add: reschedule_undelivered_def)

section \<open>Messages\<close>

lemma record_message_changes: "changes db (snd (record_message p kind db))"
proof (cases "message_of p")
  case (Inr m)
  show ?thesis unfolding record_message_def
    by (simp only: Inr sum.case, rule changes_transaction)
      (auto simp: conflict_def split: option.splits if_splits intro!: change_one note_message)
qed (simp add: record_message_def)

lemma locked_assignmentD:
  "locked_assignment db m = Inr t \<Longrightarrow> find_task db (ms_task_id m) = Some t \<and> holds_assignment t m"
  by (auto simp: locked_assignment_def conflict_def split: option.splits if_splits)

lemma reported_task_changes:
  assumes inv: "runner_inv db" and t: "locked_assignment db (sr_message s) = Inr t"
    and st: "sr_state s \<noteq> Waiting_runner"
  shows "runner_change db (set_task (ms_task_id (sr_message s)) (reported_task s now) db)"
proof (rule task_edited)
  fix u assume u: "u \<in> set (tasks db)" "tk_id u = ms_task_id (sr_message s)"
  have t': "t \<in> set (tasks db)" "tk_id t = ms_task_id (sr_message s)"
    "tk_assigned_runner_id t = Some (ms_runner_id (sr_message s))"
    using locked_assignmentD [OF t] find_taskD by (auto simp: holds_assignment_def)
  with u have "u = t" using task_unique [OF inv u(1) t'(1)] by simp
  with t' st show "task_identity (reported_task s now u) = task_identity u \<and>
      task_holding (reported_task s now u) = task_holding u \<and>
      (tk_ever_running u \<longrightarrow> tk_ever_running (reported_task s now u)) \<and>
      (tk_ever_running (reported_task s now u) \<longrightarrow> tk_ever_running u \<or> tk_assigned_runner_id u \<noteq> None) \<and>
      tk_state (reported_task s now u) \<noteq> Waiting_runner"
    by (auto simp: reported_task_def)
qed

lemma apply_status_changes:
  assumes inv: "runner_inv db" and st: "sr_state s \<noteq> Waiting_runner"
  shows "changes db (snd (apply_status s now db))"
  unfolding apply_status_def
proof (rule changes_transaction, simp only: Let_def, goal_cases)
  case (1 a db')
  let ?tid = "ms_task_id (sr_message s)" and ?rid = "ms_runner_id (sr_message s)"
  let ?a = "set_task ?tid (reported_task s now) db"
  from 1 obtain t m where t: "locked_assignment db (sr_message s) = Inr t"
    and db': "db' = log_event (''runner_task_'' @ task_state_name (sr_state s)) (Some ?rid) (Some ?tid) m
      (if sr_state s = Task_recovery_required then set_runner ?rid (recovering_runner ?tid now) ?a else ?a)"
    by (auto simp: bind_result_Inr_iff split: option.splits)
  have a: "changes db ?a" by (rule change_one, rule reported_task_changes [OF inv t st])
  have "held_by db ?tid ?rid"
    using locked_assignmentD [OF t] find_taskD by (auto simp: held_by_def holds_assignment_def)
  then have "held_by ?a ?tid ?rid" by (rule held_by_edited) (simp add: reported_task_def)
  then have "runner_change ?a (set_runner ?rid (recovering_runner ?tid now) ?a)"
    by (intro edit_runner [OF changes_inv [OF a inv]]) (simp add: recovering_runner_def)
  with a show ?case unfolding db' by (auto intro: changes_step note_event)
qed

lemma apply_result_changes:
  assumes inv: "runner_inv db" and st: "rr_state r \<noteq> Waiting_runner"
  shows "changes db (snd (apply_result r now db))"
  unfolding apply_result_def
proof (rule changes_transaction, simp only: Let_def, goal_cases)
  case (1 a db')
  let ?tid = "ms_task_id (rr_message r)" and ?rid = "ms_runner_id (rr_message r)"
  let ?review = "rr_state r = Task_recovery_required"
  let ?a = "set_task ?tid (finished_task r now) db"
  let ?free = "freed_runner (if ?review then Work_recovery_required else Work_idle)
      (if ?review then Some ?tid else None) now"
  from 1 obtain t m where t: "locked_assignment db (rr_message r) = Inr t"
    and db': "db' = log_event (''runner_task_'' @ task_state_name (rr_state r)) (Some ?rid) (Some ?tid) m
      (set_runner ?rid ?free (?a\<lparr>runner_leases := update_where
         (\<lambda>l. Some (rl_lease_id l) = tk_lease_id t \<and> rl_state l = Lease_active)
         (\<lambda>l. l\<lparr>rl_state := Lease_released, rl_released_at := Some now\<rparr>) (runner_leases ?a)\<rparr>))"
      (is "_ = log_event _ _ _ _ (set_runner _ _ ?b)")
    by (auto simp: bind_result_Inr_iff split: option.splits)
  have a: "runner_change db ?a"
    by (rule edit_task) (use st in \<open>simp add: finished_task_def\<close>)
  have "runner_change ?a ?b" by (rule leases_edited) auto
  with a have b: "changes db ?b" by (meson change_one changes_step)
  have "held_by db ?tid ?rid"
    using locked_assignmentD [OF t] find_taskD by (auto simp: held_by_def holds_assignment_def)
  then have "held_by ?a ?tid ?rid" by (rule held_by_edited) (simp add: finished_task_def)
  then have "held_by ?b ?tid ?rid" by (simp add: held_by_def)
  then have "runner_change ?b (set_runner ?rid ?free ?b)"
    by (intro edit_runner [OF changes_inv [OF b inv]])
      (auto simp: freed_runner_def revised_def drained_state_def)
  with b show ?case unfolding db' by (meson changes_step note_event)
qed

lemma state_among_member: "state_among sts v = Inr st \<Longrightarrow> st \<in> set sts"
  by (auto simp: state_among_def invalid_def find_Some_iff split: if_splits option.splits)

lemma validate_status_state:
  "validate_status env p credential now db = Inr s \<Longrightarrow>
   sr_state s \<in> {Task_queued, Task_running, Task_awaiting_confirmation, Task_recovery_required}"
  by (auto simp: validate_status_def bind_result_Inr_iff invalid_def split: if_splits
    dest!: state_among_member)

lemma validate_result_state:
  "validate_result env p credential now db = Inr r \<Longrightarrow> rr_state r \<in> SETTLED_STATES"
  by (auto simp: validate_result_def validate_result_content_def bind_result_Inr_iff invalid_def
    conflict_def SETTLED_STATES_def TERMINAL_TASK_STATES_def split: if_splits dest!: state_among_member)

lemma record_status_changes:
  assumes inv: "runner_inv db"
  shows "changes db (snd (record_status env p credential now1 now db))"
proof (cases "validate_status env p credential now1 db")
  case (Inr s)
  obtain o' db1 where rec: "record_message p ''status'' db = (o', db1)" by (metis prod.exhaust)
  have c: "changes db db1" using record_message_changes [of db p "''status''"] rec by simp
  have "sr_state s \<noteq> Waiting_runner" using validate_status_state [OF Inr] by auto
  from apply_status_changes [OF changes_inv [OF c inv] this, of now] c show ?thesis
    unfolding record_status_def Inr sum.case rec prod.case
    by (cases o') (auto intro: rtranclp_trans)
qed (simp add: record_status_def)

lemma record_result_changes:
  assumes inv: "runner_inv db"
  shows "changes db (snd (record_result env p credential now1 now db))"
proof (cases "validate_result env p credential now1 db")
  case (Inr r)
  obtain o' db1 where rec: "record_message p ''result'' db = (o', db1)" by (metis prod.exhaust)
  have c: "changes db db1" using record_message_changes [of db p "''result''"] rec by simp
  have "rr_state r \<noteq> Waiting_runner"
    using validate_result_state [OF Inr] by (auto simp: SETTLED_STATES_def TERMINAL_TASK_STATES_def)
  from apply_result_changes [OF changes_inv [OF c inv] this, of now] c show ?thesis
    unfolding record_result_def Inr sum.case rec prod.case
    by (cases o') (auto intro: rtranclp_trans)
qed (simp add: record_result_def)

section \<open>Recovery and sweep\<close>

lemma resolve_recovery_changes:
  assumes inv: "runner_inv db"
  shows "changes db (snd (resolve_task_recovery env cfg rid p now db))"
proof -
  have "changes db db'" if row: "find_runner db i = Some row"
    and body: "recovery_body cfg i j now row db = Inr ((a, s), db')" for i j row a s db'
  proof -
    let ?a = "set_task j (failed_task now) db"
    let ?b = "end_leases j Lease_released now ?a"
    from body obtain m where db': "db' = log_event ''runner_task_recovery_resolved'' (Some i) (Some j) m
        (set_runner i (freed_runner Work_idle None now) ?b)"
      by (auto simp: recovery_body_def conflict_def Let_def split: option.splits if_splits)
    have "runner_change db ?a" by (rule edit_task) (simp add: failed_task_def)
    then have b: "changes db ?b" by (rule changes_step [OF change_one end_leases_change]) simp
    have "runner_change ?b (set_runner i (freed_runner Work_idle None now) ?b)"
      by (intro edit_runner [OF changes_inv [OF b inv]])
        (auto simp: freed_runner_def revised_def drained_state_def)
    with b show ?thesis unfolding db' by (meson changes_step note_event)
  qed
  then show ?thesis
    by (auto simp: resolve_task_recovery_def split: sum.splits intro!: changes_administer)
qed

text \<open>The sweep of one task changes no other task row.\<close>

lemma sweep_task_other:
  assumes "u \<in> set (tasks db)" and "tk_id u \<noteq> tk_id t"
  shows "u \<in> set (tasks (snd (sweep_task cfg now t (n, db))))"
proof -
  have "u \<in> set (update_where (\<lambda>v. tk_id v = tk_id t) f (tasks db))" for f
    using assms by (force simp: update_where_mem)
  then show ?thesis using assms(1) by (auto simp: sweep_task_def split: option.splits)
qed

lemma sweep_task_changes:
  assumes inv: "runner_inv db" and t: "t \<in> set (tasks db)"
  shows "changes db (snd (sweep_task cfg now t (n, db)))"
proof -
  let ?e = "set_task (tk_id t) (expired_task now) db"
  let ?recover = "\<lambda>i. set_runner i (recovering_runner (tk_id t) now)
    (set_task (tk_id t) (recovery_task RUNNER_LOST now) db)"
  let ?reset = "\<lambda>i. set_runner i (idle_again now) (set_task (tk_id t)
    (\<lambda>t. waiting_again (tk_error_code t) now t) (end_leases (tk_id t) Lease_expired now db))"
  let ?s = "snd (sweep_task cfg now t (n, db))"
  have "?s = db \<or> ?s = ?e \<or> (\<exists>i. tk_assigned_runner_id t = Some i \<and>
      (?s = ?recover i \<or> \<not> tk_ever_running t \<and> ?s = ?reset i))"
    by (auto simp: sweep_task_def has_text_def split: option.split dest!: find_runnerD)
  then consider (same) "?s = db" | (expired) "?s = ?e"
    | (lost) i where "tk_assigned_runner_id t = Some i" "?s = ?recover i"
    | (given_back) i where "tk_assigned_runner_id t = Some i" "\<not> tk_ever_running t"
      "?s = ?reset i" by blast
  then show ?thesis
  proof cases
    case expired
    have "runner_change db ?e" by (rule edit_task) (simp add: expired_task_def)
    then show ?thesis unfolding expired by (rule change_one)
  next
    case lost
    let ?a = "set_task (tk_id t) (recovery_task RUNNER_LOST now) db"
    have a: "changes db ?a" by (rule change_one, rule edit_task) (simp add: recovery_task_def)
    have "held_by db (tk_id t) i" using t lost(1) by (auto simp: held_by_def)
    then have "held_by ?a (tk_id t) i" by (rule held_by_edited) (simp add: recovery_task_def)
    then have "runner_change ?a (?recover i)"
      by (intro edit_runner [OF changes_inv [OF a inv]]) (simp add: recovering_runner_def)
    with a show ?thesis unfolding lost(2) by (rule changes_step)
  next
    case given_back
    show ?thesis unfolding given_back(3) set_runner_task set_runner_end_leases
      by (rule release_task [OF inv t given_back(2,1)]) (simp_all add: waiting_again_def idle_again_def)
  qed simp
qed

lemma sweep_tasks_changes:
  assumes "runner_inv db" and "set ts \<subseteq> set (tasks db)" and "distinct (map tk_id ts)"
  shows "changes db (snd (fold (sweep_task cfg now) ts (n, db)))"
  using assms
proof (induction ts arbitrary: n db)
  case (Cons t ts)
  obtain m db1 where s: "sweep_task cfg now t (n, db) = (m, db1)" by (metis prod.exhaust)
  have c: "changes db db1" using sweep_task_changes [OF Cons.prems(1), of t cfg now n] Cons.prems(2) s by simp
  have "set ts \<subseteq> set (tasks db1)"
  proof
    fix u assume u: "u \<in> set ts"
    with Cons.prems(2,3) have "u \<in> set (tasks db)" "tk_id u \<noteq> tk_id t" by auto (metis imageI)
    with sweep_task_other [of u db t cfg now n] s show "u \<in> set (tasks db1)" by simp
  qed
  then have "changes db1 (snd (fold (sweep_task cfg now) ts (m, db1)))"
    using changes_inv [OF c Cons.prems(1)] Cons.prems(3) by (intro Cons.IH) simp_all
  with c show ?case by (simp add: s)
qed simp

lemma drain_runners_changes: "runner_inv db \<Longrightarrow> runner_change db (snd (drain_runners now db))"
  unfolding drain_runners_def Let_def snd_conv
  by (rule runners_edited) (auto simp: revised_def)

lemma sweep_changes:
  assumes inv: "runner_inv db" and order: "mset (order (swept_tasks db)) = mset (swept_tasks db)"
  shows "changes db (snd (sweep cfg order now db))"
proof -
  let ?z = "\<lparr>sw_rescheduled = 0, sw_recovery_required = 0, sw_expired = 0, sw_drained = 0\<rparr>"
  obtain n db1 where s: "fold (sweep_task cfg now) (order (swept_tasks db)) (?z, db) = (n, db1)"
    by (metis prod.exhaust)
  have "distinct (map tk_id (swept_tasks db))"
    unfolding swept_tasks_def
    by (rule distinct_map_filter, rule assignment_invD(2), rule runner_invD(1), rule inv)
  then have "distinct (map tk_id (order (swept_tasks db)))" by (metis order mset_eq_imp_distinct_iff mset_map)
  moreover have "set (order (swept_tasks db)) \<subseteq> set (tasks db)"
    using mset_eq_setD [OF order] by (auto simp: swept_tasks_def)
  ultimately have c: "changes db db1"
    using sweep_tasks_changes [OF inv, of "order (swept_tasks db)" cfg now ?z] s by simp
  have "runner_change db1 (snd (drain_runners now db1))"
    by (rule drain_runners_changes [OF changes_inv [OF c inv]])
  with c have "changes db (snd (drain_runners now db1))" by (rule changes_step)
  moreover have "snd (sweep cfg order now db) = snd (drain_runners now db1)"
    by (simp add: sweep_def s split: prod.splits)
  ultimately show ?thesis by simp
qed

end
