(* ===== verification/Runner_System.thy ===== *)
theory Runner_System
  imports Runner_Steps
begin

text \<open>
  The runner store as a transition system: any operation by anyone, with any payload, at any time.
  The two transactions of a status or a result are steps of their own, so that any other operation
  can come between the recording of a message and its effect.
\<close>

inductive runner_step :: "pyenv \<Rightarrow> runner_config \<Rightarrow> runner_db \<Rightarrow> runner_db \<Rightarrow> bool" for env cfg where
  enrolled: "runner_step env cfg db (snd (create_enrollment env cfg p (rid, eid, token) now db))"
    if "RUNNER_ID_RE rid"
| redeemed: "runner_step env cfg db (snd (redeem_enrollment env cfg p tokens now db))"
| updated: "runner_step env cfg db (snd (update_runner env cfg i p now db))"
| acted: "runner_step env cfg db (snd (admin_action env cfg act i p tokens now db))"
| enrollment_revoked: "runner_step env cfg db (snd (revoke_enrollment env cfg i p now db))"
| enrollment_regenerated: "runner_step env cfg db (snd (regenerate_enrollment env cfg i p tokens now db))"
| heard: "runner_step env cfg db (snd (heartbeat env cfg p credential now1 now db))"
| started: "runner_step env cfg db (snd (create_work_task env cfg p now db))"
| commanded: "runner_step env cfg db (snd (command_task env cfg p control now db))"
| assigned: "runner_step env cfg db (snd (claim_next env cfg lease_id now db))" if "lease_id \<noteq> []"
| dispatched: "runner_step env cfg db (snd (mark_dispatched i now db))"
| rescheduled: "runner_step env cfg db (snd (reschedule_undelivered i j n l now db))"
| message_recorded: "runner_step env cfg db (snd (record_message p kind db))"
| status_applied: "runner_step env cfg db (snd (apply_status s now db))"
    if "sr_state s \<in> {Task_queued, Task_running, Task_awaiting_confirmation, Task_recovery_required}"
| result_applied: "runner_step env cfg db (snd (apply_result r now db))"
    if "rr_state r \<in> SETTLED_STATES"
| status_received: "runner_step env cfg db (snd (record_status env p credential now1 now db))"
| result_received: "runner_step env cfg db (snd (record_result env p credential now1 now db))"
| recovery_resolved: "runner_step env cfg db (snd (resolve_task_recovery env cfg i p now db))"
| swept: "runner_step env cfg db (snd (sweep cfg order now db))"
    if "mset (order (swept_tasks db)) = mset (swept_tasks db)"

lemma runner_id_nonempty: "RUNNER_ID_RE rid \<Longrightarrow> rid \<noteq> []"
  by (auto simp: RUNNER_ID_RE_def is_prefix_def)

lemma settled_not_waiting: "st \<in> SETTLED_STATES \<Longrightarrow> st \<noteq> Waiting_runner"
  by (auto simp: SETTLED_STATES_def TERMINAL_TASK_STATES_def)

text \<open>Every operation is a sequence of changes of the specification.\<close>

lemma step_changes:
  assumes "runner_step env cfg db db'" and inv: "runner_inv db"
  shows "changes db db'"
  using assms(1)
proof cases
  case (redeemed p tokens now)
  then show ?thesis using redeem_enrollment_changes [OF inv] by (cases tokens) simp
next
  case (enrolled rid p eid token now)
  then show ?thesis using create_enrollment_changes [OF inv runner_id_nonempty] by simp
next
  case (result_applied r now)
  then show ?thesis using apply_result_changes [OF inv settled_not_waiting] by simp
qed (use inv in \<open>auto intro: update_runner_changes
  admin_action_changes revoke_enrollment_changes regenerate_enrollment_changes heartbeat_changes
  create_work_task_changes command_task_changes claim_next_changes mark_dispatched_changes
  reschedule_changes record_message_changes apply_status_changes record_status_changes record_result_changes
  resolve_recovery_changes sweep_changes\<close>)

interpretation runner_system: inv_system empty_runner_db "runner_step env cfg" runner_inv for env cfg
  by unfold_locales (auto intro: changes_inv step_changes)

text \<open>The store evolves by keeping its history.\<close>

lemma steps_changes:
  "(runner_step env cfg)\<^sup>*\<^sup>* db db' \<Longrightarrow> runner_inv db \<Longrightarrow> changes db db'"
proof (induction rule: rtranclp_induct)
  case (step y z)
  have "runner_inv y" by (rule runner_system.invariant_from [OF step(1,4)])
  with step show ?case using step_changes by (meson rtranclp_trans)
qed simp

lemma steps_history:
  assumes "(runner_step env cfg)\<^sup>*\<^sup>* db db'" and "runner_inv db"
  shows "keeps_history db db'"
  using changes_history [OF steps_changes [OF assms]] assms(2) by simp

end
