(* ===== verification/Runner_Example.thy ===== *)
theory Runner_Example
  imports Runner_System Example_Runtime "HOL-Library.Multiset"
begin

text \<open>
  One concrete run of the runner store for the witnesses: a runner is enrolled, enabled and heard, a
  task is created, leased, dispatched, reported as running and completed.
\<close>

definition runner_cfg0 :: runner_config where
  "runner_cfg0 = \<lparr>rc_online_after_seconds = 30, rc_offline_after_seconds = 90,
     rc_lease_ttl_seconds = 600, rc_task_ttl_seconds = 1800\<rparr>"

definition rid0 :: string where
  "rid0 = ''RN-AAAAAAAAAAAAAAAAAAAA''"

definition enroll_token0 :: string where
  "enroll_token0 = ''ENROLL-00000000000000000000000000000000''"

definition secret0 :: string where
  "secret0 = ''SECRET-00000000000000000000000000000000''"

definition enroll_doc0 :: doc where
  "enroll_doc0 = [(''display_name'', JStr ''Mac''), (''os'', JStr ''macos''), (''arch'', JStr ''aarch64''),
     (''labels'', JList []), (''allowed_projects'', JList [JStr ''demo'']), (''max_concurrency'', JInt 1),
     (''request_id'', JStr ''enroll-1'')]"

definition redeem_doc0 :: doc where
  "redeem_doc0 = [(''token'', JStr enroll_token0), (''runner_id'', JStr rid0), (''protocol_version'', JInt 2),
     (''agent_version'', JStr ''1''), (''codex_version'', JStr ''1''), (''os'', JStr ''macos''),
     (''arch'', JStr ''aarch64''), (''capabilities'', JList []), (''projects'', JList [JStr ''demo'']),
     (''labels'', JList []), (''policy_revision'', JInt 1),
     (''self_check'', JObj [(''ok'', JBool True)])]"

definition enable_doc0 :: doc where
  "enable_doc0 = [(''admin_state'', JStr ''enabled''), (''revision'', JInt 2),
     (''request_id'', JStr ''enable-1'')]"

definition heartbeat_doc0 :: doc where
  "heartbeat_doc0 =
     [(''version'', JInt 2), (''message_type'', JStr ''heartbeat''), (''runner_id'', JStr rid0),
      (''task_id'', JNull), (''assignment_epoch'', JInt 0), (''sequence'', JInt 1),
      (''created_at'', JStr ''A''), (''expires_at'', JStr ''Z''), (''online'', JBool True),
      (''protocol_version'', JInt 2), (''agent_version'', JStr ''1''), (''codex_version'', JStr ''1''),
      (''os'', JStr ''macos''), (''arch'', JStr ''aarch64''), (''labels'', JList []),
      (''allowed_projects'', JList [JStr ''demo'']), (''capabilities'', JList []),
      (''queue_depth'', JInt 0), (''work_state'', JStr ''idle''), (''active_lease_id'', JNull),
      (''self_check'', JStr ''ok''), (''policy_revision'', JInt 1), (''updated_at'', JStr ''A''),
      (''body_digest'', JStr (sha (CHR ''a'')))]"

definition start_doc0 :: doc where
  "start_doc0 = [(''version'', JInt 2), (''request_id'', JStr ''start-001''), (''operation'', JStr ''start''),
     (''source'', owner_source (sha (CHR ''c''))), (''project_alias'', JStr ''demo''),
     (''instruction'', JStr ''go'')]"

definition tid0 :: string where
  "tid0 = ''RW-AAAAAAAAAAAAAAAAAAAA''"

definition status_doc0 :: doc where
  "status_doc0 =
     [(''version'', JInt 2), (''message_type'', JStr ''status''), (''runner_id'', JStr rid0),
      (''task_id'', JStr tid0), (''assignment_epoch'', JInt 1), (''sequence'', JInt 2),
      (''created_at'', JStr ''A''), (''expires_at'', JStr ''Z''), (''lease_id'', JStr ''LS-1''),
      (''state'', JStr ''running''), (''stage'', JStr ''codex''), (''updated_at'', JStr ''A''),
      (''body_digest'', JStr (sha (CHR ''a'')))]"

definition result_doc0 :: doc where
  "result_doc0 =
     [(''version'', JInt 2), (''message_type'', JStr ''result''), (''runner_id'', JStr rid0),
      (''task_id'', JStr tid0), (''assignment_epoch'', JInt 1), (''sequence'', JInt 3),
      (''created_at'', JStr ''A''), (''expires_at'', JStr ''Z''), (''lease_id'', JStr ''LS-1''),
      (''state'', JStr ''completed''), (''finished_at'', JStr ''A''), (''summary'', JStr ''done''),
      (''commits'', JList []), (''changed_path_count'', JInt 0), (''next_actions'', JList []),
      (''candidate_id'', JStr (sha (CHR ''c''))), (''result_hash'', JStr (sha (CHR ''a''))),
      (''body_digest'', JStr (sha (CHR ''a'')))]"

section \<open>The rows and the stores after each operation\<close>

definition ex_runner1 :: runner where
  "ex_runner1 = \<lparr>rn_id = rid0, rn_display_name = ''Mac'', rn_admin_state = Adm_pending,
  rn_work_state = Work_idle, rn_agent_version = None, rn_codex_version = None, rn_os =
  ''macos'', rn_arch = ''aarch64'', rn_labels = [], rn_allowed_projects = [''demo''],
  rn_capabilities = [], rn_policy_revision = 1, rn_revision = 1, rn_self_check = None,
  rn_last_heartbeat_at = None, rn_heartbeat_sequence = 0, rn_heartbeat_digest = None,
  rn_relay_connected = False, rn_current_task_id = None, rn_archived_at = None, rn_created_at
  = 1000000, rn_updated_at = 1000000\<rparr>"

definition ex_enrollment1 :: enrollment where
  "ex_enrollment1 = \<lparr>en_enrollment_id = ''ENR-1'', en_runner_id = rid0, en_token_digest
  = hash64 (CHR ''a''), en_request_id = ''enroll-1'', en_request_digest = sha (CHR ''a''),
  en_expires_at = 901000000, en_claimed_at = None, en_revoked_at = None, en_created_at =
  1000000\<rparr>"

definition ex_runner_event1 :: runner_event where
  "ex_runner_event1 = \<lparr>re_runner_id = Some rid0, re_task_id = None, re_event_type =
  ''runner_enrollment_created'', re_metadata = [(''os'', JStr ''macos''), (''arch'', JStr
  ''aarch64'')]\<rparr>"

definition ex_runner2 :: runner where
  "ex_runner2 = ex_runner1\<lparr>rn_agent_version := Some ''1'', rn_codex_version := Some
  ''1'', rn_revision := 2, rn_self_check := Some [(''ok'', JBool True), (''checks'', JList
  []), (''error_code'', JNull)], rn_updated_at := 2000000\<rparr>"

definition ex_credential1 :: credential where
  "ex_credential1 = \<lparr>cr_credential_id = ''CRD-1'', cr_runner_id = rid0,
  cr_secret_digest = hash64 (CHR ''a''), cr_active = True, cr_created_at = 2000000,
  cr_revoked_at = None\<rparr>"

definition ex_enrollment2 :: enrollment where
  "ex_enrollment2 = ex_enrollment1\<lparr>en_claimed_at := Some 2000000\<rparr>"

definition ex_runner_event2 :: runner_event where
  "ex_runner_event2 = \<lparr>re_runner_id = Some rid0, re_task_id = None, re_event_type =
  ''runner_enrollment_redeemed'', re_metadata = [(''self_check_ok'', JBool True)]\<rparr>"

definition ex_runner3 :: runner where
  "ex_runner3 = ex_runner2\<lparr>rn_admin_state := Adm_enabled, rn_revision := 3,
  rn_updated_at := 3000000\<rparr>"

definition ex_admin_request1 :: admin_request where
  "ex_admin_request1 = \<lparr>aq_request_id = ''enable-1'', aq_action = ''update'',
  aq_body_digest = sha (CHR ''a''), aq_runner_id = rid0, aq_response = Updated \<lparr>rv_row
  = ex_runner3, rv_connectivity = Offline, rv_enrollment = None\<rparr>\<rparr>"

definition ex_runner_event3 :: runner_event where
  "ex_runner_event3 = \<lparr>re_runner_id = Some rid0, re_task_id = None, re_event_type =
  ''runner_updated'', re_metadata = [(''admin_state'', JStr ''enabled'')]\<rparr>"

definition ex_runner4 :: runner where
  "ex_runner4 = ex_runner3\<lparr>rn_self_check := Some [(''ok'', JBool True), (''status'',
  JStr ''ok''), (''error_code'', JNull)], rn_last_heartbeat_at := Some 4000000,
  rn_heartbeat_sequence := 1, rn_heartbeat_digest := Some (sha (CHR ''a'')),
  rn_relay_connected := True, rn_updated_at := 4000000\<rparr>"

definition ex_task1 :: task where
  "ex_task1 = \<lparr>tk_id = tid0, tk_create_request_id = ''start-001'', tk_principal_hash =
  sha (CHR ''c''), tk_project_alias = ''demo'', tk_instruction = ''go'', tk_instruction_digest
  = sha (CHR ''a''), tk_state = Waiting_runner, tk_stage = None, tk_summary = None,
  tk_candidate_id = None, tk_branch = None, tk_commits = [], tk_result_hash = None,
  tk_test_summary = None, tk_changed_path_count = None, tk_next_actions = [], tk_error_code =
  None, tk_action_required = None, tk_preferred_runner_id = None, tk_required_labels = [],
  tk_required_capabilities = [], tk_assigned_runner_id = None, tk_assignment_epoch = 0,
  tk_lease_id = None, tk_lease_expires_at = None, tk_ever_running = False, tk_sequence = 0,
  tk_expires_at = 1805000000, tk_created_at = 5000000, tk_updated_at = 5000000\<rparr>"

definition ex_command_request1 :: command_request where
  "ex_command_request1 = \<lparr>cq_request_id = ''start-001'', cq_operation = ''start'',
  cq_body_digest = sha (CHR ''a''), cq_task_id = tid0\<rparr>"

definition ex_runner_event4 :: runner_event where
  "ex_runner_event4 = \<lparr>re_runner_id = None, re_task_id = Some tid0, re_event_type =
  ''runner_task_created'', re_metadata = [(''project_alias'', JStr ''demo'')]\<rparr>"

definition ex_runner5 :: runner where
  "ex_runner5 = ex_runner4\<lparr>rn_work_state := Work_busy, rn_current_task_id := Some tid0,
  rn_updated_at := 6000000\<rparr>"

definition ex_task2 :: task where
  "ex_task2 = ex_task1\<lparr>tk_state := Task_leased, tk_stage := Some ''dispatch'',
  tk_assigned_runner_id := Some rid0, tk_assignment_epoch := 1, tk_lease_id := Some ''LS-1'',
  tk_lease_expires_at := Some 606000000, tk_sequence := 1, tk_updated_at := 6000000\<rparr>"

definition ex_runner_lease1 :: runner_lease where
  "ex_runner_lease1 = \<lparr>rl_lease_id = ''LS-1'', rl_task_id = tid0, rl_runner_id = rid0,
  rl_assignment_epoch = 1, rl_state = Lease_active, rl_created_at = 6000000, rl_expires_at =
  606000000, rl_released_at = None\<rparr>"

definition ex_runner_event5 :: runner_event where
  "ex_runner_event5 = \<lparr>re_runner_id = Some rid0, re_task_id = Some tid0, re_event_type
  = ''runner_task_leased'', re_metadata = [(''assignment_epoch'', JInt 1)]\<rparr>"

definition ex_task3 :: task where
  "ex_task3 = ex_task2\<lparr>tk_state := Task_dispatched, tk_stage := Some ''relay'',
  tk_updated_at := 7000000\<rparr>"

definition ex_task4 :: task where
  "ex_task4 = ex_task3\<lparr>tk_state := Task_running, tk_stage := Some ''codex'',
  tk_ever_running := True, tk_sequence := 2, tk_updated_at := 8000000\<rparr>"

definition ex_runner_message1 :: runner_message where
  "ex_runner_message1 = \<lparr>rm_runner_id = rid0, rm_task_id = tid0, rm_kind = ''status'',
  rm_assignment_epoch = 1, rm_sequence = 2, rm_body_digest = sha (CHR ''a'')\<rparr>"

definition ex_runner_event6 :: runner_event where
  "ex_runner_event6 = \<lparr>re_runner_id = Some rid0, re_task_id = Some tid0, re_event_type
  = ''runner_task_running'', re_metadata = [(''assignment_epoch'', JInt 1)]\<rparr>"

definition ex_runner6 :: runner where
  "ex_runner6 = ex_runner5\<lparr>rn_work_state := Work_idle, rn_revision := 4,
  rn_current_task_id := None, rn_updated_at := 9000000\<rparr>"

definition ex_task5 :: task where
  "ex_task5 = ex_task4\<lparr>tk_state := Task_completed, tk_stage := Some ''handoff'',
  tk_summary := Some ''done'', tk_candidate_id := Some (sha (CHR ''c'')), tk_result_hash :=
  Some (sha (CHR ''a'')), tk_changed_path_count := Some 0, tk_sequence := 3, tk_updated_at :=
  9000000\<rparr>"

definition ex_runner_lease2 :: runner_lease where
  "ex_runner_lease2 = ex_runner_lease1\<lparr>rl_state := Lease_released, rl_released_at :=
  Some 9000000\<rparr>"

definition ex_runner_message2 :: runner_message where
  "ex_runner_message2 = \<lparr>rm_runner_id = rid0, rm_task_id = tid0, rm_kind = ''result'',
  rm_assignment_epoch = 1, rm_sequence = 3, rm_body_digest = sha (CHR ''a'')\<rparr>"

definition ex_runner_event7 :: runner_event where
  "ex_runner_event7 = \<lparr>re_runner_id = Some rid0, re_task_id = Some tid0, re_event_type
  = ''runner_task_completed'', re_metadata = [(''candidate_present'', JBool True)]\<rparr>"

definition rdb1 :: runner_db where
  "rdb1 = \<lparr>runners = [ex_runner1], credentials = [], enrollments = [ex_enrollment1],
  tasks = [], runner_leases = [], runner_messages = [], command_requests = [], admin_requests
  = [], runner_events = [ex_runner_event1]\<rparr>"

definition rdb2 :: runner_db where
  "rdb2 = \<lparr>runners = [ex_runner2], credentials = [ex_credential1], enrollments =
  [ex_enrollment2], tasks = [], runner_leases = [], runner_messages = [], command_requests =
  [], admin_requests = [], runner_events = [ex_runner_event1, ex_runner_event2]\<rparr>"

definition rdb3 :: runner_db where
  "rdb3 = \<lparr>runners = [ex_runner3], credentials = [ex_credential1], enrollments =
  [ex_enrollment2], tasks = [], runner_leases = [], runner_messages = [], command_requests =
  [], admin_requests = [ex_admin_request1], runner_events = [ex_runner_event1,
  ex_runner_event2, ex_runner_event3]\<rparr>"

definition rdb4 :: runner_db where
  "rdb4 = \<lparr>runners = [ex_runner4], credentials = [ex_credential1], enrollments =
  [ex_enrollment2], tasks = [], runner_leases = [], runner_messages = [], command_requests =
  [], admin_requests = [ex_admin_request1], runner_events = [ex_runner_event1,
  ex_runner_event2, ex_runner_event3]\<rparr>"

definition rdb5 :: runner_db where
  "rdb5 = \<lparr>runners = [ex_runner4], credentials = [ex_credential1], enrollments =
  [ex_enrollment2], tasks = [ex_task1], runner_leases = [], runner_messages = [],
  command_requests = [ex_command_request1], admin_requests = [ex_admin_request1],
  runner_events = [ex_runner_event1, ex_runner_event2, ex_runner_event3,
  ex_runner_event4]\<rparr>"

definition rdb6 :: runner_db where
  "rdb6 = \<lparr>runners = [ex_runner5], credentials = [ex_credential1], enrollments =
  [ex_enrollment2], tasks = [ex_task2], runner_leases = [ex_runner_lease1], runner_messages =
  [], command_requests = [ex_command_request1], admin_requests = [ex_admin_request1],
  runner_events = [ex_runner_event1, ex_runner_event2, ex_runner_event3, ex_runner_event4,
  ex_runner_event5]\<rparr>"

definition rdb7 :: runner_db where
  "rdb7 = \<lparr>runners = [ex_runner5], credentials = [ex_credential1], enrollments =
  [ex_enrollment2], tasks = [ex_task3], runner_leases = [ex_runner_lease1], runner_messages =
  [], command_requests = [ex_command_request1], admin_requests = [ex_admin_request1],
  runner_events = [ex_runner_event1, ex_runner_event2, ex_runner_event3, ex_runner_event4,
  ex_runner_event5]\<rparr>"

definition rdb8 :: runner_db where
  "rdb8 = \<lparr>runners = [ex_runner5], credentials = [ex_credential1], enrollments =
  [ex_enrollment2], tasks = [ex_task4], runner_leases = [ex_runner_lease1], runner_messages =
  [ex_runner_message1], command_requests = [ex_command_request1], admin_requests =
  [ex_admin_request1], runner_events = [ex_runner_event1, ex_runner_event2, ex_runner_event3,
  ex_runner_event4, ex_runner_event5, ex_runner_event6]\<rparr>"

definition rdb9 :: runner_db where
  "rdb9 = \<lparr>runners = [ex_runner6], credentials = [ex_credential1], enrollments =
  [ex_enrollment2], tasks = [ex_task5], runner_leases = [ex_runner_lease2], runner_messages =
  [ex_runner_message1, ex_runner_message2], command_requests = [ex_command_request1],
  admin_requests = [ex_admin_request1], runner_events = [ex_runner_event1, ex_runner_event2,
  ex_runner_event3, ex_runner_event4, ex_runner_event5, ex_runner_event6,
  ex_runner_event7]\<rparr>"


section \<open>The length of a canonical text\<close>

text \<open>A bound that is cheap to evaluate, for the size check of a message.\<close>

fun json_bound :: "(pyfloat \<Rightarrow> string) \<Rightarrow> json \<Rightarrow> nat" where
  "json_bound fl JNull = 4"
| "json_bound fl (JBool b) = 5"
| "json_bound fl (JInt i) = length (show_int i)"
| "json_bound fl (JFloat x) = length (fl x)"
| "json_bound fl (JStr s) = 6 * length s + 2"
| "json_bound fl (JList vs) = 2 + sum_list (map (\<lambda>v. json_bound fl v + 1) vs)"
| "json_bound fl (JObj kvs) = 2 + sum_list (map (\<lambda>(k, v). 6 * length k + 4 + json_bound fl v) kvs)"

lemma length_json_quote: "length (json_quote s) \<le> 6 * length s + 2"
proof -
  have "length (json_escape c) \<le> 6" for c by (simp add: json_escape_def)
  then have "length (concat (map json_escape s)) \<le> 6 * length s"
    by (induction s) (auto intro: add_le_mono)
  then show ?thesis by (simp add: json_quote_def)
qed

lemma length_join: "length (join [c] xs) \<le> sum_list (map (\<lambda>x. length x + 1) xs)"
  by (induction "[c]" xs rule: join.induct) auto

lemma sum_list_sort_key: "sum_list (map g (sort_key f xs)) = sum_list (map g xs)" for g :: "'a \<Rightarrow> nat"
proof -
  have "mset (map g (sort_key f xs)) = mset (map g xs)" by simp
  then show ?thesis by (metis sum_mset_sum_list)
qed

lemma length_canonical: "length (canonical_json_of fl v) \<le> json_bound fl v"
proof (induction fl v rule: canonical_json_of.induct)
  case (6 fl vs)
  have "sum_list (map (\<lambda>v. length (canonical_json_of fl v) + 1) vs)
      \<le> sum_list (map (\<lambda>v. json_bound fl v + 1) vs)"
    using 6 by (intro sum_list_mono) simp
  with length_join [of "CHR '',''" "map (canonical_json_of fl) vs"] show ?case by (simp add: comp_def)
next
  case (7 fl kvs)
  let ?zs = "map (\<lambda>(k, v). (k, canonical_json_of fl v)) kvs"
  let ?g = "\<lambda>(k, t). length (json_quote k) + length t + 2"
  have "sum_list (map ?g ?zs) \<le> sum_list (map (\<lambda>(k, v). 6 * length k + 4 + json_bound fl v) kvs)"
    unfolding map_map comp_def
  proof (rule sum_list_mono)
    fix x assume x: "x \<in> set kvs"
    obtain k v where kv: "x = (k, v)" by (cases x)
    with 7 x have "length (canonical_json_of fl v) \<le> json_bound fl v" by blast
    with length_json_quote [of k]
    show "(case case x of (k, v) \<Rightarrow> (k, canonical_json_of fl v) of (k, t) \<Rightarrow> length (json_quote k) + length t + 2)
        \<le> (case x of (k, v) \<Rightarrow> 6 * length k + 4 + json_bound fl v)"
      by (simp add: kv)
  qed
  moreover have "length (join '','' (map (\<lambda>(k, t). json_quote k @ '':'' @ t) (sort_key fst ?zs)))
      \<le> sum_list (map ?g (sort_key fst ?zs))"
    by (rule order_trans [OF length_join]) (simp add: comp_def case_prod_unfold)
  ultimately show ?case by (simp only: sum_list_sort_key canonical_json_of.simps) simp
qed (use length_json_quote in \<open>auto simp: numeral_eq_Suc\<close>)

lemma env0_digest [simp]: "runner_digest env0 v = sha (CHR ''a'')"
  by (simp add: runner_digest_def sha_def)

lemma message_fits:
  "json_bound (float_repr env0) (JObj p) \<le> MAX_MESSAGE_BYTES \<Longrightarrow>
   \<not> length (canonical_json env0 (JObj p)) > MAX_MESSAGE_BYTES"
  unfolding canonical_json_def using length_canonical [of "float_repr env0" "JObj p"] by linarith

section \<open>The run\<close>

lemma run_enroll: "snd (create_enrollment env0 runner_cfg0 enroll_doc0 (rid0, ''ENR-1'', enroll_token0) 1000000
    empty_runner_db) = rdb1"
  by code_simp

lemma run_redeem:
  "redeem_enrollment env0 runner_cfg0 redeem_doc0 (''CRD-1'', secret0) 2000000 rdb1
    = (Inr (\<lparr>rv_row = ex_runner2, rv_connectivity = Offline, rv_enrollment = Some
       \<lparr>ev_state = ''claimed'', ev_expires_at = 901000000, ev_token = None\<rparr>\<rparr>,
       \<lparr>cv_credential_id = ''CRD-1'', cv_secret = Some secret0\<rparr>), rdb2)"
  by code_simp

lemma run_enable:
  "update_runner env0 runner_cfg0 (JStr rid0) enable_doc0 3000000 rdb2
    = (Inr (aq_response ex_admin_request1), rdb3)"
  by code_simp


lemma ids0 [simp]: "RUNNER_ID_RE rid0" "TASK_ID_RE tid0" "py_len secret0 = 39"
  by code_simp+

lemma times0 [simp]: "parse_time env0 (JStr ''A'') = Inr 0" "parse_time env0 (JStr ''Z'') = Inr 900000000"
  by code_simp+

lemma fits0:
  "json_bound (float_repr env0) (JObj heartbeat_doc0) \<le> MAX_MESSAGE_BYTES"
  "json_bound (float_repr env0) (JObj status_doc0) \<le> MAX_MESSAGE_BYTES"
  "json_bound (float_repr env0) (JObj result_doc0) \<le> MAX_MESSAGE_BYTES"
  by (simp_all add: heartbeat_doc0_def status_doc0_def result_doc0_def
    MAX_MESSAGE_BYTES_def show_int_def show_nat.simps rid0_def tid0_def sha_def hash64_def)

lemmas message_checks = validate_message_def get_field_def runner_id_of_def
  task_id_of_def matched_def str_matches_def int_at_least_def message_times_def seconds_def

lemma valid_status: "validate_message env0 status_doc0 ''status'' False 8000000 = Inr ()"
  using message_fits [OF fits0(2)]
  by (simp add: message_checks status_doc0_def)

lemma valid_result: "validate_message env0 result_doc0 ''result'' False 9000000 = Inr ()"
  using message_fits [OF fits0(3)]
  by (simp add: message_checks result_doc0_def)

lemma valid_heartbeat: "validate_message env0 heartbeat_doc0 ''heartbeat'' True 4000000 = Inr ()"
  using message_fits [OF fits0(1)]
  by (simp add: message_checks heartbeat_doc0_def)

definition heartbeat0 :: heartbeat_report where
  "heartbeat0 = \<lparr>hb_runner_id = rid0, hb_sequence = 1, hb_body_digest = sha (CHR ''a''),
     hb_online = True, hb_work_state = Work_idle, hb_capabilities = [], hb_projects = [''demo''],
     hb_labels = [], hb_self_check = ''ok'', hb_error_code = None\<rparr>"

definition message0 :: "int \<Rightarrow> message" where
  "message0 n = \<lparr>ms_runner_id = rid0, ms_task_id = tid0, ms_epoch = 1, ms_sequence = n,
     ms_body_digest = sha (CHR ''a''), ms_lease_id = JStr ''LS-1''\<rparr>"

definition status0 :: status_report where
  "status0 = \<lparr>sr_message = message0 2, sr_state = Task_running, sr_stage = ''codex'',
     sr_candidate_id = None, sr_error_code = None, sr_action_required = None\<rparr>"

definition result0 :: result_report where
  "result0 = \<lparr>rr_message = message0 3, rr_state = Task_completed, rr_summary = ''done'',
     rr_test_summary = None, rr_candidate_id = sha (CHR ''c''), rr_result_hash = sha (CHR ''a''),
     rr_changed_path_count = 0, rr_next_actions = [], rr_commits = [], rr_branch = None,
     rr_error_code = None\<rparr>"

lemma documents0 [simp]:
  "get_field status_doc0 ''runner_id'' = JStr rid0" "get_field result_doc0 ''runner_id'' = JStr rid0"
  "get_field heartbeat_doc0 ''runner_id'' = JStr rid0"
  by (simp_all add: get_field_def status_doc0_def result_doc0_def heartbeat_doc0_def)

lemma credential0:
  "verify_credential env0 rdb3 (JStr rid0) (JStr secret0) = Inr ()"
  "verify_credential env0 rdb7 (JStr rid0) (JStr secret0) = Inr ()"
  "verify_credential env0 rdb8 (JStr rid0) (JStr secret0) = Inr ()"
  by code_simp+

lemma validated_heartbeat:
  "validate_heartbeat env0 heartbeat_doc0 (JStr secret0) 4000000 rdb3 = Inr heartbeat0"
proof -
  have "fields_ok HEARTBEAT_FIELDS [''error_code''] heartbeat_doc0" by code_simp
  moreover have "get_field heartbeat_doc0 ''updated_at'' = JStr ''A''"
    "get_field heartbeat_doc0 ''protocol_version'' = JInt 2"
    "get_field heartbeat_doc0 ''online'' = JBool True" "get_field heartbeat_doc0 ''queue_depth'' = JInt 0"
    "get_field heartbeat_doc0 ''sequence'' = JInt 1"
    "get_field heartbeat_doc0 ''body_digest'' = JStr (sha (CHR ''a''))"
    "get_field heartbeat_doc0 ''self_check'' = JStr ''ok''"
    "get_field heartbeat_doc0 ''error_code'' = JNull"
    by (simp_all add: get_field_def heartbeat_doc0_def)
  moreover have "work_state_of (get_field heartbeat_doc0 ''work_state'') = Inr (Some Work_idle)"
    "platform_ok (get_field heartbeat_doc0 ''os'') (get_field heartbeat_doc0 ''arch'') = Inr True"
    "capabilities_of (get_field heartbeat_doc0 ''capabilities'') = Inr []"
    "safe_values (get_field heartbeat_doc0 ''allowed_projects'') PROJECT_RE 64 = Inr [''demo'']"
    "safe_values (get_field heartbeat_doc0 ''labels'') LABEL_RE 32 = Inr []"
    by (simp_all add: get_field_def heartbeat_doc0_def) code_simp+
  ultimately show ?thesis
    using valid_heartbeat credential0(1)
    by (simp add: validate_heartbeat_def validate_heartbeat_platform_def runner_id_of_def matched_def
      str_matches_def str_of_def int_at_least_def int_of_json_def in_string_set_def optional_match_def
      heartbeat0_def)
qed

lemma validated_status: "validate_status env0 status_doc0 (JStr secret0) 8000000 rdb7 = Inr status0"
proof -
  have "fields_ok STATUS_FIELDS [''queue_position'', ''candidate_id'', ''error_code'',
      ''action_required''] status_doc0" by code_simp
  moreover have "get_field status_doc0 ''updated_at'' = JStr ''A''"
    "get_field status_doc0 ''state'' = JStr ''running''" "get_field status_doc0 ''stage'' = JStr ''codex''"
    "get_field status_doc0 ''candidate_id'' = JNull" "get_field status_doc0 ''error_code'' = JNull"
    "get_field status_doc0 ''action_required'' = JNull" "get_field status_doc0 ''queue_position'' = JNull"
    by (simp_all add: get_field_def status_doc0_def)
  moreover have "message_of status_doc0 = Inr (message0 2)" by code_simp
  ultimately show ?thesis
    using valid_status credential0(2)
    by (simp add: validate_status_def state_among_def member_or_invalid_def in_string_set_def
      STATUS_STAGES_def str_of_def optional_match_def optional_member_def status0_def)
qed

lemma validated_result: "validate_result env0 result_doc0 (JStr secret0) 9000000 rdb8 = Inr result0"
proof -
  have "fields_ok RESULT_FIELDS [''branch'', ''test_summary'', ''error_code''] result_doc0" by code_simp
  moreover have fields: "get_field result_doc0 ''finished_at'' = JStr ''A''"
    "get_field result_doc0 ''state'' = JStr ''completed''"
    "get_field result_doc0 ''version'' = JInt 2" "get_field result_doc0 ''message_type'' = JStr ''result''"
    "get_field result_doc0 ''lease_id'' = JStr ''LS-1''"
    "get_field result_doc0 ''body_digest'' = JStr (sha (CHR ''a''))"
    "get_field result_doc0 ''result_hash'' = JStr (sha (CHR ''a''))"
    "get_field result_doc0 ''changed_path_count'' = JInt 0"
    "get_field result_doc0 ''branch'' = JNull" "get_field result_doc0 ''error_code'' = JNull"
    "get_field result_doc0 ''summary'' = JStr ''done''" "get_field result_doc0 ''test_summary'' = JNull"
    "get_field result_doc0 ''candidate_id'' = JStr (sha (CHR ''c''))"
    "get_field result_doc0 ''next_actions'' = JList []" "get_field result_doc0 ''commits'' = JList []"
    by (simp_all add: get_field_def result_doc0_def)
  moreover have m: "message_of result_doc0 = Inr (message0 3)" by code_simp
  moreover have "bounded_text (JStr ''done'') 6000 = Inr ''done''" by code_simp
  moreover have "reject_late_result env0 result_doc0 (JStr secret0) rdb8 = Inr ()"
  proof -
    have "late_result_shape env0 result_doc0 = Some (message0 3)"
      by (simp add: late_result_shape_def fields m)
    moreover have "find_task rdb8 tid0 = Some ex_task4" "tk_state ex_task4 = Task_running" by code_simp+
    ultimately show ?thesis using credential0(3)
      by (simp add: reject_late_result_def message0_def SETTLED_STATES_def TERMINAL_TASK_STATES_def)
  qed
  ultimately show ?thesis
    using valid_result credential0(3)
    by (simp add: validate_result_def validate_result_content_def state_among_def optional_text_def
      matched_def str_matches_def str_of_def int_at_least_def int_of_json_def next_actions_of_def
      commits_of_def optional_match_def result0_def)
qed

lemma run_heartbeat:
  "snd (heartbeat env0 runner_cfg0 heartbeat_doc0 (JStr secret0) 4000000 4000000 rdb3) = rdb4"
  unfolding heartbeat_def validated_heartbeat sum.case by code_simp

lemma run_start:
  "create_work_task env0 runner_cfg0 start_doc0 5000000 rdb4 = (Inr (public_task ex_task1, False), rdb5)"
  by code_simp

lemma run_claim: "snd (claim_next env0 runner_cfg0 ''LS-1'' 6000000 rdb5) = rdb6"
proof -
  have "select_assignment runner_cfg0 6000000 (idle_runners rdb5) (waiting_tasks rdb5)
      = ([], Some (ex_task1, ex_runner4))" by code_simp
  moreover have "insert_runner_lease \<lparr>rl_lease_id = ''LS-1'', rl_task_id = tk_id ex_task1,
      rl_runner_id = rn_id ex_runner4, rl_assignment_epoch = tk_assignment_epoch ex_task1 + 1,
      rl_state = Lease_active, rl_created_at = 6000000,
      rl_expires_at = 6000000 + seconds (rc_lease_ttl_seconds runner_cfg0), rl_released_at = None\<rparr> rdb5
      = Inr (rdb5\<lparr>runner_leases := [ex_runner_lease1]\<rparr>)" by code_simp
  moreover have "rowcount (\<lambda>u. tk_id u = tk_id ex_task1 \<and> tk_state u = Waiting_runner) (tasks rdb5) = 1"
    by code_simp
  moreover have "log_event ''runner_task_leased'' (Some (rn_id ex_runner4)) (Some (tk_id ex_task1))
      [(''assignment_epoch'', JInt (tk_assignment_epoch ex_task1 + 1))]
      (set_runner (rn_id ex_runner4) (busy_with (tk_id ex_task1) 6000000)
        (rdb5\<lparr>runner_leases := [ex_runner_lease1], tasks := update_where
          (\<lambda>u. tk_id u = tk_id ex_task1 \<and> tk_state u = Waiting_runner)
          (leased_task (rn_id ex_runner4) (tk_assignment_epoch ex_task1 + 1) ''LS-1''
             (6000000 + seconds (rc_lease_ttl_seconds runner_cfg0)) 6000000) (tasks rdb5)\<rparr>)) = rdb6"
    by code_simp
  moreover have "find_task rdb6 (tk_id ex_task1) = Some ex_task2" by code_simp
  ultimately show ?thesis
    by (simp add: claim_next_def claim_task_def in_transaction_def expire_tasks_def Let_def)
qed

lemma run_dispatch: "snd (mark_dispatched (JStr tid0) 7000000 rdb6) = rdb7"
  by code_simp

lemma run_status:
  "record_status env0 status_doc0 (JStr secret0) 8000000 8000000 rdb7 = (Inr (public_task ex_task4), rdb8)"
  unfolding record_status_def validated_status sum.case by code_simp

lemma run_result:
  "record_result env0 result_doc0 (JStr secret0) 9000000 9000000 rdb8 = (Inr (public_task ex_task5), rdb9)"
  unfolding record_result_def validated_result sum.case by code_simp

section \<open>The stores of the run are reachable\<close>

lemma run_steps:
  "runner_step env0 runner_cfg0 empty_runner_db rdb1" "runner_step env0 runner_cfg0 rdb1 rdb2"
  "runner_step env0 runner_cfg0 rdb2 rdb3" "runner_step env0 runner_cfg0 rdb3 rdb4"
  "runner_step env0 runner_cfg0 rdb4 rdb5" "runner_step env0 runner_cfg0 rdb5 rdb6"
  "runner_step env0 runner_cfg0 rdb6 rdb7" "runner_step env0 runner_cfg0 rdb7 rdb8"
  "runner_step env0 runner_cfg0 rdb8 rdb9"
proof -
  show "runner_step env0 runner_cfg0 empty_runner_db rdb1" by (subst run_enroll [symmetric], rule enrolled) simp
  show "runner_step env0 runner_cfg0 rdb1 rdb2"
    using redeemed [of env0 runner_cfg0 rdb1 redeem_doc0 "(''CRD-1'', secret0)" 2000000] by (simp add: run_redeem)
  show "runner_step env0 runner_cfg0 rdb2 rdb3"
    using updated [of env0 runner_cfg0 rdb2 "JStr rid0" enable_doc0 3000000] by (simp add: run_enable)
  show "runner_step env0 runner_cfg0 rdb3 rdb4" by (subst run_heartbeat [symmetric], rule heard)
  show "runner_step env0 runner_cfg0 rdb4 rdb5"
    using started [of env0 runner_cfg0 rdb4 start_doc0 5000000] by (simp add: run_start)
  show "runner_step env0 runner_cfg0 rdb5 rdb6" by (subst run_claim [symmetric], rule assigned) simp
  show "runner_step env0 runner_cfg0 rdb6 rdb7" by (subst run_dispatch [symmetric], rule dispatched)
  show "runner_step env0 runner_cfg0 rdb7 rdb8"
    using status_received [of env0 runner_cfg0 rdb7 status_doc0 "JStr secret0" 8000000 8000000] by (simp add: run_status)
  show "runner_step env0 runner_cfg0 rdb8 rdb9"
    using result_received [of env0 runner_cfg0 rdb8 result_doc0 "JStr secret0" 9000000 9000000] by (simp add: run_result)
qed

lemma reach_run:
  "reach empty_runner_db (runner_step env0 runner_cfg0) rdb1"
  "reach empty_runner_db (runner_step env0 runner_cfg0) rdb2"
  "reach empty_runner_db (runner_step env0 runner_cfg0) rdb5"
  "reach empty_runner_db (runner_step env0 runner_cfg0) rdb8"
  using run_steps by (meson reach.intros)+

end
