(* ===== verification/Runner_Dispatch.thy ===== *)
theory Runner_Dispatch
  imports Runner_System
begin

text \<open>
  What the dispatcher chooses and does: the earliest waiting task that fits a runner, leased to the
  earliest runner it fits, with nothing in the way.
\<close>

section \<open>The dispatcher\<close>

text \<open>A task and a runner that fit, and the order of the queue: by creation, then by id.\<close>

definition fits :: "runner_config \<Rightarrow> int \<Rightarrow> runner_db \<Rightarrow> task \<Rightarrow> runner \<Rightarrow> bool" where
  "fits cfg now db t r \<longleftrightarrow>
     t \<in> set (tasks db) \<and> tk_state t = Waiting_runner \<and> now < tk_expires_at t \<and>
     r \<in> set (runners db) \<and> rn_archived_at r = None \<and> rn_admin_state r = Adm_enabled \<and>
     rn_work_state r = Work_idle \<and> rn_current_task_id r = None \<and> can_take cfg now t r"

definition not_after :: "int \<Rightarrow> string \<Rightarrow> int \<Rightarrow> string \<Rightarrow> bool" where
  "not_after c i c' i' \<longleftrightarrow> c < c' \<or> c = c' \<and> i \<le> i'"

lemma sort_two_keys:
  fixes f :: "'a \<Rightarrow> int" and g :: "'a \<Rightarrow> string"
  assumes "sort_key f (sort_key g xs) = as @ x # bs" and "y \<in> set (x # bs)"
  shows "not_after (f x) (g x) (f y) (g y)"
proof (cases "y = x")
  case False
  then have y: "y \<in> set bs" using assms(2) by simp
  have "sorted (map f (as @ x # bs))" using sorted_sort_key [of f "sort_key g xs"] assms(1) by simp
  then have le: "f x \<le> f y" using y by (auto simp: sorted_append)
  have "filter (\<lambda>z. f z = f x) (as @ x # bs) = filter (\<lambda>z. f z = f x) (sort_key g xs)"
    using sort_key_stable [of f "f x" "sort_key g xs"] assms(1) by simp
  moreover have "sorted (map g (filter (\<lambda>z. f z = f x) (sort_key g xs)))"
    by (simp add: sorted_filter)
  ultimately have "sorted (map g (filter (\<lambda>z. f z = f x) (as @ x # bs)))" by simp
  then show ?thesis using le y unfolding not_after_def by (fastforce simp: sorted_append)
qed (simp add: not_after_def)

lemma find_split: "find p xs = Some x \<Longrightarrow> \<exists>as bs. xs = as @ x # bs \<and> p x \<and> (\<forall>a \<in> set as. \<not> p a)"
proof (induction xs)
  case (Cons a xs)
  then show ?case by (cases "p a") (auto, metis append_Nil empty_iff list.set(1), metis append_Cons set_ConsD)
qed simp

lemma select_assignment_split:
  "select_assignment cfg now rs ts = (expired, Some (t, r)) \<Longrightarrow>
   \<exists>as bs. ts = as @ t # bs \<and> find (can_take cfg now t) rs = Some r \<and>
     (\<forall>u \<in> set as. now < tk_expires_at u \<longrightarrow> find (can_take cfg now u) rs = None)"
proof (induction ts arbitrary: expired)
  case (Cons u ts)
  consider "now < tk_expires_at u" "u = t" "find (can_take cfg now u) rs = Some r"
    | e where "select_assignment cfg now rs ts = (e, Some (t, r))"
        "now < tk_expires_at u \<longrightarrow> find (can_take cfg now u) rs = None"
    using Cons.prems by (auto split: if_splits prod.splits option.splits)
  then show ?case
  proof cases
    case 1
    then show ?thesis by (intro exI [of _ "[]"] exI [of _ ts]) simp
  next
    case 2
    from Cons.IH [OF 2(1)] obtain as bs where "ts = as @ t # bs" "find (can_take cfg now t) rs = Some r"
      "\<forall>v \<in> set as. now < tk_expires_at v \<longrightarrow> find (can_take cfg now v) rs = None" by blast
    with 2(2) show ?thesis by (intro exI [of _ "u # as"] exI [of _ bs]) simp
  qed
qed simp

lemma select_assignment_none:
  "select_assignment cfg now rs ts = (expired, None) \<Longrightarrow> u \<in> set ts \<Longrightarrow> now < tk_expires_at u \<Longrightarrow>
   find (can_take cfg now u) rs = None"
  by (induction ts arbitrary: expired) (auto split: if_splits prod.splits option.splits)

lemma no_fit: "find (can_take cfg now t) (idle_runners db) = None \<Longrightarrow> \<not> fits cfg now db t r"
  by (auto simp: find_None_iff fits_def idle_runners_member)

lemma expire_tasks_leases [simp]: "runner_leases (expire_tasks ids now db) = runner_leases db"
  by (induction ids arbitrary: db) simp_all

text \<open>The selection is the earliest task that fits, with the earliest runner that fits it.\<close>

lemma select_assignment_earliest:
  assumes inv: "runner_inv db"
    and sel: "select_assignment cfg now (idle_runners db) (waiting_tasks db) = (expired, Some (t, r))"
  shows "fits cfg now db t r" and "tk_id t \<notin> set expired"
    and "fits cfg now db u q \<Longrightarrow> not_after (tk_created_at t) (tk_id t) (tk_created_at u) (tk_id u)"
    and "fits cfg now db t q \<Longrightarrow> not_after (rn_created_at r) (rn_id r) (rn_created_at q) (rn_id q)"
proof -
  from select_assignment_found [OF sel waiting_tasks_distinct [OF inv]]
  show "fits cfg now db t r" "tk_id t \<notin> set expired"
    by (simp_all add: fits_def waiting_tasks_member idle_runners_member)
  from select_assignment_split [OF sel] obtain as bs where
    split: "waiting_tasks db = as @ t # bs" "find (can_take cfg now t) (idle_runners db) = Some r"
      "\<And>v. v \<in> set as \<Longrightarrow> now < tk_expires_at v \<Longrightarrow> find (can_take cfg now v) (idle_runners db) = None"
    by blast
  show "not_after (tk_created_at t) (tk_id t) (tk_created_at u) (tk_id u)" if u: "fits cfg now db u q"
  proof (rule sort_two_keys)
    show "sort_key tk_created_at (sort_key tk_id (filter (\<lambda>t. tk_state t = Waiting_runner) (tasks db)))
        = as @ t # bs" using split(1) by (simp add: waiting_tasks_def)
    have "u \<in> set (waiting_tasks db)" using u by (simp add: waiting_tasks_member fits_def)
    moreover have "u \<notin> set as" using split(3) [of u] no_fit u by (metis fits_def)
    ultimately show "u \<in> set (t # bs)" using split(1) by auto
  qed
  from find_split [OF split(2)] obtain xs ys where
    rs: "idle_runners db = xs @ r # ys" "\<And>x. x \<in> set xs \<Longrightarrow> \<not> can_take cfg now t x" by blast
  show "not_after (rn_created_at r) (rn_id r) (rn_created_at q) (rn_id q)" if q: "fits cfg now db t q"
  proof (rule sort_two_keys)
    show "sort_key rn_created_at (sort_key rn_id (filter (\<lambda>r. rn_archived_at r = None
        \<and> rn_admin_state r = Adm_enabled \<and> rn_work_state r = Work_idle
        \<and> rn_current_task_id r = None) (runners db))) = xs @ r # ys"
      using rs(1) by (simp add: idle_runners_def)
    have "q \<in> set (idle_runners db)" "can_take cfg now t q"
      using q by (simp_all add: fits_def idle_runners_member)
    with rs show "q \<in> set (r # ys)" by auto
  qed
qed

definition new_lease :: "runner_config \<Rightarrow> string \<Rightarrow> int \<Rightarrow> task \<Rightarrow> runner \<Rightarrow> runner_lease" where
  "new_lease cfg lid now t r =
     \<lparr>rl_lease_id = lid, rl_task_id = tk_id t, rl_runner_id = rn_id r,
      rl_assignment_epoch = tk_assignment_epoch t + 1, rl_state = Lease_active, rl_created_at = now,
      rl_expires_at = now + seconds (rc_lease_ttl_seconds cfg), rl_released_at = None\<rparr>"

definition leased :: "runner_config \<Rightarrow> string \<Rightarrow> int \<Rightarrow> task \<Rightarrow> runner \<Rightarrow> task" where
  "leased cfg lid now t r = leased_task (rn_id r) (tk_assignment_epoch t + 1) lid
     (now + seconds (rc_lease_ttl_seconds cfg)) now t"

lemma waiting_not_leased:
  assumes inv: "runner_inv db" and t: "t \<in> set (tasks db)" "tk_state t = Waiting_runner"
  shows "\<not> list_ex (\<lambda>m. rl_task_id m = tk_id t \<and> rl_state m = Lease_active) (runner_leases db)"
  using active_lease_of [OF inv _ _ t(1)] waiting_unassigned [OF inv t] by (fastforce simp: list_ex_iff)

text \<open>Leasing a waiting task to a runner succeeds: no constraint and no check is in the way.\<close>

lemma claim_task_succeeds:
  assumes inv: "runner_inv db" and t: "t \<in> set (tasks db)" "tk_state t = Waiting_runner"
    and r: "r \<in> set (runners db)" and lid: "lid \<notin> set (map rl_lease_id (runner_leases db))"
  obtains db' where "claim_task env cfg lid now k t r db =
      Inr (Some (public_task (leased cfg lid now t r), with_digest env (request_fields
        (leased cfg lid now t r) (rn_id r) (rn_policy_revision r) lid
        (now + seconds (rc_lease_ttl_seconds cfg)) now)), db')"
    and "find_task db' (tk_id t) = Some (leased cfg lid now t r)"
    and "find_runner db' (rn_id r) = Some (busy_with (tk_id t) now r)"
    and "runner_leases db' = runner_leases db @ [new_lease cfg lid now t r]"
proof -
  let ?w = "\<lambda>u. tk_id u = tk_id t \<and> tk_state u = Waiting_runner"
  let ?f = "leased_task (rn_id r) (tk_assignment_epoch t + 1) lid (now + seconds (rc_lease_ttl_seconds cfg)) now"
  let ?db = "set_runner (rn_id r) (busy_with (tk_id t) now) (db\<lparr>runner_leases := runner_leases db @
      [new_lease cfg lid now t r], tasks := update_where ?w ?f (tasks db)\<rparr>)"
  have "insert_runner_lease (new_lease cfg lid now t r) db
      = Inr (db\<lparr>runner_leases := runner_leases db @ [new_lease cfg lid now t r]\<rparr>)"
    using lid waiting_not_leased [OF inv t] by (simp add: insert_runner_lease_def insert_row_def new_lease_def)
  note ins = this [unfolded new_lease_def]
  have "filter ?w (tasks db) \<noteq> []" using t by (simp add: filter_empty_conv) blast
  then have n: "1 \<le> rowcount ?w (tasks db)" by (simp add: rowcount_def Suc_le_eq)
  have "select_one (\<lambda>u. tk_id u = tk_id t) (tasks db) = Some t"
    using find_task_member [OF inv t(1)] by (simp add: find_task_def)
  then have task: "select_one (\<lambda>u. tk_id u = tk_id t) (update_where ?w ?f (tasks db)) = Some (?f t)"
    using t(2) by (subst select_one_update_where) (simp_all add: leased_task_def)
  have "distinct (map rn_id (runners db))" using inv by (auto dest: runner_invD assignment_invD)
  then have "select_one (\<lambda>q. rn_id q = rn_id r) (runners db) = Some r" using r by (rule select_one_key)
  then have runner: "select_one (\<lambda>q. rn_id q = rn_id r) (runners ?db) = Some (busy_with (tk_id t) now r)"
    by (simp add: select_one_update_where busy_with_def)
  show thesis
  proof (rule that [of "log_event ''runner_task_leased'' (Some (rn_id r)) (Some (tk_id t))
      [(''assignment_epoch'', JInt (tk_assignment_epoch t + 1))] ?db"])
    show "claim_task env cfg lid now k t r db = Inr (Some (public_task (leased cfg lid now t r),
        with_digest env (request_fields (leased cfg lid now t r) (rn_id r) (rn_policy_revision r) lid
        (now + seconds (rc_lease_ttl_seconds cfg)) now)), log_event ''runner_task_leased''
        (Some (rn_id r)) (Some (tk_id t)) [(''assignment_epoch'', JInt (tk_assignment_epoch t + 1))] ?db)"
      using n task by (simp add: claim_task_def ins Let_def find_task_def log_event_def leased_def new_lease_def)
  qed (use task runner in \<open>simp_all add: find_task_def find_runner_def log_event_def leased_def\<close>)
qed

text \<open>What a call of the dispatcher comes to.\<close>

lemma claim_next_none:
  assumes "select_assignment cfg now (idle_runners db) (waiting_tasks db) = (expired, None)"
  shows "claim_next env cfg lid now db = (Inr None, expire_tasks expired now db)"
    and "\<not> fits cfg now db t r"
proof -
  show "claim_next env cfg lid now db = (Inr None, expire_tasks expired now db)"
    by (simp add: claim_next_def assms in_transaction_def)
  show "\<not> fits cfg now db t r"
  proof
    assume f: "fits cfg now db t r"
    then have "t \<in> set (waiting_tasks db)" "now < tk_expires_at t"
      by (simp_all add: fits_def waiting_tasks_member)
    from no_fit [OF select_assignment_none [OF assms this]] f show False by blast
  qed
qed

lemma claim_next_found:
  assumes inv: "runner_inv db" and lid: "lid \<notin> set (map rl_lease_id (runner_leases db))"
    and sel: "select_assignment cfg now (idle_runners db) (waiting_tasks db) = (expired, Some (t, r))"
  obtains db' where "claim_next env cfg lid now db = (Inr (Some (public_task (leased cfg lid now t r),
      with_digest env (request_fields (leased cfg lid now t r) (rn_id r) (rn_policy_revision r) lid
        (now + seconds (rc_lease_ttl_seconds cfg)) now))), db')"
    and "find_task db' (tk_id t) = Some (leased cfg lid now t r)"
    and "find_runner db' (rn_id r) = Some (busy_with (tk_id t) now r)"
    and "runner_leases db' = runner_leases db @ [new_lease cfg lid now t r]"
proof -
  let ?e = "expire_tasks expired now db"
  note best = select_assignment_earliest [OF inv sel]
  from best(1) have t: "t \<in> set (tasks db)" "tk_state t = Waiting_runner" and r: "r \<in> set (runners db)"
    by (simp_all add: fits_def)
  have "runner_inv ?e" by (rule changes_inv [OF expire_tasks_changes inv])
  from claim_task_succeeds [OF this expire_tasks_other [OF t(1) best(2)] t(2), of r lid env cfg now
      "length expired"] r lid obtain db' where db':
    "claim_task env cfg lid now (length expired) t r ?e =
      Inr (Some (public_task (leased cfg lid now t r), with_digest env (request_fields
      (leased cfg lid now t r) (rn_id r) (rn_policy_revision r) lid
      (now + seconds (rc_lease_ttl_seconds cfg)) now)), db')"
    "find_task db' (tk_id t) = Some (leased cfg lid now t r)"
    "find_runner db' (rn_id r) = Some (busy_with (tk_id t) now r)"
    "runner_leases db' = runner_leases db @ [new_lease cfg lid now t r]" by auto
  then show thesis by (intro that [of db']) (simp_all add: claim_next_def sel in_transaction_def)
qed

lemma claim_next_used:
  assumes used: "lid \<in> set (map rl_lease_id (runner_leases db))"
  shows "claim_next env cfg lid now db \<noteq> (Inr (Some (v, m)), db')"
proof -
  obtain expired found where
    sel: "select_assignment cfg now (idle_runners db) (waiting_tasks db) = (expired, found)"
    by (metis prod.exhaust)
  have "claim_task env cfg lid now k t r (expire_tasks expired now db) = Inl IntegrityError" for k t r
    using used by (simp add: claim_task_def insert_runner_lease_def)
  then show ?thesis by (cases found) (auto simp: claim_next_def sel in_transaction_Inr)
qed

end
