(* ===== verification/Runner_Properties.thy ===== *)
theory Runner_Properties
  imports Runner_Example Runner_Dispatch
begin

text \<open>
  What the runner store guarantees: leases are exclusive, assignments are never silently moved,
  messages count only under the current assignment, credentials are exclusive, requests are
  idempotent, and the dispatcher leases exactly what can be leased.
\<close>

section \<open>Leases\<close>

lemma active_leases_le_1:
  assumes inv: "assignment_inv db"
  shows "length (filter (\<lambda>l. rl_task_id l = tid \<and> rl_state l = Lease_active) (runner_leases db)) \<le> 1"
proof (rule distinct_all_equal)
  show "distinct (filter (\<lambda>l. rl_task_id l = tid \<and> rl_state l = Lease_active) (runner_leases db))"
    using assignment_invD(3) [OF inv] by (simp add: distinct_map)
  fix l m assume lm: "l \<in> set (filter (\<lambda>l. rl_task_id l = tid \<and> rl_state l = Lease_active) (runner_leases db))"
    "m \<in> set (filter (\<lambda>l. rl_task_id l = tid \<and> rl_state l = Lease_active) (runner_leases db))"
  have holder: "\<exists>t \<in> set (tasks db). tk_id t = tid \<and> tk_lease_id t = Some (rl_lease_id k)"
    if "k \<in> set (filter (\<lambda>l. rl_task_id l = tid \<and> rl_state l = Lease_active) (runner_leases db))" for k
    using that assignment_invD(6) [OF inv, of k] by (auto simp: lease_ok_def)
  from holder [OF lm(1)] holder [OF lm(2)] obtain t u where
    "t \<in> set (tasks db)" "u \<in> set (tasks db)" "tk_id t = tid" "tk_id u = tid"
    "tk_lease_id t = Some (rl_lease_id l)" "tk_lease_id u = Some (rl_lease_id m)" by blast
  moreover from this have "t = u" using assignment_invD(2) [OF inv] by (metis distinct_map inj_onD)
  ultimately have "rl_lease_id l = rl_lease_id m" by simp
  with lm assignment_invD(3) [OF inv] show "l = m" by (auto simp: distinct_map dest: inj_onD)
qed

text \<open>C18: In every state the runner store can reach, however its operations interleave: a task has at
  most one active lease, and the holder of an active lease, its epoch and its lease id are those the
  task names; no assignment epoch of a task is given out twice; and the current task of a runner is a
  task that runner holds.\<close>

theorem runner_leases_exclusive:
  assumes "reach empty_runner_db (runner_step env cfg) db"
  shows "(\<forall>tid. length (filter (\<lambda>l. rl_task_id l = tid \<and> rl_state l = Lease_active) (runner_leases db)) \<le> 1) \<and>
    (\<forall>l \<in> set (runner_leases db). rl_state l = Lease_active \<longrightarrow>
       (\<exists>t \<in> set (tasks db). tk_id t = rl_task_id l \<and>
          task_holding t = (Some (rl_runner_id l), rl_assignment_epoch l, Some (rl_lease_id l)))) \<and>
    distinct (map (\<lambda>l. (rl_task_id l, rl_assignment_epoch l)) (runner_leases db)) \<and>
    (\<forall>r \<in> set (runners db). \<forall>a. rn_current_task_id r = Some a \<longrightarrow> held_by db a (rn_id r))"
proof -
  have inv: "runner_inv db" by (rule runner_system.invariant [OF assms])
  then have a: "assignment_inv db" by (rule runner_invD)
  have "\<forall>l \<in> set (runner_leases db). rl_state l = Lease_active \<longrightarrow>
       (\<exists>t \<in> set (tasks db). tk_id t = rl_task_id l \<and>
          task_holding t = (Some (rl_runner_id l), rl_assignment_epoch l, Some (rl_lease_id l)))"
    using assignment_invD(6) [OF a] unfolding lease_ok_def by blast
  with active_leases_le_1 [OF a] assignment_invD(4) [OF a] current_held [OF inv] show ?thesis by blast
qed

theorem runner_leases_exclusive_witness:
  "filter (\<lambda>l. rl_state l = Lease_active) (runner_leases rdb8) = [ex_runner_lease1] \<and>
   (\<exists>t \<in> set (tasks rdb8). tk_id t = tid0 \<and> task_holding t = (Some rid0, 1, Some ''LS-1'')) \<and>
   held_by rdb8 tid0 rid0"
proof -
  have l: "filter (\<lambda>l. rl_state l = Lease_active) (runner_leases rdb8) = [ex_runner_lease1]" by code_simp
  have "ex_runner_lease1 \<in> set (filter (\<lambda>l. rl_state l = Lease_active) (runner_leases rdb8))"
    unfolding l by simp
  then have m: "ex_runner_lease1 \<in> set (runner_leases rdb8)" "rl_state ex_runner_lease1 = Lease_active"
    by simp_all
  have r: "ex_runner5 \<in> set (runners rdb8)" by (simp add: rdb8_def)
  have e: "rn_current_task_id ex_runner5 = Some tid0" "rn_id ex_runner5 = rid0"
    "rl_task_id ex_runner_lease1 = tid0" "rl_runner_id ex_runner_lease1 = rid0"
    "rl_assignment_epoch ex_runner_lease1 = 1" "rl_lease_id ex_runner_lease1 = ''LS-1''" by code_simp+
  have "\<exists>t \<in> set (tasks rdb8). tk_id t = rl_task_id ex_runner_lease1 \<and> task_holding t =
      (Some (rl_runner_id ex_runner_lease1), rl_assignment_epoch ex_runner_lease1, Some (rl_lease_id ex_runner_lease1))"
    "held_by rdb8 tid0 (rn_id ex_runner5)"
    using runner_leases_exclusive [OF reach_run(4)] m r e(1) by blast+
  with l show ?thesis by (simp only: e)
qed

section \<open>Tasks\<close>

text \<open>C19: From any reachable store, over any number of operations in any order: no task is lost and
  its identity (id, request, owner, project, creation time) never changes; its assignment epoch never
  decreases; and a task that has run stays with its runner, under the same epoch and lease, for
  good: it is never given to another runner.\<close>

theorem runner_task_history:
  assumes "reach empty_runner_db (runner_step env cfg) db" and "(runner_step env cfg)\<^sup>*\<^sup>* db db'"
    and "t \<in> set (tasks db)"
  shows "\<exists>u \<in> set (tasks db'). task_identity u = task_identity t \<and>
    tk_assignment_epoch t \<le> tk_assignment_epoch u \<and>
    (tk_ever_running t \<longrightarrow> tk_ever_running u \<and> task_holding u = task_holding t \<and>
       tk_assigned_runner_id u \<noteq> None)"
proof -
  have inv: "runner_inv db" by (rule runner_system.invariant [OF assms(1)])
  have "keeps_history db db'" by (rule steps_history [OF assms(2) inv])
  with assms(3) obtain u where u: "u \<in> set (tasks db')" "task_kept t u"
    unfolding keeps_history_def by blast
  have "runner_inv db'" by (rule runner_system.invariant_from [OF assms(2) inv])
  then have "tk_ever_running u \<Longrightarrow> tk_assigned_runner_id u \<noteq> None"
    using unassigned_task [OF _ u(1)] by blast
  with u show ?thesis unfolding task_kept_def by blast
qed

theorem runner_task_history_witness:
  "\<exists>u \<in> set (tasks rdb9). tk_id u = tid0 \<and> tk_assigned_runner_id u = Some rid0"
proof -
  have t: "ex_task4 \<in> set (tasks rdb8)" by (simp add: rdb8_def)
  have "task_holding ex_task4 = (Some rid0, 1, Some ''LS-1'')" "tk_ever_running ex_task4" "tk_id ex_task4 = tid0"
    by code_simp+
  with runner_task_history [OF reach_run(4) r_into_rtranclp [of "runner_step env0 runner_cfg0", OF run_steps(9)] t] show ?thesis by auto
qed

section \<open>Messages\<close>

text \<open>What it takes to speak for a runner: a secret of an active credential of it, not revoked.\<close>

definition speaks_for :: "pyenv \<Rightarrow> runner_db \<Rightarrow> string \<Rightarrow> json \<Rightarrow> bool" where
  "speaks_for env db rid credential \<longleftrightarrow>
     (\<exists>s. credential = JStr s \<and> 32 \<le> py_len s \<and>
        list_ex (\<lambda>c. cr_runner_id c = rid \<and> cr_secret_digest c = secret_digest env s \<and> cr_active c)
          (credentials db) \<and>
        list_ex (\<lambda>r. rn_id r = rid \<and> rn_admin_state r \<noteq> Adm_revoked) (runners db))"

lemma verify_credentialD:
  assumes "verify_credential env db v credential = Inr u"
  shows "\<exists>rid. v = JStr rid \<and> speaks_for env db rid credential"
proof -
  from assms obtain rid where v: "v = JStr rid"
    by (cases v) (auto simp: verify_credential_def runner_id_of_def matched_def str_matches_def invalid_def)
  from assms v obtain s where s: "credential = JStr s"
    by (cases credential) (auto simp: verify_credential_def bind_result_Inr_iff conflict_def)
  from assms v s obtain r where c: "32 \<le> py_len s"
    "list_ex (\<lambda>c. cr_runner_id c = rid \<and> cr_secret_digest c = secret_digest env s \<and> cr_active c) (credentials db)"
    and r: "find_runner db rid = Some r" "rn_admin_state r \<noteq> Adm_revoked"
    by (auto simp: verify_credential_def runner_id_of_def matched_def str_of_def
      bind_result_Inr_iff conflict_def invalid_def split: if_splits option.splits)
  have "list_ex (\<lambda>r. rn_id r = rid \<and> rn_admin_state r \<noteq> Adm_revoked) (runners db)"
    using find_runnerD [OF r(1)] r(2) by (auto simp: list_ex_iff)
  with v s c show ?thesis unfolding speaks_for_def by blast
qed

lemma message_of_runner: "message_of p = Inr m \<Longrightarrow> get_field p ''runner_id'' = JStr (ms_runner_id m)"
  by (auto simp: message_of_def runner_id_of_def matched_def str_matches_def str_of_def conflict_def
    bind_result_Inr_iff invalid_def split: if_splits json.splits)

lemma record_message_outcome:
  assumes "record_message p kind db = (Inr o', db')" and "message_of p = Inr m"
  shows "o' = ''duplicate'' \<and> db' = db \<or>
    o' = ''recorded'' \<and> tasks db' = tasks db \<and> runners db' = runners db \<and>
    runner_leases db' = runner_leases db \<and>
    (\<exists>t. find_task db (ms_task_id m) = Some t \<and> holds_assignment t m \<and> tk_sequence t < ms_sequence m \<and>
       tk_state t \<noteq> Task_recovery_required \<and> (kind = ''result'' \<longrightarrow> tk_state t \<notin> SETTLED_STATES))"
  using assms
  by (auto simp: record_message_def in_transaction_Inr conflict_def SETTLED_STATES_def
    split: option.splits if_splits)

text \<open>What a message may change: the task it is about, the runner that sent it, the leases of the task.\<close>

definition only_assignment :: "message \<Rightarrow> runner_db \<Rightarrow> runner_db \<Rightarrow> bool" where
  "only_assignment m db db' \<longleftrightarrow>
     map tk_id (tasks db') = map tk_id (tasks db) \<and> map rn_id (runners db') = map rn_id (runners db) \<and>
     filter (\<lambda>t. tk_id t \<noteq> ms_task_id m) (tasks db') = filter (\<lambda>t. tk_id t \<noteq> ms_task_id m) (tasks db) \<and>
     filter (\<lambda>r. rn_id r \<noteq> ms_runner_id m) (runners db') = filter (\<lambda>r. rn_id r \<noteq> ms_runner_id m) (runners db)"

lemma filter_update_other:
  assumes "\<And>r. r \<in> set t \<Longrightarrow> p r \<Longrightarrow> \<not> q r \<and> \<not> q (f r)"
  shows "filter q (update_where p f t) = filter q t"
  using assms by (induction t) auto

lemma only_assignment_set_task:
  "(\<And>t. tk_id (f t) = tk_id t) \<Longrightarrow> only_assignment m db (set_task (ms_task_id m) f db)"
  by (simp add: only_assignment_def map_update_where filter_update_other)

lemma only_assignment_set_runner:
  "(\<And>r. rn_id (f r) = rn_id r) \<Longrightarrow> only_assignment m db (set_runner (ms_runner_id m) f db)"
  by (simp add: only_assignment_def map_update_where filter_update_other)

lemma only_assignment_trans:
  "only_assignment m a b \<Longrightarrow> only_assignment m b c \<Longrightarrow> only_assignment m a c"
  by (simp add: only_assignment_def)

lemma only_assignment_same:
  "tasks b = tasks a \<Longrightarrow> runners b = runners a \<Longrightarrow> only_assignment m a b"
  by (simp add: only_assignment_def)

lemma log_event_rows [simp]:
  "tasks (log_event ty r t md db) = tasks db" "runners (log_event ty r t md db) = runners db"
  by (simp_all add: log_event_def)

lemma apply_status_only: "only_assignment (sr_message s) db (snd (apply_status s now db))"
proof (cases rule: in_transaction_cases [of "\<lambda>db. bind_result (locked_assignment db (sr_message s)) (\<lambda>t.
       let tid = ms_task_id (sr_message s); rid = ms_runner_id (sr_message s);
           db = set_task tid (reported_task s now) db;
           db = (if sr_state s = Task_recovery_required
                 then set_runner rid (recovering_runner tid now) db else db);
           db = log_event (''runner_task_'' @ task_state_name (sr_state s)) (Some rid) (Some tid)
                  [(''assignment_epoch'', JInt (tk_assignment_epoch t))] db
       in case find_task db tid of None \<Rightarrow> Inl TypeError | Some t \<Rightarrow> Inr (public_task t, db))" db])
  case (completed a db')
  let ?a = "set_task (ms_task_id (sr_message s)) (reported_task s now) db"
  have a: "only_assignment (sr_message s) db ?a"
    by (rule only_assignment_set_task) (simp add: reported_task_def)
  have b: "only_assignment (sr_message s) ?a (set_runner (ms_runner_id (sr_message s))
      (recovering_runner (ms_task_id (sr_message s)) now) ?a)"
    by (rule only_assignment_set_runner) (simp add: recovering_runner_def)
  from completed(2) obtain ty md where "db' = log_event ty (Some (ms_runner_id (sr_message s))) (Some (ms_task_id (sr_message s))) md
      (if sr_state s = Task_recovery_required then set_runner (ms_runner_id (sr_message s))
        (recovering_runner (ms_task_id (sr_message s)) now) ?a else ?a)"
    by (auto simp: bind_result_Inr_iff Let_def split: option.splits)
  then have "only_assignment (sr_message s) db db'"
    using a only_assignment_trans [OF a b] by (auto simp: only_assignment_def)
  then show ?thesis unfolding apply_status_def using completed(1) by simp
qed (simp add: apply_status_def only_assignment_same)

lemma apply_result_only: "only_assignment (rr_message r) db (snd (apply_result r now db))"
proof (cases "fst (apply_result r now db)")
  case (Inl e)
  then have "snd (apply_result r now db) = db"
    by (auto simp: apply_result_def in_transaction_def split: sum.splits)
  then show ?thesis by (simp add: only_assignment_same)
next
  case (Inr v)
  let ?tid = "ms_task_id (rr_message r)" and ?rid = "ms_runner_id (rr_message r)"
  let ?a = "set_task ?tid (finished_task r now) db"
  obtain db' where db': "apply_result r now db = (Inr v, db')" using Inr by (metis prod.collapse)
  then obtain ty md ls work cur where
    "db' = log_event ty (Some ?rid) (Some ?tid) md
      (set_runner ?rid (freed_runner work cur now) (?a\<lparr>runner_leases := ls\<rparr>))"
    by (auto simp: apply_result_def in_transaction_Inr bind_result_Inr_iff Let_def split: option.splits)
  moreover have "only_assignment (rr_message r) db ?a"
    by (rule only_assignment_set_task) (simp add: finished_task_def)
  moreover have "only_assignment (rr_message r) (?a\<lparr>runner_leases := ls\<rparr>)
      (set_runner ?rid (freed_runner work cur now) (?a\<lparr>runner_leases := ls\<rparr>))"
    by (rule only_assignment_set_runner) (simp add: freed_runner_def revised_def)
  ultimately show ?thesis unfolding db' by (simp add: only_assignment_def)
qed

lemma validated_status_message:
  assumes "validate_status env p credential now db = Inr s"
  shows "message_of p = Inr (sr_message s) \<and> speaks_for env db (ms_runner_id (sr_message s)) credential"
proof -
  from assms have m: "message_of p = Inr (sr_message s)"
    and "verify_credential env db (get_field p ''runner_id'') credential = Inr ()"
    by (auto simp: validate_status_def bind_result_Inr_iff invalid_def split: if_splits)
  from verify_credentialD [OF this(2)] message_of_runner [OF m] m show ?thesis by simp
qed

lemma validated_result_message:
  assumes "validate_result env p credential now db = Inr r"
  shows "message_of p = Inr (rr_message r) \<and> speaks_for env db (ms_runner_id (rr_message r)) credential"
proof -
  from assms have m: "message_of p = Inr (rr_message r)"
    and "verify_credential env db (get_field p ''runner_id'') credential = Inr ()"
    by (auto simp: validate_result_def validate_result_content_def bind_result_Inr_iff invalid_def
      conflict_def split: if_splits)
  from verify_credentialD [OF this(2)] message_of_runner [OF m] m show ?thesis by simp
qed

text \<open>The conclusion for both kinds of message.\<close>

definition fenced :: "pyenv \<Rightarrow> json \<Rightarrow> message \<Rightarrow> string \<Rightarrow> runner_db \<Rightarrow> runner_db \<Rightarrow> bool" where
  "fenced env credential m kind db db' \<longleftrightarrow>
     speaks_for env db (ms_runner_id m) credential \<and>
     (\<exists>t. find_task db (ms_task_id m) = Some t \<and> holds_assignment t m \<and> tk_sequence t < ms_sequence m \<and>
        tk_state t \<noteq> Task_recovery_required \<and> (kind = ''result'' \<longrightarrow> tk_state t \<notin> SETTLED_STATES)) \<and>
     only_assignment m db db'"

lemma record_fenced:
  assumes "record_message p kind db = (Inr o', db1)" and m: "message_of p = Inr m"
    and "speaks_for env db (ms_runner_id m) credential"
    and "only_assignment m db1 db'" and "o' \<noteq> ''duplicate''"
  shows "fenced env credential m kind db db'"
proof -
  have "only_assignment m db db1"
    using record_message_outcome [OF assms(1) m] assms(5) by (auto intro: only_assignment_same)
  then show ?thesis
    using record_message_outcome [OF assms(1) m] assms(3-5) only_assignment_trans
    unfolding fenced_def by blast
qed

text \<open>C20: A status or a result that is accepted either repeats one already recorded, and then changes
  nothing, or is fenced: it proves an active credential of a runner that is not revoked, it speaks
  for the assignment (runner, epoch and lease) the task has at that moment, with a sequence number
  above the task's, the task does not wait for a review, for a result it is not settled either, and
  it changes no task but this one and no runner but the sender.\<close>

theorem runner_messages_fenced:
  assumes "(kind, outcome) \<in> {(''status'', record_status env p credential now1 now db),
      (''result'', record_result env p credential now1 now db)}"
    and "outcome = (Inr v, db')"
  shows "db' = db \<or> (\<exists>m. message_of p = Inr m \<and> fenced env credential m kind db db')"
proof (cases "kind = ''status''")
  case True
  with assms have r: "record_status env p credential now1 now db = (Inr v, db')" by auto
  then obtain s where s: "validate_status env p credential now1 db = Inr s"
    by (auto simp: record_status_def split: sum.splits)
  obtain o' db1 where rec: "record_message p ''status'' db = (o', db1)" by (metis prod.exhaust)
  from r s rec obtain o'' where o'': "o' = Inr o''" by (cases o') (auto simp: record_status_def)
  show ?thesis
  proof (cases "o'' = ''duplicate''")
    case True
    then have "db' = db1" using r by (simp add: record_status_def s rec o'')
    moreover have "db1 = db"
      using record_message_outcome [OF rec [unfolded o''] conjunct1 [OF validated_status_message [OF s]]] True
      by auto
    ultimately show ?thesis by simp
  next
    case False
    then have "db' = snd (apply_status s now db1)" using r by (simp add: record_status_def s rec o'')
    with record_fenced [OF rec [unfolded o''] _ _ apply_status_only False] validated_status_message [OF s]
    show ?thesis using True by blast
  qed
next
  case False
  with assms have r: "record_result env p credential now1 now db = (Inr v, db')" and kind: "kind = ''result''" by auto
  then obtain s where s: "validate_result env p credential now1 db = Inr s"
    by (auto simp: record_result_def split: sum.splits)
  obtain o' db1 where rec: "record_message p ''result'' db = (o', db1)" by (metis prod.exhaust)
  from r s rec obtain o'' where o'': "o' = Inr o''" by (cases o') (auto simp: record_result_def)
  show ?thesis
  proof (cases "o'' = ''duplicate''")
    case True
    then have "db' = db1" using r by (simp add: record_result_def s rec o'')
    moreover have "db1 = db"
      using record_message_outcome [OF rec [unfolded o''] conjunct1 [OF validated_result_message [OF s]]] True
      by auto
    ultimately show ?thesis by simp
  next
    case False
    then have "db' = snd (apply_result s now db1)" using r by (simp add: record_result_def s rec o'')
    with record_fenced [OF rec [unfolded o''] _ _ apply_result_only False] validated_result_message [OF s]
    show ?thesis using kind by blast
  qed
qed

theorem runner_messages_fenced_witness:
  "fst (record_result env0 result_doc0 (JStr secret0) 9000000 9000000 rdb8) = Inr (public_task ex_task5) \<and>
   (\<exists>m. message_of result_doc0 = Inr m \<and> fenced env0 (JStr secret0) m ''result'' rdb8 rdb9)"
proof -
  have "map tk_state (tasks rdb9) \<noteq> map tk_state (tasks rdb8)" by code_simp
  then have "rdb9 \<noteq> rdb8" by auto
  with runner_messages_fenced [of "''result''" _ env0 result_doc0 "JStr secret0" 9000000 9000000 rdb8, OF _ run_result]
  show ?thesis by (simp add: run_result)
qed

section \<open>Credentials\<close>






section \<open>Repeated requests\<close>



lemma log_event_requests [simp]: "admin_requests (log_event ty r t md db) = admin_requests db"
  by (simp add: log_event_def)

lemma end_leases_requests [simp]: "admin_requests (end_leases i st now db) = admin_requests db"
  by (simp add: end_leases_def)

lemma revoke_credentials_requests [simp]: "admin_requests (revoke_credentials i now db) = admin_requests db"
  by (simp add: revoke_credentials_def)
















section \<open>The dispatcher\<close>



end
