(* ===== verification/Runner_Service.thy ===== *)
theory Runner_Service
  imports Runner_Results
begin

text \<open>
  \<open>codex_controller/runner_service.py\<close>, the Runner Manager, and \<open>RelayPublisher._publish\<close> of
  \<open>runner_relay.py\<close>.  The manager serves requests in several threads over one store; between two of
  its calls to the store, any other thread can run.  Its operations are therefore programs: trees
  whose nodes are the single accesses to the store, the posts to the relay and the accesses to
  \<open>last_error\<close>, and whose branches are the answers.  A step of a thread runs one node.
\<close>

section \<open>The relay\<close>

datatype relay_kind = Relay_request | Relay_control | Relay_desktop_command

fun relay_path :: "relay_kind \<Rightarrow> string" where
  "relay_path Relay_request = ''request''"
| "relay_path Relay_control = ''control''"
| "relay_path Relay_desktop_command = ''desktop_command''"

definition publish_maximum :: "relay_kind \<Rightarrow> nat" where
  "publish_maximum kind = (if kind = Relay_desktop_command then 512 * 1024 else 64 * 1024)"

text \<open>
  What the POST to the relay comes back with: an \<open>HTTPError\<close> with its status and the bytes of its
  body, one of \<open>URLError\<close>, \<open>TimeoutError\<close> and \<open>OSError\<close>, another exception, or a status and a body.
\<close>

datatype relay_reply =
    Relay_http_error int string
  | Relay_unreachable
  | Relay_raises exn
  | Relay_answer int string

definition offline_body :: "string \<Rightarrow> bool" where
  "offline_body body \<longleftrightarrow> length body \<le> 1024 \<and> py_strip body = ''runner_offline''"

definition RUNNER_OFFLINE :: exn where
  "RUNNER_OFFLINE = RelayPublishError ''runner_offline'' True"

definition INDETERMINATE :: exn where
  "INDETERMINATE = RelayPublishError ''relay_publish_indeterminate'' False"

text \<open>The checks before the POST, and the body that is posted.\<close>

definition publish_body :: "pyenv \<Rightarrow> doc \<Rightarrow> string" where
  "publish_body env document = canonical_json env (JObj [(''document'', JObj document)])"

definition publish_guard :: "pyenv \<Rightarrow> relay_kind \<Rightarrow> string \<Rightarrow> doc \<Rightarrow> unit result" where
  "publish_guard env kind runner_id document =
     (if \<not> RUNNER_ID_RE runner_id then Inl RuntimeError
      else if length (publish_body env document) > publish_maximum kind then Inl RuntimeError
      else Inr ())"

definition publish_reply :: "relay_reply \<Rightarrow> unit result" where
  "publish_reply reply =
     (case reply of
        Relay_http_error code body \<Rightarrow>
          if code = 503 \<and> offline_body (take 1025 body) then Inl RUNNER_OFFLINE else Inl INDETERMINATE
      | Relay_unreachable \<Rightarrow> Inl INDETERMINATE
      | Relay_raises e \<Rightarrow> Inl e
      | Relay_answer status body \<Rightarrow>
          (let raw = take (64 * 1024 + 1) body
           in if status = 503 \<and> offline_body raw then Inl RUNNER_OFFLINE
              else if status \<noteq> 202 \<or> length raw > 64 * 1024 then Inl INDETERMINATE
              else Inr ()))"

definition publish :: "pyenv \<Rightarrow> relay_kind \<Rightarrow> string \<Rightarrow> doc \<Rightarrow> relay_reply \<Rightarrow> unit result" where
  "publish env kind runner_id document reply =
     bind_result (publish_guard env kind runner_id document) (\<lambda>_. publish_reply reply)"

section \<open>Programs\<close>

text \<open>What one access to the store is given: its readings of the clock and its random values.\<close>

record store_input =
  si_checked_at :: int
  si_now :: int
  si_secrets :: "string \<times> string"
  si_enrolment :: "string \<times> string \<times> string"
  si_lease_id :: string
  si_order :: "task list \<Rightarrow> task list"

datatype 'a prog =
    Ret "'a result"
  | Call "store_input \<Rightarrow> runner_db \<Rightarrow> 'a prog \<times> runner_db"
  | Publish relay_kind string doc "relay_reply \<Rightarrow> 'a prog"
  | Note "string option" "'a prog"
  | Noted "string option \<Rightarrow> 'a prog"

text \<open>
  \<open>x = self.store.f(...)\<close>, a read of the store, and \<open>self.publisher.publish_...\<close>, each raising what
  the call raises, followed by the rest of the function.
\<close>

definition call :: "(store_input \<Rightarrow> runner_db \<Rightarrow> 'b result \<times> runner_db) \<Rightarrow> ('b \<Rightarrow> 'a prog) \<Rightarrow> 'a prog" where
  "call f k = Call (\<lambda>i db. case f i db of
     (Inl e, db') \<Rightarrow> (Ret (Inl e), db') | (Inr x, db') \<Rightarrow> (k x, db'))"

definition ask :: "(store_input \<Rightarrow> runner_db \<Rightarrow> 'b result) \<Rightarrow> ('b \<Rightarrow> 'a prog) \<Rightarrow> 'a prog" where
  "ask f = call (\<lambda>i db. (f i db, db))"

definition check :: "'b result \<Rightarrow> ('b \<Rightarrow> 'a prog) \<Rightarrow> 'a prog" where
  "check r k = (case r of Inl e \<Rightarrow> Ret (Inl e) | Inr x \<Rightarrow> k x)"

definition post :: "pyenv \<Rightarrow> relay_kind \<Rightarrow> string \<Rightarrow> doc \<Rightarrow> 'a prog \<Rightarrow> 'a prog" where
  "post env kind runner_id document p =
     Publish kind runner_id document (\<lambda>reply. check (publish env kind runner_id document reply) (\<lambda>_. p))"

text \<open>\<open>prog_then p k\<close> runs \<open>p\<close> to its end, in a value or an exception, and goes on with \<open>k\<close>.\<close>

primrec prog_then :: "'a prog \<Rightarrow> ('a result \<Rightarrow> 'b prog) \<Rightarrow> 'b prog" where
  "prog_then (Ret r) k = k r"
| "prog_then (Call f) k = Call (\<lambda>i db. map_prod (\<lambda>p. prog_then p k) id (f i db))"
| "prog_then (Publish kind runner_id d g) k = Publish kind runner_id d (\<lambda>reply. prog_then (g reply) k)"
| "prog_then (Note e p) k = Note e (prog_then p k)"
| "prog_then (Noted g) k = Noted (\<lambda>e. prog_then (g e) k)"

definition prog_bind :: "'a prog \<Rightarrow> ('a \<Rightarrow> 'b prog) \<Rightarrow> 'b prog" where
  "prog_bind p k = prog_then p (\<lambda>r. check r k)"

section \<open>The service\<close>

text \<open>
  What a manager is made with.  The installer catalogue is a parameter: its manifest at the time of a
  request is an argument of the request, and the texts it makes from it are functions; so is the
  Desktop Controller, which has a store of its own.
\<close>

record installer =
  in_command :: "runner_view \<Rightarrow> string \<Rightarrow> doc \<Rightarrow> doc result"
  in_bootstrap :: "runner \<Rightarrow> enrollment \<Rightarrow> json \<Rightarrow> doc result"
  in_status :: doc

record runner_manager =
  rm_enabled :: bool
  rm_publisher :: bool
  rm_installer :: "installer option"
  rm_desktop :: "(string \<Rightarrow> doc \<Rightarrow> doc result) option"

definition require_enabled :: "runner_manager \<Rightarrow> 'a prog \<Rightarrow> 'a prog" where
  "require_enabled m p =
     (if \<not> rm_enabled m then Ret (Inl (StoreError ''runner_manager_disabled'')) else p)"

definition require_installer :: "runner_manager \<Rightarrow> installer result" where
  "require_installer m =
     (case rm_installer m of
        None \<Rightarrow> Inl (StoreError ''installer_not_configured'') | Some i \<Rightarrow> Inr i)"

subsection \<open>The dispatcher\<close>

text \<open>
  The loop of \<open>dispatch_waiting\<close>: lease a task, mark it dispatched, post its request.  The request is
  given back only when the relay says that it was definitely not delivered.
\<close>

fun dispatch_loop :: "pyenv \<Rightarrow> runner_config \<Rightarrow> nat \<Rightarrow> nat \<Rightarrow> nat prog" where
  "dispatch_loop env cfg 0 dispatched = Ret (Inr dispatched)"
| "dispatch_loop env cfg (Suc limit) dispatched =
     call (\<lambda>i. claim_next env cfg (si_lease_id i) (si_now i)) (\<lambda>assignment.
     case assignment of
       None \<Rightarrow> Ret (Inr dispatched)
     | Some (task, request) \<Rightarrow>
         call (\<lambda>i. mark_dispatched (JStr (tv_task_id task)) (si_now i)) (\<lambda>_.
         Publish Relay_request (str_of (get_field request ''runner_id'')) request (\<lambda>reply.
         case publish env Relay_request (str_of (get_field request ''runner_id'')) request reply of
           Inr _ \<Rightarrow> Note None (dispatch_loop env cfg limit (dispatched + 1))
         | Inl e \<Rightarrow>
             if e = RUNNER_OFFLINE
             then call (\<lambda>i. reschedule_undelivered (JStr (tv_task_id task))
                      (get_field request ''runner_id'') (get_field request ''assignment_epoch'')
                      (get_field request ''lease_id'') (si_now i)) (\<lambda>_.
                  Note (Some ''runner_offline'') (Ret (Inr dispatched)))
             else Note (Some ''relay_publish_indeterminate'') (Ret (Inr dispatched)))))"

definition dispatch_waiting :: "pyenv \<Rightarrow> runner_config \<Rightarrow> runner_manager \<Rightarrow> nat prog" where
  "dispatch_waiting env cfg m =
     require_enabled m
       (if \<not> rm_publisher m then Ret (Inr 0) else dispatch_loop env cfg 100 0)"

definition then_dispatch :: "pyenv \<Rightarrow> runner_config \<Rightarrow> runner_manager \<Rightarrow> 'a \<Rightarrow> 'a prog" where
  "then_dispatch env cfg m x = prog_bind (dispatch_waiting env cfg m) (\<lambda>_. Ret (Inr x))"

text \<open>One turn of \<open>_loop\<close>, the thread that \<open>start\<close> starts when the manager is enabled.\<close>

definition loop_turn :: "pyenv \<Rightarrow> runner_config \<Rightarrow> runner_manager \<Rightarrow> unit prog" where
  "loop_turn env cfg m =
     (if \<not> rm_enabled m then Ret (Inr ())
      else prog_then
        (call (\<lambda>i db. map_prod Inr id (sweep cfg (si_order i) (si_now i) db)) (\<lambda>_.
           dispatch_waiting env cfg m))
        (\<lambda>r. case r of
           Inr _ \<Rightarrow> Ret (Inr ())
         | Inl (StoreError code) \<Rightarrow> Note (Some code) (Ret (Inr ()))
         | Inl _ \<Rightarrow> Note (Some ''runner_manager_internal_error'') (Ret (Inr ()))))"

subsection \<open>Administration\<close>

record runner_summary =
  rs_total :: nat
  rs_enabled :: nat
  rs_online :: nat
  rs_busy :: nat
  rs_recovery_required :: nat

definition summary_of :: "runner_view list \<Rightarrow> runner_summary" where
  "summary_of vs =
     \<lparr>rs_total = length vs,
      rs_enabled = rowcount (\<lambda>v. rn_admin_state (rv_row v) = Adm_enabled) vs,
      rs_online = rowcount (\<lambda>v. rv_connectivity v = Online) vs,
      rs_busy = rowcount (\<lambda>v. rn_work_state (rv_row v) = Work_busy) vs,
      rs_recovery_required = rowcount (\<lambda>v. rn_work_state (rv_row v) = Work_recovery_required) vs\<rparr>"

record manager_report =
  mg_enabled :: bool
  mg_relay_configured :: bool
  mg_installer :: "doc option"
  mg_last_error :: "string option"
  mg_summary :: runner_summary

definition manager_status :: "runner_config \<Rightarrow> runner_manager \<Rightarrow> manager_report prog" where
  "manager_status cfg m =
     (if \<not> rm_enabled m
      then Ret (Inr \<lparr>mg_enabled = False, mg_relay_configured = False, mg_installer = None,
             mg_last_error = None, mg_summary = summary_of []\<rparr>)
      else ask (\<lambda>i db. Inr (list_runners cfg db False (si_now i))) (\<lambda>vs. Noted (\<lambda>e.
        Ret (Inr \<lparr>mg_enabled = True, mg_relay_configured = rm_publisher m,
          mg_installer = map_option in_status (rm_installer m), mg_last_error = e,
          mg_summary = summary_of vs\<rparr>))))"

definition manager_list_runners :: "runner_config \<Rightarrow> runner_manager \<Rightarrow> runner_view list prog" where
  "manager_list_runners cfg m =
     require_enabled m (ask (\<lambda>i db. Inr (list_runners cfg db False (si_now i))) (\<lambda>vs. Ret (Inr vs)))"

definition manager_runner ::
  "runner_config \<Rightarrow> runner_manager \<Rightarrow> json \<Rightarrow> (runner_view \<times> runner_event list) prog" where
  "manager_runner cfg m runner_id =
     require_enabled m (ask (\<lambda>i db. read_runner cfg db runner_id (si_now i)) (\<lambda>v. Ret (Inr v)))"

definition manager_list_tasks :: "runner_manager \<Rightarrow> task_view list prog" where
  "manager_list_tasks m = require_enabled m (ask (\<lambda>i. list_tasks (JInt 100)) (\<lambda>ts. Ret (Inr ts)))"

text \<open>The enrolment token leaves only inside the installation command.\<close>

definition attach_installation ::
  "runner_manager \<Rightarrow> doc \<Rightarrow> runner_view \<Rightarrow> enrollment_view \<Rightarrow> (enrollment_view \<times> doc option) result" where
  "attach_installation m manifest v e =
     bind_result (require_installer m) (\<lambda>inst.
     case ev_token e of
       None \<Rightarrow> Inr (e, None)
     | Some token \<Rightarrow>
         bind_result (in_command inst v token manifest) (\<lambda>installation.
         Inr (e\<lparr>ev_token := None\<rparr>,
              Some (set_field ''command_available'' (JBool True)
                (set_field ''expires_at'' (JStr (isoformat (ev_expires_at e))) installation)))))"

definition manager_create_enrollment ::
  "pyenv \<Rightarrow> runner_config \<Rightarrow> runner_manager \<Rightarrow> doc result \<Rightarrow> doc
     \<Rightarrow> (runner_view \<times> enrollment_view \<times> doc option) prog" where
  "manager_create_enrollment env cfg m manifest p =
     require_enabled m
       (check (require_installer m) (\<lambda>_. check manifest (\<lambda>man.
        call (\<lambda>i. create_enrollment env cfg p (si_enrolment i) (si_now i)) (\<lambda>(v, e).
        check (attach_installation m man v e) (\<lambda>(e, installation). Ret (Inr (v, e, installation)))))))"

definition manager_update_runner ::
  "pyenv \<Rightarrow> runner_config \<Rightarrow> runner_manager \<Rightarrow> json \<Rightarrow> doc \<Rightarrow> admin_response prog" where
  "manager_update_runner env cfg m runner_id p =
     require_enabled m (call (\<lambda>i. update_runner env cfg runner_id p (si_now i)) (\<lambda>r. Ret (Inr r)))"

definition manager_action ::
  "pyenv \<Rightarrow> runner_config \<Rightarrow> runner_manager \<Rightarrow> runner_action \<Rightarrow> json \<Rightarrow> doc \<Rightarrow> admin_response prog" where
  "manager_action env cfg m action runner_id p =
     require_enabled m
       (call (\<lambda>i. admin_action env cfg action runner_id p (si_secrets i) (si_now i)) (\<lambda>r. Ret (Inr r)))"

text \<open>\<open>result["runner"]\<close>; \<open>f"ADMIN-{payload['request_id']}"\<close>\<close>

fun response_runner :: "admin_response \<Rightarrow> runner_view" where
  "response_runner (Updated v) = v"
| "response_runner (Acted v _ _) = v"
| "response_runner (Enrollment_revoked v) = v"
| "response_runner (Enrollment_regenerated v _) = v"
| "response_runner (Recovery_resolved _ v) = v"

definition manager_emergency_disable ::
  "pyenv \<Rightarrow> runner_config \<Rightarrow> runner_manager \<Rightarrow> string \<Rightarrow> doc \<Rightarrow> admin_response prog" where
  "manager_emergency_disable env cfg m runner_id p =
     require_enabled m
       (call (\<lambda>i. admin_action env cfg Emergency_disable (JStr runner_id) p (si_secrets i) (si_now i)) (\<lambda>r.
        let current = rn_current_task_id (rv_row (response_runner r))
        in if has_text current \<and> rm_publisher m
           then ask (\<lambda>i db. work_task db (JStr (the current))) (\<lambda>task.
                ask (\<lambda>i db. control_document env db (JStr (tv_task_id task)) ''cancel''
                  (JStr (''ADMIN-'' @ str_of (get_field p ''request_id''))) JNull (si_now i)) (\<lambda>control.
                post env Relay_control runner_id control (Ret (Inr r))))
           else Ret (Inr r)))"

definition manager_resolve_task_recovery ::
  "pyenv \<Rightarrow> runner_config \<Rightarrow> runner_manager \<Rightarrow> json \<Rightarrow> doc \<Rightarrow> admin_response prog" where
  "manager_resolve_task_recovery env cfg m runner_id p =
     require_enabled m
       (call (\<lambda>i. resolve_task_recovery env cfg runner_id p (si_now i)) (then_dispatch env cfg m))"

definition manager_revoke_enrollment ::
  "pyenv \<Rightarrow> runner_config \<Rightarrow> runner_manager \<Rightarrow> json \<Rightarrow> doc \<Rightarrow> admin_response prog" where
  "manager_revoke_enrollment env cfg m runner_id p =
     require_enabled m (call (\<lambda>i. revoke_enrollment env cfg runner_id p (si_now i)) (\<lambda>r. Ret (Inr r)))"

definition manager_regenerate_enrollment ::
  "pyenv \<Rightarrow> runner_config \<Rightarrow> runner_manager \<Rightarrow> doc result \<Rightarrow> json \<Rightarrow> doc
     \<Rightarrow> (admin_response \<times> doc option) prog" where
  "manager_regenerate_enrollment env cfg m manifest runner_id p =
     require_enabled m
       (check (require_installer m) (\<lambda>_. check manifest (\<lambda>man.
        call (\<lambda>i. regenerate_enrollment env cfg runner_id p (si_secrets i) (si_now i)) (\<lambda>r.
        case r of
          Enrollment_regenerated v e \<Rightarrow>
            check (attach_installation m man v e) (\<lambda>(e, installation).
            Ret (Inr (Enrollment_regenerated v e, installation)))
        | _ \<Rightarrow> Ret (Inr (r, None))))))"

subsection \<open>What the relay forwards\<close>

definition manager_redeem_enrollment ::
  "pyenv \<Rightarrow> runner_config \<Rightarrow> runner_manager \<Rightarrow> doc \<Rightarrow> (runner_view \<times> credential_view) prog" where
  "manager_redeem_enrollment env cfg m p =
     require_enabled m
       (call (\<lambda>i. redeem_enrollment env cfg p (si_secrets i) (si_now i)) (\<lambda>r. Ret (Inr r)))"

definition manager_install_bootstrap ::
  "pyenv \<Rightarrow> runner_manager \<Rightarrow> doc \<Rightarrow> doc prog" where
  "manager_install_bootstrap env m p =
     require_enabled m
       (if keys_of p \<noteq> {''ticket''} then Ret invalid
        else ask (\<lambda>i db. inspect_enrollment env (get_field p ''ticket'') (si_now i) db) (\<lambda>(r, e).
          check (require_installer m) (\<lambda>inst.
          check (in_bootstrap inst r e (get_field p ''ticket'')) (\<lambda>d. Ret (Inr d)))))"

definition authenticate_runner :: "pyenv \<Rightarrow> runner_manager \<Rightarrow> doc \<Rightarrow> json prog" where
  "authenticate_runner env m p =
     require_enabled m
       (if keys_of p \<noteq> {''runner_id'', ''credential''} then Ret invalid
        else ask (\<lambda>i db. verify_credential env db (get_field p ''runner_id'') (get_field p ''credential'')) (\<lambda>_.
          Ret (Inr (get_field p ''runner_id''))))"

definition manager_heartbeat ::
  "pyenv \<Rightarrow> runner_config \<Rightarrow> runner_manager \<Rightarrow> doc \<Rightarrow> json \<Rightarrow> runner_view prog" where
  "manager_heartbeat env cfg m p credential =
     require_enabled m
       (call (\<lambda>i. heartbeat env cfg p credential (si_checked_at i) (si_now i)) (then_dispatch env cfg m))"

text \<open>
  \<open>record_status\<close> and \<open>record_result\<close> of the store, access by access: the checks, the transaction
  that records the message and the transaction that applies it.
\<close>

definition record_and_apply ::
  "doc \<Rightarrow> string \<Rightarrow> (store_input \<Rightarrow> runner_db \<Rightarrow> task_view result \<times> runner_db) \<Rightarrow> task_view prog" where
  "record_and_apply p kind effect =
     call (\<lambda>i. record_message p kind) (\<lambda>outcome.
     if outcome = ''duplicate'' then ask (\<lambda>i db. work_task db (get_field p ''task_id'')) (\<lambda>t. Ret (Inr t))
     else call effect (\<lambda>t. Ret (Inr t)))"

definition receive_status :: "pyenv \<Rightarrow> runner_manager \<Rightarrow> doc \<Rightarrow> json \<Rightarrow> task_view prog" where
  "receive_status env m p credential =
     require_enabled m
       (ask (\<lambda>i. validate_status env p credential (si_checked_at i)) (\<lambda>s.
        record_and_apply p ''status'' (\<lambda>i. apply_status s (si_now i))))"

definition receive_result ::
  "pyenv \<Rightarrow> runner_config \<Rightarrow> runner_manager \<Rightarrow> doc \<Rightarrow> json \<Rightarrow> task_view prog" where
  "receive_result env cfg m p credential =
     require_enabled m
       (prog_bind
         (ask (\<lambda>i. validate_result env p credential (si_checked_at i)) (\<lambda>r.
          record_and_apply p ''result'' (\<lambda>i. apply_result r (si_now i))))
         (then_dispatch env cfg m))"

text \<open>\<open>text in (value or [])\<close>: a substring of a text, a member of a list, a key of a dict.\<close>

definition json_contains :: "string \<Rightarrow> json \<Rightarrow> bool result" where
  "json_contains text v =
     (case v of
        JStr s \<Rightarrow> Inr (is_infix text s)
      | JList vs \<Rightarrow> Inr (JStr text \<in> set vs)
      | JObj kvs \<Rightarrow> Inr (text \<in> keys_of kvs)
      | JNull \<Rightarrow> Inr False
      | JBool b \<Rightarrow> if b then Inl TypeError else Inr False
      | JInt n \<Rightarrow> if n \<noteq> 0 then Inl TypeError else Inr False
      | JFloat f \<Rightarrow> if f \<noteq> FFin 0 then Inl TypeError else Inr False)"

text \<open>The checks of a Desktop event against the registration of the runner that sends it.\<close>

definition desktop_refused :: "string \<Rightarrow> 'a result" where
  "desktop_refused code = Inl (StoreError code)"

definition desktop_event_allowed :: "runner \<Rightarrow> string \<Rightarrow> doc \<Rightarrow> unit result" where
  "desktop_event_allowed r event_type p =
     (let registered = ''desktop_host_v1'' \<in> set (rn_capabilities r)
      in if rn_os r \<noteq> ''macos'' then desktop_refused ''desktop_runner_platform_required''
         else if ''desktop_takeover_v1'' \<notin> set (rn_capabilities r)
         then desktop_refused ''desktop_runner_capability_required''
         else if event_type = ''desktop_host'' \<and> \<not> registered
         then desktop_refused ''desktop_runner_capability_required''
         else if event_type = ''desktop_snapshot''
         then (if (case get_field p ''snapshot'' of
                     JObj snapshot \<Rightarrow> get_field snapshot ''project_alias'' | _ \<Rightarrow> JNull)
                   \<notin> JStr ` set (rn_allowed_projects r)
               then desktop_refused ''desktop_project_not_allowed''
               else bind_result (case get_field p ''host'' of
                       JObj host \<Rightarrow> json_contains ''desktop_host_v1'' (get_field host ''capabilities'')
                     | _ \<Rightarrow> Inr False) (\<lambda>advertised.
                 if advertised \<and> \<not> registered
                 then desktop_refused ''desktop_runner_capability_required'' else Inr ()))
         else Inr ())"

definition receive_desktop ::
  "pyenv \<Rightarrow> runner_config \<Rightarrow> runner_manager \<Rightarrow> string \<Rightarrow> doc \<Rightarrow> json \<Rightarrow> doc prog" where
  "receive_desktop env cfg m event_type p credential =
     require_enabled m
       (case rm_desktop m of
          None \<Rightarrow> Ret (desktop_refused ''desktop_controller_disabled'')
        | Some desktop \<Rightarrow>
            ask (\<lambda>i db. verify_credential env db (get_field p ''runner_id'') credential) (\<lambda>_.
            ask (\<lambda>i db. read_runner cfg db (get_field p ''runner_id'') (si_now i)) (\<lambda>(v, _).
            check (desktop_event_allowed (rv_row v) event_type p) (\<lambda>_. Ret (desktop event_type p)))))"

definition desktop_runner_authorized :: "runner_view \<Rightarrow> bool \<Rightarrow> bool" where
  "desktop_runner_authorized v manager_enabled \<longleftrightarrow>
     manager_enabled \<and> rn_admin_state (rv_row v) = Adm_enabled \<and> rn_os (rv_row v) = ''macos'' \<and>
     rn_archived_at (rv_row v) = None \<and> ''desktop_takeover_v1'' \<in> set (rn_capabilities (rv_row v))"

subsection \<open>The commands of the owner\<close>

text \<open>The answer to the gateway: fields without a value, and empty lists, are left out.\<close>

definition text_field :: "string \<Rightarrow> string option \<Rightarrow> doc" where
  "text_field name v = (case v of None \<Rightarrow> [] | Some s \<Rightarrow> [(name, JStr s)])"

definition gateway_result :: "task_view \<Rightarrow> string \<Rightarrow> string \<Rightarrow> doc" where
  "gateway_result t request_id operation =
     [(''version'', JInt 2), (''request_id'', JStr request_id), (''operation'', JStr operation),
      (''task_id'', JStr (tv_task_id t)), (''state'', JStr (task_state_name (tv_state t))),
      (''updated_at'', JStr (isoformat (tv_updated_at t)))] @
     text_field ''stage'' (tv_stage t) @ text_field ''summary'' (tv_summary t) @
     text_field ''candidate_id'' (tv_candidate_id t) @ text_field ''test_summary'' (tv_test_summary t) @
     (case tv_changed_path_count t of None \<Rightarrow> [] | Some n \<Rightarrow> [(''changed_path_count'', JInt n)]) @
     (if tv_next_actions t = [] then []
      else [(''next_actions'', JList (map JStr (tv_next_actions t)))]) @
     text_field ''error_code'' (tv_error_code t) @ text_field ''action_required'' (tv_action_required t)"

text \<open>Whether a control message goes to the runner.\<close>

definition control_due :: "string \<Rightarrow> task_view \<Rightarrow> bool" where
  "control_due operation t \<longleftrightarrow>
     operation = ''continue'' \<or>
     operation = ''cancel'' \<and> tv_assigned_runner_id t \<noteq> None \<and>
       tv_state t \<notin> insert Task_awaiting_confirmation TERMINAL_TASK_STATES"

definition work_command :: "pyenv \<Rightarrow> runner_config \<Rightarrow> runner_manager \<Rightarrow> doc \<Rightarrow> doc prog" where
  "work_command env cfg m p =
     require_enabled m
       (let operation = str_of (get_field p ''operation''); request_id = str_of (get_field p ''request_id'');
            answer = (\<lambda>t. Ret (Inr (gateway_result t request_id operation)))
        in if get_field p ''operation'' = JStr ''start''
           then call (\<lambda>i. create_work_task env cfg p (si_now i)) (\<lambda>(t, _).
                prog_bind (dispatch_waiting env cfg m) (\<lambda>_.
                ask (\<lambda>i db. work_task db (JStr (tv_task_id t))) answer))
           else call (\<lambda>i. command_task env cfg p (rm_publisher m) (si_now i)) (\<lambda>(t, replayed).
                if control_due operation t \<and> \<not> replayed \<and> has_text (tv_assigned_runner_id t)
                then (if \<not> rm_publisher m then Ret (Inl (StoreError ''runner_relay_unavailable''))
                      else ask (\<lambda>i db. control_document env db (JStr (tv_task_id t)) operation
                             (JStr (''CTRL-'' @ request_id))
                             (if operation = ''continue'' then get_field p ''instruction'' else JNull)
                             (si_now i)) (\<lambda>control.
                           post env Relay_control (the (tv_assigned_runner_id t)) control
                             (ask (\<lambda>i db. work_task db (JStr (tv_task_id t))) answer)))
                else answer t))"

end
