(* ===== verification/Runner_Center.thy ===== *)
theory Runner_Center
  imports Runner_Dispatch Runner_Service
begin

text \<open>
  The Runner Manager at work: any number of threads, each running the program of one request or one
  turn of the loop, step by step over one store and one relay, and crashes.  The invariant is one of
  ownership: every thread owns the assignments it has leased and not yet posted, and only the owner
  of an assignment may post its request, which uses it up.
\<close>

section \<open>Threads\<close>

record center =
  ct_db :: runner_db
  ct_last_error :: "string option"
  ct_posts :: "(relay_kind \<times> string \<times> doc \<times> relay_reply) list"
  ct_threads :: "unit prog list"

definition empty_center :: center where
  "empty_center =
     \<lparr>ct_db = empty_runner_db, ct_last_error = None, ct_posts = [], ct_threads = []\<rparr>"

text \<open>One node of a program: an access to the store, a post, or an access to \<open>last_error\<close>.\<close>

fun step_prog :: "store_input \<Rightarrow> relay_reply \<Rightarrow> 'a prog \<Rightarrow> center \<Rightarrow> 'a prog \<times> center" where
  "step_prog i reply (Ret r) c = (Ret r, c)"
| "step_prog i reply (Call f) c = (case f i (ct_db c) of (p, db) \<Rightarrow> (p, c\<lparr>ct_db := db\<rparr>))"
| "step_prog i reply (Publish kind runner_id d g) c =
     (g reply, c\<lparr>ct_posts := ct_posts c @ [(kind, runner_id, d, reply)]\<rparr>)"
| "step_prog i reply (Note e p) c = (p, c\<lparr>ct_last_error := e\<rparr>)"
| "step_prog i reply (Noted g) c = (g (ct_last_error c), c)"

definition input_ok :: "store_input \<Rightarrow> bool" where
  "input_ok i \<longleftrightarrow> RUNNER_ID_RE (fst (si_enrolment i)) \<and> si_lease_id i \<noteq> [] \<and>
     (\<forall>ts. mset (si_order i ts) = mset ts)"

text \<open>The threads: what the manager runs, with the answer dropped.\<close>

definition discard :: "'a prog \<Rightarrow> unit prog" where
  "discard p = prog_then p (\<lambda>r. Ret (map_sum id (\<lambda>_. ()) r))"

inductive manager_op :: "pyenv \<Rightarrow> runner_config \<Rightarrow> runner_manager \<Rightarrow> unit prog \<Rightarrow> bool" for env cfg m where
  op_turn: "manager_op env cfg m (loop_turn env cfg m)"
| op_dispatch: "manager_op env cfg m (discard (dispatch_waiting env cfg m))"
| op_status: "manager_op env cfg m (discard (manager_status cfg m))"
| op_list: "manager_op env cfg m (discard (manager_list_runners cfg m))"
| op_runner: "manager_op env cfg m (discard (manager_runner cfg m i))"
| op_tasks: "manager_op env cfg m (discard (manager_list_tasks m))"
| op_enroll: "manager_op env cfg m (discard (manager_create_enrollment env cfg m man p))"
| op_update: "manager_op env cfg m (discard (manager_update_runner env cfg m i p))"
| op_action: "manager_op env cfg m (discard (manager_action env cfg m a i p))" if "a \<noteq> Emergency_disable"
| op_emergency: "manager_op env cfg m (discard (manager_emergency_disable env cfg m j p))"
| op_recovery: "manager_op env cfg m (discard (manager_resolve_task_recovery env cfg m i p))"
| op_revoke: "manager_op env cfg m (discard (manager_revoke_enrollment env cfg m i p))"
| op_regenerate: "manager_op env cfg m (discard (manager_regenerate_enrollment env cfg m man i p))"
| op_redeem: "manager_op env cfg m (discard (manager_redeem_enrollment env cfg m p))"
| op_bootstrap: "manager_op env cfg m (discard (manager_install_bootstrap env m p))"
| op_authenticate: "manager_op env cfg m (discard (authenticate_runner env m p))"
| op_heartbeat: "manager_op env cfg m (discard (manager_heartbeat env cfg m p s))"
| op_message: "manager_op env cfg m (discard (receive_status env m p s))"
| op_result: "manager_op env cfg m (discard (receive_result env cfg m p s))"
| op_desktop: "manager_op env cfg m (discard (receive_desktop env cfg m ty p s))"
| op_work: "manager_op env cfg m (discard (work_command env cfg m p))"

inductive center_step :: "pyenv \<Rightarrow> runner_config \<Rightarrow> runner_manager \<Rightarrow> center \<Rightarrow> center \<Rightarrow> bool"
  for env cfg m where
  spawned: "center_step env cfg m c (c\<lparr>ct_threads := ct_threads c @ [p]\<rparr>)" if "manager_op env cfg m p"
| ran: "center_step env cfg m c (c'\<lparr>ct_threads := (ct_threads c)[n := p]\<rparr>)"
    if "n < length (ct_threads c)" and "input_ok i" and "step_prog i reply (ct_threads c ! n) c = (p, c')"
| crashed: "center_step env cfg m c (c\<lparr>ct_threads := [], ct_last_error := None\<rparr>)"

section \<open>Ownership of assignments\<close>

type_synonym assignment = "string \<times> string \<times> string \<times> int"

definition leases_of :: "runner_db \<Rightarrow> assignment set" where
  "leases_of db = lease_identity ` set (runner_leases db)"

definition request_assignment :: "doc \<Rightarrow> assignment" where
  "request_assignment d = (str_of (get_field d ''lease_id''), str_of (get_field d ''task_id''),
     str_of (get_field d ''runner_id''), int_of_json (get_field d ''assignment_epoch''))"

inductive owns :: "pyenv \<Rightarrow> runner_config \<Rightarrow> assignment set \<Rightarrow> 'a prog \<Rightarrow> bool" for env cfg where
  owns_Ret: "owns env cfg K (Ret r)"
| owns_Call: "owns env cfg K (Call f)"
    if "\<And>i db. input_ok i \<Longrightarrow> runner_inv db \<Longrightarrow>
      (runner_step env cfg)\<^sup>*\<^sup>* db (snd (f i db)) \<and>
      (\<exists>L \<subseteq> leases_of (snd (f i db)) - leases_of db. owns env cfg (K \<union> L) (fst (f i db)))"
| owns_request: "owns env cfg K (Publish Relay_request runner_id d g)"
    if "request_assignment d \<in> K" and "runner_id = str_of (get_field d ''runner_id'')"
      and "\<And>reply. owns env cfg (K - {request_assignment d}) (g reply)"
| owns_post: "owns env cfg K (Publish kind runner_id d g)"
    if "kind \<noteq> Relay_request" and "\<And>reply. owns env cfg K (g reply)"
| owns_Note: "owns env cfg K (Note e p)" if "owns env cfg K p"
| owns_Noted: "owns env cfg K (Noted g)" if "\<And>e. owns env cfg K (g e)"

inductive_cases owns_cases:
  "owns env cfg K (Call f)" "owns env cfg K (Publish kind runner_id d g)"
  "owns env cfg K (Note e p)" "owns env cfg K (Noted g)"

lemma owns_call_leasing:
  assumes "\<And>i db. input_ok i \<Longrightarrow> (runner_step env cfg)\<^sup>*\<^sup>* db (snd (f i db))"
    and "\<And>i db db' x. input_ok i \<Longrightarrow> runner_inv db \<Longrightarrow> f i db = (Inr x, db') \<Longrightarrow>
      \<exists>L \<subseteq> leases_of db' - leases_of db. owns env cfg (K \<union> L) (k x)"
  shows "owns env cfg K (call f k)"
  unfolding call_def
proof (rule owns_Call)
  fix i db assume i: "input_ok i" "runner_inv db"
  obtain r db' where r: "f i db = (r, db')" by (cases "f i db")
  have "(runner_step env cfg)\<^sup>*\<^sup>* db db'" using assms(1) [OF i(1), of db] r by simp
  moreover have "\<exists>L \<subseteq> leases_of db' - leases_of db. owns env cfg (K \<union> L) (k x)" if "r = Inr x" for x
    using assms(2) [OF i] r that by simp
  moreover have "\<exists>L \<subseteq> leases_of db' - leases_of db. owns env cfg (K \<union> L) (Ret (Inl e))" for e
    by (intro exI [of _ "{}"]) (simp add: owns_Ret)
  ultimately show "(runner_step env cfg)\<^sup>*\<^sup>* db
      (snd (case f i db of (Inl e, db') \<Rightarrow> (Ret (Inl e), db') | (Inr x, db') \<Rightarrow> (k x, db'))) \<and>
    (\<exists>L \<subseteq> leases_of (snd (case f i db of (Inl e, db') \<Rightarrow> (Ret (Inl e), db') | (Inr x, db') \<Rightarrow> (k x, db'))) -
        leases_of db.
      owns env cfg (K \<union> L) (fst (case f i db of (Inl e, db') \<Rightarrow> (Ret (Inl e), db') | (Inr x, db') \<Rightarrow> (k x, db'))))"
    by (cases r) (simp_all add: r)
qed

lemma owns_call:
  assumes "\<And>i db. input_ok i \<Longrightarrow> (runner_step env cfg)\<^sup>*\<^sup>* db (snd (f i db))" and "\<And>x. owns env cfg K (k x)"
  shows "owns env cfg K (call f k)"
  by (rule owns_call_leasing [OF assms(1)]) (use assms(2) in \<open>auto intro: exI [of _ "{}"]\<close>)

lemma owns_ask:
  assumes "\<And>i db x. f i db = Inr x \<Longrightarrow> owns env cfg K (k x)"
  shows "owns env cfg K (ask f k)"
  unfolding ask_def
  by (rule owns_call_leasing) (use assms in \<open>auto intro: exI [of _ "{}"]\<close>)

lemma owns_check: "(\<And>x. r = Inr x \<Longrightarrow> owns env cfg K (k x)) \<Longrightarrow> owns env cfg K (check r k)"
  by (cases r) (simp_all add: check_def owns_Ret)

lemma owns_control: "owns env cfg K p \<Longrightarrow> owns env cfg K (post env Relay_control runner_id d p)"
  unfolding post_def by (intro owns_post owns_check) simp_all

lemma owns_enabled: "owns env cfg K p \<Longrightarrow> owns env cfg K (require_enabled m p)"
  by (simp add: require_enabled_def owns_Ret)

lemma owns_then:
  "owns env cfg K p \<Longrightarrow> (\<And>K r. owns env cfg K (k r)) \<Longrightarrow> owns env cfg K (prog_then p k)"
proof (induction rule: owns.induct)
  case (owns_Call f K)
  show ?case
    unfolding prog_then.simps
  proof (rule owns.owns_Call)
    fix i db assume "input_ok i" "runner_inv db"
    from owns_Call(1) [OF this] owns_Call(2)
    show "(runner_step env cfg)\<^sup>*\<^sup>* db (snd (map_prod (\<lambda>p. prog_then p k) id (f i db))) \<and>
      (\<exists>L \<subseteq> leases_of (snd (map_prod (\<lambda>p. prog_then p k) id (f i db))) - leases_of db.
        owns env cfg (K \<union> L) (fst (map_prod (\<lambda>p. prog_then p k) id (f i db))))" by auto
  qed
qed (simp_all add: owns.intros)

lemma owns_bind:
  "owns env cfg K p \<Longrightarrow> (\<And>K x. owns env cfg K (k x)) \<Longrightarrow> owns env cfg K (prog_bind p k)"
  unfolding prog_bind_def by (intro owns_then owns_check) simp_all
section \<open>Every operation owns what it posts\<close>

text \<open>A lease of the dispatcher is an assignment no thread can own yet.\<close>

lemma request_assignment_of_lease:
  "request_assignment (with_digest env (request_fields (leased cfg lid now t r) (rn_id r) n lid e now)) =
   lease_identity (new_lease cfg lid now t r)"
  by (simp add: request_assignment_def with_digest_def request_fields_def get_field_def str_of_def
    int_of_json_def leased_def leased_task_def new_lease_def)

lemma claim_next_leases:
  assumes inv: "runner_inv db" and claim: "claim_next env cfg lid now db = (Inr (Some (v, m)), db')"
  shows "request_assignment m \<in> leases_of db' - leases_of db"
proof -
  have lid: "lid \<notin> set (map rl_lease_id (runner_leases db))" using claim_next_used claim by blast
  obtain expired found where
    sel: "select_assignment cfg now (idle_runners db) (waiting_tasks db) = (expired, found)"
    by (metis prod.exhaust)
  from claim claim_next_none(1) [of cfg now db expired env lid] sel obtain t r where tr: "found = Some (t, r)"
    by (cases found) auto
  from claim_next_found [OF inv lid sel [unfolded tr], of env] obtain db'' where
    "claim_next env cfg lid now db = (Inr (Some (public_task (leased cfg lid now t r),
      with_digest env (request_fields (leased cfg lid now t r) (rn_id r) (rn_policy_revision r) lid
        (now + seconds (rc_lease_ttl_seconds cfg)) now))), db'')"
    "runner_leases db'' = runner_leases db @ [new_lease cfg lid now t r]" by blast
  moreover have "lease_identity (new_lease cfg lid now t r) \<notin> leases_of db"
    using lid by (auto simp: leases_of_def new_lease_def)
  ultimately show ?thesis
    using claim by (auto simp: request_assignment_of_lease leases_of_def)
qed

lemmas owns_step = owns_call [OF r_into_rtranclp]

lemma owns_dispatch_loop: "owns env cfg K (dispatch_loop env cfg limit n)"
proof (induction limit arbitrary: K n)
  case (Suc limit)
  show ?case
    unfolding dispatch_loop.simps
  proof (rule owns_call_leasing)
    show "(runner_step env cfg)\<^sup>*\<^sup>* db (snd (claim_next env cfg (si_lease_id i) (si_now i) db))"
      if "input_ok i" for i db
      using that by (intro r_into_rtranclp assigned) (simp add: input_ok_def)
  next
    fix i db db' assignment
    assume claim: "runner_inv db" "claim_next env cfg (si_lease_id i) (si_now i) db = (Inr assignment, db')"
    let ?after = "\<lambda>assignment. case assignment of
       None \<Rightarrow> Ret (Inr n)
     | Some (task, request) \<Rightarrow>
         call (\<lambda>i. mark_dispatched (JStr (tv_task_id task)) (si_now i)) (\<lambda>_.
         Publish Relay_request (str_of (get_field request ''runner_id'')) request (\<lambda>reply.
         case publish env Relay_request (str_of (get_field request ''runner_id'')) request reply of
           Inr _ \<Rightarrow> Note None (dispatch_loop env cfg limit (n + 1))
         | Inl e \<Rightarrow>
             if e = RUNNER_OFFLINE
             then call (\<lambda>i. reschedule_undelivered (JStr (tv_task_id task))
                      (get_field request ''runner_id'') (get_field request ''assignment_epoch'')
                      (get_field request ''lease_id'') (si_now i)) (\<lambda>_.
                  Note (Some ''runner_offline'') (Ret (Inr n)))
             else Note (Some ''relay_publish_indeterminate'') (Ret (Inr n))))"
    show "\<exists>L \<subseteq> leases_of db' - leases_of db. owns env cfg (K \<union> L) (?after assignment)"
    proof (cases assignment)
      case None
      then show ?thesis by (intro exI [of _ "{}"]) (simp add: owns_Ret)
    next
      case (Some vm)
      obtain v m where vm: "assignment = Some (v, m)" using Some by (cases vm) simp
      let ?L = "{request_assignment m}"
      have "owns env cfg (K \<union> ?L) (?after assignment)"
        unfolding vm option.case prod.case
        by (intro owns_step owns_request) (auto intro!: owns_step owns_Note owns_Ret Suc.IH dispatched rescheduled
          split: sum.split)
      with claim_next_leases [OF claim(1) claim(2) [unfolded vm]] show ?thesis
        by (intro exI [of _ ?L]) simp
    qed
  qed
qed (simp add: owns_Ret)

lemma owns_dispatch: "owns env cfg K (dispatch_waiting env cfg m)"
  unfolding dispatch_waiting_def by (intro owns_enabled) (simp add: owns_dispatch_loop owns_Ret)

lemma owns_then_dispatch: "owns env cfg K (then_dispatch env cfg m x)"
  unfolding then_dispatch_def by (intro owns_bind owns_dispatch owns_Ret)

lemma owns_discard: "owns env cfg K p \<Longrightarrow> owns env cfg K (discard p)"
  unfolding discard_def by (intro owns_then) (simp_all add: owns_Ret)

lemma owns_turn: "owns env cfg K (loop_turn env cfg m)"
proof -
  have "owns env cfg K (call (\<lambda>i db. map_prod Inr id (sweep cfg (si_order i) (si_now i) db)) (\<lambda>_.
      dispatch_waiting env cfg m))"
    by (intro owns_step owns_dispatch) (auto simp: input_ok_def intro: swept)
  then show ?thesis
    unfolding loop_turn_def
    by (auto intro!: owns_then owns_Ret owns_Note split: sum.split exn.split)
qed

lemmas op_intros = owns_discard owns_enabled owns_check owns_ask owns_control owns_Ret owns_Noted
  owns_then_dispatch owns_bind owns_dispatch

lemma owns_administration:
  "owns env cfg K (manager_status cfg m)" "owns env cfg K (manager_list_runners cfg m)"
  "owns env cfg K (manager_runner cfg m i)" "owns env cfg K (manager_list_tasks m)"
  "owns env cfg K (manager_create_enrollment env cfg m man p)"
  "owns env cfg K (manager_update_runner env cfg m i p)"
  "owns env cfg K (manager_action env cfg m a i p)"
  "owns env cfg K (manager_emergency_disable env cfg m j p)"
  "owns env cfg K (manager_resolve_task_recovery env cfg m i p)"
  "owns env cfg K (manager_revoke_enrollment env cfg m i p)"
  "owns env cfg K (manager_regenerate_enrollment env cfg m man i p)"
proof -
  have e: "runner_step env cfg db (snd (create_enrollment env cfg p (si_enrolment i) (si_now i) db))"
    if "input_ok i" for i db
    using that enrolled [of "fst (si_enrolment i)" env cfg db p "fst (snd (si_enrolment i))"
        "snd (snd (si_enrolment i))" "si_now i"] by (simp add: input_ok_def)
  show "owns env cfg K (manager_status cfg m)"
    unfolding manager_status_def by (auto intro!: op_intros)
  show "owns env cfg K (manager_list_runners cfg m)" "owns env cfg K (manager_runner cfg m i)"
    "owns env cfg K (manager_list_tasks m)"
    unfolding manager_list_runners_def manager_runner_def manager_list_tasks_def by (intro op_intros)+
  show "owns env cfg K (manager_create_enrollment env cfg m man p)"
    unfolding manager_create_enrollment_def
    by (intro op_intros owns_step) (auto intro!: op_intros e split: prod.split)
  show "owns env cfg K (manager_update_runner env cfg m i p)" "owns env cfg K (manager_action env cfg m a i p)"
    "owns env cfg K (manager_resolve_task_recovery env cfg m i p)"
    "owns env cfg K (manager_revoke_enrollment env cfg m i p)"
    unfolding manager_update_runner_def manager_action_def manager_resolve_task_recovery_def
      manager_revoke_enrollment_def
    by (intro op_intros owns_step; blast intro: runner_step.intros)+
  show "owns env cfg K (manager_emergency_disable env cfg m j p)"
    unfolding manager_emergency_disable_def Let_def
    by (intro op_intros owns_step) (auto intro!: op_intros acted)
  show "owns env cfg K (manager_regenerate_enrollment env cfg m man i p)"
    unfolding manager_regenerate_enrollment_def
    by (intro op_intros owns_step)
      (auto intro!: op_intros enrollment_regenerated split: admin_response.split prod.split)
qed

lemma owns_messages:
  "owns env cfg K (receive_status env m p s)" "owns env cfg K (receive_result env cfg m p s)"
proof -
  have step: "runner_step env cfg db (snd (record_message p kind db))" for db kind by (rule message_recorded)
  have recorded: "owns env cfg K (record_and_apply p kind effect)"
    if "\<And>i db. runner_step env cfg db (snd (effect i db))" for K kind effect
    unfolding record_and_apply_def using that by (intro owns_step step) (auto intro!: op_intros owns_step)
  show "owns env cfg K (receive_status env m p s)"
    unfolding receive_status_def
    by (intro op_intros recorded status_applied) (drule validate_status_state, auto)
  show "owns env cfg K (receive_result env cfg m p s)"
    unfolding receive_result_def
    by (intro op_intros recorded result_applied) (drule validate_result_state, auto)
qed

lemma owns_relay:
  "owns env cfg K (manager_redeem_enrollment env cfg m p)"
  "owns env cfg K (manager_install_bootstrap env m p)" "owns env cfg K (authenticate_runner env m p)"
  "owns env cfg K (manager_heartbeat env cfg m p s)" "owns env cfg K (receive_desktop env cfg m ty p s)"
  "owns env cfg K (work_command env cfg m p)"
proof -
  show "owns env cfg K (manager_redeem_enrollment env cfg m p)" "owns env cfg K (manager_heartbeat env cfg m p s)"
    unfolding manager_redeem_enrollment_def manager_heartbeat_def
    by (intro op_intros owns_step; blast intro: runner_step.intros)+
  show "owns env cfg K (manager_install_bootstrap env m p)" "owns env cfg K (authenticate_runner env m p)"
    unfolding manager_install_bootstrap_def authenticate_runner_def
    by (auto intro!: op_intros split: prod.split)
  show "owns env cfg K (receive_desktop env cfg m ty p s)"
    unfolding receive_desktop_def by (auto intro!: op_intros split: option.split prod.split)
  show "owns env cfg K (work_command env cfg m p)"
    unfolding work_command_def Let_def
    by (auto intro!: op_intros owns_step started commanded split: prod.split)
qed

theorem owns_manager_op: "manager_op env cfg m p \<Longrightarrow> owns env cfg K p"
  by (induction rule: manager_op.induct)
    (simp_all add: owns_discard owns_turn owns_dispatch owns_administration owns_messages owns_relay)

section \<open>The invariant\<close>

text \<open>Leases are never taken back: their identities only grow.\<close>

lemma leases_of_update:
  assumes "\<And>l. lease_identity (g l) = lease_identity l"
  shows "leases_of (db\<lparr>runner_leases := update_where p g (runner_leases db)\<rparr>) = leases_of db"
proof -
  have "map lease_identity (update_where p g (runner_leases db)) = map lease_identity (runner_leases db)"
    by (rule map_update_where) (rule assms)
  then show ?thesis by (simp add: leases_of_def flip: set_map)
qed

lemma leases_of_change: "runner_change db db' \<Longrightarrow> leases_of db \<subseteq> leases_of db'"
proof (induction rule: runner_change.induct)
  case (leases_edited g db p)
  then show ?case by (subst leases_of_update) simp_all
next
  case (lease_reactivated t db lid e)
  show ?case by (subst leases_of_update) simp_all
qed (auto simp: leases_of_def)

lemma leases_of_steps:
  assumes "(runner_step env cfg)\<^sup>*\<^sup>* db db'" and "runner_inv db"
  shows "leases_of db \<subseteq> leases_of db'"
  using steps_changes [OF assms]
  by (induction rule: rtranclp_induct) (use leases_of_change in blast)+

definition requests_posted :: "center \<Rightarrow> (string \<times> doc) list" where
  "requests_posted c = map (\<lambda>(_, runner_id, d, _). (runner_id, d))
     (filter (\<lambda>(kind, _, _, _). kind = Relay_request) (ct_posts c))"

definition posted :: "center \<Rightarrow> assignment list" where
  "posted c = map (request_assignment \<circ> snd) (requests_posted c)"

text \<open>Every thread with what it owns, apart from the others and from what was posted.\<close>

definition owners :: "pyenv \<Rightarrow> runner_config \<Rightarrow> center \<Rightarrow> (nat \<Rightarrow> assignment set) \<Rightarrow> bool" where
  "owners env cfg c W \<longleftrightarrow>
     (\<forall>n < length (ct_threads c). owns env cfg (W n) (ct_threads c ! n) \<and>
        W n \<subseteq> leases_of (ct_db c) \<and> W n \<inter> set (posted c) = {}) \<and>
     (\<forall>n n'. n \<noteq> n' \<longrightarrow> W n \<inter> W n' = {})"

definition center_inv :: "pyenv \<Rightarrow> runner_config \<Rightarrow> center \<Rightarrow> bool" where
  "center_inv env cfg c \<longleftrightarrow>
     reach empty_runner_db (runner_step env cfg) (ct_db c) \<and>
     distinct (posted c) \<and> set (posted c) \<subseteq> leases_of (ct_db c) \<and>
     (\<forall>(runner_id, d) \<in> set (requests_posted c). runner_id = str_of (get_field d ''runner_id'')) \<and>
     (\<exists>W. owners env cfg c W)"

lemma requests_posted_simps [simp]:
  "requests_posted (c\<lparr>ct_posts := ct_posts c @ [(kind, runner_id, d, reply)]\<rparr>) =
     requests_posted c @ (if kind = Relay_request then [(runner_id, d)] else [])"
  "requests_posted (c\<lparr>ct_db := db\<rparr>) = requests_posted c"
  "requests_posted (c\<lparr>ct_last_error := e\<rparr>) = requests_posted c"
  "requests_posted (c\<lparr>ct_threads := ts\<rparr>) = requests_posted c"
  by (simp_all add: requests_posted_def)

lemma posted_simps [simp]:
  "posted (c\<lparr>ct_posts := ct_posts c @ [(kind, runner_id, d, reply)]\<rparr>) =
     posted c @ (if kind = Relay_request then [request_assignment d] else [])"
  "posted (c\<lparr>ct_db := db\<rparr>) = posted c" "posted (c\<lparr>ct_last_error := e\<rparr>) = posted c"
  "posted (c\<lparr>ct_threads := ts\<rparr>) = posted c"
  by (simp_all add: posted_def)

text \<open>A step of a thread: what it owns afterwards is apart from what the others own.\<close>

definition step_ok :: "pyenv \<Rightarrow> runner_config \<Rightarrow> assignment set \<Rightarrow> unit prog \<Rightarrow> center \<Rightarrow> center \<Rightarrow> assignment set \<Rightarrow> bool" where
  "step_ok env cfg K p c c' K' \<longleftrightarrow>
     owns env cfg K' p \<and> (runner_step env cfg)\<^sup>*\<^sup>* (ct_db c) (ct_db c') \<and>
     K' \<subseteq> K \<union> (leases_of (ct_db c') - leases_of (ct_db c)) \<and>
     ct_threads c' = ct_threads c \<and>
     (requests_posted c' = requests_posted c \<or>
       (\<exists>d. requests_posted c' = requests_posted c @ [(str_of (get_field d ''runner_id''), d)] \<and>
          request_assignment d \<in> K - K'))"

lemma step_prog_ok:
  assumes "owns env cfg K p" and "runner_inv (ct_db c)" and "input_ok i"
    and "step_prog i reply p c = (p', c')"
  shows "\<exists>K'. step_ok env cfg K p' c c' K'"
  using assms(1)
proof cases
  case (owns_Ret r)
  then show ?thesis using assms(1,4) by (intro exI [of _ K]) (auto simp: step_ok_def)
next
  case (owns_Call f)
  from owns_Call(2) [OF assms(3,2)] obtain L where
    "(runner_step env cfg)\<^sup>*\<^sup>* (ct_db c) (snd (f i (ct_db c)))"
    "L \<subseteq> leases_of (snd (f i (ct_db c))) - leases_of (ct_db c)" "owns env cfg (K \<union> L) (fst (f i (ct_db c)))"
    by blast
  then show ?thesis using assms(4) owns_Call(1)
    by (intro exI [of _ "K \<union> L"]) (auto simp: step_ok_def split: prod.splits)
next
  case (owns_request d runner_id g)
  then show ?thesis using assms(4)
    by (intro exI [of _ "K - {request_assignment d}"]) (auto simp: step_ok_def)
next
  case (owns_post kind g runner_id d)
  then show ?thesis using assms(4) by (intro exI [of _ K]) (auto simp: step_ok_def)
next
  case (owns_Note q e)
  then show ?thesis using assms(4) by (intro exI [of _ K]) (auto simp: step_ok_def)
next
  case (owns_Noted g)
  then show ?thesis using assms(4) by (intro exI [of _ K]) (auto simp: step_ok_def)
qed

lemma center_inv_ran:
  assumes inv: "center_inv env cfg c" and n: "n < length (ct_threads c)" and i: "input_ok i"
    and step: "step_prog i reply (ct_threads c ! n) c = (p, c')"
  shows "center_inv env cfg (c'\<lparr>ct_threads := (ct_threads c)[n := p]\<rparr>)"
proof -
  let ?c = "c'\<lparr>ct_threads := (ct_threads c)[n := p]\<rparr>"
  from inv have reached: "reach empty_runner_db (runner_step env cfg) (ct_db c)" by (simp add: center_inv_def)
  then have db: "runner_inv (ct_db c)" by (rule runner_system.invariant)
  from inv obtain W where W: "owners env cfg c W" by (auto simp: center_inv_def)
  with n have "owns env cfg (W n) (ct_threads c ! n)" by (simp add: owners_def)
  from step_prog_ok [OF this db i step] obtain K where ok: "step_ok env cfg (W n) p c c' K" by blast
  then have steps: "(runner_step env cfg)\<^sup>*\<^sup>* (ct_db c) (ct_db c')" by (simp add: step_ok_def)
  from leases_of_steps [OF this db] have grow: "leases_of (ct_db c) \<subseteq> leases_of (ct_db c')" .
  have reach': "reach empty_runner_db (runner_step env cfg) (ct_db c')"
    using reached steps by (simp add: reach_rtranclp)
  have K: "K \<subseteq> W n \<union> (leases_of (ct_db c') - leases_of (ct_db c))" using ok by (simp add: step_ok_def)
  have Wn: "W n' \<subseteq> leases_of (ct_db c)" "W n' \<inter> set (posted c) = {}" if "n' < length (ct_threads c)" for n'
    using W that by (simp_all add: owners_def)
  have apart: "W n \<inter> W n' = {}" if "n' \<noteq> n" for n' using W that by (simp add: owners_def)
  have KW: "K \<inter> W n' = {}" if "n' \<noteq> n" "n' < length (ct_threads c)" for n'
    using K apart [OF that(1)] Wn(1) [OF that(2)] by blast
  consider "requests_posted c' = requests_posted c"
    | d where "requests_posted c' = requests_posted c @ [(str_of (get_field d ''runner_id''), d)]"
      "request_assignment d \<in> W n - K"
    using ok by (auto simp: step_ok_def)
  then have posts: "distinct (posted c') \<and> set (posted c') \<subseteq> leases_of (ct_db c') \<and>
      (\<forall>(runner_id, d) \<in> set (requests_posted c'). runner_id = str_of (get_field d ''runner_id'')) \<and>
      set (posted c') \<subseteq> set (posted c) \<union> (W n - K)"
  proof cases
    case 1
    then show ?thesis using inv grow by (auto simp: center_inv_def posted_def)
  next
    case 2
    then show ?thesis using inv grow Wn [OF n] by (auto simp: center_inv_def posted_def)
  qed
  let ?W = "\<lambda>n'. if n' = n then K else if n' < length (ct_threads c) then W n' else {}"
  have "owners env cfg ?c ?W"
    unfolding owners_def
  proof (intro conjI allI impI)
    fix n' assume n': "n' < length (ct_threads ?c)"
    show "owns env cfg (?W n') (ct_threads ?c ! n')"
      using ok W n' n by (auto simp: step_ok_def owners_def nth_list_update)
    have "K \<subseteq> leases_of (ct_db c')" using K Wn(1) [OF n] grow by blast
    then show "?W n' \<subseteq> leases_of (ct_db ?c)" using Wn(1) [of n'] grow by auto
    show "?W n' \<inter> set (posted ?c) = {}"
    proof (cases "n' = n")
      case True
      have "set (posted c) \<subseteq> leases_of (ct_db c)" using inv by (simp add: center_inv_def)
      with K Wn(2) [OF n] have "K \<inter> set (posted c) = {}" by blast
      moreover have "set (posted c') \<subseteq> set (posted c) \<union> (W n - K)" using posts by blast
      ultimately have "K \<inter> set (posted c') = {}" by blast
      then show ?thesis using True by simp
    next
      case False
      then show ?thesis using posts Wn(2) [of n'] apart [of n'] n' by auto
    qed
  next
    fix n1 n2 :: nat assume "n1 \<noteq> n2"
    then show "?W n1 \<inter> ?W n2 = {}"
      using KW [of n1] KW [of n2] W by (auto simp: owners_def)
  qed
  with reach' posts show ?thesis by (auto simp: center_inv_def)
qed

lemma center_inv_step:
  assumes "center_step env cfg m c c'" and "center_inv env cfg c"
  shows "center_inv env cfg c'"
  using assms(1)
proof cases
  case (spawned p)
  from assms(2) obtain W where W: "owners env cfg c W" by (auto simp: center_inv_def)
  let ?W = "\<lambda>n. if n < length (ct_threads c) then W n else {}"
  have "owners env cfg c' ?W"
    using W owns_manager_op [OF spawned(2)] by (auto simp: owners_def spawned(1) nth_append less_Suc_eq)
  then show ?thesis using assms(2) by (auto simp: center_inv_def spawned(1))
next
  case (ran n i reply p c'')
  then show ?thesis using center_inv_ran [OF assms(2)] by simp
next
  case crashed
  have "owners env cfg c' (\<lambda>_. {})" by (simp add: owners_def crashed)
  then show ?thesis using assms(2) by (auto simp: center_inv_def crashed posted_def requests_posted_def)
qed

lemma center_inv_empty: "center_inv env cfg empty_center"
  by (auto simp: center_inv_def empty_center_def posted_def requests_posted_def owners_def intro: reach.start
    exI [of _ "\<lambda>_. {}"])

interpretation runner_center: inv_system empty_center "center_step env cfg m" "center_inv env cfg" for env cfg m
  by unfold_locales (simp_all add: center_inv_empty center_inv_step)

end
