(* ===== verification/Codex_Jobs.thy ===== *)
theory Codex_Jobs
  imports Contract "HOL-Library.Product_Lexorder"
begin

text \<open>
  \<open>codex_controller/codex_controller/store.py\<close>, class \<open>ControllerStore\<close>: the queue of Codex jobs and
  the mapping of conversations to threads.  The SQLite tables are lists of records in rowid order; a
  timestamp column, written by \<open>datetime.isoformat\<close> at a fixed offset, is the instant it denotes (the
  text order of such timestamps is the order of the instants), a JSON column the value it holds.  The
  clock is read once per operation and is an argument, as are the random ids.  The schema migrations
  are left out.
\<close>

section \<open>Tables\<close>

datatype job_state =
  Jb_queued | Jb_running | Jb_completed | Jb_failed | Jb_cancelled | Jb_recovery_required

definition ACTIVE_STATES :: "job_state set" where
  "ACTIVE_STATES = {Jb_queued, Jb_running, Jb_recovery_required}"

definition FINAL_STATES :: "job_state set" where
  "FINAL_STATES = {Jb_completed, Jb_failed, Jb_cancelled}"

datatype conversation_state = Cv_active | Cv_archived | Cv_blocked

record conversation =
  cv_conversation_key :: string
  cv_thread_id :: "string option"
  cv_state :: conversation_state
  cv_conv_created_at :: int
  cv_conv_updated_at :: int

record attachment =
  at_attachment_ref :: string
  at_media_type :: string
  at_size_bytes :: json
  at_sha256 :: string
  at_display_name :: "string option"

record job_input =
  ji_message_id :: string
  ji_conversation_key :: string
  ji_received_at :: string
  ji_text :: string
  ji_attachments :: "attachment list"
  ji_reply_capabilities :: "string list"
  ji_capability_profile :: string

record job =
  jb_id :: string
  jb_message_id :: string
  jb_conversation_key :: string
  jb_thread_id :: "string option"
  jb_turn_id :: "string option"
  jb_state :: job_state
  jb_input_digest :: string
  jb_input :: job_input
  jb_result_text :: "string option"
  jb_result_summary :: "string option"
  jb_error_code :: "string option"
  jb_error_type :: "string option"
  jb_upstream_http_status :: "int option"
  jb_retryable :: bool
  jb_output_observed :: bool
  jb_tool_activity_observed :: bool
  jb_artifact_observed :: bool
  jb_retry_not_before :: "int option"
  jb_attempt :: int
  jb_capability_profile :: string
  jb_created_at :: int
  jb_started_at :: "int option"
  jb_finished_at :: "int option"

record job_event =
  je_job_id :: string
  je_event_type :: string
  je_item_type :: "string option"
  je_content_length :: "nat option"
  je_error_code :: "string option"
  je_created_at :: int

record job_artifact =
  ja_artifact_id :: string
  ja_job_id :: string
  ja_storage_name :: string
  ja_size_bytes :: int
  ja_sha256 :: string
  ja_width :: int
  ja_height :: int
  ja_summary :: json
  ja_download_token_hash :: string
  ja_expires_at :: int
  ja_artifact_created_at :: int

record codex_db =
  conversations :: "conversation list"
  jobs :: "job list"
  job_events :: "job_event list"
  job_artifacts :: "job_artifact list"

definition empty_codex_db :: codex_db where
  "empty_codex_db = \<lparr>conversations = [], jobs = [], job_events = [], job_artifacts = []\<rparr>"

record codex_config =
  xc_max_queue :: int
  xc_max_result_chars :: nat
  xc_artifact_ttl_seconds :: int
  xc_max_artifact_bytes :: int
  xc_artifact_quota_bytes :: int
  xc_max_artifacts_per_job :: int

text \<open>The bounds \<open>__init__\<close> puts on the configured numbers.\<close>

definition codex_config_of :: "codex_config \<Rightarrow> codex_config" where
  "codex_config_of c =
     (let bytes = max 1024 (xc_max_artifact_bytes c)
      in c\<lparr>xc_artifact_ttl_seconds := max 300 (xc_artifact_ttl_seconds c),
           xc_max_artifact_bytes := bytes,
           xc_artifact_quota_bytes := max bytes (xc_artifact_quota_bytes c),
           xc_max_artifacts_per_job := max 1 (xc_max_artifacts_per_job c)\<rparr>)"

text \<open>
  \<open>with self._connect() as connection: BEGIN IMMEDIATE ...\<close>: a body that raises leaves the database
  as it was.
\<close>

definition immediate :: "('s \<Rightarrow> ('a \<times> 's) result) \<Rightarrow> 's \<Rightarrow> 'a result \<times> 's" where
  "immediate body s = (case body s of Inl e \<Rightarrow> (Inl e, s) | Inr (a, s') \<Rightarrow> (Inr a, s'))"

definition codex_error :: "string \<Rightarrow> 'a result" where
  "codex_error code = Inl (StoreError code)"

section \<open>Validation of a job\<close>

definition CONVERSATION_RE :: "string \<Rightarrow> bool" where
  "CONVERSATION_RE = matches (lit ''sha256:'' @ replicate 64 is_hex_lower)"

text \<open>\<open>bool(v)\<close>, and \<open>str(v)\<close>: the rendering of floats, lists and objects is the runtime's.\<close>

fun py_truth :: "json \<Rightarrow> bool" where
  "py_truth JNull = False"
| "py_truth (JBool b) = b"
| "py_truth (JInt i) = (i \<noteq> 0)"
| "py_truth (JFloat x) = (x \<noteq> FFin 0)"
| "py_truth (JStr s) = (s \<noteq> [])"
| "py_truth (JList vs) = (vs \<noteq> [])"
| "py_truth (JObj kvs) = (kvs \<noteq> [])"

record codex_env = pyenv +
  py_repr :: "json \<Rightarrow> string"

fun str_text :: "'a codex_env_scheme \<Rightarrow> json \<Rightarrow> string" where
  "str_text env (JStr s) = s"
| "str_text env (JInt i) = show_int i"
| "str_text env (JBool b) = (if b then ''True'' else ''False'')"
| "str_text env JNull = ''None''"
| "str_text env v = py_repr env v"

text \<open>\<open>text[:n]\<close>, in code points.\<close>

definition py_take :: "nat \<Rightarrow> string \<Rightarrow> string" where
  "py_take n s = concat (take n (uchars s))"

definition invalid_job :: "'a result" where
  "invalid_job = codex_error ''invalid_job''"

text \<open>\<open>isinstance(v, int) and lo <= v <= hi\<close>, where \<open>True\<close> counts as 1.\<close>

definition int_between :: "int \<Rightarrow> int \<Rightarrow> json \<Rightarrow> bool" where
  "int_between lo hi v =
     (case v of
        JInt n \<Rightarrow> lo \<le> n \<and> n \<le> hi
      | JBool b \<Rightarrow> lo \<le> of_bool b \<and> of_bool b \<le> hi
      | _ \<Rightarrow> False)"

definition text_between :: "int \<Rightarrow> int \<Rightarrow> json \<Rightarrow> bool" where
  "text_between lo hi v = str_matches (\<lambda>s. lo \<le> int (py_len s) \<and> int (py_len s) \<le> hi) v"

definition validate_attachment :: "'a codex_env_scheme \<Rightarrow> json \<Rightarrow> attachment result" where
  "validate_attachment env v =
     (case v of
        JObj p \<Rightarrow>
          if \<not> text_between 16 256 (get_field p ''attachment_ref'') then invalid_job
          else bind_result (in_string_set (get_field p ''media_type'')
                 {''image'', ''file'', ''video'', ''audio''}) (\<lambda>known.
            if \<not> known then invalid_job
            else if \<not> int_between 1 (50 * 1024 * 1024) (get_field p ''size_bytes'') then invalid_job
            else if \<not> str_matches CONVERSATION_RE (get_field p ''sha256'') then invalid_job
            else Inr \<lparr>at_attachment_ref = str_of (get_field p ''attachment_ref''),
                      at_media_type = str_of (get_field p ''media_type''),
                      at_size_bytes = get_field p ''size_bytes'',
                      at_sha256 = str_of (get_field p ''sha256''),
                      at_display_name =
                        (if py_truth (get_field p ''display_name'')
                         then Some (py_take 255 (str_text env (get_field p ''display_name'')))
                         else None)\<rparr>)
      | _ \<Rightarrow> invalid_job)"

text \<open>\<open>set(v)\<close> of a list raises TypeError when an element is unhashable.\<close>

definition validate_reply_capabilities :: "json \<Rightarrow> string list result" where
  "validate_reply_capabilities v =
     (case v of
        JList vs \<Rightarrow>
          if list_ex (\<lambda>x. \<not> is_hashable x) vs then Inl TypeError
          else if list_all (str_matches (\<lambda>s. s \<in> {''text'', ''image'', ''file''})) vs
          then Inr (sort (remdups (map str_of vs))) else invalid_job
      | _ \<Rightarrow> invalid_job)"

definition validate_capability_profile :: "doc \<Rightarrow> string result" where
  "validate_capability_profile p =
     (if ''capability_profile'' \<notin> keys_of p then Inr ''owner_legacy''
      else bind_result (in_string_set (get_field p ''capability_profile'') {''owner'', ''member_read_only''})
        (\<lambda>known. if known then Inr (str_of (get_field p ''capability_profile''))
                 else codex_error ''invalid_capability_profile''))"

definition validate_job :: "'a codex_env_scheme \<Rightarrow> json \<Rightarrow> job_input result" where
  "validate_job env payload =
     (case payload of
        JObj p \<Rightarrow>
          if \<not> py_eq_int (get_field p ''version'') 1 then invalid_job
          else if \<not> text_between 1 256 (get_field p ''message_id'') then invalid_job
          else if \<not> str_matches CONVERSATION_RE (get_field p ''conversation_key'') then invalid_job
          else if \<not> text_between 0 64 (get_field p ''received_at'') then invalid_job
          else if \<not> text_between 0 32000 (get_field p ''text'') then invalid_job
          else (case get_field p ''attachments'' of
              JList vs \<Rightarrow>
                if length vs > 16 then invalid_job
                else bind_result (map_result (validate_attachment env) vs) (\<lambda>attachments.
                  bind_result (validate_reply_capabilities (get_field p ''reply_capabilities'')) (\<lambda>capabilities.
                  bind_result (validate_capability_profile p) (\<lambda>profile.
                  Inr \<lparr>ji_message_id = str_of (get_field p ''message_id''),
                       ji_conversation_key = str_of (get_field p ''conversation_key''),
                       ji_received_at = str_of (get_field p ''received_at''),
                       ji_text = str_of (get_field p ''text''),
                       ji_attachments = attachments,
                       ji_reply_capabilities = capabilities,
                       ji_capability_profile = profile\<rparr>)))
            | _ \<Rightarrow> invalid_job)
      | _ \<Rightarrow> invalid_job)"

definition attachment_json :: "attachment \<Rightarrow> json" where
  "attachment_json a =
     JObj ([(''attachment_ref'', JStr (at_attachment_ref a)), (''media_type'', JStr (at_media_type a)),
            (''size_bytes'', at_size_bytes a), (''sha256'', JStr (at_sha256 a))] @
           (case at_display_name a of None \<Rightarrow> [] | Some d \<Rightarrow> [(''display_name'', JStr d)]))"

definition job_input_json :: "job_input \<Rightarrow> json" where
  "job_input_json i =
     JObj [(''version'', JInt 1), (''message_id'', JStr (ji_message_id i)),
           (''conversation_key'', JStr (ji_conversation_key i)),
           (''received_at'', JStr (ji_received_at i)), (''text'', JStr (ji_text i)),
           (''attachments'', JList (map attachment_json (ji_attachments i))),
           (''reply_capabilities'', JList (map JStr (ji_reply_capabilities i))),
           (''capability_profile'', JStr (ji_capability_profile i))]"

definition input_digest :: "'a codex_env_scheme \<Rightarrow> job_input \<Rightarrow> string" where
  "input_digest env i = sha256_hex env (canonical_json_of (float_repr env) (job_input_json i))"

section \<open>Documents and events\<close>

record job_view =
  jv_job_id :: string
  jv_message_id :: string
  jv_conversation_key :: string
  jv_thread_id :: "string option"
  jv_turn_id :: "string option"
  jv_state :: job_state
  jv_queue_position :: "nat option"
  jv_result :: "string option"
  jv_result_summary :: "string option"
  jv_error_code :: "string option"
  jv_error_type :: "string option"
  jv_upstream_http_status :: "int option"
  jv_retryable :: bool
  jv_output_observed :: bool
  jv_tool_activity_observed :: bool
  jv_artifact_observed :: bool
  jv_retry_not_before :: "int option"
  jv_attempt :: int
  jv_capability_profile :: string
  jv_created_at :: int
  jv_started_at :: "int option"
  jv_finished_at :: "int option"
  jv_input :: "job_input option"

definition job_order :: "job \<Rightarrow> int \<times> string" where
  "job_order j = (jb_created_at j, jb_id j)"

definition queued_jobs :: "codex_db \<Rightarrow> job list" where
  "queued_jobs db = filter (\<lambda>j. jb_state j = Jb_queued) (jobs db)"

definition job_document :: "bool \<Rightarrow> codex_db \<Rightarrow> job \<Rightarrow> job_view" where
  "job_document include_input db j =
     \<lparr>jv_job_id = jb_id j, jv_message_id = jb_message_id j,
      jv_conversation_key = jb_conversation_key j, jv_thread_id = jb_thread_id j,
      jv_turn_id = jb_turn_id j, jv_state = jb_state j,
      jv_queue_position =
        (if jb_state j = Jb_queued
         then Some (length (filter (\<lambda>k. job_order k \<le> job_order j) (queued_jobs db))) else None),
      jv_result = jb_result_text j, jv_result_summary = jb_result_summary j,
      jv_error_code = jb_error_code j, jv_error_type = jb_error_type j,
      jv_upstream_http_status = jb_upstream_http_status j, jv_retryable = jb_retryable j,
      jv_output_observed = jb_output_observed j,
      jv_tool_activity_observed = jb_tool_activity_observed j,
      jv_artifact_observed = jb_artifact_observed j,
      jv_retry_not_before = jb_retry_not_before j, jv_attempt = jb_attempt j,
      jv_capability_profile = jb_capability_profile j, jv_created_at = jb_created_at j,
      jv_started_at = jb_started_at j, jv_finished_at = jb_finished_at j,
      jv_input = (if include_input then Some (jb_input j) else None)\<rparr>"

definition find_job :: "codex_db \<Rightarrow> string \<Rightarrow> job option" where
  "find_job db i = select_one (\<lambda>j. jb_id j = i) (jobs db)"

definition has_state :: "job_state \<Rightarrow> string \<Rightarrow> job \<Rightarrow> bool" where
  "has_state st i j \<longleftrightarrow> jb_id j = i \<and> jb_state j = st"

definition update_jobs :: "(job \<Rightarrow> bool) \<Rightarrow> (job \<Rightarrow> job) \<Rightarrow> codex_db \<Rightarrow> codex_db" where
  "update_jobs p f db = db\<lparr>jobs := update_where p f (jobs db)\<rparr>"

text \<open>\<open>_event\<close>: the foreign key refuses an event of a job that does not exist.\<close>

definition event ::
  "string \<Rightarrow> string \<Rightarrow> string option \<Rightarrow> nat option \<Rightarrow> string option \<Rightarrow> int \<Rightarrow> codex_db \<Rightarrow> codex_db result" where
  "event job_id event_type item_type content_length error_code now db =
     (if find_job db job_id = None then Inl IntegrityError
      else Inr (db\<lparr>job_events := insert_row
          \<lparr>je_job_id = job_id, je_event_type = event_type, je_item_type = item_type,
           je_content_length = content_length, je_error_code = error_code, je_created_at = now\<rparr>
          (job_events db)\<rparr>))"

text \<open>The document of a job after the statements of an operation.\<close>

definition reread_job :: "bool \<Rightarrow> string \<Rightarrow> codex_db \<Rightarrow> job_view result" where
  "reread_job include_input job_id db =
     (case find_job db job_id of
        None \<Rightarrow> Inl TypeError
      | Some j \<Rightarrow> Inr (job_document include_input db j))"

section \<open>Submission and dispatch\<close>

definition new_job :: "string \<Rightarrow> string \<Rightarrow> job_input \<Rightarrow> int \<Rightarrow> job" where
  "new_job job_id digest i now =
     \<lparr>jb_id = job_id, jb_message_id = ji_message_id i, jb_conversation_key = ji_conversation_key i,
      jb_thread_id = None, jb_turn_id = None, jb_state = Jb_queued, jb_input_digest = digest,
      jb_input = i, jb_result_text = None, jb_result_summary = None, jb_error_code = None,
      jb_error_type = None, jb_upstream_http_status = None, jb_retryable = False,
      jb_output_observed = False, jb_tool_activity_observed = False, jb_artifact_observed = False,
      jb_retry_not_before = None, jb_attempt = 0, jb_capability_profile = ji_capability_profile i,
      jb_created_at = now, jb_started_at = None, jb_finished_at = None\<rparr>"

definition insert_job :: "job \<Rightarrow> codex_db \<Rightarrow> codex_db result" where
  "insert_job j db =
     (if jb_id j \<in> set (map jb_id (jobs db)) \<or> jb_message_id j \<in> set (map jb_message_id (jobs db))
      then Inl IntegrityError else Inr (db\<lparr>jobs := insert_row j (jobs db)\<rparr>))"

definition ensure_conversation :: "string \<Rightarrow> int \<Rightarrow> codex_db \<Rightarrow> codex_db" where
  "ensure_conversation key now db =
     (if key \<in> set (map cv_conversation_key (conversations db)) then db
      else db\<lparr>conversations := insert_row
          \<lparr>cv_conversation_key = key, cv_thread_id = None, cv_state = Cv_active,
           cv_conv_created_at = now, cv_conv_updated_at = now\<rparr> (conversations db)\<rparr>)"

definition active_count :: "codex_db \<Rightarrow> nat" where
  "active_count db = rowcount (\<lambda>j. jb_state j \<in> ACTIVE_STATES) (jobs db)"

definition create_job_body ::
  "codex_config \<Rightarrow> string \<Rightarrow> string \<Rightarrow> job_input \<Rightarrow> int \<Rightarrow> codex_db \<Rightarrow> (job_view \<times> codex_db) result" where
  "create_job_body cfg job_id digest i now db =
     (case select_one (\<lambda>j. jb_message_id j = ji_message_id i) (jobs db) of
        Some existing \<Rightarrow>
          if jb_input_digest existing \<noteq> digest then codex_error ''idempotency_conflict''
          else Inr (job_document False db existing, db)
      | None \<Rightarrow>
          if int (active_count db) \<ge> xc_max_queue cfg then codex_error ''queue_full''
          else bind_result
            (insert_job (new_job job_id digest i now) (ensure_conversation (ji_conversation_key i) now db))
            (\<lambda>db1. bind_result (event job_id ''queued'' None None None now db1) (\<lambda>db2.
              bind_result (reread_job False job_id db2) (\<lambda>document. Inr (document, db2)))))"

definition create_job ::
  "'a codex_env_scheme \<Rightarrow> codex_config \<Rightarrow> json \<Rightarrow> string \<Rightarrow> int \<Rightarrow> codex_db \<Rightarrow> job_view result \<times> codex_db" where
  "create_job env cfg payload job_id now db =
     (case validate_job env payload of
        Inl e \<Rightarrow> (Inl e, db)
      | Inr i \<Rightarrow> immediate (create_job_body cfg job_id (input_digest env i) i now) db)"

definition get_job :: "string \<Rightarrow> codex_db \<Rightarrow> job_view result" where
  "get_job job_id db =
     (case find_job db job_id of
        None \<Rightarrow> codex_error ''job_not_found''
      | Some j \<Rightarrow> Inr (job_document False db j))"

definition claimed_job :: "int \<Rightarrow> job \<Rightarrow> job" where
  "claimed_job now j =
     j\<lparr>jb_state := Jb_running, jb_started_at := Some now, jb_finished_at := None,
       jb_attempt := jb_attempt j + 1, jb_error_code := None, jb_error_type := None,
       jb_upstream_http_status := None, jb_retryable := False, jb_output_observed := False,
       jb_tool_activity_observed := False, jb_artifact_observed := False,
       jb_retry_not_before := None\<rparr>"

definition claim_next_job_body :: "int \<Rightarrow> codex_db \<Rightarrow> (job_view option \<times> codex_db) result" where
  "claim_next_job_body now db =
     (if list_ex (\<lambda>j. jb_state j \<in> {Jb_running, Jb_recovery_required}) (jobs db) then Inr (None, db)
      else (case first_min job_order (queued_jobs db) of
          None \<Rightarrow> Inr (None, db)
        | Some row \<Rightarrow>
            if (case jb_retry_not_before row of None \<Rightarrow> False | Some t \<Rightarrow> t > now) then Inr (None, db)
            else bind_result
              (event (jb_id row) ''dispatching'' None None None now
                (update_jobs (has_state Jb_queued (jb_id row)) (claimed_job now) db)) (\<lambda>db1.
              bind_result (reread_job True (jb_id row) db1) (\<lambda>document. Inr (Some document, db1)))))"

definition claim_next_job :: "int \<Rightarrow> codex_db \<Rightarrow> job_view option result \<times> codex_db" where
  "claim_next_job now db = immediate (claim_next_job_body now) db"

section \<open>Threads and turns\<close>

text \<open>\<open>UPDATE conversations SET thread_id=?\<close>: the column is UNIQUE.\<close>

definition set_thread :: "string \<Rightarrow> string \<Rightarrow> int \<Rightarrow> codex_db \<Rightarrow> codex_db result" where
  "set_thread key thread_id now db =
     (if list_ex (\<lambda>c. cv_conversation_key c = key) (conversations db)
         \<and> list_ex (\<lambda>c. cv_conversation_key c \<noteq> key \<and> cv_thread_id c = Some thread_id) (conversations db)
      then Inl IntegrityError
      else Inr (db\<lparr>conversations := update_where (\<lambda>c. cv_conversation_key c = key)
          (\<lambda>c. c\<lparr>cv_thread_id := Some thread_id, cv_conv_updated_at := now\<rparr>) (conversations db)\<rparr>))"

definition running_job :: "codex_db \<Rightarrow> string \<Rightarrow> job result" where
  "running_job db job_id =
     (case find_job db job_id of
        None \<Rightarrow> codex_error ''job_state_conflict''
      | Some j \<Rightarrow> if jb_state j = Jb_running then Inr j else codex_error ''job_state_conflict'')"

definition assign_thread :: "string \<Rightarrow> string \<Rightarrow> int \<Rightarrow> codex_db \<Rightarrow> unit result \<times> codex_db" where
  "assign_thread job_id thread_id now =
     immediate (\<lambda>db.
       if thread_id = [] then codex_error ''thread_unavailable''
       else bind_result (running_job db job_id) (\<lambda>row.
         bind_result (set_thread (jb_conversation_key row) thread_id now db) (\<lambda>db1.
         Inr ((), update_jobs (\<lambda>j. jb_id j = job_id) (\<lambda>j. j\<lparr>jb_thread_id := Some thread_id\<rparr>) db1))))"

definition completed_job :: "string \<Rightarrow> int \<Rightarrow> job \<Rightarrow> job" where
  "completed_job text now j =
     j\<lparr>jb_state := Jb_completed, jb_result_text := Some text, jb_error_code := None,
       jb_finished_at := Some now\<rparr>"

definition complete_new_thread ::
  "codex_config \<Rightarrow> string \<Rightarrow> string \<Rightarrow> string \<Rightarrow> int \<Rightarrow> codex_db \<Rightarrow> job_view result \<times> codex_db" where
  "complete_new_thread cfg job_id thread_id result_text now =
     immediate (\<lambda>db.
       if thread_id = [] then codex_error ''thread_unavailable''
       else bind_result (running_job db job_id) (\<lambda>row.
         bind_result (set_thread (jb_conversation_key row) thread_id now db) (\<lambda>db1.
         bind_result (event job_id ''new_thread_started'' (Some ''controllerControl'')
             (Some (py_len result_text)) None now
             (update_jobs (has_state Jb_running job_id)
               (\<lambda>j. (completed_job (py_take (xc_max_result_chars cfg) result_text) now j)
                      \<lparr>jb_thread_id := Some thread_id\<rparr>) db1)) (\<lambda>db2.
         bind_result (reread_job False job_id db2) (\<lambda>document. Inr (document, db2))))))"

definition complete_direct_result ::
  "codex_config \<Rightarrow> string \<Rightarrow> string \<Rightarrow> string \<Rightarrow> int \<Rightarrow> codex_db \<Rightarrow> job_view result \<times> codex_db" where
  "complete_direct_result cfg job_id result_text item_type now =
     immediate (\<lambda>db.
       if rowcount (has_state Jb_running job_id) (jobs db) \<noteq> 1 then codex_error ''job_state_conflict''
       else bind_result (event job_id ''completed'' (Some item_type) (Some (py_len result_text)) None now
             (update_jobs (has_state Jb_running job_id)
               (completed_job (py_take (xc_max_result_chars cfg) result_text) now) db)) (\<lambda>db1.
         bind_result (reread_job False job_id db1) (\<lambda>document. Inr (document, db1))))"

definition conversation_thread :: "string \<Rightarrow> codex_db \<Rightarrow> string option" where
  "conversation_thread key db =
     (case select_one (\<lambda>c. cv_conversation_key c = key \<and> cv_state c = Cv_active) (conversations db) of
        None \<Rightarrow> None | Some c \<Rightarrow> cv_thread_id c)"

definition running_turn :: "codex_db \<Rightarrow> string \<Rightarrow> job option" where
  "running_turn db turn_id =
     select_one (\<lambda>j. jb_turn_id j = Some turn_id \<and> jb_state j = Jb_running) (jobs db)"

definition turn_attempt :: "string \<Rightarrow> codex_db \<Rightarrow> int option" where
  "turn_attempt turn_id db = map_option jb_attempt (running_turn db turn_id)"

text \<open>The column \<open>turn_id\<close> is UNIQUE.\<close>

definition assign_turn :: "string \<Rightarrow> string \<Rightarrow> int \<Rightarrow> codex_db \<Rightarrow> unit result \<times> codex_db" where
  "assign_turn job_id turn_id now =
     immediate (\<lambda>db.
       if turn_id = [] then codex_error ''turn_state_unknown''
       else if rowcount (has_state Jb_running job_id) (jobs db) = 1
               \<and> list_ex (\<lambda>j. jb_id j \<noteq> job_id \<and> jb_turn_id j = Some turn_id) (jobs db)
       then Inl IntegrityError
       else if rowcount (has_state Jb_running job_id) (jobs db) \<noteq> 1
       then codex_error ''job_state_conflict''
       else bind_result (event job_id ''turn_started'' None None None now
           (update_jobs (has_state Jb_running job_id) (\<lambda>j. j\<lparr>jb_turn_id := Some turn_id\<rparr>) db))
         (\<lambda>db1. Inr ((), db1)))"

section \<open>Observations\<close>

definition set_result_text ::
  "codex_config \<Rightarrow> string \<Rightarrow> string \<Rightarrow> string \<Rightarrow> int \<Rightarrow> codex_db \<Rightarrow> bool result \<times> codex_db" where
  "set_result_text cfg turn_id text item_type now =
     immediate (\<lambda>db.
       case running_turn db turn_id of
         None \<Rightarrow> Inr (False, db)
       | Some row \<Rightarrow>
           bind_result (event (jb_id row) ''item_completed'' (Some item_type) (Some (py_len text)) None now
             (update_jobs (\<lambda>j. jb_id j = jb_id row)
               (\<lambda>j. j\<lparr>jb_result_text := Some (py_take (xc_max_result_chars cfg) text),
                       jb_output_observed := True\<rparr>) db))
             (\<lambda>db1. Inr (True, db1)))"

definition ITEM_TYPE_RE :: "string \<Rightarrow> bool" where
  "ITEM_TYPE_RE s \<longleftrightarrow> list_all (\<lambda>c. is_alnum c \<or> c = CHR ''_'') s \<and> 1 \<le> length s \<and> length s \<le> 64"

definition ERROR_CODE_RE :: "string \<Rightarrow> bool" where
  "ERROR_CODE_RE s \<longleftrightarrow>
     list_all (\<lambda>c. is_lower c \<or> is_digit c \<or> c = CHR ''_'') s \<and> 1 \<le> length s \<and> length s \<le> 64"

definition safe_if :: "('b \<Rightarrow> bool) \<Rightarrow> 'b option \<Rightarrow> 'b option" where
  "safe_if ok v = (case v of Some x \<Rightarrow> if ok x then Some x else None | None \<Rightarrow> None)"

definition observe_turn_activity ::
  "string \<Rightarrow> bool \<Rightarrow> bool \<Rightarrow> bool \<Rightarrow> string option \<Rightarrow> int \<Rightarrow> codex_db \<Rightarrow> bool result \<times> codex_db" where
  "observe_turn_activity turn_id output tool_activity artifact item_type now =
     immediate (\<lambda>db.
       case running_turn db turn_id of
         None \<Rightarrow> Inr (False, db)
       | Some row \<Rightarrow>
           let next_output = jb_output_observed row \<or> output;
               next_tool = jb_tool_activity_observed row \<or> tool_activity;
               next_artifact = jb_artifact_observed row \<or> artifact;
               changed = next_output \<noteq> jb_output_observed row
                 \<or> next_tool \<noteq> jb_tool_activity_observed row
                 \<or> next_artifact \<noteq> jb_artifact_observed row;
               db1 = update_jobs (\<lambda>j. jb_id j = jb_id row)
                 (\<lambda>j. j\<lparr>jb_output_observed := next_output, jb_tool_activity_observed := next_tool,
                         jb_artifact_observed := next_artifact\<rparr>) db
           in if changed
              then bind_result (event (jb_id row) ''turn_activity_observed''
                     (safe_if ITEM_TYPE_RE item_type) None None now db1) (\<lambda>db2. Inr (True, db2))
              else Inr (True, db1))"

definition HTTP_STATUS :: "int \<Rightarrow> bool" where
  "HTTP_STATUS n \<longleftrightarrow> 100 \<le> n \<and> n \<le> 599"

definition observe_turn_error ::
  "string \<Rightarrow> string \<Rightarrow> string \<Rightarrow> int option \<Rightarrow> bool \<Rightarrow> bool \<Rightarrow> int \<Rightarrow> codex_db \<Rightarrow> bool result \<times> codex_db" where
  "observe_turn_error turn_id error_type error_code http_status retryable will_retry now =
     immediate (\<lambda>db.
       let safe_type = (if ERROR_CODE_RE error_type then error_type else ''unknown'');
           safe_code = (if ERROR_CODE_RE error_code then error_code else ''turn_failed'')
       in case running_turn db turn_id of
         None \<Rightarrow> Inr (False, db)
       | Some row \<Rightarrow>
           bind_result (event (jb_id row)
               (if will_retry then ''turn_error_retrying'' else ''turn_error_terminal'')
               (Some safe_type) None (Some safe_code) now
             (update_jobs (\<lambda>j. jb_id j = jb_id row)
               (\<lambda>j. j\<lparr>jb_error_type := Some safe_type, jb_error_code := Some safe_code,
                       jb_upstream_http_status := safe_if HTTP_STATUS http_status,
                       jb_retryable := retryable\<rparr>) db))
             (\<lambda>db1. Inr (True, db1)))"

text \<open>\<open>UPDATE jobs SET tool_activity_observed=1 ...\<close>, of \<open>record_tool_invocation\<close>.\<close>

definition mark_tool_activity :: "string \<Rightarrow> codex_db \<Rightarrow> codex_db" where
  "mark_tool_activity job_id db =
     update_jobs (has_state Jb_running job_id) (\<lambda>j. j\<lparr>jb_tool_activity_observed := True\<rparr>) db"

section \<open>Completion and retry\<close>

record turn_outcome =
  to_status :: string
  to_error_code :: "string option"
  to_error_type :: "string option"
  to_http_status :: "int option"
  to_retryable :: "bool option"
  to_retry_delay :: "int option"
  to_max_attempts :: int
  to_output_observed :: bool
  to_tool_activity_observed :: bool
  to_artifact_observed :: bool

definition turn_state :: "string \<Rightarrow> job_state" where
  "turn_state status =
     (if status = ''completed'' then Jb_completed
      else if status = ''interrupted'' then Jb_cancelled else Jb_failed)"

text \<open>\<open>value or default\<close> on a nullable text.\<close>

definition or_default :: "string option \<Rightarrow> string option \<Rightarrow> string option" where
  "or_default v d = (case v of Some s \<Rightarrow> if s = [] then d else Some s | None \<Rightarrow> d)"

definition first_of :: "'b option \<Rightarrow> 'b option \<Rightarrow> 'b option" where
  "first_of a b = (case a of Some x \<Rightarrow> Some x | None \<Rightarrow> b)"

definition outcome_type :: "turn_outcome \<Rightarrow> job \<Rightarrow> string option" where
  "outcome_type t row =
     first_of (safe_if ERROR_CODE_RE (to_error_type t)) (or_default (jb_error_type row) (Some ''unknown''))"

definition outcome_code :: "turn_outcome \<Rightarrow> job \<Rightarrow> string option" where
  "outcome_code t row =
     first_of (safe_if ERROR_CODE_RE (to_error_code t))
       (or_default (jb_error_code row)
         (if turn_state (to_status t) = Jb_failed then Some ''turn_failed'' else None))"

definition outcome_http_status :: "turn_outcome \<Rightarrow> job \<Rightarrow> int option" where
  "outcome_http_status t row =
     first_of (safe_if HTTP_STATUS (to_http_status t)) (jb_upstream_http_status row)"

definition outcome_retryable :: "turn_outcome \<Rightarrow> job \<Rightarrow> bool" where
  "outcome_retryable t row = (case to_retryable t of None \<Rightarrow> jb_retryable row | Some b \<Rightarrow> b)"

definition has_artifact :: "codex_db \<Rightarrow> string \<Rightarrow> bool" where
  "has_artifact db job_id = list_ex (\<lambda>a. ja_job_id a = job_id) (job_artifacts db)"

definition can_retry :: "turn_outcome \<Rightarrow> codex_db \<Rightarrow> job \<Rightarrow> bool" where
  "can_retry t db row \<longleftrightarrow>
     turn_state (to_status t) = Jb_failed \<and> to_retry_delay t \<noteq> None \<and> outcome_retryable t row \<and>
     jb_attempt row < max 1 (to_max_attempts t) \<and>
     \<not> (jb_output_observed row \<or> to_output_observed t) \<and>
     \<not> (jb_tool_activity_observed row \<or> to_tool_activity_observed t) \<and>
     \<not> (jb_artifact_observed row \<or> to_artifact_observed t) \<and>
     \<not> has_artifact db (jb_id row)"

text \<open>\<open>shanghai_after\<close>, with the delay in microseconds.\<close>

definition retry_time :: "int \<Rightarrow> int \<Rightarrow> int" where
  "retry_time now delay = now + max 0 delay"

definition requeued_job :: "turn_outcome \<Rightarrow> int \<Rightarrow> job \<Rightarrow> job" where
  "requeued_job t now j =
     j\<lparr>jb_state := Jb_queued, jb_turn_id := None, jb_started_at := None, jb_finished_at := None,
       jb_result_text := None, jb_result_summary := None,
       jb_error_code := outcome_code t j, jb_error_type := outcome_type t j,
       jb_upstream_http_status := outcome_http_status t j, jb_retryable := True,
       jb_output_observed := False, jb_tool_activity_observed := False,
       jb_artifact_observed := False,
       jb_retry_not_before := map_option (retry_time now) (to_retry_delay t)\<rparr>"

definition finished_job :: "turn_outcome \<Rightarrow> codex_db \<Rightarrow> int \<Rightarrow> job \<Rightarrow> job" where
  "finished_job t db now j =
     (let state = turn_state (to_status t); failed = state = Jb_failed
      in j\<lparr>jb_state := state,
           jb_error_code := (if failed then outcome_code t j else to_error_code t),
           jb_error_type := (if failed then outcome_type t j else None),
           jb_upstream_http_status := (if failed then outcome_http_status t j else None),
           jb_retryable := failed \<and> outcome_retryable t j,
           jb_output_observed := jb_output_observed j \<or> to_output_observed t,
           jb_tool_activity_observed := jb_tool_activity_observed j \<or> to_tool_activity_observed t,
           jb_artifact_observed :=
             jb_artifact_observed j \<or> to_artifact_observed t \<or> has_artifact db (jb_id j),
           jb_retry_not_before := None, jb_finished_at := Some now\<rparr>)"

definition state_text :: "job_state \<Rightarrow> string" where
  "state_text st =
     (case st of Jb_queued \<Rightarrow> ''queued'' | Jb_running \<Rightarrow> ''running'' | Jb_completed \<Rightarrow> ''completed''
      | Jb_failed \<Rightarrow> ''failed'' | Jb_cancelled \<Rightarrow> ''cancelled''
      | Jb_recovery_required \<Rightarrow> ''recovery_required'')"

definition complete_turn_body :: "string \<Rightarrow> turn_outcome \<Rightarrow> int \<Rightarrow> codex_db \<Rightarrow> (bool \<times> codex_db) result" where
  "complete_turn_body turn_id t now db =
     (case running_turn db turn_id of
        None \<Rightarrow> Inr (False, db)
      | Some row \<Rightarrow>
          if can_retry t db row
          then bind_result (event (jb_id row) ''requeued'' (outcome_type t row) None (outcome_code t row) now
              (update_jobs (\<lambda>j. jb_id j = jb_id row) (requeued_job t now) db))
            (\<lambda>db1. Inr (True, db1))
          else (let state = turn_state (to_status t)
            in bind_result (event (jb_id row) (state_text state)
                 (if state = Jb_failed then outcome_type t row else None) None
                 (if state = Jb_failed then outcome_code t row else to_error_code t) now
                 (update_jobs (\<lambda>j. jb_id j = jb_id row) (finished_job t db now) db))
               (\<lambda>db1. Inr (True, db1))))"

definition complete_turn :: "string \<Rightarrow> turn_outcome \<Rightarrow> int \<Rightarrow> codex_db \<Rightarrow> bool result \<times> codex_db" where
  "complete_turn turn_id t now db = immediate (complete_turn_body turn_id t now) db"

definition fail_claimed :: "string \<Rightarrow> string \<Rightarrow> bool \<Rightarrow> int \<Rightarrow> codex_db \<Rightarrow> unit result \<times> codex_db" where
  "fail_claimed job_id error_code uncertain now =
     immediate (\<lambda>db.
       let state = (if uncertain then Jb_recovery_required else Jb_failed)
       in bind_result (event job_id (state_text state) None None (Some error_code) now
            (update_jobs (has_state Jb_running job_id)
              (\<lambda>j. j\<lparr>jb_state := state, jb_error_code := Some error_code, jb_finished_at := Some now\<rparr>) db))
          (\<lambda>db1. Inr ((), db1)))"

definition overloaded_job :: "int \<Rightarrow> int \<Rightarrow> job \<Rightarrow> job" where
  "overloaded_job delay now j =
     j\<lparr>jb_state := Jb_queued, jb_turn_id := None, jb_started_at := None, jb_finished_at := None,
       jb_error_code := Some ''app_server_overloaded'', jb_error_type := Some ''server_overloaded'',
       jb_retryable := True, jb_retry_not_before := Some (retry_time now delay)\<rparr>"

definition retry_overloaded :: "string \<Rightarrow> int \<Rightarrow> int \<Rightarrow> int \<Rightarrow> codex_db \<Rightarrow> bool result \<times> codex_db" where
  "retry_overloaded job_id max_attempts delay now =
     immediate (\<lambda>db.
       case select_one (has_state Jb_running job_id) (jobs db) of
         None \<Rightarrow> Inr (False, db)
       | Some row \<Rightarrow>
           if jb_attempt row \<ge> max_attempts then Inr (False, db)
           else bind_result (event job_id ''requeued'' (Some ''server_overloaded'') None
               (Some ''app_server_overloaded'') now
               (update_jobs (\<lambda>j. jb_id j = job_id) (overloaded_job delay now) db))
             (\<lambda>db1. Inr (True, db1)))"

section \<open>Recovery and cancellation\<close>

definition lost_job :: "int \<Rightarrow> job \<Rightarrow> job" where
  "lost_job now j =
     j\<lparr>jb_state := Jb_recovery_required, jb_error_code := Some ''turn_state_unknown'',
       jb_finished_at := Some now\<rparr>"

fun recover_jobs :: "string list \<Rightarrow> int \<Rightarrow> codex_db \<Rightarrow> codex_db result" where
  "recover_jobs [] now db = Inr db"
| "recover_jobs (i # is) now db =
     bind_result (event i ''recovery_required'' None None (Some ''turn_state_unknown'') now
         (update_jobs (\<lambda>j. jb_id j = i) (lost_job now) db))
       (recover_jobs is now)"

definition recover_running :: "int \<Rightarrow> codex_db \<Rightarrow> nat result \<times> codex_db" where
  "recover_running now =
     immediate (\<lambda>db.
       let ids = map jb_id (filter (\<lambda>j. jb_state j = Jb_running) (jobs db))
       in bind_result (recover_jobs ids now db) (\<lambda>db1. Inr (length ids, db1)))"

definition recovery_target :: "string \<Rightarrow> (job_state \<times> string option) option" where
  "recovery_target resolution =
     map_of [(''confirmed_completed'', (Jb_completed, None)),
             (''confirmed_failed'', (Jb_failed, Some ''recovery_review_failed'')),
             (''cancelled'', (Jb_cancelled, Some ''recovery_review_cancelled''))] resolution"

definition resolve_recovery_job ::
  "string \<Rightarrow> string \<Rightarrow> int \<Rightarrow> codex_db \<Rightarrow> job_view result \<times> codex_db" where
  "resolve_recovery_job job_id resolution now =
     immediate (\<lambda>db.
       case recovery_target resolution of
         None \<Rightarrow> codex_error ''invalid_recovery_resolution''
       | Some (state, error_code) \<Rightarrow>
           (case find_job db job_id of
              None \<Rightarrow> codex_error ''job_not_found''
            | Some row \<Rightarrow>
                if jb_state row \<noteq> Jb_recovery_required then codex_error ''job_state_conflict''
                else bind_result (event job_id ''recovery_resolved'' (Some resolution) None error_code now
                    (update_jobs (has_state Jb_recovery_required job_id)
                      (\<lambda>j. j\<lparr>jb_state := state, jb_error_code := error_code,
                              jb_finished_at := Some now\<rparr>) db)) (\<lambda>db1.
                  bind_result (reread_job False job_id db1) (\<lambda>document. Inr (document, db1)))))"

definition cancel_queued :: "string \<Rightarrow> int \<Rightarrow> codex_db \<Rightarrow> bool result \<times> codex_db" where
  "cancel_queued job_id now =
     immediate (\<lambda>db.
       if rowcount (has_state Jb_queued job_id) (jobs db) = 0 then Inr (False, db)
       else bind_result (event job_id ''cancelled'' None None None now
           (update_jobs (has_state Jb_queued job_id)
             (\<lambda>j. j\<lparr>jb_state := Jb_cancelled, jb_finished_at := Some now\<rparr>) db))
         (\<lambda>db1. Inr (True, db1)))"

end
