(* ===== verification/Codex_Artifacts.thy ===== *)
theory Codex_Artifacts
  imports Codex_Jobs Calendar
begin

text \<open>
  \<open>store.py\<close>: the artifacts of a job, PNG charts kept in a private directory and downloaded with a
  token.  The directory is the list of its regular files, names with contents; the temporary file of
  an upload, which every path removes, is left out.  Parameters (record \<open>artifact_env\<close>): HMAC-SHA-256
  and the Unicode decimal digits outside ASCII behind the regex class \<open>\d\<close>.  The row of
  \<open>controller_meta\<close> with the secret of the display ids, written once, is an argument.
\<close>

section \<open>Names and tokens\<close>

record artifact_env = codex_env +
  hmac_sha256 :: "string \<Rightarrow> string \<Rightarrow> string"
  uni_decimal :: "string \<Rightarrow> bool"

type_synonym disk = "(string \<times> string) list"

definition PNG_MAGIC :: string where
  "PNG_MAGIC =
    [CHR 0x89, CHR 0x50, CHR 0x4E, CHR 0x47, CHR 0x0D, CHR 0x0A, CHR 0x1A, CHR 0x0A]"

definition is_base32 :: "char \<Rightarrow> bool" where
  "is_base32 c \<longleftrightarrow> is_upper c \<or> 50 \<le> byte c \<and> byte c \<le> 55"

definition ARTIFACT_ID_RE :: "string \<Rightarrow> bool" where
  "ARTIFACT_ID_RE = matches (lit ''AR-'' @ replicate 26 is_base32)"

definition DOWNLOAD_TOKEN_RE :: "string \<Rightarrow> bool" where
  "DOWNLOAD_TOKEN_RE = matches (replicate 43 (\<lambda>c. is_alnum c \<or> c \<in> set ''_-''))"

definition HEX64_RE :: "string \<Rightarrow> bool" where
  "HEX64_RE = matches (replicate 64 is_hex_lower)"

text \<open>The bits of a byte string, most significant first, and the numbers its groups of bits denote.\<close>

definition bits_of :: "string \<Rightarrow> bool list" where
  "bits_of s = concat (map (\<lambda>c. map (\<lambda>k. byte c div 2 ^ k mod 2 = 1) (rev [0..<8])) s)"

definition number_of_bits :: "nat \<Rightarrow> bool list \<Rightarrow> nat" where
  "number_of_bits w bs = foldl (\<lambda>n b. 2 * n + of_bool b) 0 (take w (bs @ replicate w False))"

function bit_groups :: "nat \<Rightarrow> bool list \<Rightarrow> nat list" where
  "bit_groups w bs =
     (if bs = [] \<or> w = 0 then [] else number_of_bits w bs # bit_groups w (drop w bs))"
  by pat_completeness auto
termination
  by (relation "measure (\<lambda>(w, bs). length bs)") (auto simp: length_greater_0_conv)

declare bit_groups.simps [simp del]

text \<open>\<open>base64.b32encode(...)\<close> and \<open>base64.urlsafe_b64encode(...)\<close>, without the padding.\<close>

definition b32_char :: "nat \<Rightarrow> char" where
  "b32_char n = (if n < 26 then char_of (65 + n) else char_of (24 + n))"

definition b64url_char :: "nat \<Rightarrow> char" where
  "b64url_char n =
     (if n < 26 then char_of (65 + n) else if n < 52 then char_of (71 + n)
      else if n < 62 then char_of (n - 4) else if n = 62 then CHR ''-'' else CHR ''_'')"

definition b32 :: "string \<Rightarrow> string" where
  "b32 s = map b32_char (bit_groups 5 (bits_of s))"

definition b64url :: "string \<Rightarrow> string" where
  "b64url s = map b64url_char (bit_groups 6 (bits_of s))"

text \<open>\<open>_new_artifact_id\<close>, of 16 random bytes, and \<open>short_id\<close> and \<open>_download_token\<close>, of the secret.\<close>

definition new_artifact_id :: "string \<Rightarrow> string" where
  "new_artifact_id random = ''AR-'' @ b32 random"

definition short_id :: "'a artifact_env_scheme \<Rightarrow> string option \<Rightarrow> string \<Rightarrow> string option \<Rightarrow> string option result" where
  "short_id env secret prefix value =
     (case or_default value None of
        None \<Rightarrow> Inr None
      | Some v \<Rightarrow>
          if \<not> (length prefix = 2 \<and> list_all is_upper prefix) then Inl ValueError
          else (case secret of
              None \<Rightarrow> codex_error ''display_secret_invalid''
            | Some key \<Rightarrow>
                if length key \<noteq> 32 then codex_error ''display_secret_invalid''
                else Inr (Some (prefix @ ''-'' @
                  take 10 (b32 (hmac_sha256 env key (prefix @ [CHR 0x0A] @ v)))))))"

definition download_token ::
  "'a artifact_env_scheme \<Rightarrow> string option \<Rightarrow> string \<Rightarrow> int \<Rightarrow> string result" where
  "download_token env secret artifact_id expires_at =
     (case secret of
        None \<Rightarrow> codex_error ''display_secret_invalid''
      | Some key \<Rightarrow>
          if length key \<noteq> 32 then codex_error ''display_secret_invalid''
          else Inr (b64url (hmac_sha256 env key
            (''artifact-download'' @ [CHR 0x0A] @ artifact_id @ [CHR 0x0A] @ isoformat expires_at))))"

definition token_hash :: "'a artifact_env_scheme \<Rightarrow> string \<Rightarrow> string" where
  "token_hash env token = sha256_hex env token"

section \<open>Validation of a chart\<close>

record chart =
  ch_size_bytes :: int
  ch_width :: int
  ch_height :: int
  ch_summary :: json
  ch_result_summary :: string

definition is_decimal :: "'a artifact_env_scheme \<Rightarrow> string \<Rightarrow> bool" where
  "is_decimal env u = (case u of [c] \<Rightarrow> is_digit c | _ \<Rightarrow> uni_decimal env u)"

text \<open>\<open>-?\d{1,12}\.\d{2}\<close>\<close>

definition AMOUNT_RE :: "'a artifact_env_scheme \<Rightarrow> string \<Rightarrow> bool" where
  "AMOUNT_RE env s =
     (let us = uchars s;
          vs = (case us of u # rest \<Rightarrow> if u = ''-'' then rest else us | [] \<Rightarrow> us);
          whole = takeWhile (\<lambda>u. is_decimal env u \<and> u \<noteq> ''.'') vs;
          rest = drop (length whole) vs
      in 1 \<le> length whole \<and> length whole \<le> 12 \<and> length rest = 3 \<and> hd rest = ''.'' \<and>
         list_all (is_decimal env) (tl rest))"

text \<open>The texts of the answer of \<open>_chart_result_summary\<close>, in UTF-8.\<close>

definition chart_text_start :: string where
  "chart_text_start =
    [CHR 0xE5, CHR 0xB7, CHR 0xB2, CHR 0xE7, CHR 0x94, CHR 0x9F, CHR 0xE6, CHR 0x88, CHR 0x90,
     CHR 0xE8, CHR 0xA3, CHR 0x85, CHR 0xE4, CHR 0xBF, CHR 0xAE, CHR 0xE8, CHR 0xB4, CHR 0xA6,
     CHR 0xE5, CHR 0x8D, CHR 0x95, CHR 0xE7, CHR 0xBB, CHR 0x9F, CHR 0xE8, CHR 0xAE, CHR 0xA1,
     CHR 0xE5, CHR 0x9B, CHR 0xBE, CHR 0xEF, CHR 0xBC, CHR 0x9A, CHR 0xE5, CHR 0x85, CHR 0xB1,
     CHR 0x20]"

definition chart_text_mid :: string where
  "chart_text_mid =
    [CHR 0x20, CHR 0xE7, CHR 0xAC, CHR 0x94, CHR 0xE8, CHR 0xAE, CHR 0xB0, CHR 0xE5, CHR 0xBD,
     CHR 0x95, CHR 0xEF, CHR 0xBC, CHR 0x8C, CHR 0xE5, CHR 0x87, CHR 0x80, CHR 0xE6, CHR 0x94,
     CHR 0xAF, CHR 0xE5, CHR 0x87, CHR 0xBA, CHR 0x20, CHR 0xC2, CHR 0xA5]"

definition chart_text_end :: string where
  "chart_text_end =
    [CHR 0xE3, CHR 0x80, CHR 0x82]"

definition chart_result_summary :: "'a artifact_env_scheme \<Rightarrow> doc \<Rightarrow> string result" where
  "chart_result_summary env summary =
     (case (get_field summary ''transaction_count'', get_field summary ''net_amount'') of
        (JInt n, JStr amount) \<Rightarrow>
          if 0 \<le> n \<and> n \<le> 1000 \<and> AMOUNT_RE env amount
          then Inr (chart_text_start @ show_int n @ chart_text_mid @ amount @ chart_text_end)
          else codex_error ''artifact_summary_invalid''
      | _ \<Rightarrow> codex_error ''artifact_summary_invalid'')"

text \<open>\<open>isinstance(v, int)\<close>, with the value; \<open>text.removeprefix(p)\<close>.\<close>

fun int_value :: "json \<Rightarrow> int option" where
  "int_value (JInt n) = Some n"
| "int_value (JBool b) = Some (of_bool b)"
| "int_value _ = None"

definition remove_prefix :: "string \<Rightarrow> string \<Rightarrow> string" where
  "remove_prefix p s = (if is_prefix p s then drop (length p) s else s)"

definition CHART_REF_RE :: "string \<Rightarrow> bool" where
  "CHART_REF_RE = matches (lit ''summary-'' @ replicate 32 is_hex_lower @ lit ''.png'')"

definition dimension_ok :: "json \<Rightarrow> bool" where
  "dimension_ok v = (case v of JInt n \<Rightarrow> 1 \<le> n \<and> n \<le> 8192 | _ \<Rightarrow> False)"

definition validate_chart ::
  "'a artifact_env_scheme \<Rightarrow> codex_config \<Rightarrow> json \<Rightarrow> string \<Rightarrow> chart result" where
  "validate_chart env cfg chart content =
     (case chart of
        JObj p \<Rightarrow>
          if \<not> str_matches CHART_REF_RE (get_field p ''download_ref'')
          then codex_error ''artifact_reference_invalid''
          else if \<not> is_prefix PNG_MAGIC content then codex_error ''artifact_content_invalid''
          else if int_value (get_field p ''size_bytes'') \<noteq> Some (int (length content))
                  \<or> \<not> (1 \<le> length content \<and> int (length content) \<le> xc_max_artifact_bytes cfg)
          then codex_error ''artifact_size_invalid''
          else if \<not> str_matches (\<lambda>s. HEX64_RE (remove_prefix ''sha256:'' s)
                      \<and> remove_prefix ''sha256:'' s = sha256_hex env content) (get_field p ''sha256'')
          then codex_error ''artifact_digest_invalid''
          else if \<not> dimension_ok (get_field p ''width'') \<or> \<not> dimension_ok (get_field p ''height'')
          then codex_error ''artifact_dimensions_invalid''
          else (case get_field p ''summary'' of
              JObj summary \<Rightarrow>
                if int (length (canonical_json_of (float_repr env) (JObj summary))) > 1024 * 1024
                then codex_error ''artifact_summary_invalid''
                else bind_result (chart_result_summary env summary) (\<lambda>text.
                  Inr \<lparr>ch_size_bytes = int (length content),
                       ch_width = int_of_json (get_field p ''width''),
                       ch_height = int_of_json (get_field p ''height''),
                       ch_summary = JObj summary, ch_result_summary = text\<rparr>)
            | _ \<Rightarrow> codex_error ''artifact_summary_invalid'')
      | _ \<Rightarrow> codex_error ''artifact_metadata_invalid'')"

section \<open>Cleanup\<close>

text \<open>
  \<open>cleanup_artifacts\<close>: a transaction that deletes the expired rows with their files and reads the
  names still tracked, and after it the removal of every file of the directory not among them.
\<close>

definition remove_file :: "string \<Rightarrow> disk \<Rightarrow> disk" where
  "remove_file name d = filter (\<lambda>(n, _). n \<noteq> name) d"

definition expired_artifacts :: "int \<Rightarrow> codex_db \<Rightarrow> job_artifact list" where
  "expired_artifacts now db = filter (\<lambda>a. ja_expires_at a \<le> now) (job_artifacts db)"

definition cleanup_records :: "int \<Rightarrow> codex_db \<times> disk \<Rightarrow> (nat \<times> string list) \<times> codex_db \<times> disk" where
  "cleanup_records now s =
     (let (db, d) = s;
          names = map ja_storage_name (expired_artifacts now db);
          kept = filter (\<lambda>a. \<not> ja_expires_at a \<le> now) (job_artifacts db);
          d1 = fold remove_file names d
      in ((length d - length d1, map ja_storage_name kept), db\<lparr>job_artifacts := kept\<rparr>, d1))"

definition cleanup_files :: "string list \<Rightarrow> disk \<Rightarrow> nat \<times> disk" where
  "cleanup_files tracked d =
     (let kept = filter (\<lambda>(n, _). n \<in> set tracked) d in (length d - length kept, kept))"

definition cleanup_artifacts :: "int \<Rightarrow> codex_db \<times> disk \<Rightarrow> nat \<times> codex_db \<times> disk" where
  "cleanup_artifacts now s =
     (let ((removed, tracked), db, d) = cleanup_records now s;
          (more, d') = cleanup_files tracked d
      in (removed + more, db, d'))"

section \<open>Capture\<close>

record artifact_view =
  av_artifact_id :: string
  av_size_bytes :: int
  av_sha256 :: string
  av_width :: int
  av_height :: int
  av_token :: string

definition artifact_public_document ::
  "'a artifact_env_scheme \<Rightarrow> string option \<Rightarrow> job_artifact \<Rightarrow> artifact_view result" where
  "artifact_public_document env secret a =
     bind_result (download_token env secret (ja_artifact_id a) (ja_expires_at a)) (\<lambda>token.
     if \<not> HEX64_RE (ja_download_token_hash a) \<or> token_hash env token \<noteq> ja_download_token_hash a
     then codex_error ''artifact_token_invalid''
     else Inr \<lparr>av_artifact_id = ja_artifact_id a, av_size_bytes = ja_size_bytes a,
               av_sha256 = ''sha256:'' @ ja_sha256 a, av_width = ja_width a, av_height = ja_height a,
               av_token = token\<rparr>)"

definition observe_artifact :: "string \<Rightarrow> string \<Rightarrow> codex_db \<Rightarrow> codex_db" where
  "observe_artifact job_id summary db =
     update_jobs (\<lambda>j. jb_id j = job_id)
       (\<lambda>j. j\<lparr>jb_result_summary := Some summary, jb_artifact_observed := True\<rparr>) db"

definition job_artifacts_of :: "codex_db \<Rightarrow> string \<Rightarrow> job_artifact list" where
  "job_artifacts_of db job_id = filter (\<lambda>a. ja_job_id a = job_id) (job_artifacts db)"

definition used_bytes :: "int \<Rightarrow> codex_db \<Rightarrow> int" where
  "used_bytes now db =
     sum_list (map ja_size_bytes (filter (\<lambda>a. now < ja_expires_at a) (job_artifacts db)))"

definition insert_artifact :: "job_artifact \<Rightarrow> codex_db \<Rightarrow> codex_db result" where
  "insert_artifact a db =
     (if ja_artifact_id a \<in> set (map ja_artifact_id (job_artifacts db))
         \<or> ja_storage_name a \<in> set (map ja_storage_name (job_artifacts db))
         \<or> ja_download_token_hash a \<in> set (map ja_download_token_hash (job_artifacts db))
         \<or> (ja_job_id a, ja_sha256 a) \<in> set (map (\<lambda>b. (ja_job_id b, ja_sha256 b)) (job_artifacts db))
         \<or> find_job db (ja_job_id a) = None
      then Inl IntegrityError
      else Inr (db\<lparr>job_artifacts := insert_row a (job_artifacts db)\<rparr>))"

definition new_artifact ::
  "'a artifact_env_scheme \<Rightarrow> codex_config \<Rightarrow> string \<Rightarrow> chart \<Rightarrow> string \<Rightarrow> string \<Rightarrow> string \<Rightarrow> string \<Rightarrow> int \<Rightarrow> job_artifact" where
  "new_artifact env cfg job_id ch digest random name token now =
     \<lparr>ja_artifact_id = new_artifact_id random, ja_job_id = job_id, ja_storage_name = name,
      ja_size_bytes = ch_size_bytes ch, ja_sha256 = digest, ja_width = ch_width ch,
      ja_height = ch_height ch, ja_summary = ch_summary ch,
      ja_download_token_hash = token_hash env token,
      ja_expires_at = now + seconds (xc_artifact_ttl_seconds cfg), ja_artifact_created_at = now\<rparr>"

text \<open>
  The transaction of a capture.  A new artifact moves the temporary file to its name before the row
  is inserted; when anything raises after that, the file is removed again.
\<close>

definition bind_artifact ::
  "'a artifact_env_scheme \<Rightarrow> codex_config \<Rightarrow> string option \<Rightarrow> string \<Rightarrow> chart \<Rightarrow> string \<Rightarrow> job_artifact \<Rightarrow>
   int \<Rightarrow> codex_db \<times> disk \<Rightarrow> artifact_view result \<times> codex_db \<times> disk" where
  "bind_artifact env cfg secret job_id ch content a now s =
     (let (db, d) = s
      in case find_job db job_id of
           None \<Rightarrow> (codex_error ''artifact_context_invalid'', s)
         | Some j \<Rightarrow>
             if jb_state j \<noteq> Jb_running then (codex_error ''artifact_context_invalid'', s)
             else (case select_one (\<lambda>b. ja_job_id b = job_id \<and> ja_sha256 b = ja_sha256 a) (job_artifacts db) of
                 Some existing \<Rightarrow>
                   (case artifact_public_document env secret existing of
                      Inl e \<Rightarrow> (Inl e, s)
                    | Inr v \<Rightarrow> (Inr v, observe_artifact job_id (ch_result_summary ch) db, d))
               | None \<Rightarrow>
                   if int (length (job_artifacts_of db job_id)) \<ge> xc_max_artifacts_per_job cfg
                   then (codex_error ''artifact_job_limit'', s)
                   else if used_bytes now db + ch_size_bytes ch > xc_artifact_quota_bytes cfg
                   then (codex_error ''artifact_quota_exceeded'', s)
                   else (let d1 = (ja_storage_name a, content) # remove_file (ja_storage_name a) d
                     in case bind_result (insert_artifact a db) (\<lambda>db1.
                            bind_result (event job_id ''artifact_captured'' (Some ''image'')
                              (Some (nat (ch_size_bytes ch))) None now
                              (observe_artifact job_id (ch_result_summary ch) db1)) (\<lambda>db2.
                            bind_result (artifact_public_document env secret a) (\<lambda>v.
                            Inr (v, db2)))) of
                          Inl e \<Rightarrow> (Inl e, db, remove_file (ja_storage_name a) d1)
                        | Inr (v, db2) \<Rightarrow> (Inr v, db2, d1))))"

definition capture_chart_artifact ::
  "'a artifact_env_scheme \<Rightarrow> codex_config \<Rightarrow> string option \<Rightarrow> string \<Rightarrow> json \<Rightarrow> string \<Rightarrow> string \<Rightarrow> string \<Rightarrow> int \<Rightarrow>
   codex_db \<times> disk \<Rightarrow> artifact_view result \<times> codex_db \<times> disk" where
  "capture_chart_artifact env cfg secret job_id chart content random name now s =
     (if job_id = [] then (codex_error ''artifact_context_invalid'', s)
      else case validate_chart env cfg chart content of
          Inl e \<Rightarrow> (Inl e, s)
        | Inr ch \<Rightarrow>
            (let (_, s1) = cleanup_artifacts now s
             in case download_token env secret (new_artifact_id random)
                    (now + seconds (xc_artifact_ttl_seconds cfg)) of
                  Inl e \<Rightarrow> (Inl e, s1)
                | Inr token \<Rightarrow>
                    bind_artifact env cfg secret job_id ch content
                      (new_artifact env cfg job_id ch (sha256_hex env content) random (name @ ''.png'')
                        token now) now s1))"

section \<open>Reading\<close>

definition read_artifact_row ::
  "'a artifact_env_scheme \<Rightarrow> string option \<Rightarrow> disk \<Rightarrow> job_artifact \<Rightarrow> (artifact_view \<times> string) result" where
  "read_artifact_row env secret d a =
     (case map_of d (ja_storage_name a) of
        None \<Rightarrow> codex_error ''artifact_not_found''
      | Some content \<Rightarrow>
          if \<not> is_prefix PNG_MAGIC content \<or> int (length content) \<noteq> ja_size_bytes a
             \<or> sha256_hex env content \<noteq> ja_sha256 a
          then codex_error ''artifact_content_invalid''
          else bind_result (artifact_public_document env secret a) (\<lambda>v. Inr (v, content)))"

definition JOB_ID_RE :: "string \<Rightarrow> bool" where
  "JOB_ID_RE = matches (replicate 36 (\<lambda>c. is_hex_lower c \<or> c = CHR ''-''))"

definition read_job_artifact ::
  "'a artifact_env_scheme \<Rightarrow> string option \<Rightarrow> string \<Rightarrow> string \<Rightarrow> int \<Rightarrow> codex_db \<times> disk \<Rightarrow>
   (artifact_view \<times> string) result" where
  "read_job_artifact env secret job_id artifact_id now s =
     (if \<not> JOB_ID_RE job_id \<or> \<not> ARTIFACT_ID_RE artifact_id then codex_error ''artifact_not_found''
      else case select_one (\<lambda>a. ja_job_id a = job_id \<and> ja_artifact_id a = artifact_id
                  \<and> now < ja_expires_at a) (job_artifacts (fst s)) of
          None \<Rightarrow> codex_error ''artifact_not_found''
        | Some a \<Rightarrow> read_artifact_row env secret (snd s) a)"

definition read_download_artifact ::
  "'a artifact_env_scheme \<Rightarrow> string option \<Rightarrow> string \<Rightarrow> int \<Rightarrow> codex_db \<times> disk \<Rightarrow>
   (artifact_view \<times> string) result" where
  "read_download_artifact env secret token now s =
     (if \<not> DOWNLOAD_TOKEN_RE token then codex_error ''artifact_not_found''
      else case select_one (\<lambda>a. ja_download_token_hash a = token_hash env token
                  \<and> now < ja_expires_at a) (job_artifacts (fst s)) of
          None \<Rightarrow> codex_error ''artifact_not_found''
        | Some a \<Rightarrow> read_artifact_row env secret (snd s) a)"

definition public_artifacts ::
  "'a artifact_env_scheme \<Rightarrow> string option \<Rightarrow> string \<Rightarrow> int \<Rightarrow> codex_db \<Rightarrow> artifact_view list result" where
  "public_artifacts env secret job_id now db =
     map_result (artifact_public_document env secret)
       (sort_key (\<lambda>a. (ja_artifact_created_at a, ja_artifact_id a))
         (filter (\<lambda>a. ja_job_id a = job_id \<and> now < ja_expires_at a) (job_artifacts db)))"

section \<open>Public documents and status\<close>

record public_job =
  pj_job_id :: string
  pj_job_short :: "string option"
  pj_conversation_short :: "string option"
  pj_thread_short :: "string option"
  pj_turn_short :: "string option"
  pj_state :: job_state
  pj_queue_position :: "nat option"
  pj_result :: "string option"
  pj_result_summary :: "string option"
  pj_artifacts :: "artifact_view list"
  pj_error_code :: "string option"
  pj_attempt :: int
  pj_created_at :: int
  pj_started_at :: "int option"
  pj_finished_at :: "int option"

definition public_job_document ::
  "'a artifact_env_scheme \<Rightarrow> string option \<Rightarrow> int \<Rightarrow> codex_db \<Rightarrow> job_view \<Rightarrow> public_job result" where
  "public_job_document env secret now db v =
     (let completed = jv_state v = Jb_completed
      in bind_result (short_id env secret ''JB'' (Some (jv_job_id v))) (\<lambda>job_short.
         bind_result (short_id env secret ''CV'' (Some (jv_conversation_key v))) (\<lambda>conversation_short.
         bind_result (short_id env secret ''TH'' (jv_thread_id v)) (\<lambda>thread_short.
         bind_result (short_id env secret ''TN'' (jv_turn_id v)) (\<lambda>turn_short.
         bind_result (if completed then public_artifacts env secret (jv_job_id v) now db else Inr [])
           (\<lambda>artifacts.
         Inr \<lparr>pj_job_id = jv_job_id v, pj_job_short = job_short,
              pj_conversation_short = conversation_short, pj_thread_short = thread_short,
              pj_turn_short = turn_short, pj_state = jv_state v,
              pj_queue_position = jv_queue_position v, pj_result = jv_result v,
              pj_result_summary = (if completed then jv_result_summary v else None),
              pj_artifacts = artifacts, pj_error_code = jv_error_code v, pj_attempt = jv_attempt v,
              pj_created_at = jv_created_at v, pj_started_at = jv_started_at v,
              pj_finished_at = jv_finished_at v\<rparr>))))))"

definition get_public_job ::
  "'a artifact_env_scheme \<Rightarrow> string option \<Rightarrow> string \<Rightarrow> int \<Rightarrow> codex_db \<Rightarrow> public_job result" where
  "get_public_job env secret job_id now db =
     bind_result (get_job job_id db) (public_job_document env secret now db)"

record active_job =
  aj_job_short :: "string option"
  aj_conversation_short :: "string option"
  aj_thread_short :: "string option"
  aj_turn_short :: "string option"
  aj_started_at :: "int option"

definition codex_status ::
  "'a artifact_env_scheme \<Rightarrow> string option \<Rightarrow> codex_db \<Rightarrow>
   ((job_state \<times> nat) list \<times> nat \<times> active_job option) result" where
  "codex_status env secret db =
     bind_result
       (case select_one (\<lambda>j. jb_state j = Jb_running) (jobs db) of
          None \<Rightarrow> Inr None
        | Some j \<Rightarrow>
            bind_result (short_id env secret ''JB'' (Some (jb_id j))) (\<lambda>job_short.
            bind_result (short_id env secret ''CV'' (Some (jb_conversation_key j))) (\<lambda>conversation_short.
            bind_result (short_id env secret ''TH'' (jb_thread_id j)) (\<lambda>thread_short.
            bind_result (short_id env secret ''TN'' (jb_turn_id j)) (\<lambda>turn_short.
            Inr (Some \<lparr>aj_job_short = job_short, aj_conversation_short = conversation_short,
                      aj_thread_short = thread_short, aj_turn_short = turn_short,
                      aj_started_at = jb_started_at j\<rparr>))))))
       (\<lambda>active.
        Inr (map (\<lambda>st. (st, rowcount (\<lambda>j. jb_state j = st) (jobs db)))
               [Jb_queued, Jb_running, Jb_recovery_required, Jb_completed, Jb_failed, Jb_cancelled],
             rowcount (\<lambda>c. cv_thread_id c \<noteq> None) (conversations db), active))"

end
