(* ===== verification/Codex_System.thy ===== *)
theory Codex_System
  imports Codex_Artifacts
begin

text \<open>
  The job store as a transition system: any operation by anyone at any time, with any payload.  An
  abstract queue (\<open>queue_change\<close>) says what the operations may do to the table of jobs; every
  operation is shown to refine it, and the invariants and the history of the jobs follow from it.
\<close>

section \<open>The abstract queue\<close>

text \<open>The life cycle of a job, apart from its dispatch.\<close>

definition job_life :: "(job_state \<times> job_state) set" where
  "job_life =
     {(Jb_queued, Jb_cancelled), (Jb_running, Jb_queued), (Jb_running, Jb_completed),
      (Jb_running, Jb_failed), (Jb_running, Jb_cancelled), (Jb_running, Jb_recovery_required),
      (Jb_recovery_required, Jb_completed), (Jb_recovery_required, Jb_failed),
      (Jb_recovery_required, Jb_cancelled)}"

definition HELD_STATES :: "job_state set" where
  "HELD_STATES = {Jb_running, Jb_recovery_required}"

definition same_job :: "job \<Rightarrow> job \<Rightarrow> bool" where
  "same_job j k \<longleftrightarrow>
     jb_id k = jb_id j \<and> jb_message_id k = jb_message_id j \<and>
     jb_conversation_key k = jb_conversation_key j \<and> jb_input_digest k = jb_input_digest j \<and>
     jb_input k = jb_input j \<and> jb_capability_profile k = jb_capability_profile j \<and>
     jb_created_at k = jb_created_at j"

definition MAX_ATTEMPTS :: int where
  "MAX_ATTEMPTS = 3"

text \<open>Something of the turn has been seen: output, an activity of a tool, or an artifact.\<close>

definition job_observed :: "job \<Rightarrow> bool" where
  "job_observed j \<longleftrightarrow>
     jb_output_observed j \<or> jb_tool_activity_observed j \<or> jb_artifact_observed j"

text \<open>What an operation other than a dispatch may do to the row of a job.\<close>

definition job_update :: "job \<Rightarrow> job \<Rightarrow> bool" where
  "job_update j k \<longleftrightarrow>
     same_job j k \<and> jb_attempt k = jb_attempt j \<and> jb_state j \<notin> FINAL_STATES \<and>
     (jb_state k = jb_state j \<or> (jb_state j, jb_state k) \<in> job_life) \<and>
     (jb_state j = Jb_running \<and> jb_state k = Jb_queued \<longrightarrow>
        jb_attempt j < MAX_ATTEMPTS \<and>
        (job_observed j \<longrightarrow> jb_error_code k = Some ''app_server_overloaded'')) \<and>
     (jb_state j = Jb_running \<and> jb_state k = Jb_running \<and> job_observed j \<longrightarrow> job_observed k)"

definition unique_turns :: "codex_db \<Rightarrow> bool" where
  "unique_turns db \<longleftrightarrow>
     (\<forall>j \<in> set (jobs db). \<forall>k \<in> set (jobs db).
        jb_turn_id j \<noteq> None \<and> jb_turn_id k = jb_turn_id j \<longrightarrow> jb_id k = jb_id j)"

definition keeps_turn :: "job \<Rightarrow> job \<Rightarrow> bool" where
  "keeps_turn j k \<longleftrightarrow> jb_turn_id k = jb_turn_id j \<or> jb_turn_id k = None"

definition claimable_job :: "int \<Rightarrow> codex_db \<Rightarrow> job \<Rightarrow> bool" where
  "claimable_job now db row \<longleftrightarrow>
     (\<forall>j \<in> set (jobs db). jb_state j \<notin> HELD_STATES) \<and>
     first_min job_order (queued_jobs db) = Some row \<and>
     (\<forall>t. jb_retry_not_before row = Some t \<longrightarrow> t \<le> now)"

inductive queue_change :: "codex_config \<Rightarrow> codex_db \<Rightarrow> codex_db \<Rightarrow> bool" for cfg where
  unchanged: "jobs db' = jobs db \<Longrightarrow> queue_change cfg db db'"
| enqueued: "jobs db' = insert_row (new_job i digest input now) (jobs db) \<Longrightarrow>
    i \<notin> set (map jb_id (jobs db)) \<Longrightarrow>
    ji_message_id input \<notin> set (map jb_message_id (jobs db)) \<Longrightarrow>
    int (active_count db) < xc_max_queue cfg \<Longrightarrow> queue_change cfg db db'"
| dequeued: "jobs db' = update_where (has_state Jb_queued (jb_id row)) (claimed_job now) (jobs db) \<Longrightarrow>
    claimable_job now db row \<Longrightarrow> queue_change cfg db db'"
| changed: "jobs db' = update_where p f (jobs db) \<Longrightarrow>
    (\<And>j. j \<in> set (jobs db) \<Longrightarrow> p j \<Longrightarrow> job_update j (f j)) \<Longrightarrow>
    (unique_turns db \<Longrightarrow> unique_turns db') \<Longrightarrow> queue_change cfg db db'"

lemma changed_turns:
  assumes "jobs db' = update_where p f (jobs db)" and "unique_turns db"
    and "\<And>j. j \<in> set (jobs db) \<Longrightarrow> p j \<Longrightarrow> keeps_turn j (f j) \<and> jb_id (f j) = jb_id j"
  shows "unique_turns db'"
proof -
  define g where "g j = (if p j then f j else j)" for j
  have g: "jb_id (g j) = jb_id j" "jb_turn_id (g j) = None \<or> jb_turn_id (g j) = jb_turn_id j"
    if "j \<in> set (jobs db)" for j
    using assms(3) [OF that] by (auto simp: g_def keeps_turn_def)
  have set: "set (jobs db') = g ` set (jobs db)"
    by (simp add: assms(1) set_update_where g_def [abs_def])
  show ?thesis unfolding unique_turns_def
  proof (intro ballI impI)
    fix j' k' assume "j' \<in> set (jobs db')" "k' \<in> set (jobs db')"
      and t: "jb_turn_id j' \<noteq> None \<and> jb_turn_id k' = jb_turn_id j'"
    then obtain j k where jk: "j \<in> set (jobs db)" "k \<in> set (jobs db)" "j' = g j" "k' = g k"
      using set by auto
    then have "jb_turn_id j = jb_turn_id j'" "jb_turn_id k = jb_turn_id j'"
      using g(2) [OF jk(1)] g(2) [OF jk(2)] t by auto
    then have "jb_id k = jb_id j" using assms(2) jk(1,2) t unfolding unique_turns_def by metis
    then show "jb_id k' = jb_id j'" using g(1) jk by simp
  qed
qed

lemma changed_keeping_turns:
  assumes "jobs db' = update_where p f (jobs db)"
    and "\<And>j. j \<in> set (jobs db) \<Longrightarrow> p j \<Longrightarrow> job_update j (f j) \<and> keeps_turn j (f j)"
  shows "queue_change cfg db db'"
proof (rule changed [OF assms(1)])
  show "unique_turns db'" if "unique_turns db"
    by (rule changed_turns [OF assms(1) that]) (use assms(2) in \<open>auto simp: job_update_def same_job_def\<close>)
qed (use assms(2) in blast)

section \<open>What the pieces of an operation change\<close>

lemma update_jobs_simps [simp]:
  "jobs (update_jobs p f db) = update_where p f (jobs db)"
  "conversations (update_jobs p f db) = conversations db"
  "job_events (update_jobs p f db) = job_events db"
  "job_artifacts (update_jobs p f db) = job_artifacts db"
  by (simp_all add: update_jobs_def)

lemma event_Inr:
  "event i ty it cl ec now db = Inr db' \<Longrightarrow>
   jobs db' = jobs db \<and> job_artifacts db' = job_artifacts db \<and> conversations db' = conversations db"
  by (auto simp: event_def split: if_splits)

lemma event_ok: "find_job db i \<noteq> None \<Longrightarrow> \<exists>db'. event i ty it cl ec now db = Inr db'"
  by (simp add: event_def)

lemma find_job_SomeD: "find_job db i = Some j \<Longrightarrow> j \<in> set (jobs db) \<and> jb_id j = i"
  unfolding find_job_def by (drule select_one_Some_iff) simp

lemma find_job_None: "find_job db i = None \<longleftrightarrow> i \<notin> jb_id ` set (jobs db)"
  by (auto simp: find_job_def select_one_None_iff)

lemma find_job_eq:
  "distinct (map jb_id (jobs db)) \<Longrightarrow> j \<in> set (jobs db) \<Longrightarrow> find_job db (jb_id j) = Some j"
  unfolding find_job_def by (rule select_one_key)

lemma find_job_update:
  "(\<And>j. p j \<Longrightarrow> jb_id (f j) = jb_id j) \<Longrightarrow>
   find_job (update_jobs p f db) i = map_option (\<lambda>j. if p j then f j else j) (find_job db i)"
proof -
  assume f: "\<And>j. p j \<Longrightarrow> jb_id (f j) = jb_id j"
  have "select_one (\<lambda>j. jb_id j = i) (update_where p f t) =
      map_option (\<lambda>j. if p j then f j else j) (select_one (\<lambda>j. jb_id j = i) t)" for t
    by (induction t) (auto simp: f)
  then show ?thesis by (simp add: find_job_def)
qed

lemma running_turn_SomeD:
  "running_turn db t = Some j \<Longrightarrow> j \<in> set (jobs db) \<and> jb_turn_id j = Some t \<and> jb_state j = Jb_running"
  unfolding running_turn_def by (drule select_one_Some_iff) simp

lemma running_job_Inr:
  "running_job db i = Inr j \<Longrightarrow> j \<in> set (jobs db) \<and> jb_id j = i \<and> jb_state j = Jb_running"
  by (auto simp: running_job_def codex_error_def split: option.splits if_splits dest: find_job_SomeD)

lemma set_thread_Inr:
  "set_thread key t now db = Inr db' \<Longrightarrow> jobs db' = jobs db \<and> job_artifacts db' = job_artifacts db"
  by (auto simp: set_thread_def split: if_splits)

lemma immediate_cases:
  assumes "P s" and "\<And>a s'. body s = Inr (a, s') \<Longrightarrow> P s'"
  shows "P (snd (immediate body s))"
  using assms by (auto simp: immediate_def split: sum.splits)

lemma codex_error_neq [simp]: "codex_error c \<noteq> Inr x" "Inr x \<noteq> codex_error c"
  by (simp_all add: codex_error_def)

lemma same_job_refl [simp]: "same_job j j"
  by (simp add: same_job_def)

lemma same_id:
  "distinct (map jb_id (jobs db)) \<Longrightarrow> j \<in> set (jobs db) \<Longrightarrow> k \<in> set (jobs db) \<Longrightarrow>
   jb_id j = jb_id k \<Longrightarrow> j = k"
  by (auto simp: distinct_map dest: inj_onD)

lemmas edge_defs = job_update_def job_observed_def keeps_turn_def same_job_def job_life_def FINAL_STATES_def has_state_def

section \<open>Every operation refines the abstract queue\<close>

text \<open>An update of the row of one job, which is known.\<close>

lemma job_row_change:
  assumes "distinct (map jb_id (jobs db))" and "row \<in> set (jobs db)"
    and "jobs db' = update_where (\<lambda>j. jb_id j = jb_id row) f (jobs db)"
    and "job_update row (f row)" and "keeps_turn row (f row)"
  shows "queue_change cfg db db'"
  by (rule changed_keeping_turns [OF assms(3)]) (use assms(4,5) same_id [OF assms(1) _ assms(2)] in auto)

lemma state_change:
  assumes "jobs db' = update_where (has_state st i) f (jobs db)"
    and "\<And>j. jb_state j = st \<Longrightarrow> job_update j (f j) \<and> keeps_turn j (f j)"
  shows "queue_change cfg db db'"
  by (rule changed_keeping_turns [OF assms(1)]) (use assms(2) in \<open>auto simp: has_state_def\<close>)

lemma create_job_change: "queue_change cfg db (snd (create_job env cfg payload i now db))"
proof (cases "validate_job env payload")
  case (Inr input)
  have "queue_change cfg db (snd (immediate (create_job_body cfg i (input_digest env input) input now) db))"
  proof (rule immediate_cases)
    fix v db' assume "create_job_body cfg i (input_digest env input) input now db = Inr (v, db')"
    then show "queue_change cfg db db'"
    proof (cases "select_one (\<lambda>j. jb_message_id j = ji_message_id input) (jobs db)")
      case None
      then have m: "ji_message_id input \<notin> set (map jb_message_id (jobs db))"
        by (auto simp: select_one_None_iff)
      from None \<open>create_job_body _ _ _ _ _ _ = _\<close> obtain db1 where
        room: "int (active_count db) < xc_max_queue cfg" and
        db1: "insert_job (new_job i (input_digest env input) input now)
          (ensure_conversation (ji_conversation_key input) now db) = Inr db1" and
        ev: "event i ''queued'' None None None now db1 = Inr db'"
        by (auto simp: create_job_body_def bind_result_Inr_iff split: if_splits)
      have "jobs (ensure_conversation k now db) = jobs db" for k by (simp add: ensure_conversation_def)
      with db1 event_Inr [OF ev] have
        "jobs db' = insert_row (new_job i (input_digest env input) input now) (jobs db)"
        "i \<notin> set (map jb_id (jobs db))"
        by (auto simp: insert_job_def new_job_def split: if_splits)
      from enqueued [OF this m room] show ?thesis .
    qed (auto simp: create_job_body_def intro: unchanged split: if_splits)
  qed (rule unchanged, simp)
  then show ?thesis by (simp add: create_job_def Inr)
qed (simp add: create_job_def unchanged)

lemma claim_next_job_change: "queue_change cfg db (snd (claim_next_job now db))"
  unfolding claim_next_job_def
proof (rule immediate_cases)
  fix v db' assume body: "claim_next_job_body now db = Inr (v, db')"
  show "queue_change cfg db db'"
  proof (cases "jobs db' = jobs db")
    case False
    with body obtain row where row: "first_min job_order (queued_jobs db) = Some row"
      "\<not> list_ex (\<lambda>j. jb_state j \<in> {Jb_running, Jb_recovery_required}) (jobs db)"
      "\<not> (case jb_retry_not_before row of None \<Rightarrow> False | Some t \<Rightarrow> t > now)"
      and ev: "event (jb_id row) ''dispatching'' None None None now
                (update_jobs (has_state Jb_queued (jb_id row)) (claimed_job now) db) = Inr db'"
      by (auto simp: claim_next_job_body_def bind_result_Inr_iff split: if_splits option.splits)
    have "claimable_job now db row"
      using row by (auto simp: claimable_job_def HELD_STATES_def list_ex_iff split: option.splits)
    with event_Inr [OF ev] show ?thesis by (intro dequeued) auto
  qed (rule unchanged)
qed (rule unchanged, simp)

lemma assign_thread_change: 
  assumes "distinct (map jb_id (jobs db))"
  shows "queue_change cfg db (snd (assign_thread i t now db))"
  unfolding assign_thread_def
proof (rule immediate_cases)
  fix v db' assume "(if t = [] then codex_error ''thread_unavailable''
       else bind_result (running_job db i) (\<lambda>row.
         bind_result (set_thread (jb_conversation_key row) t now db) (\<lambda>db1.
         Inr ((), update_jobs (\<lambda>j. jb_id j = i) (\<lambda>j. j\<lparr>jb_thread_id := Some t\<rparr>) db1)))) = Inr (v, db')"
  then obtain row db1 where row: "running_job db i = Inr row"
    and db1: "set_thread (jb_conversation_key row) t now db = Inr db1"
    and db': "db' = update_jobs (\<lambda>j. jb_id j = i) (\<lambda>j. j\<lparr>jb_thread_id := Some t\<rparr>) db1"
    by (auto simp: bind_result_Inr_iff split: if_splits)
  from running_job_Inr [OF row] set_thread_Inr [OF db1] db' show "queue_change cfg db db'"
    by (intro job_row_change [OF assms, of row]) (auto simp: edge_defs)
qed (rule unchanged, simp)

lemma complete_new_thread_change: "queue_change cfg db (snd (complete_new_thread cfg2 i t text now db))"
  unfolding complete_new_thread_def
proof (rule immediate_cases)
  fix v db' assume "(if t = [] then codex_error ''thread_unavailable''
       else bind_result (running_job db i) (\<lambda>row.
         bind_result (set_thread (jb_conversation_key row) t now db) (\<lambda>db1.
         bind_result (event i ''new_thread_started'' (Some ''controllerControl'')
             (Some (py_len text)) None now
             (update_jobs (has_state Jb_running i)
               (\<lambda>j. (completed_job (py_take (xc_max_result_chars cfg2) text) now j)
                      \<lparr>jb_thread_id := Some t\<rparr>) db1)) (\<lambda>db2.
         bind_result (reread_job False i db2) (\<lambda>document. Inr (document, db2)))))) = Inr (v, db')"
  then obtain row :: job and db1 where db1: "set_thread (jb_conversation_key row) t now db = Inr db1"
    and ev: "event i ''new_thread_started'' (Some ''controllerControl'') (Some (py_len text)) None now
             (update_jobs (has_state Jb_running i)
               (\<lambda>j. (completed_job (py_take (xc_max_result_chars cfg2) text) now j)
                      \<lparr>jb_thread_id := Some t\<rparr>) db1) = Inr db'"
    by (auto simp: bind_result_Inr_iff split: if_splits)
  from set_thread_Inr [OF db1] event_Inr [OF ev] show "queue_change cfg db db'"
    by (intro state_change) (auto simp: edge_defs completed_job_def)
qed (rule unchanged, simp)

text \<open>An operation that, when it changes anything, changes the jobs in one state and logs it.\<close>

lemma logged_state_change:
  assumes "event i ty it cl ec now (update_jobs (has_state st k) f db) = Inr db'"
    and "\<And>j. jb_state j = st \<Longrightarrow> job_update j (f j) \<and> keeps_turn j (f j)"
  shows "queue_change cfg db db'"
  by (rule state_change [of _ st k f]) (use event_Inr [OF assms(1)] assms(2) in auto)

lemma logged_row_change:
  assumes "distinct (map jb_id (jobs db))" and "row \<in> set (jobs db)"
    and "event i ty it cl ec now (update_jobs (\<lambda>j. jb_id j = jb_id row) f db) = Inr db'"
    and "job_update row (f row)" and "keeps_turn row (f row)"
  shows "queue_change cfg db db'"
  by (rule job_row_change [of db row db' f]) (use event_Inr [OF assms(3)] assms in auto)

lemma complete_direct_result_change: "queue_change cfg db (snd (complete_direct_result cfg2 i text ty now db))"
  unfolding complete_direct_result_def
  by (rule immediate_cases)
    (auto simp: bind_result_Inr_iff edge_defs completed_job_def intro: unchanged
      elim!: logged_state_change split: if_splits)

lemma fail_claimed_change: "queue_change cfg db (snd (fail_claimed i code uncertain now db))"
  unfolding fail_claimed_def
  by (rule immediate_cases)
    (auto simp: bind_result_Inr_iff edge_defs Let_def intro: unchanged
      elim!: logged_state_change split: if_splits)

lemma cancel_queued_change: "queue_change cfg db (snd (cancel_queued i now db))"
  unfolding cancel_queued_def
  by (rule immediate_cases)
    (auto simp: bind_result_Inr_iff edge_defs intro: unchanged
      elim!: logged_state_change split: if_splits)

lemma resolve_recovery_job_change: "queue_change cfg db (snd (resolve_recovery_job i r now db))"
  unfolding resolve_recovery_job_def
  by (rule immediate_cases)
    (auto simp: bind_result_Inr_iff edge_defs recovery_target_def intro: unchanged
      elim!: logged_state_change split: if_splits option.splits)

lemma mark_tool_activity_change: "queue_change cfg db (mark_tool_activity i db)"
  unfolding mark_tool_activity_def
  by (rule state_change [of _ Jb_running i]) (auto simp: edge_defs)

lemma assign_turn_change: "queue_change cfg db (snd (assign_turn i t now db))"
  unfolding assign_turn_def
proof (rule immediate_cases)
  fix v db' assume "(if t = [] then codex_error ''turn_state_unknown''
       else if rowcount (has_state Jb_running i) (jobs db) = 1
               \<and> list_ex (\<lambda>j. jb_id j \<noteq> i \<and> jb_turn_id j = Some t) (jobs db)
       then Inl IntegrityError
       else if rowcount (has_state Jb_running i) (jobs db) \<noteq> 1
       then codex_error ''job_state_conflict''
       else bind_result (event i ''turn_started'' None None None now
           (update_jobs (has_state Jb_running i) (\<lambda>j. j\<lparr>jb_turn_id := Some t\<rparr>) db))
         (\<lambda>db1. Inr ((), db1))) = Inr (v, db')"
  then have ev: "event i ''turn_started'' None None None now
           (update_jobs (has_state Jb_running i) (\<lambda>j. j\<lparr>jb_turn_id := Some t\<rparr>) db) = Inr db'"
    and free: "\<forall>j \<in> set (jobs db). jb_turn_id j = Some t \<longrightarrow> jb_id j = i"
    by (auto simp: bind_result_Inr_iff list_ex_iff split: if_splits)
  let ?g = "\<lambda>j. if has_state Jb_running i j then j\<lparr>jb_turn_id := Some t\<rparr> else j"
  from event_Inr [OF ev] have jobs: "jobs db' =
      update_where (has_state Jb_running i) (\<lambda>j. j\<lparr>jb_turn_id := Some t\<rparr>) (jobs db)" by simp
  show "queue_change cfg db db'"
  proof (rule changed [OF jobs])
    show "unique_turns db'" if u: "unique_turns db"
      unfolding unique_turns_def jobs
    proof (intro ballI impI)
      fix j' k' assume "j' \<in> set (update_where (has_state Jb_running i) (\<lambda>j. j\<lparr>jb_turn_id := Some t\<rparr>) (jobs db))"
        "k' \<in> set (update_where (has_state Jb_running i) (\<lambda>j. j\<lparr>jb_turn_id := Some t\<rparr>) (jobs db))"
        and turn: "jb_turn_id j' \<noteq> None \<and> jb_turn_id k' = jb_turn_id j'"
      then obtain j k where jk: "j \<in> set (jobs db)" "k \<in> set (jobs db)" "j' = ?g j" "k' = ?g k"
        by (auto simp: update_where_mem)
      have ids: "jb_id j' = jb_id j" "jb_id k' = jb_id k" using jk by simp_all
      show "jb_id k' = jb_id j'"
      proof (cases "has_state Jb_running i j \<or> has_state Jb_running i k")
        case True
        then have "jb_id j = i \<and> jb_id k = i"
          using jk turn free by (auto simp: has_state_def split: if_splits)
        then show ?thesis by (simp add: ids)
      next
        case False
        then show ?thesis using u jk turn ids unfolding unique_turns_def by metis
      qed
    qed
  qed (auto simp: edge_defs)
qed (rule unchanged, simp)

lemma set_result_text_change:
  assumes "distinct (map jb_id (jobs db))"
  shows "queue_change cfg db (snd (set_result_text cfg2 t text ty now db))"
  unfolding set_result_text_def
  by (rule immediate_cases)
    (auto simp: bind_result_Inr_iff edge_defs dest!: running_turn_SomeD intro: unchanged
      elim!: logged_row_change [OF assms, rotated] split: option.splits)

lemma observe_turn_error_change:
  assumes "distinct (map jb_id (jobs db))"
  shows "queue_change cfg db (snd (observe_turn_error t ty code http retryable again now db))"
  unfolding observe_turn_error_def Let_def
  by (rule immediate_cases)
    (auto simp: bind_result_Inr_iff edge_defs dest!: running_turn_SomeD intro: unchanged
      elim!: logged_row_change [OF assms, rotated] split: option.splits)

lemma observe_turn_activity_change:
  assumes "distinct (map jb_id (jobs db))"
  shows "queue_change cfg db (snd (observe_turn_activity t out tool art ty now db))"
  unfolding observe_turn_activity_def Let_def
proof (rule immediate_cases)
  fix v db' assume *: "(case running_turn db t of
         None \<Rightarrow> Inr (False, db)
       | Some row \<Rightarrow>
           if (jb_output_observed row \<or> out) \<noteq> jb_output_observed row
              \<or> (jb_tool_activity_observed row \<or> tool) \<noteq> jb_tool_activity_observed row
              \<or> (jb_artifact_observed row \<or> art) \<noteq> jb_artifact_observed row
           then bind_result (event (jb_id row) ''turn_activity_observed''
                  (safe_if ITEM_TYPE_RE ty) None None now
                  (update_jobs (\<lambda>j. jb_id j = jb_id row)
                    (\<lambda>j. j\<lparr>jb_output_observed := jb_output_observed row \<or> out,
                      jb_tool_activity_observed := jb_tool_activity_observed row \<or> tool,
                      jb_artifact_observed := jb_artifact_observed row \<or> art\<rparr>) db))
                  (\<lambda>db2. Inr (True, db2))
           else Inr (True, update_jobs (\<lambda>j. jb_id j = jb_id row)
                    (\<lambda>j. j\<lparr>jb_output_observed := jb_output_observed row \<or> out,
                      jb_tool_activity_observed := jb_tool_activity_observed row \<or> tool,
                      jb_artifact_observed := jb_artifact_observed row \<or> art\<rparr>) db)) = Inr (v, db')"
  show "queue_change cfg db db'"
  proof (cases "running_turn db t")
    case None
    with * show ?thesis by (auto intro: unchanged)
  next
    case (Some row)
    with * have "jobs db' = update_where (\<lambda>j. jb_id j = jb_id row)
        (\<lambda>j. j\<lparr>jb_output_observed := jb_output_observed row \<or> out,
                jb_tool_activity_observed := jb_tool_activity_observed row \<or> tool,
                jb_artifact_observed := jb_artifact_observed row \<or> art\<rparr>) (jobs db)"
      by (auto simp: bind_result_Inr_iff dest!: event_Inr split: if_splits)
    from job_row_change [OF assms _ this] running_turn_SomeD [OF Some] show ?thesis
      by (auto simp: edge_defs)
  qed
qed (rule unchanged, simp)

lemma complete_turn_change:
  assumes "distinct (map jb_id (jobs db))" and "to_max_attempts t = MAX_ATTEMPTS"
  shows "queue_change cfg db (snd (complete_turn turn t now db))"
  unfolding complete_turn_def
proof (rule immediate_cases)
  fix v db' assume body: "complete_turn_body turn t now db = Inr (v, db')"
  show "queue_change cfg db db'"
  proof (cases "running_turn db turn")
    case None
    with body show ?thesis by (auto simp: complete_turn_body_def intro: unchanged)
  next
    case (Some row)
    note row = running_turn_SomeD [OF Some]
    show ?thesis
    proof (cases "can_retry t db row")
      case True
      with body Some obtain it ec where
        ev: "event (jb_id row) ''requeued'' it None ec now
          (update_jobs (\<lambda>j. jb_id j = jb_id row) (requeued_job t now) db) = Inr db'"
        by (auto simp: complete_turn_body_def bind_result_Inr_iff)
      show ?thesis
        by (rule logged_row_change [OF assms(1) _ ev])
          (use row True assms(2) in \<open>auto simp: edge_defs requeued_job_def can_retry_def MAX_ATTEMPTS_def\<close>)
    next
      case False
      with body Some obtain ty it ec where
        ev: "event (jb_id row) ty it None ec now
          (update_jobs (\<lambda>j. jb_id j = jb_id row) (finished_job t db now) db) = Inr db'"
        by (auto simp: complete_turn_body_def bind_result_Inr_iff Let_def)
      show ?thesis
        by (rule logged_row_change [OF assms(1) _ ev])
          (use row in \<open>auto simp: edge_defs finished_job_def turn_state_def Let_def\<close>)
    qed
  qed
qed (rule unchanged, simp)

lemma retry_overloaded_change:
  assumes "distinct (map jb_id (jobs db))"
  shows "queue_change cfg db (snd (retry_overloaded i MAX_ATTEMPTS delay now db))"
  unfolding retry_overloaded_def
proof (rule immediate_cases)
  fix v db' assume *: "(case select_one (has_state Jb_running i) (jobs db) of
         None \<Rightarrow> Inr (False, db)
       | Some row \<Rightarrow>
           if jb_attempt row \<ge> MAX_ATTEMPTS then Inr (False, db)
           else bind_result (event i ''requeued'' (Some ''server_overloaded'') None
               (Some ''app_server_overloaded'') now
               (update_jobs (\<lambda>j. jb_id j = i) (overloaded_job delay now) db))
             (\<lambda>db1. Inr (True, db1))) = Inr (v, db')"
  show "queue_change cfg db db'"
  proof (cases "jobs db' = jobs db")
    case False
    with * obtain row where row: "select_one (has_state Jb_running i) (jobs db) = Some row"
      "jb_attempt row < MAX_ATTEMPTS" and
      ev: "event i ''requeued'' (Some ''server_overloaded'') None (Some ''app_server_overloaded'') now
        (update_jobs (\<lambda>j. jb_id j = i) (overloaded_job delay now) db) = Inr db'"
      by (auto simp: bind_result_Inr_iff split: option.splits if_splits)
    from select_one_Some_iff [OF row(1)] have r: "row \<in> set (jobs db)" "jb_id row = i"
      "jb_state row = Jb_running" by (auto simp: has_state_def)
    show ?thesis
      by (rule logged_row_change [OF assms r(1) ev [folded r(2)]])
        (use r row(2) in \<open>auto simp: edge_defs overloaded_job_def\<close>)
  qed (rule unchanged)
qed (rule unchanged, simp)

lemma recover_jobs_Inr:
  "recover_jobs ids now db = Inr db' \<Longrightarrow>
   jobs db' = update_where (\<lambda>j. jb_id j \<in> set ids) (lost_job now) (jobs db)"
proof (induction ids arbitrary: db)
  case Nil
  then show ?case by (simp add: update_where_def)
next
  case (Cons i ids)
  then obtain db1 where
    ev: "event i ''recovery_required'' None None (Some ''turn_state_unknown'') now
      (update_jobs (\<lambda>j. jb_id j = i) (lost_job now) db) = Inr db1"
    and rest: "recover_jobs ids now db1 = Inr db'" by (auto simp: bind_result_Inr_iff)
  have once: "lost_job now (lost_job now j) = lost_job now j" "jb_id (lost_job now j) = jb_id j" for j
    by (simp_all add: lost_job_def)
  from Cons.IH [OF rest] event_Inr [OF ev] show ?case
    by (auto simp: update_where_def once)
qed

lemma recover_running_change:
  assumes "distinct (map jb_id (jobs db))"
  shows "queue_change cfg db (snd (recover_running now db))"
  unfolding recover_running_def Let_def
proof (rule immediate_cases)
  fix v db'
  let ?ids = "map jb_id (filter (\<lambda>j. jb_state j = Jb_running) (jobs db))"
  assume "bind_result (recover_jobs ?ids now db) (\<lambda>db1. Inr (length ?ids, db1)) = Inr (v, db')"
  then have "recover_jobs ?ids now db = Inr db'" by (auto simp: bind_result_Inr_iff)
  from recover_jobs_Inr [OF this] show "queue_change cfg db db'"
  proof (rule changed_keeping_turns)
    fix j assume "j \<in> set (jobs db)" "jb_id j \<in> set ?ids"
    then have "jb_state j = Jb_running" using same_id [OF assms] by auto
    then show "job_update j (lost_job now j) \<and> keeps_turn j (lost_job now j)"
      by (simp add: edge_defs lost_job_def)
  qed
qed (rule unchanged, simp)

section \<open>Artifacts\<close>

lemma cleanup_artifacts_jobs [simp]: "jobs (fst (snd (cleanup_artifacts now s))) = jobs (fst s)"
  by (simp add: cleanup_artifacts_def cleanup_records_def cleanup_files_def Let_def split: prod.splits)

lemma insert_artifact_Inr: "insert_artifact a db = Inr db' \<Longrightarrow>
    db' = db\<lparr>job_artifacts := insert_row a (job_artifacts db)\<rparr>"
  by (auto simp: insert_artifact_def split: if_splits)

lemma observe_artifact_change:
  assumes "distinct (map jb_id (jobs db))" and "find_job db i = Some row" and "jb_state row = Jb_running"
    and "jobs db' = jobs (observe_artifact i summary db)" and "jobs db0 = jobs db"
  shows "queue_change cfg db0 db'"
  by (rule job_row_change [of _ row _ "\<lambda>j. j\<lparr>jb_result_summary := Some summary, jb_artifact_observed := True\<rparr>"])
    (use find_job_SomeD [OF assms(2)] assms in \<open>auto simp: edge_defs observe_artifact_def\<close>)

text \<open>What a capture's transaction does when it returns a document.\<close>

lemma bind_artifact_cases:
  assumes "bind_artifact env cfg secret i ch content a now (db, d) = (r, db', d')"
  obtains (refused) e where "r = Inl e" "db' = db"
      "d' = d \<or> d' = remove_file (ja_storage_name a) ((ja_storage_name a, content) # remove_file (ja_storage_name a) d)"
  | (again) row b v where "find_job db i = Some row" "jb_state row = Jb_running"
      "b \<in> set (job_artifacts db)" "ja_job_id b = i" "ja_sha256 b = ja_sha256 a" "r = Inr v" "artifact_public_document env secret b = Inr v"
      "db' = observe_artifact i (ch_result_summary ch) db" "d' = d"
  | (stored) row db1 v where "find_job db i = Some row" "jb_state row = Jb_running"
      "\<forall>b \<in> set (job_artifacts db). \<not> (ja_job_id b = i \<and> ja_sha256 b = ja_sha256 a)"
      "int (length (job_artifacts_of db i)) < xc_max_artifacts_per_job cfg"
      "used_bytes now db + ch_size_bytes ch \<le> xc_artifact_quota_bytes cfg"
      "insert_artifact a db = Inr db1" "jobs db' = jobs (observe_artifact i (ch_result_summary ch) db)"
      "job_artifacts db' = insert_row a (job_artifacts db)"
      "artifact_public_document env secret a = Inr v" "r = Inr v"
      "d' = (ja_storage_name a, content) # remove_file (ja_storage_name a) d"
proof (cases "find_job db i")
  case None
  then show ?thesis using assms refused by (auto simp: bind_artifact_def codex_error_def)
next
  case (Some row)
  let ?d1 = "(ja_storage_name a, content) # remove_file (ja_storage_name a) d"
  consider (idle) "jb_state row \<noteq> Jb_running"
    | (old) b where "jb_state row = Jb_running"
        "select_one (\<lambda>b. ja_job_id b = i \<and> ja_sha256 b = ja_sha256 a) (job_artifacts db) = Some b"
    | (full) "jb_state row = Jb_running"
        "select_one (\<lambda>b. ja_job_id b = i \<and> ja_sha256 b = ja_sha256 a) (job_artifacts db) = None"
        "\<not> (int (length (job_artifacts_of db i)) < xc_max_artifacts_per_job cfg \<and>
            used_bytes now db + ch_size_bytes ch \<le> xc_artifact_quota_bytes cfg)"
    | (new) "jb_state row = Jb_running"
        "select_one (\<lambda>b. ja_job_id b = i \<and> ja_sha256 b = ja_sha256 a) (job_artifacts db) = None"
        "int (length (job_artifacts_of db i)) < xc_max_artifacts_per_job cfg"
        "used_bytes now db + ch_size_bytes ch \<le> xc_artifact_quota_bytes cfg"
    by (cases "select_one (\<lambda>b. ja_job_id b = i \<and> ja_sha256 b = ja_sha256 a) (job_artifacts db)") auto
  then show ?thesis
  proof cases
    case idle
    then show ?thesis using assms Some refused by (auto simp: bind_artifact_def codex_error_def)
  next
    case old
    have out: "bind_artifact env cfg secret i ch content a now (db, d) =
        (case artifact_public_document env secret b of Inl e \<Rightarrow> (Inl e, db, d)
         | Inr v \<Rightarrow> (Inr v, observe_artifact i (ch_result_summary ch) db, d))"
      using old Some by (simp add: bind_artifact_def)
    show ?thesis
    proof (cases "artifact_public_document env secret b")
      case (Inl e)
      show ?thesis by (rule refused [of e]) (use assms out Inl in simp_all)
    next
      case (Inr v)
      show ?thesis
        by (rule again [OF Some old(1) _ _ _ _ Inr])
          (use assms out Inr select_one_Some_iff [OF old(2)] in simp_all)
    qed
  next
    case full
    then show ?thesis using assms Some refused
      by (auto simp: bind_artifact_def codex_error_def split: if_splits)
  next
    case new
    let ?m = "bind_result (insert_artifact a db) (\<lambda>db1.
        bind_result (event i ''artifact_captured'' (Some ''image'') (Some (nat (ch_size_bytes ch))) None now
          (observe_artifact i (ch_result_summary ch) db1)) (\<lambda>db2.
        bind_result (artifact_public_document env secret a) (\<lambda>v. Inr (v, db2))))"
    have out: "bind_artifact env cfg secret i ch content a now (db, d) =
        (case ?m of Inl e \<Rightarrow> (Inl e, db, remove_file (ja_storage_name a) ?d1)
         | Inr (v, db2) \<Rightarrow> (Inr v, db2, ?d1))"
      using new Some by (simp add: bind_artifact_def Let_def)
    show ?thesis
    proof (cases ?m)
      case (Inl e)
      then show ?thesis using assms out refused by auto
    next
      case (Inr x)
      then obtain v db2 db1 where x: "x = (v, db2)" and ins: "insert_artifact a db = Inr db1" and
        ev: "event i ''artifact_captured'' (Some ''image'') (Some (nat (ch_size_bytes ch))) None now
          (observe_artifact i (ch_result_summary ch) db1) = Inr db2"
        and v: "artifact_public_document env secret a = Inr v"
        by (auto simp: bind_result_Inr_iff)
      have "db' = db2" "r = Inr v" "d' = ?d1" using assms out Inr x by auto
      moreover have "\<forall>b \<in> set (job_artifacts db). \<not> (ja_job_id b = i \<and> ja_sha256 b = ja_sha256 a)"
        using new(2) by (auto simp: select_one_None_iff)
      ultimately show ?thesis
        using stored [OF Some new(1) _ new(3,4) ins] insert_artifact_Inr [OF ins] event_Inr [OF ev] v
        by (auto simp: observe_artifact_def)
    qed
  qed
qed

lemma bind_artifact_change:
  assumes "distinct (map jb_id (jobs (fst s)))" and "jobs db0 = jobs (fst s)"
  shows "queue_change cfg2 db0 (fst (snd (bind_artifact env cfg secret i ch content a now s)))"
proof -
  obtain db d where s: "s = (db, d)" by (cases s)
  obtain r db' d' where out: "bind_artifact env cfg secret i ch content a now (db, d) = (r, db', d')"
    by (cases "bind_artifact env cfg secret i ch content a now (db, d)") auto
  from out have "queue_change cfg2 db0 db'"
  proof (cases rule: bind_artifact_cases)
    case refused
    then show ?thesis using assms s by (simp add: unchanged)
  next
    case (again row b v)
    then show ?thesis using assms s by (auto intro: observe_artifact_change)
  next
    case (stored row db1 v)
    then show ?thesis using assms s by (auto intro: observe_artifact_change)
  qed
  then show ?thesis by (simp add: s out)
qed

lemma capture_chart_artifact_change:
  assumes "distinct (map jb_id (jobs (fst s)))"
  shows "queue_change cfg2 (fst s)
    (fst (snd (capture_chart_artifact env cfg secret i chart content random name now s)))"
proof -
  obtain n s1 where s1: "cleanup_artifacts now s = (n, s1)" by (cases "cleanup_artifacts now s")
  have jobs: "jobs (fst s1) = jobs (fst s)" using cleanup_artifacts_jobs [of now s] by (simp add: s1)
  show ?thesis
  proof (cases "validate_chart env cfg chart content")
    case (Inr ch)
    then show ?thesis
    proof (cases "i = [] \<or> (\<exists>e. download_token env secret (new_artifact_id random)
        (now + seconds (xc_artifact_ttl_seconds cfg)) = Inl e)")
      case True
      then show ?thesis using Inr jobs by (auto simp: capture_chart_artifact_def s1 intro: unchanged)
    next
      case False
      then obtain token where "i \<noteq> []" "download_token env secret (new_artifact_id random)
          (now + seconds (xc_artifact_ttl_seconds cfg)) = Inr token"
        by (cases "download_token env secret (new_artifact_id random)
          (now + seconds (xc_artifact_ttl_seconds cfg))") auto
      then have "capture_chart_artifact env cfg secret i chart content random name now s =
          bind_artifact env cfg secret i ch content
            (new_artifact env cfg i ch (sha256_hex env content) random (name @ ''.png'') token now) now s1"
        using Inr by (simp add: capture_chart_artifact_def s1)
      moreover have "distinct (map jb_id (jobs (fst s1)))" using assms by (simp add: jobs)
      ultimately show ?thesis using bind_artifact_change [OF _ jobs [symmetric]] by metis
    qed
  qed (simp add: capture_chart_artifact_def unchanged)
qed

section \<open>Steps\<close>

text \<open>
  One operation of the store.  Both callers of the retries leave the bound on the attempts at its
  default.  An artifact operation is one step here; its interleavings are looked at separately.  The
  name of the file of a new artifact, a random UUID, is one the directory does not have.
\<close>

inductive codex_step ::
  "'a artifact_env_scheme \<Rightarrow> codex_config \<Rightarrow> string option \<Rightarrow> codex_db \<times> disk \<Rightarrow> codex_db \<times> disk \<Rightarrow> bool"
  for env cfg secret where
  job_submitted: "codex_step env cfg secret (db, d) (snd (create_job env cfg payload i now db), d)"
| job_claimed: "codex_step env cfg secret (db, d) (snd (claim_next_job now db), d)"
| thread_assigned: "codex_step env cfg secret (db, d) (snd (assign_thread i t now db), d)"
| new_thread_completed: "codex_step env cfg secret (db, d) (snd (complete_new_thread cfg i t text now db), d)"
| directly_completed: "codex_step env cfg secret (db, d) (snd (complete_direct_result cfg i text ty now db), d)"
| turn_assigned: "codex_step env cfg secret (db, d) (snd (assign_turn i t now db), d)"
| text_set: "codex_step env cfg secret (db, d) (snd (set_result_text cfg t text ty now db), d)"
| activity_observed:
    "codex_step env cfg secret (db, d) (snd (observe_turn_activity t out tool art ity now db), d)"
| error_observed:
    "codex_step env cfg secret (db, d) (snd (observe_turn_error t ty code http retryable again now db), d)"
| tool_marked: "codex_step env cfg secret (db, d) (mark_tool_activity i db, d)"
| turn_completed: "codex_step env cfg secret (db, d) (snd (complete_turn t outcome now db), d)"
    if "to_max_attempts outcome = MAX_ATTEMPTS"
| claim_failed: "codex_step env cfg secret (db, d) (snd (fail_claimed i code uncertain now db), d)"
| overload_retried: "codex_step env cfg secret (db, d) (snd (retry_overloaded i MAX_ATTEMPTS delay now db), d)"
| running_recovered: "codex_step env cfg secret (db, d) (snd (recover_running now db), d)"
| job_resolved: "codex_step env cfg secret (db, d) (snd (resolve_recovery_job i resolution now db), d)"
| queued_cancelled: "codex_step env cfg secret (db, d) (snd (cancel_queued i now db), d)"
| artifacts_cleaned: "codex_step env cfg secret s (snd (cleanup_artifacts now s))"
| artifact_captured:
    "codex_step env cfg secret s
      (snd (capture_chart_artifact env cfg secret i chart content random name now s))"
    if "name @ ''.png'' \<notin> fst ` set (snd s)" and "length random = 16"

lemma step_queue_change:
  assumes "codex_step env cfg secret s s'" and "distinct (map jb_id (jobs (fst s)))"
  shows "queue_change cfg (fst s) (fst s')"
  using assms
  by (cases) (auto intro: create_job_change claim_next_job_change assign_thread_change
    complete_new_thread_change complete_direct_result_change assign_turn_change set_result_text_change
    observe_turn_activity_change observe_turn_error_change mark_tool_activity_change
    complete_turn_change fail_claimed_change retry_overloaded_change recover_running_change
    resolve_recovery_job_change cancel_queued_change capture_chart_artifact_change
    unchanged cleanup_artifacts_jobs)

section \<open>The invariant of the queue\<close>

definition attempt_ok :: "job \<Rightarrow> bool" where
  "attempt_ok j \<longleftrightarrow>
     0 \<le> jb_attempt j \<and> jb_attempt j \<le> MAX_ATTEMPTS \<and>
     (jb_state j = Jb_queued \<longrightarrow> jb_attempt j < MAX_ATTEMPTS) \<and>
     (jb_state j = Jb_running \<longrightarrow> 0 < jb_attempt j)"

definition queue_inv :: "codex_config \<Rightarrow> codex_db \<Rightarrow> bool" where
  "queue_inv cfg db \<longleftrightarrow>
     distinct (map jb_id (jobs db)) \<and> distinct (map jb_message_id (jobs db)) \<and> unique_turns db \<and>
     rowcount (\<lambda>j. jb_state j \<in> HELD_STATES) (jobs db) \<le> 1 \<and>
     int (active_count db) \<le> max 0 (xc_max_queue cfg) \<and>
     (\<forall>j \<in> set (jobs db). attempt_ok j)"

lemma rowcount_update_le:
  "(\<And>j. j \<in> set t \<Longrightarrow> p j \<Longrightarrow> q (f j) \<Longrightarrow> q j) \<Longrightarrow>
   rowcount q (update_where p f t) \<le> rowcount q t"
  unfolding rowcount_def by (induction t) (auto intro: le_SucI)

lemma map_update_where_in:
  "(\<And>r. r \<in> set t \<Longrightarrow> p r \<Longrightarrow> k (f r) = k r) \<Longrightarrow> map k (update_where p f t) = map k t"
  by (induction t) auto

lemma active_not_final: "st \<in> ACTIVE_STATES \<longleftrightarrow> st \<notin> FINAL_STATES"
  by (cases st) (auto simp: ACTIVE_STATES_def FINAL_STATES_def)

lemma job_update_held: "job_update j k \<Longrightarrow> jb_state k \<in> HELD_STATES \<Longrightarrow> jb_state j \<in> HELD_STATES"
  by (auto simp: job_update_def job_life_def HELD_STATES_def)

lemma job_update_attempt: "job_update j k \<Longrightarrow> attempt_ok j \<Longrightarrow> attempt_ok k"
  by (auto simp: job_update_def job_life_def attempt_ok_def)

lemma first_min_queued:
  "first_min job_order (queued_jobs db) = Some row \<Longrightarrow> row \<in> set (jobs db) \<and> jb_state row = Jb_queued"
  by (drule first_min_mem) (auto simp: queued_jobs_def)

lemma claimed_job_simps [simp]:
  "jb_id (claimed_job now j) = jb_id j" "jb_message_id (claimed_job now j) = jb_message_id j"
  "jb_state (claimed_job now j) = Jb_running" "jb_attempt (claimed_job now j) = jb_attempt j + 1"
  "jb_turn_id (claimed_job now j) = jb_turn_id j" "same_job j (claimed_job now j)"
  by (simp_all add: claimed_job_def same_job_def)

lemma dequeued_held:
  assumes "distinct (map jb_id t)" and "\<And>j. j \<in> set t \<Longrightarrow> jb_state j \<notin> HELD_STATES"
  shows "rowcount (\<lambda>j. jb_state j \<in> HELD_STATES)
    (update_where (has_state Jb_queued i) (claimed_job now) t) \<le> 1"
  using assms
proof (induction t)
  case (Cons j t)
  then have tl: "rowcount (\<lambda>j. jb_state j \<in> HELD_STATES)
      (update_where (has_state Jb_queued i) (claimed_job now) t) \<le> 1" by simp
  show ?case
  proof (cases "has_state Jb_queued i j")
    case True
    have "k \<in> set t \<Longrightarrow> \<not> has_state Jb_queued i k" for k using Cons.prems(1) True
      by (auto simp: has_state_def) (metis image_eqI)
    then have "update_where (has_state Jb_queued i) (claimed_job now) t = t" by (intro update_where_id) auto
    moreover have "rowcount (\<lambda>j. jb_state j \<in> HELD_STATES) t = 0" using Cons.prems(2) by (auto simp: rowcount_0_iff)
    ultimately show ?thesis using True by (simp add: rowcount_def)
  qed (use tl Cons.prems(2) in \<open>simp add: rowcount_def\<close>)
qed (simp add: rowcount_def)

lemma queue_change_inv:
  assumes "queue_change cfg db db'" and inv: "queue_inv cfg db"
  shows "queue_inv cfg db'"
  using assms(1)
proof cases
  case unchanged
  from inv show ?thesis unfolding queue_inv_def unique_turns_def active_count_def unchanged .
next
  case (enqueued i digest input now)
  have new: "jb_id (new_job i digest input now) = i" "jb_message_id (new_job i digest input now) = ji_message_id input"
    "jb_state (new_job i digest input now) = Jb_queued" "jb_turn_id (new_job i digest input now) = None"
    "jb_attempt (new_job i digest input now) = 0"
    by (simp_all add: new_job_def)
  let ?j = "new_job i digest input now"
  have jobs: "set (jobs db') = insert ?j (set (jobs db))" using enqueued(1) by simp
  have "unique_turns db'"
    unfolding unique_turns_def jobs
  proof (intro ballI impI)
    fix j k assume "j \<in> insert ?j (set (jobs db))" "k \<in> insert ?j (set (jobs db))"
      and turn: "jb_turn_id j \<noteq> None \<and> jb_turn_id k = jb_turn_id j"
    then have "j \<in> set (jobs db)" "k \<in> set (jobs db)" using new(4) by auto
    then show "jb_id k = jb_id j" using inv turn unfolding queue_inv_def unique_turns_def by blast
  qed
  moreover have "rowcount (\<lambda>j. jb_state j \<in> HELD_STATES) (jobs db')
      = rowcount (\<lambda>j. jb_state j \<in> HELD_STATES) (jobs db)"
    by (simp add: rowcount_def enqueued(1) new HELD_STATES_def)
  moreover have "active_count db' = Suc (active_count db)"
    by (simp add: active_count_def rowcount_def enqueued(1) new ACTIVE_STATES_def)
  moreover have "\<forall>j \<in> set (jobs db'). attempt_ok j"
    using inv unfolding queue_inv_def jobs by (simp add: attempt_ok_def new MAX_ATTEMPTS_def)
  moreover have "distinct (map jb_id (jobs db'))" "distinct (map jb_message_id (jobs db'))"
    using inv enqueued(2,3) by (simp_all add: queue_inv_def enqueued(1) new)
  ultimately show ?thesis using inv enqueued(4) unfolding queue_inv_def by simp
next
  case (dequeued row now)
  then have row: "row \<in> set (jobs db)" "jb_state row = Jb_queued"
    and idle: "\<And>j. j \<in> set (jobs db) \<Longrightarrow> jb_state j \<notin> HELD_STATES"
    using first_min_queued by (auto simp: claimable_job_def)
  have "unique_turns db'"
    by (rule changed_turns [OF dequeued(1)]) (use inv in \<open>auto simp: queue_inv_def keeps_turn_def\<close>)
  moreover have "int (active_count db') \<le> max 0 (xc_max_queue cfg)"
  proof -
    have "active_count db' \<le> active_count db" unfolding active_count_def dequeued(1)
      by (rule rowcount_update_le) (simp add: has_state_def ACTIVE_STATES_def)
    with inv show ?thesis by (simp add: queue_inv_def)
  qed
  moreover have "\<forall>j \<in> set (jobs db'). attempt_ok j"
    unfolding dequeued(1) update_where_mem
  proof (intro ballI)
    fix j assume "j \<in> set (update_where (has_state Jb_queued (jb_id row)) (claimed_job now) (jobs db))"
    then obtain k where k: "k \<in> set (jobs db)"
        "j = (if has_state Jb_queued (jb_id row) k then claimed_job now k else k)"
      by (auto simp: update_where_mem)
    then have "attempt_ok k" using inv by (simp add: queue_inv_def)
    with k(2) show "attempt_ok j" by (auto simp: attempt_ok_def has_state_def)
  qed
  moreover have "rowcount (\<lambda>j. jb_state j \<in> HELD_STATES) (jobs db') \<le> 1"
    unfolding dequeued(1) using inv idle by (intro dequeued_held) (auto simp: queue_inv_def)
  moreover have "map jb_id (jobs db') = map jb_id (jobs db)"
      "map jb_message_id (jobs db') = map jb_message_id (jobs db)"
    unfolding dequeued(1) by (simp_all add: map_update_where_in)
  ultimately show ?thesis using inv by (simp add: queue_inv_def)
next
  case (changed p f)
  have "map jb_id (jobs db') = map jb_id (jobs db)"
      "map jb_message_id (jobs db') = map jb_message_id (jobs db)"
    unfolding changed(1) using changed(2)
    by (auto intro!: map_update_where_in simp: job_update_def same_job_def)
  moreover have "rowcount (\<lambda>j. jb_state j \<in> HELD_STATES) (jobs db')
      \<le> rowcount (\<lambda>j. jb_state j \<in> HELD_STATES) (jobs db)"
    unfolding changed(1) by (rule rowcount_update_le) (use changed(2) job_update_held in blast)
  moreover have "active_count db' \<le> active_count db"
    unfolding active_count_def changed(1) active_not_final
    by (rule rowcount_update_le) (use changed(2) in \<open>auto simp: job_update_def\<close>)
  moreover have "\<forall>j \<in> set (jobs db'). attempt_ok j"
    unfolding changed(1) update_where_mem
  proof (intro ballI)
    fix j assume "j \<in> set (update_where p f (jobs db))"
    then obtain k where k: "k \<in> set (jobs db)" "j = (if p k then f k else k)"
      by (auto simp: update_where_mem)
    then have "attempt_ok k" using inv by (simp add: queue_inv_def)
    with k changed(2) [OF k(1)] show "attempt_ok j" using job_update_attempt by (cases "p k") auto
  qed
  ultimately show ?thesis using inv changed(3) by (auto simp: queue_inv_def)
qed

lemma queue_inv_start: "queue_inv cfg empty_codex_db"
  by (simp add: queue_inv_def empty_codex_db_def unique_turns_def rowcount_def active_count_def)

interpretation codex_system: inv_system "(empty_codex_db, [])" "codex_step env cfg secret" "\<lambda>s. queue_inv cfg (fst s)"
  for env cfg secret
proof
  show "queue_inv cfg (fst (empty_codex_db, []))" by (simp add: queue_inv_start)
  show "queue_inv cfg (fst t)" if "queue_inv cfg (fst s)" and "codex_step env cfg secret s t" for s t
    by (rule queue_change_inv [OF step_queue_change [OF that(2)] that(1)])
      (use that(1) in \<open>simp add: queue_inv_def\<close>)
qed

section \<open>The history of a job\<close>

definition job_evolves :: "job \<Rightarrow> job \<Rightarrow> bool" where
  "job_evolves j k \<longleftrightarrow>
     same_job j k \<and> jb_attempt j \<le> jb_attempt k \<and>
     (jb_state j \<in> FINAL_STATES \<longrightarrow> k = j) \<and>
     (jb_state j = Jb_recovery_required \<longrightarrow>
        jb_attempt k = jb_attempt j \<and> (jb_state k = Jb_recovery_required \<or> jb_state k \<in> FINAL_STATES))"

definition jobs_kept :: "codex_db \<Rightarrow> codex_db \<Rightarrow> bool" where
  "jobs_kept db db' \<longleftrightarrow> (\<forall>j \<in> set (jobs db). \<exists>k \<in> set (jobs db'). job_evolves j k)"

lemma job_evolves_refl [simp]: "job_evolves j j"
  by (simp add: job_evolves_def)

lemma job_evolves_trans: "job_evolves i j \<Longrightarrow> job_evolves j k \<Longrightarrow> job_evolves i k"
  by (auto simp: job_evolves_def same_job_def)

lemma jobs_kept_same: "jobs db' = jobs db \<Longrightarrow> jobs_kept db db'"
  by (auto simp: jobs_kept_def intro: job_evolves_refl)

lemma job_update_evolves: "job_update j k \<Longrightarrow> job_evolves j k"
  by (auto simp: job_update_def job_evolves_def job_life_def FINAL_STATES_def)

lemma queue_change_kept:
  assumes "queue_change cfg db db'"
  shows "jobs_kept db db'"
  using assms
proof cases
  case (dequeued row now)
  have "job_evolves j (claimed_job now j)" if "has_state Jb_queued (jb_id row) j" for j
    using that by (auto simp: job_evolves_def has_state_def FINAL_STATES_def)
  then show ?thesis unfolding jobs_kept_def dequeued(1)
    by (blast intro: update_where_survives [where Q = job_evolves] job_evolves_refl)
next
  case (changed p f)
  then show ?thesis unfolding jobs_kept_def changed(1)
    by (blast intro: update_where_survives [where Q = job_evolves] job_update_evolves job_evolves_refl)
next
  case unchanged
  then show ?thesis by (rule jobs_kept_same)
next
  case (enqueued i digest input now)
  then show ?thesis by (auto simp: jobs_kept_def intro: job_evolves_refl)
qed

lemma steps_kept:
  "(codex_step env cfg secret)\<^sup>*\<^sup>* s s' \<Longrightarrow> queue_inv cfg (fst s) \<Longrightarrow> jobs_kept (fst s) (fst s')"
proof (induction rule: rtranclp_induct)
  case base
  then show ?case by (simp add: jobs_kept_same)
next
  case (step y z)
  have "queue_inv cfg (fst y)" by (rule codex_system.invariant_from [OF step(1,4)])
  then have "jobs_kept (fst y) (fst z)"
    using queue_change_kept [OF step_queue_change [OF step(2)]] by (simp add: queue_inv_def)
  with step show ?case unfolding jobs_kept_def by (meson job_evolves_trans)
qed

end
