(* ===== verification/Codex_Properties.thy ===== *)
theory Codex_Properties
  imports Codex_System Example_Runtime
begin

text \<open>
  What the job store guarantees: one job is dispatched at a time, in the order of submission and a
  bounded number of times, never again once its outcome is uncertain; a submission is idempotent; no
  job is lost or rewritten.
\<close>

section \<open>A concrete run for the witnesses\<close>

definition artifact_env0 :: artifact_env where
  "artifact_env0 = \<lparr>sha256_hex = sha256_hex env0, fromisoformat = fromisoformat env0,
     urlsplit = urlsplit env0, uni_alnum = uni_alnum env0, float_repr = float_repr env0,
     py_repr = (\<lambda>_. []), hmac_sha256 = (\<lambda>_ _. replicate 32 (CHR ''k'')), uni_decimal = (\<lambda>_. False)\<rparr>"

definition codex_cfg0 :: codex_config where
  "codex_cfg0 = \<lparr>xc_max_queue = 2, xc_max_result_chars = 100, xc_artifact_ttl_seconds = 300,
     xc_max_artifact_bytes = 1024, xc_artifact_quota_bytes = 1024, xc_max_artifacts_per_job = 4\<rparr>"

definition job_doc0 :: json where
  "job_doc0 = JObj [(''version'', JInt 1), (''message_id'', JStr ''wx-1''),
     (''conversation_key'', JStr (sha (CHR ''c''))), (''received_at'', JStr ''A''), (''text'', JStr ''hi''),
     (''attachments'', JList []), (''reply_capabilities'', JList [JStr ''text''])]"

definition codex1 :: codex_db where
  "codex1 = snd (create_job artifact_env0 codex_cfg0 job_doc0 ''J1'' 0 empty_codex_db)"

definition job0 :: job where
  "job0 = new_job ''J1'' (hash64 (CHR ''a''))
     \<lparr>ji_message_id = ''wx-1'', ji_conversation_key = sha (CHR ''c''), ji_received_at = ''A'',
      ji_text = ''hi'', ji_attachments = [], ji_reply_capabilities = [''text''],
      ji_capability_profile = ''owner_legacy''\<rparr> 0"

definition job_event0 :: "string \<Rightarrow> int \<Rightarrow> job_event" where
  "job_event0 ty t = \<lparr>je_job_id = ''J1'', je_event_type = ty, je_item_type = None, je_content_length = None,
     je_error_code = None, je_created_at = t\<rparr>"

lemma codex1_code [code]:
  "codex1 = \<lparr>conversations = [\<lparr>cv_conversation_key = sha (CHR ''c''), cv_thread_id = None,
     cv_state = Cv_active, cv_conv_created_at = 0, cv_conv_updated_at = 0\<rparr>],
     jobs = [job0], job_events = [job_event0 ''queued'' 0], job_artifacts = []\<rparr>"
  by code_simp

definition codex2 :: codex_db where
  "codex2 = snd (claim_next_job 5 codex1)"

lemma codex2_code [code]:
  "codex2 = codex1\<lparr>jobs := [claimed_job 5 job0],
     job_events := [job_event0 ''queued'' 0, job_event0 ''dispatching'' 5]\<rparr>"
  by code_simp

definition codex3 :: codex_db where
  "codex3 = snd (assign_turn ''J1'' ''T1'' 6 codex2)"

lemma codex3_code [code]:
  "codex3 = codex2\<lparr>jobs := [(claimed_job 5 job0)\<lparr>jb_turn_id := Some ''T1''\<rparr>],
     job_events := [job_event0 ''queued'' 0, job_event0 ''dispatching'' 5, job_event0 ''turn_started'' 6]\<rparr>"
  by code_simp

definition codex4 :: codex_db where
  "codex4 = snd (observe_turn_activity ''T1'' True False False None 7 codex3)"

lemma codex4_jobs:
  "jobs codex4 = [(claimed_job 5 job0)\<lparr>jb_turn_id := Some ''T1'', jb_output_observed := True\<rparr>]"
  by code_simp

lemma codex_reach:
  "reach (empty_codex_db, []) (codex_step artifact_env0 codex_cfg0 secret) (codex1, [])"
  "reach (empty_codex_db, []) (codex_step artifact_env0 codex_cfg0 secret) (codex2, [])"
  "reach (empty_codex_db, []) (codex_step artifact_env0 codex_cfg0 secret) (codex3, [])"
  "reach (empty_codex_db, []) (codex_step artifact_env0 codex_cfg0 secret) (codex4, [])"
  unfolding codex4_def codex3_def codex2_def codex1_def
  by (rule reach.intros codex_step.intros)+

lemma codex_steps:
  "codex_step artifact_env0 codex_cfg0 secret (codex1, []) (codex2, [])"
  "codex_step artifact_env0 codex_cfg0 secret (codex2, []) (codex3, [])"
  "codex_step artifact_env0 codex_cfg0 secret (codex3, []) (codex4, [])"
  unfolding codex4_def codex3_def codex2_def by (rule codex_step.intros)+

lemma codex_jobs:
  "jobs codex1 = [job0]" "jobs codex2 = [claimed_job 5 job0]"
  "jb_id job0 = ''J1''" "jb_state job0 = Jb_queued" "jb_attempt job0 = 0"
  by (simp_all add: codex1_code codex2_code job0_def new_job_def)

lemma reach_queue_inv: "reach (empty_codex_db, []) (codex_step env cfg secret) s \<Longrightarrow> queue_inv cfg (fst s)"
  by (rule codex_system.invariant)

section \<open>The queue\<close>

text \<open>C26: In every state the job store can reach, however its operations interleave: at most one job is
  running or waiting for a recovery review, so at most one is under way; the jobs that are not final
  never exceed the configured queue; job and message ids are unique and no two jobs share a turn; and
  no job has been dispatched more than three times.\<close>

theorem codex_queue_exclusive:
  assumes "reach (empty_codex_db, []) (codex_step env cfg secret) (db, d)"
  shows "length (filter (\<lambda>j. jb_state j \<in> {Jb_running, Jb_recovery_required}) (jobs db)) \<le> 1 \<and>
    int (length (filter (\<lambda>j. jb_state j \<notin> FINAL_STATES) (jobs db))) \<le> max 0 (xc_max_queue cfg) \<and>
    distinct (map jb_id (jobs db)) \<and> distinct (map jb_message_id (jobs db)) \<and>
    (\<forall>t. length (filter (\<lambda>j. jb_turn_id j = Some t) (jobs db)) \<le> 1) \<and>
    (\<forall>j \<in> set (jobs db). 0 \<le> jb_attempt j \<and> jb_attempt j \<le> 3)"
proof -
  have inv: "queue_inv cfg db" using reach_queue_inv [OF assms] by simp
  have "length (filter (\<lambda>j. jb_turn_id j = Some t) (jobs db)) \<le> 1" for t
  proof (rule distinct_all_equal)
    show "distinct (filter (\<lambda>j. jb_turn_id j = Some t) (jobs db))"
      using inv by (simp add: queue_inv_def distinct_map)
    fix j k assume "j \<in> set (filter (\<lambda>j. jb_turn_id j = Some t) (jobs db))"
      "k \<in> set (filter (\<lambda>j. jb_turn_id j = Some t) (jobs db))"
    then have jk: "j \<in> set (jobs db)" "k \<in> set (jobs db)" "jb_turn_id j = Some t" "jb_turn_id k = Some t"
      by simp_all
    moreover have "unique_turns db" using inv by (simp add: queue_inv_def)
    ultimately have "jb_id j = jb_id k" unfolding unique_turns_def by (metis option.distinct(1))
    then show "j = k" using jk inv by (auto simp: queue_inv_def intro: same_id)
  qed
  with inv show ?thesis
    by (auto simp: queue_inv_def rowcount_def active_count_def active_not_final attempt_ok_def
      HELD_STATES_def MAX_ATTEMPTS_def)
qed

theorem codex_queue_exclusive_witness:
  "length (filter (\<lambda>j. jb_state j \<in> {Jb_running, Jb_recovery_required}) (jobs codex2)) = 1 \<and>
   int (length (filter (\<lambda>j. jb_state j \<notin> FINAL_STATES) (jobs codex2))) \<le> max 0 2"
proof -
  have "length (filter (\<lambda>j. jb_state j \<in> {Jb_running, Jb_recovery_required}) (jobs codex2)) = 1"
    by (simp add: codex_jobs)
  with codex_queue_exclusive [OF codex_reach(2) [of None]] show ?thesis by (simp add: codex_cfg0_def)
qed

text \<open>C27: No operation of the job store loses a job, changes what was submitted or takes back an
  attempt; a job that has completed, failed or was cancelled is never changed again; and a job whose
  outcome became uncertain is never dispatched again, it waits for the review and then stays final.\<close>

theorem codex_job_history:
  assumes "reach (empty_codex_db, []) (codex_step env cfg secret) s"
    and "(codex_step env cfg secret)\<^sup>*\<^sup>* s s'" and "j \<in> set (jobs (fst s))"
  shows "\<exists>k. find_job (fst s') (jb_id j) = Some k \<and> same_job j k \<and> jb_attempt j \<le> jb_attempt k \<and>
    (jb_state j \<in> FINAL_STATES \<longrightarrow> k = j) \<and>
    (jb_state j = Jb_recovery_required \<longrightarrow>
       jb_attempt k = jb_attempt j \<and> (jb_state k = Jb_recovery_required \<or> jb_state k \<in> FINAL_STATES))"
proof -
  have inv: "queue_inv cfg (fst s)" by (rule reach_queue_inv [OF assms(1)])
  from steps_kept [OF assms(2) inv] assms(3) obtain k where
    k: "k \<in> set (jobs (fst s'))" "job_evolves j k" by (auto simp: jobs_kept_def)
  have "queue_inv cfg (fst s')" by (rule codex_system.invariant_from [OF assms(2) inv])
  then have "find_job (fst s') (jb_id k) = Some k" using k(1) by (intro find_job_eq) (auto simp: queue_inv_def)
  with k(2) show ?thesis by (auto simp: job_evolves_def same_job_def)
qed

theorem codex_job_history_witness:
  "\<exists>k. find_job codex4 ''J1'' = Some k \<and> jb_input k = jb_input job0 \<and> 0 \<le> jb_attempt k"
proof -
  have j: "job0 \<in> set (jobs (fst (codex1, [] :: disk)))" by (simp add: codex_jobs)
  have "(codex_step artifact_env0 codex_cfg0 None)\<^sup>*\<^sup>* (codex1, []) (codex4, [])"
    using codex_steps [where secret = None]
    by (intro converse_rtranclp_into_rtranclp [of _ "(codex1, [])" "(codex2, [])"]
      converse_rtranclp_into_rtranclp [of _ "(codex2, [])" "(codex3, [])"] r_into_rtranclp)
  from codex_job_history [OF codex_reach(1) this j] show ?thesis
    by (auto simp: same_job_def codex_jobs)
qed

section \<open>Dispatch\<close>

lemma first_min_split:
  assumes "claimable_job now db row"
  shows "row \<in> set (jobs db) \<and> jb_state row = Jb_queued \<and>
    (\<forall>j \<in> set (jobs db). jb_state j = Jb_queued \<longrightarrow> job_order row \<le> job_order j)"
  using assms first_min_queued [of db row] first_min_le [of job_order "queued_jobs db" row]
  unfolding claimable_job_def queued_jobs_def by simp

lemma claim_next_job_none:
  assumes "\<And>row. \<not> claimable_job now db row"
  shows "claim_next_job now db = (Inr None, db)"
proof (cases "first_min job_order (queued_jobs db)")
  case (Some row)
  with assms [of row] show ?thesis
    by (auto simp: claim_next_job_def immediate_def claim_next_job_body_def claimable_job_def
      HELD_STATES_def list_ex_iff not_le)
qed (simp add: claim_next_job_def immediate_def claim_next_job_body_def)

lemma claim_next_job_some:
  assumes "distinct (map jb_id (jobs db))" and row: "claimable_job now db row"
  obtains db' where
    "claim_next_job now db = (Inr (Some (job_document True db' (claimed_job now row))), db')"
    "jobs db' = update_where (has_state Jb_queued (jb_id row)) (claimed_job now) (jobs db)"
    "find_job db' (jb_id row) = Some (claimed_job now row)"
proof -
  let ?db1 = "update_jobs (has_state Jb_queued (jb_id row)) (claimed_job now) db"
  have r: "row \<in> set (jobs db)" "jb_state row = Jb_queued" using first_min_split [OF row] by auto
  have found: "find_job ?db1 (jb_id row) = Some (claimed_job now row)"
    using find_job_eq [OF assms(1) r(1)] r(2) by (subst find_job_update) (auto simp: has_state_def)
  then obtain db' where ev: "event (jb_id row) ''dispatching'' None None None now ?db1 = Inr db'"
    using event_ok [of ?db1 "jb_id row" "''dispatching''" None None None now] by auto
  have f': "find_job db' (jb_id row) = Some (claimed_job now row)"
    using found event_Inr [OF ev] by (simp add: find_job_def)
  have "claim_next_job_body now db = Inr (Some (job_document True db' (claimed_job now row)), db')"
    using row unfolding claim_next_job_body_def claimable_job_def
    by (auto simp: ev reread_job_def f' HELD_STATES_def list_ex_iff not_le split: option.splits)
  with that [of db'] event_Inr [OF ev] f' show thesis
    by (simp add: claim_next_job_def immediate_def)
qed

text \<open>C28: In every reachable state the dispatcher answers.  It hands out nothing, and changes nothing,
  exactly when a job is under way or in review, no job is queued, or the first of the queue still has
  to wait for its retry; otherwise it hands out the earliest queued job with its input, by time of
  submission and then by id, and marks that job, and no other, as running.\<close>

theorem codex_dispatch_first:
  assumes "reach (empty_codex_db, []) (codex_step env cfg secret) (db, d)"
  shows "(claim_next_job now db = (Inr None, db) \<and>
      ((\<exists>j \<in> set (jobs db). jb_state j \<in> {Jb_running, Jb_recovery_required}) \<or>
       (\<forall>j \<in> set (jobs db). jb_state j \<noteq> Jb_queued) \<or>
       (\<exists>j \<in> set (jobs db). \<exists>t. jb_state j = Jb_queued \<and> jb_retry_not_before j = Some t \<and> now < t \<and>
          (\<forall>k \<in> set (jobs db). jb_state k = Jb_queued \<longrightarrow> job_order j \<le> job_order k)))) \<or>
    (\<exists>row db'. row \<in> set (jobs db) \<and> jb_state row = Jb_queued \<and>
       (\<forall>j \<in> set (jobs db). jb_state j \<notin> {Jb_running, Jb_recovery_required}) \<and>
       (\<forall>j \<in> set (jobs db). jb_state j = Jb_queued \<longrightarrow> job_order row \<le> job_order j) \<and>
       (\<forall>t. jb_retry_not_before row = Some t \<longrightarrow> t \<le> now) \<and>
       claim_next_job now db = (Inr (Some (job_document True db' (claimed_job now row))), db') \<and>
       jobs db' = map (\<lambda>j. if j = row then claimed_job now j else j) (jobs db))"
proof (cases "\<exists>row. claimable_job now db row")
  case True
  then obtain row where row: "claimable_job now db row" by blast
  have "queue_inv cfg db" using reach_queue_inv [OF assms] by simp
  then have ids: "distinct (map jb_id (jobs db))" by (simp add: queue_inv_def)
  note r = first_min_split [OF row]
  from claim_next_job_some [OF ids row] obtain db' where db':
    "claim_next_job now db = (Inr (Some (job_document True db' (claimed_job now row))), db')"
    "jobs db' = update_where (has_state Jb_queued (jb_id row)) (claimed_job now) (jobs db)" .
  have "has_state Jb_queued (jb_id row) j = (j = row)" if "j \<in> set (jobs db)" for j
    using same_id [OF ids that, of row] r by (auto simp: has_state_def)
  then have "jobs db' = map (\<lambda>j. if j = row then claimed_job now j else j) (jobs db)"
    unfolding db'(2) update_where_def by simp
  moreover have "\<forall>j \<in> set (jobs db). jb_state j \<notin> {Jb_running, Jb_recovery_required}"
    "\<forall>t. jb_retry_not_before row = Some t \<longrightarrow> t \<le> now"
    using row by (simp_all add: claimable_job_def HELD_STATES_def)
  ultimately show ?thesis using db'(1) r by (intro disjI2 exI [of _ row] exI [of _ db'] conjI) simp_all
next
  case False
  then have none: "claim_next_job now db = (Inr None, db)" by (intro claim_next_job_none) auto
  show ?thesis
  proof (cases "first_min job_order (queued_jobs db)")
    case None
    then have "\<forall>j \<in> set (jobs db). jb_state j \<noteq> Jb_queued" by (auto simp: queued_jobs_def filter_empty_conv)
    with none show ?thesis by blast
  next
    case (Some row)
    have min: "\<forall>k \<in> set (jobs db). jb_state k = Jb_queued \<longrightarrow> job_order row \<le> job_order k"
      using first_min_le [OF Some] by (auto simp: queued_jobs_def)
    from False Some have "(\<exists>j \<in> set (jobs db). jb_state j \<in> HELD_STATES) \<or>
        (\<exists>t. jb_retry_not_before row = Some t \<and> now < t)" by (auto simp: claimable_job_def not_le)
    with none min first_min_queued [OF Some] show ?thesis unfolding HELD_STATES_def by blast
  qed
qed

theorem codex_dispatch_first_witness:
  "\<exists>row db'. jb_id row = ''J1'' \<and>
     claim_next_job 5 codex1 = (Inr (Some (job_document True db' (claimed_job 5 row))), db')"
proof -
  have *: "\<forall>j \<in> set (jobs codex1). jb_state j = Jb_queued \<and> jb_retry_not_before j = None"
    by (simp add: codex_jobs) (simp add: job0_def new_job_def)
  from codex_dispatch_first [OF codex_reach(1) [of None], of 5] * obtain row db' where
    "row \<in> set (jobs codex1)"
    "claim_next_job 5 codex1 = (Inr (Some (job_document True db' (claimed_job 5 row))), db')"
    by (auto simp: codex_jobs)
  then show ?thesis by (intro exI [of _ job0] exI [of _ db'] conjI) (simp_all add: codex_jobs)
qed

section \<open>Submission\<close>

lemma create_job_Inr:
  assumes "create_job env cfg payload i now db = (Inr v, db')"
  obtains input k where "validate_job env payload = Inr input" "k \<in> set (jobs db')"
    "jb_id k = jv_job_id v" "jb_message_id k = jv_message_id v" "jb_message_id k = ji_message_id input"
    "jb_input_digest k = input_digest env input"
proof (cases "validate_job env payload")
  case (Inl e)
  then show ?thesis using assms by (simp add: create_job_def)
next
  case (Inr input)
  with assms have body: "create_job_body cfg i (input_digest env input) input now db = Inr (v, db')"
    by (simp add: create_job_def immediate_def split: sum.splits prod.splits)
  show ?thesis
  proof (cases "select_one (\<lambda>j. jb_message_id j = ji_message_id input) (jobs db)")
    case (Some k)
    with body select_one_Some_iff [OF Some] show ?thesis
      by (intro that [OF Inr, of k]) (auto simp: create_job_body_def job_document_def split: if_splits)
  next
    case None
    let ?j = "new_job i (input_digest env input) input now"
    from None body obtain db1 where
      db1: "insert_job ?j (ensure_conversation (ji_conversation_key input) now db) = Inr db1"
      and ev: "event i ''queued'' None None None now db1 = Inr db'"
      and v: "reread_job False i db' = Inr v"
      by (auto simp: create_job_body_def bind_result_Inr_iff split: if_splits)
    from db1 event_Inr [OF ev] have jobs: "jobs db' = jobs db @ [?j]" "i \<notin> jb_id ` set (jobs db)"
      by (auto simp: insert_job_def ensure_conversation_def insert_row_def new_job_def split: if_splits)
    then have "select_one (\<lambda>j. jb_id j = i) (jobs db) = None" by (auto simp: select_one_None_iff)
    then have "find_job db' i = Some ?j" using jobs(1) by (simp add: find_job_def) (simp add: new_job_def)
    with v have "v = job_document False db' ?j" by (simp add: reread_job_def)
    with jobs show ?thesis
      by (intro that [OF Inr, of ?j]) (auto simp: job_document_def new_job_def)
  qed
qed

text \<open>C29: A submission is idempotent.  Once a payload was accepted, submitting the same payload again,
  at any later time and after any operations of the store, answers with the same job and changes
  nothing; and any payload with the same message id but another digest is refused as a conflict.\<close>

theorem codex_submission_idempotent:
  assumes "reach (empty_codex_db, []) (codex_step env cfg secret) (db, d)"
    and "create_job env cfg payload i now db = (Inr v, db1)"
    and "(codex_step env cfg secret)\<^sup>*\<^sup>* (db1, d) s"
  shows "(\<exists>w. create_job env cfg payload i' now' (fst s) = (Inr w, fst s) \<and>
      jv_job_id w = jv_job_id v \<and> jv_message_id w = jv_message_id v) \<and>
    (\<forall>other input input'. validate_job env payload = Inr input \<and> validate_job env other = Inr input' \<and>
       ji_message_id input' = ji_message_id input \<and> input_digest env input' \<noteq> input_digest env input \<longrightarrow>
       create_job env cfg other i' now' (fst s) = (Inl (StoreError ''idempotency_conflict''), fst s))"
proof -
  have step: "codex_step env cfg secret (db, d) (db1, d)"
    using codex_step.job_submitted [of env cfg secret db d payload i now] assms(2) by simp
  have r1: "reach (empty_codex_db, []) (codex_step env cfg secret) (db1, d)"
    by (rule reach.next_state [OF assms(1) step])
  from create_job_Inr [OF assms(2)] obtain input k where
    k: "validate_job env payload = Inr input" "k \<in> set (jobs db1)" "jb_id k = jv_job_id v"
      "jb_message_id k = jv_message_id v" "jb_message_id k = ji_message_id input"
      "jb_input_digest k = input_digest env input" .
  have inv: "queue_inv cfg db1" using reach_queue_inv [OF r1] by simp
  have inv': "queue_inv cfg (fst s)" using codex_system.invariant_from [OF assms(3)] inv by simp
  have "jobs_kept db1 (fst s)" using steps_kept [OF assms(3)] inv by simp
  with k(2) obtain k' where k': "k' \<in> set (jobs (fst s))" "same_job k k'"
    by (auto simp: jobs_kept_def job_evolves_def)
  then have same: "jb_id k' = jb_id k" "jb_message_id k' = jb_message_id k" "jb_input_digest k' = jb_input_digest k"
    by (simp_all add: same_job_def)
  have sel: "select_one (\<lambda>j. jb_message_id j = jv_message_id v) (jobs (fst s)) = Some k'"
    using inv' k'(1) same(2) k(4) by (intro select_one_key_eq) (auto simp: queue_inv_def)
  have m: "ji_message_id input = jv_message_id v" using k(4,5) by simp
  show ?thesis
  proof (intro conjI allI impI)
    show "\<exists>w. create_job env cfg payload i' now' (fst s) = (Inr w, fst s) \<and>
        jv_job_id w = jv_job_id v \<and> jv_message_id w = jv_message_id v"
      using k same by (simp add: create_job_def create_job_body_def immediate_def m sel job_document_def)
  next
    fix other input1 input2
    assume "validate_job env payload = Inr input1 \<and> validate_job env other = Inr input2 \<and>
       ji_message_id input2 = ji_message_id input1 \<and> input_digest env input2 \<noteq> input_digest env input1"
    then show "create_job env cfg other i' now' (fst s) = (Inl (StoreError ''idempotency_conflict''), fst s)"
      using k same by (auto simp: create_job_def create_job_body_def immediate_def m sel codex_error_def)
  qed
qed

theorem codex_submission_idempotent_witness:
  "\<exists>w. create_job artifact_env0 codex_cfg0 job_doc0 ''J2'' 9 codex2 = (Inr w, codex2) \<and> jv_job_id w = ''J1''"
proof -
  let ?r = "create_job artifact_env0 codex_cfg0 job_doc0 ''J1'' 0 empty_codex_db"
  have "map_sum id jv_job_id (fst ?r) = (Inr ''J1'' :: exn + string)" by code_simp
  then obtain v where v: "?r = (Inr v, codex1)" "jv_job_id v = ''J1''"
    by (cases "fst ?r") (auto simp: codex1_def prod_eq_iff)
  have "(codex_step artifact_env0 codex_cfg0 None)\<^sup>*\<^sup>* (codex1, []) (codex2, [])"
    by (rule r_into_rtranclp) (rule codex_steps)
  from codex_submission_idempotent [OF reach.start v(1) this, of "''J2''" 9] v(2) show ?thesis by auto
qed

section \<open>Retries\<close>

text \<open>C30: A job is put back into the queue only by a retry it may have: an operation that requeues a
  running job does so before its third attempt, and when anything of its turn has been observed, an
  output, a tool activity or an artifact, only for the refusal of an overloaded app server.  As long as
  the job runs, what was observed stays recorded and its attempt stays the same.\<close>

theorem codex_requeue_unobserved:
  assumes "reach (empty_codex_db, []) (codex_step env cfg secret) s" and "codex_step env cfg secret s s'"
    and "j \<in> set (jobs (fst s))" and "jb_state j = Jb_running"
    and "find_job (fst s') (jb_id j) = Some k"
  shows "(jb_state k = Jb_queued \<longrightarrow> jb_attempt j < 3 \<and>
      (job_observed j \<longrightarrow> jb_error_code k = Some ''app_server_overloaded'')) \<and>
    (jb_state k = Jb_running \<longrightarrow> jb_attempt k = jb_attempt j \<and> (job_observed j \<longrightarrow> job_observed k))"
proof -
  have inv: "queue_inv cfg (fst s)" by (rule reach_queue_inv [OF assms(1)])
  then have ids: "distinct (map jb_id (jobs (fst s)))" by (simp add: queue_inv_def)
  have ids': "distinct (map jb_id (jobs (fst s')))"
    using queue_change_inv [OF step_queue_change [OF assms(2) ids] inv] by (simp add: queue_inv_def)
  have eq: "k = k'" if "k' \<in> set (jobs (fst s'))" "jb_id k' = jb_id j" for k'
    using find_job_eq [OF ids' that(1)] assms(5) that(2) by simp
  from step_queue_change [OF assms(2) ids] show ?thesis
  proof cases
    case unchanged
    then show ?thesis using eq [of j] assms(3,4) by simp
  next
    case enqueued
    then show ?thesis using eq [of j] assms(3,4) by simp
  next
    case (dequeued row now)
    then have "jb_state j \<notin> HELD_STATES" using assms(3) by (simp add: claimable_job_def)
    then show ?thesis using assms(4) by (simp add: HELD_STATES_def)
  next
    case (changed p f)
    show ?thesis
    proof (cases "p j")
      case True
      note u = changed(2) [OF assms(3) True]
      have "k = f j"
        using eq [of "f j"] update_where_hit [OF assms(3), of p f] True u
        by (simp add: changed(1) job_update_def same_job_def)
      with u assms(4) show ?thesis by (simp add: job_update_def MAX_ATTEMPTS_def)
    next
      case False
      then have "j \<in> set (jobs (fst s'))" unfolding changed(1) update_where_mem using assms(3) by force
      then show ?thesis using eq [of j] assms(4) by simp
    qed
  qed
qed

definition failed_turn0 :: turn_outcome where
  "failed_turn0 = \<lparr>to_status = ''failed'', to_error_code = None, to_error_type = None,
     to_http_status = None, to_retryable = Some True, to_retry_delay = Some 2000000, to_max_attempts = 3,
     to_output_observed = False, to_tool_activity_observed = False, to_artifact_observed = False\<rparr>"

theorem codex_requeue_unobserved_witness:
  "\<exists>k. find_job (snd (complete_turn ''T1'' failed_turn0 8 codex4)) ''J1'' = Some k \<and>
     (jb_state k = Jb_queued \<longrightarrow> jb_error_code k = Some ''app_server_overloaded'') \<and>
     jb_state k = Jb_failed"
proof -
  let ?db = "snd (complete_turn ''T1'' failed_turn0 8 codex4)"
  have step: "codex_step artifact_env0 codex_cfg0 None (codex4, []) (?db, [])"
    by (rule codex_step.turn_completed) (simp add: failed_turn0_def MAX_ATTEMPTS_def)
  have "map_option (\<lambda>k. (jb_id k, jb_state k)) (find_job ?db ''J1'') = Some (''J1'', Jb_failed)" by code_simp
  then obtain k where k: "find_job ?db ''J1'' = Some k" "jb_state k = Jb_failed" by auto
  let ?j = "(claimed_job 5 job0)\<lparr>jb_turn_id := Some ''T1'', jb_output_observed := True\<rparr>"
  have j: "?j \<in> set (jobs (fst (codex4, [] :: disk)))" "jb_state ?j = Jb_running" "job_observed ?j"
    "jb_id ?j = ''J1''" by (simp_all add: codex4_jobs job_observed_def codex_jobs)
  from codex_requeue_unobserved [OF codex_reach(4) step j(1,2)] k j(3,4) show ?thesis by auto
qed

end
