(* ===== verification/Codex_Artifact_Properties.thy ===== *)
theory Codex_Artifact_Properties
  imports Codex_Properties
begin

text \<open>
  The artifacts of the job store: the directory holds exactly the tracked files, within its quota; what
  was captured is what is read; and what an interleaved cleanup does to a new artifact.
\<close>

section \<open>No other operation touches the artifacts\<close>

lemma event_artifacts: "event i ty it cl ec now db = Inr db' \<Longrightarrow> job_artifacts db' = job_artifacts db"
  by (drule event_Inr) simp

lemma recover_jobs_artifacts: "recover_jobs ids now db = Inr db' \<Longrightarrow> job_artifacts db' = job_artifacts db"
  by (induction ids arbitrary: db) (auto simp: bind_result_Inr_iff dest!: event_artifacts)

lemma create_job_artifacts [simp]:
  "job_artifacts (snd (create_job env cfg payload i now db)) = job_artifacts db"
proof (cases "validate_job env payload")
  case (Inr input)
  have "job_artifacts (snd (immediate (create_job_body cfg i (input_digest env input) input now) db)) = job_artifacts db"
    by (rule immediate_cases)
      (auto simp: create_job_body_def bind_result_Inr_iff insert_job_def ensure_conversation_def
        dest!: event_artifacts split: option.splits if_splits)
  then show ?thesis by (simp add: create_job_def Inr)
qed (simp add: create_job_def)

lemma op_artifacts [simp]:
  "job_artifacts (snd (claim_next_job now db)) = job_artifacts db"
  "job_artifacts (snd (assign_thread i t now db)) = job_artifacts db"
  "job_artifacts (snd (complete_new_thread cfg i t text now db)) = job_artifacts db"
  "job_artifacts (snd (complete_direct_result cfg i text ty now db)) = job_artifacts db"
  "job_artifacts (snd (assign_turn i t now db)) = job_artifacts db"
  "job_artifacts (snd (set_result_text cfg t text ty now db)) = job_artifacts db"
  "job_artifacts (snd (observe_turn_activity t out tool art ity now db)) = job_artifacts db"
  "job_artifacts (snd (observe_turn_error t ty code http retryable again now db)) = job_artifacts db"
  "job_artifacts (mark_tool_activity i db) = job_artifacts db"
  "job_artifacts (snd (complete_turn t outcome now db)) = job_artifacts db"
  "job_artifacts (snd (fail_claimed i code uncertain now db)) = job_artifacts db"
  "job_artifacts (snd (retry_overloaded i n delay now db)) = job_artifacts db"
  "job_artifacts (snd (recover_running now db)) = job_artifacts db"
  "job_artifacts (snd (resolve_recovery_job i resolution now db)) = job_artifacts db"
  "job_artifacts (snd (cancel_queued i now db)) = job_artifacts db"
  unfolding claim_next_job_def assign_thread_def complete_new_thread_def complete_direct_result_def
    assign_turn_def set_result_text_def observe_turn_activity_def observe_turn_error_def
    mark_tool_activity_def complete_turn_def fail_claimed_def retry_overloaded_def recover_running_def
    resolve_recovery_job_def cancel_queued_def Let_def
  by (rule immediate_cases, simp,
      fastforce simp: claim_next_job_body_def complete_turn_body_def bind_result_Inr_iff Let_def
        dest!: event_artifacts recover_jobs_artifacts set_thread_Inr
        split: option.splits if_splits prod.splits)+

section \<open>Files and tokens\<close>

lemma map_of_filter_key: "map_of (filter (\<lambda>(n, _). P n) d) k = (if P k then map_of d k else None)"
  by (induction d) auto

lemma remove_file_simps:
  "map_of (remove_file name d) n = (if n \<noteq> name then map_of d n else None)"
  "fst ` set (remove_file name d) = fst ` set d - {name}"
  "distinct (map fst d) \<Longrightarrow> distinct (map fst (remove_file name d))"
  by (auto simp: remove_file_def map_of_filter_key distinct_map_filter)

lemma remove_file_absent: "name \<notin> fst ` set d \<Longrightarrow> remove_file name d = d"
  by (induction d) (auto simp: remove_file_def)

lemma remove_files: "fold remove_file names d = filter (\<lambda>(n, _). n \<notin> set names) d"
  by (induction names arbitrary: d) (auto simp: remove_file_def intro: filter_cong)

lemma bit_groups_length: "w > 0 \<Longrightarrow> length (bit_groups w bs) = (length bs + w - 1) div w"
proof (induction w bs rule: bit_groups.induct)
  case (1 w bs)
  show ?case
  proof (cases "bs = []")
    case True
    then show ?thesis using 1(2) by (simp add: bit_groups.simps [of w "[]"])
  next
    case False
    then have "length (bit_groups w bs) = Suc ((length bs - w + w - 1) div w)"
      using 1 by (subst bit_groups.simps) simp
    also have "\<dots> = (length bs + w - 1) div w"
    proof (cases "length bs \<le> w")
      case True
      have "0 < length bs" using False by simp
      then have eq: "length bs + w - 1 = w + (length bs - 1)" and lt: "length bs - 1 < w"
        using True by (cases bs; simp)+
      have "(length bs + w - 1) div w = 1"
        unfolding eq using 1(2) lt by (subst div_add_self1) simp_all
      moreover have "(length bs - w + w - 1) div w = 0" using True 1(2) by simp
      ultimately show ?thesis by simp
    next
      case False
      then have eq: "length bs + w - 1 = w + (length bs - w + w - 1)" using 1(2) by simp
      have "(w + (length bs - w + w - 1)) div w = Suc ((length bs - w + w - 1) div w)"
        using 1(2) by (subst div_add_self1) simp_all
      then show ?thesis by (simp only: eq)
    qed
    finally show ?thesis .
  qed
qed

lemma bits_of_length: "length (bits_of s) = 8 * length s"
  by (induction s) (auto simp: bits_of_def)

lemma number_of_bits_le: "length bs = w \<Longrightarrow> foldl (\<lambda>n b. 2 * n + of_bool b) a bs < (a + 1) * 2 ^ w" for a :: nat
proof (induction bs arbitrary: a w)
  case (Cons b bs)
  then obtain v where v: "w = Suc v" "length bs = v" by auto
  have "foldl (\<lambda>n b. 2 * n + of_bool b) (2 * a + of_bool b) bs < (2 * a + of_bool b + 1) * 2 ^ v"
    by (rule Cons.IH [OF v(2)])
  also have "\<dots> \<le> (a + 1) * 2 ^ w" unfolding v(1) by (simp add: algebra_simps)
  finally show ?case by simp
qed simp

lemma bit_groups_bound: "n \<in> set (bit_groups w bs) \<Longrightarrow> n < 2 ^ w"
proof (induction w bs rule: bit_groups.induct)
  case (1 w bs)
  have "number_of_bits w bs < 2 ^ w"
    unfolding number_of_bits_def using number_of_bits_le [of "take w (bs @ replicate w False)" w 0] by simp
  with 1 show ?case by (subst (asm) bit_groups.simps) (auto split: if_splits)
qed


lemma b32_char_ok:
  assumes "n < 32"
  shows "is_base32 (b32_char n)"
proof -
  consider "n < 26" | "26 \<le> n" using assms by linarith
  then show ?thesis
    using assms by cases (simp_all add: b32_char_def is_base32_def is_upper_def byte_def)
qed


lemma new_artifact_id_re: "length random = 16 \<Longrightarrow> ARTIFACT_ID_RE (new_artifact_id random)"
proof -
  assume "length random = 16"
  then have "length (b32 random) = 26" "list_all is_base32 (b32 random)"
    using bit_groups_bound [of _ 5 "bits_of random"] b32_char_ok
    by (auto simp: b32_def bit_groups_length bits_of_length list_all_iff)
  then show ?thesis
    using matches_append [of "lit ''AR-''" "replicate 26 is_base32" "''AR-'' @ b32 random"]
    by (simp add: ARTIFACT_ID_RE_def new_artifact_id_def matches_replicate matches_lit)
      (simp add: lit_def matches_lit [unfolded lit_def, of "''AR-''", simplified])
qed


section \<open>The invariant of the artifacts\<close>

definition file_ok :: "'a artifact_env_scheme \<Rightarrow> codex_config \<Rightarrow> string option \<Rightarrow> disk \<Rightarrow> job_artifact \<Rightarrow> bool" where
  "file_ok env cfg secret d a \<longleftrightarrow>
     (\<exists>content. map_of d (ja_storage_name a) = Some content \<and> is_prefix PNG_MAGIC content \<and>
        int (length content) = ja_size_bytes a \<and> sha256_hex env content = ja_sha256 a \<and>
        ja_size_bytes a \<le> xc_max_artifact_bytes cfg) \<and>
     ARTIFACT_ID_RE (ja_artifact_id a) \<and> (\<exists>v. artifact_public_document env secret a = Inr v)"

definition artifact_inv ::
  "'a artifact_env_scheme \<Rightarrow> codex_config \<Rightarrow> string option \<Rightarrow> codex_db \<times> disk \<Rightarrow> bool" where
  "artifact_inv env cfg secret s \<longleftrightarrow>
     distinct (map ja_storage_name (job_artifacts (fst s))) \<and>
     distinct (map ja_artifact_id (job_artifacts (fst s))) \<and>
     distinct (map ja_download_token_hash (job_artifacts (fst s))) \<and>
     distinct (map fst (snd s)) \<and>
     fst ` set (snd s) = ja_storage_name ` set (job_artifacts (fst s)) \<and>
     (\<forall>a \<in> set (job_artifacts (fst s)). file_ok env cfg secret (snd s) a) \<and>
     (\<forall>i. int (length (job_artifacts_of (fst s) i)) \<le> xc_max_artifacts_per_job cfg) \<and>
     sum_list (map ja_size_bytes (job_artifacts (fst s))) \<le> xc_artifact_quota_bytes cfg"

lemma cleanup_artifacts_eq:
  assumes "artifact_inv env cfg secret (db, d)"
  shows "snd (cleanup_artifacts now (db, d)) =
    (let kept = filter (\<lambda>a. now < ja_expires_at a) (job_artifacts db)
     in (db\<lparr>job_artifacts := kept\<rparr>, filter (\<lambda>(n, _). n \<in> ja_storage_name ` set kept) d))"
proof -
  let ?kept = "filter (\<lambda>a. now < ja_expires_at a) (job_artifacts db)"
  have kept: "filter (\<lambda>a. \<not> ja_expires_at a \<le> now) (job_artifacts db) = ?kept" by (simp add: not_le)
  have disjoint: "ja_storage_name a \<noteq> ja_storage_name b"
    if "a \<in> set ?kept" "b \<in> set (expired_artifacts now db)" for a b
  proof
    assume "ja_storage_name a = ja_storage_name b"
    moreover have "inj_on ja_storage_name (set (job_artifacts db))"
      using assms by (simp add: artifact_inv_def distinct_map)
    ultimately have "a = b" using that by (auto simp: expired_artifacts_def dest: inj_onD)
    then show False using that by (auto simp: expired_artifacts_def)
  qed
  have "filter (\<lambda>(n, _). n \<in> set (map ja_storage_name ?kept))
      (filter (\<lambda>(n, _). n \<notin> set (map ja_storage_name (expired_artifacts now db))) d)
    = filter (\<lambda>(n, _). n \<in> ja_storage_name ` set ?kept) d"
    using disjoint by (auto intro!: filter_cong)
  then show ?thesis
    by (simp only: cleanup_artifacts_def cleanup_records_def cleanup_files_def Let_def prod.case
      remove_files kept fst_conv snd_conv)
qed

lemma sum_list_filter_le: "(\<And>x. x \<in> set xs \<Longrightarrow> 0 \<le> f x) \<Longrightarrow> sum_list (map f (filter p xs)) \<le> sum_list (map f xs)"
  for f :: "'b \<Rightarrow> int"
  by (induction xs) (auto intro: add_increasing)

lemma file_ok_size: "file_ok env cfg secret d a \<Longrightarrow> 0 \<le> ja_size_bytes a"
  by (auto simp: file_ok_def)

lemma length_filter_le_mono: "length (filter p (filter q xs)) \<le> length (filter p xs)"
  by (induction xs) (auto intro: le_SucI)

lemma cleanup_artifacts_inv:
  assumes inv: "artifact_inv env cfg secret s"
  shows "artifact_inv env cfg secret (snd (cleanup_artifacts now s)) \<and>
    (\<forall>a \<in> set (job_artifacts (fst (snd (cleanup_artifacts now s)))). now < ja_expires_at a)"
proof -
  obtain db d where s: "s = (db, d)" by (cases s)
  let ?kept = "filter (\<lambda>a. now < ja_expires_at a) (job_artifacts db)"
  let ?d = "filter (\<lambda>(n, _). n \<in> ja_storage_name ` set ?kept) d"
  have eq: "snd (cleanup_artifacts now s) = (db\<lparr>job_artifacts := ?kept\<rparr>, ?d)"
    using cleanup_artifacts_eq [OF inv [unfolded s]] by (simp add: s Let_def)
  have files: "\<forall>a \<in> set ?kept. file_ok env cfg secret ?d a"
    using inv by (auto simp: artifact_inv_def s file_ok_def map_of_filter_key)
  have names: "fst ` set ?d = ja_storage_name ` set ?kept"
  proof -
    have "fst ` set ?d = fst ` set d \<inter> ja_storage_name ` set ?kept" by force
    also have "\<dots> = ja_storage_name ` set ?kept" using inv by (auto simp: artifact_inv_def s)
    finally show ?thesis .
  qed
  have count: "int (length (job_artifacts_of (db\<lparr>job_artifacts := ?kept\<rparr>) i)) \<le> xc_max_artifacts_per_job cfg" for i
  proof -
    have "int (length (job_artifacts_of db i)) \<le> xc_max_artifacts_per_job cfg"
      using inv by (simp add: artifact_inv_def s)
    moreover have "length (job_artifacts_of (db\<lparr>job_artifacts := ?kept\<rparr>) i) \<le> length (job_artifacts_of db i)"
      unfolding job_artifacts_of_def by (simp add: length_filter_le_mono del: filter_filter)
    ultimately show ?thesis by linarith
  qed
  have size: "sum_list (map ja_size_bytes ?kept) \<le> xc_artifact_quota_bytes cfg"
    using sum_list_filter_le [of "job_artifacts db" ja_size_bytes "\<lambda>a. now < ja_expires_at a"] inv
    by (fastforce simp: artifact_inv_def s dest: file_ok_size)
  show ?thesis using inv files names count size unfolding eq
    by (simp add: artifact_inv_def s distinct_map_filter)
qed

lemma file_ok_other:
  "file_ok env cfg secret d a \<Longrightarrow> name \<noteq> ja_storage_name a \<Longrightarrow>
   file_ok env cfg secret ((name, content) # d) a"
  by (simp add: file_ok_def)

lemma job_artifacts_of_insert:
  "job_artifacts db' = insert_row a (job_artifacts db) \<Longrightarrow>
   job_artifacts_of db' i = job_artifacts_of db i @ (if ja_job_id a = i then [a] else [])"
  by (simp add: job_artifacts_of_def)

lemma all_used: "\<forall>a \<in> set (job_artifacts db). now < ja_expires_at a \<Longrightarrow>
    used_bytes now db = sum_list (map ja_size_bytes (job_artifacts db))"
  unfolding used_bytes_def by (metis filter_True)

lemma bind_artifact_inv:
  assumes inv: "artifact_inv env cfg secret (db, d)"
    and live: "\<forall>b \<in> set (job_artifacts db). now < ja_expires_at b"
    and out: "bind_artifact env cfg secret i ch content a now (db, d) = (r, db', d')"
    and fresh: "ja_storage_name a \<notin> fst ` set d"
    and a: "ja_job_id a = i" "is_prefix PNG_MAGIC content" "int (length content) = ja_size_bytes a"
      "sha256_hex env content = ja_sha256 a" "ja_size_bytes a \<le> xc_max_artifact_bytes cfg"
      "ARTIFACT_ID_RE (ja_artifact_id a)" "ch_size_bytes ch = ja_size_bytes a"
  shows "artifact_inv env cfg secret (db', d')"
  using out
proof (cases rule: bind_artifact_cases)
  case refused
  moreover have "remove_file n ((n, content) # d) = remove_file n d" for n by (simp add: remove_file_def)
  ultimately show ?thesis using inv fresh by (auto simp: remove_file_absent)
next
  case (again row b v)
  then show ?thesis using inv by (simp add: artifact_inv_def observe_artifact_def job_artifacts_of_def)
next
  case (stored row db1 v)
  have d': "d' = (ja_storage_name a, content) # d" using stored fresh by (simp add: remove_file_absent)
  from stored(6) have new: "ja_artifact_id a \<notin> ja_artifact_id ` set (job_artifacts db)"
    "ja_storage_name a \<notin> ja_storage_name ` set (job_artifacts db)"
    "ja_download_token_hash a \<notin> ja_download_token_hash ` set (job_artifacts db)"
    by (auto simp: insert_artifact_def split: if_splits)
  have "file_ok env cfg secret d' a"
    using a stored(9) by (simp add: file_ok_def d')
  moreover have "\<forall>b \<in> set (job_artifacts db). file_ok env cfg secret d' b"
    using inv new(2) unfolding d' by (auto simp: artifact_inv_def intro!: file_ok_other)
  moreover have "int (length (job_artifacts_of db' k)) \<le> xc_max_artifacts_per_job cfg" for k
    using inv stored(4) a(1) unfolding job_artifacts_of_insert [OF stored(8)]
    by (auto simp: artifact_inv_def)
  moreover have "sum_list (map ja_size_bytes (job_artifacts db')) \<le> xc_artifact_quota_bytes cfg"
    using stored(5) a(7) all_used [OF live] by (simp add: stored(8))
  ultimately show ?thesis
    using inv new fresh unfolding artifact_inv_def
    by (simp add: stored(8) d')
qed

lemma new_artifact_simps [simp]:
  "ja_job_id (new_artifact env cfg i ch digest random name token now) = i"
  "ja_storage_name (new_artifact env cfg i ch digest random name token now) = name"
  "ja_size_bytes (new_artifact env cfg i ch digest random name token now) = ch_size_bytes ch"
  "ja_sha256 (new_artifact env cfg i ch digest random name token now) = digest"
  "ja_artifact_id (new_artifact env cfg i ch digest random name token now) = new_artifact_id random"
  by (simp_all add: new_artifact_def)

lemma validate_chart_Inr:
  "validate_chart env cfg chart content = Inr ch \<Longrightarrow>
   is_prefix PNG_MAGIC content \<and> ch_size_bytes ch = int (length content) \<and>
   int (length content) \<le> xc_max_artifact_bytes cfg"
  by (auto simp: validate_chart_def bind_result_Inr_iff split: json.splits if_splits)

text \<open>What a capture does once its chart is accepted: a cleanup, then the transaction.\<close>

lemma capture_cases:
  assumes "capture_chart_artifact env cfg secret i chart content random name now s = (r, s')"
  obtains (early) e where "r = Inl e" "s' = s \<or> s' = snd (cleanup_artifacts now s)"
  | (late) ch token where "validate_chart env cfg chart content = Inr ch"
      "bind_artifact env cfg secret i ch content
         (new_artifact env cfg i ch (sha256_hex env content) random (name @ ''.png'') token now) now
         (snd (cleanup_artifacts now s)) = (r, s')"
proof (cases "i = []")
  case False
  show ?thesis
  proof (cases "validate_chart env cfg chart content")
    case (Inl e)
    then show ?thesis using assms early False by (auto simp: capture_chart_artifact_def)
  next
    case (Inr ch)
    show ?thesis
    proof (cases "download_token env secret (new_artifact_id random)
        (now + seconds (xc_artifact_ttl_seconds cfg))")
      case (Inl e)
      then show ?thesis using assms early False Inr
        by (auto simp: capture_chart_artifact_def split: prod.splits)
    next
      case (Inr token)
      show ?thesis
        by (rule late [OF \<open>validate_chart env cfg chart content = Inr ch\<close>, of token])
          (use assms False Inr \<open>validate_chart env cfg chart content = Inr ch\<close> in
            \<open>simp add: capture_chart_artifact_def split: prod.splits\<close>)
    qed
  qed
qed (use assms early in \<open>auto simp: capture_chart_artifact_def codex_error_def\<close>)

lemma cleaned_disk: "artifact_inv env cfg secret s \<Longrightarrow>
    fst ` set (snd (snd (cleanup_artifacts now s))) \<subseteq> fst ` set (snd s)"
  using cleanup_artifacts_eq [of env cfg secret "fst s" "snd s" now] by (auto simp: Let_def)

lemma capture_inv:
  assumes inv: "artifact_inv env cfg secret s" and "name @ ''.png'' \<notin> fst ` set (snd s)"
    and "length random = 16"
  shows "artifact_inv env cfg secret
    (snd (capture_chart_artifact env cfg secret i chart content random name now s))"
proof -
  let ?s1 = "snd (cleanup_artifacts now s)"
  obtain r s' where out: "capture_chart_artifact env cfg secret i chart content random name now s = (r, s')"
    by (cases "capture_chart_artifact env cfg secret i chart content random name now s")
  note c = cleanup_artifacts_inv [OF inv, of now]
  from out have "artifact_inv env cfg secret s'"
  proof (cases rule: capture_cases)
    case early
    then show ?thesis using inv c by auto
  next
    case (late ch token)
    obtain db d db' d' where sd: "?s1 = (db, d)" "s' = (db', d')" by (cases ?s1, cases s')
    have "name @ ''.png'' \<notin> fst ` set d" using assms(2) cleaned_disk [OF inv, of now] by (auto simp: sd)
    then show ?thesis unfolding sd
      by (intro bind_artifact_inv [OF _ _ late(2) [unfolded sd]])
        (use c validate_chart_Inr [OF late(1)] new_artifact_id_re [OF assms(3)] in \<open>simp_all add: sd\<close>)
  qed
  then show ?thesis by (simp add: out)
qed

lemma artifact_inv_same:
  "artifact_inv env cfg secret (db, d) \<Longrightarrow> job_artifacts db' = job_artifacts db \<Longrightarrow>
   artifact_inv env cfg secret (db', d)"
  by (simp add: artifact_inv_def job_artifacts_of_def)

lemma step_artifact_inv:
  assumes "codex_step env cfg secret s s'" and "artifact_inv env cfg secret s"
  shows "artifact_inv env cfg secret s'"
  using assms
  by cases (auto intro: artifact_inv_same capture_inv dest: cleanup_artifacts_inv)

lemma artifact_inv_start:
  "0 \<le> xc_max_artifacts_per_job cfg \<Longrightarrow> 0 \<le> xc_artifact_quota_bytes cfg \<Longrightarrow>
   artifact_inv env cfg secret (empty_codex_db, [])"
  by (simp add: artifact_inv_def empty_codex_db_def job_artifacts_of_def)

lemma codex_config_bounds:
  "0 \<le> xc_max_artifacts_per_job (codex_config_of c)" "0 \<le> xc_artifact_quota_bytes (codex_config_of c)"
  "300 \<le> xc_artifact_ttl_seconds (codex_config_of c)"
  by (auto simp: codex_config_of_def Let_def)

interpretation artifact_system: inv_system "(empty_codex_db, [])" "codex_step env (codex_config_of c) secret"
  "artifact_inv env (codex_config_of c) secret" for env c secret
  by unfold_locales
    (auto intro: step_artifact_inv artifact_inv_start codex_config_bounds)

section \<open>Bounds\<close>




definition png0 :: string where
  "png0 = PNG_MAGIC @ ''data''"

definition chart0 :: json where
  "chart0 = JObj [(''download_ref'', JStr (''summary-'' @ replicate 32 (CHR ''a'') @ ''.png'')),
     (''size_bytes'', JInt 12), (''sha256'', JStr (hash64 (CHR ''a''))), (''width'', JInt 10),
     (''height'', JInt 10), (''summary'', JObj [(''transaction_count'', JInt 2), (''net_amount'', JStr ''1.50'')])]"

definition secret_key0 :: "string option" where
  "secret_key0 = Some (replicate 32 (CHR ''k''))"

definition random0 :: string where
  "random0 = replicate 16 (CHR ''r'')"

definition codex_cfg1 :: codex_config where
  "codex_cfg1 = codex_config_of codex_cfg0"

lemma codex_cfg1_eq: "codex_cfg1 = codex_cfg0"
  by (simp add: codex_cfg1_def codex_config_of_def codex_cfg0_def Let_def)

definition capture_run0 :: "artifact_view result \<times> codex_db \<times> disk" where
  "capture_run0 = capture_chart_artifact artifact_env0 codex_cfg0 secret_key0 ''J1'' chart0 png0 random0 ''u1'' 9 (codex4, [])"


definition chart_record0 :: chart where
  "chart_record0 = \<lparr>ch_size_bytes = 12, ch_width = 10, ch_height = 10,
     ch_summary = JObj [(''transaction_count'', JInt 2), (''net_amount'', JStr ''1.50'')],
     ch_result_summary = chart_text_start @ ''2'' @ chart_text_mid @ ''1.50'' @ chart_text_end\<rparr>"

lemma validate_chart0: "validate_chart artifact_env0 codex_cfg0 chart0 png0 = Inr chart_record0"
  by code_simp

lemma artifact_env0_hash [simp]: "sha256_hex artifact_env0 s = hash64 (CHR ''a'')"
  by (simp add: artifact_env0_def)

lemma hash64_re: "HEX64_RE (hash64 (CHR ''a''))"
  by (simp add: HEX64_RE_def hash64_def matches_replicate list_all_iff is_hex_lower_def byte_def)

lemma download_token0: "\<exists>t. download_token artifact_env0 secret_key0 i e = Inr t"
  by (simp add: download_token_def secret_key0_def)

lemma public0: "ja_download_token_hash a = hash64 (CHR ''a'') \<Longrightarrow>
    \<exists>v. artifact_public_document artifact_env0 secret_key0 a = Inr v \<and> av_artifact_id v = ja_artifact_id a"
  using download_token0 [of "ja_artifact_id a" "ja_expires_at a"]
  by (auto simp: artifact_public_document_def hash64_re token_hash_def)

lemma codex4_eq:
  "jobs codex4 = [(claimed_job 5 job0)\<lparr>jb_turn_id := Some ''T1'', jb_output_observed := True\<rparr>]"
  "job_artifacts codex4 = []"
  by (rule codex4_jobs) (simp add: codex4_def codex3_code codex2_code codex1_code)

lemma capture_run0_run:
  obtains v where "fst capture_run0 = Inr v" "av_artifact_id v = new_artifact_id random0"
    "snd (snd capture_run0) = [(''u1.png'', png0)]"
proof -
  obtain t where t: "download_token artifact_env0 secret_key0 (new_artifact_id random0)
      (9 + seconds (xc_artifact_ttl_seconds codex_cfg0)) = Inr t" using download_token0 by blast
  let ?a = "new_artifact artifact_env0 codex_cfg0 ''J1'' chart_record0 (hash64 (CHR ''a'')) random0 ''u1.png'' t 9"
  have "ja_download_token_hash ?a = hash64 (CHR ''a'')" by (simp add: new_artifact_def token_hash_def)
  from public0 [OF this] obtain v where v: "artifact_public_document artifact_env0 secret_key0 ?a = Inr v"
    "av_artifact_id v = new_artifact_id random0" by auto
  have clean: "snd (cleanup_artifacts 9 (codex4, [])) = (codex4, [])"
    by (simp add: cleanup_artifacts_def cleanup_records_def cleanup_files_def expired_artifacts_def codex4_eq)
  have "capture_run0 = bind_artifact artifact_env0 codex_cfg0 secret_key0 ''J1'' chart_record0 png0 ?a 9 (codex4, [])"
    using clean by (cases "cleanup_artifacts 9 (codex4, [])")
      (simp add: capture_run0_def capture_chart_artifact_def validate_chart0 t)
  moreover have "fst \<dots> = Inr v \<and> snd (snd \<dots>) = [(''u1.png'', png0)]"
    by (simp add: bind_artifact_def find_job_def codex4_eq codex_jobs job_artifacts_of_def used_bytes_def
      insert_artifact_def event_def observe_artifact_def v remove_file_def)
      (simp add: codex_cfg0_def chart_record0_def)
  ultimately show thesis using that v(2) by simp
qed

lemma capture_run0_config:
  "reach (empty_codex_db, []) (codex_step artifact_env0 (codex_config_of codex_cfg0) secret) (codex4, [])"
  "capture_chart_artifact artifact_env0 (codex_config_of codex_cfg0) secret_key0 ''J1'' chart0 png0 random0 ''u1'' 9
     (codex4, []) = capture_run0"
  using codex_reach(4) codex_cfg1_eq by (simp_all add: codex_cfg1_def capture_run0_def)



section \<open>Reading what was captured\<close>


lemma public_document_Inr:
  assumes "artifact_public_document env secret a = Inr v"
  shows "av_artifact_id v = ja_artifact_id a \<and>
    download_token env secret (ja_artifact_id a) (ja_expires_at a) = Inr (av_token v) \<and>
    token_hash env (av_token v) = ja_download_token_hash a"
  using assms by (auto simp: artifact_public_document_def bind_result_Inr_iff codex_error_def split: if_splits)


text \<open>The row an accepted capture answers with, and its file.\<close>

lemma capture_row:
  assumes inv: "artifact_inv env cfg secret s" and fresh: "name @ ''.png'' \<notin> fst ` set (snd s)"
    and "length random = 16" and ttl: "0 < xc_artifact_ttl_seconds cfg"
    and out: "capture_chart_artifact env cfg secret i chart content random name now s = (Inr v, s')"
  obtains a c where "a \<in> set (job_artifacts (fst s'))" "ja_job_id a = i" "now < ja_expires_at a"
    "artifact_public_document env secret a = Inr v" "map_of (snd s') (ja_storage_name a) = Some c"
    "sha256_hex env c = sha256_hex env content"
    "(\<forall>b \<in> set (job_artifacts (fst s)). \<not> (ja_job_id b = i \<and> ja_sha256 b = sha256_hex env content))
       \<Longrightarrow> c = content \<and> ja_storage_name a = name @ ''.png''"
  using out
proof (cases rule: capture_cases)
  case (late ch token)
  let ?a = "new_artifact env cfg i ch (sha256_hex env content) random (name @ ''.png'') token now"
  let ?s1 = "snd (cleanup_artifacts now s)"
  obtain db d db' d' where sd: "?s1 = (db, d)" "s' = (db', d')" by (cases ?s1, cases s')
  note c = cleanup_artifacts_inv [OF inv, of now]
  have rows: "set (job_artifacts db) \<subseteq> set (job_artifacts (fst s))"
    using cleanup_artifacts_eq [of env cfg secret "fst s" "snd s" now] inv sd(1) by (auto simp: Let_def)
  from late(2) [unfolded sd] show thesis
  proof (cases rule: bind_artifact_cases)
    case (refused e)
    then show ?thesis by simp
  next
    case (again row b w)
    then have w: "w = v" "job_artifacts db' = job_artifacts db" by (simp_all add: observe_artifact_def)
    have "file_ok env cfg secret d b" using c again(3) by (simp add: artifact_inv_def sd)
    then obtain c0 where "map_of d (ja_storage_name b) = Some c0" "sha256_hex env c0 = ja_sha256 b"
      by (auto simp: file_ok_def)
    moreover have "now < ja_expires_at b" using c again(3) by (simp add: sd)
    ultimately show ?thesis
      using again w rows by (intro that [of b c0]) (auto simp: sd)
  next
    case (stored row db1 w)
    then have w: "w = v" by simp
    have "now < ja_expires_at ?a" using ttl by (simp add: new_artifact_def seconds_def)
    moreover have "?a \<in> set (job_artifacts (fst s'))" using stored(8) by (simp add: sd)
    moreover have "map_of (snd s') (ja_storage_name ?a) = Some content" using stored(11) by (simp add: sd)
    ultimately show ?thesis using stored(9) unfolding w by (intro that [of ?a content]) simp_all
  qed
qed simp



section \<open>A cleanup in between\<close>

text \<open>C33: The two halves of a cleanup are not one step.  When a new artifact is captured after a cleanup
  has read the names still tracked and before it removes the files that are not among them, the cleanup
  deletes the file of the new artifact: the capture was answered, its row is kept, and every later
  download finds nothing.\<close>

theorem cleanup_loses_new_artifact:
  assumes "reach (empty_codex_db, []) (codex_step env (codex_config_of c) secret) s"
    and "cleanup_records t0 s = ((removed, tracked), s1)"
    and "capture_chart_artifact env (codex_config_of c) secret i chart content random name now s1 = (Inr v, (db, d))"
    and "name @ ''.png'' \<notin> fst ` set (snd s)" and "length random = 16"
    and "\<forall>b \<in> set (job_artifacts (fst s)). \<not> (ja_job_id b = i \<and> ja_sha256 b = sha256_hex env content)"
  shows "(\<exists>a \<in> set (job_artifacts db). ja_job_id a = i \<and> ja_artifact_id a = av_artifact_id v) \<and>
    read_download_artifact env secret (av_token v) t (db, snd (cleanup_files tracked d))
      = Inl (StoreError ''artifact_not_found'')"
proof -
  have inv: "artifact_inv env (codex_config_of c) secret s" by (rule artifact_system.invariant [OF assms(1)])
  have s1: "s1 = snd (cleanup_artifacts t0 s)"
  proof -
    have eq: "snd (cleanup_artifacts t0 s) = (fst s1, snd (cleanup_files tracked (snd s1)))"
      by (cases s1) (simp add: cleanup_artifacts_def assms(2) split: prod.splits)
    have d1: "snd s1 = filter (\<lambda>(n, _). n \<notin> ja_storage_name ` set (expired_artifacts t0 (fst s))) (snd s)"
      and tr: "set tracked = ja_storage_name ` {a \<in> set (job_artifacts (fst s)). \<not> ja_expires_at a \<le> t0}"
      using assms(2) by (auto simp: cleanup_records_def remove_files Let_def split: prod.splits)
    have "n \<in> set tracked" if "(n, x) \<in> set (snd s1)" for n x
    proof -
      have "n \<in> fst ` set (snd s)" "n \<notin> ja_storage_name ` set (expired_artifacts t0 (fst s))"
        using that by (force simp: d1)+
      moreover from this(1) inv have "n \<in> ja_storage_name ` set (job_artifacts (fst s))"
        by (simp add: artifact_inv_def)
      ultimately show ?thesis by (auto simp: tr expired_artifacts_def)
    qed
    then have "snd (cleanup_files tracked (snd s1)) = snd s1"
      by (auto simp: cleanup_files_def Let_def filter_id_conv)
    then show ?thesis using eq by simp
  qed
  have inv1: "artifact_inv env (codex_config_of c) secret s1"
    using cleanup_artifacts_inv [OF inv, of t0] by (simp add: s1)
  have rows: "set (job_artifacts (fst s1)) \<subseteq> set (job_artifacts (fst s))"
    and names: "fst ` set (snd s1) \<subseteq> fst ` set (snd s)"
    using cleanup_artifacts_eq [of env _ secret "fst s" "snd s" t0] inv cleaned_disk [OF inv, of t0]
    by (auto simp: s1 Let_def)
  have fresh: "name @ ''.png'' \<notin> fst ` set (snd s1)" using assms(4) names by blast
  have ttl: "0 < xc_artifact_ttl_seconds (codex_config_of c)" using codex_config_bounds(3) [of c] by linarith
  have new: "\<forall>b \<in> set (job_artifacts (fst s1)). \<not> (ja_job_id b = i \<and> ja_sha256 b = sha256_hex env content)"
    using assms(6) rows by blast
  obtain a where
    a: "a \<in> set (job_artifacts db)" "ja_job_id a = i" "artifact_public_document env secret a = Inr v"
      "ja_storage_name a = name @ ''.png''"
    by (rule capture_row [OF inv1 fresh assms(5) ttl assms(3)]) (use new in auto)
  have inv2: "artifact_inv env (codex_config_of c) secret (db, d)"
    using capture_inv [OF inv1 fresh assms(5), where now = now] assms(3) by (metis snd_conv)
  have "name @ ''.png'' \<notin> set tracked"
    using assms(2,4) inv by (auto simp: cleanup_records_def artifact_inv_def Let_def split: prod.splits)
  then have gone: "map_of (snd (cleanup_files tracked d)) (ja_storage_name a) = None"
    by (simp add: cleanup_files_def Let_def map_of_filter_key a(4))
  have eq: "b = a" if "b \<in> set (job_artifacts db)" "ja_download_token_hash b = token_hash env (av_token v)" for b
    using that a(1) inv2 public_document_Inr [OF a(3)] by (auto simp: artifact_inv_def distinct_map dest: inj_onD)
  have "read_download_artifact env secret (av_token v) t (db, snd (cleanup_files tracked d))
      = Inl (StoreError ''artifact_not_found'')"
    using eq gone by (auto simp: read_download_artifact_def codex_error_def read_artifact_row_def
      dest!: select_one_Some_iff split: option.splits)
  with a public_document_Inr [OF a(3)] show ?thesis by auto
qed

theorem cleanup_loses_new_artifact_witness:
  "\<exists>v db d. capture_run0 = (Inr v, db, d) \<and>
     read_download_artifact artifact_env0 secret_key0 (av_token v) 10 (db, snd (cleanup_files [] d))
       = Inl (StoreError ''artifact_not_found'')"
proof (rule capture_run0_run)
  fix v assume v: "fst capture_run0 = Inr v"
  have out: "capture_run0 = (Inr v, fst (snd capture_run0), snd (snd capture_run0))"
    using v by (simp add: prod_eq_iff)
  have "cleanup_records 8 (codex4, []) = ((0, []), (codex4, []))"
    by (simp add: cleanup_records_def expired_artifacts_def codex4_eq)
  from cleanup_loses_new_artifact [OF capture_run0_config(1) this trans [OF capture_run0_config(2) out], of 10]
  show ?thesis by (intro exI conjI) (rule out, simp add: random0_def codex4_eq)
qed

end
