(* ===== verification/Prepare_Car.thy ===== *)
theory Prepare_Car
  imports Codex_Jobs
begin

text \<open>
  The prepare-car switch: \<open>prepare_car.py\<close>, the confirmations of \<open>store.py\<close> and
  \<open>_prepare_car_call\<close> of \<open>tool_proxy.py\<close>.  A request of the owner waits for a confirmation in the next
  message; the confirmation is claimed, the entity is read, and the service is called.  The calls are
  machines with one phase per access to the store and to Home Assistant, so that other calls and
  crashes can come between.  An instant is in microseconds; \<open>isoformat(timespec="seconds")\<close> stores the
  whole second.
\<close>

section \<open>Intents\<close>

text \<open>The exact commands, in UTF-8.\<close>

definition STATUS_COMMANDS :: "string set" where
  "STATUS_COMMANDS =
     {[CHR 0xE5, CHR 0xA4, CHR 0x87, CHR 0xE8, CHR 0xBD, CHR 0xA6, CHR 0xE7, CHR 0x8A, CHR 0xB6,
       CHR 0xE6, CHR 0x80, CHR 0x81],
      [CHR 0xE6, CHR 0x9F, CHR 0xA5, CHR 0xE7, CHR 0x9C, CHR 0x8B, CHR 0xE5, CHR 0xA4, CHR 0x87,
       CHR 0xE8, CHR 0xBD, CHR 0xA6, CHR 0xE7, CHR 0x8A, CHR 0xB6, CHR 0xE6, CHR 0x80, CHR 0x81],
      [CHR 0xE6, CHR 0x9F, CHR 0xA5, CHR 0xE8, CHR 0xAF, CHR 0xA2, CHR 0xE5, CHR 0xA4, CHR 0x87,
       CHR 0xE8, CHR 0xBD, CHR 0xA6, CHR 0xE7, CHR 0x8A, CHR 0xB6, CHR 0xE6, CHR 0x80, CHR 0x81],
      [CHR 0xE7, CHR 0x8E, CHR 0xB0, CHR 0xE5, CHR 0x9C, CHR 0xA8, CHR 0xE5, CHR 0xA4, CHR 0x87,
       CHR 0xE8, CHR 0xBD, CHR 0xA6, CHR 0xE4, CHR 0xBA, CHR 0x86, CHR 0xE5, CHR 0x90, CHR 0x97],
      [CHR 0xE5, CHR 0xA4, CHR 0x87, CHR 0xE8, CHR 0xBD, CHR 0xA6, CHR 0xE5, CHR 0xBC, CHR 0x80,
       CHR 0xE4, CHR 0xBA, CHR 0x86, CHR 0xE5, CHR 0x90, CHR 0x97]}"

definition ENABLE_REQUEST_COMMANDS :: "string set" where
  "ENABLE_REQUEST_COMMANDS =
     {[CHR 0xE5, CHR 0xA4, CHR 0x87, CHR 0xE8, CHR 0xBD, CHR 0xA6],
      [CHR 0xE5, CHR 0xBC, CHR 0x80, CHR 0xE5, CHR 0xA7, CHR 0x8B, CHR 0xE5, CHR 0xA4, CHR 0x87,
       CHR 0xE8, CHR 0xBD, CHR 0xA6],
      [CHR 0xE5, CHR 0xBC, CHR 0x80, CHR 0xE5, CHR 0x90, CHR 0xAF, CHR 0xE5, CHR 0xA4, CHR 0x87,
       CHR 0xE8, CHR 0xBD, CHR 0xA6],
      [CHR 0xE6, CHR 0x89, CHR 0x93, CHR 0xE5, CHR 0xBC, CHR 0x80, CHR 0xE5, CHR 0xA4, CHR 0x87,
       CHR 0xE8, CHR 0xBD, CHR 0xA6]}"

definition DISABLE_REQUEST_COMMANDS :: "string set" where
  "DISABLE_REQUEST_COMMANDS =
     {[CHR 0xE5, CHR 0x81, CHR 0x9C, CHR 0xE6, CHR 0xAD, CHR 0xA2, CHR 0xE5, CHR 0xA4, CHR 0x87,
       CHR 0xE8, CHR 0xBD, CHR 0xA6],
      [CHR 0xE5, CHR 0x85, CHR 0xB3, CHR 0xE9, CHR 0x97, CHR 0xAD, CHR 0xE5, CHR 0xA4, CHR 0x87,
       CHR 0xE8, CHR 0xBD, CHR 0xA6],
      [CHR 0xE7, CHR 0xBB, CHR 0x93, CHR 0xE6, CHR 0x9D, CHR 0x9F, CHR 0xE5, CHR 0xA4, CHR 0x87,
       CHR 0xE8, CHR 0xBD, CHR 0xA6]}"

definition ENABLE_CONFIRM_COMMANDS :: "string set" where
  "ENABLE_CONFIRM_COMMANDS =
     {[CHR 0xE7, CHR 0xA1, CHR 0xAE, CHR 0xE8, CHR 0xAE, CHR 0xA4, CHR 0xE5, CHR 0xA4, CHR 0x87,
       CHR 0xE8, CHR 0xBD, CHR 0xA6],
      [CHR 0xE7, CHR 0xA1, CHR 0xAE, CHR 0xE8, CHR 0xAE, CHR 0xA4, CHR 0xE5, CHR 0xBC, CHR 0x80,
       CHR 0xE5, CHR 0xA7, CHR 0x8B, CHR 0xE5, CHR 0xA4, CHR 0x87, CHR 0xE8, CHR 0xBD, CHR 0xA6],
      [CHR 0xE7, CHR 0xA1, CHR 0xAE, CHR 0xE8, CHR 0xAE, CHR 0xA4, CHR 0xE5, CHR 0xBC, CHR 0x80,
       CHR 0xE5, CHR 0x90, CHR 0xAF, CHR 0xE5, CHR 0xA4, CHR 0x87, CHR 0xE8, CHR 0xBD, CHR 0xA6]}"

definition DISABLE_CONFIRM_COMMANDS :: "string set" where
  "DISABLE_CONFIRM_COMMANDS =
     {[CHR 0xE7, CHR 0xA1, CHR 0xAE, CHR 0xE8, CHR 0xAE, CHR 0xA4, CHR 0xE5, CHR 0x81, CHR 0x9C,
       CHR 0xE6, CHR 0xAD, CHR 0xA2, CHR 0xE5, CHR 0xA4, CHR 0x87, CHR 0xE8, CHR 0xBD, CHR 0xA6],
      [CHR 0xE7, CHR 0xA1, CHR 0xAE, CHR 0xE8, CHR 0xAE, CHR 0xA4, CHR 0xE5, CHR 0x85, CHR 0xB3,
       CHR 0xE9, CHR 0x97, CHR 0xAD, CHR 0xE5, CHR 0xA4, CHR 0x87, CHR 0xE8, CHR 0xBD, CHR 0xA6],
      [CHR 0xE7, CHR 0xA1, CHR 0xAE, CHR 0xE8, CHR 0xAE, CHR 0xA4, CHR 0xE7, CHR 0xBB, CHR 0x93,
       CHR 0xE6, CHR 0x9D, CHR 0x9F, CHR 0xE5, CHR 0xA4, CHR 0x87, CHR 0xE8, CHR 0xBD, CHR 0xA6]}"

definition POLITE_PREFIXES :: "string list" where
  "POLITE_PREFIXES =
     [[CHR 0xE8, CHR 0xAF, CHR 0xB7, CHR 0xE5, CHR 0xB8, CHR 0xAE, CHR 0xE6, CHR 0x88, CHR 0x91],
      [CHR 0xE5, CHR 0xB8, CHR 0xAE, CHR 0xE6, CHR 0x88, CHR 0x91],
      [CHR 0xE8, CHR 0xAF, CHR 0xB7, CHR 0xE9, CHR 0x97, CHR 0xAE],
      [CHR 0xE8, CHR 0xAF, CHR 0xB7]]"

definition is_punctuation :: "string \<Rightarrow> bool" where
  "is_punctuation u \<longleftrightarrow> is_space u \<or> u \<in>
     {[CHR 0xEF, CHR 0xBC, CHR 0x8C], [CHR 0x2C], [CHR 0xE3, CHR 0x80, CHR 0x82], [CHR 0x2E],
      [CHR 0x21], [CHR 0xEF, CHR 0xBC, CHR 0x81], [CHR 0x3F], [CHR 0xEF, CHR 0xBC, CHR 0x9F],
      [CHR 0x3B], [CHR 0xEF, CHR 0xBC, CHR 0x9B], [CHR 0x3A], [CHR 0xEF, CHR 0xBC, CHR 0x9A]}"

definition without_politeness :: "string \<Rightarrow> string" where
  "without_politeness s =
     (case find (\<lambda>p. is_prefix p s) POLITE_PREFIXES of None \<Rightarrow> s | Some p \<Rightarrow> drop (length p) s)"

datatype car_intent = Intent_status | Intent_request bool | Intent_execute bool

definition prepare_car_intent :: "doc \<Rightarrow> car_intent option" where
  "prepare_car_intent payload =
     (case (get_field payload ''text'', get_field payload ''attachments'') of
        (JStr text, JList []) \<Rightarrow>
          (let normalized = without_politeness
                 (concat (filter (\<lambda>u. \<not> is_punctuation u) (uchars (py_strip text))))
           in if normalized \<in> STATUS_COMMANDS then Some Intent_status
              else if normalized \<in> ENABLE_REQUEST_COMMANDS then Some (Intent_request True)
              else if normalized \<in> DISABLE_REQUEST_COMMANDS then Some (Intent_request False)
              else if normalized \<in> ENABLE_CONFIRM_COMMANDS then Some (Intent_execute True)
              else if normalized \<in> DISABLE_CONFIRM_COMMANDS then Some (Intent_execute False)
              else None)
      | _ \<Rightarrow> None)"

section \<open>Confirmations\<close>

datatype confirmation_state =
  Pc_pending | Pc_executing | Pc_submitted | Pc_failed | Pc_unknown | Pc_cancelled | Pc_expired

record confirmation =
  pc_id :: string
  pc_conversation_key :: string
  pc_request_message_id :: string
  pc_execute_message_id :: "string option"
  pc_target_on :: bool
  pc_state :: confirmation_state
  pc_requested_at :: int
  pc_expires_at :: int
  pc_consumed_at :: "int option"
  pc_completed_at :: "int option"
  pc_result :: "doc option"
  pc_error_code :: "string option"

text \<open>The keys of the conversations, which the foreign key refers to, and the confirmations.\<close>

record car_db =
  car_conversations :: "string list"
  confirmations :: "confirmation list"

record confirmation_view =
  pv_confirmation_id :: string
  pv_state :: confirmation_state
  pv_target :: bool
  pv_requested_at :: int
  pv_expires_at :: int
  pv_error_code :: "string option"
  pv_result :: "doc option"
  pv_idempotent_replay :: bool

definition confirmation_document :: "bool \<Rightarrow> confirmation \<Rightarrow> confirmation_view" where
  "confirmation_document replay row =
     \<lparr>pv_confirmation_id = pc_id row, pv_state = pc_state row, pv_target = pc_target_on row,
      pv_requested_at = pc_requested_at row, pv_expires_at = pc_expires_at row,
      pv_error_code = pc_error_code row, pv_result = pc_result row, pv_idempotent_replay = replay\<rparr>"

definition update_confirmations :: "(confirmation \<Rightarrow> bool) \<Rightarrow> (confirmation \<Rightarrow> confirmation) \<Rightarrow> car_db \<Rightarrow> car_db" where
  "update_confirmations p f db = db\<lparr>confirmations := update_where p f (confirmations db)\<rparr>"

definition pending_in :: "string \<Rightarrow> confirmation \<Rightarrow> bool" where
  "pending_in key row \<longleftrightarrow> pc_conversation_key row = key \<and> pc_state row = Pc_pending"

definition pending_row :: "string \<Rightarrow> confirmation \<Rightarrow> bool" where
  "pending_row i row \<longleftrightarrow> pc_id row = i \<and> pc_state row = Pc_pending"

text \<open>The UNIQUE columns, the partial index on the pending confirmations, and the foreign key.\<close>

definition insert_confirmation :: "confirmation \<Rightarrow> car_db \<Rightarrow> car_db result" where
  "insert_confirmation row db =
     (if pc_id row \<in> set (map pc_id (confirmations db))
         \<or> pc_request_message_id row \<in> set (map pc_request_message_id (confirmations db))
         \<or> list_ex (pending_in (pc_conversation_key row)) (confirmations db)
         \<or> pc_conversation_key row \<notin> set (car_conversations db)
      then Inl IntegrityError
      else Inr (db\<lparr>confirmations := insert_row row (confirmations db)\<rparr>))"

definition settle :: "confirmation_state \<Rightarrow> string \<Rightarrow> int \<Rightarrow> confirmation \<Rightarrow> confirmation" where
  "settle st code now row =
     row\<lparr>pc_state := st, pc_completed_at := Some (whole_second now), pc_error_code := Some code\<rparr>"

definition car_context_ok :: "string \<Rightarrow> string \<Rightarrow> bool" where
  "car_context_ok key message_id \<longleftrightarrow> CONVERSATION_RE key \<and> message_id \<noteq> []"

definition new_confirmation :: "string \<Rightarrow> string \<Rightarrow> string \<Rightarrow> bool \<Rightarrow> int \<Rightarrow> int \<Rightarrow> confirmation" where
  "new_confirmation i key message_id target ttl now =
     \<lparr>pc_id = i, pc_conversation_key = key, pc_request_message_id = message_id,
      pc_execute_message_id = None, pc_target_on = target, pc_state = Pc_pending,
      pc_requested_at = whole_second now, pc_expires_at = whole_second (now + seconds ttl),
      pc_consumed_at = None, pc_completed_at = None, pc_result = None, pc_error_code = None\<rparr>"

definition prepare_car_request ::
  "string \<Rightarrow> string \<Rightarrow> bool \<Rightarrow> int \<Rightarrow> string \<Rightarrow> int \<Rightarrow> car_db \<Rightarrow> confirmation_view result \<times> car_db" where
  "prepare_car_request key message_id target ttl random now =
     immediate (\<lambda>db.
       if \<not> car_context_ok key message_id then codex_error ''prepare_car_context_invalid''
       else if \<not> (30 \<le> ttl \<and> ttl \<le> 300) then codex_error ''prepare_car_request_invalid''
       else case select_one (\<lambda>r. pc_request_message_id r = message_id
                \<or> pc_execute_message_id r = Some message_id) (confirmations db) of
           Some existing \<Rightarrow>
             if pc_request_message_id existing \<noteq> message_id \<or> pc_conversation_key existing \<noteq> key
                \<or> pc_target_on existing \<noteq> target
             then codex_error ''prepare_car_idempotency_conflict''
             else Inr (confirmation_document True existing, db)
         | None \<Rightarrow>
             let row = new_confirmation (''PC-'' @ random) key message_id target ttl now
             in bind_result (insert_confirmation row
                  (update_confirmations (pending_in key) (settle Pc_cancelled ''SUPERSEDED'' now) db))
                  (\<lambda>db1. Inr (confirmation_document False row, db1)))"

definition cancel_prepare_car_pending :: "string \<Rightarrow> string \<Rightarrow> int \<Rightarrow> car_db \<Rightarrow> bool result \<times> car_db" where
  "cancel_prepare_car_pending key next_message_id now =
     immediate (\<lambda>db.
       case select_one (pending_in key) (confirmations db) of
         None \<Rightarrow> Inr (False, db)
       | Some row \<Rightarrow>
           if pc_request_message_id row = next_message_id then Inr (False, db)
           else Inr (rowcount (pending_row (pc_id row)) (confirmations db) = 1,
             update_confirmations (pending_row (pc_id row))
               (settle Pc_cancelled ''NEXT_MESSAGE_CANCELLED'' now) db))"

datatype car_claim =
    Claimed string bool
  | Replayed confirmation_view
  | Replayed_result doc

definition consume :: "string \<Rightarrow> int \<Rightarrow> confirmation \<Rightarrow> confirmation" where
  "consume message_id now row =
     row\<lparr>pc_state := Pc_executing, pc_execute_message_id := Some message_id,
         pc_consumed_at := Some (whole_second now)\<rparr>"

text \<open>
  \<open>claim_prepare_car_execute\<close>.  The expiry and the mismatch commit their update before they raise, so
  the body returns its outcome together with the database to commit.
\<close>

definition car_claim_body ::
  "string \<Rightarrow> string \<Rightarrow> bool \<Rightarrow> int \<Rightarrow> car_db \<Rightarrow> car_claim result \<times> car_db" where
  "car_claim_body key message_id target now db =
     (case select_one (\<lambda>r. pc_execute_message_id r = Some message_id) (confirmations db) of
        Some replay \<Rightarrow>
          if pc_conversation_key replay \<noteq> key \<or> pc_target_on replay \<noteq> target
          then (codex_error ''prepare_car_idempotency_conflict'', db)
          else (case pc_result replay of
              Some result \<Rightarrow> (Inr (Replayed_result (set_field ''idempotent_replay'' (JBool True) result)), db)
            | None \<Rightarrow> (Inr (Replayed (confirmation_document True replay)), db))
      | None \<Rightarrow>
          if list_ex (\<lambda>r. pc_request_message_id r = message_id) (confirmations db)
          then (codex_error ''prepare_car_idempotency_conflict'', db)
          else (case select_one (pending_in key) (confirmations db) of
              None \<Rightarrow> (codex_error ''CONFIRMATION_MISSING'', db)
            | Some row \<Rightarrow>
                if pc_expires_at row \<le> now
                then (codex_error ''CONFIRMATION_EXPIRED'',
                  update_confirmations (pending_row (pc_id row))
                    (settle Pc_expired ''CONFIRMATION_EXPIRED'' now) db)
                else if pc_target_on row \<noteq> target
                then (codex_error ''CONFIRMATION_ACTION_MISMATCH'',
                  update_confirmations (pending_row (pc_id row))
                    (settle Pc_cancelled ''CONFIRMATION_ACTION_MISMATCH'' now) db)
                else (Inr (Claimed (pc_id row) target),
                  update_confirmations (pending_row (pc_id row)) (consume message_id now) db)))"

definition claim_prepare_car_execute ::
  "string \<Rightarrow> string \<Rightarrow> bool \<Rightarrow> int \<Rightarrow> car_db \<Rightarrow> car_claim result \<times> car_db" where
  "claim_prepare_car_execute key message_id target now db =
     (if \<not> car_context_ok key message_id then (codex_error ''prepare_car_context_invalid'', db)
      else car_claim_body key message_id target now db)"

definition finish_state :: "json \<Rightarrow> confirmation_state option" where
  "finish_state status =
     (if status = JStr ''submitted'' \<or> status = JStr ''already_confirmed'' then Some Pc_submitted
      else if status = JStr ''failed'' then Some Pc_failed
      else if status = JStr ''unknown'' then Some Pc_unknown else None)"

definition result_code :: "doc \<Rightarrow> string option result" where
  "result_code result =
     (case get_field result ''error_code'' of
        JNull \<Rightarrow> Inr None
      | JStr s \<Rightarrow> if py_len s > 128 then codex_error ''prepare_car_result_invalid'' else Inr (Some s)
      | _ \<Rightarrow> codex_error ''prepare_car_result_invalid'')"

definition finished_confirmation ::
  "confirmation_state \<Rightarrow> doc \<Rightarrow> string option \<Rightarrow> int \<Rightarrow> confirmation \<Rightarrow> confirmation" where
  "finished_confirmation st result code now row =
     row\<lparr>pc_state := st, pc_completed_at := Some (whole_second now), pc_result := Some result,
         pc_error_code := code\<rparr>"

definition finish_prepare_car_execute ::
  "string \<Rightarrow> doc \<Rightarrow> int \<Rightarrow> car_db \<Rightarrow> doc result \<times> car_db" where
  "finish_prepare_car_execute confirmation_id result now =
     immediate (\<lambda>db.
       if \<not> is_hashable (get_field result ''status'') then Inl TypeError
       else case finish_state (get_field result ''status'') of
           None \<Rightarrow> codex_error ''prepare_car_result_invalid''
         | Some st \<Rightarrow> bind_result (result_code result) (\<lambda>code.
             case select_one (\<lambda>r. pc_id r = confirmation_id) (confirmations db) of
               None \<Rightarrow> codex_error ''prepare_car_confirmation_missing''
             | Some row \<Rightarrow>
                 if pc_state row \<noteq> Pc_executing
                 then (case pc_result row of
                     Some replay \<Rightarrow> Inr (set_field ''idempotent_replay'' (JBool True) replay, db)
                   | None \<Rightarrow> codex_error ''prepare_car_state_conflict'')
                 else Inr (result, update_confirmations
                   (\<lambda>r. pc_id r = confirmation_id \<and> pc_state r = Pc_executing)
                   (finished_confirmation st result code now) db)))"

section \<open>Home Assistant\<close>

definition PREPARE_CAR_ENTITY_ID :: string where
  "PREPARE_CAR_ENTITY_ID = ''switch.wen_jie_m8zeng_cheng_max''"

definition PREPARE_CAR_CONFIRMATION_TTL_SECONDS :: int where
  "PREPARE_CAR_CONFIRMATION_TTL_SECONDS = 120"

definition PREPARE_CAR_TOOL_NAMES :: "string set" where
  "PREPARE_CAR_TOOL_NAMES =
     {''aito_prepare_car_status'', ''aito_prepare_car_request'', ''aito_prepare_car_execute''}"

definition SAFE_ENTITY_ATTRIBUTES :: "string list" where
  "SAFE_ENTITY_ATTRIBUTES =
     [''command_state'', ''command_action'', ''command_requested_at'', ''command_confirmed_at'',
      ''command_error_code'', ''command_cooldown_remaining_seconds'', ''command_readback_attempts'',
      ''plan_status'']"

text \<open>
  What \<open>request_home_assistant\<close> does: it returns a document, raises its own error, with the code and
  whether the outcome is unknown, or lets another exception through.
\<close>

datatype ha_reply = Ha_ok json | Ha_error string bool | Ha_raised exn

text \<open>\<open>request_home_assistant_json\<close>, of what the network does with the request.\<close>

datatype ha_wire = Wire_body string | Wire_http_error string | Wire_unreachable | Wire_raised exn

definition STATES_PATH :: string where
  "STATES_PATH = ''/states/'' @ PREPARE_CAR_ENTITY_ID"

definition request_home_assistant_json ::
  "(string \<Rightarrow> json option) \<Rightarrow> string \<Rightarrow> string \<Rightarrow> string \<Rightarrow> doc option \<Rightarrow> ha_wire \<Rightarrow> ha_reply" where
  "request_home_assistant_json loads meth path token payload wire =
     (if py_len token < 32 then Ha_error ''HA_API_UNAVAILABLE'' False
      else if path \<notin> {STATES_PATH, ''/services/switch/turn_on'', ''/services/switch/turn_off''}
      then Ha_error ''HA_PATH_REJECTED'' False
      else if meth = ''GET'' \<and> (payload \<noteq> None \<or> \<not> is_prefix ''/states/'' path)
      then Ha_error ''HA_REQUEST_REJECTED'' False
      else if meth = ''POST'' \<and> (payload \<noteq> Some [(''entity_id'', JStr PREPARE_CAR_ENTITY_ID)]
              \<or> \<not> is_prefix ''/services/switch/'' path)
      then Ha_error ''HA_REQUEST_REJECTED'' False
      else if meth \<notin> {''GET'', ''POST''} then Ha_error ''HA_METHOD_REJECTED'' False
      else case wire of
          Wire_http_error code \<Rightarrow> Ha_error (''HA_HTTP_'' @ code) False
        | Wire_unreachable \<Rightarrow> Ha_error ''HA_API_UNAVAILABLE'' (meth = ''POST'')
        | Wire_raised e \<Rightarrow> Ha_raised e
        | Wire_body body \<Rightarrow>
            if int (length body) > 2 * 1024 * 1024 then Ha_error ''HA_RESPONSE_TOO_LARGE'' False
            else (case loads body of
                None \<Rightarrow> Ha_error ''HA_RESPONSE_INVALID'' (meth = ''POST'')
              | Some v \<Rightarrow> Ha_ok v))"

text \<open>\<open>safe_entity_state\<close>: a state that is a list or an object is a TypeError of the set test.\<close>

datatype entity_check = Entity_ok doc | Entity_error string | Entity_raised exn

definition entity_document :: "string \<Rightarrow> json \<Rightarrow> doc" where
  "entity_document state attributes =
     (let kvs = (case attributes of JObj kvs \<Rightarrow> kvs | _ \<Rightarrow> [])
      in [(''status'', JStr (if state \<in> {''on'', ''off''} then ''available'' else ''unavailable'')),
          (''entity_state'', JStr state)] @ map (\<lambda>k. (k, get_field kvs k)) SAFE_ENTITY_ATTRIBUTES)"

definition safe_entity_state :: "json \<Rightarrow> entity_check" where
  "safe_entity_state document =
     (case document of
        JObj p \<Rightarrow>
          if get_field p ''entity_id'' \<noteq> JStr PREPARE_CAR_ENTITY_ID then Entity_error ''HA_ENTITY_MISMATCH''
          else (case in_string_set (get_field p ''state'') {''on'', ''off'', ''unavailable'', ''unknown''} of
              Inl e \<Rightarrow> Entity_raised e
            | Inr False \<Rightarrow> Entity_error ''HA_STATE_INVALID''
            | Inr True \<Rightarrow> Entity_ok (entity_document (str_of (get_field p ''state'')) (get_field p ''attributes'')))
      | _ \<Rightarrow> Entity_error ''HA_RESPONSE_INVALID'')"

section \<open>The calls\<close>

text \<open>The guards of \<open>_prepare_car_call\<close>, with the active tool context.\<close>

record tool_context =
  tc_job_id :: string
  tc_message_id :: string
  tc_turn_id :: string
  tc_capability_profile :: string
  tc_conversation_key :: string
  tc_media_archive_authorized :: "bool option"

datatype car_request = Car_status | Car_request string string bool | Car_execute string string bool

definition tool_error :: "string \<Rightarrow> 'a result" where
  "tool_error code = Inl (ToolProxyError code)"

definition exact_keys :: "doc \<Rightarrow> string set \<Rightarrow> bool" where
  "exact_keys arguments ks \<longleftrightarrow> keys_of arguments = ks"

definition car_guard :: "bool \<Rightarrow> tool_context option \<Rightarrow> string \<Rightarrow> doc \<Rightarrow> car_request result" where
  "car_guard configured cx name arguments =
     (if name \<notin> PREPARE_CAR_TOOL_NAMES then tool_error ''unknown_tool''
      else if \<not> configured then tool_error ''prepare_car_unavailable''
      else (case cx of
          None \<Rightarrow> tool_error ''tool_not_allowed_for_profile''
        | Some c \<Rightarrow>
            if tc_capability_profile c \<noteq> ''owner'' then tool_error ''tool_not_allowed_for_profile''
            else if name = ''aito_prepare_car_status''
            then (if exact_keys arguments {} then Inr Car_status else tool_error ''invalid_arguments'')
            else if \<not> exact_keys arguments {''target''} then tool_error ''invalid_arguments''
            else (case get_field arguments ''target'' of
                JBool target \<Rightarrow>
                  Inr (if name = ''aito_prepare_car_request''
                       then Car_request (tc_conversation_key c) (tc_message_id c) target
                       else Car_execute (tc_conversation_key c) (tc_message_id c) target)
              | _ \<Rightarrow> tool_error ''invalid_arguments'')))"

definition car_status_answer :: "ha_reply \<Rightarrow> doc result" where
  "car_status_answer reply =
     (let unavailable = (\<lambda>code. Inr [(''status'', JStr ''unavailable''), (''error_code'', JStr code)])
      in case reply of
           Ha_error code unknown \<Rightarrow> unavailable code
         | Ha_raised e \<Rightarrow> Inl e
         | Ha_ok document \<Rightarrow>
             (case safe_entity_state document of
                Entity_ok st \<Rightarrow> Inr st
              | Entity_error code \<Rightarrow> unavailable code
              | Entity_raised e \<Rightarrow> Inl e))"

text \<open>\<open>except StoreError as exc: raise ToolProxyError(exc.code)\<close>\<close>

fun store_as_tool_error :: "'a result \<Rightarrow> 'a result" where
  "store_as_tool_error (Inl (StoreError c)) = Inl (ToolProxyError c)"
| "store_as_tool_error r = r"

definition car_request_call ::
  "string \<Rightarrow> string \<Rightarrow> bool \<Rightarrow> string \<Rightarrow> int \<Rightarrow> car_db \<Rightarrow> confirmation_view result \<times> car_db" where
  "car_request_call key message_id target random now db =
     (let (r, db') = prepare_car_request key message_id target PREPARE_CAR_CONFIRMATION_TTL_SECONDS random now db
      in (store_as_tool_error r, db'))"

datatype car_answer = Answer_view confirmation_view | Answer_doc doc

datatype car_phase =
    Phase_claim
  | Phase_observe string
  | Phase_post string
  | Phase_finish string doc
  | Phase_done "car_answer result"

record car_thread =
  ct_conversation_key :: string
  ct_message_id :: string
  ct_target :: bool
  ct_phase :: car_phase

definition failed_document :: "string \<Rightarrow> string \<Rightarrow> bool \<Rightarrow> doc" where
  "failed_document status code target =
     [(''status'', JStr status), (''error_code'', JStr code), (''target'', JBool target)]"

definition status_document :: "string \<Rightarrow> bool \<Rightarrow> doc" where
  "status_document status target = [(''status'', JStr status), (''target'', JBool target)]"

text \<open>After the claim: a claim, or a replay, whose status is \<open>executing\<close> goes on to execute.\<close>

definition after_claim :: "bool \<Rightarrow> car_claim result \<Rightarrow> car_phase" where
  "after_claim target r =
     (case r of
        Inl (StoreError c) \<Rightarrow>
          if c \<in> {''CONFIRMATION_MISSING'', ''CONFIRMATION_EXPIRED'', ''CONFIRMATION_ACTION_MISMATCH''}
          then Phase_done (Inr (Answer_doc (failed_document ''rejected'' c target)))
          else Phase_done (tool_error c)
      | Inl e \<Rightarrow> Phase_done (Inl e)
      | Inr (Claimed i t) \<Rightarrow> Phase_observe i
      | Inr (Replayed v) \<Rightarrow>
          if pv_state v = Pc_executing then Phase_observe (pv_confirmation_id v)
          else Phase_done (Inr (Answer_view (v\<lparr>pv_idempotent_replay := True\<rparr>)))
      | Inr (Replayed_result d) \<Rightarrow>
          Phase_done (Inr (Answer_doc (set_field ''idempotent_replay'' (JBool True) d))))"

definition after_observe :: "string \<Rightarrow> bool \<Rightarrow> ha_reply \<Rightarrow> car_phase" where
  "after_observe i target reply =
     (case reply of
        Ha_raised e \<Rightarrow> Phase_done (Inl e)
      | Ha_error code unknown \<Rightarrow> Phase_finish i (failed_document ''failed'' code target)
      | Ha_ok document \<Rightarrow>
          (case safe_entity_state document of
             Entity_raised e \<Rightarrow> Phase_done (Inl e)
           | Entity_error code \<Rightarrow> Phase_finish i (failed_document ''failed'' code target)
           | Entity_ok st \<Rightarrow>
               if get_field st ''status'' \<noteq> JStr ''available''
               then Phase_finish i (failed_document ''failed'' ''HA_ENTITY_UNAVAILABLE'' target)
               else if get_field st ''entity_state'' = JStr (if target then ''on'' else ''off'')
                       \<and> get_field st ''command_state'' = JStr ''confirmed''
               then Phase_finish i (status_document ''already_confirmed'' target)
               else Phase_post i))"

definition after_post :: "string \<Rightarrow> bool \<Rightarrow> ha_reply \<Rightarrow> car_phase" where
  "after_post i target reply =
     (case reply of
        Ha_raised e \<Rightarrow> Phase_done (Inl e)
      | Ha_error code unknown \<Rightarrow>
          Phase_finish i (failed_document (if unknown then ''unknown'' else ''failed'') code target)
      | Ha_ok _ \<Rightarrow> Phase_finish i (status_document ''submitted'' target))"

text \<open>One access of a call: the phase it goes to, the database, and the confirmation it posts for.\<close>

definition car_access ::
  "int \<Rightarrow> ha_reply \<Rightarrow> car_thread \<Rightarrow> car_db \<Rightarrow> car_phase \<times> car_db \<times> string option" where
  "car_access now reply t db =
     (case ct_phase t of
        Phase_claim \<Rightarrow>
          (let (r, db') = claim_prepare_car_execute (ct_conversation_key t) (ct_message_id t) (ct_target t) now db
           in (after_claim (ct_target t) r, db', None))
      | Phase_observe i \<Rightarrow> (after_observe i (ct_target t) reply, db, None)
      | Phase_post i \<Rightarrow> (after_post i (ct_target t) reply, db, Some i)
      | Phase_finish i d \<Rightarrow>
          (let (r, db') = finish_prepare_car_execute i d now db
           in (Phase_done (map_sum id Answer_doc r), db', None))
      | Phase_done r \<Rightarrow> (Phase_done r, db, None))"

end
