(* ===== verification/Prepare_Car_Properties.thy ===== *)
theory Prepare_Car_Properties
  imports Prepare_Car Example_Runtime
begin

text \<open>
  What the confirmations of the prepare-car switch guarantee, over every interleaving of requests,
  cancellations and execute calls, and over every answer and failure of Home Assistant: a command is
  sent only for a confirmation that another message of the same conversation gave in time, and at most
  once for each call made for that message.
\<close>

section \<open>The abstract ledger of confirmations\<close>

definition OPEN_CONFIRMATIONS :: "confirmation_state set" where
  "OPEN_CONFIRMATIONS = {Pc_pending, Pc_executing}"

definition CONSUMED_CONFIRMATIONS :: "confirmation_state set" where
  "CONSUMED_CONFIRMATIONS = {Pc_executing, Pc_submitted, Pc_failed, Pc_unknown}"

inductive car_change :: "car_db \<Rightarrow> car_db \<Rightarrow> bool" where
  confirmations_same: "confirmations db' = confirmations db \<Longrightarrow> car_change db db'"
| confirmation_added:
    "confirmations db' = update_where (pending_in key) (settle Pc_cancelled code now) (confirmations db)
       @ [new_confirmation i key m target ttl now] \<Longrightarrow>
     i \<notin> pc_id ` set (confirmations db) \<Longrightarrow>
     m \<notin> pc_request_message_id ` set (confirmations db) \<Longrightarrow>
     Some m \<notin> pc_execute_message_id ` set (confirmations db) \<Longrightarrow> car_change db db'"
| confirmation_settled:
    "confirmations db' = update_where (pending_row i) (settle st code now) (confirmations db) \<Longrightarrow>
     st \<in> {Pc_cancelled, Pc_expired} \<Longrightarrow> car_change db db'"
| confirmation_consumed:
    "confirmations db' = update_where (pending_row i) (consume m now) (confirmations db) \<Longrightarrow>
     m \<notin> pc_request_message_id ` set (confirmations db) \<Longrightarrow>
     Some m \<notin> pc_execute_message_id ` set (confirmations db) \<Longrightarrow>
     (\<And>r. r \<in> set (confirmations db) \<Longrightarrow> pending_row i r \<Longrightarrow> now < pc_expires_at r) \<Longrightarrow>
     car_change db db'"
| confirmation_finished:
    "confirmations db' = update_where (\<lambda>r. pc_id r = i \<and> pc_state r = Pc_executing)
       (finished_confirmation st result code now) (confirmations db) \<Longrightarrow>
     st \<in> {Pc_submitted, Pc_failed, Pc_unknown} \<Longrightarrow> car_change db db'"

lemma car_immediate:
  assumes "P s" and "\<And>a s'. body s = Inr (a, s') \<Longrightarrow> P s'"
  shows "P (snd (immediate body s))"
  using assms by (auto simp: immediate_def split: sum.splits)

lemma car_error_neq [simp]: "codex_error c \<noteq> Inr x"
  by (simp add: codex_error_def)

lemma update_confirmations_simps [simp]:
  "confirmations (update_confirmations p f db) = update_where p f (confirmations db)"
  "car_conversations (update_confirmations p f db) = car_conversations db"
  by (simp_all add: update_confirmations_def)

lemma settle_simps [simp]:
  "pc_id (settle st code now r) = pc_id r" "pc_request_message_id (settle st code now r) = pc_request_message_id r"
  "pc_execute_message_id (settle st code now r) = pc_execute_message_id r"
  "pc_conversation_key (settle st code now r) = pc_conversation_key r"
  "pc_target_on (settle st code now r) = pc_target_on r" "pc_state (settle st code now r) = st"
  "pc_expires_at (settle st code now r) = pc_expires_at r" "pc_consumed_at (settle st code now r) = pc_consumed_at r"
  "pc_result (settle st code now r) = pc_result r" "pc_requested_at (settle st code now r) = pc_requested_at r"
  by (simp_all add: settle_def)

lemma consume_simps [simp]:
  "pc_id (consume m now r) = pc_id r" "pc_request_message_id (consume m now r) = pc_request_message_id r"
  "pc_execute_message_id (consume m now r) = Some m" "pc_conversation_key (consume m now r) = pc_conversation_key r"
  "pc_target_on (consume m now r) = pc_target_on r" "pc_state (consume m now r) = Pc_executing"
  "pc_expires_at (consume m now r) = pc_expires_at r" "pc_consumed_at (consume m now r) = Some (whole_second now)"
  "pc_result (consume m now r) = pc_result r" "pc_requested_at (consume m now r) = pc_requested_at r"
  by (simp_all add: consume_def)

lemma finished_simps [simp]:
  "pc_id (finished_confirmation st res code now r) = pc_id r"
  "pc_request_message_id (finished_confirmation st res code now r) = pc_request_message_id r"
  "pc_execute_message_id (finished_confirmation st res code now r) = pc_execute_message_id r"
  "pc_conversation_key (finished_confirmation st res code now r) = pc_conversation_key r"
  "pc_target_on (finished_confirmation st res code now r) = pc_target_on r"
  "pc_state (finished_confirmation st res code now r) = st"
  "pc_expires_at (finished_confirmation st res code now r) = pc_expires_at r"
  "pc_consumed_at (finished_confirmation st res code now r) = pc_consumed_at r"
  "pc_result (finished_confirmation st res code now r) = Some res"
  "pc_requested_at (finished_confirmation st res code now r) = pc_requested_at r"
  by (simp_all add: finished_confirmation_def)

lemma new_confirmation_simps [simp]:
  "pc_id (new_confirmation i key m target ttl now) = i"
  "pc_request_message_id (new_confirmation i key m target ttl now) = m"
  "pc_execute_message_id (new_confirmation i key m target ttl now) = None"
  "pc_conversation_key (new_confirmation i key m target ttl now) = key"
  "pc_target_on (new_confirmation i key m target ttl now) = target"
  "pc_state (new_confirmation i key m target ttl now) = Pc_pending"
  "pc_consumed_at (new_confirmation i key m target ttl now) = None"
  "pc_result (new_confirmation i key m target ttl now) = None"
  by (simp_all add: new_confirmation_def)

section \<open>The operations refine it\<close>

lemma prepare_car_request_change:
  "car_change db (snd (prepare_car_request key m target ttl random now db))"
  unfolding prepare_car_request_def
proof (rule car_immediate)
  fix v db' assume *: "(if \<not> car_context_ok key m then codex_error ''prepare_car_context_invalid''
       else if \<not> (30 \<le> ttl \<and> ttl \<le> 300) then codex_error ''prepare_car_request_invalid''
       else case select_one (\<lambda>r. pc_request_message_id r = m
                \<or> pc_execute_message_id r = Some m) (confirmations db) of
           Some existing \<Rightarrow>
             if pc_request_message_id existing \<noteq> m \<or> pc_conversation_key existing \<noteq> key
                \<or> pc_target_on existing \<noteq> target
             then codex_error ''prepare_car_idempotency_conflict''
             else Inr (confirmation_document True existing, db)
         | None \<Rightarrow>
             let row = new_confirmation (''PC-'' @ random) key m target ttl now
             in bind_result (insert_confirmation row
                  (update_confirmations (pending_in key) (settle Pc_cancelled ''SUPERSEDED'' now) db))
                  (\<lambda>db1. Inr (confirmation_document False row, db1))) = Inr (v, db')"
  show "car_change db db'"
  proof (cases "select_one (\<lambda>r. pc_request_message_id r = m \<or> pc_execute_message_id r = Some m) (confirmations db)")
    case (Some existing)
    with * show ?thesis by (auto intro: confirmations_same split: if_splits)
  next
    case None
    let ?row = "new_confirmation (''PC-'' @ random) key m target ttl now"
    have free: "m \<notin> pc_request_message_id ` set (confirmations db)"
      "Some m \<notin> pc_execute_message_id ` set (confirmations db)"
      using None by (auto simp: select_one_None_iff)
    from * None have ins: "insert_confirmation ?row
        (update_confirmations (pending_in key) (settle Pc_cancelled ''SUPERSEDED'' now) db) = Inr db'"
      by (auto simp: bind_result_Inr_iff Let_def split: if_splits)
    then have "confirmations db' =
        update_where (pending_in key) (settle Pc_cancelled ''SUPERSEDED'' now) (confirmations db) @ [?row]"
      "''PC-'' @ random \<notin> pc_id ` set (confirmations db)"
      by (auto simp: insert_confirmation_def insert_row_def map_update_where simp flip: set_map split: if_splits)
    then show ?thesis by (rule confirmation_added) (rule free)+
  qed
qed (rule confirmations_same, simp)

lemma cancel_prepare_car_pending_change:
  "car_change db (snd (cancel_prepare_car_pending key m now db))"
  unfolding cancel_prepare_car_pending_def
  by (rule car_immediate)
    (auto intro: confirmations_same confirmation_settled split: option.splits if_splits)

lemma finish_state_final: "finish_state s = Some st \<Longrightarrow> st \<in> {Pc_submitted, Pc_failed, Pc_unknown}"
  by (auto simp: finish_state_def split: if_splits)

lemma finish_prepare_car_execute_change:
  "car_change db (snd (finish_prepare_car_execute i d now db))"
proof -
  let ?run = "finish_prepare_car_execute i d now db"
  have "snd ?run = db \<or> (\<exists>st code. finish_state (get_field d ''status'') = Some st
      \<and> snd ?run = update_confirmations (\<lambda>r. pc_id r = i \<and> pc_state r = Pc_executing)
            (finished_confirmation st d code now) db)"
    by (auto simp: finish_prepare_car_execute_def immediate_def bind_result_def
        split: option.splits if_splits sum.splits)
  then show ?thesis
  proof (elim disjE exE conjE)
    fix st code assume st: "finish_state (get_field d ''status'') = Some st"
      and run: "snd ?run = update_confirmations (\<lambda>r. pc_id r = i \<and> pc_state r = Pc_executing)
            (finished_confirmation st d code now) db"
    show ?thesis
      by (rule confirmation_finished [OF _ finish_state_final [OF st]]) (simp add: run)
  qed (auto intro: confirmations_same)
qed

text \<open>What a claim answers: a fresh claim or a replay, each with the row it stands for.\<close>

lemma claim_prepare_car_execute_cases:
  assumes "claim_prepare_car_execute key m target now db = (r, db')"
    and "distinct (map pc_id (confirmations db))"
  obtains (refused) e where "r = Inl e" "car_change db db'"
      "\<forall>row \<in> set (confirmations db). pc_state row \<in> CONSUMED_CONFIRMATIONS \<longrightarrow> row \<in> set (confirmations db')"
  | (replayed) row where "row \<in> set (confirmations db)" "pc_execute_message_id row = Some m"
      "pc_conversation_key row = key" "pc_target_on row = target" "db' = db"
      "r = Inr (Replayed (confirmation_document True row)) \<or> (\<exists>d. r = Inr (Replayed_result d))"
  | (fresh) row where "row \<in> set (confirmations db)" "pc_state row = Pc_pending"
      "pc_conversation_key row = key" "pc_target_on row = target" "r = Inr (Claimed (pc_id row) target)"
      "confirmations db' = update_where (pending_row (pc_id row)) (consume m now) (confirmations db)"
      "consume m now row \<in> set (confirmations db')"
      "m \<notin> pc_request_message_id ` set (confirmations db)"
      "Some m \<notin> pc_execute_message_id ` set (confirmations db)" "now < pc_expires_at row"
proof -
  have same: thesis if "\<exists>e. r = Inl e" "db' = db"
    using that by (auto intro: refused confirmations_same)
  show thesis
  proof (cases "car_context_ok key m")
    case True
    then have body: "car_claim_body key m target now db = (r, db')"
      using assms(1) by (simp add: claim_prepare_car_execute_def)
    show ?thesis
    proof (cases "select_one (\<lambda>r. pc_execute_message_id r = Some m) (confirmations db)")
      case (Some row)
      note row = select_one_Some_iff [OF Some]
      show ?thesis
      proof (cases "pc_conversation_key row \<noteq> key \<or> pc_target_on row \<noteq> target")
        case True
        then show ?thesis using body Some
          by (intro same) (auto simp: car_claim_body_def codex_error_def)
      next
        case False
        then show ?thesis using body Some row
          by (intro replayed [of row]) (auto simp: car_claim_body_def split: option.splits)
      qed
    next
      case None
      then have exec: "Some m \<notin> pc_execute_message_id ` set (confirmations db)"
        by (auto simp: select_one_None_iff)
      show ?thesis
      proof (cases "list_ex (\<lambda>r. pc_request_message_id r = m) (confirmations db)
          \<or> select_one (pending_in key) (confirmations db) = None")
        case True
        then show ?thesis using body None
          by (intro same) (auto simp: car_claim_body_def codex_error_def split: if_splits option.splits)
      next
        case False
        then obtain row where sel: "select_one (pending_in key) (confirmations db) = Some row"
          and req: "m \<notin> pc_request_message_id ` set (confirmations db)" by (auto simp: list_ex_iff)
        from select_one_Some_iff [OF sel] have row: "row \<in> set (confirmations db)"
          "pc_conversation_key row = key" "pc_state row = Pc_pending" by (auto simp: pending_in_def)
        have kept: "\<forall>x \<in> set (confirmations db). pc_state x \<in> CONSUMED_CONFIRMATIONS \<longrightarrow>
            x \<in> set (update_where (pending_row (pc_id row)) f (confirmations db))" for f
          by (force simp: update_where_mem pending_row_def CONSUMED_CONFIRMATIONS_def)
        consider "pc_expires_at row \<le> now" | "now < pc_expires_at row" "pc_target_on row \<noteq> target"
          | "now < pc_expires_at row" "pc_target_on row = target" by linarith
        then show ?thesis
        proof cases
          case 3
          then show ?thesis using body None sel False row req exec update_where_hit [OF row(1), of "pending_row (pc_id row)" "consume m now"]
            by (intro fresh [of row]) (auto simp: car_claim_body_def pending_row_def)
        next
          case 1
          then have run: "r = codex_error ''CONFIRMATION_EXPIRED''" "db' = update_confirmations (pending_row (pc_id row))
              (settle Pc_expired ''CONFIRMATION_EXPIRED'' now) db"
            using body None sel False by (auto simp: car_claim_body_def)
          then show ?thesis using kept
            by (intro refused) (auto simp: codex_error_def intro: confirmation_settled)
        next
          case 2
          then have run: "r = codex_error ''CONFIRMATION_ACTION_MISMATCH''" "db' = update_confirmations (pending_row (pc_id row))
              (settle Pc_cancelled ''CONFIRMATION_ACTION_MISMATCH'' now) db"
            using body None sel False by (auto simp: car_claim_body_def)
          then show ?thesis using kept
            by (intro refused) (auto simp: codex_error_def intro: confirmation_settled)
        qed
      qed
    qed
  next
    case False
    then show ?thesis using assms(1)
      by (intro same) (auto simp: claim_prepare_car_execute_def codex_error_def)
  qed
qed

section \<open>Calls in progress\<close>

text \<open>
  The confirmations, the execute calls in the order they were made, each with its phase, and a record
  of the commands sent: the position of the call that sent it and its confirmation.  Any call may be
  made again, with any message, and any call may stay where it is for ever, as after a crash.
\<close>

record car_center =
  cc_db :: car_db
  cc_calls :: "car_thread list"
  cc_posts :: "(nat \<times> string) list"

definition empty_car_center :: car_center where
  "empty_car_center = \<lparr>cc_db = \<lparr>car_conversations = [], confirmations = []\<rparr>, cc_calls = [], cc_posts = []\<rparr>"

definition new_call :: "string \<Rightarrow> string \<Rightarrow> bool \<Rightarrow> car_thread" where
  "new_call key m target =
     \<lparr>ct_conversation_key = key, ct_message_id = m, ct_target = target, ct_phase = Phase_claim\<rparr>"

definition moved :: "nat \<Rightarrow> int \<Rightarrow> ha_reply \<Rightarrow> car_center \<Rightarrow> car_center" where
  "moved k now reply c =
     (let t = cc_calls c ! k; (ph, db', sent) = car_access now reply t (cc_db c)
      in \<lparr>cc_db = db', cc_calls = (cc_calls c)[k := t\<lparr>ct_phase := ph\<rparr>],
          cc_posts = cc_posts c @ (case sent of None \<Rightarrow> [] | Some i \<Rightarrow> [(k, i)])\<rparr>)"

inductive car_step :: "car_center \<Rightarrow> car_center \<Rightarrow> bool" where
  conversation_opened:
    "car_step c (c\<lparr>cc_db := (cc_db c)\<lparr>car_conversations := car_conversations (cc_db c) @ [key]\<rparr>\<rparr>)"
| confirmation_requested:
    "car_step c (c\<lparr>cc_db := snd (car_request_call key m target random now (cc_db c))\<rparr>)"
| pending_cancelled:
    "car_step c (c\<lparr>cc_db := snd (cancel_prepare_car_pending key m now (cc_db c))\<rparr>)"
| execute_called: "car_step c (c\<lparr>cc_calls := cc_calls c @ [new_call key m target]\<rparr>)"
| call_moved: "k < length (cc_calls c) \<Longrightarrow> car_step c (moved k now reply c)"

section \<open>The invariant\<close>

definition confirmation_ok :: "confirmation \<Rightarrow> bool" where
  "confirmation_ok r \<longleftrightarrow>
     (pc_state r \<in> CONSUMED_CONFIRMATIONS \<longleftrightarrow> pc_execute_message_id r \<noteq> None) \<and>
     (\<forall>m. pc_execute_message_id r = Some m \<longrightarrow>
        (\<exists>t. pc_consumed_at r = Some t \<and> t < pc_expires_at r) \<and> m \<noteq> pc_request_message_id r)"

definition execute_unique :: "confirmation list \<Rightarrow> bool" where
  "execute_unique rows \<longleftrightarrow>
     (\<forall>r \<in> set rows. \<forall>r' \<in> set rows. \<forall>m. pc_execute_message_id r = Some m \<longrightarrow>
        pc_execute_message_id r' = Some m \<longrightarrow> r = r')"

definition car_db_inv :: "car_db \<Rightarrow> bool" where
  "car_db_inv db \<longleftrightarrow>
     distinct (map pc_id (confirmations db)) \<and>
     (\<forall>r \<in> set (confirmations db). confirmation_ok r) \<and>
     execute_unique (confirmations db)"

definition confirmed_for :: "car_db \<Rightarrow> string \<Rightarrow> car_thread \<Rightarrow> bool" where
  "confirmed_for db i t \<longleftrightarrow>
     (\<exists>r \<in> set (confirmations db). pc_id r = i \<and> pc_execute_message_id r = Some (ct_message_id t) \<and>
        pc_conversation_key r = ct_conversation_key t \<and> pc_target_on r = ct_target t)"

fun phase_confirmed :: "car_db \<Rightarrow> car_thread \<Rightarrow> car_phase \<Rightarrow> bool" where
  "phase_confirmed db t (Phase_observe i) = confirmed_for db i t"
| "phase_confirmed db t (Phase_post i) = confirmed_for db i t"
| "phase_confirmed db t (Phase_finish i d) = confirmed_for db i t"
| "phase_confirmed db t _ = True"

fun phase_over :: "car_phase \<Rightarrow> bool" where
  "phase_over (Phase_finish i d) = True"
| "phase_over (Phase_done r) = True"
| "phase_over _ = False"

definition car_inv :: "car_center \<Rightarrow> bool" where
  "car_inv c \<longleftrightarrow>
     car_db_inv (cc_db c) \<and>
     (\<forall>t \<in> set (cc_calls c). phase_confirmed (cc_db c) t (ct_phase t)) \<and>
     distinct (map fst (cc_posts c)) \<and>
     (\<forall>(k, i) \<in> set (cc_posts c). k < length (cc_calls c) \<and> phase_over (ct_phase (cc_calls c ! k)) \<and>
        confirmed_for (cc_db c) i (cc_calls c ! k))"

text \<open>How a confirmation may change: what was asked stays, and a settled confirmation is frozen.\<close>

fun later_states :: "confirmation_state \<Rightarrow> confirmation_state set" where
  "later_states Pc_pending = {Pc_executing, Pc_submitted, Pc_failed, Pc_unknown, Pc_cancelled, Pc_expired}"
| "later_states Pc_executing = {Pc_submitted, Pc_failed, Pc_unknown}"
| "later_states _ = {}"

definition confirmation_evolves :: "confirmation \<Rightarrow> confirmation \<Rightarrow> bool" where
  "confirmation_evolves r r' \<longleftrightarrow>
     pc_id r' = pc_id r \<and> pc_conversation_key r' = pc_conversation_key r \<and>
     pc_request_message_id r' = pc_request_message_id r \<and> pc_target_on r' = pc_target_on r \<and>
     pc_requested_at r' = pc_requested_at r \<and> pc_expires_at r' = pc_expires_at r \<and>
     (r' = r \<or> pc_state r' \<in> later_states (pc_state r)) \<and>
     (pc_state r \<noteq> Pc_pending \<longrightarrow>
        pc_execute_message_id r' = pc_execute_message_id r \<and> pc_consumed_at r' = pc_consumed_at r)"

lemma confirmation_evolves_refl [simp]: "confirmation_evolves r r"
  by (simp add: confirmation_evolves_def)

lemma later_states_trans: "s' \<in> later_states s \<Longrightarrow> s'' \<in> later_states s' \<Longrightarrow> s'' \<in> later_states s"
  by (cases s; cases s') auto

lemma later_states_pending [simp]: "Pc_pending \<notin> later_states s"
  by (cases s) auto

lemma confirmation_evolves_trans:
  assumes "confirmation_evolves r r'" and "confirmation_evolves r' r''"
  shows "confirmation_evolves r r''"
proof -
  have "pc_state r' \<noteq> Pc_pending" if "pc_state r \<noteq> Pc_pending"
    using assms(1) that by (cases "pc_state r") (auto simp: confirmation_evolves_def)
  then show ?thesis using assms
    by (auto simp: confirmation_evolves_def dest: later_states_trans)
qed

lemma car_change_evolves:
  assumes "car_change db db'" and "r \<in> set (confirmations db)"
  shows "\<exists>r' \<in> set (confirmations db'). confirmation_evolves r r'"
  using assms
proof cases
  case confirmations_same
  then show ?thesis using assms(2) by (intro bexI [of _ r]) simp_all
next
  case (confirmation_added key code now i m target ttl)
  have "\<exists>r' \<in> set (update_where (pending_in key) (settle Pc_cancelled code now) (confirmations db)).
      confirmation_evolves r r'"
    using assms(2) by (rule update_where_survives) (simp_all add: confirmation_evolves_def pending_in_def)
  then show ?thesis unfolding confirmation_added(1) by auto
next
  case (confirmation_settled i st code now)
  show ?thesis unfolding confirmation_settled(1) using assms(2)
    by (rule update_where_survives)
      (use confirmation_settled(2) in \<open>auto simp: confirmation_evolves_def pending_row_def\<close>)
next
  case (confirmation_consumed i m now)
  show ?thesis unfolding confirmation_consumed(1) using assms(2)
    by (rule update_where_survives) (simp_all add: confirmation_evolves_def pending_row_def)
next
  case (confirmation_finished i st result code now)
  show ?thesis unfolding confirmation_finished(1) using assms(2)
    by (rule update_where_survives)
      (use confirmation_finished(2) in \<open>auto simp: confirmation_evolves_def\<close>)
qed

lemma confirmed_for_change:
  assumes "car_change db db'" and "car_db_inv db" and "confirmed_for db i t"
  shows "confirmed_for db' i t"
proof -
  from assms(3) obtain r where r: "r \<in> set (confirmations db)" "pc_id r = i"
    "pc_execute_message_id r = Some (ct_message_id t)" "pc_conversation_key r = ct_conversation_key t"
    "pc_target_on r = ct_target t" by (auto simp: confirmed_for_def)
  with assms(2) have "pc_state r \<noteq> Pc_pending"
    by (auto simp: car_db_inv_def confirmation_ok_def CONSUMED_CONFIRMATIONS_def)
  with car_change_evolves [OF assms(1) r(1)] r(2-5) show ?thesis
    by (force simp: confirmed_for_def confirmation_evolves_def)
qed

lemma phase_confirmed_change:
  "car_change db db' \<Longrightarrow> car_db_inv db \<Longrightarrow> phase_confirmed db t ph \<Longrightarrow> phase_confirmed db' t ph"
  by (cases ph) (auto dest: confirmed_for_change)

lemma car_change_ids:
  "car_change db db' \<Longrightarrow> distinct (map pc_id (confirmations db)) \<Longrightarrow> distinct (map pc_id (confirmations db'))"
  by (induction rule: car_change.induct) (auto simp: map_update_where simp del: set_map simp flip: set_map)

lemma execute_uniqueD:
  "execute_unique rows \<Longrightarrow> r \<in> set rows \<Longrightarrow> r' \<in> set rows \<Longrightarrow> pc_execute_message_id r = Some m \<Longrightarrow>
   pc_execute_message_id r' = Some m \<Longrightarrow> r = r'"
  by (auto simp: execute_unique_def)

text \<open>Updates that leave the execute message alone keep the rest of the invariant.\<close>

lemma execute_unique_update:
  assumes "execute_unique rows" and "\<And>r. r \<in> set rows \<Longrightarrow> p r \<Longrightarrow> pc_execute_message_id (f r) = pc_execute_message_id r"
  shows "execute_unique (update_where p f rows)"
  unfolding execute_unique_def
proof (intro ballI allI impI)
  fix r r' m assume "r \<in> set (update_where p f rows)" "r' \<in> set (update_where p f rows)"
    and m: "pc_execute_message_id r = Some m" "pc_execute_message_id r' = Some m"
  then obtain x x' where x: "x \<in> set rows" "r = (if p x then f x else x)"
    "x' \<in> set rows" "r' = (if p x' then f x' else x')" by (auto simp: update_where_mem)
  then have "x = x'" using m assms by (intro execute_uniqueD [OF assms(1) x(1,3)]) (auto split: if_splits)
  then show "r = r'" using x by simp
qed

lemma car_db_inv_update:
  assumes "car_db_inv db" and "confirmations db' = update_where p f (confirmations db)"
    and "\<And>r. p r \<Longrightarrow> r \<in> set (confirmations db) \<Longrightarrow>
      confirmation_ok (f r) \<and> pc_execute_message_id (f r) = pc_execute_message_id r"
    and "\<And>r. pc_id (f r) = pc_id r"
  shows "car_db_inv db'"
  unfolding car_db_inv_def assms(2)
proof (intro conjI ballI)
  show "distinct (map pc_id (update_where p f (confirmations db)))"
    using assms(1,4) by (simp add: map_update_where car_db_inv_def)
  show "execute_unique (update_where p f (confirmations db))"
    using assms(1,3) by (intro execute_unique_update) (auto simp: car_db_inv_def)
  show "confirmation_ok r" if "r \<in> set (update_where p f (confirmations db))" for r
    using that assms(1,3) by (auto simp: update_where_mem car_db_inv_def split: if_splits)
qed

lemma confirmation_ok_settle:
  "confirmation_ok r \<Longrightarrow> pc_state r = Pc_pending \<Longrightarrow> st \<in> {Pc_cancelled, Pc_expired} \<Longrightarrow>
   confirmation_ok (settle st code now r)"
  by (auto simp: confirmation_ok_def CONSUMED_CONFIRMATIONS_def)

lemma car_change_inv:
  assumes "car_change db db'" and "car_db_inv db"
  shows "car_db_inv db'"
  using assms(1)
proof cases
  case confirmations_same
  then show ?thesis using assms(2) by (simp add: car_db_inv_def)
next
  case (confirmation_added key code now i m target ttl)
  let ?db = "update_confirmations (pending_in key) (settle Pc_cancelled code now) db"
  have "car_db_inv ?db"
    by (rule car_db_inv_update [OF assms(2) update_confirmations_simps(1)])
      (use assms(2) in \<open>auto simp: pending_in_def car_db_inv_def intro: confirmation_ok_settle\<close>)
  moreover have "i \<notin> pc_id ` set (confirmations ?db)"
    using confirmation_added(2) by (simp add: map_update_where del: set_map flip: set_map)
  ultimately show ?thesis unfolding car_db_inv_def confirmation_added(1)
    by (auto simp: confirmation_ok_def CONSUMED_CONFIRMATIONS_def execute_unique_def)
next
  case (confirmation_settled i st code now)
  show ?thesis
    by (rule car_db_inv_update [OF assms(2) confirmation_settled(1)])
      (use assms(2) confirmation_settled(2) in
        \<open>simp_all add: pending_row_def car_db_inv_def confirmation_ok_settle\<close>)
next
  case (confirmation_finished i st result code now)
  show ?thesis
    by (rule car_db_inv_update [OF assms(2) confirmation_finished(1)])
      (use assms(2) confirmation_finished(2) in
        \<open>auto simp: car_db_inv_def confirmation_ok_def CONSUMED_CONFIRMATIONS_def\<close>)
next
  case (confirmation_consumed i m now)
  have consumed: "confirmation_ok (consume m now r) \<and> pc_execute_message_id r = None"
    if "r \<in> set (confirmations db)" "pending_row i r" for r
    using that assms(2) confirmation_consumed(2,4) whole_second_le [of now]
    by (force simp: car_db_inv_def confirmation_ok_def CONSUMED_CONFIRMATIONS_def pending_row_def)
  have one: "r = r'" if "r \<in> set (confirmations db)" "r' \<in> set (confirmations db)" "pending_row i r" "pending_row i r'" for r r'
    using that assms(2) by (auto simp: car_db_inv_def pending_row_def distinct_map inj_on_def)
  show ?thesis unfolding car_db_inv_def confirmation_consumed(1)
  proof (intro conjI ballI impI)
    show "distinct (map pc_id (update_where (pending_row i) (consume m now) (confirmations db)))"
      using assms(2) by (simp add: map_update_where car_db_inv_def)
  next
    fix r assume "r \<in> set (update_where (pending_row i) (consume m now) (confirmations db))"
    then show "confirmation_ok r" using assms(2) consumed
      by (auto simp: update_where_mem car_db_inv_def split: if_splits)
  next
    show "execute_unique (update_where (pending_row i) (consume m now) (confirmations db))"
      unfolding execute_unique_def
    proof (intro ballI allI impI)
      fix r r' m' assume rows: "r \<in> set (update_where (pending_row i) (consume m now) (confirmations db))"
          "r' \<in> set (update_where (pending_row i) (consume m now) (confirmations db))"
        and eq: "pc_execute_message_id r = Some m'" "pc_execute_message_id r' = Some m'"
      from rows obtain x x' where x: "x \<in> set (confirmations db)" "r = (if pending_row i x then consume m now x else x)"
        "x' \<in> set (confirmations db)" "r' = (if pending_row i x' then consume m now x' else x')"
        by (auto simp: update_where_mem)
      have free: "pc_execute_message_id y \<noteq> Some m" if "y \<in> set (confirmations db)" for y
        using confirmation_consumed(3) that by force
      have "pending_row i x = pending_row i x'" using eq x free by (auto split: if_splits)
      moreover have "execute_unique (confirmations db)" using assms(2) by (simp add: car_db_inv_def)
      ultimately show "r = r'" using eq x one by (auto split: if_splits dest: execute_uniqueD)
    qed
  qed
qed

lemma confirmed_for_phase [simp]:
  "confirmed_for db i (t\<lparr>ct_phase := ph\<rparr>) = confirmed_for db i t"
  "phase_confirmed db (t\<lparr>ct_phase := ph\<rparr>) ph' = phase_confirmed db t ph'"
  by (simp_all add: confirmed_for_def) (cases ph'; simp add: confirmed_for_def)

lemma after_observe_confirmed:
  "confirmed_for db i t \<Longrightarrow> phase_confirmed db t (after_observe i target reply)"
  by (simp add: after_observe_def split: ha_reply.split entity_check.split)

lemma after_post_confirmed:
  "confirmed_for db i t \<Longrightarrow> phase_confirmed db t (after_post i target reply)"
  "phase_over (after_post i target reply)"
  by (simp_all add: after_post_def split: ha_reply.split)

lemma after_claim_error: "phase_confirmed db t (after_claim target (Inl e))"
  by (simp add: after_claim_def split: exn.split)

lemma claim_change:
  assumes "claim_prepare_car_execute (ct_conversation_key t) (ct_message_id t) (ct_target t) now db = (r, db')"
    and "distinct (map pc_id (confirmations db))"
  shows "car_change db db' \<and> phase_confirmed db' t (after_claim (ct_target t) r)"
  using assms
proof (cases rule: claim_prepare_car_execute_cases)
  case (refused e)
  then show ?thesis by (simp add: after_claim_error)
next
  case (replayed row)
  then have "confirmed_for db' (pc_id row) t" by (auto simp: confirmed_for_def)
  then have "phase_confirmed db' t (after_claim (ct_target t) r)"
    using replayed(6) by (auto simp: after_claim_def confirmation_document_def)
  then show ?thesis using replayed(5) by (simp add: confirmations_same)
next
  case (fresh row)
  then have "confirmed_for db' (pc_id row) t" by (intro bexI [of _ "consume (ct_message_id t) now row"]
      | simp add: confirmed_for_def)+
  moreover have "now < pc_expires_at x" if "x \<in> set (confirmations db)" "pending_row (pc_id row) x" for x
  proof -
    from that fresh(1) assms(2) have "x = row" by (auto simp: pending_row_def distinct_map inj_on_def)
    then show ?thesis using fresh by simp
  qed
  then have "car_change db db'" using fresh by (intro confirmation_consumed [OF fresh(6)])
  ultimately show ?thesis using fresh(5) by (simp add: after_claim_def)
qed

lemma car_access_step:
  assumes "car_access now reply t db = (ph, db', sent)" and "car_db_inv db"
    and "phase_confirmed db t (ct_phase t)"
  shows "car_change db db'" and "phase_confirmed db' t ph"
    and "phase_over (ct_phase t) \<longrightarrow> phase_over ph"
    and "sent = None \<or> (\<exists>i. sent = Some i \<and> ct_phase t = Phase_post i \<and> phase_over ph)"
proof -
  have same: "car_change db db" by (rule confirmations_same) simp
  have "car_change db db' \<and> phase_confirmed db' t ph \<and> (phase_over (ct_phase t) \<longrightarrow> phase_over ph) \<and>
     (sent = None \<or> (\<exists>i. sent = Some i \<and> ct_phase t = Phase_post i \<and> phase_over ph))"
  proof (cases "ct_phase t")
    case Phase_claim
    then obtain r where "claim_prepare_car_execute (ct_conversation_key t) (ct_message_id t) (ct_target t) now db = (r, db')"
      "ph = after_claim (ct_target t) r" "sent = None"
      using assms(1) by (auto simp: car_access_def split: prod.splits)
    with claim_change [OF this(1)] assms(2) Phase_claim show ?thesis by (simp add: car_db_inv_def)
  next
    case (Phase_finish i d)
    with assms(1) finish_prepare_car_execute_change [of db i d now] show ?thesis
      by (auto simp: car_access_def split: prod.splits)
  qed (use assms same in \<open>auto simp: car_access_def after_observe_confirmed after_post_confirmed\<close>)
  then show "car_change db db'" "phase_confirmed db' t ph" "phase_over (ct_phase t) \<longrightarrow> phase_over ph"
    "sent = None \<or> (\<exists>i. sent = Some i \<and> ct_phase t = Phase_post i \<and> phase_over ph)" by blast+
qed

lemma car_inv_db:
  assumes "car_inv c" and "car_change (cc_db c) db'"
  shows "car_inv (c\<lparr>cc_db := db'\<rparr>)"
  using assms(1) car_change_inv [OF assms(2)] confirmed_for_change [OF assms(2)]
    phase_confirmed_change [OF assms(2)]
  by (auto simp: car_inv_def)

lemma moved_inv:
  assumes "car_inv c" and "k < length (cc_calls c)"
  shows "car_inv (moved k now reply c)"
proof -
  let ?t = "cc_calls c ! k"
  obtain ph db' sent where acc: "car_access now reply ?t (cc_db c) = (ph, db', sent)"
    by (cases "car_access now reply ?t (cc_db c)") auto
  have t: "phase_confirmed (cc_db c) ?t (ct_phase ?t)" and inv: "car_db_inv (cc_db c)"
    using assms by (auto simp: car_inv_def)
  note step = car_access_step [OF acc inv t]
  let ?calls = "(cc_calls c)[k := ?t\<lparr>ct_phase := ph\<rparr>]"
  have c': "moved k now reply c = \<lparr>cc_db = db', cc_calls = ?calls,
      cc_posts = cc_posts c @ (case sent of None \<Rightarrow> [] | Some i \<Rightarrow> [(k, i)])\<rparr>"
    using acc by (simp add: moved_def)
  have calls: "\<forall>x \<in> set ?calls. phase_confirmed db' x (ct_phase x)"
  proof
    fix x assume "x \<in> set ?calls"
    then have "x \<in> set (cc_calls c) \<or> x = ?t\<lparr>ct_phase := ph\<rparr>"
      using set_update_subset_insert [of "cc_calls c" k] by blast
    then show "phase_confirmed db' x (ct_phase x)"
      using assms(1) step(2) phase_confirmed_change [OF step(1) inv] by (auto simp: car_inv_def)
  qed
  have old: "k' < length ?calls \<and> phase_over (ct_phase (?calls ! k')) \<and> confirmed_for db' i (?calls ! k')"
    if "(k', i) \<in> set (cc_posts c)" for k' i
    using that assms(1) step(3) confirmed_for_change [OF step(1) inv]
    by (cases "k' = k") (auto simp: car_inv_def)
  show ?thesis
  proof (cases sent)
    case None
    then show ?thesis using assms(1) calls old car_change_inv [OF step(1) inv]
      by (auto simp: c' car_inv_def)
  next
    case (Some i)
    with step(4) have post: "ct_phase ?t = Phase_post i" "phase_over ph" by auto
    then have "confirmed_for db' i ?t" using t confirmed_for_change [OF step(1) inv] by simp
    moreover have "k \<notin> fst ` set (cc_posts c)" using assms(1) post by (force simp: car_inv_def)
    ultimately show ?thesis using assms calls old car_change_inv [OF step(1) inv] post Some
      by (auto simp: c' car_inv_def)
  qed
qed

lemma car_request_call_change: "car_change db (snd (car_request_call key m target random now db))"
  using prepare_car_request_change [of db key m target PREPARE_CAR_CONFIRMATION_TTL_SECONDS random now]
  by (simp add: car_request_call_def split: prod.splits) (metis snd_conv)

lemma execute_called_inv: "car_inv c \<Longrightarrow> car_inv (c\<lparr>cc_calls := cc_calls c @ [new_call key m target]\<rparr>)"
  by (fastforce simp: car_inv_def new_call_def nth_append)

lemma step_car_inv: "car_step c c' \<Longrightarrow> car_inv c \<Longrightarrow> car_inv c'"
  by (induction rule: car_step.induct)
    (auto intro!: car_inv_db car_request_call_change cancel_prepare_car_pending_change
      execute_called_inv moved_inv intro: confirmations_same)

lemma car_inv_start: "car_inv empty_car_center"
  by (simp add: car_inv_def empty_car_center_def car_db_inv_def execute_unique_def)

interpretation car_system: inv_system empty_car_center car_step car_inv
  by unfold_locales (auto intro: car_inv_start step_car_inv)

section \<open>A concrete run for the witnesses\<close>

definition car_key0 :: string where
  "car_key0 = sha (CHR ''c'')"

definition entity0 :: json where
  "entity0 = JObj [(''entity_id'', JStr PREPARE_CAR_ENTITY_ID), (''state'', JStr ''off''), (''attributes'', JObj [])]"

definition car1 :: car_center where
  "car1 = empty_car_center\<lparr>cc_db := (cc_db empty_car_center)\<lparr>car_conversations :=
     car_conversations (cc_db empty_car_center) @ [car_key0]\<rparr>\<rparr>"

definition car2 :: car_center where
  "car2 = car1\<lparr>cc_db := snd (car_request_call car_key0 ''m1'' True ''x'' 0 (cc_db car1))\<rparr>"

definition car3 :: car_center where
  "car3 = car2\<lparr>cc_calls := cc_calls car2 @ [new_call car_key0 ''m2'' True]\<rparr>"

definition car4 :: car_center where
  "car4 = moved 0 5 (Ha_ok entity0) (moved 0 5 (Ha_ok entity0) car3)"

definition car5 :: car_center where
  "car5 = moved 0 5 (Ha_ok JNull) car4"

definition car_row0 :: confirmation where
  "car_row0 = consume ''m2'' 5 (new_confirmation ''PC-x'' car_key0 ''m1'' True 120 0)"

lemma moved_calls [simp]: "length (cc_calls (moved k now reply c)) = length (cc_calls c)"
  by (simp add: moved_def Let_def split: prod.split)

lemma car_run:
  "car_step empty_car_center car1" "car_step car1 car2" "car_step car2 car3"
  "car_step car3 (moved 0 5 (Ha_ok entity0) car3)" "car_step (moved 0 5 (Ha_ok entity0) car3) car4"
  "car_step car4 car5"
proof -
  show "car_step empty_car_center car1" unfolding car1_def by (rule conversation_opened)
  show "car_step car1 car2" unfolding car2_def by (rule confirmation_requested)
  show "car_step car2 car3" unfolding car3_def by (rule execute_called)
  have called: "0 < length (cc_calls car3)" by (simp add: car3_def)
  show "car_step car3 (moved 0 5 (Ha_ok entity0) car3)"
    "car_step (moved 0 5 (Ha_ok entity0) car3) car4" "car_step car4 car5"
    unfolding car4_def car5_def by (rule call_moved, simp only: moved_calls called)+
qed

lemma car_reach: "reach empty_car_center car_step car2" "reach empty_car_center car_step car5"
  unfolding reach_rtranclp
  by (meson car_run converse_rtranclp_into_rtranclp r_into_rtranclp)+

lemma car_rows:
  "confirmations (cc_db car2) = [new_confirmation ''PC-x'' car_key0 ''m1'' True 120 0]"
  "confirmations (cc_db car5) = [car_row0]" "cc_posts car5 = [(0, ''PC-x'')]" "length (cc_calls car5) = 1"
  by (code_simp, code_simp, code_simp, code_simp)






section \<open>History\<close>

lemma car_step_change: "car_step c c' \<Longrightarrow> car_inv c \<Longrightarrow> car_change (cc_db c) (cc_db c')"
proof (induction rule: car_step.induct)
  case (call_moved k c now reply)
  let ?t = "cc_calls c ! k"
  obtain ph db' sent where acc: "car_access now reply ?t (cc_db c) = (ph, db', sent)"
    by (cases "car_access now reply ?t (cc_db c)") auto
  have "phase_confirmed (cc_db c) ?t (ct_phase ?t)" "car_db_inv (cc_db c)"
    using call_moved by (auto simp: car_inv_def)
  with car_access_step(1) [OF acc] show ?case using acc by (simp add: moved_def)
qed (auto intro: confirmations_same car_request_call_change cancel_prepare_car_pending_change)

text \<open>No operation loses a confirmation or changes what it asks for and until when: its state only
  moves from pending to executing, cancelled or expired and from executing to submitted, failed or
  unknown; the message that consumed it and the time it did so never change, and a confirmation that is
  settled is never changed again.\<close>

theorem car_confirmation_history:
  assumes "reach empty_car_center car_step c" and "car_step\<^sup>*\<^sup>* c c'" and "r \<in> set (confirmations (cc_db c))"
  shows "\<exists>r' \<in> set (confirmations (cc_db c')). confirmation_evolves r r'"
  using assms(2)
proof (induction rule: rtranclp_induct)
  case (step c1 c2)
  then obtain r1 where r1: "r1 \<in> set (confirmations (cc_db c1))" "confirmation_evolves r r1" by blast
  have "car_inv c1" by (rule car_system.invariant_from [OF step(1) car_system.invariant [OF assms(1)]])
  from car_change_evolves [OF car_step_change [OF step(2) this] r1(1)] r1(2) show ?case
    by (blast intro: confirmation_evolves_trans)
qed (use assms(3) in \<open>auto intro: bexI [of _ r]\<close>)

section \<open>A call made again\<close>

lemma select_execute_unique:
  assumes "car_db_inv db" and "r \<in> set (confirmations db)" and "pc_execute_message_id r = Some m"
  shows "select_one (\<lambda>x. pc_execute_message_id x = Some m) (confirmations db) = Some r"
proof (cases "select_one (\<lambda>x. pc_execute_message_id x = Some m) (confirmations db)")
  case None
  then show ?thesis using assms(2,3) by (auto simp: select_one_None_iff)
next
  case (Some x)
  with select_one_Some_iff [OF Some] assms show ?thesis
    by (auto simp: car_db_inv_def dest: execute_uniqueD)
qed

lemma claim_replays_executing:
  assumes "car_db_inv db" and "r \<in> set (confirmations db)" and "pc_execute_message_id r = Some m"
    and "pc_result r = None" and "car_context_ok (pc_conversation_key r) m"
  shows "claim_prepare_car_execute (pc_conversation_key r) m (pc_target_on r) now db =
     (Inr (Replayed (confirmation_document True r)), db)"
  using select_execute_unique [OF assms(1-3)] assms(4,5)
  by (simp add: claim_prepare_car_execute_def car_claim_body_def)

text \<open>A call made with the message of a confirmation that is still executing goes on to the command.\<close>

lemma moved_phase:
  assumes "k = length (cc_calls c)"
    and "car_access now reply (t\<lparr>ct_phase := ph\<rparr>) (cc_db c) = (ph', cc_db c, sent)"
  shows "moved k now reply (c\<lparr>cc_calls := cc_calls c @ [t\<lparr>ct_phase := ph\<rparr>]\<rparr>) =
     c\<lparr>cc_calls := cc_calls c @ [t\<lparr>ct_phase := ph'\<rparr>],
       cc_posts := cc_posts c @ (case sent of None \<Rightarrow> [] | Some i \<Rightarrow> [(k, i)])\<rparr>"
  by (rule car_center.equality) (simp_all add: moved_def assms split: option.split)

lemma moved_step:
  assumes "k = length (cc_calls c)"
    and "car_access now reply (t\<lparr>ct_phase := ph\<rparr>) (cc_db c) = (ph', cc_db c, sent)"
  shows "car_step (c\<lparr>cc_calls := cc_calls c @ [t\<lparr>ct_phase := ph\<rparr>]\<rparr>)
     (c\<lparr>cc_calls := cc_calls c @ [t\<lparr>ct_phase := ph'\<rparr>],
        cc_posts := cc_posts c @ (case sent of None \<Rightarrow> [] | Some i \<Rightarrow> [(k, i)])\<rparr>)"
  unfolding moved_phase [OF assms, symmetric] by (rule call_moved) (simp add: assms(1))

text \<open>C35: The check that stops a repeated execute call asks only for a status other than executing: while
  the confirmation is executing, because its first call is under way or was cut off, even after it sent
  its command, a second call with the same message passes it, and when Home Assistant does not yet show
  the target the command is sent once more for the same confirmation.\<close>

theorem car_replay_posts_again:
  assumes "reach empty_car_center car_step c" and "r \<in> set (confirmations (cc_db c))"
    and "pc_execute_message_id r = Some m" and "pc_state r = Pc_executing" and "pc_result r = None"
    and "car_context_ok (pc_conversation_key r) m"
    and "safe_entity_state document = Entity_ok st" and "get_field st ''status'' = JStr ''available''"
    and "get_field st ''command_state'' \<noteq> JStr ''confirmed''"
  shows "\<exists>c'. car_step\<^sup>*\<^sup>* c c' \<and> cc_posts c' = cc_posts c @ [(length (cc_calls c), pc_id r)]"
proof -
  have inv: "car_db_inv (cc_db c)" using car_system.invariant [OF assms(1)] by (simp add: car_inv_def)
  let ?t = "new_call (pc_conversation_key r) m (pc_target_on r)"
  let ?at = "\<lambda>ph. c\<lparr>cc_calls := cc_calls c @ [?t\<lparr>ct_phase := ph\<rparr>]\<rparr>"
  let ?posted = "\<lambda>ph. c\<lparr>cc_calls := cc_calls c @ [?t\<lparr>ct_phase := ph\<rparr>],
      cc_posts := cc_posts c @ [(length (cc_calls c), pc_id r)]\<rparr>"
  have called: "car_step c (?at Phase_claim)"
    using execute_called [of c "pc_conversation_key r" m "pc_target_on r"] by (simp add: new_call_def)
  have "car_access 0 (Ha_ok JNull) (?t\<lparr>ct_phase := Phase_claim\<rparr>) (cc_db c) =
      (Phase_observe (pc_id r), cc_db c, None)"
    using claim_replays_executing [OF inv assms(2,3,5,6)] assms(4)
    by (simp add: car_access_def new_call_def after_claim_def confirmation_document_def)
  from moved_step [OF refl this] have claimed: "car_step (?at Phase_claim) (?at (Phase_observe (pc_id r)))"
    by simp
  have "car_access 0 (Ha_ok document) (?t\<lparr>ct_phase := Phase_observe (pc_id r)\<rparr>) (cc_db c) =
      (Phase_post (pc_id r), cc_db c, None)"
    using assms(7-9) by (simp add: car_access_def after_observe_def)
  from moved_step [OF refl this] have observed: "car_step (?at (Phase_observe (pc_id r))) (?at (Phase_post (pc_id r)))"
    by simp
  obtain ph where "car_access 0 (Ha_ok JNull) (?t\<lparr>ct_phase := Phase_post (pc_id r)\<rparr>) (cc_db c) =
      (ph, cc_db c, Some (pc_id r))" by (simp add: car_access_def)
  from moved_step [OF refl this] have "car_step (?at (Phase_post (pc_id r))) (?posted ph)" by simp
  with called claimed observed have "car_step\<^sup>*\<^sup>* c (?posted ph)"
    by (meson converse_rtranclp_into_rtranclp r_into_rtranclp)
  then show ?thesis by (intro exI [of _ "?posted ph"]) simp
qed

theorem car_confirmation_history_witness:
  "\<exists>r' \<in> set (confirmations (cc_db car5)).
     confirmation_evolves (new_confirmation ''PC-x'' car_key0 ''m1'' True 120 0) r'"
  by (rule car_confirmation_history [OF car_reach(1)])
    (meson car_run converse_rtranclp_into_rtranclp r_into_rtranclp, simp add: car_rows)

theorem car_replay_posts_again_witness:
  "\<exists>c'. reach empty_car_center car_step c' \<and> cc_posts c' = [(0, ''PC-x''), (1, ''PC-x'')]"
proof -
  have ok: "car_context_ok (pc_conversation_key car_row0) ''m2''" by code_simp
  have "\<exists>c'. car_step\<^sup>*\<^sup>* car5 c' \<and> cc_posts c' = cc_posts car5 @ [(length (cc_calls car5), pc_id car_row0)]"
  proof (rule car_replay_posts_again [OF car_reach(2) _ _ _ _ ok])
    show "safe_entity_state entity0 = Entity_ok (entity_document ''off'' (JObj []))" by code_simp
    show "get_field (entity_document ''off'' (JObj [])) ''status'' = JStr ''available''" by code_simp
    show "get_field (entity_document ''off'' (JObj [])) ''command_state'' \<noteq> JStr ''confirmed''" by code_simp
  qed (simp_all add: car_rows car_row0_def)
  then obtain c' where "car_step\<^sup>*\<^sup>* car5 c'"
    "cc_posts c' = cc_posts car5 @ [(length (cc_calls car5), pc_id car_row0)]" by blast
  then show ?thesis using car_reach(2) unfolding reach_rtranclp
    by (intro exI [of _ c']) (simp add: car_rows car_row0_def)
qed

end
