(* ===== verification/Hub_Manifest.thy ===== *)
theory Hub_Manifest
  imports Prepare_Car
begin

text \<open>
  The tools of the Codex controller: the catalogue of \<open>tool_catalog.py\<close> and the validation of the
  manifest with which the Renovation Hub replaces its part of it (\<open>hub_manifest.py\<close>).  Of a tool the
  names and what decides about its calls are modelled; the texts shown to people and the schemas of
  the built-in tools are not.
\<close>

section \<open>The catalogue\<close>

record tool_definition =
  td_name :: string
  td_service :: string
  td_risk_type :: string
  td_transport :: string
  td_requires_job_context :: bool
  td_idempotent_write :: bool

definition read_only_tool :: "tool_definition \<Rightarrow> bool" where
  "read_only_tool d \<longleftrightarrow> td_risk_type d = ''read_only''"

definition hub_tool :: "string \<Rightarrow> string \<Rightarrow> string \<Rightarrow> tool_definition" where
  "hub_tool name risk_type transport =
     \<lparr>td_name = name, td_service = ''renovation_hub'', td_risk_type = risk_type, td_transport = transport,
      td_requires_job_context = (risk_type \<noteq> ''read_only''),
      td_idempotent_write = (risk_type \<noteq> ''read_only'')\<rparr>"

definition operation_tool :: "string \<Rightarrow> tool_definition" where
  "operation_tool name =
     \<lparr>td_name = name, td_service = ''ha_operations_broker'', td_risk_type = ''controlled'',
      td_transport = ''json'', td_requires_job_context = False, td_idempotent_write = False\<rparr>"

definition memo_tool :: "string \<Rightarrow> string \<Rightarrow> tool_definition" where
  "memo_tool name risk_type =
     \<lparr>td_name = name, td_service = ''family_memo'', td_risk_type = risk_type, td_transport = ''json'',
      td_requires_job_context = (risk_type \<noteq> ''read_only''),
      td_idempotent_write = (name = ''memo_create'')\<rparr>"

definition aito_tool :: "string \<Rightarrow> string \<Rightarrow> tool_definition" where
  "aito_tool name risk_type =
     \<lparr>td_name = name, td_service = ''home_assistant_prepare_car'', td_risk_type = risk_type,
      td_transport = ''json'', td_requires_job_context = True,
      td_idempotent_write = (risk_type \<noteq> ''read_only'')\<rparr>"

definition BOOTSTRAP_HUB_DEFINITIONS :: "tool_definition list" where
  "BOOTSTRAP_HUB_DEFINITIONS =
     [hub_tool ''ledger_add_payment'' ''write'' ''json'', hub_tool ''ledger_add_refund'' ''write'' ''json'',
      hub_tool ''ledger_correct_payment'' ''write'' ''json'', hub_tool ''ledger_undo'' ''write'' ''json'',
      hub_tool ''ledger_attach'' ''write'' ''gateway_attachment'',
      hub_tool ''ledger_show'' ''read_only'' ''json'', hub_tool ''ledger_query'' ''read_only'' ''json'',
      hub_tool ''ledger_summary'' ''read_only'' ''json'',
      hub_tool ''ledger_generate_chart'' ''read_only'' ''json'',
      hub_tool ''ledger_export'' ''read_only'' ''json'', hub_tool ''ledger_verify_export'' ''read_only'' ''json'',
      hub_tool ''ledger_import_inspect'' ''read_only'' ''json'',
      hub_tool ''ledger_import_shadow'' ''write'' ''json'',
      hub_tool ''renovation_project_create'' ''write'' ''json'',
      hub_tool ''renovation_project_update'' ''write'' ''json'',
      hub_tool ''renovation_project_list'' ''read_only'' ''json'',
      hub_tool ''renovation_stage_create'' ''write'' ''json'',
      hub_tool ''renovation_stage_update'' ''write'' ''json'',
      hub_tool ''renovation_stage_list'' ''read_only'' ''json'',
      hub_tool ''renovation_area_create'' ''write'' ''json'',
      hub_tool ''renovation_area_update'' ''write'' ''json'',
      hub_tool ''renovation_area_list'' ''read_only'' ''json'',
      hub_tool ''renovation_event_create'' ''write'' ''json'',
      hub_tool ''renovation_event_update'' ''write'' ''json'',
      hub_tool ''renovation_timeline'' ''read_only'' ''json'',
      hub_tool ''renovation_dashboard'' ''read_only'' ''json'',
      hub_tool ''renovation_media_ingest'' ''write'' ''gateway_media_stream'']"

definition OPERATION_DEFINITIONS :: "tool_definition list" where
  "OPERATION_DEFINITIONS = map operation_tool
     [''ha_operations_propose_restart'', ''ha_operations_authorization_request'',
      ''ha_operations_authorization_status'', ''ha_operations_execute_restart'',
      ''ha_operations_execution_status'']"

definition MEMO_DEFINITIONS :: "tool_definition list" where
  "MEMO_DEFINITIONS =
     [memo_tool ''memo_create'' ''write'', memo_tool ''memo_list'' ''read_only'',
      memo_tool ''memo_update'' ''write'', memo_tool ''memo_complete'' ''write'',
      memo_tool ''memo_cancel'' ''write'']"

definition AITO_PREPARE_CAR_DEFINITIONS :: "tool_definition list" where
  "AITO_PREPARE_CAR_DEFINITIONS =
     [aito_tool ''aito_prepare_car_status'' ''read_only'', aito_tool ''aito_prepare_car_request'' ''controlled'',
      aito_tool ''aito_prepare_car_execute'' ''controlled'']"

definition FIXED_DEFINITIONS :: "tool_definition list" where
  "FIXED_DEFINITIONS = MEMO_DEFINITIONS @ OPERATION_DEFINITIONS @ AITO_PREPARE_CAR_DEFINITIONS"

definition names_of :: "tool_definition list \<Rightarrow> string set" where
  "names_of ds = set (map td_name ds)"

definition NATURAL_QUERY_READ_ONLY_TOOLS :: "string set" where
  "NATURAL_QUERY_READ_ONLY_TOOLS =
     {''ledger_show'', ''ledger_query'', ''ledger_summary'', ''renovation_dashboard'',
      ''renovation_project_list'', ''renovation_stage_list'', ''renovation_area_list'', ''renovation_timeline''}"

definition MEMBER_ALLOWED_TOOL_NAMES :: "string set" where
  "MEMBER_ALLOWED_TOOL_NAMES = NATURAL_QUERY_READ_ONLY_TOOLS \<union> {''memo_list''}"

section \<open>Validation of a manifest\<close>

definition MAX_MANIFEST_BYTES :: int where "MAX_MANIFEST_BYTES = 1024 * 1024"
definition MAX_TOOL_COUNT :: int where "MAX_TOOL_COUNT = 256"
definition MAX_SCHEMA_BYTES :: int where "MAX_SCHEMA_BYTES = 64 * 1024"
definition MAX_DESCRIPTION_CHARS :: int where "MAX_DESCRIPTION_CHARS = 2000"
definition MAX_DISPLAY_NAME_CHARS :: int where "MAX_DISPLAY_NAME_CHARS = 80"

definition TOOL_NAME_RE :: "string \<Rightarrow> bool" where
  "TOOL_NAME_RE s \<longleftrightarrow>
     list_ex (\<lambda>p. is_prefix p s \<and>
       list_all (\<lambda>c. is_lower c \<or> is_digit c \<or> c = CHR ''_'') (drop (length p) s) \<and>
       1 \<le> int (length (drop (length p) s)) \<and> int (length (drop (length p) s)) \<le> 79)
     [''ledger_'', ''renovation_'']"

definition TRANSPORTS :: "string set" where
  "TRANSPORTS = {''json'', ''gateway_attachment'', ''gateway_media_stream''}"

definition RISK_TYPES :: "string set" where
  "RISK_TYPES = {''read'', ''write''}"

definition ANNOTATION_KEYS :: "string list" where
  "ANNOTATION_KEYS = [''destructiveHint'', ''idempotentHint'', ''openWorldHint'', ''readOnlyHint'']"

definition TOOL_REQUIRED_KEYS :: "string set" where
  "TOOL_REQUIRED_KEYS =
     {''name'', ''display_name'', ''description'', ''risk_type'', ''transport'', ''exposure'',
      ''requires_job_context'', ''idempotent_write'', ''inputSchema'', ''annotations''}"

definition hub_error :: "string \<Rightarrow> 'a result" where
  "hub_error code = Inl (HubManifestError code)"

text \<open>\<open>allow_nan=False\<close>: \<open>json.dumps\<close> raises for a float that is not finite.\<close>

fun finite_json :: "json \<Rightarrow> bool" where
  "finite_json (JFloat x) = (case x of FFin q \<Rightarrow> True | _ \<Rightarrow> False)"
| "finite_json (JList vs) = list_all finite_json vs"
| "finite_json (JObj kvs) = list_all (\<lambda>(k, v). finite_json v) kvs"
| "finite_json _ = True"

text \<open>\<open>json.loads(canonical_json(value))\<close>: the same value with its keys in order.\<close>

fun sorted_json :: "json \<Rightarrow> json" where
  "sorted_json (JList vs) = JList (map sorted_json vs)"
| "sorted_json (JObj kvs) = JObj (sort_key fst (map (\<lambda>(k, v). (k, sorted_json v)) kvs))"
| "sorted_json v = v"

definition manifest_digest :: "'a pyenv_scheme \<Rightarrow> doc \<Rightarrow> string" where
  "manifest_digest env document =
     ''sha256:'' @ sha256_hex env (canonical_json_of (float_repr env)
       (JObj (filter (\<lambda>(k, v). k \<noteq> ''catalog_digest'') document)))"

text \<open>\<open>value.get(key, default)\<close>\<close>

definition field_or :: "json \<Rightarrow> doc \<Rightarrow> string \<Rightarrow> json" where
  "field_or d kvs k = (case map_of kvs k of None \<Rightarrow> d | Some v \<Rightarrow> v)"

definition bounded_string :: "int \<Rightarrow> json \<Rightarrow> string result" where
  "bounded_string maximum v =
     (case v of
        JStr s \<Rightarrow>
          if s = [] \<or> int (py_len s) > maximum then hub_error ''manifest_tool_invalid''
          else if py_strip s \<noteq> s \<or> list_ex (\<lambda>c. byte c < 32 \<or> byte c = 127) s
          then hub_error ''manifest_tool_invalid''
          else Inr s
      | _ \<Rightarrow> hub_error ''manifest_tool_invalid'')"

definition is_json_bool :: "json \<Rightarrow> bool" where
  "is_json_bool v \<longleftrightarrow> v = JBool True \<or> v = JBool False"

definition validate_annotations :: "json \<Rightarrow> string \<Rightarrow> bool \<Rightarrow> doc result" where
  "validate_annotations v risk_type idempotent_write =
     (case v of
        JObj kvs \<Rightarrow>
          if keys_of kvs \<noteq> set ANNOTATION_KEYS then hub_error ''manifest_annotations_invalid''
          else if \<not> list_all (\<lambda>k. is_json_bool (get_field kvs k)) ANNOTATION_KEYS
          then hub_error ''manifest_annotations_invalid''
          else (let read_only = (risk_type = ''read'')
            in if get_field kvs ''readOnlyHint'' \<noteq> JBool read_only
                  \<or> (read_only \<and> get_field kvs ''destructiveHint'' \<noteq> JBool False)
                  \<or> get_field kvs ''idempotentHint'' \<noteq> JBool (read_only \<or> idempotent_write)
                  \<or> get_field kvs ''openWorldHint'' \<noteq> JBool False
               then hub_error ''manifest_annotations_invalid''
               else Inr (map (\<lambda>k. (k, get_field kvs k)) ANNOTATION_KEYS))
      | _ \<Rightarrow> hub_error ''manifest_annotations_invalid'')"

definition validate_schema :: "'a pyenv_scheme \<Rightarrow> bool \<Rightarrow> json \<Rightarrow> json result" where
  "validate_schema env require_closed v =
     (case v of
        JObj kvs \<Rightarrow>
          if get_field kvs ''type'' \<noteq> JStr ''object'' then hub_error ''manifest_schema_invalid''
          else if \<not> finite_json v then hub_error ''manifest_schema_invalid''
          else if int (length (canonical_json_of (float_repr env) v)) > MAX_SCHEMA_BYTES
          then hub_error ''manifest_schema_invalid''
          else (case (field_or (JObj []) kvs ''properties'', field_or (JList []) kvs ''required'') of
              (JObj properties, JList required) \<Rightarrow>
                if \<not> list_all (str_matches (\<lambda>n. n \<in> keys_of properties)) required
                then hub_error ''manifest_schema_invalid''
                else if require_closed \<and> get_field kvs ''additionalProperties'' \<noteq> JBool False
                then hub_error ''manifest_schema_invalid''
                else Inr (sorted_json v)
            | _ \<Rightarrow> hub_error ''manifest_schema_invalid'')
      | _ \<Rightarrow> hub_error ''manifest_schema_invalid'')"

definition validate_tool :: "'a pyenv_scheme \<Rightarrow> bool \<Rightarrow> json \<Rightarrow> doc result" where
  "validate_tool env require_closed v =
     (case v of
        JObj p \<Rightarrow>
          (let name = get_field p ''name''; transport = get_field p ''transport'';
               requires = get_field p ''requires_job_context''; idempotent = get_field p ''idempotent_write''
           in if keys_of p \<noteq> TOOL_REQUIRED_KEYS then hub_error ''manifest_tool_invalid''
              else if \<not> str_matches TOOL_NAME_RE name then hub_error ''manifest_tool_name_invalid''
              else bind_result (bounded_string MAX_DISPLAY_NAME_CHARS (get_field p ''display_name'')) (\<lambda>display.
                bind_result (bounded_string MAX_DESCRIPTION_CHARS (get_field p ''description'')) (\<lambda>description.
                bind_result (in_string_set (get_field p ''risk_type'') RISK_TYPES) (\<lambda>risk_known.
                if \<not> risk_known then hub_error ''manifest_risk_invalid''
                else bind_result (in_string_set transport TRANSPORTS) (\<lambda>transport_known.
                if \<not> transport_known then hub_error ''manifest_transport_invalid''
                else if \<not> is_json_bool requires \<or> \<not> is_json_bool idempotent
                then hub_error ''manifest_tool_invalid''
                else if get_field p ''exposure'' \<noteq> JStr ''mcp'' then hub_error ''manifest_exposure_invalid''
                else (let read_only = (get_field p ''risk_type'' = JStr ''read'')
                  in if read_only \<and> (transport \<noteq> JStr ''json'' \<or> requires = JBool True \<or> idempotent = JBool True)
                     then hub_error ''manifest_risk_invalid''
                     else if \<not> read_only \<and> requires \<noteq> idempotent then hub_error ''manifest_risk_invalid''
                     else if transport \<noteq> JStr ''json''
                             \<and> (read_only \<or> requires = JBool False \<or> idempotent = JBool False)
                     then hub_error ''manifest_transport_invalid''
                     else if transport = JStr ''gateway_media_stream'' \<and> name \<noteq> JStr ''renovation_media_ingest''
                     then hub_error ''manifest_transport_invalid''
                     else bind_result (validate_schema env require_closed (get_field p ''inputSchema'')) (\<lambda>schema.
                       bind_result (validate_annotations (get_field p ''annotations'')
                           (str_of (get_field p ''risk_type'')) (idempotent = JBool True)) (\<lambda>annotations.
                       Inr [(''name'', name), (''display_name'', JStr display),
                            (''description'', JStr description), (''risk_type'', get_field p ''risk_type''),
                            (''transport'', transport), (''exposure'', JStr ''mcp''),
                            (''requires_job_context'', requires), (''idempotent_write'', idempotent),
                            (''inputSchema'', schema), (''annotations'', JObj annotations)]))))))))
      | _ \<Rightarrow> hub_error ''manifest_tool_invalid'')"

text \<open>\<open>tool_definition_from_manifest\<close>, of a validated tool.\<close>

definition tool_definition_from_manifest :: "doc \<Rightarrow> tool_definition" where
  "tool_definition_from_manifest document =
     \<lparr>td_name = str_of (get_field document ''name''), td_service = ''renovation_hub'',
      td_risk_type = (if get_field document ''risk_type'' = JStr ''read'' then ''read_only'' else ''write''),
      td_transport = str_of (get_field document ''transport''),
      td_requires_job_context = (get_field document ''requires_job_context'' = JBool True),
      td_idempotent_write = (get_field document ''idempotent_write'' = JBool True)\<rparr>"

record hub_manifest =
  hm_document :: doc
  hm_definitions :: "tool_definition list"
  hm_revision :: int
  hm_digest :: string

definition MANIFEST_KEYS :: "string set" where
  "MANIFEST_KEYS = {''version'', ''service'', ''scope'', ''catalog_revision'', ''catalog_digest'', ''tools''}"

definition tool_name_of :: "doc \<Rightarrow> string" where
  "tool_name_of tool = str_of (get_field tool ''name'')"

definition normalized_manifest :: "int \<Rightarrow> string \<Rightarrow> doc list \<Rightarrow> doc" where
  "normalized_manifest revision digest tools =
     [(''version'', JInt 1), (''service'', JStr ''renovation_hub''), (''scope'', JStr ''business''),
      (''catalog_revision'', JInt revision), (''catalog_digest'', JStr digest),
      (''tools'', JList (map JObj (sort_key tool_name_of tools)))]"

definition validate_hub_manifest :: "'a pyenv_scheme \<Rightarrow> bool \<Rightarrow> json \<Rightarrow> hub_manifest result" where
  "validate_hub_manifest env require_closed v =
     (case v of
        JObj p \<Rightarrow>
          if keys_of p \<noteq> MANIFEST_KEYS then hub_error ''manifest_invalid''
          else if \<not> finite_json v then hub_error ''manifest_invalid''
          else if int (length (canonical_json_of (float_repr env) v)) > MAX_MANIFEST_BYTES
          then hub_error ''manifest_too_large''
          else if \<not> py_eq_int (get_field p ''version'') 1 \<or> get_field p ''service'' \<noteq> JStr ''renovation_hub''
                  \<or> get_field p ''scope'' \<noteq> JStr ''business''
          then hub_error ''manifest_identity_invalid''
          else (case get_field p ''catalog_revision'' of
              JInt revision \<Rightarrow>
                if revision < 1 then hub_error ''manifest_revision_invalid''
                else if \<not> str_matches CONVERSATION_RE (get_field p ''catalog_digest'')
                then hub_error ''manifest_digest_invalid''
                else (case get_field p ''tools'' of
                    JList tools \<Rightarrow>
                      if tools = [] \<or> int (length tools) > MAX_TOOL_COUNT then hub_error ''manifest_tools_invalid''
                      else bind_result (map_result (validate_tool env require_closed) tools) (\<lambda>normalized.
                        if \<not> distinct (map tool_name_of normalized) then hub_error ''manifest_duplicate_tool''
                        else (let digest = str_of (get_field p ''catalog_digest'');
                                  document = normalized_manifest revision digest normalized
                          in if manifest_digest env document \<noteq> digest
                             then hub_error ''manifest_digest_mismatch''
                             else Inr \<lparr>hm_document = document,
                               hm_definitions = map tool_definition_from_manifest (sort_key tool_name_of normalized),
                               hm_revision = revision, hm_digest = digest\<rparr>))
                  | _ \<Rightarrow> hub_error ''manifest_tools_invalid'')
            | _ \<Rightarrow> hub_error ''manifest_revision_invalid'')
      | _ \<Rightarrow> hub_error ''manifest_invalid'')"

end
