(* ===== verification/Tool_Policy.thy ===== *)
theory Tool_Policy
  imports Hub_Manifest Codex_Artifacts
begin

text \<open>
  The tool policies of \<open>store.py\<close>: which tools the owner has switched off, under a revision that every
  change of the policy or of the Hub's catalogue increases; the last good manifest with the history of
  the Hub's tools; the log of invocations; and what the model's side was last seen to offer.
\<close>

section \<open>Tables\<close>

record tool_policy =
  tp_tool_name :: string
  tp_enabled :: bool
  tp_revision :: int
  tp_updated_at :: int

record policy_response =
  pr_tool_name :: string
  pr_enabled :: bool
  pr_revision :: int
  pr_request_id :: string

record admin_mutation =
  am_request_id :: string
  am_scope :: string
  am_request_digest :: string
  am_response :: policy_response
  am_created_at :: int

record tool_invocation =
  ti_job_id :: "string option"
  ti_turn_id :: "string option"
  ti_tool_name :: string
  ti_outcome :: string
  ti_error_code :: "string option"
  ti_duration_ms :: int
  ti_created_at :: int

record mcp_observation =
  mo_revision :: "int option"
  mo_tools :: "string list"
  mo_error_code :: "string option"
  mo_observed_at :: int

record hub_state =
  hs_document :: "doc option"
  hs_digest :: "string option"
  hs_revision :: "int option"
  hs_synchronized_at :: "int option"
  hs_error_code :: "string option"
  hs_error_at :: "int option"

text \<open>The history of the Hub's tools; its copy of the definition is never read.\<close>

record hub_tool_row =
  ht_tool_name :: string
  ht_retired :: bool
  ht_first_seen_at :: int
  ht_last_seen_at :: int

record policy_db =
  pd_catalog_revision :: "int option"
  pd_policies :: "tool_policy list"
  pd_mutations :: "admin_mutation list"
  pd_invocations :: "tool_invocation list"
  pd_observation :: "mcp_observation option"
  pd_hub :: "hub_state option"
  pd_history :: "hub_tool_row list"

definition empty_hub_state :: hub_state where
  "empty_hub_state = \<lparr>hs_document = None, hs_digest = None, hs_revision = None,
     hs_synchronized_at = None, hs_error_code = None, hs_error_at = None\<rparr>"

text \<open>A new database, as \<open>_initialize\<close> leaves it.\<close>

definition new_policy_db :: "int \<Rightarrow> policy_db" where
  "new_policy_db now =
     \<lparr>pd_catalog_revision = Some 1, pd_policies = [], pd_mutations = [], pd_invocations = [],
      pd_observation = None, pd_hub = Some empty_hub_state,
      pd_history = map (\<lambda>d. \<lparr>ht_tool_name = td_name d, ht_retired = False, ht_first_seen_at = now,
        ht_last_seen_at = now\<rparr>) BOOTSTRAP_HUB_DEFINITIONS\<rparr>"

section \<open>The manifest\<close>

fun manifest_tool_names :: "json list \<Rightarrow> string list \<Rightarrow> string list result" where
  "manifest_tool_names [] seen = Inr seen"
| "manifest_tool_names (t # ts) seen =
     (let name = (case t of JObj p \<Rightarrow> get_field p ''name'' | _ \<Rightarrow> JNull)
      in if \<not> str_matches TOOL_NAME_RE name then codex_error ''hub_manifest_invalid''
         else if str_of name \<in> set seen then codex_error ''hub_manifest_invalid''
         else manifest_tool_names ts (seen @ [str_of name]))"

definition manifest_names :: "doc \<Rightarrow> string list result" where
  "manifest_names document =
     (case get_field document ''tools'' of
        JList tools \<Rightarrow>
          bind_result (manifest_tool_names tools []) (\<lambda>names.
            if names = [] then codex_error ''hub_manifest_invalid'' else Inr names)
      | _ \<Rightarrow> codex_error ''hub_manifest_invalid'')"

definition load_hub_manifest_document :: "policy_db \<Rightarrow> doc option result" where
  "load_hub_manifest_document db =
     (case pd_hub db of
        None \<Rightarrow> Inr None
      | Some row \<Rightarrow> (case hs_document row of
            None \<Rightarrow> Inr None
          | Some document \<Rightarrow> bind_result (manifest_names document) (\<lambda>_. Inr (Some document))))"

definition active_tool_names :: "policy_db \<Rightarrow> string set result" where
  "active_tool_names db =
     bind_result (load_hub_manifest_document db) (\<lambda>loaded.
     bind_result (case loaded of
          None \<Rightarrow> Inr (names_of BOOTSTRAP_HUB_DEFINITIONS)
        | Some document \<Rightarrow> map_sum id set (manifest_names document)) (\<lambda>hub_names.
     Inr (hub_names \<union> names_of FIXED_DEFINITIONS)))"

definition historical_tool_names :: "policy_db \<Rightarrow> string set" where
  "historical_tool_names db = ht_tool_name ` set (pd_history db) \<union> names_of FIXED_DEFINITIONS"

text \<open>\<open>INSERT ... ON CONFLICT(tool_name) DO UPDATE\<close>\<close>

definition upsert_history :: "int \<Rightarrow> string \<Rightarrow> hub_tool_row list \<Rightarrow> hub_tool_row list" where
  "upsert_history now name rows =
     (if name \<in> ht_tool_name ` set rows
      then update_where (\<lambda>r. ht_tool_name r = name)
        (\<lambda>r. r\<lparr>ht_retired := False, ht_last_seen_at := now\<rparr>) rows
      else insert_row \<lparr>ht_tool_name = name, ht_retired = False, ht_first_seen_at = now,
        ht_last_seen_at = now\<rparr> rows)"

record manifest_applied =
  ma_changed :: bool
  ma_revision :: int
  ma_hub_revision :: int
  ma_digest :: string

definition apply_hub_manifest :: "doc \<Rightarrow> int \<Rightarrow> policy_db \<Rightarrow> manifest_applied result \<times> policy_db" where
  "apply_hub_manifest document now =
     immediate (\<lambda>db.
       bind_result (manifest_names document) (\<lambda>names.
       if \<not> str_matches CONVERSATION_RE (get_field document ''catalog_digest'')
       then codex_error ''hub_manifest_invalid''
       else (case get_field document ''catalog_revision'' of
           JInt hub_revision \<Rightarrow>
             if hub_revision < 1 then codex_error ''hub_manifest_invalid''
             else (let digest = str_of (get_field document ''catalog_digest'');
                       changed = (case pd_hub db of None \<Rightarrow> True | Some row \<Rightarrow> hs_digest row \<noteq> Some digest);
                       history = fold (upsert_history now) (sort names)
                         (map (\<lambda>r. r\<lparr>ht_retired := True\<rparr>) (pd_history db))
                 in case map_option (\<lambda>r. if changed then r + 1 else r) (pd_catalog_revision db) of
                      None \<Rightarrow> codex_error ''tool_policy_invalid''
                    | Some revision \<Rightarrow>
                        Inr (\<lparr>ma_changed = changed, ma_revision = revision, ma_hub_revision = hub_revision,
                              ma_digest = digest\<rparr>,
                          db\<lparr>pd_hub := Some \<lparr>hs_document = Some document, hs_digest = Some digest,
                               hs_revision = Some hub_revision, hs_synchronized_at = Some now,
                               hs_error_code = None, hs_error_at = None\<rparr>,
                             pd_history := history, pd_catalog_revision := Some revision\<rparr>))
         | _ \<Rightarrow> codex_error ''hub_manifest_invalid'')))"

definition record_hub_manifest_error :: "string \<Rightarrow> int \<Rightarrow> policy_db \<Rightarrow> policy_db" where
  "record_hub_manifest_error code now db =
     (let bounded = (if ERROR_CODE_RE code then code else ''hub_manifest_sync_failed'');
          row = (case pd_hub db of None \<Rightarrow> empty_hub_state | Some row \<Rightarrow> row)
      in db\<lparr>pd_hub := Some (row\<lparr>hs_error_code := Some bounded, hs_error_at := Some now\<rparr>)\<rparr>)"

record hub_status =
  hv_last_good :: bool
  hv_digest :: "string option"
  hv_revision :: "int option"
  hv_synchronized_at :: "int option"
  hv_error_code :: "string option"
  hv_error_at :: "int option"

definition hub_manifest_status :: "policy_db \<Rightarrow> hub_status" where
  "hub_manifest_status db =
     (let row = (case pd_hub db of None \<Rightarrow> empty_hub_state | Some row \<Rightarrow> row);
          last_good = (hs_document row \<noteq> None)
      in \<lparr>hv_last_good = last_good, hv_digest = (if last_good then hs_digest row else None),
          hv_revision = (if last_good then hs_revision row else None),
          hv_synchronized_at = (if last_good then hs_synchronized_at row else None),
          hv_error_code = hs_error_code row, hv_error_at = hs_error_at row\<rparr>)"

section \<open>Policies\<close>

text \<open>The checks of every stored policy against the history and the revision.\<close>

definition policies_valid :: "policy_db \<Rightarrow> int \<Rightarrow> bool" where
  "policies_valid db revision \<longleftrightarrow>
     list_all (\<lambda>p. tp_tool_name p \<in> historical_tool_names db \<and> 1 \<le> tp_revision p \<and> tp_revision p \<le> revision)
       (pd_policies db)"

record policy_snapshot =
  sn_revision :: int
  sn_enabled :: "string set"

definition tool_policy_snapshot :: "policy_db \<Rightarrow> policy_snapshot result" where
  "tool_policy_snapshot db =
     (case pd_catalog_revision db of
        None \<Rightarrow> codex_error ''tool_policy_invalid''
      | Some revision \<Rightarrow>
          if revision < 1 then codex_error ''tool_policy_invalid''
          else bind_result (active_tool_names db) (\<lambda>active.
            if \<not> policies_valid db revision then codex_error ''tool_policy_invalid''
            else Inr \<lparr>sn_revision = revision,
              sn_enabled = active - tp_tool_name ` set (filter (\<lambda>p. \<not> tp_enabled p) (pd_policies db))\<rparr>))"

definition tool_catalog_revision :: "policy_db \<Rightarrow> int result" where
  "tool_catalog_revision db = map_sum id sn_revision (tool_policy_snapshot db)"

definition POLICY_REQUEST_ID_RE :: "string \<Rightarrow> bool" where
  "POLICY_REQUEST_ID_RE s \<longleftrightarrow>
     list_all (\<lambda>c. is_alnum c \<or> c = CHR ''_'' \<or> c = CHR ''-'') s \<and> 8 \<le> length s \<and> length s \<le> 128"

definition policy_request_digest :: "'a pyenv_scheme \<Rightarrow> string \<Rightarrow> bool \<Rightarrow> int \<Rightarrow> string" where
  "policy_request_digest env tool_name enabled revision =
     sha256_hex env (canonical_json_of (float_repr env)
       (JObj [(''scope'', JStr (''tool_policy:'' @ tool_name)), (''enabled'', JBool enabled),
              (''revision'', JInt revision)]))"

definition upsert_policy :: "tool_policy \<Rightarrow> tool_policy list \<Rightarrow> tool_policy list" where
  "upsert_policy p rows =
     (if tp_tool_name p \<in> tp_tool_name ` set rows
      then update_where (\<lambda>r. tp_tool_name r = tp_tool_name p) (\<lambda>_. p) rows
      else insert_row p rows)"

text \<open>The transaction of \<open>update_tool_policy\<close>.\<close>

definition update_policy_body ::
  "'a pyenv_scheme \<Rightarrow> string \<Rightarrow> bool \<Rightarrow> int \<Rightarrow> string \<Rightarrow> int \<Rightarrow> policy_db \<Rightarrow>
   (policy_response \<times> policy_db) result" where
  "update_policy_body env tool_name enabled revision request_id now db =
     (let digest = policy_request_digest env tool_name enabled revision
      in case select_one (\<lambda>m. am_request_id m = request_id) (pd_mutations db) of
           Some replay \<Rightarrow>
             if am_request_digest replay \<noteq> digest then codex_error ''idempotency_conflict''
             else Inr (am_response replay, db)
         | None \<Rightarrow>
             (case pd_catalog_revision db of
                None \<Rightarrow> codex_error ''tool_policy_invalid''
              | Some current \<Rightarrow>
                  if current < 1 \<or> \<not> policies_valid db current then codex_error ''tool_policy_invalid''
                  else if current \<noteq> revision then codex_error ''revision_conflict''
                  else (let response = \<lparr>pr_tool_name = tool_name, pr_enabled = enabled,
                              pr_revision = current + 1, pr_request_id = request_id\<rparr>
                    in Inr (response,
                      db\<lparr>pd_policies := upsert_policy \<lparr>tp_tool_name = tool_name, tp_enabled = enabled,
                           tp_revision = current + 1, tp_updated_at = now\<rparr> (pd_policies db),
                         pd_catalog_revision := Some (current + 1),
                         pd_mutations := insert_row \<lparr>am_request_id = request_id,
                           am_scope = ''tool_policy:'' @ tool_name, am_request_digest = digest,
                           am_response = response, am_created_at = now\<rparr> (pd_mutations db)\<rparr>))))"

definition update_tool_policy ::
  "'a pyenv_scheme \<Rightarrow> string \<Rightarrow> json \<Rightarrow> json \<Rightarrow> json \<Rightarrow> int \<Rightarrow> policy_db \<Rightarrow> policy_response result \<times> policy_db" where
  "update_tool_policy env tool_name enabled revision request_id now db =
     (case active_tool_names db of
        Inl e \<Rightarrow> (Inl e, db)
      | Inr active \<Rightarrow>
          if tool_name \<notin> active then (codex_error ''tool_not_found'', db)
          else (case enabled of
              JBool on \<Rightarrow>
                (case revision of
                   JInt r \<Rightarrow>
                     if r < 1 then (codex_error ''invalid_tool_policy'', db)
                     else if \<not> str_matches POLICY_REQUEST_ID_RE request_id then (codex_error ''invalid_request_id'', db)
                     else immediate (update_policy_body env tool_name on r (str_of request_id) now) db
                 | _ \<Rightarrow> (codex_error ''invalid_tool_policy'', db))
            | _ \<Rightarrow> (codex_error ''invalid_tool_policy'', db)))"

section \<open>What the model's side offers, and the invocations\<close>

text \<open>The revision is JSON of the request; \<open>True\<close> is an int in Python, but refused here.\<close>

definition record_mcp_catalog :: "json \<Rightarrow> string list \<Rightarrow> int \<Rightarrow> policy_db \<Rightarrow> mcp_observation result \<times> policy_db" where
  "record_mcp_catalog revision tools now db =
     (let bad = (codex_error ''invalid_catalog_observation'', db);
          store = (\<lambda>r. case active_tool_names db of
              Inl e \<Rightarrow> (Inl e, db)
            | Inr active \<Rightarrow>
                if \<not> list_all (\<lambda>n. n \<in> active) tools then bad
                else (let row = \<lparr>mo_revision = r,
                            mo_tools = (if r = None then [] else sort (remdups tools)),
                            mo_error_code = (if r = None then Some ''tool_policy_invalid'' else None),
                            mo_observed_at = now\<rparr>
                  in (Inr row, db\<lparr>pd_observation := Some row\<rparr>)))
      in case revision of
           JNull \<Rightarrow> store None
         | JInt r \<Rightarrow> if r < 1 then bad else store (Some r)
         | _ \<Rightarrow> bad)"

definition INVOCATION_OUTCOMES :: "string set" where
  "INVOCATION_OUTCOMES = {''succeeded'', ''rejected'', ''failed''}"

text \<open>The rows are kept in the order of their ids, so the newest 1000 are the last.\<close>

definition record_tool_invocation ::
  "string \<Rightarrow> string \<Rightarrow> string option \<Rightarrow> int \<Rightarrow> string option \<Rightarrow> string option \<Rightarrow> int \<Rightarrow>
   codex_db \<times> policy_db \<Rightarrow> codex_db \<times> policy_db" where
  "record_tool_invocation tool_name outcome error_code duration job_id turn_id now s =
     (let (db, pd) = s
      in if tool_name \<notin> historical_tool_names pd \<or> outcome \<notin> INVOCATION_OUTCOMES then s
         else (let rows = insert_row \<lparr>ti_job_id = job_id, ti_turn_id = turn_id, ti_tool_name = tool_name,
                     ti_outcome = outcome, ti_error_code = safe_if ERROR_CODE_RE error_code,
                     ti_duration_ms = max 0 (min duration 86400000), ti_created_at = now\<rparr> (pd_invocations pd)
           in ((case job_id of None \<Rightarrow> db | Some i \<Rightarrow> if i = [] then db else mark_tool_activity i db),
               pd\<lparr>pd_invocations := drop (length rows - 1000) rows\<rparr>)))"

record tool_status =
  ts_name :: string
  ts_configured :: bool
  ts_enabled :: bool
  ts_mcp_published :: bool
  ts_callable :: bool
  ts_waiting_for_mcp_refresh :: bool
  ts_last_invocation :: "tool_invocation option"

record tool_control =
  tn_revision :: "int option"
  tn_policy_error :: "string option"
  tn_observed_revision :: "int option"
  tn_observed_at :: "int option"
  tn_observation_error :: "string option"
  tn_current :: bool
  tn_published_count :: nat
  tn_counts :: "nat list"
  tn_hub_manifest :: hub_status
  tn_tools :: "tool_status list"

definition snapshot_or_error :: "policy_db \<Rightarrow> int option \<times> string set \<times> string option" where
  "snapshot_or_error pd =
     (case tool_policy_snapshot pd of
        Inr s \<Rightarrow> (Some (sn_revision s), sn_enabled s, None)
      | Inl (StoreError code) \<Rightarrow> (None, {}, Some code)
      | Inl _ \<Rightarrow> (None, {}, None))"

text \<open>The counts are those of \<open>summary\<close>: known, configured, enabled, published, callable.\<close>

definition tool_control_document ::
  "string set \<Rightarrow> string set \<Rightarrow> tool_definition list \<Rightarrow> policy_db \<Rightarrow> tool_control" where
  "tool_control_document configured_names callable_names definitions pd =
     (let names = names_of definitions;
          configured = configured_names \<inter> names;
          route_ready = callable_names \<inter> configured;
          (revision, enabled, policy_error) = snapshot_or_error pd;
          observation = pd_observation pd;
          observed_revision = (case observation of None \<Rightarrow> None | Some obs \<Rightarrow> mo_revision obs);
          known = (case observation of None \<Rightarrow> True | Some obs \<Rightarrow> list_all (\<lambda>n. n \<in> names) (mo_tools obs));
          observation_error = (if known then (case observation of None \<Rightarrow> None | Some obs \<Rightarrow> mo_error_code obs)
                               else Some ''catalog_observation_invalid'');
          published = (case observation of None \<Rightarrow> {} | Some obs \<Rightarrow> if known then set (mo_tools obs) else {});
          current = (revision \<noteq> None \<and> observed_revision = revision \<and> observation_error = None)
      in \<lparr>tn_revision = revision, tn_policy_error = policy_error, tn_observed_revision = observed_revision,
          tn_observed_at = map_option mo_observed_at observation, tn_observation_error = observation_error,
          tn_current = current, tn_published_count = (if current then card published else 0),
          tn_counts = [length definitions, card configured, card (enabled \<inter> configured),
            if current then card (published \<inter> configured) else 0, card (enabled \<inter> route_ready)],
          tn_hub_manifest = hub_manifest_status pd,
          tn_tools = map (\<lambda>d.
            let n = td_name d; on = (policy_error = None \<and> n \<in> enabled);
                offered = (current \<and> n \<in> published)
            in \<lparr>ts_name = n, ts_configured = (n \<in> configured), ts_enabled = on, ts_mcp_published = offered,
                ts_callable = (n \<in> route_ready \<and> on),
                ts_waiting_for_mcp_refresh = (n \<in> configured \<and> on \<and> \<not> offered),
                ts_last_invocation = find (\<lambda>i. ti_tool_name i = n) (rev (pd_invocations pd))\<rparr>) definitions\<rparr>)"

end
