(* ===== verification/Tool_Router.thy ===== *)
theory Tool_Router
  imports Tool_Policy
begin

text \<open>
  \<open>ToolRouter\<close> of \<open>tool_proxy.py\<close>: the tools the controller offers to a job, the check before every
  call, and the request a call makes.  The router is built with its store, as \<open>main.py\<close> does.
\<close>

section \<open>Configuration and context\<close>

record router_config =
  rc_ledger_base_url :: string
  rc_ledger_token :: string
  rc_gateway_base_url :: string
  rc_gateway_token :: string
  rc_operations_base_url :: string
  rc_operations_token :: string
  rc_memo_base_url :: string
  rc_memo_http_username :: string
  rc_memo_http_password :: string
  rc_memo_api_token :: string
  rc_home_assistant_token :: string

definition hub_configured :: "router_config \<Rightarrow> bool" where
  "hub_configured cfg \<longleftrightarrow> rc_ledger_base_url cfg \<noteq> [] \<and> 32 \<le> py_len (rc_ledger_token cfg)"

definition gateway_configured :: "router_config \<Rightarrow> bool" where
  "gateway_configured cfg \<longleftrightarrow> rc_gateway_base_url cfg \<noteq> [] \<and> 32 \<le> py_len (rc_gateway_token cfg)"

definition operations_configured :: "router_config \<Rightarrow> bool" where
  "operations_configured cfg \<longleftrightarrow> rc_operations_base_url cfg \<noteq> [] \<and> 32 \<le> py_len (rc_operations_token cfg)"

definition no_controls :: "string \<Rightarrow> bool" where
  "no_controls s \<longleftrightarrow> \<not> list_ex (\<lambda>c. byte c < 32 \<or> byte c = 127) s"

definition memo_configured :: "router_config \<Rightarrow> bool" where
  "memo_configured cfg \<longleftrightarrow>
     (let username = rc_memo_http_username cfg; password = rc_memo_http_password cfg
      in rc_memo_base_url cfg \<noteq> [] \<and> 1 \<le> int (py_len username) \<and> int (py_len username) \<le> 128 \<and>
         CHR '':'' \<notin> set username \<and> username = py_strip username \<and> no_controls username \<and>
         1 \<le> int (py_len password) \<and> int (py_len password) \<le> 4096 \<and> no_controls password \<and>
         32 \<le> py_len (rc_memo_api_token cfg))"

definition prepare_car_configured :: "router_config \<Rightarrow> bool" where
  "prepare_car_configured cfg \<longleftrightarrow> 32 \<le> py_len (rc_home_assistant_token cfg)"

record router =
  rt_context :: "tool_context option"
  rt_manifest :: hub_manifest

text \<open>\<open>BOOTSTRAP_MANIFEST\<close>, whose document and digest hold the texts of the built-in tools.\<close>

definition new_router :: "doc \<Rightarrow> string \<Rightarrow> router" where
  "new_router document digest =
     \<lparr>rt_context = None, rt_manifest = \<lparr>hm_document = document,
        hm_definitions = BOOTSTRAP_HUB_DEFINITIONS, hm_revision = 1, hm_digest = digest\<rparr>\<rparr>"

definition CAPABILITY_PROFILES :: "string set" where
  "CAPABILITY_PROFILES = {''owner_legacy'', ''owner'', ''member_read_only''}"

definition begin_job ::
  "string \<Rightarrow> string \<Rightarrow> string \<Rightarrow> string \<Rightarrow> bool option \<Rightarrow> router \<Rightarrow> unit result \<times> router" where
  "begin_job job_id message_id profile conversation_key media_authorized r =
     (if job_id = [] \<or> message_id = [] then (tool_error ''tool_context_invalid'', r)
      else if profile \<notin> CAPABILITY_PROFILES then (tool_error ''tool_context_invalid'', r)
      else if rt_context r \<noteq> None then (tool_error ''tool_context_busy'', r)
      else (Inr (), r\<lparr>rt_context := Some \<lparr>tc_job_id = job_id, tc_message_id = message_id, tc_turn_id = [],
        tc_capability_profile = profile, tc_conversation_key = conversation_key,
        tc_media_archive_authorized = media_authorized\<rparr>\<rparr>))"

definition bind_turn :: "string \<Rightarrow> string \<Rightarrow> router \<Rightarrow> unit result \<times> router" where
  "bind_turn job_id turn_id r =
     (case rt_context r of
        None \<Rightarrow> (tool_error ''tool_context_invalid'', r)
      | Some c \<Rightarrow>
          if tc_job_id c \<noteq> job_id then (tool_error ''tool_context_invalid'', r)
          else (Inr (), r\<lparr>rt_context := Some (c\<lparr>tc_turn_id := turn_id\<rparr>)\<rparr>))"

definition clear_context :: "(tool_context \<Rightarrow> bool) \<Rightarrow> router \<Rightarrow> router" where
  "clear_context p r =
     (case rt_context r of None \<Rightarrow> r | Some c \<Rightarrow> if p c then r\<lparr>rt_context := None\<rparr> else r)"

definition end_turn :: "string \<Rightarrow> router \<Rightarrow> router" where
  "end_turn turn_id = clear_context (\<lambda>c. tc_turn_id c = turn_id)"

definition clear_job :: "string \<Rightarrow> router \<Rightarrow> router" where
  "clear_job job_id = clear_context (\<lambda>c. tc_job_id c = job_id)"

text \<open>
  At the start: the stored manifest is validated again; a document that no longer passes is reported.
  An exception of another kind is not caught there; no document that was stored raises one.
\<close>

definition load_last_good_manifest ::
  "'a pyenv_scheme \<Rightarrow> int \<Rightarrow> router \<Rightarrow> policy_db \<Rightarrow> router \<times> policy_db" where
  "load_last_good_manifest env now r pd =
     (case load_hub_manifest_document pd of
        Inr (Some document) \<Rightarrow>
          (case validate_hub_manifest env True (JObj document) of
             Inr m \<Rightarrow> (r\<lparr>rt_manifest := m\<rparr>, pd)
           | Inl (HubManifestError code) \<Rightarrow> (r, record_hub_manifest_error code now pd)
           | Inl _ \<Rightarrow> (r, pd))
      | _ \<Rightarrow> (r, pd))"

section \<open>The tools on offer\<close>

definition tool_definitions :: "router \<Rightarrow> tool_definition list" where
  "tool_definitions r = hm_definitions (rt_manifest r) @ FIXED_DEFINITIONS"

definition tool_definition_of :: "router \<Rightarrow> string \<Rightarrow> tool_definition option" where
  "tool_definition_of r name = find (\<lambda>d. td_name d = name) (tool_definitions r)"

definition service_configured :: "router_config \<Rightarrow> tool_definition \<Rightarrow> bool" where
  "service_configured cfg d \<longleftrightarrow>
     (if td_service d = ''renovation_hub''
      then hub_configured cfg \<and> (td_transport d = ''gateway_attachment'' \<longrightarrow> gateway_configured cfg)
      else if td_service d = ''ha_operations_broker'' then operations_configured cfg
      else if td_service d = ''family_memo'' then memo_configured cfg
      else td_service d = ''home_assistant_prepare_car'' \<and> prepare_car_configured cfg)"

definition configured_tools :: "router_config \<Rightarrow> router \<Rightarrow> string set" where
  "configured_tools cfg r = td_name ` set (filter (service_configured cfg) (tool_definitions r))"

text \<open>\<open>tool_definitions_by_name\<close>: the last definition of a name.\<close>

definition tool_by_name :: "router \<Rightarrow> string \<Rightarrow> tool_definition option" where
  "tool_by_name r name = find (\<lambda>d. td_name d = name) (rev (tool_definitions r))"

definition needs_gateway :: "router \<Rightarrow> string \<Rightarrow> bool" where
  "needs_gateway r name \<longleftrightarrow>
     (case tool_by_name r name of
        None \<Rightarrow> False
      | Some d \<Rightarrow> td_transport d \<in> {''gateway_attachment'', ''gateway_media_stream''})"

definition route_ready_tools :: "router_config \<Rightarrow> router \<Rightarrow> string set" where
  "route_ready_tools cfg r =
     (if gateway_configured cfg then configured_tools cfg r
      else Set.filter (\<lambda>name. \<not> needs_gateway r name) (configured_tools cfg r))"

definition profile_tools :: "string option \<Rightarrow> string set \<Rightarrow> string set" where
  "profile_tools profile names =
     (if profile = Some ''member_read_only'' then names \<inter> MEMBER_ALLOWED_TOOL_NAMES
      else if profile = Some ''owner_legacy'' then names - PREPARE_CAR_TOOL_NAMES
      else if profile = None \<or> profile = Some ''owner'' then names else {})"

definition available_tools ::
  "router_config \<Rightarrow> router \<Rightarrow> policy_db \<Rightarrow> string option \<Rightarrow> bool option \<Rightarrow> string list" where
  "available_tools cfg r pd profile media_authorized =
     (case tool_policy_snapshot pd of
        Inl _ \<Rightarrow> []
      | Inr s \<Rightarrow>
          (let names = profile_tools profile (configured_tools cfg r \<inter> sn_enabled s)
           in sorted_list_of_set (if media_authorized = Some False then names - {''renovation_media_ingest''}
                else names)))"

record tool_catalog =
  tg_tools :: "string list"
  tg_revision :: "int option"
  tg_policy_error :: "string option"

definition catalog_payload :: "router_config \<Rightarrow> router \<Rightarrow> policy_db \<Rightarrow> tool_catalog" where
  "catalog_payload cfg r pd =
     (let (revision, enabled, policy_error) = snapshot_or_error pd
      in if revision = None
         then \<lparr>tg_tools = [], tg_revision = None, tg_policy_error = policy_error\<rparr>
         else \<lparr>tg_tools = map td_name (filter (\<lambda>d. td_name d \<in> enabled \<inter> configured_tools cfg r)
                 (tool_definitions r)),
               tg_revision = revision, tg_policy_error = None\<rparr>)"

definition catalog_revision :: "policy_db \<Rightarrow> int result" where
  "catalog_revision pd = store_as_tool_error (tool_catalog_revision pd)"

definition observe_catalog ::
  "router_config \<Rightarrow> router \<Rightarrow> doc \<Rightarrow> int \<Rightarrow> policy_db \<Rightarrow> mcp_observation result \<times> policy_db" where
  "observe_catalog cfg r arguments now pd =
     (let revision = get_field arguments ''revision'';
          invalid = (tool_error ''invalid_catalog_observation'', pd)
      in if revision \<noteq> JNull \<and> int_value revision = None then invalid
         else (case get_field arguments ''tools'' of
             JList vs \<Rightarrow>
               if \<not> list_all (str_matches (\<lambda>_. True)) vs then invalid
               else (let tools = map str_of vs; expected = catalog_payload cfg r pd;
                         same_revision = (case tg_revision expected of
                             None \<Rightarrow> revision = JNull
                           | Some n \<Rightarrow> py_eq_int revision n)
                 in if \<not> same_revision \<or> sorted_list_of_set (set tools) \<noteq> sort (tg_tools expected)
                    then (tool_error ''catalog_observation_stale'', pd)
                    else map_prod store_as_tool_error id (record_mcp_catalog revision tools now pd))
           | _ \<Rightarrow> invalid))"

text \<open>\<open>sync_hub_manifest\<close>, of what the request to the Hub returned or raised.\<close>

definition sync_hub_manifest ::
  "'a pyenv_scheme \<Rightarrow> router_config \<Rightarrow> json result \<Rightarrow> int \<Rightarrow> router \<Rightarrow> policy_db \<Rightarrow>
   manifest_applied result \<times> router \<times> policy_db" where
  "sync_hub_manifest env cfg hub_reply now r pd =
     (if \<not> hub_configured cfg then (tool_error ''hub_manifest_unconfigured'', r, pd)
      else (case bind_result hub_reply (validate_hub_manifest env True) of
          Inr m \<Rightarrow>
            (case apply_hub_manifest (hm_document m) now pd of
               (Inr a, pd') \<Rightarrow> (Inr a, r\<lparr>rt_manifest := m\<rparr>, pd')
             | (Inl (StoreError code), pd') \<Rightarrow>
                 (tool_error code, r, record_hub_manifest_error ''hub_manifest_store_failed'' now pd')
             | (Inl e, pd') \<Rightarrow>
                 (tool_error ''hub_manifest_sync_failed'', r,
                  record_hub_manifest_error ''hub_manifest_sync_failed'' now pd'))
        | Inl (HubManifestError code) \<Rightarrow> (tool_error code, r, record_hub_manifest_error code now pd)
        | Inl (StoreError code) \<Rightarrow>
            (tool_error code, r, record_hub_manifest_error ''hub_manifest_store_failed'' now pd)
        | Inl (ToolProxyError code) \<Rightarrow>
            (tool_error code, r, record_hub_manifest_error
               (if is_prefix ''upstream_'' code then ''hub_manifest_unavailable'' else code) now pd)
        | Inl _ \<Rightarrow>
            (tool_error ''hub_manifest_sync_failed'', r,
             record_hub_manifest_error ''hub_manifest_sync_failed'' now pd)))"

definition router_update_tool_policy ::
  "'a pyenv_scheme \<Rightarrow> router \<Rightarrow> string \<Rightarrow> json \<Rightarrow> json \<Rightarrow> json \<Rightarrow> int \<Rightarrow> policy_db \<Rightarrow>
   policy_response result \<times> policy_db" where
  "router_update_tool_policy env r name enabled revision request_id now pd =
     (if tool_definition_of r name = None then (codex_error ''tool_not_found'', pd)
      else update_tool_policy env name enabled revision request_id now pd)"

definition router_tool_status :: "router_config \<Rightarrow> router \<Rightarrow> policy_db \<Rightarrow> tool_control" where
  "router_tool_status cfg r pd =
     tool_control_document (configured_tools cfg r) (route_ready_tools cfg r) (tool_definitions r) pd"

section \<open>The check before a call\<close>

definition authorize_tool ::
  "router_config \<Rightarrow> router \<Rightarrow> policy_db \<Rightarrow> string \<Rightarrow> tool_definition result" where
  "authorize_tool cfg r pd name =
     (case tool_definition_of r name of
        None \<Rightarrow> tool_error ''unknown_tool''
      | Some d \<Rightarrow>
          (let profile = map_option tc_capability_profile (rt_context r)
           in if name \<in> PREPARE_CAR_TOOL_NAMES \<and> profile \<noteq> Some ''owner''
              then tool_error ''tool_not_allowed_for_profile''
              else if profile = Some ''member_read_only'' \<and> name \<notin> MEMBER_ALLOWED_TOOL_NAMES
              then tool_error ''tool_not_allowed_for_profile''
              else if name \<notin> configured_tools cfg r then tool_error ''tool_unconfigured''
              else (case tool_policy_snapshot pd of
                  Inl _ \<Rightarrow> tool_error ''tool_policy_invalid''
                | Inr s \<Rightarrow>
                    if name \<notin> sn_enabled s then tool_error ''tool_disabled''
                    else if td_requires_job_context d \<and> rt_context r = None
                    then tool_error ''tool_context_unavailable''
                    else if td_transport d = ''gateway_media_stream''
                            \<and> (case rt_context r of None \<Rightarrow> False
                                 | Some c \<Rightarrow> tc_media_archive_authorized c = Some False)
                    then tool_error ''media_archive_not_authorized''
                    else Inr d)))"

section \<open>The request of a call\<close>

definition ATTACHMENT_REF_RE :: "string \<Rightarrow> bool" where
  "ATTACHMENT_REF_RE s \<longleftrightarrow>
     list_all (\<lambda>c. is_alnum c \<or> c = CHR ''_'' \<or> c = CHR ''-'') s \<and> 32 \<le> length s \<and> length s \<le> 128"

definition APPROVAL_ID_RE :: "string \<Rightarrow> bool" where
  "APPROVAL_ID_RE s \<longleftrightarrow>
     list_all (\<lambda>c. is_alnum c \<or> c = CHR ''_'' \<or> c = CHR ''-'') s \<and> 8 \<le> length s \<and> length s \<le> 160"

definition MEMO_ID_RE :: "string \<Rightarrow> bool" where
  "MEMO_ID_RE = matches (lit ''memo-'' @ replicate 32 is_hex_lower)"

text \<open>\<open>^\d{4}-\d{2}-\d{2}T\d{2}:\d{2}:\d{2}\+08:00$\<close>, where \<open>\d\<close> is any Unicode decimal.\<close>

definition MEMO_DUE_AT_RE :: "'a artifact_env_scheme \<Rightarrow> string \<Rightarrow> bool" where
  "MEMO_DUE_AT_RE env s \<longleftrightarrow>
     (let d = is_decimal env; l = (\<lambda>c u. u = [c])
      in list_all2 (\<lambda>p u. p u)
        ([d, d, d, d, l (CHR ''-''), d, d, l (CHR ''-''), d, d, l (CHR ''T''), d, d, l (CHR '':''), d, d,
          l (CHR '':''), d, d] @ map l ''+08:00'') (uchars s))"

text \<open>
  What a call sends, by service.  The references, ids and keys in a path have passed a pattern whose
  characters \<open>quote\<close> leaves alone; the query of a list is kept as its fields.
\<close>

datatype outgoing =
    Hub_call doc
  | Hub_attachment string doc
  | Media_stream string doc
  | Memo_call string string "doc option"
  | Memo_query "(string \<times> string) list"
  | Operations_call string string "doc option"
  | Car_call car_request

definition deterministic_idempotency :: "'a pyenv_scheme \<Rightarrow> router \<Rightarrow> string \<Rightarrow> doc \<Rightarrow> string result" where
  "deterministic_idempotency env r name arguments =
     (case rt_context r of
        None \<Rightarrow> tool_error ''tool_context_unavailable''
      | Some c \<Rightarrow> Inr (''sha256:'' @ sha256_hex env (''codex-controller-tool-v1'' @ [CHR 0x0A] @ tc_message_id c
          @ [CHR 0x0A] @ name @ [CHR 0x0A] @ canonical_json_of (float_repr env) (JObj arguments))))"

definition without_key :: "string \<Rightarrow> doc \<Rightarrow> doc" where
  "without_key k p = filter (\<lambda>(k', v). k' \<noteq> k) p"

definition with_deterministic_idempotency :: "'a pyenv_scheme \<Rightarrow> router \<Rightarrow> string \<Rightarrow> doc \<Rightarrow> doc result" where
  "with_deterministic_idempotency env r name arguments =
     (let normalized = without_key ''idempotency_key'' arguments
      in bind_result (deterministic_idempotency env r name normalized) (\<lambda>key.
        Inr (normalized @ [(''idempotency_key'', JStr key)])))"

definition hub_body :: "string \<Rightarrow> doc \<Rightarrow> doc" where
  "hub_body name arguments =
     [(''name'', JStr name), (''arguments'', JObj arguments), (''actor_hash'', JStr ''sha256:codex-controller'')]"

definition attachment_ref :: "doc \<Rightarrow> string result" where
  "attachment_ref arguments =
     (if str_matches ATTACHMENT_REF_RE (get_field arguments ''attachment_ref'')
      then Inr (str_of (get_field arguments ''attachment_ref''))
      else tool_error ''attachment_ref_invalid'')"

definition hub_request ::
  "'a pyenv_scheme \<Rightarrow> router_config \<Rightarrow> router \<Rightarrow> tool_definition \<Rightarrow> doc \<Rightarrow> outgoing result" where
  "hub_request env cfg r d arguments =
     (let keyed = (\<lambda>k. if td_idempotent_write d
            then bind_result (with_deterministic_idempotency env r (td_name d) arguments) k
            else k arguments)
      in if td_transport d = ''gateway_media_stream''
         then (if \<not> hub_configured cfg then tool_error ''ledger_unavailable''
               else if \<not> gateway_configured cfg then tool_error ''gateway_unavailable''
               else bind_result (attachment_ref arguments) (\<lambda>reference.
                 keyed (\<lambda>args. Inr (Media_stream reference (without_key ''attachment_ref'' args)))))
         else if \<not> hub_configured cfg then tool_error ''ledger_unavailable''
         else if td_transport d = ''gateway_attachment'' \<and> \<not> gateway_configured cfg
         then tool_error ''gateway_unavailable''
         else if td_transport d \<notin> {''json'', ''gateway_attachment''} then tool_error ''tool_transport_invalid''
         else keyed (\<lambda>args.
           if td_transport d = ''gateway_attachment''
           then bind_result (attachment_ref args) (\<lambda>reference.
             Inr (Hub_attachment reference (without_key ''attachment_ref'' args)))
           else Inr (Hub_call (hub_body (td_name d) args))))"

definition invalid_arguments :: "'a result" where
  "invalid_arguments = tool_error ''invalid_arguments''"

definition allowed_keys :: "doc \<Rightarrow> string set \<Rightarrow> string set \<Rightarrow> bool" where
  "allowed_keys arguments allowed required \<longleftrightarrow> required \<subseteq> keys_of arguments \<and> keys_of arguments \<subseteq> allowed"

definition memo_text :: "int \<Rightarrow> json \<Rightarrow> json result" where
  "memo_text maximum v =
     (case v of
        JStr s \<Rightarrow>
          (let normalized = py_strip s
           in if 1 \<le> int (py_len normalized) \<and> int (py_len normalized) \<le> maximum
              then Inr (JStr normalized) else invalid_arguments)
      | _ \<Rightarrow> invalid_arguments)"

definition memo_optional_text :: "int \<Rightarrow> json \<Rightarrow> json result" where
  "memo_optional_text maximum v = (if v = JNull then Inr JNull else memo_text maximum v)"

definition memo_priority :: "json \<Rightarrow> json result" where
  "memo_priority v =
     bind_result (in_string_set v {''low'', ''normal'', ''high'', ''urgent''}) (\<lambda>known.
       if known then Inr v else invalid_arguments)"

definition memo_due_at :: "'a artifact_env_scheme \<Rightarrow> json \<Rightarrow> json result" where
  "memo_due_at env v =
     (if v = JNull \<or> str_matches (MEMO_DUE_AT_RE env) v then Inr v else invalid_arguments)"

text \<open>One optional field: absent, or checked and added to the payload.\<close>

definition memo_field :: "doc \<Rightarrow> string \<Rightarrow> (json \<Rightarrow> json result) \<Rightarrow> doc \<Rightarrow> doc result" where
  "memo_field arguments k check payload =
     (if k \<notin> keys_of arguments then Inr payload
      else bind_result (check (get_field arguments k)) (\<lambda>v. Inr (payload @ [(k, v)])))"

definition normalize_memo_fields :: "'a artifact_env_scheme \<Rightarrow> bool \<Rightarrow> bool \<Rightarrow> doc \<Rightarrow> doc result" where
  "normalize_memo_fields env allow_id require_change arguments =
     bind_result (memo_field arguments ''title'' (memo_optional_text 200) []) (\<lambda>p1.
     bind_result (memo_field arguments ''content'' (memo_text 2000) p1) (\<lambda>p2.
     bind_result (memo_field arguments ''priority'' memo_priority p2) (\<lambda>p3.
     bind_result (memo_field arguments ''category'' (memo_optional_text 100) p3) (\<lambda>p4.
     bind_result (memo_field arguments ''due_at'' (memo_due_at env) p4) (\<lambda>payload.
       if require_change \<and> payload = [] then invalid_arguments
       else if \<not> allow_id \<and> ''id'' \<in> keys_of arguments then invalid_arguments
       else Inr payload)))))"

definition memo_source_message_id :: "'a pyenv_scheme \<Rightarrow> router \<Rightarrow> string result" where
  "memo_source_message_id env r =
     (case rt_context r of
        None \<Rightarrow> tool_error ''tool_context_unavailable''
      | Some c \<Rightarrow>
          if tc_message_id c = [] then tool_error ''tool_context_unavailable''
          else Inr (''wechat:'' @ sha256_hex env (tc_message_id c)))"

text \<open>The fields of a list's query: each is left out when its argument is null.\<close>

definition query_field :: "doc \<Rightarrow> string \<Rightarrow> (json \<Rightarrow> string result) \<Rightarrow> (string \<times> string) list result" where
  "query_field arguments k check =
     (if get_field arguments k = JNull then Inr []
      else map_sum id (\<lambda>s. [(k, s)]) (check (get_field arguments k)))"

definition memo_limit :: "json \<Rightarrow> string result" where
  "memo_limit v =
     (case v of
        JInt n \<Rightarrow> if 1 \<le> n \<and> n \<le> 100 then Inr (show_int n) else invalid_arguments
      | _ \<Rightarrow> invalid_arguments)"

definition memo_query :: "doc \<Rightarrow> (string \<times> string) list result" where
  "memo_query arguments =
     bind_result (query_field arguments ''status'' (\<lambda>v.
       bind_result (in_string_set v {''pending'', ''completed'', ''cancelled''}) (\<lambda>known.
         if known then Inr (str_of v) else invalid_arguments))) (\<lambda>q1.
     bind_result (query_field arguments ''category'' (\<lambda>v. map_sum id str_of (memo_text 100 v))) (\<lambda>q2.
     bind_result (query_field arguments ''date'' (\<lambda>v.
       if v = JStr ''today'' then Inr ''today'' else invalid_arguments)) (\<lambda>q3.
     bind_result (query_field arguments ''overdue'' (\<lambda>v.
       if v = JBool True then Inr ''true'' else if v = JBool False then Inr ''false''
       else invalid_arguments)) (\<lambda>q4.
     bind_result (memo_limit (field_or (JInt 100) arguments ''limit'')) (\<lambda>limit.
       Inr (q1 @ q2 @ q3 @ q4 @ [(''limit'', limit)]))))))"

definition memo_id :: "doc \<Rightarrow> string result" where
  "memo_id arguments =
     (if str_matches MEMO_ID_RE (get_field arguments ''id'') then Inr (str_of (get_field arguments ''id''))
      else invalid_arguments)"

definition memo_path :: "string \<Rightarrow> string" where
  "memo_path tail = ''/endpoint/api/memos'' @ tail"

definition memo_request ::
  "'a artifact_env_scheme \<Rightarrow> router_config \<Rightarrow> router \<Rightarrow> string \<Rightarrow> doc \<Rightarrow> outgoing result" where
  "memo_request env cfg r name arguments =
     (if \<not> memo_configured cfg then tool_error ''memo_unavailable''
      else if name = ''memo_create''
      then (if \<not> allowed_keys arguments {''title'', ''content'', ''priority'', ''category'', ''due_at''} {''content''}
            then invalid_arguments
            else bind_result (normalize_memo_fields env False False arguments) (\<lambda>payload.
              bind_result (memo_source_message_id env r) (\<lambda>source.
              Inr (Memo_call ''POST'' (memo_path []) (Some (payload
                @ [(''source'', JStr ''wechat''), (''source_message_id'', JStr source)]))))))
      else if name = ''memo_list''
      then (if \<not> allowed_keys arguments {''status'', ''category'', ''date'', ''overdue'', ''limit''} {}
            then invalid_arguments
            else map_sum id Memo_query (memo_query arguments))
      else if name = ''memo_update''
      then (if \<not> allowed_keys arguments
                 {''id'', ''title'', ''content'', ''priority'', ''category'', ''due_at''} {''id''}
            then invalid_arguments
            else bind_result (memo_id arguments) (\<lambda>i.
              bind_result (normalize_memo_fields env True True arguments) (\<lambda>payload.
              Inr (Memo_call ''PATCH'' (memo_path (''/'' @ i)) (Some payload)))))
      else if name = ''memo_complete'' \<or> name = ''memo_cancel''
      then (if \<not> allowed_keys arguments {''id''} {''id''} then invalid_arguments
            else bind_result (memo_id arguments) (\<lambda>i.
              Inr (Memo_call ''POST'' (memo_path (''/'' @ i @
                (if name = ''memo_complete'' then ''/complete'' else ''/cancel''))) (Some []))))
      else tool_error ''unknown_tool'')"

section \<open>Operations and the dispatch of a call\<close>

definition operations :: "router_config \<Rightarrow> string \<Rightarrow> string \<Rightarrow> doc option \<Rightarrow> outgoing result" where
  "operations cfg meth path payload =
     (if \<not> operations_configured cfg then tool_error ''operations_unavailable''
      else Inr (Operations_call meth path payload))"

definition tool_action_id :: "doc \<Rightarrow> string result" where
  "tool_action_id arguments =
     (if str_matches ACTION_ID_RE (get_field arguments ''action_id'')
      then Inr (str_of (get_field arguments ''action_id'')) else tool_error ''invalid_action_id'')"

definition EXECUTE_KEYS :: "string list" where
  "EXECUTE_KEYS = [''action_id'', ''idempotency_key'', ''proposal_hash'', ''receipt_id'']"

definition operation_request ::
  "'a pyenv_scheme \<Rightarrow> router_config \<Rightarrow> router \<Rightarrow> string \<Rightarrow> doc \<Rightarrow> outgoing result" where
  "operation_request env cfg r name arguments =
     (if name = ''ha_operations_propose_restart''
      then (if \<not> exact_keys arguments {''target''} then invalid_arguments
            else if \<not> str_matches ADDON_SLUG_RE (get_field arguments ''target'') then tool_error ''invalid_target''
            else bind_result (deterministic_idempotency env r name arguments) (\<lambda>key.
              operations cfg ''POST'' ''/v1/proposals''
                (Some [(''version'', JInt 1), (''action_type'', JStr ''restart_addon''),
                  (''target'', get_field arguments ''target''), (''idempotency_key'', JStr key)])))
      else if name = ''ha_operations_authorization_request''
      then (if \<not> exact_keys arguments {''action_id''} then invalid_arguments
            else bind_result (tool_action_id arguments) (\<lambda>action_id.
              operations cfg ''POST'' ''/v1/authorization/requests''
                (Some [(''version'', JInt 1), (''action_id'', JStr action_id)])))
      else if name = ''ha_operations_authorization_status''
      then (if \<not> exact_keys arguments {''approval_id''} then invalid_arguments
            else if \<not> str_matches APPROVAL_ID_RE (get_field arguments ''approval_id'')
            then tool_error ''invalid_approval_id''
            else operations cfg ''GET''
              (''/v1/authorization/requests/'' @ str_of (get_field arguments ''approval_id'')) None)
      else if name = ''ha_operations_execute_restart''
      then (if \<not> exact_keys arguments (set EXECUTE_KEYS) then invalid_arguments
            else if \<not> str_matches RECEIPT_ID_RE (get_field arguments ''receipt_id'')
                    \<or> \<not> str_matches ACTION_ID_RE (get_field arguments ''action_id'')
                    \<or> \<not> str_matches SHA256_RE (get_field arguments ''proposal_hash'')
                    \<or> \<not> str_matches SHA256_RE (get_field arguments ''idempotency_key'')
            then invalid_arguments
            else operations cfg ''POST'' ''/v1/executions''
              (Some ((''version'', JInt 1) # map (\<lambda>k. (k, get_field arguments k)) EXECUTE_KEYS)))
      else if name = ''ha_operations_execution_status''
      then (if \<not> exact_keys arguments {''action_id''} then invalid_arguments
            else bind_result (tool_action_id arguments) (\<lambda>action_id.
              operations cfg ''GET'' (''/v1/executions/'' @ action_id) None))
      else tool_error ''unknown_tool'')"

definition call_authorized ::
  "'a artifact_env_scheme \<Rightarrow> router_config \<Rightarrow> router \<Rightarrow> tool_definition \<Rightarrow> json \<Rightarrow> outgoing result" where
  "call_authorized env cfg r d arguments =
     (case arguments of
        JObj args \<Rightarrow>
          if td_service d = ''renovation_hub'' then hub_request env cfg r d args
          else if td_service d = ''family_memo'' then memo_request env cfg r (td_name d) args
          else if td_service d = ''home_assistant_prepare_car''
          then map_sum id Car_call (car_guard (prepare_car_configured cfg) (rt_context r) (td_name d) args)
          else operation_request env cfg r (td_name d) args
      | _ \<Rightarrow> invalid_arguments)"

section \<open>Charts\<close>

text \<open>
  \<open>_capture_chart_result\<close>, of the Hub's result and of what the download of the chart returned: its
  media type and bytes.  The answer names the artifact without its download token.
\<close>

definition chart_of_result :: "json \<Rightarrow> doc result" where
  "chart_of_result result =
     (case result of
        JObj p \<Rightarrow>
          (case (if py_eq_int (get_field p ''version'') 1 then get_field p ''result'' else JObj p) of
             JObj chart \<Rightarrow>
               if str_matches CHART_REF_RE (get_field chart ''download_ref'') then Inr chart
               else tool_error ''artifact_reference_invalid''
           | _ \<Rightarrow> tool_error ''artifact_metadata_invalid'')
      | _ \<Rightarrow> tool_error ''artifact_metadata_invalid'')"

definition artifact_answer :: "artifact_view \<Rightarrow> json \<Rightarrow> doc" where
  "artifact_answer v summary =
     [(''delivery'', JStr ''weixin_gateway_automatic''),
      (''artifact'', JObj [(''artifact_id'', JStr (av_artifact_id v)), (''type'', JStr ''image''),
         (''mime_type'', JStr ''image/png''), (''size_bytes'', JInt (av_size_bytes v)),
         (''sha256'', JStr (av_sha256 v)), (''width'', JInt (av_width v)), (''height'', JInt (av_height v))]),
      (''summary'', summary)]"

definition capture_chart_result ::
  "'a artifact_env_scheme \<Rightarrow> codex_config \<Rightarrow> string option \<Rightarrow> router \<Rightarrow> json \<Rightarrow> (string \<times> string) result \<Rightarrow>
   string \<Rightarrow> string \<Rightarrow> int \<Rightarrow> codex_db \<times> disk \<Rightarrow> doc result \<times> codex_db \<times> disk" where
  "capture_chart_result env xcfg secret r result download random name now s =
     (case chart_of_result result of
        Inl e \<Rightarrow> (Inl e, s)
      | Inr chart \<Rightarrow>
          (case rt_context r of
             None \<Rightarrow> (tool_error ''tool_context_unavailable'', s)
           | Some c \<Rightarrow>
               if tc_job_id c = [] then (tool_error ''tool_context_unavailable'', s)
               else (case download of
                   Inl e \<Rightarrow> (store_as_tool_error (Inl e), s)
                 | Inr (mime_type, content) \<Rightarrow>
                     if mime_type \<noteq> ''image/png'' then (tool_error ''artifact_content_type_invalid'', s)
                     else (let (res, s') = capture_chart_artifact env xcfg secret (tc_job_id c) (JObj chart)
                             content random name now s
                       in (store_as_tool_error
                             (map_sum id (\<lambda>v. artifact_answer v (get_field chart ''summary'')) res), s')))))"

section \<open>A call and its record\<close>

definition REJECTED_CODES :: "string set" where
  "REJECTED_CODES = {''unknown_tool'', ''tool_unconfigured'', ''tool_disabled'', ''tool_policy_invalid'',
     ''tool_not_allowed_for_profile''}"

definition call_outcome :: "'r result \<Rightarrow> string \<times> string option" where
  "call_outcome res =
     (case res of
        Inr _ \<Rightarrow> (''succeeded'', None)
      | Inl (ToolProxyError code) \<Rightarrow> (if code \<in> REJECTED_CODES then ''rejected'' else ''failed'', Some code)
      | Inl _ \<Rightarrow> (''failed'', None))"

record controller_db =
  cd_jobs :: codex_db
  cd_disk :: disk
  cd_policy :: policy_db

text \<open>
  \<open>call\<close>: the check, the call, which may change the jobs and the files (\<open>run\<close>), and the record of the
  invocation, made whatever happened, under the context there was at the beginning.
\<close>

definition context_ids :: "router \<Rightarrow> string option \<times> string option" where
  "context_ids r =
     (case rt_context r of
        None \<Rightarrow> (None, None)
      | Some c \<Rightarrow> (Some (tc_job_id c), if tc_turn_id c = [] then None else Some (tc_turn_id c)))"

definition tool_called ::
  "router_config \<Rightarrow> router \<Rightarrow> (tool_definition \<Rightarrow> codex_db \<times> disk \<Rightarrow> 'r result \<times> codex_db \<times> disk) \<Rightarrow>
   string \<Rightarrow> controller_db \<Rightarrow> 'r result \<times> codex_db \<times> disk" where
  "tool_called cfg r run name s =
     (case authorize_tool cfg r (cd_policy s) name of
        Inl e \<Rightarrow> (Inl e, cd_jobs s, cd_disk s)
      | Inr definition \<Rightarrow>
          if name = ''ledger_generate_chart''
             \<and> (case rt_context r of None \<Rightarrow> True | Some c \<Rightarrow> tc_job_id c = [])
          then (tool_error ''tool_context_unavailable'', cd_jobs s, cd_disk s)
          else run definition (cd_jobs s, cd_disk s))"

definition tool_call ::
  "router_config \<Rightarrow> router \<Rightarrow> (tool_definition \<Rightarrow> codex_db \<times> disk \<Rightarrow> 'r result \<times> codex_db \<times> disk) \<Rightarrow>
   string \<Rightarrow> int \<Rightarrow> int \<Rightarrow> controller_db \<Rightarrow> 'r result \<times> controller_db" where
  "tool_call cfg r run name duration now s =
     (let (res, db, d) = tool_called cfg r run name s;
        (outcome, code) = call_outcome res;
        (job_id, turn_id) = context_ids r;
        (db', pd') = record_tool_invocation name outcome code duration job_id turn_id now (db, cd_policy s)
      in (res, \<lparr>cd_jobs = db', cd_disk = d, cd_policy = pd'\<rparr>))"

end
