(* ===== verification/Tool_System.thy ===== *)
theory Tool_System
  imports Tool_Router
begin

text \<open>
  The router and the policy as a transition system: what a validated manifest is, the changes the policy
  may undergo (\<open>policy_change\<close>) and their invariant, and the interpretation of \<open>inv_system\<close> on the
  synchronisations, decisions, reports, calls and jobs in any order.
\<close>

section \<open>Accepted manifests\<close>

definition hub_definition_ok :: "tool_definition \<Rightarrow> bool" where
  "hub_definition_ok d \<longleftrightarrow>
     TOOL_NAME_RE (td_name d) \<and> td_service d = ''renovation_hub'' \<and>
     td_risk_type d \<in> {''read_only'', ''write''} \<and> td_transport d \<in> TRANSPORTS \<and>
     (read_only_tool d \<longrightarrow> td_transport d = ''json'' \<and> \<not> td_requires_job_context d \<and> \<not> td_idempotent_write d) \<and>
     td_requires_job_context d = td_idempotent_write d \<and>
     (td_transport d \<noteq> ''json'' \<longrightarrow> td_requires_job_context d) \<and>
     (td_transport d = ''gateway_media_stream'' \<longrightarrow> td_name d = ''renovation_media_ingest'')"

definition definitions_ok :: "tool_definition list \<Rightarrow> bool" where
  "definitions_ok ds \<longleftrightarrow> distinct (map td_name ds) \<and> (\<forall>d \<in> set ds. hub_definition_ok d)"

lemma hub_error_neq [simp]: "hub_error c \<noteq> Inr x"
  by (simp add: hub_error_def)

lemma tool_error_neq [simp]: "tool_error c \<noteq> Inr x"
  by (simp add: tool_error_def)

lemma store_error_neq [simp]: "codex_error c \<noteq> Inr x"
  by (simp add: codex_error_def)

lemma in_string_set_True: "in_string_set v S = Inr True \<longleftrightarrow> (\<exists>s. v = JStr s \<and> s \<in> S)"
  by (cases v) (auto simp: in_string_set_def)

lemma str_matches_iff: "str_matches P v \<longleftrightarrow> (\<exists>s. v = JStr s \<and> P s)"
  by (cases v) (auto simp: str_matches_def)

lemma is_json_bool_iff: "is_json_bool v \<longleftrightarrow> (\<exists>b. v = JBool b)"
  by (auto simp: is_json_bool_def)

text \<open>What a validated tool is.\<close>

lemma validate_tool_Inr:
  assumes "validate_tool env cl v = Inr t"
  obtains name risk transport requires idempotent where
    "get_field t ''name'' = JStr name" "TOOL_NAME_RE name"
    "get_field t ''risk_type'' = JStr risk" "risk \<in> RISK_TYPES"
    "get_field t ''transport'' = JStr transport" "transport \<in> TRANSPORTS"
    "get_field t ''requires_job_context'' = JBool requires"
    "get_field t ''idempotent_write'' = JBool idempotent"
    "risk = ''read'' \<Longrightarrow> transport = ''json'' \<and> \<not> requires \<and> \<not> idempotent"
    "risk \<noteq> ''read'' \<Longrightarrow> requires = idempotent"
    "transport \<noteq> ''json'' \<Longrightarrow> requires"
    "transport = ''gateway_media_stream'' \<Longrightarrow> name = ''renovation_media_ingest''"
proof (cases v)
  case (JObj p)
  let ?name = "get_field p ''name''" and ?transport = "get_field p ''transport''"
    and ?risk = "get_field p ''risk_type''" and ?requires = "get_field p ''requires_job_context''"
    and ?idempotent = "get_field p ''idempotent_write''"
  from assms obtain display description schema annotations where
    name: "str_matches TOOL_NAME_RE ?name"
    and risk: "in_string_set ?risk RISK_TYPES = Inr True"
    and transport: "in_string_set ?transport TRANSPORTS = Inr True"
    and bools: "is_json_bool ?requires" "is_json_bool ?idempotent"
    and read: "?risk = JStr ''read'' \<longrightarrow> ?transport = JStr ''json'' \<and> ?requires \<noteq> JBool True \<and> ?idempotent \<noteq> JBool True"
    and written: "?risk \<noteq> JStr ''read'' \<longrightarrow> ?requires = ?idempotent"
    and gateway: "?transport \<noteq> JStr ''json'' \<longrightarrow> ?requires \<noteq> JBool False"
    and media: "?transport = JStr ''gateway_media_stream'' \<longrightarrow> ?name = JStr ''renovation_media_ingest''"
    and t: "t = [(''name'', ?name), (''display_name'', JStr display), (''description'', JStr description),
       (''risk_type'', ?risk), (''transport'', ?transport), (''exposure'', JStr ''mcp''),
       (''requires_job_context'', ?requires), (''idempotent_write'', ?idempotent),
       (''inputSchema'', schema), (''annotations'', JObj annotations)]"
    by (auto simp: JObj validate_tool_def Let_def bind_result_Inr_iff split: if_splits)
  from name risk transport bools obtain n ri tr re i where
    eq: "?name = JStr n" "?risk = JStr ri" "?transport = JStr tr" "?requires = JBool re" "?idempotent = JBool i"
    and ok: "TOOL_NAME_RE n" "ri \<in> RISK_TYPES" "tr \<in> TRANSPORTS"
    by (auto simp: str_matches_iff in_string_set_True is_json_bool_iff)
  show thesis
    by (rule that [of n ri tr re i]) (use t eq ok read written gateway media in \<open>auto simp: get_field_def\<close>)
qed (use assms in \<open>simp_all add: validate_tool_def\<close>)

lemma definition_of_valid_tool:
  assumes "validate_tool env cl v = Inr t"
  shows "hub_definition_ok (tool_definition_from_manifest t) \<and> get_field t ''name'' = JStr (tool_name_of t)"
proof (rule validate_tool_Inr [OF assms])
  fix name risk transport requires idempotent
  assume t: "get_field t ''name'' = JStr name" "get_field t ''risk_type'' = JStr risk"
      "get_field t ''transport'' = JStr transport" "get_field t ''requires_job_context'' = JBool requires"
      "get_field t ''idempotent_write'' = JBool idempotent"
    and ok: "TOOL_NAME_RE name" "transport \<in> TRANSPORTS"
      "risk = ''read'' \<Longrightarrow> transport = ''json'' \<and> \<not> requires \<and> \<not> idempotent"
      "risk \<noteq> ''read'' \<Longrightarrow> requires = idempotent" "transport \<noteq> ''json'' \<Longrightarrow> requires"
      "transport = ''gateway_media_stream'' \<Longrightarrow> name = ''renovation_media_ingest''"
  have "tool_definition_from_manifest t = \<lparr>td_name = name, td_service = ''renovation_hub'',
      td_risk_type = (if risk = ''read'' then ''read_only'' else ''write''), td_transport = transport,
      td_requires_job_context = requires, td_idempotent_write = idempotent\<rparr>"
    by (simp add: tool_definition_from_manifest_def t str_of_def)
  moreover have "get_field t ''name'' = JStr (tool_name_of t)" by (simp add: t tool_name_of_def str_of_def)
  ultimately show ?thesis
    using ok by (cases "risk = ''read''") (simp_all add: hub_definition_ok_def read_only_tool_def)
qed

lemma td_name_from_manifest [simp]: "td_name (tool_definition_from_manifest t) = tool_name_of t"
  by (simp add: tool_definition_from_manifest_def tool_name_of_def)

lemma map_result_set:
  "map_result f xs = Inr ys \<Longrightarrow> y \<in> set ys \<Longrightarrow> \<exists>x \<in> set xs. f x = Inr y"
  by (induction xs arbitrary: ys) (auto simp: bind_result_Inr_iff)

lemma manifest_tool_names_ok:
  assumes "\<forall>t \<in> set ts. get_field t ''name'' = JStr (tool_name_of t) \<and> TOOL_NAME_RE (tool_name_of t)"
    and "distinct (seen @ map tool_name_of ts)"
  shows "manifest_tool_names (map JObj ts) seen = Inr (seen @ map tool_name_of ts)"
  using assms
proof (induction ts arbitrary: seen)
  case (Cons t ts)
  then show ?case using Cons.IH [of "seen @ [tool_name_of t]"]
    by (simp add: str_matches_def str_of_def)
qed simp

lemma get_normalized:
  "get_field (normalized_manifest revision digest tools) ''tools'' = JList (map JObj (sort_key tool_name_of tools))"
  "get_field (normalized_manifest revision digest tools) ''catalog_digest'' = JStr digest"
  "get_field (normalized_manifest revision digest tools) ''catalog_revision'' = JInt revision"
  by (simp_all add: normalized_manifest_def get_field_def)

text \<open>The result of a validation: what the router keeps and what the store can read again.\<close>

lemma validate_hub_manifest_Inr:
  assumes "validate_hub_manifest env cl v = Inr m"
  shows "definitions_ok (hm_definitions m)"
    and "manifest_names (hm_document m) = Inr (map td_name (hm_definitions m))"
    and "get_field (hm_document m) ''catalog_digest'' = JStr (hm_digest m)" and "CONVERSATION_RE (hm_digest m)"
    and "get_field (hm_document m) ''catalog_revision'' = JInt (hm_revision m)" and "1 \<le> hm_revision m"
proof -
  obtain p where v: "v = JObj p" using assms by (cases v) (simp_all add: validate_hub_manifest_def)
  from assms obtain revision digest tools normalized where
    run: "map_result (validate_tool env cl) tools = Inr normalized" "tools \<noteq> []"
      "distinct (map tool_name_of normalized)" "1 \<le> revision" "CONVERSATION_RE digest"
    and m: "m = \<lparr>hm_document = normalized_manifest revision digest normalized,
      hm_definitions = map tool_definition_from_manifest (sort_key tool_name_of normalized),
      hm_revision = revision, hm_digest = digest\<rparr>"
    by (auto simp: v validate_hub_manifest_def Let_def bind_result_Inr_iff str_matches_iff str_of_def
        split: if_splits json.splits)
  let ?sorted = "sort_key tool_name_of normalized"
  have tool: "hub_definition_ok (tool_definition_from_manifest t) \<and> get_field t ''name'' = JStr (tool_name_of t)"
    if "t \<in> set ?sorted" for t
  proof -
    from that obtain x where "validate_tool env cl x = Inr t" using map_result_set [OF run(1)] by auto
    then show ?thesis by (rule definition_of_valid_tool)
  qed
  have distinct: "distinct (map tool_name_of ?sorted)"
    using run(3) by (simp add: distinct_map)
  show "definitions_ok (hm_definitions m)"
    using tool distinct by (auto simp: m definitions_ok_def comp_def)
  have nonempty: "?sorted \<noteq> []" using map_result_length [OF run(1)] run(2) by (metis length_0_conv length_sort)
  have "manifest_tool_names (map JObj ?sorted) [] = Inr (map tool_name_of ?sorted)"
    using manifest_tool_names_ok [of ?sorted "[]"] tool distinct by (auto simp: hub_definition_ok_def)
  then show "manifest_names (hm_document m) = Inr (map td_name (hm_definitions m))"
    using nonempty by (simp add: m manifest_names_def get_normalized comp_def)
  show "get_field (hm_document m) ''catalog_digest'' = JStr (hm_digest m)" "CONVERSATION_RE (hm_digest m)"
    "get_field (hm_document m) ''catalog_revision'' = JInt (hm_revision m)" "1 \<le> hm_revision m"
    using run by (simp_all add: m get_normalized)
qed

section \<open>The built-in tools\<close>

lemma bootstrap_ok: "definitions_ok BOOTSTRAP_HUB_DEFINITIONS"
  unfolding definitions_ok_def
proof
  show "distinct (map td_name BOOTSTRAP_HUB_DEFINITIONS)" by code_simp
  have "list_all hub_definition_ok BOOTSTRAP_HUB_DEFINITIONS" by code_simp
  then show "\<forall>d \<in> set BOOTSTRAP_HUB_DEFINITIONS. hub_definition_ok d" by (simp add: list_all_iff)
qed

lemma fixed_names:
  "distinct (map td_name FIXED_DEFINITIONS)"
  "d \<in> set FIXED_DEFINITIONS \<Longrightarrow> \<not> TOOL_NAME_RE (td_name d)"
  "d \<in> set FIXED_DEFINITIONS \<Longrightarrow> td_transport d = ''json''"
proof -
  show "distinct (map td_name FIXED_DEFINITIONS)" by code_simp
  have "list_all (\<lambda>d. \<not> TOOL_NAME_RE (td_name d) \<and> td_transport d = ''json'') FIXED_DEFINITIONS" by code_simp
  then show "d \<in> set FIXED_DEFINITIONS \<Longrightarrow> \<not> TOOL_NAME_RE (td_name d)"
    "d \<in> set FIXED_DEFINITIONS \<Longrightarrow> td_transport d = ''json''" by (auto simp: list_all_iff)
qed

section \<open>The abstract policy\<close>

text \<open>What the operations may do to the policy: nothing, record one decision, or take over a manifest.\<close>

definition hub_document :: "policy_db \<Rightarrow> doc option" where
  "hub_document pd = (case pd_hub pd of None \<Rightarrow> None | Some row \<Rightarrow> hs_document row)"

definition hub_digest :: "policy_db \<Rightarrow> string option" where
  "hub_digest pd = (case pd_hub pd of None \<Rightarrow> None | Some row \<Rightarrow> hs_digest row)"

definition history_names :: "policy_db \<Rightarrow> string set" where
  "history_names pd = ht_tool_name ` set (pd_history pd)"

inductive policy_change :: "policy_db \<Rightarrow> policy_db \<Rightarrow> bool" where
  kept:
    "pd_policies pd' = pd_policies pd \<Longrightarrow> pd_catalog_revision pd' = pd_catalog_revision pd \<Longrightarrow>
     history_names pd' = history_names pd \<Longrightarrow> hub_document pd' = hub_document pd \<Longrightarrow>
     hub_digest pd' = hub_digest pd \<Longrightarrow>
     length (pd_invocations pd') \<le> max 1000 (length (pd_invocations pd)) \<Longrightarrow> policy_change pd pd'"
| decided:
    "pd_catalog_revision pd = Some n \<Longrightarrow> tp_tool_name p \<in> historical_tool_names pd \<Longrightarrow>
     tp_revision p = n + 1 \<Longrightarrow> pd_policies pd' = upsert_policy p (pd_policies pd) \<Longrightarrow>
     pd_catalog_revision pd' = Some (n + 1) \<Longrightarrow> history_names pd' = history_names pd \<Longrightarrow>
     hub_document pd' = hub_document pd \<Longrightarrow> hub_digest pd' = hub_digest pd \<Longrightarrow>
     pd_invocations pd' = pd_invocations pd \<Longrightarrow> policy_change pd pd'"
| synced:
    "pd_catalog_revision pd = Some n \<Longrightarrow> manifest_names document = Inr names \<Longrightarrow>
     hub_document pd' = Some document \<Longrightarrow> hub_digest pd' = Some digest \<Longrightarrow>
     pd_catalog_revision pd' = Some (if hub_digest pd = Some digest then n else n + 1) \<Longrightarrow>
     history_names pd' = set names \<union> history_names pd \<Longrightarrow> pd_policies pd' = pd_policies pd \<Longrightarrow>
     pd_invocations pd' = pd_invocations pd \<Longrightarrow> policy_change pd pd'"

lemma policy_same [simp, intro]: "policy_change pd pd"
  by (rule kept) simp_all

lemma history_upserted:
  "ht_tool_name ` set (fold (upsert_history now) names rows) = set names \<union> ht_tool_name ` set rows"
proof (induction names arbitrary: rows)
  case (Cons n ns)
  have "ht_tool_name ` set (upsert_history now n rows) = insert n (ht_tool_name ` set rows)"
    by (auto simp: upsert_history_def map_update_where simp del: set_map simp flip: set_map)
  then show ?case using Cons by simp
qed simp

lemma record_error_change: "policy_change pd (record_hub_manifest_error code now pd)"
  by (rule kept)
    (simp_all add: record_hub_manifest_error_def Let_def history_names_def hub_document_def hub_digest_def
      empty_hub_state_def split: option.split)

lemma apply_hub_manifest_change: "policy_change pd (snd (apply_hub_manifest document now pd))"
proof -
  obtain res pd' where run: "apply_hub_manifest document now pd = (res, pd')" by fastforce
  show ?thesis
  proof (cases res)
    case (Inl e)
    then have "pd' = pd" using run by (auto simp: apply_hub_manifest_def immediate_def split: sum.splits)
    then show ?thesis by (simp add: run)
  next
    case (Inr a)
    let ?digest = "str_of (get_field document ''catalog_digest'')"
    from Inr run obtain names hub_revision n where "manifest_names document = Inr names"
      and n: "pd_catalog_revision pd = Some n"
      and pd': "pd' = pd\<lparr>pd_hub := Some \<lparr>hs_document = Some document, hs_digest = Some ?digest,
          hs_revision = Some hub_revision, hs_synchronized_at = Some now,
          hs_error_code = None, hs_error_at = None\<rparr>,
        pd_history := fold (upsert_history now) (sort names)
          (map (\<lambda>r. r\<lparr>ht_retired := True\<rparr>) (pd_history pd)),
        pd_catalog_revision := Some (if (case pd_hub pd of None \<Rightarrow> True | Some row \<Rightarrow> hs_digest row \<noteq> Some ?digest)
          then n + 1 else n)\<rparr>"
      by (auto simp: apply_hub_manifest_def immediate_def bind_result_Inr_iff Let_def
          split: sum.splits if_splits json.splits option.splits)
    then have "policy_change pd pd'"
      by (intro synced [where document = document and names = names and digest = ?digest and n = n])
        (simp_all add: hub_document_def hub_digest_def history_names_def history_upserted image_image
          split: option.split)
    then show ?thesis by (simp add: run)
  qed
qed

lemma active_historical:
  assumes "active_tool_names pd = Inr active"
    and "names_of BOOTSTRAP_HUB_DEFINITIONS \<subseteq> history_names pd"
    and "\<And>document names. hub_document pd = Some document \<Longrightarrow> manifest_names document = Inr names \<Longrightarrow>
      set names \<subseteq> history_names pd"
  shows "active \<subseteq> historical_tool_names pd"
  using assms
  by (auto simp: active_tool_names_def load_hub_manifest_document_def bind_result_Inr_iff hub_document_def
      historical_tool_names_def history_names_def split: option.splits sum.splits) blast

section \<open>The invariant\<close>

definition policy_inv :: "policy_db \<Rightarrow> bool" where
  "policy_inv pd \<longleftrightarrow>
     (\<exists>n \<ge> 1. pd_catalog_revision pd = Some n \<and> policies_valid pd n) \<and>
     distinct (map tp_tool_name (pd_policies pd)) \<and>
     names_of BOOTSTRAP_HUB_DEFINITIONS \<subseteq> history_names pd \<and>
     (\<forall>document. hub_document pd = Some document \<longrightarrow>
        (\<exists>names. manifest_names document = Inr names \<and> set names \<subseteq> history_names pd)) \<and>
     length (pd_invocations pd) \<le> 1000"

lemma historical_names: "historical_tool_names pd = history_names pd \<union> names_of FIXED_DEFINITIONS"
  by (simp add: historical_tool_names_def history_names_def)

lemma policies_valid_mono:
  "policies_valid pd n \<Longrightarrow> pd_policies pd' = pd_policies pd \<Longrightarrow> history_names pd \<subseteq> history_names pd' \<Longrightarrow>
   n \<le> n' \<Longrightarrow> policies_valid pd' n'"
  by (fastforce simp: policies_valid_def historical_names list_all_iff)

lemma upsert_policy_set:
  "set (upsert_policy p rows) = insert p {r \<in> set rows. tp_tool_name r \<noteq> tp_tool_name p}"
proof (cases "tp_tool_name p \<in> tp_tool_name ` set rows")
  case True
  then show ?thesis by (auto simp: upsert_policy_def set_update_where)
next
  case False
  then have "{r \<in> set rows. tp_tool_name r \<noteq> tp_tool_name p} = set rows" by (auto simp: image_iff)
  with False show ?thesis by (simp add: upsert_policy_def)
qed

lemma upsert_policy_distinct:
  "distinct (map tp_tool_name rows) \<Longrightarrow> distinct (map tp_tool_name (upsert_policy p rows))"
proof -
  assume d: "distinct (map tp_tool_name rows)"
  have "map tp_tool_name (update_where (\<lambda>r. tp_tool_name r = tp_tool_name p) (\<lambda>_. p) rows) = map tp_tool_name rows"
    by (induction rows) auto
  with d show ?thesis by (auto simp: upsert_policy_def simp del: set_map simp flip: set_map)
qed

lemma policy_change_inv:
  assumes "policy_change pd pd'" and "policy_inv pd"
  shows "policy_inv pd'"
  using assms(1)
proof cases
  case kept
  then show ?thesis using assms(2)
    by (auto simp: policy_inv_def policies_valid_def historical_names)
next
  case (decided n p)
  obtain m where m: "1 \<le> m" "pd_catalog_revision pd = Some m" "policies_valid pd m"
    using assms(2) by (auto simp: policy_inv_def)
  have "policies_valid pd' (n + 1)" using m decided
    by (auto simp: policies_valid_def list_all_iff upsert_policy_set historical_names) 
  then show ?thesis using assms(2) m decided
    by (auto simp: policy_inv_def upsert_policy_distinct)
next
  case (synced n document names digest)
  obtain m where m: "1 \<le> m" "pd_catalog_revision pd = Some m" "policies_valid pd m"
    using assms(2) by (auto simp: policy_inv_def)
  let ?n = "if hub_digest pd = Some digest then n else n + 1"
  have "policies_valid pd' ?n"
    by (rule policies_valid_mono [OF m(3)]) (use m synced in auto)
  then have "\<exists>k \<ge> 1. pd_catalog_revision pd' = Some k \<and> policies_valid pd' k"
    using m synced by (intro exI [of _ ?n]) auto
  then show ?thesis using assms(2) synced by (auto simp: policy_inv_def)
qed

lemma active_names:
  assumes "policy_inv pd"
  obtains active where "active_tool_names pd = Inr active" "active \<subseteq> historical_tool_names pd"
proof -
  have "\<exists>active. active_tool_names pd = Inr active"
  proof (cases "hub_document pd")
    case None
    then show ?thesis
      by (auto simp: active_tool_names_def load_hub_manifest_document_def hub_document_def split: option.splits)
  next
    case (Some document)
    then obtain names where "manifest_names document = Inr names" using assms by (auto simp: policy_inv_def)
    with Some show ?thesis
      by (auto simp: active_tool_names_def load_hub_manifest_document_def hub_document_def split: option.splits)
  qed
  then obtain active where active: "active_tool_names pd = Inr active" by blast
  moreover have "active \<subseteq> historical_tool_names pd"
    by (rule active_historical [OF active]) (use assms in \<open>auto simp: policy_inv_def\<close>)
  ultimately show thesis by (rule that)
qed

text \<open>In such a state the snapshot is there, and it is what the policies and the catalogue say.\<close>

definition disabled_tools :: "policy_db \<Rightarrow> string set" where
  "disabled_tools pd = tp_tool_name ` {p \<in> set (pd_policies pd). \<not> tp_enabled p}"

lemma snapshot_exists:
  assumes "policy_inv pd"
  obtains n active where "pd_catalog_revision pd = Some n" "1 \<le> n" "active_tool_names pd = Inr active"
    "tool_policy_snapshot pd = Inr \<lparr>sn_revision = n, sn_enabled = active - disabled_tools pd\<rparr>"
proof -
  obtain n where n: "1 \<le> n" "pd_catalog_revision pd = Some n" "policies_valid pd n"
    using assms by (auto simp: policy_inv_def)
  obtain active where "active_tool_names pd = Inr active" using active_names [OF assms] by blast
  with n show thesis by (intro that [of n active]) (auto simp: tool_policy_snapshot_def disabled_tools_def)
qed

lemma update_tool_policy_change:
  assumes "policy_inv pd"
  shows "policy_change pd (snd (update_tool_policy env name enabled revision request_id now pd))"
proof -
  obtain active where active: "active_tool_names pd = Inr active" "active \<subseteq> historical_tool_names pd"
    using active_names [OF assms] by blast
  have body: "policy_change pd pd'"
    if "update_policy_body env name on r i now pd = Inr (resp, pd')" "name \<in> active" for on r i resp pd'
  proof (cases "select_one (\<lambda>m. am_request_id m = i) (pd_mutations pd)")
    case (Some m)
    with that(1) show ?thesis by (auto simp: update_policy_body_def Let_def split: if_splits)
  next
    case None
    with that(1) obtain n ms where "pd_catalog_revision pd = Some n"
      and pd': "pd' = pd\<lparr>pd_policies := upsert_policy \<lparr>tp_tool_name = name, tp_enabled = on,
          tp_revision = n + 1, tp_updated_at = now\<rparr> (pd_policies pd),
        pd_catalog_revision := Some (n + 1), pd_mutations := ms\<rparr>"
      by (auto simp: update_policy_body_def Let_def split: if_splits option.splits)
    moreover have "name \<in> historical_tool_names pd" using that(2) active(2) by blast
    ultimately show ?thesis
      by (intro decided [of pd n "\<lparr>tp_tool_name = name, tp_enabled = on, tp_revision = n + 1, tp_updated_at = now\<rparr>"])
        (simp_all add: pd' history_names_def hub_document_def hub_digest_def)
  qed
  show ?thesis using active(1) body
    by (auto simp: update_tool_policy_def immediate_def split: json.split sum.split)
qed

lemma record_mcp_catalog_change: "policy_change pd (snd (record_mcp_catalog revision tools now pd))"
  by (rule kept)
    (simp_all add: record_mcp_catalog_def Let_def history_names_def hub_document_def hub_digest_def
      split: json.split sum.split)

lemma record_tool_invocation_change:
  "policy_change pd (snd (record_tool_invocation name outcome code duration job turn now (db, pd)))"
  by (rule kept)
    (auto simp: record_tool_invocation_def Let_def history_names_def hub_document_def hub_digest_def)

section \<open>The router with its policy\<close>

text \<open>
  Everything that can happen to the router and the policy, in any order: synchronisations, decisions,
  reports, invocations of any outcome, the jobs that come and go, and a restart of the controller.
\<close>

inductive tool_step ::
  "pyenv \<Rightarrow> router_config \<Rightarrow> doc \<Rightarrow> string \<Rightarrow> router \<times> policy_db \<Rightarrow> router \<times> policy_db \<Rightarrow> bool" for env cfg bdoc bdigest where
  manifest_synced:
    "tool_step env cfg bdoc bdigest (r, pd) (snd (sync_hub_manifest env cfg hub_reply now r pd))"
| policy_decided:
    "tool_step env cfg bdoc bdigest (r, pd)
       (r, snd (router_update_tool_policy env r name enabled revision request_id now pd))"
| catalog_observed: "tool_step env cfg bdoc bdigest (r, pd) (r, snd (observe_catalog cfg r arguments now pd))"
| tool_invoked:
    "tool_step env cfg bdoc bdigest (r, pd)
       (r, snd (record_tool_invocation name outcome code duration job turn now (db, pd)))"
| job_begun:
    "tool_step env cfg bdoc bdigest (r, pd) (snd (begin_job job message profile key media r), pd)"
| turn_bound: "tool_step env cfg bdoc bdigest (r, pd) (snd (bind_turn job turn r), pd)"
| turn_ended: "tool_step env cfg bdoc bdigest (r, pd) (end_turn turn r, pd)"
| job_cleared: "tool_step env cfg bdoc bdigest (r, pd) (clear_job job r, pd)"
| controller_restarted:
    "tool_step env cfg bdoc bdigest (r, pd) (load_last_good_manifest env now (new_router bdoc bdigest) pd)"

definition router_inv :: "router \<Rightarrow> bool" where
  "router_inv r \<longleftrightarrow>
     definitions_ok (hm_definitions (rt_manifest r)) \<and>
     (\<forall>c. rt_context r = Some c \<longrightarrow> tc_job_id c \<noteq> [] \<and> tc_capability_profile c \<in> CAPABILITY_PROFILES)"

lemma apply_hub_manifest_failed: "apply_hub_manifest document now pd = (Inl e, pd') \<Longrightarrow> pd' = pd"
  by (auto simp: apply_hub_manifest_def immediate_def split: sum.splits)

lemma sync_hub_manifest_cases:
  assumes "sync_hub_manifest env cfg hub_reply now r pd = (res, r', pd')"
  obtains (refused) "r' = r" "pd' = pd"
  | (failed) code where "r' = r" "pd' = record_hub_manifest_error code now pd"
  | (applied) v m where "validate_hub_manifest env True v = Inr m" "r' = r\<lparr>rt_manifest := m\<rparr>"
      "pd' = snd (apply_hub_manifest (hm_document m) now pd)"
proof (cases "hub_configured cfg")
  case True
  show thesis
  proof (cases "bind_result hub_reply (validate_hub_manifest env True)")
    case (Inl e)
    with True assms show thesis
      by (cases e) (auto simp: sync_hub_manifest_def intro: failed)
  next
    case (Inr m)
    then obtain v where v: "validate_hub_manifest env True v = Inr m" by (auto simp: bind_result_Inr_iff)
    obtain out pd1 where out: "apply_hub_manifest (hm_document m) now pd = (out, pd1)" by fastforce
    show thesis
    proof (cases out)
      case (Inl e)
      then have pd1: "pd1 = pd" using out by (auto dest: apply_hub_manifest_failed)
      have "\<exists>code. r' = r \<and> pd' = record_hub_manifest_error code now pd"
        using True Inr out Inl assms by (cases e) (auto simp: sync_hub_manifest_def pd1)
      then show thesis by (auto intro: failed)
    next
      case (Inr a)
      then show thesis using True \<open>bind_result _ _ = Inr m\<close> out assms v
        by (intro applied [OF v]) (auto simp: sync_hub_manifest_def)
    qed
  qed
next
  case False
  with assms show thesis by (intro refused) (auto simp: sync_hub_manifest_def)
qed

lemma observe_catalog_change: "policy_change pd (snd (observe_catalog cfg r arguments now pd))"
  using record_mcp_catalog_change [of pd]
  by (auto simp: observe_catalog_def Let_def split: json.split prod.splits)

lemma router_update_change:
  "policy_inv pd \<Longrightarrow>
   policy_change pd (snd (router_update_tool_policy env r name enabled revision request_id now pd))"
  by (simp add: router_update_tool_policy_def update_tool_policy_change)

lemma load_last_good_change:
  "policy_change pd (snd (load_last_good_manifest env now r pd))"
  by (auto simp: load_last_good_manifest_def intro: record_error_change
      split: sum.split option.split exn.split)

lemma tool_step_change:
  assumes "tool_step env cfg bdoc bdigest s s'" and "policy_inv (snd s)"
  shows "policy_change (snd s) (snd s')"
  using assms
proof cases
  case (manifest_synced r pd hub_reply now)
  obtain res r' pd' where out: "sync_hub_manifest env cfg hub_reply now r pd = (res, r', pd')"
    by (metis prod_cases3)
  from out have "policy_change pd pd'"
    by (cases rule: sync_hub_manifest_cases) (auto intro: record_error_change apply_hub_manifest_change)
  then show ?thesis using manifest_synced out by simp
qed (auto intro: router_update_change observe_catalog_change record_tool_invocation_change load_last_good_change)

lemma clear_context_inv: "router_inv r \<Longrightarrow> router_inv (clear_context p r)"
  by (auto simp: router_inv_def clear_context_def split: option.split)

lemma begin_job_inv: "router_inv r \<Longrightarrow> router_inv (snd (begin_job job message profile key media r))"
  by (auto simp: begin_job_def router_inv_def)

lemma bind_turn_inv: "router_inv r \<Longrightarrow> router_inv (snd (bind_turn job turn r))"
  by (auto simp: bind_turn_def router_inv_def split: option.split)

lemma load_last_good_inv:
  "router_inv r \<Longrightarrow> router_inv (fst (load_last_good_manifest env now r pd))"
  by (auto simp: load_last_good_manifest_def router_inv_def validate_hub_manifest_Inr(1)
      split: sum.split option.split exn.split)

lemma new_router_inv: "router_inv (new_router bdoc bdigest)"
  by (simp add: router_inv_def new_router_def bootstrap_ok)

lemma tool_step_router:
  assumes "tool_step env cfg bdoc bdigest s s'" and "router_inv (fst s)"
  shows "router_inv (fst s')"
  using assms
proof cases
  case (manifest_synced r pd hub_reply now)
  obtain res r' pd' where out: "sync_hub_manifest env cfg hub_reply now r pd = (res, r', pd')"
    by (metis prod_cases3)
  from out have "router_inv r'" using assms(2) manifest_synced
    by (cases rule: sync_hub_manifest_cases) (auto simp: router_inv_def validate_hub_manifest_Inr(1))
  then show ?thesis using manifest_synced out by simp
next
  case (controller_restarted r pd now)
  then show ?thesis by (auto intro: load_last_good_inv new_router_inv)
qed (auto simp: end_turn_def clear_job_def clear_context_inv begin_job_inv bind_turn_inv)

lemma new_policy_inv: "policy_inv (new_policy_db now)"
  by (auto simp: policy_inv_def new_policy_db_def policies_valid_def hub_document_def empty_hub_state_def
      history_names_def names_of_def image_image)

definition tool_inv :: "router \<times> policy_db \<Rightarrow> bool" where
  "tool_inv s \<longleftrightarrow> router_inv (fst s) \<and> policy_inv (snd s)"

interpretation tool_system: inv_system "(new_router bdoc bdigest, new_policy_db now)"
  "tool_step env cfg bdoc bdigest" tool_inv for env cfg bdoc bdigest now
  by unfold_locales
    (auto simp: tool_inv_def new_router_inv new_policy_inv
      intro: tool_step_router policy_change_inv tool_step_change)

end
