(* ===== verification/Tool_Example.thy ===== *)
theory Tool_Example
  imports Tool_System Codex_Properties
begin

text \<open>
  A concrete controller for the witnesses: the Hub and Home Assistant configured, a manifest with one
  tool synchronised, and jobs of each profile.
\<close>

definition cfg_tools :: router_config where
  "cfg_tools = \<lparr>rc_ledger_base_url = ''http://hub'', rc_ledger_token = replicate 32 (CHR ''t''),
     rc_gateway_base_url = [], rc_gateway_token = [], rc_operations_base_url = [], rc_operations_token = [],
     rc_memo_base_url = [], rc_memo_http_username = [], rc_memo_http_password = [], rc_memo_api_token = [],
     rc_home_assistant_token = replicate 32 (CHR ''s'')\<rparr>"

definition show_tool :: json where
  "show_tool = JObj [(''name'', JStr ''ledger_show''), (''display_name'', JStr ''Show''),
     (''description'', JStr ''Shows''), (''risk_type'', JStr ''write''), (''transport'', JStr ''json''),
     (''exposure'', JStr ''mcp''), (''requires_job_context'', JBool False), (''idempotent_write'', JBool False),
     (''inputSchema'', JObj [(''type'', JStr ''object''), (''additionalProperties'', JBool False)]),
     (''annotations'', JObj [(''destructiveHint'', JBool True), (''idempotentHint'', JBool False),
       (''openWorldHint'', JBool False), (''readOnlyHint'', JBool False)])]"

definition show_manifest :: json where
  "show_manifest = JObj [(''version'', JInt 1), (''service'', JStr ''renovation_hub''), (''scope'', JStr ''business''),
     (''catalog_revision'', JInt 1), (''catalog_digest'', JStr (sha (CHR ''a''))), (''tools'', JList [show_tool])]"

definition show_definition :: tool_definition where
  "show_definition = \<lparr>td_name = ''ledger_show'', td_service = ''renovation_hub'', td_risk_type = ''write'',
     td_transport = ''json'', td_requires_job_context = False, td_idempotent_write = False\<rparr>"

definition show_normalized :: doc where
  "show_normalized = [(''name'', JStr ''ledger_show''), (''display_name'', JStr ''Show''),
     (''description'', JStr ''Shows''), (''risk_type'', JStr ''write''), (''transport'', JStr ''json''),
     (''exposure'', JStr ''mcp''), (''requires_job_context'', JBool False), (''idempotent_write'', JBool False),
     (''inputSchema'', JObj [(''additionalProperties'', JBool False), (''type'', JStr ''object'')]),
     (''annotations'', JObj [(''destructiveHint'', JBool True), (''idempotentHint'', JBool False),
       (''openWorldHint'', JBool False), (''readOnlyHint'', JBool False)])]"

definition show_document :: doc where
  "show_document = normalized_manifest 1 (sha (CHR ''a'')) [show_normalized]"

lemma show_tool_valid: "validate_tool env0 True show_tool = Inr show_normalized"
  by code_simp

lemma show_manifest_size:
  "int (length (canonical_json_of (float_repr env0) show_manifest)) \<le> MAX_MANIFEST_BYTES"
  by code_simp

lemma show_facts:
  "finite_json show_manifest" "tool_definition_from_manifest show_normalized = show_definition"
  "CONVERSATION_RE (sha (CHR ''a''))" "tool_name_of show_normalized = ''ledger_show''"
  "TOOL_NAME_RE ''ledger_show''" "get_field show_normalized ''name'' = JStr ''ledger_show''"
  "hub_configured cfg_tools" "prepare_car_configured cfg_tools"
  by code_simp+

lemma show_digest: "manifest_digest env0 d = sha (CHR ''a'')"
  by (simp add: manifest_digest_def sha_def)

lemma show_valid:
  "validate_hub_manifest env0 True show_manifest =
     Inr \<lparr>hm_document = show_document, hm_definitions = [show_definition], hm_revision = 1, hm_digest = sha (CHR ''a'')\<rparr>"
  using show_manifest_size show_facts(1)
  by (simp add: show_manifest_def validate_hub_manifest_def MANIFEST_KEYS_def get_field_def
      str_matches_def str_of_def show_facts MAX_TOOL_COUNT_def show_tool_valid show_digest show_document_def
      keys_of_def Let_def insert_commute)

lemma show_names: "manifest_names show_document = Inr [''ledger_show'']"
  by (simp add: show_document_def manifest_names_def get_normalized show_facts str_matches_def str_of_def)

lemma show_fields:
  "get_field show_document ''catalog_digest'' = JStr (sha (CHR ''a''))"
  "get_field show_document ''catalog_revision'' = JInt 1"
  by (simp_all add: show_document_def get_normalized)

text \<open>The controller after a synchronisation, and with a job of each kind.\<close>

definition synced0 :: "router \<times> policy_db" where
  "synced0 = snd (sync_hub_manifest env0 cfg_tools (Inr show_manifest) 5 (new_router [] []) (new_policy_db 0))"

definition tool_policy0 :: policy_db where
  "tool_policy0 = snd synced0"

definition router0 :: "string \<Rightarrow> router" where
  "router0 profile = snd (begin_job ''J1'' ''wx-1'' profile ''chat'' None (fst synced0))"

lemma synced0_facts:
  "rt_context (fst synced0) = None" "hm_definitions (rt_manifest (fst synced0)) = [show_definition]"
  "pd_catalog_revision tool_policy0 = Some 2" "pd_policies tool_policy0 = []" "pd_mutations tool_policy0 = []"
  "pd_hub tool_policy0 = Some \<lparr>hs_document = Some show_document, hs_digest = Some (sha (CHR ''a'')),
     hs_revision = Some 1, hs_synchronized_at = Some 5, hs_error_code = None, hs_error_at = None\<rparr>"
  by (simp_all add: synced0_def tool_policy0_def sync_hub_manifest_def show_facts show_valid apply_hub_manifest_def
      immediate_def show_names show_fields str_matches_def str_of_def Let_def new_policy_db_def empty_hub_state_def
      new_router_def)

lemma active0: "active_tool_names tool_policy0 = Inr ({''ledger_show''} \<union> names_of FIXED_DEFINITIONS)"
  by (simp add: active_tool_names_def load_hub_manifest_document_def synced0_facts show_names)

lemma snapshot0:
  "tool_policy_snapshot tool_policy0 = Inr \<lparr>sn_revision = 2, sn_enabled = {''ledger_show''} \<union> names_of FIXED_DEFINITIONS\<rparr>"
  by (simp add: tool_policy_snapshot_def synced0_facts active0 policies_valid_def)

lemma router0_facts:
  assumes "profile \<in> CAPABILITY_PROFILES"
  shows "rt_context (router0 profile) = Some \<lparr>tc_job_id = ''J1'', tc_message_id = ''wx-1'', tc_turn_id = [],
      tc_capability_profile = profile, tc_conversation_key = ''chat'', tc_media_archive_authorized = None\<rparr>"
    and "rt_manifest (router0 profile) = rt_manifest (fst synced0)"
  using assms by (simp_all add: router0_def begin_job_def synced0_facts)

lemma synced0_reached:
  "reach (new_router [] [], new_policy_db 0) (tool_step env0 cfg_tools [] []) (fst synced0, tool_policy0)"
proof -
  have "tool_step env0 cfg_tools [] [] (new_router [] [], new_policy_db 0) synced0"
    unfolding synced0_def by (rule manifest_synced)
  then show ?thesis using reach.intros by (metis tool_policy0_def prod.collapse)
qed

lemma router0_reached:
  "reach (new_router [] [], new_policy_db 0) (tool_step env0 cfg_tools [] []) (router0 profile, tool_policy0)"
  unfolding router0_def by (rule next_state [OF synced0_reached job_begun])

section \<open>A member's job and a tool that writes\<close>

text \<open>
  The list of what a member may call holds names: when the manifest declares one of them as a tool that
  writes, a member's job may call it.
\<close>

lemma show_found:
  "rt_manifest r = rt_manifest (fst synced0) \<Longrightarrow> tool_definition_of r ''ledger_show'' = Some show_definition"
  by (simp add: tool_definition_of_def tool_definitions_def synced0_facts show_definition_def)

lemma member_tool_by_name:
  "authorize_tool cfg_tools (router0 ''member_read_only'') tool_policy0 ''ledger_show'' = Inr show_definition \<and>
   td_risk_type show_definition = ''write''"
proof -
  have p: "''member_read_only'' \<in> CAPABILITY_PROFILES" by (simp add: CAPABILITY_PROFILES_def)
  show ?thesis
    by (simp add: authorize_tool_def show_found [OF router0_facts(2) [OF p]] router0_facts [OF p] snapshot0 configured_tools_def
        tool_definitions_def synced0_facts show_definition_def service_configured_def show_facts
        PREPARE_CAR_TOOL_NAMES_def MEMBER_ALLOWED_TOOL_NAMES_def NATURAL_QUERY_READ_ONLY_TOOLS_def)
qed

section \<open>A decision and a call\<close>

lemma tool_policy0_inv: "policy_inv tool_policy0"
  using tool_system.invariant [OF synced0_reached] by (simp add: tool_inv_def)

definition tool_policy1 :: "policy_response result \<times> policy_db" where
  "tool_policy1 = router_update_tool_policy env0 (fst synced0) ''ledger_show'' (JBool False) (JInt 2)
     (JStr ''request-1'') 6 tool_policy0"

lemma request_1: "POLICY_REQUEST_ID_RE ''request-1''"
  by code_simp

definition called0 :: "unit result \<times> controller_db" where
  "called0 = tool_call cfg_tools (router0 ''member_read_only'') (\<lambda>_ s. (Inr (), s)) ''ledger_show'' 3 9
     \<lparr>cd_jobs = codex3, cd_disk = [], cd_policy = tool_policy0\<rparr>"

end
