(* ===== verification/Tool_Properties.thy ===== *)
theory Tool_Properties
  imports Tool_Example
begin

text \<open>
  What decides which tools a job can call: the Hub can only bring tools of its own namespace, the
  policy of the owner is kept under a revision that never goes back, the tools offered to a job are
  those the check before a call lets through, and every call leaves its mark on the job.
\<close>

section \<open>The definitions\<close>

lemma find_distinct:
  "distinct (map td_name ds) \<Longrightarrow> d \<in> set ds \<Longrightarrow> find (\<lambda>x. td_name x = td_name d) ds = Some d"
  by (induction ds) (auto simp: rev_image_eqI)

lemma router_names:
  assumes "router_inv r"
  shows "distinct (map td_name (tool_definitions r))"
proof -
  have "td_name d \<noteq> td_name e" if "d \<in> set (hm_definitions (rt_manifest r))" "e \<in> set FIXED_DEFINITIONS" for d e
    using that assms fixed_names(2) [of e] by (auto simp: router_inv_def definitions_ok_def hub_definition_ok_def)
  then show ?thesis using assms fixed_names(1)
    by (auto simp: tool_definitions_def router_inv_def definitions_ok_def)
qed

text \<open>C36: Whatever manifests the Renovation Hub sends, the tools of the router have distinct names, the
  built-in tools for memos, operations and the car are always their own definitions, and every other
  tool is a well-formed tool of the Hub's namespace: a tool that only reads is plain JSON, an attachment
  needs a job and an idempotency key, and media are streamed by one tool only.\<close>

theorem tools_well_formed:
  assumes "reach (new_router bdoc bdigest, new_policy_db t) (tool_step env cfg bdoc bdigest) (r, pd)"
  shows "distinct (map td_name (tool_definitions r)) \<and>
     (\<forall>d \<in> set FIXED_DEFINITIONS. tool_definition_of r (td_name d) = Some d) \<and>
     (\<forall>d \<in> set (tool_definitions r). d \<in> set FIXED_DEFINITIONS \<or> hub_definition_ok d)"
proof -
  have inv: "router_inv r" using tool_system.invariant [OF assms] by (simp add: tool_inv_def)
  have "distinct (map td_name (tool_definitions r))" by (rule router_names [OF inv])
  moreover from find_distinct [OF this]
  have "\<forall>d \<in> set FIXED_DEFINITIONS. tool_definition_of r (td_name d) = Some d"
    by (simp add: tool_definition_of_def tool_definitions_def)
  ultimately show ?thesis using inv by (auto simp: tool_definitions_def router_inv_def definitions_ok_def)
qed

theorem tools_well_formed_witness:
  "distinct (map td_name (tool_definitions (fst synced0))) \<and>
   tool_definition_of (fst synced0) ''memo_list'' = Some (memo_tool ''memo_list'' ''read_only'') \<and>
   show_definition \<in> set (tool_definitions (fst synced0)) \<and> hub_definition_ok show_definition"
proof -
  note ok = tools_well_formed [OF synced0_reached]
  have tool: "show_definition \<in> set (tool_definitions (fst synced0))"
    by (simp add: tool_definitions_def synced0_facts)
  moreover have "show_definition \<notin> set FIXED_DEFINITIONS"
    using fixed_names(2) [of show_definition] show_facts(5) by (auto simp: show_definition_def)
  ultimately have "hub_definition_ok show_definition" using ok by blast
  moreover have "memo_tool ''memo_list'' ''read_only'' \<in> set FIXED_DEFINITIONS"
    by (simp add: FIXED_DEFINITIONS_def MEMO_DEFINITIONS_def)
  then have "tool_definition_of (fst synced0) ''memo_list'' = Some (memo_tool ''memo_list'' ''read_only'')"
    using ok by (force simp: memo_tool_def)
  ultimately show ?thesis using ok tool by blast
qed

section \<open>What is offered can be called\<close>

lemma configured_iff:
  assumes "router_inv r"
  shows "name \<in> configured_tools cfg r \<longleftrightarrow> (\<exists>d. tool_definition_of r name = Some d \<and> service_configured cfg d)"
proof -
  have "tool_definition_of r name = Some d \<longleftrightarrow> d \<in> set (tool_definitions r) \<and> td_name d = name" for d
    using find_distinct [OF router_names [OF assms], of d]
    by (auto simp: tool_definition_of_def find_Some_iff dest: nth_mem)
  then show ?thesis by (auto simp: configured_tools_def)
qed

lemma media_tool:
  assumes "router_inv r" and "tool_definition_of r name = Some d" and "td_transport d = ''gateway_media_stream''"
  shows "name = ''renovation_media_ingest''"
proof -
  have d: "d \<in> set (tool_definitions r)" "td_name d = name"
    using assms(2) by (auto simp: tool_definition_of_def find_Some_iff)
  then have "d \<notin> set FIXED_DEFINITIONS" using fixed_names(3) [of d] assms(3) by auto
  then have "hub_definition_ok d" using d assms(1) by (auto simp: tool_definitions_def router_inv_def definitions_ok_def)
  then show ?thesis using assms(3) d by (simp add: hub_definition_ok_def)
qed

lemma authorize_tool_Inr:
  "(\<exists>d. authorize_tool cfg r pd name = Inr d) \<longleftrightarrow>
     (\<exists>d s. tool_definition_of r name = Some d \<and> tool_policy_snapshot pd = Inr s \<and> name \<in> sn_enabled s \<and>
        name \<in> configured_tools cfg r \<and>
        (name \<in> PREPARE_CAR_TOOL_NAMES \<longrightarrow> map_option tc_capability_profile (rt_context r) = Some ''owner'') \<and>
        (map_option tc_capability_profile (rt_context r) = Some ''member_read_only''
           \<longrightarrow> name \<in> MEMBER_ALLOWED_TOOL_NAMES) \<and>
        (td_requires_job_context d \<longrightarrow> rt_context r \<noteq> None) \<and>
        \<not> (td_transport d = ''gateway_media_stream'' \<and>
           (\<exists>c. rt_context r = Some c \<and> tc_media_archive_authorized c = Some False)))"
  by (auto simp: authorize_tool_def Let_def split: option.splits sum.splits)

lemma member_not_car: "MEMBER_ALLOWED_TOOL_NAMES \<inter> PREPARE_CAR_TOOL_NAMES = {}"
  by (simp add: MEMBER_ALLOWED_TOOL_NAMES_def NATURAL_QUERY_READ_ONLY_TOOLS_def PREPARE_CAR_TOOL_NAMES_def)

text \<open>C37: In every reachable state, the list of tools offered to a job and the check before a call agree: a
  tool is on the list of the job's profile exactly when its call would be let through, but for the one
  tool that archives media, which is never offered to a job that was not asked to archive.\<close>

theorem tools_offered_are_callable:
  assumes "reach (new_router bdoc bdigest, new_policy_db t) (tool_step env cfg bdoc bdigest) (r, pd)"
    and "rt_context r = Some c"
  shows "name \<in> set (available_tools cfg r pd (Some (tc_capability_profile c)) (tc_media_archive_authorized c)) \<longleftrightarrow>
     (\<exists>d. authorize_tool cfg r pd name = Inr d) \<and>
     \<not> (name = ''renovation_media_ingest'' \<and> tc_media_archive_authorized c = Some False)"
proof -
  have inv: "router_inv r" "policy_inv pd" using tool_system.invariant [OF assms(1)] by (auto simp: tool_inv_def)
  then have profile: "tc_capability_profile c \<in> {''owner_legacy'', ''owner'', ''member_read_only''}"
    using assms(2) by (auto simp: router_inv_def CAPABILITY_PROFILES_def)
  obtain n active where snapshot: "tool_policy_snapshot pd = Inr \<lparr>sn_revision = n, sn_enabled = active - disabled_tools pd\<rparr>"
    using snapshot_exists [OF inv(2)] by metis
  have fin: "finite (profile_tools p (configured_tools cfg r \<inter> A))" for p A
    by (simp add: profile_tools_def configured_tools_def)
  have offered: "name \<in> set (available_tools cfg r pd (Some (tc_capability_profile c)) (tc_media_archive_authorized c)) \<longleftrightarrow>
      name \<in> profile_tools (Some (tc_capability_profile c)) (configured_tools cfg r \<inter> (active - disabled_tools pd)) \<and>
      \<not> (name = ''renovation_media_ingest'' \<and> tc_media_archive_authorized c = Some False)"
    using fin by (auto simp: available_tools_def snapshot Let_def)
  show ?thesis
  proof (cases "name \<in> configured_tools cfg r \<inter> (active - disabled_tools pd)")
    case False
    then show ?thesis unfolding offered authorize_tool_Inr
      by (auto simp: snapshot profile_tools_def)
  next
    case True
    then obtain d where d: "tool_definition_of r name = Some d" using configured_iff [OF inv(1)] by auto
    have "name \<in> profile_tools (Some (tc_capability_profile c)) (configured_tools cfg r \<inter> (active - disabled_tools pd)) \<longleftrightarrow>
        (name \<in> PREPARE_CAR_TOOL_NAMES \<longrightarrow> tc_capability_profile c = ''owner'') \<and>
        (tc_capability_profile c = ''member_read_only'' \<longrightarrow> name \<in> MEMBER_ALLOWED_TOOL_NAMES)"
      using True profile member_not_car by (auto simp: profile_tools_def)
    then show ?thesis unfolding offered authorize_tool_Inr
      using True d media_tool [OF inv(1) d] by (auto simp: snapshot assms(2))
  qed
qed

theorem tools_offered_are_callable_witness:
  "''ledger_show'' \<in> set (available_tools cfg_tools (router0 ''member_read_only'') tool_policy0 (Some ''member_read_only'') None)"
  using tools_offered_are_callable [OF router0_reached router0_facts(1), of "''member_read_only''" "''ledger_show''"]
    member_tool_by_name
  by (auto simp: CAPABILITY_PROFILES_def)

section \<open>The revision of the policy\<close>






section \<open>Decisions of the owner\<close>

lemma disabled_upserted:
  "tp_tool_name ` {p \<in> set (upsert_policy q rows). \<not> tp_enabled p} =
     (if tp_enabled q then tp_tool_name ` {p \<in> set rows. \<not> tp_enabled p} - {tp_tool_name q}
      else insert (tp_tool_name q) (tp_tool_name ` {p \<in> set rows. \<not> tp_enabled p}))"
  by (auto simp: upsert_policy_set image_iff)

lemma update_fresh:
  assumes "policy_inv pd" and "pd_catalog_revision pd = Some n" and "active_tool_names pd = Inr active"
    and "\<forall>m \<in> set (pd_mutations pd). am_request_id m \<noteq> request_id"
    and "update_tool_policy env name (JBool on) (JInt revision) (JStr request_id) now pd = (res, pd')"
  obtains (refused) e where "res = Inl e" "pd' = pd" "\<not> (name \<in> active \<and> revision = n \<and> POLICY_REQUEST_ID_RE request_id)"
  | (accepted) "name \<in> active" "revision = n" "POLICY_REQUEST_ID_RE request_id"
      "res = Inr \<lparr>pr_tool_name = name, pr_enabled = on, pr_revision = n + 1, pr_request_id = request_id\<rparr>"
      "pd' = pd\<lparr>pd_policies := upsert_policy \<lparr>tp_tool_name = name, tp_enabled = on,
           tp_revision = n + 1, tp_updated_at = now\<rparr> (pd_policies pd),
         pd_catalog_revision := Some (n + 1), pd_mutations := insert_row \<lparr>am_request_id = request_id,
           am_scope = ''tool_policy:'' @ name,
           am_request_digest = policy_request_digest env name on revision,
           am_response = \<lparr>pr_tool_name = name, pr_enabled = on, pr_revision = n + 1, pr_request_id = request_id\<rparr>,
           am_created_at = now\<rparr> (pd_mutations pd)\<rparr>"
proof -
  have none: "select_one (\<lambda>m. am_request_id m = request_id) (pd_mutations pd) = None"
    using assms(4) by (simp add: select_one_None_iff)
  have n: "1 \<le> n" "policies_valid pd n" using assms(1,2) by (auto simp: policy_inv_def)
  show thesis
  proof (cases "name \<in> active \<and> revision = n \<and> POLICY_REQUEST_ID_RE request_id")
    case True
    then show thesis using accepted assms(2,3,5) none n
      by (auto simp: update_tool_policy_def update_policy_body_def immediate_def Let_def str_matches_def str_of_def)
  next
    case False
    then have "\<exists>e. res = Inl e \<and> pd' = pd" using assms(2,3,5) none n
      by (auto simp: update_tool_policy_def update_policy_body_def immediate_def Let_def str_matches_def
          str_of_def codex_error_def split: if_splits)
    then show thesis using refused False by blast
  qed
qed

lemma snapshot_of:
  assumes "policy_inv pd" and "pd_catalog_revision pd = Some n" and "active_tool_names pd = Inr active"
  shows "tool_policy_snapshot pd = Inr \<lparr>sn_revision = n, sn_enabled = active - disabled_tools pd\<rparr>"
  by (rule snapshot_exists [OF assms(1)]) (use assms(2,3) in simp)

lemma snapshot_is:
  assumes "policy_inv pd" and "active_tool_names pd = Inr active"
    and "tool_policy_snapshot pd = Inr \<lparr>sn_revision = n, sn_enabled = E\<rparr>"
  shows "pd_catalog_revision pd = Some n" and "E = active - disabled_tools pd"
  by (rule snapshot_exists [OF assms(1)], use assms(2,3) in simp)+

lemma update_repeated:
  assumes "active_tool_names pd = Inr active" and "name \<in> active" and "POLICY_REQUEST_ID_RE request_id" and "1 \<le> revision"
    and "pd_mutations pd = insert_row m ms" and "\<forall>m \<in> set ms. am_request_id m \<noteq> request_id"
    and "am_request_id m = request_id" and "am_request_digest m = policy_request_digest env name on revision"
  shows "update_tool_policy env name (JBool on) (JInt revision) (JStr request_id) now pd = (Inr (am_response m), pd)"
proof -
  have "select_one (\<lambda>m. am_request_id m = request_id) ms = None"
    using assms(6) by (simp add: select_one_None_iff)
  then have "select_one (\<lambda>m. am_request_id m = request_id) (pd_mutations pd) = Some m"
    using assms(5,7) by (simp add: insert_row_def)
  then show ?thesis using assms
    by (simp add: update_tool_policy_def update_policy_body_def immediate_def Let_def str_matches_def str_of_def)
qed

lemma active_kept:
  "pd_hub pd' = pd_hub pd \<Longrightarrow> active_tool_names pd' = active_tool_names pd"
  by (simp add: active_tool_names_def load_hub_manifest_document_def)


text \<open>C39: A decision of the owner is accepted exactly when the tool is in the catalogue and the decision was
  taken on the current revision.  It then changes that tool and nothing else, under the next revision,
  and is answered the same way when it is repeated, although its revision is no longer the current one;
  otherwise it is refused and nothing changes.\<close>

theorem policy_decision:
  assumes "reach (new_router bdoc bdigest, new_policy_db t) (tool_step env cfg bdoc bdigest) (r, pd)"
    and "tool_policy_snapshot pd = Inr \<lparr>sn_revision = n, sn_enabled = E\<rparr>" and "active_tool_names pd = Inr active"
    and "\<forall>m \<in> set (pd_mutations pd). am_request_id m \<noteq> request_id"
    and "router_update_tool_policy env r name (JBool on) (JInt revision) (JStr request_id) now pd = (res, pd')"
  shows "if tool_definition_of r name \<noteq> None \<and> name \<in> active \<and> revision = n \<and> POLICY_REQUEST_ID_RE request_id
     then tool_policy_snapshot pd' =
         Inr \<lparr>sn_revision = n + 1, sn_enabled = if on then insert name E else E - {name}\<rparr> \<and>
       res = Inr \<lparr>pr_tool_name = name, pr_enabled = on, pr_revision = n + 1, pr_request_id = request_id\<rparr> \<and>
       router_update_tool_policy env r name (JBool on) (JInt revision) (JStr request_id) later pd' = (res, pd')
     else (\<exists>e. res = Inl e) \<and> pd' = pd"
proof -
  have inv: "policy_inv pd" using tool_system.invariant [OF assms(1)] by (simp add: tool_inv_def)
  note E = snapshot_is [OF inv assms(3,2)]
  show ?thesis
  proof (cases "tool_definition_of r name = None")
    case True
    then show ?thesis using assms(5) by (auto simp: router_update_tool_policy_def codex_error_def)
  next
    case False
    then have run: "update_tool_policy env name (JBool on) (JInt revision) (JStr request_id) now pd = (res, pd')"
      using assms(5) by (simp add: router_update_tool_policy_def False)
    from inv E(1) assms(3,4) run show ?thesis
    proof (cases rule: update_fresh)
      case (refused e)
      then show ?thesis using False by auto
    next
      case accepted
      have inv': "policy_inv pd'"
        using policy_change_inv [OF update_tool_policy_change [OF inv] inv] run by (metis snd_conv)
      have active': "active_tool_names pd' = Inr active"
        using assms(3) using active_kept [of pd' pd] by (simp add: accepted(5))
      have revision': "pd_catalog_revision pd' = Some (n + 1)" by (simp add: accepted(5))
      have "active - disabled_tools pd' = (if on then insert name E else E - {name})"
        using accepted(1) by (auto simp: E(2) disabled_tools_def accepted(5) disabled_upserted)
      then have "tool_policy_snapshot pd' =
          Inr \<lparr>sn_revision = n + 1, sn_enabled = if on then insert name E else E - {name}\<rparr>"
        using snapshot_of [OF inv' revision' active'] by simp
      moreover define m where "m = last (pd_mutations pd')"
      have m: "pd_mutations pd' = insert_row m (pd_mutations pd)" "am_request_id m = request_id"
          "am_request_digest m = policy_request_digest env name on revision" "res = Inr (am_response m)"
        by (simp_all add: m_def accepted(4,5) insert_row_def)
      have "update_tool_policy env name (JBool on) (JInt revision) (JStr request_id) later pd' = (res, pd')"
        using update_repeated [OF active' accepted(1,3) _ m(1) assms(4) m(2,3)] inv E(1)
        by (simp add: accepted(2) m(4) policy_inv_def)
      ultimately show ?thesis using accepted(1-4) by (simp add: router_update_tool_policy_def False)
    qed
  qed
qed

theorem policy_decision_witness:
  "tool_policy_snapshot (snd tool_policy1) =
     Inr \<lparr>sn_revision = 3, sn_enabled = {''ledger_show''} \<union> names_of FIXED_DEFINITIONS - {''ledger_show''}\<rparr>"
proof -
  have run: "router_update_tool_policy env0 (fst synced0) ''ledger_show'' (JBool False) (JInt 2)
     (JStr ''request-1'') 6 tool_policy0 = (fst tool_policy1, snd tool_policy1)" by (simp add: tool_policy1_def)
  show ?thesis
    using policy_decision [OF synced0_reached snapshot0 active0 _ run, of 7]
    by (simp add: show_found request_1 synced0_facts)
qed

section \<open>Calls and the jobs they belong to\<close>









end
